(* ===== verification/Prelude.thy ===== *)
theory Prelude
  imports Main "HOL-Library.State_Monad" "HOL-Library.Word"
begin

text \<open>
  What every component of the development shares.

  \<^item> A small weakest-precondition calculus over the state monad of the library
    (\<open>wp\<close>, collection \<open>wp_simps\<close>) and the lifting of a reflexive and transitive relation
    from single calls to whole handlers (\<open>state_io_rel\<close> of the library, collection
    \<open>rel_intros\<close>).
  \<^item> The string operations of the code's string classes that the sources use: position of a
    character, prefix and rest, prefix and suffix tests, removal of a suffix.
  \<^item> Machine words at the widths of the code.
\<close>

unbundle bit_operations_syntax

type_synonym byte = "8 word"
type_synonym u16 = "16 word"
type_synonym u32 = "32 word"
type_synonym u64 = "64 word"

named_theorems wp_simps
named_theorems rel_intros

subsection \<open>Weakest preconditions\<close>

definition wp :: "('s, 'a) state \<Rightarrow> ('a \<Rightarrow> 's \<Rightarrow> bool) \<Rightarrow> 's \<Rightarrow> bool" where
  "wp m Q s = (case run_state m s of (a, s') \<Rightarrow> Q a s')"

lemma wp_return [wp_simps]: "wp (State_Monad.return a) Q s = Q a s"
  by (simp add: wp_def)

lemma wp_bind [wp_simps]: "wp (State_Monad.bind m f) Q s = wp m (\<lambda>a. wp (f a) Q) s"
  by (simp add: wp_def split: prod.splits)

lemma wp_get [wp_simps]: "wp State_Monad.get Q s = Q s s"
  by (simp add: wp_def)

lemma wp_set [wp_simps]: "wp (State_Monad.set t) Q s = Q () t"
  by (simp add: wp_def)

lemma wp_update [wp_simps]: "wp (State_Monad.update f) Q s = Q () (f s)"
  by (simp add: wp_def State_Monad.update_def)

lemma wp_if [wp_simps]: "wp (if b then m else n) Q s = (if b then wp m Q s else wp n Q s)"
  by simp

lemma wp_case_option [wp_simps]:
  "wp (case x of None \<Rightarrow> m | Some y \<Rightarrow> f y) Q s
     = (case x of None \<Rightarrow> wp m Q s | Some y \<Rightarrow> wp (f y) Q s)"
  by (simp split: option.splits)

lemma wp_case_sum [wp_simps]:
  "wp (case x of Inl e \<Rightarrow> f e | Inr y \<Rightarrow> g y) Q s
     = (case x of Inl e \<Rightarrow> wp (f e) Q s | Inr y \<Rightarrow> wp (g y) Q s)"
  by (simp split: sum.splits)

lemma wp_case_prod [wp_simps]:
  "wp (case x of (a, b) \<Rightarrow> f a b) Q s = (case x of (a, b) \<Rightarrow> wp (f a b) Q s)"
  by (simp split: prod.splits)

lemma wp_mono: "wp m P s \<Longrightarrow> (\<And>a t. P a t \<Longrightarrow> Q a t) \<Longrightarrow> wp m Q s"
  by (simp add: wp_def split: prod.splits)

lemma wp_run: "wp m Q s \<Longrightarrow> run_state m s = (a, t) \<Longrightarrow> Q a t"
  by (simp add: wp_def)

lemma wpI: "(\<And>a t. run_state m s = (a, t) \<Longrightarrow> Q a t) \<Longrightarrow> wp m Q s"
  by (simp add: wp_def split: prod.splits)

subsection \<open>Relations that whole handlers respect\<close>

text \<open>
  \<open>state_io_rel R m\<close> says that \<open>m\<close> takes every state to a state related by \<open>R\<close>. A reflexive and
  transitive \<open>R\<close> (the log only grows, a field is never written) passes from the calls to the
  handlers made of them by the rules below.
\<close>

lemma rel_return [rel_intros]: "reflp R \<Longrightarrow> state_io_rel R (State_Monad.return a)"
  by (simp add: state_io_rel_def reflpD)

lemma rel_bind [rel_intros]:
  assumes "transp R" "state_io_rel R m" "\<And>a. state_io_rel R (f a)"
  shows "state_io_rel R (State_Monad.bind m f)"
  using assms unfolding state_io_rel_def by (auto split: prod.splits dest: transpD) (metis snd_conv transpD)

lemma rel_get [rel_intros]: "reflp R \<Longrightarrow> state_io_rel R State_Monad.get"
  by (simp add: state_io_rel_def reflpD)

lemma rel_update: "(\<And>s. R s (f s)) \<Longrightarrow> state_io_rel R (State_Monad.update f)"
  by (simp add: state_io_rel_def State_Monad.update_def)

lemma rel_if [rel_intros]:
  "(b \<Longrightarrow> state_io_rel R m) \<Longrightarrow> (\<not> b \<Longrightarrow> state_io_rel R n) \<Longrightarrow> state_io_rel R (if b then m else n)"
  by simp

lemma rel_let [rel_intros]: "(\<And>x. state_io_rel R (f x)) \<Longrightarrow> state_io_rel R (let x = t in f x)"
  by simp

lemma rel_case_option [rel_intros]:
  "state_io_rel R m \<Longrightarrow> (\<And>y. state_io_rel R (f y)) \<Longrightarrow>
   state_io_rel R (case x of None \<Rightarrow> m | Some y \<Rightarrow> f y)"
  by (simp split: option.splits)

lemma rel_case_sum [rel_intros]:
  "(\<And>e. state_io_rel R (f e)) \<Longrightarrow> (\<And>y. state_io_rel R (g y)) \<Longrightarrow>
   state_io_rel R (case x of Inl e \<Rightarrow> f e | Inr y \<Rightarrow> g y)"
  by (simp split: sum.splits)

lemma rel_case_prod [rel_intros]:
  "(\<And>a b. state_io_rel R (f a b)) \<Longrightarrow> state_io_rel R (case x of (a, b) \<Rightarrow> f a b)"
  by (simp split: prod.splits)

subsection \<open>Strings\<close>

fun index_from :: "nat \<Rightarrow> char \<Rightarrow> string \<Rightarrow> int" where
  "index_from n c [] = -1"
| "index_from n c (x # xs) = (if x = c then int n else index_from (Suc n) c xs)"

definition index_of :: "char \<Rightarrow> string \<Rightarrow> int" where
  "index_of c s = index_from 0 c s"

definition starts_with :: "string \<Rightarrow> string \<Rightarrow> bool" where
  "starts_with p s = (take (length p) s = p)"

definition ends_with :: "string \<Rightarrow> string \<Rightarrow> bool" where
  "ends_with p s = (length p \<le> length s \<and> drop (length s - length p) s = p)"

definition chop :: "nat \<Rightarrow> string \<Rightarrow> string" where
  "chop n s = take (length s - n) s"

text \<open>\<open>indexOf\<close> from a position on, \<open>mid\<close>, and a character past the end, which is taken as NUL.\<close>

definition index_of_from :: "char \<Rightarrow> nat \<Rightarrow> string \<Rightarrow> int" where
  "index_of_from c n s = (let j = index_of c (drop n s) in if j < 0 then -1 else j + int n)"

definition mid :: "nat \<Rightarrow> nat \<Rightarrow> string \<Rightarrow> string" where
  "mid p n s = take n (drop p s)"

definition char_at :: "string \<Rightarrow> nat \<Rightarrow> char" where
  "char_at s i = (if i < length s then s ! i else CHR 0x00)"

lemma index_from_range:
  "index_from n c s = -1 \<or> (int n \<le> index_from n c s \<and> index_from n c s < int (n + length s))"
  by (induction n c s rule: index_from.induct) auto

lemma index_from_not_in: "c \<notin> set s \<Longrightarrow> index_from n c s = -1"
  by (induction n c s rule: index_from.induct) auto

lemma index_from_append:
  "c \<notin> set p \<Longrightarrow> index_from n c (p @ c # r) = int (n + length p)"
  by (induction p arbitrary: n) auto

lemma index_of_append: "c \<notin> set p \<Longrightarrow> index_of c (p @ c # r) = int (length p)"
  by (simp add: index_of_def index_from_append)

lemma index_of_not_in: "c \<notin> set s \<Longrightarrow> index_of c s = -1"
  by (simp add: index_of_def index_from_not_in)

lemma index_of_less: "index_of c s < int (length s)"
  using index_from_range[of 0 c s] by (auto simp: index_of_def)

lemma index_of_ge: "-1 \<le> index_of c s"
  using index_from_range[of 0 c s] by (auto simp: index_of_def)

lemma starts_with_append [simp]: "starts_with p (p @ s)"
  by (simp add: starts_with_def)

lemma ends_with_append [simp]: "ends_with p (s @ p)"
  by (simp add: ends_with_def)

lemma chop_append [simp]: "chop (length p) (s @ p) = s"
  by (simp add: chop_def)

end
