(* ===== verification/Kio.thy ===== *)
theory Kio
  imports Prelude
begin

text \<open>
  The vocabulary of a KIO worker: the error codes the workers return, the result of a handler,
  the job flags, the messages a handler sends to the application, the POSIX error numbers and
  mode bits that the handlers look at. All of it is interface of the KIO library and of POSIX
  as the sources under src/ name it; the behaviour is in the component theories.
\<close>

datatype (plugins only: code) kio_error =
    ERR_ACCESS_DENIED | ERR_WRITE_ACCESS_DENIED | ERR_DOES_NOT_EXIST | ERR_IS_DIRECTORY
  | ERR_IS_FILE | ERR_FILE_ALREADY_EXIST | ERR_DIR_ALREADY_EXIST | ERR_CANNOT_OPEN_FOR_READING
  | ERR_CANNOT_OPEN_FOR_WRITING | ERR_CANNOT_READ | ERR_CANNOT_WRITE | ERR_CANNOT_SEEK
  | ERR_CANNOT_TRUNCATE | ERR_CANNOT_RESUME | ERR_CANNOT_RENAME | ERR_CANNOT_RENAME_PARTIAL
  | ERR_CANNOT_RENAME_ORIGINAL | ERR_CANNOT_DELETE | ERR_CANNOT_DELETE_PARTIAL | ERR_CANNOT_RMDIR
  | ERR_CANNOT_MKDIR | ERR_CANNOT_CHMOD | ERR_CANNOT_CHOWN | ERR_CANNOT_STAT | ERR_CANNOT_SYMLINK
  | ERR_CANNOT_LINK | ERR_CANNOT_ENTER_DIRECTORY | ERR_CANNOT_CONNECT | ERR_CONNECTION_BROKEN
  | ERR_CANNOT_LOGIN | ERR_CANNOT_AUTHENTICATE | ERR_SERVER_TIMEOUT | ERR_OUT_OF_MEMORY
  | ERR_INTERNAL | ERR_INTERNAL_SERVER | ERR_MALFORMED_URL | ERR_UNSUPPORTED_ACTION
  | ERR_UNSUPPORTED_PROTOCOL | ERR_USER_CANCELED | ERR_UNKNOWN_HOST | ERR_WORKER_DEFINED
  | ERR_DISK_FULL | ERR_UNKNOWN | ERR_UNKNOWN_INTERRUPT | ERR_NO_CONTENT
  | ERR_CANNOT_CREATE_WORKER | ERR_CYCLIC_LINK | ERR_WORKER_DIED | ERR_CANNOT_MOUNT

text \<open>\<open>WorkerResult\<close>: \<open>pass()\<close>, or \<open>fail(code, text)\<close>.\<close>

datatype worker_result = Pass | Fail kio_error string

definition success :: "worker_result \<Rightarrow> bool" where
  "success r = (r = Pass)"

lemma success_simps [simp]: "success Pass" "\<not> success (Fail e t)"
  by (simp_all add: success_def)

lemma not_success_conv: "\<not> success r \<longleftrightarrow> (\<exists>e t. r = Fail e t)"
  by (cases r) auto

text \<open>The two job flags that the workers test.\<close>

record job_flags =
  fl_overwrite :: bool
  fl_resume :: bool

text \<open>POSIX error numbers by name; \<open>E_OK\<close> is 0, and \<open>E_other\<close> every number without a name here.\<close>

datatype errno =
    E_OK | EPERM | ENOENT | EIO | EBADF | ENOMEM | EACCES | EFAULT | EEXIST | ENODEV | ENOTDIR
  | EISDIR | EINVAL | ENOTEMPTY | ETIMEDOUT | ECONNREFUSED | ECONNABORTED | EHOSTDOWN
  | EHOSTUNREACH | ENETUNREACH | ENOMEDIUM | ENOTUNIQ | ENOSPC | ELOOP | EINTR | EAGAIN | EPIPE
  | E_other int

subsection \<open>Mode bits\<close>

type_synonym mode_t = u32

definition S_IFMT :: mode_t where "S_IFMT = 0xF000"
definition S_IFDIR :: mode_t where "S_IFDIR = 0x4000"
definition S_IFREG :: mode_t where "S_IFREG = 0x8000"
definition S_IFLNK :: mode_t where "S_IFLNK = 0xA000"
definition S_IRUSR :: mode_t where "S_IRUSR = 0x100"
definition S_IWUSR :: mode_t where "S_IWUSR = 0x80"
definition S_IXUSR :: mode_t where "S_IXUSR = 0x40"
definition S_IXOTH :: mode_t where "S_IXOTH = 0x1"

definition S_ISDIR :: "mode_t \<Rightarrow> bool" where
  "S_ISDIR m = (m AND S_IFMT = S_IFDIR)"

definition S_ISREG :: "mode_t \<Rightarrow> bool" where
  "S_ISREG m = (m AND S_IFMT = S_IFREG)"

definition S_ISLNK :: "mode_t \<Rightarrow> bool" where
  "S_ISLNK m = (m AND S_IFMT = S_IFLNK)"

lemmas mode_defs = S_IFMT_def S_IFDIR_def S_IFREG_def S_IFLNK_def S_IRUSR_def S_IWUSR_def
  S_IXUSR_def S_IXOTH_def S_ISDIR_def S_ISREG_def S_ISLNK_def

lemma dir_not_reg: "S_ISDIR m \<Longrightarrow> \<not> S_ISREG m"
  by (auto simp: mode_defs)

text \<open>The fields of \<open>struct stat\<close> that the handlers read.\<close>

record stat_t =
  st_mode :: mode_t
  st_size :: int
  st_ino :: u64
  st_dev :: u64
  st_mtime :: int
  st_atime :: int

text \<open>\<open>KIO::filesize_t\<close> is an unsigned 64-bit number; a signed size converts by wrapping.\<close>

type_synonym filesize = u64

text \<open>Fields of a directory entry (\<open>UDSEntry\<close>), in the order of insertion.\<close>

datatype uds_field =
    UDS_NAME string | UDS_DISPLAY_NAME string | UDS_FILE_TYPE mode_t | UDS_SIZE int
  | UDS_MODIFICATION_TIME int | UDS_ACCESS_TIME int | UDS_ACCESS mode_t | UDS_HIDDEN bool
  | UDS_LINK_DEST string | UDS_USER string | UDS_GROUP string | UDS_URL string
  | UDS_MIME_TYPE string | UDS_ICON_NAME string | UDS_LOCAL_USER_ID int | UDS_LOCAL_GROUP_ID int
  | UDS_COMMENT string | UDS_CREATION_TIME int | UDS_RECURSIVE_SIZE int | UDS_TARGET_URL string
  | UDS_LOCAL_PATH string | UDS_ICON_OVERLAY_NAMES string | UDS_DISPLAY_TYPE string | UDS_INODE int

type_synonym uds = "uds_field list"

text \<open>\<open>UDSEntry::replace\<close>: a field that is there gets the new value, another one is added.\<close>

fun uds_key :: "uds_field \<Rightarrow> nat" where
  "uds_key (UDS_NAME _) = 0"
| "uds_key (UDS_DISPLAY_NAME _) = 1"
| "uds_key (UDS_FILE_TYPE _) = 2"
| "uds_key (UDS_SIZE _) = 3"
| "uds_key (UDS_MODIFICATION_TIME _) = 4"
| "uds_key (UDS_ACCESS_TIME _) = 5"
| "uds_key (UDS_ACCESS _) = 6"
| "uds_key (UDS_HIDDEN _) = 7"
| "uds_key (UDS_LINK_DEST _) = 8"
| "uds_key (UDS_USER _) = 9"
| "uds_key (UDS_GROUP _) = 10"
| "uds_key (UDS_URL _) = 11"
| "uds_key (UDS_MIME_TYPE _) = 12"
| "uds_key (UDS_ICON_NAME _) = 13"
| "uds_key (UDS_LOCAL_USER_ID _) = 14"
| "uds_key (UDS_LOCAL_GROUP_ID _) = 15"
| "uds_key (UDS_COMMENT _) = 16"
| "uds_key (UDS_CREATION_TIME _) = 17"
| "uds_key (UDS_RECURSIVE_SIZE _) = 18"
| "uds_key (UDS_TARGET_URL _) = 19"
| "uds_key (UDS_LOCAL_PATH _) = 20"
| "uds_key (UDS_ICON_OVERLAY_NAMES _) = 21"
| "uds_key (UDS_DISPLAY_TYPE _) = 22"
| "uds_key (UDS_INODE _) = 23"

fun uds_replace :: "uds_field \<Rightarrow> uds \<Rightarrow> uds" where
  "uds_replace f [] = [f]"
| "uds_replace f (g # e) = (if uds_key g = uds_key f then f # e else g # uds_replace f e)"

end
