(* ===== verification/QtUrl.thy ===== *)
theory QtUrl
  imports Kio
begin

text \<open>
  What the workers use of Qt's URLs. A \<open>QUrl\<close> is the record of its components, with the query as
  the list of its items. The functions of Qt that work on the text of a URL or of a path are the
  parameter \<open>qt\<close>: cleaning a path, writing a URL, the text of an IPv6 host.
\<close>

record qurl =
  scheme :: string
  userName :: string
  password :: string
  host :: string
  port :: int
  path :: string
  query :: "(string \<times> string) list"
  fragment :: string

text \<open>
  Qt: \<open>cleanPath\<close> is \<open>QDir::cleanPath\<close>, \<open>urlText\<close> and \<open>prettyText\<close> are \<open>QUrl::url()\<close> and
  \<open>toString(PrettyDecoded)\<close>, \<open>displayText\<close> is \<open>toDisplayString\<close>, \<open>parseUrl\<close> the constructor from
  text, \<open>ipv6Text\<close> gives the text of a host that is an IPv6 address (\<open>QHostAddress\<close>) and None for
  any other, \<open>upUrl\<close> is \<open>KIO::upUrl\<close>, \<open>numberText\<close> is \<open>QString::number\<close>; two texts are equal
  without regard to case when \<open>foldCase\<close> makes them equal.
\<close>

record qt =
  cleanPath :: "string \<Rightarrow> string"
  urlText :: "qurl \<Rightarrow> string"
  prettyText :: "qurl \<Rightarrow> string"
  displayText :: "qurl \<Rightarrow> string"
  parseUrl :: "string \<Rightarrow> qurl"
  ipv6Text :: "string \<Rightarrow> string option"
  upUrl :: "qurl \<Rightarrow> qurl"
  numberText :: "int \<Rightarrow> string"
  foldCase :: "string \<Rightarrow> string"

definition fileName :: "qurl \<Rightarrow> string" where
  "fileName u = rev (takeWhile (\<lambda>c. c \<noteq> CHR ''/'') (rev (path u)))"

definition queryItemValue :: "string \<Rightarrow> (string \<times> string) list \<Rightarrow> string" where
  "queryItemValue k q = (case map_of q k of None \<Rightarrow> [] | Some v \<Rightarrow> v)"

fun removeQueryItem :: "string \<Rightarrow> (string \<times> string) list \<Rightarrow> (string \<times> string) list" where
  "removeQueryItem k [] = []"
| "removeQueryItem k ((k', v) # q) = (if k' = k then q else (k', v) # removeQueryItem k q)"

fun queryText :: "(string \<times> string) list \<Rightarrow> string" where
  "queryText [] = []"
| "queryText [(k, v)] = k @ ''='' @ v"
| "queryText ((k, v) # q) = k @ ''='' @ v @ ''&'' @ queryText q"

fun contains :: "string \<Rightarrow> string \<Rightarrow> bool" where
  "contains p [] = (p = [])"
| "contains p (c # s) = (starts_with p (c # s) \<or> contains p s)"

definition userInfo :: "qurl \<Rightarrow> string" where
  "userInfo u = (if password u = [] then userName u else userName u @ '':'' @ password u)"

definition empty_qurl :: qurl where
  "empty_qurl = \<lparr>scheme = [], userName = [], password = [], host = [], port = -1, path = [],
     query = [], fragment = []\<rparr>"

end
