(* ===== verification/SmbUrl.thy ===== *)
theory SmbUrl
  imports QtUrl
begin

text \<open>
  \<open>SMBUrl\<close> (smb/smburl.h, smb/smburl.cpp). A \<open>QUrl\<close> is the record of its components, with the
  query as the list of its items. The functions of Qt that work on the text of a URL or of a path
  are the parameter \<open>qt\<close>: cleaning a path, writing a URL, the text of an IPv6 host. The cached
  members \<open>m_surl\<close> and \<open>m_type\<close> are fields, and every setter recomputes them as the code does.
\<close>

section \<open>SMBUrl\<close>

datatype SMBUrlType =
    SMBURLTYPE_UNKNOWN | SMBURLTYPE_ENTIRE_NETWORK | SMBURLTYPE_WORKGROUP_OR_SERVER
  | SMBURLTYPE_SHARE_OR_PATH | SMBURLTYPE_PRINTER

record smburl = qurl +
  m_surl :: string
  m_type :: SMBUrlType

definition base :: "smburl \<Rightarrow> qurl" where
  "base u = qurl.truncate u"

definition smburl_of :: "qurl \<Rightarrow> string \<Rightarrow> SMBUrlType \<Rightarrow> smburl" where
  "smburl_of u s t = qurl.extend u \<lparr>m_surl = s, m_type = t\<rparr>"

definition newSMBUrl :: smburl where
  "newSMBUrl = smburl_of empty_qurl [] SMBURLTYPE_UNKNOWN"

subsection \<open>Domain and user\<close>

definition splitDomainUser :: "string \<Rightarrow> string \<times> string" where
  "splitDomainUser combined =
     (let slashPos = index_of (CHR ''/'') combined;
          backslashPos = index_of (CHR 0x5C) combined;
          separatorPos = (if slashPos \<ge> 0 \<and> backslashPos \<ge> 0 then min slashPos backslashPos
                          else if slashPos \<ge> 0 \<or> backslashPos \<ge> 0 then max slashPos backslashPos
                          else -1)
      in if separatorPos > 0
         then (take (nat separatorPos) combined, drop (nat separatorPos + 1) combined)
         else ([], combined))"

subsection \<open>The text for libsmbclient\<close>

definition ipv6_literal :: "string \<Rightarrow> string" where
  "ipv6_literal addr =
     (let l = map (\<lambda>c. if c = CHR '':'' then CHR ''-'' else c) addr;
          l = map (\<lambda>c. if c = CHR 0x25 then CHR ''s'' else c) l;
          l = (if hd l = CHR ''-'' then CHR ''0'' # l else l);
          l = (if last l = CHR ''-'' then l @ ''0'' else l)
      in l @ ''.ipv6-literal.net'')"

definition sambaUrl :: "qt \<Rightarrow> qurl \<Rightarrow> qurl" where
  "sambaUrl Q u = (case ipv6Text Q (host u) of
     Some addr \<Rightarrow> u\<lparr>host := ipv6_literal addr\<rparr>
   | None \<Rightarrow> u)"

definition workgroupText :: "qt \<Rightarrow> qurl \<Rightarrow> string \<Rightarrow> string" where
  "workgroupText Q u workgroup =
     (let u = u\<lparr>query := removeQueryItem ''kio-workgroup'' (query u)\<rparr>;
          p = ''/'' @ (if host u \<noteq> [] then host u else []) @ (if path u \<noteq> [] then path u else [])
      in ''smb://''
         @ (if userInfo u \<noteq> [] then userInfo u @ ''@'' else [])
         @ workgroup
         @ (if port u \<noteq> -1 then '':'' @ numberText Q (port u) else [])
         @ cleanPath Q p
         @ (if query u \<noteq> [] then ''?'' @ queryText (query u) else [])
         @ (if fragment u \<noteq> [] then ''#'' @ fragment u else []))"

definition smbcText :: "qt \<Rightarrow> qurl \<Rightarrow> string" where
  "smbcText Q u =
     (let s = sambaUrl Q u; workgroup = queryItemValue ''kio-workgroup'' (query s)
      in if workgroup = []
         then (if urlText Q s = ''smb:/'' then ''smb://'' else prettyText Q s)
         else workgroupText Q s workgroup)"

subsection \<open>The type, and the cache\<close>

definition computeType :: "qurl \<Rightarrow> SMBUrlType" where
  "computeType u =
     (if scheme u \<noteq> ''smb'' then SMBURLTYPE_UNKNOWN
      else if queryItemValue ''kio-printer'' (query u) = ''true'' then SMBURLTYPE_PRINTER
      else if path u = [] \<or> path u = ''/''
        then (if host u = [] \<and> \<not> contains ''kio-workgroup'' (queryText (query u))
              then SMBURLTYPE_ENTIRE_NETWORK else SMBURLTYPE_WORKGROUP_OR_SERVER)
      else SMBURLTYPE_SHARE_OR_PATH)"

definition getType :: "smburl \<Rightarrow> SMBUrlType \<times> smburl" where
  "getType u =
     (if m_type u \<noteq> SMBURLTYPE_UNKNOWN then (m_type u, u)
      else (let t = computeType (base u) in (t, u\<lparr>m_type := t\<rparr>)))"

definition updateCache :: "qt \<Rightarrow> smburl \<Rightarrow> smburl" where
  "updateCache Q u =
     (let u = u\<lparr>path := cleanPath Q (path u)\<rparr>;
          u = u\<lparr>m_surl := smbcText Q (base u)\<rparr>;
          u = u\<lparr>m_type := SMBURLTYPE_UNKNOWN\<rparr>
      in snd (getType u))"

definition SMBUrl_ctor :: "qt \<Rightarrow> qurl \<Rightarrow> smburl" where
  "SMBUrl_ctor Q kurl =
     (let u = smburl_of kurl [] SMBURLTYPE_UNKNOWN;
          u = (if scheme u = ''cifs'' then u\<lparr>scheme := ''smb''\<rparr> else u)
      in updateCache Q u)"

definition addPath :: "qt \<Rightarrow> string \<Rightarrow> smburl \<Rightarrow> smburl" where
  "addPath Q filedir u =
     updateCache Q (if length (path u) > 0 \<and> path u ! (length (path u) - 1) \<noteq> CHR ''/''
                    then u\<lparr>path := path u @ ''/'' @ filedir\<rparr>
                    else u\<lparr>path := path u @ filedir\<rparr>)"

definition cdUp :: "qt \<Rightarrow> smburl \<Rightarrow> smburl" where
  "cdUp Q u = updateCache Q (smburl_of (parseUrl Q (urlText Q (upUrl Q (base u)))) (m_surl u) (m_type u))"

definition setPass :: "qt \<Rightarrow> string \<Rightarrow> smburl \<Rightarrow> smburl" where
  "setPass Q txt u = updateCache Q (u\<lparr>password := txt\<rparr>)"

definition setUser :: "qt \<Rightarrow> string \<Rightarrow> smburl \<Rightarrow> smburl" where
  "setUser Q txt u = updateCache Q (u\<lparr>userName := txt\<rparr>)"

definition setHost :: "qt \<Rightarrow> string \<Rightarrow> smburl \<Rightarrow> smburl" where
  "setHost Q txt u = updateCache Q (u\<lparr>host := txt\<rparr>)"

definition setPath :: "qt \<Rightarrow> string \<Rightarrow> smburl \<Rightarrow> smburl" where
  "setPath Q txt u = updateCache Q (u\<lparr>path := txt\<rparr>)"

definition toSmbcUrl :: "smburl \<Rightarrow> string" where
  "toSmbcUrl u = m_surl u"

definition partUrl :: "qt \<Rightarrow> smburl \<Rightarrow> smburl" where
  "partUrl Q u =
     (let isRemoteFile = (m_type u = SMBURLTYPE_SHARE_OR_PATH \<and> fileName (base u) \<noteq> []);
          isLocalFile = (scheme u = ''file'' \<and> fileName (base u) \<noteq> [])
      in if isRemoteFile \<or> isLocalFile then setPath Q (path u @ ''.part'') u else newSMBUrl)"

lemmas smburl_defs = updateCache_def getType_def base_def smburl_of_def qurl.defs

section \<open>Facts\<close>

text \<open>What every value of the class satisfies: the caches agree with the components.\<close>

definition cache_ok :: "qt \<Rightarrow> smburl \<Rightarrow> bool" where
  "cache_ok Q u \<longleftrightarrow> m_surl u = smbcText Q (base u) \<and> m_type u = computeType (base u)"

lemma updateCache_ok [simp]: "cache_ok Q (updateCache Q u)"
  by (simp add: cache_ok_def smburl_defs Let_def)

lemma updateCache_path [simp]: "path (updateCache Q u) = cleanPath Q (path u)"
  by (simp add: smburl_defs Let_def)

lemma updateCache_frame [simp]:
  "scheme (updateCache Q u) = scheme u" "host (updateCache Q u) = host u"
  "query (updateCache Q u) = query u" "userName (updateCache Q u) = userName u"
  "password (updateCache Q u) = password u" "port (updateCache Q u) = port u"
  "fragment (updateCache Q u) = fragment u"
  by (simp_all add: smburl_defs Let_def)

lemma getType_cache_ok: "cache_ok Q u \<Longrightarrow> getType u = (m_type u, u)"
  by (simp add: cache_ok_def getType_def Let_def)

lemma base_sel [simp]:
  "path (base u) = path u" "scheme (base u) = scheme u" "host (base u) = host u"
  "query (base u) = query u"
  by (simp_all add: base_def qurl.defs)

lemma SMBUrl_ctor_cache_ok [simp]: "cache_ok Q (SMBUrl_ctor Q k)"
  by (simp add: SMBUrl_ctor_def Let_def)

lemma ipv6_literal_last:
  assumes "addr \<noteq> []"
  obtains l where "ipv6_literal addr = l @ ''.ipv6-literal.net''" "l \<noteq> []" "hd l \<noteq> CHR ''-''"
    "last l \<noteq> CHR ''-''" "CHR '':'' \<notin> set l" "CHR 0x25 \<notin> set l"
proof -
  define l1 where "l1 = map (\<lambda>c. if c = CHR 0x25 then CHR ''s'' else c)
    (map (\<lambda>c. if c = CHR '':'' then CHR ''-'' else c) addr)"
  define l2 where "l2 = (if hd l1 = CHR ''-'' then CHR ''0'' # l1 else l1)"
  define l3 where "l3 = (if last l2 = CHR ''-'' then l2 @ ''0'' else l2)"
  have 1: "l1 \<noteq> []" "CHR '':'' \<notin> set l1" "CHR 0x25 \<notin> set l1"
    using assms by (auto simp: l1_def split: if_splits)
  have 2: "l2 \<noteq> []" "CHR '':'' \<notin> set l2" "CHR 0x25 \<notin> set l2" "hd l2 \<noteq> CHR ''-''"
    using 1 by (auto simp: l2_def)
  have 3: "l3 \<noteq> []" "CHR '':'' \<notin> set l3" "CHR 0x25 \<notin> set l3" "hd l3 \<noteq> CHR ''-''" "last l3 \<noteq> CHR ''-''"
    using 2 by (auto simp: l3_def)
  have "ipv6_literal addr = l3 @ ''.ipv6-literal.net''"
    by (simp add: ipv6_literal_def l3_def l2_def l1_def Let_def)
  with 3 show thesis using that by blast
qed

lemma index_of_split:
  assumes "index_of c s = int n"
  shows "c \<notin> set (take n s) \<and> n < length s \<and> s = take n s @ c # drop (Suc n) s"
proof -
  have "index_from k c s = int n \<Longrightarrow> k \<le> n \<and> c \<notin> set (take (n - k) s) \<and> n - k < length s
      \<and> s = take (n - k) s @ c # drop (Suc (n - k)) s" for k
  proof (induction s arbitrary: k)
    case (Cons x s)
    show ?case
    proof (cases "x = c")
      case True
      with Cons.prems show ?thesis by simp
    next
      case False
      with Cons.prems have i: "index_from (Suc k) c s = int n" by simp
      from Cons.IH[OF i] obtain m where "n = Suc k + m" using le_Suc_ex by blast
      with False Cons.IH[OF i] show ?thesis by simp
    qed
  qed simp
  from this[of 0] assms show ?thesis by (simp add: index_of_def)
qed

lemma index_of_after:
  assumes "c \<notin> set p"
  shows "index_of c (p @ s) = -1 \<or> int (length p) \<le> index_of c (p @ s)"
proof (cases "index_of c (p @ s) = -1")
  case False
  with index_of_ge[of c "p @ s"] have "0 \<le> index_of c (p @ s)" by simp
  then obtain n where n: "index_of c (p @ s) = int n" by (metis nonneg_int_cases)
  from index_of_split[OF n] have "n < length (p @ s)" "(p @ s) ! n = c"
    by (metis, metis length_take min.absorb4 nth_append_length)
  with assms have "length p \<le> n" by (metis leI nth_append nth_mem)
  with n show ?thesis by simp
qed simp

section \<open>Properties\<close>

text \<open>
  A login \<open>DOMAIN/user\<close> or \<open>DOMAIN\user\<close> with a domain that has no separator of its own is split
  into exactly these two parts, and a text whose first separator is its first character, or that
  has none, is all user name.
\<close>

lemma splitDomainUser_parts:
  assumes "domain \<noteq> []" "CHR ''/'' \<notin> set domain" "CHR 0x5C \<notin> set domain"
    "sep = CHR ''/'' \<or> sep = CHR 0x5C"
  shows "splitDomainUser (domain @ sep # user) = (domain, user)
    \<and> splitDomainUser domain = ([], domain) \<and> splitDomainUser (sep # user) = ([], sep # user)"
proof -
  have pos: "0 < int (length domain)" using assms(1) by simp
  note ge = index_of_after[of _ domain "sep # user"]
  have 1: "splitDomainUser (domain @ sep # user) = (domain, user)"
    using assms(4) pos ge[OF assms(2)] ge[OF assms(3)]
      index_of_append[OF assms(2), of user] index_of_append[OF assms(3), of user]
    by (elim disjE) (auto simp: splitDomainUser_def Let_def min_def max_def)
  have 2: "splitDomainUser domain = ([], domain)"
    using assms(2,3) by (simp add: splitDomainUser_def Let_def index_of_not_in)
  have "index_of sep (sep # user) = 0" by (simp add: index_of_def)
  then have 3: "splitDomainUser (sep # user) = ([], sep # user)"
    using assms(4) index_of_ge[of "CHR ''/''" "sep # user"] index_of_ge[of "CHR 0x5C" "sep # user"]
    by (elim disjE) (auto simp: splitDomainUser_def Let_def min_def max_def)
  show ?thesis using 1 2 3 by blast
qed

text \<open>
  The host name made for an IPv6 address has no colon and no percent sign and neither starts
  nor ends its literal part with a dash, whatever the address.
\<close>

lemma ipv6_literal_wellformed:
  assumes "addr \<noteq> []"
  shows "\<exists>l. ipv6_literal addr = l @ ''.ipv6-literal.net'' \<and> l \<noteq> [] \<and> hd l \<noteq> CHR ''-''
    \<and> last l \<noteq> CHR ''-'' \<and> CHR '':'' \<notin> set (ipv6_literal addr) \<and> CHR 0x25 \<notin> set (ipv6_literal addr)"
  using assms by (rule ipv6_literal_last) auto

text \<open>
  After the constructor or any setter the cached URL text and the cached type are those of the
  components, the path is clean and the scheme is never \<open>cifs\<close>; asking for the type does not change
  the value.
\<close>

lemma smburl_cache_invariant:
  fixes Q :: qt
  shows "cache_ok Q (SMBUrl_ctor Q k) \<and> scheme (SMBUrl_ctor Q k) \<noteq> ''cifs''
    \<and> (\<forall>v \<in> {addPath Q t u, cdUp Q u, setPass Q t u, setUser Q t u, setHost Q t u, setPath Q t u}.
         cache_ok Q v \<and> getType v = (m_type v, v))"
  by (simp add: SMBUrl_ctor_def Let_def addPath_def cdUp_def setPass_def setUser_def setHost_def
      setPath_def getType_cache_ok[where Q = Q] smburl_of_def qurl.defs)

lemma smburl_cache_invariant_instance:
  "\<exists>Q :: qt. cache_ok Q (setPath Q ''/a'' newSMBUrl)"
  using smburl_cache_invariant[of _ empty_qurl "''/a''" newSMBUrl] by blast

end
