(* ===== verification/SmbTransfer.thy ===== *)
theory SmbTransfer
  imports Kio
begin

text \<open>
  The transfer buffer of the SMB worker (smb/transfer.h, smb/transfer.cpp) and the two threads
  that use it in \<open>SMBWorker::get\<close> and \<open>SMBWorker::smbCopyGet\<close>.

  \<^item> \<open>segmentSizeForFileSize\<close>: how large the segments are.
  \<^item> \<open>ring\<close>: the ring of four segments with its \<open>head\<close>, \<open>tail\<close> and \<open>m_done\<close>; every member function
    of \<open>TransferRingBuffer\<close> is a definition. A call that waits on the condition variable is a step
    that is not enabled (\<open>PopWait\<close>, \<open>None\<close>).
  \<^item> \<open>bounded_fifo\<close>: what the two threads rely on, as an interface; the ring provides it.
  \<^item> \<open>prod_step\<close> and \<open>cons_step\<close>: the two loops, one step for each access to shared data. The calls
    to libsmbclient and to the receiver of the data are parameters.
\<close>

section \<open>Segment size\<close>

definition c_minSegmentSize :: int where "c_minSegmentSize = 64 * 1024"
definition c_maxSegmentSize :: int where "c_maxSegmentSize = 4 * 1024 * 1024"

definition segmentSizeForFileSize :: "int \<Rightarrow> int" where
  "segmentSizeForFileSize fileSize0 =
     (let fileSize = max 0 fileSize0;
          segmentSize = c_minSegmentSize;
          idealSegmentSize = min (fileSize div 50) c_maxSegmentSize;
          segmentSize = max segmentSize idealSegmentSize
      in if fileSize \<noteq> 0 then min segmentSize fileSize else segmentSize)"

lemmas segment_size_defs = segmentSizeForFileSize_def c_minSegmentSize_def c_maxSegmentSize_def

text \<open>
  The capacity of \<open>buf\<close>: a \<open>QVarLengthArray<char, c_minSegmentSize>\<close> of the given size has at least
  the preallocated capacity.
\<close>

definition segmentCapacity :: "int \<Rightarrow> int" where
  "segmentCapacity fileSize = max c_minSegmentSize (segmentSizeForFileSize fileSize)"

lemma segment_size_pos: "0 < segmentSizeForFileSize n"
  by (auto simp: segment_size_defs Let_def)

lemma segment_size_le_max: "segmentSizeForFileSize n \<le> c_maxSegmentSize"
  by (auto simp: segment_size_defs Let_def)

lemma segment_size_le_file: "0 < n \<Longrightarrow> segmentSizeForFileSize n \<le> n"
  by (auto simp: segment_size_defs Let_def)

lemma segment_size_mono: "0 < m \<Longrightarrow> m \<le> n \<Longrightarrow> segmentSizeForFileSize m \<le> segmentSizeForFileSize n"
proof -
  assume "0 < m" "m \<le> n"
  moreover from this have "m div 50 \<le> n div 50" by (simp add: zdiv_mono1)
  ultimately show ?thesis by (auto simp: segment_size_defs Let_def min_def max_def)
qed

lemma segment_capacity_ge: "segmentSizeForFileSize n \<le> segmentCapacity n"
  by (simp add: segmentCapacity_def)

section \<open>The ring\<close>

text \<open>
  What \<open>smbc_read\<close> put into a segment: the bytes, whose number is \<open>size\<close>, or an error, where \<open>size\<close>
  is negative. Only the first \<open>size\<close> bytes of \<open>buf\<close> count, so nothing else of it is kept.
\<close>

datatype segment = Bytes "byte list" | ReadError

fun seg_size :: "segment \<Rightarrow> int" where
  "seg_size (Bytes bs) = int (length bs)"
| "seg_size ReadError = -1"

record ring =
  m_done :: bool
  m_buffer :: "segment list"
  head :: nat
  tail :: nat

definition m_capacity :: nat where "m_capacity = 4"

definition newRing :: ring where
  "newRing = \<lparr>m_done = False, m_buffer = replicate m_capacity (Bytes []), head = 0, tail = 0\<rparr>"

datatype pop_result = PopWait | PopNull | PopSegment nat

definition pop :: "ring \<Rightarrow> pop_result" where
  "pop b = (if head b = tail b then (if \<not> m_done b then PopWait else PopNull)
            else PopSegment (tail b))"

definition unpop :: "ring \<Rightarrow> ring" where
  "unpop b = b\<lparr>tail := (tail b + 1) mod m_capacity\<rparr>"

definition nextFree :: "ring \<Rightarrow> nat" where
  "nextFree b = head b"

definition push :: "ring \<Rightarrow> ring option" where
  "push b = (let newHead = (head b + 1) mod m_capacity
             in if newHead = tail b then None else Some (b\<lparr>head := newHead\<rparr>))"

definition set_done :: "ring \<Rightarrow> ring" where
  "set_done b = b\<lparr>m_done := True\<rparr>"

text \<open>The producer fills the segment it got from \<open>nextFree\<close>.\<close>

definition fill :: "segment \<Rightarrow> ring \<Rightarrow> ring" where
  "fill s b = b\<lparr>m_buffer := (m_buffer b)[nextFree b := s]\<rparr>"

definition ring_ok :: "ring \<Rightarrow> bool" where
  "ring_ok b \<longleftrightarrow> head b < m_capacity \<and> tail b < m_capacity \<and> length (m_buffer b) = m_capacity"

text \<open>The queue a ring stands for: the segments from \<open>tail\<close> up to \<open>head\<close>, around the end.\<close>

definition count :: "ring \<Rightarrow> nat" where
  "count b = (head b + m_capacity - tail b) mod m_capacity"

definition items :: "ring \<Rightarrow> segment list" where
  "items b = map (\<lambda>i. m_buffer b ! ((tail b + i) mod m_capacity)) [0..<count b]"

lemmas ring_defs = newRing_def pop_def unpop_def nextFree_def push_def set_done_def fill_def
  ring_ok_def count_def items_def m_capacity_def

lemma lt4: "(n::nat) < 4 \<longleftrightarrow> n = 0 \<or> n = 1 \<or> n = 2 \<or> n = 3"
  by auto

lemma ring_ok_new: "ring_ok newRing"
  by (simp add: ring_defs)

lemma items_new: "items newRing = []"
  by (simp add: ring_defs)

lemma ring_ok_fill: "ring_ok b \<Longrightarrow> ring_ok (fill s b)"
  by (simp add: ring_defs)

lemma head_not_in_items:
  assumes "ring_ok b" "i < count b"
  shows "head b \<noteq> (tail b + i) mod m_capacity"
proof -
  from assms have "i < 4" by (simp add: count_def m_capacity_def)
  with assms show ?thesis by (auto simp: ring_defs lt4)
qed

lemma count_fill [simp]: "count (fill s b) = count b"
  by (simp add: count_def fill_def)

lemma items_fill: "ring_ok b \<Longrightarrow> items (fill s b) = items b"
  unfolding items_def count_fill
  by (rule map_cong[OF refl]) (use head_not_in_items[of b] in \<open>auto simp: fill_def nextFree_def\<close>)

lemma ring_ok_push: "ring_ok b \<Longrightarrow> push b = Some b' \<Longrightarrow> ring_ok b'"
  by (auto simp: ring_defs Let_def split: if_splits)

lemma push_count:
  assumes "ring_ok b" "push b = Some b'"
  shows "count b' = Suc (count b)" "(tail b + count b) mod m_capacity = head b"
  using assms by (auto simp: ring_ok_def push_def count_def m_capacity_def lt4 Let_def split: if_splits)

lemma push_frame: "push b = Some b' \<Longrightarrow> m_buffer b' = m_buffer b \<and> tail b' = tail b"
  by (auto simp: push_def Let_def split: if_splits)

lemma items_push:
  "ring_ok b \<Longrightarrow> push b = Some b' \<Longrightarrow> items b' = items b @ [m_buffer b ! nextFree b]"
  by (simp add: items_def push_count push_frame nextFree_def)

lemma push_waits: "ring_ok b \<Longrightarrow> push b = None \<longleftrightarrow> length (items b) = 3"
  by (auto simp: ring_defs lt4 Let_def)

lemma items_le_3: "ring_ok b \<Longrightarrow> length (items b) \<le> 3"
  by (auto simp: ring_defs lt4)

lemma ring_ok_unpop: "ring_ok b \<Longrightarrow> ring_ok (unpop b)"
  by (simp add: ring_defs)

lemma items_unpop: "ring_ok b \<Longrightarrow> items b \<noteq> [] \<Longrightarrow> items (unpop b) = tl (items b)"
  by (auto simp: ring_defs lt4 upt_conv_Cons)

lemma pop_empty: "ring_ok b \<Longrightarrow> items b = [] \<longleftrightarrow> head b = tail b"
  by (auto simp: ring_defs lt4)

lemma pop_segment:
  "ring_ok b \<Longrightarrow> pop b = PopSegment i \<longleftrightarrow> items b \<noteq> [] \<and> i = tail b"
  by (auto simp: pop_empty) (auto simp: pop_def split: if_splits)

lemma tail_segment: "ring_ok b \<Longrightarrow> items b \<noteq> [] \<Longrightarrow> m_buffer b ! tail b = hd (items b)"
  by (auto simp: ring_defs lt4 upt_conv_Cons)

lemma ring_ok_done: "ring_ok (set_done b) = ring_ok b"
  by (simp add: ring_defs)

lemma items_done: "items (set_done b) = items b"
  by (simp add: ring_defs)

text \<open>The segment the consumer holds is never the one the producer fills.\<close>

lemma no_shared_segment: "ring_ok b \<Longrightarrow> pop b = PopSegment i \<Longrightarrow> i \<noteq> nextFree b"
  by (auto simp: ring_defs split: if_splits)

section \<open>The interface the threads rely on\<close>

text \<open>
  A queue of limited capacity whose new element is written in place before it is published
  (\<open>put\<close>, then \<open>publish\<close>) and whose first element is read in place before it is released.
\<close>

locale bounded_fifo =
  fixes ok :: "'q \<Rightarrow> bool" and elems :: "'q \<Rightarrow> 'a list" and cap :: nat
    and put :: "'a \<Rightarrow> 'q \<Rightarrow> 'q" and publish :: "'q \<Rightarrow> 'q option"
    and slot :: "'q \<Rightarrow> 'a" and first :: "'q \<Rightarrow> 'a" and release :: "'q \<Rightarrow> 'q"
  assumes ok_put: "ok q \<Longrightarrow> ok (put x q)"
    and elems_put: "ok q \<Longrightarrow> elems (put x q) = elems q"
    and slot_put: "ok q \<Longrightarrow> slot (put x q) = x"
    and ok_publish: "ok q \<Longrightarrow> publish q = Some q' \<Longrightarrow> ok q'"
    and elems_publish: "ok q \<Longrightarrow> publish q = Some q' \<Longrightarrow> elems q' = elems q @ [slot q]"
    and full: "ok q \<Longrightarrow> publish q = None \<longleftrightarrow> length (elems q) = cap"
    and first: "ok q \<Longrightarrow> elems q \<noteq> [] \<Longrightarrow> first q = hd (elems q)"
    and ok_release: "ok q \<Longrightarrow> ok (release q)"
    and elems_release: "ok q \<Longrightarrow> elems q \<noteq> [] \<Longrightarrow> elems (release q) = tl (elems q)"
begin

text \<open>What went in is what came out followed by what is inside, after every operation.\<close>

lemma publish_conserves:
  "ok q \<Longrightarrow> sent = got @ elems q \<Longrightarrow> slot q = x \<Longrightarrow> publish q = Some q' \<Longrightarrow>
   sent @ [x] = got @ elems q'"
  by (simp add: elems_publish)

lemma release_conserves:
  "ok q \<Longrightarrow> sent = got @ elems q \<Longrightarrow> elems q \<noteq> [] \<Longrightarrow>
   sent = (got @ [first q]) @ elems (release q)"
  by (simp add: elems_release first)

lemma release_frees: "ok q \<Longrightarrow> elems q \<noteq> [] \<Longrightarrow> length (elems q) \<le> cap \<Longrightarrow> 0 < cap \<Longrightarrow>
   publish (release q) \<noteq> None"
  using full[OF ok_release] by (auto simp: elems_release)

lemma not_full_publishes: "ok q \<Longrightarrow> length (elems q) < cap \<Longrightarrow> \<exists>q'. publish q = Some q'"
  using full by fastforce

end

interpretation rb: bounded_fifo ring_ok items 3 fill push
    "\<lambda>b. m_buffer b ! nextFree b" "\<lambda>b. m_buffer b ! tail b" unpop
proof
  show "\<And>q x. ring_ok q \<Longrightarrow> m_buffer (fill x q) ! nextFree (fill x q) = x"
    by (simp add: ring_defs)
qed (simp_all add: ring_ok_fill items_fill ring_ok_push items_push push_waits tail_segment
    ring_ok_unpop items_unpop)

section \<open>The two threads\<close>

text \<open>
  The producer is the lambda given to \<open>std::async\<close>, the consumer the loop after it. One step is
  one access to what the threads share: the flags, the ring, the segment a thread holds.
  \<^item> \<open>rd\<close>: \<open>smbc_read\<close> on the source, on the library's state \<open>'w\<close>;
  \<^item> \<open>dl\<close>: what the consumer does with a segment, on the receiver's state \<open>'l\<close>; the result False is
    a failed write, after which \<open>smbCopyGet\<close> sets \<open>isErr\<close>. In \<open>get\<close> it is always True.
\<close>

datatype producer = PTop | PRead | PPush segment | PDone segment | PEnd
datatype consumer = CPop | CHold nat | CUnpop bool | CEnd

record ('w, 'l) xfer =
  rg :: ring
  src :: 'w
  sink :: 'l
  ppc :: producer
  cpc :: consumer
  killed :: bool
  isErr :: bool
  readResult :: "kio_error option"

definition xfer_init :: "'w \<Rightarrow> 'l \<Rightarrow> ('w, 'l) xfer" where
  "xfer_init w l = \<lparr>rg = newRing, src = w, sink = l, ppc = PTop, cpc = CPop, killed = False,
     isErr = False, readResult = None\<rparr>"

fun prod_step :: "('w \<Rightarrow> segment \<times> 'w) \<Rightarrow> ('w, 'l) xfer \<Rightarrow> ('w, 'l) xfer option" where
  "prod_step rd x = (case ppc x of
     PTop \<Rightarrow>
       if isErr x then Some (x\<lparr>ppc := PEnd\<rparr>)
       else if killed x then Some (x\<lparr>rg := set_done (rg x), ppc := PEnd\<rparr>)
       else Some (x\<lparr>ppc := PRead\<rparr>)
   | PRead \<Rightarrow>
       (case rd (src x) of (s, w) \<Rightarrow> Some (x\<lparr>rg := fill s (rg x), src := w, ppc := PPush s\<rparr>))
   | PPush s \<Rightarrow>
       (case push (rg x) of
          None \<Rightarrow> None
        | Some b \<Rightarrow> Some (x\<lparr>rg := b, ppc := (if seg_size s \<le> 0 then PDone s else PTop)\<rparr>))
   | PDone s \<Rightarrow>
       Some (x\<lparr>rg := set_done (rg x), ppc := PEnd,
               readResult := (if seg_size s < 0 then Some ERR_CANNOT_READ else None)\<rparr>)
   | PEnd \<Rightarrow> None)"

fun cons_step :: "(segment \<Rightarrow> 'l \<Rightarrow> bool \<times> 'l) \<Rightarrow> ('w, 'l) xfer \<Rightarrow> ('w, 'l) xfer option" where
  "cons_step dl x = (case cpc x of
     CPop \<Rightarrow>
       (case pop (rg x) of
          PopWait \<Rightarrow> None
        | PopNull \<Rightarrow> Some (x\<lparr>cpc := CEnd\<rparr>)
        | PopSegment i \<Rightarrow> Some (x\<lparr>cpc := CHold i\<rparr>))
   | CHold i \<Rightarrow>
       if killed x then Some (x\<lparr>cpc := CUnpop False\<rparr>)
       else (case dl (m_buffer (rg x) ! i) (sink x) of
               (True, l) \<Rightarrow> Some (x\<lparr>sink := l, cpc := CUnpop False\<rparr>)
             | (False, l) \<Rightarrow> Some (x\<lparr>sink := l, isErr := True, cpc := CUnpop True\<rparr>))
   | CUnpop brk \<Rightarrow> Some (x\<lparr>rg := unpop (rg x), cpc := (if brk then CEnd else CPop)\<rparr>)
   | CEnd \<Rightarrow> None)"

declare prod_step.simps [simp del] cons_step.simps [simp del]

text \<open>Any interleaving of the two threads; the application may ask to stop at any moment.\<close>

inductive xfer_step ::
  "('w \<Rightarrow> segment \<times> 'w) \<Rightarrow> (segment \<Rightarrow> 'l \<Rightarrow> bool \<times> 'l) \<Rightarrow> ('w, 'l) xfer \<Rightarrow> ('w, 'l) xfer \<Rightarrow> bool"
  for rd dl where
  producer: "prod_step rd x = Some y \<Longrightarrow> xfer_step rd dl x y"
| consumer: "cons_step dl x = Some y \<Longrightarrow> xfer_step rd dl x y"
| kill: "\<not> killed x \<Longrightarrow> xfer_step rd dl x (x\<lparr>killed := True\<rparr>)"

inductive xfer_reach ::
  "('w \<Rightarrow> segment \<times> 'w) \<Rightarrow> (segment \<Rightarrow> 'l \<Rightarrow> bool \<times> 'l) \<Rightarrow> ('w, 'l) xfer \<Rightarrow> ('w, 'l) xfer \<Rightarrow> bool"
  for rd dl x0 where
  start: "xfer_reach rd dl x0 x0"
| step: "xfer_reach rd dl x0 x \<Longrightarrow> xfer_step rd dl x y \<Longrightarrow> xfer_reach rd dl x0 y"

definition finished :: "('w, 'l) xfer \<Rightarrow> bool" where
  "finished x \<longleftrightarrow> ppc x = PEnd \<and> cpc x = CEnd"

text \<open>The same system under a given schedule; a thread that waits, or has ended, does nothing.\<close>

datatype actor = Producer | Consumer | Kill

fun act :: "('w \<Rightarrow> segment \<times> 'w) \<Rightarrow> (segment \<Rightarrow> 'l \<Rightarrow> bool \<times> 'l) \<Rightarrow> actor \<Rightarrow> ('w, 'l) xfer \<Rightarrow> ('w, 'l) xfer" where
  "act rd dl Producer x = (case prod_step rd x of None \<Rightarrow> x | Some y \<Rightarrow> y)"
| "act rd dl Consumer x = (case cons_step dl x of None \<Rightarrow> x | Some y \<Rightarrow> y)"
| "act rd dl Kill x = x\<lparr>killed := True\<rparr>"

definition run_schedule ::
  "('w \<Rightarrow> segment \<times> 'w) \<Rightarrow> (segment \<Rightarrow> 'l \<Rightarrow> bool \<times> 'l) \<Rightarrow> actor list \<Rightarrow> ('w, 'l) xfer \<Rightarrow> ('w, 'l) xfer" where
  "run_schedule rd dl sched x = fold (act rd dl) sched x"

lemma act_step: "act rd dl a x = x \<or> xfer_step rd dl x (act rd dl a x)"
proof (cases a)
  case Kill
  then show ?thesis by (cases "killed x") (auto intro: xfer_step.kill)
qed (auto split: option.splits intro: xfer_step.intros)

lemma run_schedule_reach: "xfer_reach rd dl x0 (run_schedule rd dl sched x0)"
proof -
  have "xfer_reach rd dl x0 x \<Longrightarrow> xfer_reach rd dl x0 (fold (act rd dl) sched x)" for x
  proof (induction sched arbitrary: x)
    case (Cons a sched)
    have "xfer_reach rd dl x0 (act rd dl a x)"
      using act_step[of rd dl a x] Cons.prems by (metis xfer_reach.step)
    then show ?case by (simp add: Cons.IH)
  qed simp
  then show ?thesis unfolding run_schedule_def by (simp add: xfer_reach.start)
qed

subsection \<open>Shared memory: no segment is used by both threads, and nobody waits forever\<close>

definition xfer_ok :: "('w, 'l) xfer \<Rightarrow> bool" where
  "xfer_ok x \<longleftrightarrow> ring_ok (rg x)
     \<and> (\<forall>i. cpc x = CHold i \<longrightarrow> tail (rg x) = i)
     \<and> (\<forall>i. cpc x = CHold i \<longrightarrow> items (rg x) \<noteq> [])
     \<and> (\<forall>k. cpc x = CUnpop k \<longrightarrow> items (rg x) \<noteq> [])
     \<and> (\<forall>s. ppc x = PPush s \<longrightarrow> m_buffer (rg x) ! nextFree (rg x) = s)
     \<and> (ppc x = PEnd \<longrightarrow> \<not> isErr x \<longrightarrow> m_done (rg x))
     \<and> (m_done (rg x) \<longrightarrow> ppc x = PEnd)
     \<and> (isErr x \<longrightarrow> cpc x \<noteq> CEnd \<longrightarrow> cpc x = CUnpop True)
     \<and> (cpc x = CUnpop True \<longrightarrow> isErr x)
     \<and> (cpc x = CEnd \<longrightarrow> \<not> isErr x \<longrightarrow> m_done (rg x))
     \<and> (cpc x = CEnd \<longrightarrow> ppc x = PRead \<longrightarrow> length (items (rg x)) \<le> 2)
     \<and> (\<forall>s. cpc x = CEnd \<longrightarrow> ppc x = PPush s \<longrightarrow> length (items (rg x)) \<le> 2)
     \<and> (cpc x = CEnd \<longrightarrow> \<not> isErr x \<longrightarrow> items (rg x) = [])"

lemma xfer_ok_ring: "xfer_ok x \<Longrightarrow> ring_ok (rg x)"
  by (simp add: xfer_ok_def)

lemma xfer_okD:
  assumes "xfer_ok x"
  shows "cpc x = CHold i \<Longrightarrow> tail (rg x) = i"
    and "cpc x = CHold i \<Longrightarrow> items (rg x) \<noteq> []" and "cpc x = CUnpop k \<Longrightarrow> items (rg x) \<noteq> []"
    and "ppc x = PPush s \<Longrightarrow> m_buffer (rg x) ! nextFree (rg x) = s"
    and "ppc x = PEnd \<Longrightarrow> \<not> isErr x \<Longrightarrow> m_done (rg x)" and "m_done (rg x) \<Longrightarrow> ppc x = PEnd"
    and "isErr x \<Longrightarrow> cpc x \<noteq> CEnd \<Longrightarrow> cpc x = CUnpop True" and "cpc x = CUnpop True \<Longrightarrow> isErr x"
    and "cpc x = CEnd \<Longrightarrow> \<not> isErr x \<Longrightarrow> m_done (rg x)"
    and "cpc x = CEnd \<Longrightarrow> ppc x = PRead \<Longrightarrow> length (items (rg x)) \<le> 2"
    and "cpc x = CEnd \<Longrightarrow> ppc x = PPush s \<Longrightarrow> length (items (rg x)) \<le> 2"
    and "cpc x = CEnd \<Longrightarrow> \<not> isErr x \<Longrightarrow> items (rg x) = []"
  using assms by (simp_all add: xfer_ok_def)

lemma xfer_okI:
  assumes "ring_ok (rg x)" "\<And>i. cpc x = CHold i \<Longrightarrow> tail (rg x) = i"
    "\<And>i. cpc x = CHold i \<Longrightarrow> items (rg x) \<noteq> []" "\<And>k. cpc x = CUnpop k \<Longrightarrow> items (rg x) \<noteq> []"
    "\<And>s. ppc x = PPush s \<Longrightarrow> m_buffer (rg x) ! nextFree (rg x) = s"
    "ppc x = PEnd \<Longrightarrow> \<not> isErr x \<Longrightarrow> m_done (rg x)" "m_done (rg x) \<Longrightarrow> ppc x = PEnd"
    "isErr x \<Longrightarrow> cpc x \<noteq> CEnd \<Longrightarrow> cpc x = CUnpop True" "cpc x = CUnpop True \<Longrightarrow> isErr x"
    "cpc x = CEnd \<Longrightarrow> \<not> isErr x \<Longrightarrow> m_done (rg x)"
    "cpc x = CEnd \<Longrightarrow> ppc x = PRead \<Longrightarrow> length (items (rg x)) \<le> 2"
    "\<And>s. cpc x = CEnd \<Longrightarrow> ppc x = PPush s \<Longrightarrow> length (items (rg x)) \<le> 2"
    "cpc x = CEnd \<Longrightarrow> \<not> isErr x \<Longrightarrow> items (rg x) = []"
  shows "xfer_ok x"
  unfolding xfer_ok_def by (intro conjI allI impI; (rule assms; assumption))

lemma xfer_ok_init: "xfer_ok (xfer_init w l)"
  by (simp add: xfer_ok_def xfer_init_def ring_ok_new items_new) (simp add: newRing_def)

lemma m_done_frames [simp]:
  "m_done (fill s b) = m_done b" "m_done (unpop b) = m_done b" "m_done (set_done b) = True"
  "tail (fill s b) = tail b" "tail (set_done b) = tail b"
  "nextFree (fill s b) = nextFree b" "nextFree (unpop b) = nextFree b"
  "m_buffer (unpop b) = m_buffer b"
  by (simp_all add: fill_def unpop_def set_done_def nextFree_def)

lemma fill_slot: "ring_ok b \<Longrightarrow> m_buffer (fill s b) ! nextFree b = s"
  using rb.slot_put[of b s] by simp

lemma push_m_done: "push b = Some b' \<Longrightarrow> m_done b' = m_done b"
  by (auto simp: push_def Let_def split: if_splits)

lemma unpop_items_le_2: "ring_ok b \<Longrightarrow> items b \<noteq> [] \<Longrightarrow> length (items (unpop b)) \<le> 2"
  using items_le_3[of b] by (simp add: items_unpop)

lemma prod_step_ok:
  assumes "prod_step rd x = Some y" "xfer_ok x"
  shows "xfer_ok y"
proof -
  note d = xfer_okD[OF assms(2)] and ok = xfer_ok_ring[OF assms(2)]
  show ?thesis
  proof (cases "ppc x")
    case PTop
    show ?thesis
    proof (cases "isErr x \<or> killed x")
      case True
      then have y: "y = x\<lparr>ppc := PEnd\<rparr> \<and> isErr x \<or> y = x\<lparr>rg := set_done (rg x), ppc := PEnd\<rparr>"
        using assms(1) PTop by (simp add: prod_step.simps split: if_splits)
      then show ?thesis
        by (elim disjE conjE) (rule xfer_okI; auto simp: ok ring_ok_done items_done dest: d)+
    next
      case False
      with assms PTop have "y = x\<lparr>ppc := PRead\<rparr>" by (simp add: prod_step.simps)
      moreover have "\<not> m_done (rg x)" "cpc x \<noteq> CEnd" using d(6,9) PTop False by auto
      ultimately show ?thesis using False by (intro xfer_okI) (auto simp: ok dest: d)
    qed
  next
    case PRead
    obtain s w where "rd (src x) = (s, w)" by fastforce
    with assms PRead have y: "y = x\<lparr>rg := fill s (rg x), src := w, ppc := PPush s\<rparr>"
      by (simp add: prod_step.simps)
    have "\<not> m_done (rg x)" using d(6) PRead by auto
    moreover have "cpc x = CEnd \<Longrightarrow> isErr x" using d(9) calculation by blast
    ultimately show ?thesis unfolding y using d(10) PRead
      by (intro xfer_okI) (auto simp: ok rb.ok_put rb.elems_put fill_slot dest: d)
  next
    case (PPush s)
    with assms(1) obtain b where b: "push (rg x) = Some b"
      and y: "y = x\<lparr>rg := b, ppc := (if seg_size s \<le> 0 then PDone s else PTop)\<rparr>"
      by (auto simp: prod_step.simps split: option.splits)
    have ring: "ring_ok b" "items b \<noteq> []" "m_done b = m_done (rg x)" "tail b = tail (rg x)"
      using rb.ok_publish[OF ok b] items_push[OF ok b] push_m_done[OF b] push_frame[OF b] by simp_all
    have nd: "\<not> m_done (rg x)" using d(6) PPush by auto
    moreover have "cpc x = CEnd \<Longrightarrow> isErr x" using d(9) nd by blast
    ultimately show ?thesis unfolding y
      by (intro xfer_okI) (auto simp: ring dest: d split: if_splits)
  next
    case (PDone s)
    with assms(1) have y: "y = x\<lparr>rg := set_done (rg x), ppc := PEnd,
               readResult := (if seg_size s < 0 then Some ERR_CANNOT_READ else None)\<rparr>"
      by (simp add: prod_step.simps)
    show ?thesis unfolding y
      by (rule xfer_okI; auto simp: ok ring_ok_done items_done dest: d)
  next
    case PEnd
    with assms show ?thesis by (simp add: prod_step.simps)
  qed
qed

lemma pop_cases:
  assumes "ring_ok b"
  obtains "pop b = PopWait" "items b = []" "\<not> m_done b"
  | "pop b = PopNull" "items b = []" "m_done b"
  | "pop b = PopSegment (tail b)" "items b \<noteq> []"
  using assms pop_empty[of b] by (cases "head b = tail b"; cases "m_done b") (auto simp: pop_def)

lemma cons_step_ok:
  assumes "cons_step dl x = Some y" "xfer_ok x"
  shows "xfer_ok y"
proof -
  note d = xfer_okD[OF assms(2)] and ok = xfer_ok_ring[OF assms(2)]
  show ?thesis
  proof (cases "cpc x")
    case CPop
    with d(7) have e: "\<not> isErr x" by auto
    from ok show ?thesis
    proof (cases rule: pop_cases)
      case 1
      with assms(1) CPop show ?thesis by (simp add: cons_step.simps)
    next
      case 2
      with assms(1) CPop have y: "y = x\<lparr>cpc := CEnd\<rparr>" by (simp add: cons_step.simps)
      show ?thesis unfolding y using 2 by (intro xfer_okI) (auto simp: ok e dest: d)
    next
      case 3
      with assms(1) CPop have y: "y = x\<lparr>cpc := CHold (tail (rg x))\<rparr>" by (simp add: cons_step.simps)
      show ?thesis unfolding y using 3 by (intro xfer_okI) (auto simp: ok e dest: d)
    qed
  next
    case (CHold i)
    then have it: "items (rg x) \<noteq> []" and e: "\<not> isErr x" using d(2,7) by auto
    from CHold assms(1) obtain l k where
      "y = x\<lparr>cpc := CUnpop False\<rparr> \<or> y = x\<lparr>sink := l, cpc := CUnpop False\<rparr>
         \<or> y = x\<lparr>sink := l, isErr := True, cpc := CUnpop True\<rparr>"
      by (auto simp: cons_step.simps split: if_splits prod.splits bool.splits)
    then show ?thesis using it e
      by (elim disjE) (rule xfer_okI; auto simp: ok dest: d)+
  next
    case (CUnpop k)
    then have it: "items (rg x) \<noteq> []" using d(3) by auto
    from CUnpop assms(1) have y: "y = x\<lparr>rg := unpop (rg x), cpc := (if k then CEnd else CPop)\<rparr>"
      by (simp add: cons_step.simps)
    have k: "isErr x = k" using d(7,8) CUnpop by auto
    show ?thesis unfolding y using k it unpop_items_le_2[OF ok it]
      by (cases k) (rule xfer_okI; auto simp: rb.ok_release ok dest: d)+
  next
    case CEnd
    with assms show ?thesis by (simp add: cons_step.simps)
  qed
qed

lemma xfer_ok_killed [simp]: "xfer_ok (x\<lparr>killed := b\<rparr>) = xfer_ok x"
  by (cases x) (simp only: xfer_ok_def xfer.simps)

lemma xfer_step_ok: "xfer_step rd dl x y \<Longrightarrow> xfer_ok x \<Longrightarrow> xfer_ok y"
proof (induction rule: xfer_step.induct)
  case (kill x)
  then show ?case by simp
next
  case (producer x y)
  then show ?case by (rule prod_step_ok)
next
  case (consumer x y)
  then show ?case by (rule cons_step_ok)
qed

lemma xfer_reach_ok: "xfer_reach rd dl x0 x \<Longrightarrow> xfer_ok x0 \<Longrightarrow> xfer_ok x"
  by (induction rule: xfer_reach.induct) (auto intro: xfer_step_ok)

lemma xfer_progress:
  assumes "xfer_ok x" "\<not> finished x"
  shows "prod_step rd x \<noteq> None \<or> cons_step dl x \<noteq> None"
proof (cases "prod_step rd x = None")
  case True
  have ok: "ring_ok (rg x)" using assms(1) by (simp add: xfer_ok_def)
  from True consider "ppc x = PEnd" | s where "ppc x = PPush s" "push (rg x) = None"
    by (auto simp: prod_step.simps split: producer.splits if_splits prod.splits option.splits)
  then show ?thesis
  proof cases
    case 1
    with assms have "cpc x \<noteq> CEnd" "m_done (rg x) \<or> isErr x"
      by (auto simp: finished_def xfer_ok_def)
    with assms(1) show ?thesis
      by (auto simp: cons_step.simps xfer_ok_def pop_def split: consumer.splits prod.splits bool.splits)
  next
    case 2
    then have "length (items (rg x)) = 3" using ok push_waits by blast
    with assms(1) 2 have "cpc x \<noteq> CEnd" "items (rg x) \<noteq> []"
      by (auto simp: xfer_ok_def)
    with ok show ?thesis
      by (auto simp: cons_step.simps pop_def pop_empty split: consumer.splits prod.splits bool.splits)
  qed
qed simp

subsection \<open>What is delivered\<close>

text \<open>
  Reference: read until a segment without data, then hand the segments over in order until one is
  refused. \<open>read_all\<close> has fuel; None is a source that has not ended within that many reads.
\<close>

fun read_all :: "('w \<Rightarrow> segment \<times> 'w) \<Rightarrow> nat \<Rightarrow> 'w \<Rightarrow> (segment list \<times> 'w) option" where
  "read_all rd 0 w = None"
| "read_all rd (Suc n) w = (case rd w of (s, w') \<Rightarrow>
     if seg_size s \<le> 0 then Some ([s], w')
     else (case read_all rd n w' of None \<Rightarrow> None | Some (ss, w'') \<Rightarrow> Some (s # ss, w'')))"

fun deliver_all :: "(segment \<Rightarrow> 'l \<Rightarrow> bool \<times> 'l) \<Rightarrow> segment list \<Rightarrow> 'l \<Rightarrow> bool \<times> 'l" where
  "deliver_all dl [] l = (True, l)"
| "deliver_all dl (s # ss) l = (case dl s l of (ok, l') \<Rightarrow> if ok then deliver_all dl ss l' else (False, l'))"

definition read_result :: "segment list \<Rightarrow> kio_error option" where
  "read_result ss = (if seg_size (last ss) < 0 then Some ERR_CANNOT_READ else None)"

lemma read_all_last: "read_all rd n w = Some (ss, w') \<Longrightarrow> ss \<noteq> [] \<and> seg_size (last ss) \<le> 0"
  by (induction n arbitrary: w ss w') (auto split: prod.splits if_splits option.splits)

lemma read_all_butlast:
  "read_all rd n w = Some (ss, w') \<Longrightarrow> \<forall>s \<in> set (butlast ss). 0 < seg_size s"
  by (induction n arbitrary: w ss w')
    (auto split: prod.splits if_splits option.splits dest: read_all_last)

lemma deliver_all_append:
  "deliver_all dl (xs @ ys) l =
     (case deliver_all dl xs l of (ok, l') \<Rightarrow> if ok then deliver_all dl ys l' else (False, l'))"
  by (induction xs arbitrary: l) (auto split: prod.splits)

text \<open>What the producer has still to publish.\<close>

definition pending :: "('w \<Rightarrow> segment \<times> 'w) \<Rightarrow> 'w \<Rightarrow> ('w, 'l) xfer \<Rightarrow> segment list \<Rightarrow> bool" where
  "pending rd w1 x ss = (case ppc x of
     PTop \<Rightarrow> \<exists>n. read_all rd n (src x) = Some (ss, w1)
   | PRead \<Rightarrow> \<exists>n. read_all rd n (src x) = Some (ss, w1)
   | PPush s \<Rightarrow> (if seg_size s \<le> 0 then ss = [s] \<and> src x = w1
                 else \<exists>n ss'. read_all rd n (src x) = Some (ss', w1) \<and> ss = s # ss')
   | PDone s \<Rightarrow> ss = [] \<and> src x = w1
   | PEnd \<Rightarrow> ss = [] \<and> src x = w1)"

definition undelivered :: "('w, 'l) xfer \<Rightarrow> segment list" where
  "undelivered x = (if \<exists>k. cpc x = CUnpop k then tl (items (rg x)) else items (rg x))"

text \<open>
  While nobody asked to stop and no write failed, what has been delivered, what is in the ring and
  what is to come are together what the reference reads. After a failed write the receiver is as
  the reference leaves it.
\<close>

definition delivers ::
  "('w \<Rightarrow> segment \<times> 'w) \<Rightarrow> (segment \<Rightarrow> 'l \<Rightarrow> bool \<times> 'l) \<Rightarrow> segment list \<Rightarrow> 'w \<Rightarrow> 'l \<Rightarrow> ('w, 'l) xfer \<Rightarrow> bool" where
  "delivers rd dl ss w1 l0 x \<longleftrightarrow>
     (if isErr x then deliver_all dl ss l0 = (False, sink x)
      else (\<exists>got rest. ss = got @ undelivered x @ rest
              \<and> deliver_all dl got l0 = (True, sink x) \<and> pending rd w1 x rest)
           \<and> (ppc x = PEnd \<longrightarrow> readResult x = read_result ss)
           \<and> (\<forall>s. ppc x = PDone s \<longrightarrow> s = last ss))"

lemma deliversI:
  assumes "\<not> isErr x" "ss = got @ undelivered x @ rest" "deliver_all dl got l0 = (True, sink x)"
    "pending rd w1 x rest" "ppc x = PEnd \<Longrightarrow> readResult x = read_result ss"
    "\<And>s. ppc x = PDone s \<Longrightarrow> s = last ss"
  shows "delivers rd dl ss w1 l0 x"
  using assms unfolding delivers_def by auto

lemma deliversE:
  assumes "delivers rd dl ss w1 l0 x" "\<not> isErr x"
  obtains got rest where "ss = got @ undelivered x @ rest" "deliver_all dl got l0 = (True, sink x)"
    "pending rd w1 x rest" "ppc x = PEnd \<longrightarrow> readResult x = read_result ss"
    "\<forall>s. ppc x = PDone s \<longrightarrow> s = last ss"
  using assms unfolding delivers_def by auto

lemma delivers_init:
  "read_all rd n w = Some (ss, w1) \<Longrightarrow> delivers rd dl ss w1 l (xfer_init w l)"
  by (rule deliversI[where got = "[]" and rest = ss])
    (auto simp: xfer_init_def undelivered_def items_new pending_def)

lemma delivers_prod:
  assumes "prod_step rd x = Some y" "xfer_ok x" "\<not> killed x" "delivers rd dl ss w1 l0 x"
  shows "delivers rd dl ss w1 l0 y"
proof (cases "isErr x")
  case True
  with assms show ?thesis
    by (auto simp: prod_step.simps delivers_def split: producer.splits prod.splits option.splits if_splits)
next
  case False
  have ok: "ring_ok (rg x)" using assms(2) by (simp add: xfer_ok_def)
  from assms(4) False obtain got rest where ss: "ss = got @ undelivered x @ rest"
    and got: "deliver_all dl got l0 = (True, sink x)" and pend: "pending rd w1 x rest"
    and "ppc x = PEnd \<longrightarrow> readResult x = read_result ss"
    and dn: "\<forall>s. ppc x = PDone s \<longrightarrow> s = last ss"
    by (rule deliversE)
  show ?thesis
  proof (cases "ppc x")
    case PTop
    with False assms(1,3) have y: "y = x\<lparr>ppc := PRead\<rparr>" by (simp add: prod_step.simps)
    then show ?thesis using PTop False ss got pend
      by (intro deliversI[of y ss got rest]) (auto simp: undelivered_def pending_def)
  next
    case PRead
    obtain s w where rd: "rd (src x) = (s, w)" by fastforce
    with PRead assms(1) have y: "y = x\<lparr>rg := fill s (rg x), src := w, ppc := PPush s\<rparr>"
      by (simp add: prod_step.simps)
    from PRead pend obtain n where "read_all rd n (src x) = Some (rest, w1)"
      by (auto simp: pending_def)
    then have "pending rd w1 y rest"
      using rd y by (cases n) (auto simp: pending_def split: if_splits option.splits)
    moreover have "undelivered y = undelivered x"
      using y ok by (simp add: undelivered_def items_fill)
    ultimately show ?thesis using y False ss got
      by (intro deliversI[of y ss got rest]) auto
  next
    case (PPush s)
    with assms(1) obtain b where b: "push (rg x) = Some b"
      and y: "y = x\<lparr>rg := b, ppc := (if seg_size s \<le> 0 then PDone s else PTop)\<rparr>"
      by (auto simp: prod_step.simps split: option.splits)
    have slot: "m_buffer (rg x) ! nextFree (rg x) = s"
      using assms(2) PPush by (simp add: xfer_ok_def)
    have it: "items b = items (rg x) @ [s]" using items_push[OF ok b] slot by simp
    have ne: "\<exists>k. cpc x = CUnpop k \<Longrightarrow> items (rg x) \<noteq> []"
      using assms(2) by (auto simp: xfer_ok_def)
    have u: "undelivered y = undelivered x @ [s]"
      using y it ne by (auto simp: undelivered_def)
    obtain r where r: "rest = s # r" "pending rd w1 y r" "seg_size s \<le> 0 \<Longrightarrow> r = []"
      using PPush pend y by (auto simp: pending_def split: if_splits)
    with ss u have ss': "ss = got @ undelivered y @ r" by simp
    moreover have "seg_size s \<le> 0 \<Longrightarrow> s = last ss" using ss' r u by simp
    ultimately show ?thesis using r got y False
      by (intro deliversI[of y ss got r]) (auto split: if_splits)
  next
    case (PDone s)
    with assms(1) have y: "y = x\<lparr>rg := set_done (rg x), ppc := PEnd,
               readResult := (if seg_size s < 0 then Some ERR_CANNOT_READ else None)\<rparr>"
      by (simp add: prod_step.simps)
    then show ?thesis using PDone False ss got pend dn
      by (intro deliversI[of y ss got rest])
        (auto simp: pending_def undelivered_def items_done read_result_def)
  next
    case PEnd
    with assms show ?thesis by (simp add: prod_step.simps)
  qed
qed

lemma delivers_cons:
  assumes "cons_step dl x = Some y" "xfer_ok x" "\<not> killed x" "delivers rd dl ss w1 l0 x"
  shows "delivers rd dl ss w1 l0 y"
proof -
  have ok: "ring_ok (rg x)" using assms(2) by (simp add: xfer_ok_def)
  show ?thesis
  proof (cases "cpc x")
    case CPop
    with ok assms(1) obtain c where "y = x\<lparr>cpc := c\<rparr>" "\<forall>k. c \<noteq> CUnpop k"
      by (elim pop_cases) (auto simp: cons_step.simps)
    moreover from this have "pending rd w1 y = pending rd w1 x"
      by (intro ext) (simp add: pending_def split: producer.split)
    moreover have "undelivered y = undelivered x"
      using \<open>y = _\<close> \<open>\<forall>k. _\<close> CPop by (simp add: undelivered_def)
    ultimately show ?thesis using assms(4) by (simp add: delivers_def)
  next
    case (CHold i)
    with assms(2) have i: "i = tail (rg x)" and ne: "items (rg x) \<noteq> []" and e: "\<not> isErr x"
      by (auto simp: xfer_ok_def)
    let ?s = "hd (items (rg x))"
    have s: "m_buffer (rg x) ! i = ?s" using i ok ne rb.first by simp
    obtain k l where dl: "dl ?s (sink x) = (k, l)" by fastforce
    from assms(4) e obtain got rest where ss: "ss = got @ undelivered x @ rest"
      and got: "deliver_all dl got l0 = (True, sink x)" and pend: "pending rd w1 x rest"
      and fin: "ppc x = PEnd \<longrightarrow> readResult x = read_result ss" "\<forall>s. ppc x = PDone s \<longrightarrow> s = last ss"
      by (rule deliversE)
    have ss': "ss = (got @ [?s]) @ tl (items (rg x)) @ rest"
      using ss CHold ne by (simp add: undelivered_def)
    have g: "deliver_all dl (got @ [?s]) l0 = (k, l)"
      using got dl by (cases k) (simp_all add: deliver_all_append)
    show ?thesis
    proof (cases k)
      case True
      with assms(1,3) CHold dl s have y: "y = x\<lparr>sink := l, cpc := CUnpop False\<rparr>"
        by (simp add: cons_step.simps)
      have "pending rd w1 y rest" using pend y by (simp add: pending_def split: producer.splits)
      with True y g ss' fin e show ?thesis
        by (intro deliversI[of y ss "got @ [?s]" rest])
          (auto simp: undelivered_def simp del: append_assoc)
    next
      case False
      with assms(1,3) CHold dl s have y: "y = x\<lparr>sink := l, isErr := True, cpc := CUnpop True\<rparr>"
        by (simp add: cons_step.simps)
      have "deliver_all dl ss l0 = (False, l)"
        unfolding ss' by (subst deliver_all_append) (simp add: g False)
      with y show ?thesis by (simp add: delivers_def)
    qed
  next
    case (CUnpop k)
    with assms(1) have y: "y = x\<lparr>rg := unpop (rg x), cpc := (if k then CEnd else CPop)\<rparr>"
      by (simp add: cons_step.simps)
    have ne: "items (rg x) \<noteq> []" using assms(2) CUnpop by (auto simp: xfer_ok_def)
    have "undelivered y = undelivered x"
      using y CUnpop rb.elems_release[OF ok ne] by (auto simp: undelivered_def)
    moreover have "pending rd w1 y rest = pending rd w1 x rest" for rest
      using y by (simp add: pending_def split: producer.split)
    ultimately show ?thesis using assms(4) y by (simp add: delivers_def)
  next
    case CEnd
    with assms show ?thesis by (simp add: cons_step.simps)
  qed
qed

lemma xfer_step_killed: "xfer_step rd dl x y \<Longrightarrow> killed x \<Longrightarrow> killed y"
  by (induction rule: xfer_step.induct)
    (auto simp: prod_step.simps cons_step.simps
      split: producer.splits consumer.splits pop_result.splits prod.splits option.splits bool.splits if_splits)

lemma delivers_step:
  assumes "xfer_step rd dl x y" "xfer_ok x" "\<not> killed y" "delivers rd dl ss w1 l0 x"
  shows "delivers rd dl ss w1 l0 y"
  using assms(1)
proof cases
  case producer
  with assms xfer_step_killed[OF assms(1)] show ?thesis by (blast intro: delivers_prod)
next
  case consumer
  with assms xfer_step_killed[OF assms(1)] show ?thesis by (blast intro: delivers_cons)
next
  case kill
  with assms(3) show ?thesis by simp
qed

lemma reach_delivers:
  assumes "xfer_reach rd dl (xfer_init w l) x" "\<not> killed x" "read_all rd n w = Some (ss, w1)"
  shows "delivers rd dl ss w1 l x"
  using assms
proof (induction x rule: xfer_reach.induct)
  case start
  then show ?case by (simp add: delivers_init)
next
  case (step x y)
  have "\<not> killed x" using xfer_step_killed step.hyps(2) step.prems(1) by blast
  with step show ?case
    using xfer_reach_ok[OF step.hyps(1) xfer_ok_init] by (blast intro: delivers_step)
qed

lemma reach_finished:
  assumes "xfer_reach rd dl (xfer_init w l) x" "finished x" "\<not> killed x"
    "read_all rd n w = Some (ss, w1)"
  shows "deliver_all dl ss l = (\<not> isErr x, sink x)"
    and "\<not> isErr x \<Longrightarrow> readResult x = read_result ss \<and> src x = w1"
proof -
  have d: "delivers rd dl ss w1 l x" by (rule reach_delivers[OF assms(1,3,4)])
  have ok: "xfer_ok x" by (rule xfer_reach_ok[OF assms(1) xfer_ok_init])
  show "deliver_all dl ss l = (\<not> isErr x, sink x)"
  proof (cases "isErr x")
    case True
    with d show ?thesis by (simp add: delivers_def)
  next
    case False
    with assms(2) ok have "undelivered x = []"
      by (simp add: finished_def xfer_ok_def undelivered_def)
    with d False assms(2) show ?thesis
      by (elim deliversE) (auto simp: finished_def pending_def)
  qed
  show "\<not> isErr x \<Longrightarrow> readResult x = read_result ss \<and> src x = w1"
    using d assms(2) by (auto simp: delivers_def finished_def pending_def)
qed


subsection \<open>Every run ends\<close>

text \<open>
  When the source ends after finitely many reads, each step of either thread lowers \<open>work\<close>:
  the reads left, what is in the ring, and where the threads stand in their loops.
\<close>

definition prod_work :: "('w \<Rightarrow> segment \<times> 'w) \<Rightarrow> ('w, 'l) xfer \<Rightarrow> nat \<Rightarrow> bool" where
  "prod_work rd x k = (case ppc x of
     PTop \<Rightarrow> \<exists>n ss w. read_all rd n (src x) = Some (ss, w) \<and> k = 10 * length ss + 5
   | PRead \<Rightarrow> \<exists>n ss w. read_all rd n (src x) = Some (ss, w) \<and> k = 10 * length ss + 4
   | PPush s \<Rightarrow> (if seg_size s \<le> 0 then k = 9
                 else \<exists>n ss w. read_all rd n (src x) = Some (ss, w) \<and> k = 10 * length ss + 9)
   | PDone s \<Rightarrow> k = 1
   | PEnd \<Rightarrow> k = 0)"

definition cons_work :: "('w, 'l) xfer \<Rightarrow> nat" where
  "cons_work x = 3 * length (items (rg x)) +
     (case cpc x of CPop \<Rightarrow> 3 | CHold i \<Rightarrow> 2 | CUnpop k \<Rightarrow> 1 | CEnd \<Rightarrow> 0)"

definition work :: "('w \<Rightarrow> segment \<times> 'w) \<Rightarrow> ('w, 'l) xfer \<Rightarrow> nat \<Rightarrow> bool" where
  "work rd x k \<longleftrightarrow> (\<exists>p. prod_work rd x p \<and> k = p + cons_work x + (if killed x then 0 else 1))"

lemma workI: "prod_work rd x p \<Longrightarrow> work rd x (p + cons_work x + (if killed x then 0 else 1))"
  unfolding work_def by blast

lemma prod_work_step:
  assumes "prod_step rd x = Some y" "prod_work rd x k" "ring_ok (rg x)"
  shows "\<exists>j. prod_work rd y j \<and> j + cons_work y < k + cons_work x"
proof (cases "ppc x")
  case PTop
  then obtain n ss w where "read_all rd n (src x) = Some (ss, w)" "k = 10 * length ss + 5"
    using assms(2) by (auto simp: prod_work_def)
  note k = this
  show ?thesis
  proof (cases "isErr x \<or> killed x")
    case True
    with PTop assms(1) k(2) show ?thesis
      by (auto simp: prod_step.simps prod_work_def cons_work_def items_done split: if_splits)
  next
    case False
    with PTop assms(1) have y: "y = x\<lparr>ppc := PRead\<rparr>" by (simp add: prod_step.simps)
    with k have "prod_work rd y (10 * length ss + 4)" by (auto simp: prod_work_def)
    with k y show ?thesis by (intro exI[of _ "10 * length ss + 4"]) (simp add: cons_work_def)
  qed
next
  case PRead
  obtain s w where rd: "rd (src x) = (s, w)" by fastforce
  from PRead assms(2) obtain n ss w' where ra: "read_all rd n (src x) = Some (ss, w')"
    and k: "k = 10 * length ss + 4" by (auto simp: prod_work_def)
  from rd PRead assms(1) have y: "y = x\<lparr>rg := fill s (rg x), src := w, ppc := PPush s\<rparr>"
    by (simp add: prod_step.simps)
  have c: "cons_work y = cons_work x"
    using y assms(3) by (simp add: cons_work_def items_fill)
  show ?thesis
  proof (cases "seg_size s \<le> 0")
    case True
    moreover from ra have "1 \<le> length ss" using read_all_last[OF ra] by (cases ss) auto
    ultimately show ?thesis using y k c by (intro exI[of _ 9]) (simp add: prod_work_def)
  next
    case False
    with ra rd obtain m ss' where "read_all rd m w = Some (ss', w')" "ss = s # ss'"
      by (cases n) (auto split: option.splits)
    with False y k c show ?thesis
      by (intro exI[of _ "10 * length ss' + 9"]) (auto simp: prod_work_def)
  qed
next
  case (PPush s)
  with assms(1) obtain b where b: "push (rg x) = Some b"
    and y: "y = x\<lparr>rg := b, ppc := (if seg_size s \<le> 0 then PDone s else PTop)\<rparr>"
    by (auto simp: prod_step.simps split: option.splits)
  have c: "cons_work y = cons_work x + 3"
    using y items_push[OF assms(3) b] by (simp add: cons_work_def)
  show ?thesis
  proof (cases "seg_size s \<le> 0")
    case True
    with PPush assms(2) have "k = 9" by (simp add: prod_work_def)
    with True y c show ?thesis by (intro exI[of _ 1]) (simp add: prod_work_def)
  next
    case False
    with PPush assms(2) obtain n ss w where "read_all rd n (src x) = Some (ss, w)"
      "k = 10 * length ss + 9" by (auto simp: prod_work_def)
    with False y c show ?thesis
      by (intro exI[of _ "10 * length ss + 5"]) (auto simp: prod_work_def)
  qed
next
  case (PDone s)
  with assms show ?thesis by (auto simp: prod_step.simps prod_work_def cons_work_def items_done)
next
  case PEnd
  with assms show ?thesis by (simp add: prod_step.simps)
qed

lemma cons_work_step:
  assumes "cons_step dl x = Some y" "xfer_ok x"
  shows "cons_work y < cons_work x" "prod_work rd y k = prod_work rd x k" "killed y = killed x"
proof -
  have ok: "ring_ok (rg x)" using assms(2) by (simp add: xfer_ok_def)
  show "cons_work y < cons_work x"
  proof (cases "cpc x")
    case CPop
    with ok assms(1) show ?thesis
      by (elim pop_cases) (auto simp: cons_step.simps cons_work_def)
  next
    case (CHold i)
    with assms(1) show ?thesis
      by (auto simp: cons_step.simps cons_work_def split: if_splits prod.splits bool.splits)
  next
    case (CUnpop k)
    with assms have "items (rg x) \<noteq> []" by (auto simp: xfer_ok_def)
    with CUnpop assms(1) ok show ?thesis
      by (cases "items (rg x)") (auto simp: cons_step.simps cons_work_def items_unpop)
  next
    case CEnd
    with assms show ?thesis by (simp add: cons_step.simps)
  qed
  have "ppc y = ppc x \<and> src y = src x \<and> killed y = killed x"
    using assms(1) by (auto simp: cons_step.simps split: consumer.splits pop_result.splits if_splits
        prod.splits bool.splits)
  then show "prod_work rd y k = prod_work rd x k" "killed y = killed x"
    by (simp_all add: prod_work_def cong: producer.case_cong)
qed

lemma cons_work_step_killed: "cons_step dl x = Some y \<Longrightarrow> killed y = killed x"
  by (auto simp: cons_step.simps split: consumer.splits pop_result.splits prod.splits bool.splits if_splits)

lemma prod_step_killed: "prod_step rd x = Some y \<Longrightarrow> killed y = killed x"
  by (auto simp: prod_step.simps split: producer.splits if_splits prod.splits option.splits)

lemma work_killed:
  "prod_work rd x p \<Longrightarrow> work rd (x\<lparr>killed := True\<rparr>) (p + cons_work x)"
proof -
  assume "prod_work rd x p"
  then have "prod_work rd (x\<lparr>killed := True\<rparr>) p"
    by (simp add: prod_work_def cong: if_cong split: producer.splits)
  from workI[OF this] show ?thesis by (simp add: cons_work_def)
qed

lemma work_step:
  assumes "xfer_step rd dl x y" "xfer_ok x" "work rd x k"
  shows "\<exists>j < k. work rd y j"
proof -
  from assms(3) obtain p where p: "prod_work rd x p" "k = p + cons_work x + (if killed x then 0 else 1)"
    by (auto simp: work_def)
  from assms(1) show ?thesis
  proof cases
    case producer
    obtain j where "prod_work rd y j" "j + cons_work y < p + cons_work x"
      using prod_work_step[OF producer p(1) xfer_ok_ring[OF assms(2)]] by blast
    with p(2) prod_step_killed[OF producer] show ?thesis using workI[of rd y j]
      by (intro exI[of _ "j + cons_work y + (if killed y then 0 else 1)"]) simp
  next
    case consumer
    then have "prod_work rd y p" "cons_work y < cons_work x" "killed y = killed x"
      using cons_work_step[OF consumer assms(2)] p(1) by simp_all
    with p(2) show ?thesis using workI[of rd y p]
      by (intro exI[of _ "p + cons_work y + (if killed y then 0 else 1)"]) auto
  next
    case kill
    with p work_killed[of rd x p] show ?thesis by auto
  qed
qed

lemma work_init:
  "read_all rd n w = Some (ss, w') \<Longrightarrow> work rd (xfer_init w l) (10 * length ss + 9)"
  by (auto simp: work_def prod_work_def cons_work_def xfer_init_def items_new)

lemma relpowp_work:
  "(xfer_step rd dl ^^ m) x y \<Longrightarrow> xfer_ok x \<Longrightarrow> work rd x k \<Longrightarrow> m \<le> k"
proof (induction m arbitrary: x k)
  case (Suc m)
  then obtain z where z: "xfer_step rd dl x z" "(xfer_step rd dl ^^ m) z y"
    by (meson relpowp_Suc_D2)
  with Suc.prems obtain j where "j < k" "work rd z j" using work_step by blast
  moreover from z(1) Suc.prems have "xfer_ok z" by (blast intro: xfer_step_ok)
  ultimately show ?case using Suc.IH z(2) by fastforce
qed simp

subsection \<open>Schedules\<close>

text \<open>Some schedule without \<open>Kill\<close> brings both loops to their end, when the source ends.\<close>

lemma complete_run:
  assumes "xfer_ok x" "work rd x k"
  shows "\<exists>sched. Kill \<notin> set sched \<and> finished (run_schedule rd dl sched x)"
  using assms
proof (induction k arbitrary: x rule: less_induct)
  case (less k)
  show ?case
  proof (cases "finished x")
    case True
    then show ?thesis by (intro exI[of _ "[]"]) (simp add: run_schedule_def)
  next
    case False
    from xfer_progress[OF less.prems(1) False, of rd dl]
    obtain a y where a: "a \<noteq> Kill" "act rd dl a x = y" "xfer_step rd dl x y"
      by (elim disjE; force simp: act.simps intro: xfer_step.intros)
    from work_step[OF a(3) less.prems] obtain j where j: "j < k" "work rd y j" by blast
    from less.IH[OF j(1) xfer_step_ok[OF a(3) less.prems(1)] j(2)] obtain sched where
      "Kill \<notin> set sched" "finished (run_schedule rd dl sched y)" by blast
    with a show ?thesis by (intro exI[of _ "a # sched"]) (simp add: run_schedule_def)
  qed
qed

lemma complete_schedule:
  "read_all rd n w = Some r \<Longrightarrow>
   \<exists>sched. Kill \<notin> set sched \<and> finished (run_schedule rd dl sched (xfer_init w l))"
  by (cases r) (blast intro: complete_run xfer_ok_init work_init)

lemma act_killed: "a \<noteq> Kill \<Longrightarrow> killed (act rd dl a x) = killed x"
  by (cases a; cases "prod_step rd x"; cases "cons_step dl x")
    (simp_all add: prod_step_killed cons_work_step_killed)

lemma run_not_killed: "Kill \<notin> set sched \<Longrightarrow> killed (run_schedule rd dl sched x) = killed x"
  unfolding run_schedule_def
proof (induction sched arbitrary: x)
  case (Cons a sched)
  from Cons.prems have "a \<noteq> Kill" "Kill \<notin> set sched" by auto
  from Cons.IH[OF this(2), of "act rd dl a x"] act_killed[OF this(1), of rd dl x]
  show ?case by (simp only: fold_Cons o_apply)
qed (simp only: fold_Nil id_apply)

text \<open>What holds of every read holds between the start and the end of the source.\<close>

lemma src_prod_step: "prod_step rd x = Some y \<Longrightarrow> src y = src x \<or> src y = snd (rd (src x))"
  by (auto simp: prod_step.simps split: producer.splits prod.splits option.splits if_splits)

lemma src_cons_step: "cons_step dl x = Some y \<Longrightarrow> src y = src x"
  by (auto simp: cons_step.simps split: consumer.splits pop_result.splits prod.splits bool.splits if_splits)

lemma src_reach:
  assumes "reflp R" "transp R" "\<And>w. R w (snd (rd w))" "xfer_reach rd dl x0 x"
  shows "R (src x0) (src x)"
  using assms(4)
proof (induction x rule: xfer_reach.induct)
  case start
  then show ?case using assms(1) by (simp add: reflpD)
next
  case (step x y)
  from step.hyps(2) have "src y = src x \<or> src y = snd (rd (src x))"
    by cases (auto dest: src_prod_step src_cons_step)
  with step.IH assms show ?case by (metis transpD)
qed

section \<open>Properties\<close>

text \<open>
  The segment size lies between one byte and 4 MiB, is at least 64 KiB unless the file is
  smaller, and is never larger than a file that is not empty.
\<close>

lemma segment_size_bounds:
  "1 \<le> segmentSizeForFileSize n \<and> segmentSizeForFileSize n \<le> 4 * 1024 * 1024
   \<and> (if 0 < n then min (64 * 1024) n \<le> segmentSizeForFileSize n \<and> segmentSizeForFileSize n \<le> n
      else segmentSizeForFileSize n = 64 * 1024)"
  by (auto simp: segment_size_defs Let_def)

text \<open>
  C5. The ring implements a first-in first-out queue of three segments: publishing appends the
  segment that was filled and waits exactly when three are inside, popping yields the oldest one
  and waits exactly when the queue is empty and not done, releasing drops it.
\<close>

theorem ring_refines_queue:
  assumes "ring_ok b"
  shows "ring_ok (fill s b) \<and> items (fill s b) = items b
    \<and> (case push (fill s b) of None \<Rightarrow> length (items b) = 3
       | Some b' \<Rightarrow> ring_ok b' \<and> items b' = items b @ [s])
    \<and> (case pop b of PopWait \<Rightarrow> items b = [] \<and> \<not> m_done b | PopNull \<Rightarrow> items b = [] \<and> m_done b
       | PopSegment i \<Rightarrow> items b \<noteq> [] \<and> m_buffer b ! i = hd (items b)
           \<and> ring_ok (unpop b) \<and> items (unpop b) = tl (items b))"
proof -
  note f = ring_ok_fill[OF assms, of s] items_fill[OF assms, of s]
  have "case push (fill s b) of None \<Rightarrow> length (items b) = 3
       | Some b' \<Rightarrow> ring_ok b' \<and> items b' = items b @ [s]"
    using f push_waits[of "fill s b"] rb.slot_put[OF assms]
    by (auto simp: items_push intro: ring_ok_push split: option.splits)
  moreover have "case pop b of PopWait \<Rightarrow> items b = [] \<and> \<not> m_done b
       | PopNull \<Rightarrow> items b = [] \<and> m_done b
       | PopSegment i \<Rightarrow> items b \<noteq> [] \<and> m_buffer b ! i = hd (items b)
           \<and> ring_ok (unpop b) \<and> items (unpop b) = tl (items b)"
    using assms by (rule pop_cases) (use assms in \<open>auto simp: rb.first ring_ok_unpop items_unpop\<close>)
  ultimately show ?thesis using f by blast
qed

theorem ring_refines_queue_witness:
  "items (fill ReadError newRing) = [] \<and> pop newRing = PopWait"
  using ring_refines_queue[OF ring_ok_new, of ReadError] by (simp add: items_new) (simp add: ring_defs)

text \<open>
  C4. In every state the two threads can reach, the segment that the producer reads into is not
  the one that the consumer is using.
\<close>

theorem no_data_race:
  assumes "xfer_reach rd dl (xfer_init w l) x" "cpc x = CHold i"
  shows "i \<noteq> nextFree (rg x)"
proof -
  have "xfer_ok x" by (rule xfer_reach_ok[OF assms(1) xfer_ok_init])
  with assms(2) have "ring_ok (rg x)" "i = tail (rg x)" "items (rg x) \<noteq> []"
    by (auto simp: xfer_ok_def)
  then show ?thesis by (auto simp: pop_empty nextFree_def)
qed

text \<open>A source that is a list of blocks, and a receiver that collects what it is given.\<close>

definition list_source :: "byte list list \<Rightarrow> segment \<times> byte list list" where
  "list_source w = (case w of [] \<Rightarrow> (Bytes [], []) | b # bs \<Rightarrow> (Bytes b, bs))"

definition list_sink :: "segment \<Rightarrow> segment list \<Rightarrow> bool \<times> segment list" where
  "list_sink s l = (True, l @ [s])"

definition example_init :: "(byte list list, segment list) xfer" where
  "example_init = xfer_init [[1]] []"

definition example_schedule :: "actor list" where
  "example_schedule = [Producer, Producer, Producer, Consumer]"

theorem no_data_race_witness:
  "xfer_reach list_source list_sink (xfer_init [[1]] [])
     (run_schedule list_source list_sink example_schedule (xfer_init [[1]] []))
   \<and> (0::nat) \<noteq> nextFree (rg (run_schedule list_source list_sink example_schedule (xfer_init [[1]] [])))"
proof -
  let ?x = "run_schedule list_source list_sink example_schedule (xfer_init [[1]] [])"
  have c: "cpc ?x = CHold 0"
    by (simp add: run_schedule_def example_schedule_def xfer_init_def ring_defs Let_def
        prod_step.simps cons_step.simps list_source_def)
  show ?thesis using no_data_race[OF run_schedule_reach c] run_schedule_reach by blast
qed

text \<open>
  C2. The threads cannot block each other: in every reachable state, unless both loops have ended,
  one of the two threads can go on. This includes runs in which the application asked to stop or a
  write failed.
\<close>

theorem no_deadlock:
  assumes "xfer_reach rd dl (xfer_init w l) x" "\<not> finished x"
  shows "prod_step rd x \<noteq> None \<or> cons_step dl x \<noteq> None"
  using xfer_progress xfer_reach_ok[OF assms(1) xfer_ok_init] assms(2) by blast

theorem no_deadlock_witness: "\<exists>y. prod_step list_source example_init = Some y"
proof -
  have "\<not> finished example_init" by (simp add: finished_def xfer_init_def example_init_def)
  with no_deadlock[of list_source list_sink "[[1]]" "[]" example_init] xfer_reach.start
  have "prod_step list_source example_init \<noteq> None \<or> cons_step list_sink example_init \<noteq> None"
    unfolding example_init_def by blast
  moreover have "cons_step list_sink example_init = None"
    by (simp add: example_init_def xfer_init_def cons_step.simps ring_defs)
  ultimately show ?thesis by simp
qed



text \<open>
  C1. When both loops have ended and nobody asked to stop, the receiver has got exactly the
  segments of the source in their order, up to the first one it refused, whatever the
  interleaving was. If none was refused, the producer's result is the read error of the source if
  it had one, and the source has been read to its end.
\<close>

theorem transfer_delivers_in_order:
  assumes "xfer_reach rd dl (xfer_init w l) x" "finished x" "\<not> killed x"
    and "read_all rd n w = Some (ss, w')"
  shows "deliver_all dl ss l = (\<not> isErr x, sink x)
    \<and> (isErr x \<or> (readResult x = read_result ss \<and> src x = w'))"
  using reach_finished[OF assms] by blast

definition full_schedule :: "actor list" where
  "full_schedule = replicate 9 Producer @ replicate 8 Consumer"

theorem transfer_delivers_in_order_witness:
  "deliver_all list_sink [Bytes [1], Bytes []] [] =
    (True, sink (run_schedule list_source list_sink full_schedule (xfer_init [[1]] [])))"
proof -
  let ?x = "run_schedule list_source list_sink full_schedule (xfer_init [[1]] [])"
  have "finished ?x \<and> \<not> killed ?x \<and> \<not> isErr ?x"
    by code_simp
  moreover have "read_all list_source 2 [[1]] = Some ([Bytes [1], Bytes []], [])"
    by (simp add: list_source_def eval_nat_numeral)
  ultimately show ?thesis
    using transfer_delivers_in_order[OF run_schedule_reach, of list_source list_sink full_schedule
        "[[1]]" "[]" 2 "[Bytes [1], Bytes []]" "[]"] by simp
qed

end
