(* ===== verification/SmbWorld.thy ===== *)
theory SmbWorld
  imports SmbUrl SmbTransfer
begin

text \<open>
  The state of an \<open>SMBWorker\<close> and what it calls. libsmbclient (on a state \<open>'w\<close>) and the application
  with the local file system (on a state \<open>'l\<close>) are the parameter \<open>smbc\<close>: every function takes the
  state and returns its answer and the next state, so nothing is assumed about them. Each call to
  libsmbclient is recorded in \<open>calls\<close>, each message to the application in \<open>msgs\<close>, in order.
\<close>

section \<open>Calls, messages, parameters\<close>

type_synonym open_flags = u32

definition O_RDONLY :: open_flags where "O_RDONLY = 0"
definition O_WRONLY :: open_flags where "O_WRONLY = 1"
definition O_RDWR :: open_flags where "O_RDWR = 2"
definition O_CREAT :: open_flags where "O_CREAT = 0x40"
definition O_EXCL :: open_flags where "O_EXCL = 0x80"
definition O_TRUNC :: open_flags where "O_TRUNC = 0x200"
definition O_APPEND :: open_flags where "O_APPEND = 0x400"

lemmas open_flag_defs = O_RDONLY_def O_WRONLY_def O_RDWR_def O_CREAT_def O_EXCL_def O_TRUNC_def
  O_APPEND_def

datatype smb_call =
    CStat string | COpen string open_flags mode_t | CClose int | CRead int int
  | CWrite int "byte list" | CSeek int int bool | CTruncate int int | CUnlink string | CRmdir string
  | CMkdir string mode_t | CRename string string | CUtime string int int | CStatvfs string
  | COpendir string | CClosedir int | CReaddirplus int | CReaddir int

fun is_stat :: "smb_call \<Rightarrow> bool" where
  "is_stat (CStat u) = True"
| "is_stat _ = False"

datatype kmsg =
    MRedirection qurl | MTotalSize int | MMimeType string | MData segment | MProcessedSize filesize
  | MPosition int | MWritten int | MTruncated int | MDataReq | MStatEntry uds | MListEntry uds
  | MListEntries "uds list" | MWarning string | MMetaData string string | MCacheAuth string string

record file_info =
  fi_exists :: bool
  fi_isDir :: bool
  fi_size :: int

datatype open_error = OpenError | PermissionsError | OtherError

datatype dialog_result = DialogOk string bool | DialogError kio_error

record statvfs_t =
  f_bsize :: u64
  f_frsize :: u64
  f_blocks :: u64
  f_bfree :: u64
  f_bavail :: u64

text \<open>
  In \<open>l_lseek\<close> the flag is True for \<open>SEEK_END\<close>, False for \<open>SEEK_SET\<close>. \<open>l_write\<close> gives the number of
  bytes written, negative for an error; the other calls give \<open>E_OK\<close> or the error number. \<open>q_\<close> are
  the functions of \<open>QFile\<close> and \<open>QFileInfo\<close>, \<open>a_\<close> those of the worker base class.
\<close>

record ('w, 'l) smbc =
  l_valid :: bool
  l_stat :: "string \<Rightarrow> stat_t \<Rightarrow> 'w \<Rightarrow> (errno \<times> stat_t) \<times> 'w"
  l_open :: "string \<Rightarrow> open_flags \<Rightarrow> mode_t \<Rightarrow> 'w \<Rightarrow> (errno \<times> int) \<times> 'w"
  l_close :: "int \<Rightarrow> 'w \<Rightarrow> errno \<times> 'w"
  l_read :: "int \<Rightarrow> int \<Rightarrow> 'w \<Rightarrow> segment \<times> 'w"
  l_write :: "int \<Rightarrow> byte list \<Rightarrow> 'w \<Rightarrow> int \<times> 'w"
  l_lseek :: "int \<Rightarrow> int \<Rightarrow> bool \<Rightarrow> 'w \<Rightarrow> (errno \<times> int) \<times> 'w"
  l_ftruncate :: "int \<Rightarrow> int \<Rightarrow> 'w \<Rightarrow> errno \<times> 'w"
  l_unlink :: "string \<Rightarrow> 'w \<Rightarrow> errno \<times> 'w"
  l_rmdir :: "string \<Rightarrow> 'w \<Rightarrow> errno \<times> 'w"
  l_mkdir :: "string \<Rightarrow> mode_t \<Rightarrow> 'w \<Rightarrow> errno \<times> 'w"
  l_rename :: "string \<Rightarrow> string \<Rightarrow> 'w \<Rightarrow> errno \<times> 'w"
  l_utime :: "string \<Rightarrow> int \<Rightarrow> int \<Rightarrow> 'w \<Rightarrow> errno \<times> 'w"
  l_statvfs :: "string \<Rightarrow> 'w \<Rightarrow> (errno \<times> statvfs_t) \<times> 'w"
  l_strerror :: "errno \<Rightarrow> string"
  q_info :: "string \<Rightarrow> 'l \<Rightarrow> file_info \<times> 'l"
  q_setPermissions :: "string \<Rightarrow> u32 \<Rightarrow> 'l \<Rightarrow> 'l"
  a_convertPermissions :: "u32 \<Rightarrow> u32"
  q_open :: "string \<Rightarrow> bool \<Rightarrow> 'l \<Rightarrow> open_error option \<times> 'l"
  q_openRead :: "string \<Rightarrow> 'l \<Rightarrow> open_error option \<times> 'l"
  q_write :: "segment \<Rightarrow> 'l \<Rightarrow> int \<times> 'l"
  q_read :: "int \<Rightarrow> 'l \<Rightarrow> segment \<times> 'l"
  q_seek :: "filesize \<Rightarrow> 'l \<Rightarrow> bool \<times> 'l"
  q_flush :: "'l \<Rightarrow> bool \<times> 'l"
  q_setMTime :: "int \<Rightarrow> 'l \<Rightarrow> 'l"
  q_close :: "'l \<Rightarrow> 'l"
  q_remove :: "string \<Rightarrow> 'l \<Rightarrow> bool \<times> 'l"
  q_rename :: "string \<Rightarrow> string \<Rightarrow> 'l \<Rightarrow> bool \<times> 'l"
  a_wasKilled :: "'l \<Rightarrow> bool \<times> 'l"
  a_readData :: "'l \<Rightarrow> (int \<times> byte list) \<times> 'l"
  a_canResume :: "int \<Rightarrow> 'l \<Rightarrow> bool \<times> 'l"
  a_markPartial :: bool
  a_minimumKeepSize :: int
  a_modified :: "int option"
  a_now :: int
  a_mimeType :: "string \<Rightarrow> segment \<Rightarrow> string"
  a_passwordDialog :: "string \<Rightarrow> string \<Rightarrow> string \<Rightarrow> 'l \<Rightarrow> dialog_result \<times> 'l"
  a_resolves :: "string \<Rightarrow> bool"
  a_eexistWorkaround :: bool

section \<open>The worker's state\<close>

record 'w smbside =
  lw :: 'w
  calls :: "smb_call list"

record 'l appside =
  aw :: 'l
  msgs :: "kmsg list"

record ('w, 'l) wk =
  smbS :: "'w smbside"
  appS :: "'l appside"
  m_current_url :: smburl
  m_openUrl :: smburl
  m_st :: stat_t
  m_openFd :: int

text \<open>Updates of different parts commute; this is the order in which states are written.\<close>

lemma wk_order [simp]:
  "smbS_update f (appS_update g s) = appS_update g (smbS_update f s)"
  "m_st_update h (appS_update g s) = appS_update g (m_st_update h s)"
  "m_st_update h (smbS_update f s) = smbS_update f (m_st_update h s)"
  "m_openFd_update i (appS_update g s) = appS_update g (m_openFd_update i s)"
  "m_openFd_update i (smbS_update f s) = smbS_update f (m_openFd_update i s)"
  "m_openFd_update i (m_st_update h s) = m_st_update h (m_openFd_update i s)"
  "msgs_update p (aw_update q a) = aw_update q (msgs_update p a)"
  by simp_all

definition smb_call :: "smb_call \<Rightarrow> ('w \<Rightarrow> 'a \<times> 'w) \<Rightarrow> (('w, 'l) wk, 'a) state" where
  "smb_call c f = State (\<lambda>s. case f (lw (smbS s)) of
     (a, w) \<Rightarrow> (a, s\<lparr>smbS := \<lparr>lw = w, calls = calls (smbS s) @ [c]\<rparr>\<rparr>))"

definition app_call :: "('l \<Rightarrow> 'a \<times> 'l) \<Rightarrow> (('w, 'l) wk, 'a) state" where
  "app_call f = State (\<lambda>s. case f (aw (appS s)) of
     (a, l) \<Rightarrow> (a, s\<lparr>appS := (appS s)\<lparr>aw := l\<rparr>\<rparr>))"

definition app_do :: "('l \<Rightarrow> 'l) \<Rightarrow> (('w, 'l) wk, unit) state" where
  "app_do f = app_call (\<lambda>l. ((), f l))"

definition emit :: "kmsg \<Rightarrow> (('w, 'l) wk, unit) state" where
  "emit m = State (\<lambda>s. ((), s\<lparr>appS := (appS s)\<lparr>msgs := msgs (appS s) @ [m]\<rparr>\<rparr>))"

abbreviation ret :: "'a \<Rightarrow> ('s, 'a) state" where
  "ret \<equiv> State_Monad.return"

lemma wp_smb_call [wp_simps]:
  "wp (smb_call c f) Q s = (case f (lw (smbS s)) of
     (a, w) \<Rightarrow> Q a (s\<lparr>smbS := \<lparr>lw = w, calls = calls (smbS s) @ [c]\<rparr>\<rparr>))"
  by (simp add: wp_def smb_call_def split: prod.splits)

lemma wp_app_call [wp_simps]:
  "wp (app_call f) Q s = (case f (aw (appS s)) of (a, l) \<Rightarrow> Q a (s\<lparr>appS := (appS s)\<lparr>aw := l\<rparr>\<rparr>))"
  by (simp add: wp_def app_call_def split: prod.splits)

lemma wp_app_do [wp_simps]: "wp (app_do f) Q s = Q () (s\<lparr>appS := (appS s)\<lparr>aw := f (aw (appS s))\<rparr>\<rparr>)"
  by (simp add: app_do_def wp_app_call)

lemma wp_emit [wp_simps]:
  "wp (emit m) Q s = Q () (s\<lparr>appS := (appS s)\<lparr>msgs := msgs (appS s) @ [m]\<rparr>\<rparr>)"
  by (simp add: wp_def emit_def)

lemma run_emit [simp]:
  "run_state (emit m) s = ((), s\<lparr>appS := (appS s)\<lparr>msgs := msgs (appS s) @ [m]\<rparr>\<rparr>)"
  by (simp add: emit_def)

section \<open>What a handler may have called\<close>

text \<open>
  \<open>made P s t\<close>: between \<open>s\<close> and \<open>t\<close> only calls that satisfy \<open>P\<close> were made, after those before. It is
  reflexive and transitive, so it passes from the calls to the handlers.
\<close>

definition made :: "(smb_call \<Rightarrow> bool) \<Rightarrow> ('w, 'l) wk \<Rightarrow> ('w, 'l) wk \<Rightarrow> bool" where
  "made P s t \<longleftrightarrow> (\<exists>cs. calls (smbS t) = calls (smbS s) @ cs \<and> list_all P cs)"

lemma reflp_made [rel_intros]: "reflp (made P)"
  by (auto simp: made_def intro: reflpI)

lemma transp_made [rel_intros]: "transp (made P)"
  by (rule transpI) (fastforce simp: made_def)

lemma made_smb_call: "P c \<Longrightarrow> state_io_rel (made P) (smb_call c f)"
  by (auto simp: state_io_rel_def made_def smb_call_def split: prod.splits)

lemma made_app [rel_intros]:
  "state_io_rel (made P) (app_call f)" "state_io_rel (made P) (app_do g)"
  "state_io_rel (made P) (emit m)"
  by (auto simp: state_io_rel_def made_def app_do_def app_call_def emit_def split: prod.splits)

lemma made_update:
  "(\<And>s. smbS (f s) = smbS s) \<Longrightarrow> state_io_rel (made P) (State_Monad.update f)"
  by (rule rel_update) (simp add: made_def)

lemma made_mono: "made P s t \<Longrightarrow> (\<And>c. P c \<Longrightarrow> P' c) \<Longrightarrow> made P' s t"
  unfolding made_def by (metis list.pred_mono_strong)

section \<open>stat\<close>

text \<open>
  \<open>cache_stat\<close> into the member \<open>st\<close>, as the handlers call it, and into a variable of the caller.
\<close>

definition cache_stat :: "('w, 'l) smbc \<Rightarrow> smburl \<Rightarrow> stat_t \<Rightarrow> (('w, 'l) wk, errno \<times> stat_t) state" where
  "cache_stat L url st = smb_call (CStat (toSmbcUrl url)) (l_stat L (toSmbcUrl url) st)"

definition stat_member :: "('w, 'l) smbc \<Rightarrow> smburl \<Rightarrow> (('w, 'l) wk, errno) state" where
  "stat_member L url = do {
     s \<leftarrow> State_Monad.get;
     (e, st) \<leftarrow> cache_stat L url (m_st s);
     State_Monad.update (\<lambda>s. s\<lparr>m_st := st\<rparr>);
     ret e
   }"

lemma made_cache_stat [rel_intros]: "(\<And>u. P (CStat u)) \<Longrightarrow> state_io_rel (made P) (cache_stat L url st)"
  by (simp add: cache_stat_def made_smb_call)

lemma made_stat_member [rel_intros]: "(\<And>u. P (CStat u)) \<Longrightarrow> state_io_rel (made P) (stat_member L url)"
  unfolding stat_member_def
  by (intro rel_intros rel_bind[OF transp_made] made_cache_stat made_update) auto

text \<open>The time stamp that the application asks for, if any, is set on the destination.\<close>

definition applyMTimeSMBC :: "('w, 'l) smbc \<Rightarrow> smburl \<Rightarrow> (('w, 'l) wk, unit) state" where
  "applyMTimeSMBC L url = (case a_modified L of
     None \<Rightarrow> ret ()
   | Some t \<Rightarrow> do {
       _ \<leftarrow> smb_call (CUtime (toSmbcUrl url) (a_now L) t) (l_utime L (toSmbcUrl url) (a_now L) t);
       ret ()
     })"

section \<open>Error numbers\<close>

definition errnumToKioError :: "qt \<Rightarrow> ('w, 'l) smbc \<Rightarrow> smburl \<Rightarrow> errno \<Rightarrow> kio_error \<times> string" where
  "errnumToKioError Q L url errNum =
     (let t = fst (getType url); d = displayText Q (base url) in case errNum of
        ENOENT \<Rightarrow> (if t = SMBURLTYPE_ENTIRE_NETWORK
                   then (ERR_WORKER_DEFINED, ''Unable to find any workgroups in your local network. This might be caused by an enabled firewall.'')
                   else (ERR_DOES_NOT_EXIST, d))
      | ENOMEDIUM \<Rightarrow> (ERR_WORKER_DEFINED, ''No media in device for '' @ d)
      | EHOSTDOWN \<Rightarrow> (ERR_WORKER_DEFINED, ''Could not connect to host for '' @ d)
      | ECONNREFUSED \<Rightarrow> (ERR_WORKER_DEFINED, ''Could not connect to host for '' @ d)
      | ENOTDIR \<Rightarrow> (ERR_CANNOT_ENTER_DIRECTORY, d)
      | EFAULT \<Rightarrow> (ERR_DOES_NOT_EXIST, d)
      | EINVAL \<Rightarrow> (ERR_DOES_NOT_EXIST, d)
      | EPERM \<Rightarrow> (ERR_ACCESS_DENIED, d)
      | EACCES \<Rightarrow> (ERR_ACCESS_DENIED, d)
      | EIO \<Rightarrow> (if t = SMBURLTYPE_ENTIRE_NETWORK \<or> t = SMBURLTYPE_WORKGROUP_OR_SERVER
                then (ERR_WORKER_DEFINED, ''Error while connecting to server responsible for '' @ d)
                else (ERR_CONNECTION_BROKEN, d))
      | ENETUNREACH \<Rightarrow> (if t = SMBURLTYPE_ENTIRE_NETWORK \<or> t = SMBURLTYPE_WORKGROUP_OR_SERVER
                then (ERR_WORKER_DEFINED, ''Error while connecting to server responsible for '' @ d)
                else (ERR_CONNECTION_BROKEN, d))
      | ENOMEM \<Rightarrow> (ERR_OUT_OF_MEMORY, d)
      | ENODEV \<Rightarrow> (ERR_WORKER_DEFINED, ''Share could not be found on given server'')
      | EBADF \<Rightarrow> (ERR_INTERNAL, ''Bad file descriptor'')
      | ETIMEDOUT \<Rightarrow> (ERR_SERVER_TIMEOUT, host url)
      | ENOTEMPTY \<Rightarrow> (ERR_CANNOT_RMDIR, d)
      | ENOTUNIQ \<Rightarrow> (ERR_WORKER_DEFINED, ''The given name could not be resolved to a unique server. Make sure your network is setup without any name conflicts between names used by Windows and by UNIX name resolution.'')
      | ECONNABORTED \<Rightarrow> (ERR_CONNECTION_BROKEN, host url)
      | EHOSTUNREACH \<Rightarrow> (ERR_CANNOT_CONNECT, host url @ '': Host unreachable'')
      | E_OK \<Rightarrow> (ERR_INTERNAL, ''libsmbclient reported an error, but did not specify what the problem is. '')
      | e \<Rightarrow> (ERR_INTERNAL, ''Unknown error condition: '' @ l_strerror L e))"

definition reportError :: "qt \<Rightarrow> ('w, 'l) smbc \<Rightarrow> smburl \<Rightarrow> errno \<Rightarrow> worker_result" where
  "reportError Q L url errNum = (case errnumToKioError Q L url errNum of (e, t) \<Rightarrow> Fail e t)"

lemma reportError_fails [simp]: "reportError Q L url e \<noteq> Pass"
  by (simp add: reportError_def split: prod.splits)

end
