(* ===== verification/SmbDemo.thy ===== *)
theory SmbDemo
  imports SmbWorld "HOL-Library.AList"
begin

text \<open>
  A concrete instance of the parameters, small enough to evaluate: a server and a local disk that
  hold files by name, a Qt whose texts are the path. The witnesses of the properties run the
  handlers on it. It is not part of the model of the program.
\<close>

record disk =
  files :: "(string \<times> byte list) list"
  openName :: string
  openPos :: nat

definition content :: "disk \<Rightarrow> string \<Rightarrow> byte list" where
  "content d u = (case map_of (files d) u of None \<Rightarrow> [] | Some b \<Rightarrow> b)"

definition store :: "string \<Rightarrow> byte list \<Rightarrow> disk \<Rightarrow> disk" where
  "store u b d = d\<lparr>files := AList.update u b (files d)\<rparr>"

definition demo_stat_t :: "nat \<Rightarrow> stat_t" where
  "demo_stat_t n = \<lparr>st_mode = S_IFREG, st_size = int n, st_ino = 7, st_dev = 1, st_mtime = 5, st_atime = 5\<rparr>"

definition demo_qt :: qt where
  "demo_qt = \<lparr>cleanPath = (\<lambda>p. p), urlText = path, prettyText = path, displayText = path,
     parseUrl = (\<lambda>t. empty_qurl\<lparr>scheme := ''smb'', path := t\<rparr>), ipv6Text = (\<lambda>_. None),
     upUrl = (\<lambda>u. u), numberText = (\<lambda>_. ''0''), foldCase = (\<lambda>t. t)\<rparr>"

definition demo_url :: "string \<Rightarrow> qurl" where
  "demo_url p = empty_qurl\<lparr>scheme := ''smb'', host := ''h'', path := p\<rparr>"

definition demo_read :: "int \<Rightarrow> disk \<Rightarrow> segment \<times> disk" where
  "demo_read n d = (let r = drop (openPos d) (content d (openName d));
                        b = (if int (length r) \<le> n then r else take (nat n) r)
     in (Bytes b, d\<lparr>openPos := openPos d + length b\<rparr>))"

definition demo_write :: "byte list \<Rightarrow> disk \<Rightarrow> int \<times> disk" where
  "demo_write b d = (int (length b), store (openName d) (content d (openName d) @ b) d)"

definition demo :: "(disk, disk) smbc" where
  "demo = \<lparr>l_valid = True,
     l_stat = (\<lambda>u st d. case map_of (files d) u of
        None \<Rightarrow> ((ENOENT, st), d) | Some b \<Rightarrow> ((E_OK, demo_stat_t (length b)), d)),
     l_open = (\<lambda>u f m d. case map_of (files d) u of
        None \<Rightarrow> (if f AND O_CREAT = 0 then ((ENOENT, -1), d)
                 else ((E_OK, 3), store u [] (d\<lparr>openName := u, openPos := 0\<rparr>)))
      | Some b \<Rightarrow> ((E_OK, 3), (if f AND O_TRUNC = 0 then d else store u [] d)\<lparr>openName := u, openPos := 0\<rparr>)),
     l_close = (\<lambda>fd d. (E_OK, d)),
     l_read = (\<lambda>fd n d. demo_read n d),
     l_write = (\<lambda>fd b d. demo_write b d),
     l_lseek = (\<lambda>fd n e d. ((E_OK, n), d\<lparr>openPos := nat n\<rparr>)),
     l_ftruncate = (\<lambda>fd n d. (E_OK, d)),
     l_unlink = (\<lambda>u d. (E_OK, d\<lparr>files := AList.delete u (files d)\<rparr>)),
     l_rmdir = (\<lambda>u d. (E_OK, d)),
     l_mkdir = (\<lambda>u m d. (EEXIST, d)),
     l_rename = (\<lambda>u v d. (E_OK, store v (content d u) (d\<lparr>files := AList.delete u (files d)\<rparr>))),
     l_utime = (\<lambda>u a m d. (E_OK, d)),
     l_statvfs = (\<lambda>u d. ((E_OK, \<lparr>f_bsize = 4096, f_frsize = 0, f_blocks = 10, f_bfree = 5, f_bavail = 0\<rparr>), d)),
     l_strerror = (\<lambda>e. ''error''),
     q_info = (\<lambda>u d. case map_of (files d) u of
        None \<Rightarrow> (\<lparr>fi_exists = False, fi_isDir = False, fi_size = 0\<rparr>, d)
      | Some b \<Rightarrow> (\<lparr>fi_exists = True, fi_isDir = False, fi_size = int (length b)\<rparr>, d)),
     q_setPermissions = (\<lambda>u p d. d), a_convertPermissions = (\<lambda>p. p),
     q_open = (\<lambda>u app d. (None, (if app then d else store u [] d)\<lparr>openName := u, openPos := 0\<rparr>)),
     q_openRead = (\<lambda>u d. (None, d\<lparr>openName := u, openPos := 0\<rparr>)),
     q_write = (\<lambda>s d. case s of Bytes b \<Rightarrow> demo_write b d | ReadError \<Rightarrow> (-1, d)),
     q_read = (\<lambda>n d. demo_read n d),
     q_seek = (\<lambda>n d. (True, d\<lparr>openPos := unat n\<rparr>)),
     q_flush = (\<lambda>d. (True, d)),
     q_setMTime = (\<lambda>t d. d),
     q_close = (\<lambda>d. d),
     q_remove = (\<lambda>u d. (True, d\<lparr>files := AList.delete u (files d)\<rparr>)),
     q_rename = (\<lambda>u v d. (True, store v (content d u) (d\<lparr>files := AList.delete u (files d)\<rparr>))),
     a_wasKilled = (\<lambda>d. (False, d)),
     a_readData = (\<lambda>d. case files d of [] \<Rightarrow> ((0, []), d)
        | (n, b) # r \<Rightarrow> ((int (length b), b), d\<lparr>files := r\<rparr>)),
     a_canResume = (\<lambda>n d. (True, d)),
     a_markPartial = True, a_minimumKeepSize = 5000, a_modified = None, a_now = 0,
     a_mimeType = (\<lambda>n s. ''text/plain''),
     a_passwordDialog = (\<lambda>h sh u d. (DialogOk u False, d)),
     a_resolves = (\<lambda>h. True), a_eexistWorkaround = False\<rparr>"

definition demo_disk :: "(string \<times> byte list) list \<Rightarrow> disk" where
  "demo_disk fs = \<lparr>files = fs, openName = [], openPos = 0\<rparr>"

definition demo_wk :: "(string \<times> byte list) list \<Rightarrow> (string \<times> byte list) list \<Rightarrow> (disk, disk) wk" where
  "demo_wk remote local = \<lparr>smbS = \<lparr>lw = demo_disk remote, calls = []\<rparr>,
     appS = \<lparr>aw = demo_disk local, msgs = []\<rparr>, m_current_url = newSMBUrl, m_openUrl = newSMBUrl,
     m_st = demo_stat_t 0, m_openFd = -1\<rparr>"

end
