(* ===== verification/SmbBrowse.thy ===== *)
theory SmbBrowse
  imports SmbDemo
begin

text \<open>
  Browsing (smb/kio_smb_browse.cpp) and the password dialog (smb/kio_smb_auth.cpp): checking and
  correcting a URL, \<open>stat\<close>, listing with several discoverers at once, free space.
\<close>

section \<open>checkURL\<close>

text \<open>\<open>mid(5, n)\<close>: from position 5, at most n characters, all when n is negative.\<close>

definition mid5 :: "int \<Rightarrow> string \<Rightarrow> string" where
  "mid5 n s = (if n < 0 then drop 5 s else take (nat n) (drop 5 s))"

definition right :: "int \<Rightarrow> string \<Rightarrow> string" where
  "right n s = drop (length s - nat n) s"

definition wsdSuffix :: string where "wsdSuffix = ''.kio-discovery-wsd''"

definition checkURL :: "qt \<Rightarrow> ('w, 'l) smbc \<Rightarrow> qurl \<Rightarrow> qurl" where
  "checkURL Q L kurl0 =
     (let kurl = (if scheme kurl0 = ''cifs'' then kurl0\<lparr>scheme := ''smb''\<rparr> else kurl0);
          kurl = (if ends_with wsdSuffix (host kurl)
                  then (let h = chop (length wsdSuffix) (host kurl);
                            dnssd = h @ ''.local''
                        in kurl\<lparr>host := (if a_resolves L dnssd then dnssd else h)\<rparr>)
                  else kurl);
          surl = urlText Q kurl;
          last = (if path kurl = [] then kurl\<lparr>path := ''/''\<rparr> else kurl);
          rest = (if surl = ''smb://'' then kurl
                  else if CHR 0x40 \<in> set surl \<and> \<not> contains ''smb://'' surl
                  then (let at = index_of (CHR 0x40) surl;
                            url = kurl\<lparr>path := ''/'' @ right (int (length surl) - at - 1) surl\<rparr>;
                            userinfo = mid5 (at - 5) surl
                        in if CHR '':'' \<in> set userinfo
                           then (let c = index_of (CHR '':'') userinfo
                                 in url\<lparr>userName := take (nat c) userinfo,
                                        password := right (int (length userinfo) - c - 1) userinfo\<rparr>)
                           else url\<lparr>userName := userinfo\<rparr>)
                  else last)
      in if starts_with ''smb:/'' surl
         then (if length surl = 5 then parseUrl Q ''smb://''
               else if surl ! 5 \<noteq> CHR ''/'' then parseUrl Q (''smb://'' @ drop 5 surl)
               else rest)
         else rest)"

section \<open>stat\<close>

definition displayNameForUrl :: "qurl \<Rightarrow> string" where
  "displayNameForUrl url =
     (if fileName url \<noteq> [] then fileName url
      else if host url \<noteq> [] then host url
      else (let workgroup = queryItemValue ''kio-workgroup'' (query url)
            in if workgroup = [] then ''Shared Folders (SMB)'' else workgroup))"

definition statToUDSEntry ::
  "qt \<Rightarrow> qurl \<Rightarrow> stat_t \<Rightarrow> uds \<Rightarrow> (('w, 'l) wk, errno \<times> uds) state" where
  "statToUDSEntry Q url st udsentry =
     (if \<not> S_ISDIR (st_mode st) \<and> \<not> S_ISREG (st_mode st) then do {
        emit (MWarning (displayText Q url @ '': Unknown file type, neither directory or file.''));
        ret (EINVAL, udsentry)
      } else
        (let udsentry = (if \<not> S_ISDIR (st_mode st) \<and> st_mode st AND S_IXOTH \<noteq> 0
                         then udsentry @ [UDS_HIDDEN True] else udsentry)
         in ret (E_OK, udsentry @ [UDS_FILE_TYPE (st_mode st AND S_IFMT), UDS_SIZE (st_size st),
              UDS_MODIFICATION_TIME (st_mtime st), UDS_ACCESS_TIME (st_atime st)])))"

definition browse_stat_path ::
  "qt \<Rightarrow> ('w, 'l) smbc \<Rightarrow> smburl \<Rightarrow> uds \<Rightarrow> (('w, 'l) wk, errno \<times> uds) state" where
  "browse_stat_path Q L url udsentry = do {
     cacheStatErr \<leftarrow> stat_member L url;
     s \<leftarrow> State_Monad.get;
     if cacheStatErr = E_OK then statToUDSEntry Q (base url) (m_st s) udsentry
     else ret (cacheStatErr, udsentry)
   }"

definition workaroundEEXIST :: "('w, 'l) smbc \<Rightarrow> errno \<Rightarrow> bool" where
  "workaroundEEXIST L errNum \<longleftrightarrow> errNum = EEXIST \<and> a_eexistWorkaround L"

text \<open>
  The share that a password is asked for is the first component of the path. The dialog answers
  with the user name and whether to keep the password.
\<close>

definition share_of :: "string \<Rightarrow> string" where
  "share_of p =
     (let i = (if p = [] then -1 else (let j = index_of (CHR ''/'') (drop 1 p) in if j < 0 then -1 else j + 1));
          share = (if i > 1 then take (nat i) p else p)
      in if share \<noteq> [] \<and> hd share = CHR ''/'' then drop 1 share else share)"

definition checkPassword ::
  "qt \<Rightarrow> ('w, 'l) smbc \<Rightarrow> smburl \<Rightarrow> (('w, 'l) wk, kio_error option \<times> smburl) state" where
  "checkPassword Q L url =
     (let share = share_of (path url) in do {
        r \<leftarrow> app_call (a_passwordDialog L (host url) share (userName url));
        case r of
          DialogError e \<Rightarrow> ret (Some e, url)
        | DialogOk user keep \<Rightarrow>
            (if keep then do { emit (MCacheAuth (host url) share); ret (None, setUser Q user url) }
             else ret (None, setUser Q user url))
      })"

definition smb_stat :: "qt \<Rightarrow> ('w, 'l) smbc \<Rightarrow> qurl \<Rightarrow> (('w, 'l) wk, worker_result) state" where
  "smb_stat Q L kurl =
     (let url = checkURL Q L kurl in
      if url \<noteq> kurl then do { emit (MRedirection url); ret Pass }
      else (let current = SMBUrl_ctor Q url;
                name = fileName kurl;
                udsentry = [UDS_NAME (if name = [] then ''.'' else name),
                            UDS_DISPLAY_NAME (displayNameForUrl kurl)]
        in do {
          State_Monad.update (\<lambda>s. s\<lparr>m_current_url := current\<rparr>);
          case fst (getType current) of
            SMBURLTYPE_UNKNOWN \<Rightarrow> ret (Fail ERR_MALFORMED_URL (displayText Q url))
          | SMBURLTYPE_PRINTER \<Rightarrow> ret (Fail ERR_UNSUPPORTED_ACTION (displayText Q url))
          | SMBURLTYPE_ENTIRE_NETWORK \<Rightarrow> do {
              emit (MStatEntry (udsentry @ [UDS_FILE_TYPE S_IFDIR])); ret Pass }
          | SMBURLTYPE_WORKGROUP_OR_SERVER \<Rightarrow> do {
              emit (MStatEntry (udsentry @ [UDS_FILE_TYPE S_IFDIR])); ret Pass }
          | SMBURLTYPE_SHARE_OR_PATH \<Rightarrow> do {
              (r, udsentry) \<leftarrow> browse_stat_path Q L current udsentry;
              if r = EPERM \<or> r = EACCES \<or> workaroundEEXIST L r then do {
                (passwordError, smbUrl) \<leftarrow> checkPassword Q L (SMBUrl_ctor Q url);
                case passwordError of
                  None \<Rightarrow> do { emit (MRedirection (base smbUrl)); ret Pass }
                | Some e \<Rightarrow>
                    (if e = ERR_USER_CANCELED then ret (reportError Q L (SMBUrl_ctor Q url) r)
                     else ret (Fail e (urlText Q url)))
              }
              else if r \<noteq> E_OK then ret (reportError Q L (SMBUrl_ctor Q url) r)
              else do { emit (MStatEntry udsentry); ret Pass }
            }
        }))"

section \<open>Listing\<close>

text \<open>
  The loop of \<open>listDir\<close> reacts to the signals of the discoverers and to the timer. A discovery is
  its \<open>udsName\<close> and its entry; discoverers are numbered, the one of libsmbclient first.
\<close>

datatype disc_event = NewDiscovery string uds | Timeout | Finished nat

record listing =
  pending_list :: "uds list"
  discoveredNames :: "string list"
  unfinished :: "nat list"
  sent :: "uds list list"
  quit :: bool

definition flushEntries :: "listing \<Rightarrow> listing" where
  "flushEntries l = (if pending_list l = [] then l
     else l\<lparr>sent := sent l @ [pending_list l], pending_list := []\<rparr>)"

definition appendDiscovery :: "qt \<Rightarrow> string \<Rightarrow> uds \<Rightarrow> listing \<Rightarrow> listing" where
  "appendDiscovery Q name entry l =
     (if foldCase Q name \<in> foldCase Q ` set (discoveredNames l) then l
      else l\<lparr>discoveredNames := discoveredNames l @ [name],
             pending_list := pending_list l @ [entry]\<rparr>)"

definition maybeFinished :: "listing \<Rightarrow> listing" where
  "maybeFinished l = (if unfinished l = [] then (flushEntries l)\<lparr>quit := True\<rparr> else l)"

fun disc_step :: "qt \<Rightarrow> listing \<Rightarrow> disc_event \<Rightarrow> listing" where
  "disc_step Q l (NewDiscovery name entry) = appendDiscovery Q name entry l"
| "disc_step Q l Timeout = flushEntries l"
| "disc_step Q l (Finished i) = maybeFinished (l\<lparr>unfinished := removeAll i (unfinished l)\<rparr>)"

text \<open>\<open>QEventLoop::exec\<close>: events are handled until \<open>quit\<close>.\<close>

fun disc_loop :: "qt \<Rightarrow> disc_event list \<Rightarrow> listing \<Rightarrow> listing" where
  "disc_loop Q [] l = l"
| "disc_loop Q (e # es) l = (if quit l then l else disc_loop Q es (disc_step Q l e))"

definition listing_init :: "nat \<Rightarrow> listing" where
  "listing_init n = \<lparr>pending_list = [], discoveredNames = [], unfinished = [0..<n], sent = [], quit = False\<rparr>"

definition reportWarning ::
  "qt \<Rightarrow> ('w, 'l) smbc \<Rightarrow> smburl \<Rightarrow> errno \<Rightarrow> (('w, 'l) wk, unit) state" where
  "reportWarning Q L url errNum = emit (MWarning (''Error occurred while trying to access ''
     @ urlText Q (base url) @ snd (errnumToKioError Q L url errNum)))"

text \<open>
  What the discoverer of libsmbclient reports at the end (its error and whether the directory was
  a root) and the sequence of events are inputs. None is a loop that the events do not end.
\<close>

definition listDir ::
  "qt \<Rightarrow> ('w, 'l) smbc \<Rightarrow> disc_event list \<Rightarrow> errno \<Rightarrow> bool \<Rightarrow> qurl
     \<Rightarrow> (('w, 'l) wk, worker_result option) state" where
  "listDir Q L events smbcError dirWasRoot kurl =
     (let url = checkURL Q L kurl in
      if url \<noteq> kurl then do { emit (MRedirection url); ret (Some Pass) }
      else (let current = SMBUrl_ctor Q kurl; t = fst (getType current);
                l = disc_loop Q events (listing_init (if t = SMBURLTYPE_ENTIRE_NETWORK then 3 else 1))
        in do {
          State_Monad.update (\<lambda>s. s\<lparr>m_current_url := current,
            appS := (appS s)\<lparr>msgs := msgs (appS s) @ map MListEntries (sent l)\<rparr>\<rparr>);
          if \<not> quit l then ret None
          else if t \<noteq> SMBURLTYPE_ENTIRE_NETWORK \<and> smbcError \<noteq> E_OK then
            (if smbcError = EPERM \<or> smbcError = EACCES \<or> smbcError = EINVAL \<or> workaroundEEXIST L smbcError
             then do {
               (passwordError, smbUrl) \<leftarrow> checkPassword Q L current;
               State_Monad.update (\<lambda>s. s\<lparr>m_current_url := smbUrl\<rparr>);
               case passwordError of
                 None \<Rightarrow> do { emit (MRedirection (base smbUrl)); ret (Some Pass) }
               | Some e \<Rightarrow>
                   (if e = ERR_USER_CANCELED then ret (Some (reportError Q L smbUrl smbcError))
                    else ret (Some (Fail e (urlText Q (base smbUrl)))))
             }
             else ret (Some (reportError Q L current smbcError)))
          else (let udsentry = [UDS_NAME ''.'', UDS_DISPLAY_NAME (displayNameForUrl (base current))]
            in if dirWasRoot then do {
                 emit (MListEntry (udsentry @ [UDS_FILE_TYPE S_IFDIR, UDS_ACCESS 0x16D]));
                 ret (Some Pass)
               } else do {
                 (statErr, udsentry) \<leftarrow> browse_stat_path Q L current udsentry;
                 (if statErr = ENOENT \<or> statErr = ENOTDIR then reportWarning Q L current statErr else ret ());
                 emit (MListEntry (if statErr = E_OK then udsentry
                         else udsentry @ [UDS_FILE_TYPE S_IFDIR, UDS_ACCESS 0x1FD]));
                 ret (Some Pass)
               })
        }))"

section \<open>Free space\<close>

text \<open>All quantities are unsigned 64-bit numbers and their products wrap around.\<close>

definition space_total :: "statvfs_t \<Rightarrow> u64" where
  "space_total v = (let frames = (if f_frsize v = 0 then 1 else f_frsize v);
                        blockSize = f_bsize v * frames in blockSize * f_blocks v)"

definition space_available :: "statvfs_t \<Rightarrow> u64" where
  "space_available v = (let frames = (if f_frsize v = 0 then 1 else f_frsize v);
                            blockSize = f_bsize v * frames
     in blockSize * (if f_bavail v \<noteq> 0 then f_bavail v else f_bfree v))"

definition fileSystemFreeSpace ::
  "qt \<Rightarrow> ('w, 'l) smbc \<Rightarrow> qurl \<Rightarrow> (('w, 'l) wk, worker_result) state" where
  "fileSystemFreeSpace Q L url =
     (if ends_with ''kio-discovery-wsd'' (host url) then ret (Fail ERR_UNKNOWN_HOST (urlText Q url))
      else if host url = [] then ret (Fail ERR_CANNOT_STAT (urlText Q url))
      else (let u = toSmbcUrl (SMBUrl_ctor Q url) in do {
        (err, v) \<leftarrow> smb_call (CStatvfs u) (l_statvfs L u);
        if err \<noteq> E_OK then ret (Fail ERR_CANNOT_STAT (urlText Q url))
        else if space_total v \<le> 0 then ret (Fail ERR_UNSUPPORTED_ACTION (urlText Q url))
        else do {
          emit (MMetaData ''total'' (numberText Q (uint (space_total v))));
          emit (MMetaData ''available'' (numberText Q (uint (space_available v))));
          ret Pass
        }
      }))"

end
