(* ===== verification/SmbFile.thy ===== *)
theory SmbFile
  imports SmbBrowse
begin

text \<open>
  Files of the SMB worker (smb/kio_smb_file.cpp): \<open>get\<close> with its two threads, the file job
  (\<open>open\<close>, \<open>read\<close>, \<open>write\<close>, \<open>seek\<close>, \<open>truncate\<close>, \<open>close\<close>), and \<open>put\<close>. The scheduler of \<open>get\<close> is an
  argument: a list of actors. None is a schedule under which the two loops have not both ended, and
  in \<open>put\<close> it is an application that sends more data than the fuel allows for.
\<close>

section \<open>get\<close>

text \<open>The producer's \<open>smbc_read\<close>, on the part of the state that it owns during the transfer.\<close>

definition read_side :: "('w, 'l) smbc \<Rightarrow> int \<Rightarrow> int \<Rightarrow> 'w smbside \<Rightarrow> segment \<times> 'w smbside" where
  "read_side L fd n w = (case l_read L fd n (lw w) of
     (s, l) \<Rightarrow> (s, \<lparr>lw = l, calls = calls w @ [CRead fd n]\<rparr>))"

text \<open>What the consumer owns: the connection to the application and its local variables.\<close>

record 'l get_locals =
  gapp :: "'l appside"
  isFirstPacket :: bool
  totalbytesread :: filesize

definition get_deliver ::
  "('w, 'l) smbc \<Rightarrow> string \<Rightarrow> segment \<Rightarrow> 'l get_locals \<Rightarrow> bool \<times> 'l get_locals" where
  "get_deliver L name s g =
     (let total = totalbytesread g + word_of_int (seg_size s)
      in (True, g\<lparr>gapp := (gapp g)\<lparr>msgs := msgs (gapp g)
                   @ (if isFirstPacket g then [MMimeType (a_mimeType L name s)] else [])
                   @ [MData s, MProcessedSize total]\<rparr>,
               isFirstPacket := False, totalbytesread := total\<rparr>))"

definition get_transfer ::
  "('w, 'l) smbc \<Rightarrow> actor list \<Rightarrow> int \<Rightarrow> int \<Rightarrow> string \<Rightarrow> ('w, 'l) wk
     \<Rightarrow> ('w smbside, 'l get_locals) xfer" where
  "get_transfer L sched fd fsize name s =
     run_schedule (read_side L fd (segmentCapacity fsize)) (get_deliver L name) sched
       (xfer_init (smbS s) \<lparr>gapp = appS s, isFirstPacket = True, totalbytesread = 0\<rparr>)"

definition get ::
  "qt \<Rightarrow> ('w, 'l) smbc \<Rightarrow> actor list \<Rightarrow> qurl \<Rightarrow> (('w, 'l) wk, worker_result option) state" where
  "get Q L sched kurl =
     (let kvurl = checkURL Q L kurl in
      if kvurl \<noteq> kurl then do { emit (MRedirection kvurl); ret (Some Pass) }
      else if \<not> l_valid L then ret (Some (Fail ERR_INTERNAL ''libsmbclient failed to create context''))
      else (let url = SMBUrl_ctor Q kurl; text = displayText Q (base url) in do {
        errNum \<leftarrow> stat_member L url;
        s \<leftarrow> State_Monad.get;
        (if errNum \<noteq> E_OK then
           ret (Some (Fail (if errNum = EACCES then ERR_ACCESS_DENIED else ERR_DOES_NOT_EXIST) text))
         else if S_ISDIR (st_mode (m_st s)) then ret (Some (Fail ERR_IS_DIRECTORY text))
         else do {
           emit (MTotalSize (st_size (m_st s)));
           (_, filefd) \<leftarrow> smb_call (COpen (toSmbcUrl url) O_RDONLY 0) (l_open L (toSmbcUrl url) O_RDONLY 0);
           if filefd < 0 then ret (Some (Fail ERR_CANNOT_OPEN_FOR_READING text))
           else do {
             s \<leftarrow> State_Monad.get;
             let x = get_transfer L sched filefd (st_size (m_st s)) (fileName (base url)) s;
             State_Monad.update (\<lambda>s. s\<lparr>smbS := src x, appS := gapp (sink x)\<rparr>);
             if \<not> finished x then ret None
             else do {
               result \<leftarrow> (if killed x then ret Pass
                 else (case readResult x of
                   Some e \<Rightarrow> ret (Fail e text)
                 | None \<Rightarrow> do {
                     emit (MData (Bytes []));
                     emit (MProcessedSize (word_of_int (st_size (m_st s))));
                     ret Pass
                   }));
               _ \<leftarrow> smb_call (CClose filefd) (l_close L filefd);
               ret (Some result)
             }
           }
         })
      }))"

section \<open>The file job\<close>

record open_mode =
  om_read :: bool
  om_write :: bool
  om_append :: bool
  om_truncate :: bool

definition closeWithoutFinish :: "('w, 'l) smbc \<Rightarrow> (('w, 'l) wk, unit) state" where
  "closeWithoutFinish L = do {
     s \<leftarrow> State_Monad.get;
     _ \<leftarrow> smb_call (CClose (m_openFd s)) (l_close L (m_openFd s));
     ret ()
   }"

definition open_flags_of :: "open_mode \<Rightarrow> open_flags" where
  "open_flags_of mode =
     (let flags = (if om_read mode then (if om_write mode then O_RDWR OR O_CREAT else O_RDONLY)
                   else if om_write mode then O_WRONLY OR O_CREAT
                   else 0)
      in if om_append mode then flags OR O_APPEND
         else if om_truncate mode then flags OR O_TRUNC
         else flags)"

definition smb_open ::
  "qt \<Rightarrow> ('w, 'l) smbc \<Rightarrow> qurl \<Rightarrow> open_mode \<Rightarrow> (('w, 'l) wk, worker_result) state" where
  "smb_open Q L kurl mode =
     (let kvurl = checkURL Q L kurl in
      if kvurl \<noteq> kurl then do { emit (MRedirection kvurl); ret Pass }
      else if \<not> l_valid L then ret (Fail ERR_ACCESS_DENIED (displayText Q kurl))
      else (let url = SMBUrl_ctor Q kurl; text = displayText Q (base url) in do {
        State_Monad.update (\<lambda>s. s\<lparr>m_openUrl := url\<rparr>);
        errNum \<leftarrow> stat_member L url;
        s \<leftarrow> State_Monad.get;
        (if errNum \<noteq> E_OK then
           ret (Fail (if errNum = EACCES then ERR_ACCESS_DENIED else ERR_DOES_NOT_EXIST) text)
         else if S_ISDIR (st_mode (m_st s)) then ret (Fail ERR_IS_DIRECTORY text)
         else do {
           emit (MTotalSize (st_size (m_st s)));
           let flags = open_flags_of mode;
           (_, fd) \<leftarrow> smb_call (COpen (toSmbcUrl url) flags 0) (l_open L (toSmbcUrl url) flags 0);
           State_Monad.update (\<lambda>s. s\<lparr>m_openFd := fd\<rparr>);
           (if fd < 0 then ret (Fail ERR_CANNOT_OPEN_FOR_READING text)
            else if om_read mode then do {
              fileData \<leftarrow> smb_call (CRead fd 1024) (l_read L fd 1024);
              (if seg_size fileData < 0 then do {
                 closeWithoutFinish L;
                 ret (Fail ERR_CANNOT_READ text)
               } else do {
                 emit (MMimeType (a_mimeType L (fileName (base url)) fileData));
                 (_, res) \<leftarrow> smb_call (CSeek fd 0 False) (l_lseek L fd 0 False);
                 (if res = -1 then do {
                    closeWithoutFinish L;
                    ret (Fail ERR_CANNOT_SEEK (path url))
                  } else do { emit (MPosition 0); ret Pass })
               })
            } else do { emit (MPosition 0); ret Pass })
         })
      }))"

definition smb_read :: "qt \<Rightarrow> ('w, 'l) smbc \<Rightarrow> filesize \<Rightarrow> (('w, 'l) wk, worker_result) state" where
  "smb_read Q L bytesRequested = do {
     s \<leftarrow> State_Monad.get;
     fileData \<leftarrow> smb_call (CRead (m_openFd s) (uint bytesRequested))
                  (l_read L (m_openFd s) (uint bytesRequested));
     if seg_size fileData < 0 then do {
       closeWithoutFinish L;
       ret (Fail ERR_CANNOT_READ (displayText Q (base (m_openUrl s))))
     } else do { emit (MData fileData); ret Pass }
   }"

definition smb_write :: "qt \<Rightarrow> ('w, 'l) smbc \<Rightarrow> byte list \<Rightarrow> (('w, 'l) wk, worker_result) state" where
  "smb_write Q L fileData = do {
     s \<leftarrow> State_Monad.get;
     size \<leftarrow> smb_call (CWrite (m_openFd s) fileData) (l_write L (m_openFd s) fileData);
     if size < 0 then do {
       closeWithoutFinish L;
       ret (Fail ERR_CANNOT_WRITE (displayText Q (base (m_openUrl s))))
     } else do { emit (MWritten size); ret Pass }
   }"

text \<open>\<open>static_cast<off_t>\<close> reads the unsigned number as a signed one.\<close>

definition smb_seek :: "('w, 'l) smbc \<Rightarrow> filesize \<Rightarrow> (('w, 'l) wk, worker_result) state" where
  "smb_seek L offset = do {
     s \<leftarrow> State_Monad.get;
     (_, res) \<leftarrow> smb_call (CSeek (m_openFd s) (sint offset) False)
                  (l_lseek L (m_openFd s) (sint offset) False);
     if res = -1 then do {
       closeWithoutFinish L;
       ret (Fail ERR_CANNOT_SEEK (path (m_openUrl s)))
     } else do { emit (MPosition res); ret Pass }
   }"

definition smb_truncate :: "('w, 'l) smbc \<Rightarrow> filesize \<Rightarrow> (('w, 'l) wk, worker_result) state" where
  "smb_truncate L len = do {
     s \<leftarrow> State_Monad.get;
     e \<leftarrow> smb_call (CTruncate (m_openFd s) (sint len)) (l_ftruncate L (m_openFd s) (sint len));
     if e \<noteq> E_OK then do {
       closeWithoutFinish L;
       ret (Fail ERR_CANNOT_TRUNCATE (path (m_openUrl s)))
     } else do { emit (MTruncated (uint len)); ret Pass }
   }"

definition smb_close :: "('w, 'l) smbc \<Rightarrow> (('w, 'l) wk, worker_result) state" where
  "smb_close L = do { closeWithoutFinish L; ret Pass }"

section \<open>put\<close>

text \<open>
  The loop of \<open>put\<close>: None when the fuel is used up, else whether the loop was left without a failed
  write.
\<close>

fun put_loop :: "('w, 'l) smbc \<Rightarrow> int \<Rightarrow> nat \<Rightarrow> (('w, 'l) wk, bool option) state" where
  "put_loop L fd 0 = ret None"
| "put_loop L fd (Suc n) = do {
     stop \<leftarrow> app_call (a_wasKilled L);
     if stop then ret (Some True)
     else do {
       emit MDataReq;
       (result, filedata) \<leftarrow> app_call (a_readData L);
       if result \<le> 0 then ret (Some True)
       else do {
         size \<leftarrow> smb_call (CWrite fd filedata) (l_write L fd filedata);
         if size < 0 then ret (Some False) else put_loop L fd n
       }
     }
   }"

definition put_mode :: "int \<Rightarrow> mode_t" where
  "put_mode permissions = (if permissions \<noteq> -1 then word_of_int permissions OR S_IWUSR OR S_IRUSR
                           else S_IWUSR OR S_IRUSR)"

text \<open>The descriptor, and the \<open>errNum\<close> that is looked at when it is negative.\<close>

definition put_open ::
  "('w, 'l) smbc \<Rightarrow> smburl \<Rightarrow> int \<Rightarrow> job_flags \<Rightarrow> (('w, 'l) wk, int \<times> errno) state" where
  "put_open L url permissions flags =
     (let u = toSmbcUrl url in
      if fl_resume flags then do {
        (errNum, filefd) \<leftarrow> smb_call (COpen u O_RDWR 0) (l_open L u O_RDWR 0);
        (seekErr, retValLSeek) \<leftarrow> smb_call (CSeek filefd 0 True) (l_lseek L filefd 0 True);
        ret (filefd, if retValLSeek = -1 then seekErr else E_OK)
      } else do {
        (errNum, filefd) \<leftarrow> smb_call (COpen u (O_CREAT OR O_TRUNC OR O_WRONLY) (put_mode permissions))
                             (l_open L u (O_CREAT OR O_TRUNC OR O_WRONLY) (put_mode permissions));
        ret (filefd, if filefd < 0 then errNum else E_OK)
      })"

definition put ::
  "qt \<Rightarrow> ('w, 'l) smbc \<Rightarrow> nat \<Rightarrow> qurl \<Rightarrow> int \<Rightarrow> job_flags
     \<Rightarrow> (('w, 'l) wk, worker_result option) state" where
  "put Q L fuel kurl permissions flags =
     (let url = SMBUrl_ctor Q kurl; text = displayText Q (base url) in do {
        State_Monad.update (\<lambda>s. s\<lparr>m_current_url := url\<rparr>);
        errNum \<leftarrow> stat_member L url;
        s \<leftarrow> State_Monad.get;
        (if errNum = E_OK \<and> \<not> fl_overwrite flags \<and> \<not> fl_resume flags then
           ret (Some (Fail (if S_ISDIR (st_mode (m_st s)) then ERR_DIR_ALREADY_EXIST
                            else ERR_FILE_ALREADY_EXIST) text))
         else do {
           (filefd, errNum) \<leftarrow> put_open L url permissions flags;
           if filefd < 0 then
             ret (Some (Fail (if errNum = EACCES then ERR_WRITE_ACCESS_DENIED
                              else ERR_CANNOT_OPEN_FOR_WRITING) text))
           else do {
             loop \<leftarrow> put_loop L filefd fuel;
             case loop of
               None \<Rightarrow> ret None
             | Some ok \<Rightarrow> do {
                 result \<leftarrow> (if \<not> ok then ret (Fail ERR_CANNOT_WRITE text)
                   else do {
                     closed \<leftarrow> smb_call (CClose filefd) (l_close L filefd);
                     if closed \<noteq> E_OK then ret (Fail ERR_CANNOT_WRITE text)
                     else do { applyMTimeSMBC L url; ret Pass }
                   });
                 _ \<leftarrow> smb_call (CClose filefd) (l_close L filefd);
                 ret (Some result)
               }
           }
         })
      })"

section \<open>Facts about get\<close>

text \<open>The messages of a whole transfer, as a reference: one pair for each segment.\<close>

fun segs_msgs :: "filesize \<Rightarrow> segment list \<Rightarrow> kmsg list" where
  "segs_msgs t [] = []"
| "segs_msgs t (s # ss) = (let t' = t + word_of_int (seg_size s)
     in MData s # MProcessedSize t' # segs_msgs t' ss)"

lemma deliver_all_rest:
  "\<not> isFirstPacket g \<Longrightarrow>
   \<exists>g'. deliver_all (get_deliver L name) ss g = (True, g')
     \<and> gapp g' = (gapp g)\<lparr>msgs := msgs (gapp g) @ segs_msgs (totalbytesread g) ss\<rparr>"
proof (induction ss arbitrary: g)
  case (Cons x xs)
  from Cons.IH[of "snd (get_deliver L name x g)"] Cons.prems show ?case
    by (auto simp: get_deliver_def Let_def)
qed simp

lemma deliver_all_get:
  assumes "ss \<noteq> []"
  shows "\<exists>g'. deliver_all (get_deliver L name) ss \<lparr>gapp = a, isFirstPacket = True, totalbytesread = 0\<rparr> = (True, g')
     \<and> gapp g' = a\<lparr>msgs := msgs a @ MMimeType (a_mimeType L name (hd ss)) # segs_msgs 0 ss\<rparr>"
proof (cases ss)
  case (Cons x xs)
  let ?g = "snd (get_deliver L name x \<lparr>gapp = a, isFirstPacket = True, totalbytesread = 0\<rparr>)"
  from deliver_all_rest[of ?g L name xs] Cons show ?thesis
    by (auto simp: get_deliver_def Let_def)
qed (use assms in simp)

lemma get_deliver_accepts: "deliver_all (get_deliver L name) ss g = (b, g') \<Longrightarrow> b"
  by (induction ss arbitrary: g) (auto simp: get_deliver_def Let_def)

text \<open>Complete schedules without a request to stop all lead to the same end.\<close>

lemma get_transfer_end:
  assumes "read_all (read_side L fd (segmentCapacity n)) k (smbS s) = Some (ss, w)"
    "finished (get_transfer L sched fd n name s)" "Kill \<notin> set sched"
  shows "killed (get_transfer L sched fd n name s) = False"
    "readResult (get_transfer L sched fd n name s) = read_result ss"
    "src (get_transfer L sched fd n name s) = w"
    "gapp (sink (get_transfer L sched fd n name s))
       = (appS s)\<lparr>msgs := msgs (appS s) @ MMimeType (a_mimeType L name (hd ss)) # segs_msgs 0 ss\<rparr>"
proof -
  let ?x = "get_transfer L sched fd n name s"
  note r = run_schedule_reach[of "read_side L fd (segmentCapacity n)" "get_deliver L name"
      "xfer_init (smbS s) \<lparr>gapp = appS s, isFirstPacket = True, totalbytesread = 0\<rparr>" sched,
      folded get_transfer_def]
  show k: "killed ?x = False"
    unfolding get_transfer_def run_not_killed[OF assms(3)] by (simp add: xfer_init_def)
  from reach_finished(1)[OF r assms(2) _ assms(1)] k
  have d: "deliver_all (get_deliver L name) ss \<lparr>gapp = appS s, isFirstPacket = True, totalbytesread = 0\<rparr>
      = (\<not> isErr ?x, sink ?x)" by blast
  from get_deliver_accepts[OF d] have e: "\<not> isErr ?x" .
  from reach_finished(2)[OF r assms(2) _ assms(1) e] k
  show "readResult ?x = read_result ss" "src ?x = w" by blast+
  from deliver_all_get[of ss L name "appS s"] read_all_last[OF assms(1)] d
  show "gapp (sink ?x) = (appS s)\<lparr>msgs := msgs (appS s)
      @ MMimeType (a_mimeType L name (hd ss)) # segs_msgs 0 ss\<rparr>" by auto
qed

lemma seg_size_neg: "seg_size x < 0 \<longleftrightarrow> x = ReadError"
  by (cases x) auto

lemma finished_get_transfer:
  assumes "read_all (read_side L fd (segmentCapacity n)) k (smbS s) = Some r"
  shows "\<exists>sched. Kill \<notin> set sched \<and> finished (get_transfer L sched fd n name s)"
  unfolding get_transfer_def by (rule complete_schedule[OF assms])

section \<open>Properties\<close>

text \<open>The state in which the two threads of \<open>get\<close> start.\<close>

definition get_start :: "('w, 'l) wk \<Rightarrow> stat_t \<Rightarrow> string \<Rightarrow> 'w \<Rightarrow> ('w, 'l) wk" where
  "get_start s st u w = s\<lparr>m_st := st,
     smbS := \<lparr>lw = w, calls = calls (smbS s) @ [CStat u, COpen u O_RDONLY 0]\<rparr>,
     appS := (appS s)\<lparr>msgs := msgs (appS s) @ [MTotalSize (st_size st)]\<rparr>\<rparr>"

lemma get_run:
  assumes "checkURL Q L kurl = kurl" "l_valid L" "url = SMBUrl_ctor Q kurl" "u = toSmbcUrl url"
    "l_stat L u (m_st s) (lw (smbS s)) = ((E_OK, st), w1)" "\<not> S_ISDIR (st_mode st)"
    "l_open L u O_RDONLY 0 w1 = ((e, fd), w2)" "0 \<le> fd"
    "s' = get_start s st u w2" "x = get_transfer L sched fd (st_size st) (fileName (base url)) s'"
  shows "run_state (get Q L sched kurl) s = run_state (
     if \<not> finished x then ret None
     else do {
       result \<leftarrow> (if killed x then ret Pass
         else (case readResult x of
           Some e \<Rightarrow> ret (Fail e (displayText Q (base url)))
         | None \<Rightarrow> do {
             emit (MData (Bytes []));
             emit (MProcessedSize (word_of_int (st_size st)));
             ret Pass
           }));
       _ \<leftarrow> smb_call (CClose fd) (l_close L fd);
       ret (Some result)
     }) (s'\<lparr>smbS := src x, appS := gapp (sink x)\<rparr>)"
  using assms
  by (cases "readResult x") (simp_all add: get_def Let_def stat_member_def cache_stat_def smb_call_def State_Monad.update_def
      get_start_def)

lemma get_some:
  assumes "checkURL Q L kurl = kurl" "l_valid L" "url = SMBUrl_ctor Q kurl" "u = toSmbcUrl url"
    "l_stat L u (m_st s) (lw (smbS s)) = ((E_OK, st), w1)" "\<not> S_ISDIR (st_mode st)"
    "l_open L u O_RDONLY 0 w1 = ((e, fd), w2)" "0 \<le> fd"
    "finished (get_transfer L sched fd (st_size st) (fileName (base url)) (get_start s st u w2))"
  shows "\<exists>r. run_state (get Q L sched kurl) s = (Some r, snd (run_state (get Q L sched kurl) s))"
proof -
  let ?x = "get_transfer L sched fd (st_size st) (fileName (base url)) (get_start s st u w2)"
  from get_run[OF assms(1-8) refl refl, of sched] assms(9) show ?thesis
    by (cases "killed ?x"; cases "readResult ?x") (auto simp: smb_call_def split: prod.splits)
qed

text \<open>A file of two bytes on the demonstration server, and a schedule that completes.\<close>

definition demo_get_wk :: "(disk, disk) wk" where
  "demo_get_wk = demo_wk [(''/s/f'', [1, 2])] []"

definition demo_get_url :: qurl where
  "demo_get_url = demo_url ''/s/f''"

definition demo_get_side :: "disk smbside" where
  "demo_get_side = \<lparr>lw = (demo_disk [(''/s/f'', [1, 2])])\<lparr>openName := ''/s/f'', openPos := 2\<rparr>,
     calls = [CStat ''/s/f'', COpen ''/s/f'' O_RDONLY 0, CRead 3 65536, CRead 3 65536]\<rparr>"

definition demo_get_open :: disk where
  "demo_get_open = (demo_disk [(''/s/f'', [1, 2])])\<lparr>openName := ''/s/f'', openPos := 0\<rparr>"

lemma demo_get_facts:
  "checkURL demo_qt demo demo_get_url = demo_get_url"
  "l_valid demo"
  "toSmbcUrl (SMBUrl_ctor demo_qt demo_get_url) = ''/s/f''"
  "l_stat demo ''/s/f'' (m_st demo_get_wk) (lw (smbS demo_get_wk))
     = ((E_OK, demo_stat_t 2), demo_disk [(''/s/f'', [1, 2])])"
  "\<not> S_ISDIR (st_mode (demo_stat_t 2))"
  "l_open demo ''/s/f'' O_RDONLY 0 (demo_disk [(''/s/f'', [1, 2])]) = ((E_OK, 3), demo_get_open)"
  "read_all (read_side demo 3 (segmentCapacity (st_size (demo_stat_t 2)))) 2
     (smbS (get_start demo_get_wk (demo_stat_t 2) ''/s/f'' demo_get_open))
     = Some ([Bytes [1, 2], Bytes []], demo_get_side)"
  by code_simp+

text \<open>
  C6. \<open>get\<close> delivers the file. When the source ends after finitely many reads, every schedule of the
  two threads under which both loops end and nobody asks to stop has the same outcome: the size,
  the MIME type of the first segment, then each segment of the source in order with the running
  total; the answer is the read error of the source if it had one, else success after the empty
  block and the size. The descriptor is closed after the last read.
\<close>

theorem get_delivers_file:
  assumes "checkURL Q L kurl = kurl" "l_valid L" "url = SMBUrl_ctor Q kurl" "u = toSmbcUrl url"
    "l_stat L u (m_st s) (lw (smbS s)) = ((E_OK, st), w1)" "\<not> S_ISDIR (st_mode st)"
    "l_open L u O_RDONLY 0 w1 = ((e, fd), w2)" "0 \<le> fd"
    "read_all (read_side L fd (segmentCapacity (st_size st))) n (smbS (get_start s st u w2))
       = Some (ss, side)"
    "Kill \<notin> set sched" "run_state (get Q L sched kurl) s = (Some r, t)"
  shows "r = (if last ss = ReadError then Fail ERR_CANNOT_READ (displayText Q (base url)) else Pass)
    \<and> msgs (appS t) = msgs (appS s)
        @ [MTotalSize (st_size st), MMimeType (a_mimeType L (fileName (base url)) (hd ss))]
        @ segs_msgs 0 ss
        @ (if last ss = ReadError then []
           else [MData (Bytes []), MProcessedSize (word_of_int (st_size st))])
    \<and> calls (smbS t) = calls side @ [CClose fd]
    \<and> aw (appS t) = aw (appS s)"
proof -
  let ?s = "get_start s st u w2"
  let ?x = "get_transfer L sched fd (st_size st) (fileName (base url)) ?s"
  note run = get_run[OF assms(1-8) refl refl, of sched, unfolded assms(11)]
  have f: "finished ?x"
    by (rule ccontr) (use run in simp)
  note e = get_transfer_end[OF assms(9) f assms(10)]
  show ?thesis
    using run f unfolding e(1) e(2) e(3) e(4)
    by (cases "last ss = ReadError")
      (auto simp: read_result_def seg_size_neg smb_call_def get_start_def split: prod.splits)
qed

theorem get_delivers_file_witness:
  "fst (run_state (get demo_qt demo full_schedule demo_get_url) demo_get_wk) = Some Pass
   \<and> msgs (appS (snd (run_state (get demo_qt demo full_schedule demo_get_url) demo_get_wk)))
     = [MTotalSize 2, MMimeType ''text/plain'', MData (Bytes [1, 2]), MProcessedSize 2,
        MData (Bytes []), MProcessedSize 2, MData (Bytes []), MProcessedSize 2]"
proof -
  let ?r = "run_state (get demo_qt demo full_schedule demo_get_url) demo_get_wk"
  have "finished (get_transfer demo full_schedule 3 (st_size (demo_stat_t 2))
      (fileName (base (SMBUrl_ctor demo_qt demo_get_url))) (get_start demo_get_wk (demo_stat_t 2) ''/s/f'' demo_get_open))"
    by code_simp
  from get_some[OF demo_get_facts(1,2) refl demo_get_facts(3)[symmetric] demo_get_facts(4,5,6) _ this]
  obtain r where r: "?r = (Some r, snd ?r)" by auto
  have k: "Kill \<notin> set full_schedule" by code_simp
  have mime: "a_mimeType demo n d = ''text/plain''" for n d by (simp add: demo_def)
  have m: "msgs (appS demo_get_wk) @ [MTotalSize (st_size (demo_stat_t 2)), MMimeType ''text/plain'']
      @ segs_msgs 0 [Bytes [1, 2], Bytes []] @ [MData (Bytes []), MProcessedSize (word_of_int (st_size (demo_stat_t 2)))]
    = [MTotalSize 2, MMimeType ''text/plain'', MData (Bytes [1, 2]), MProcessedSize 2,
        MData (Bytes []), MProcessedSize 2, MData (Bytes []), MProcessedSize 2]" by code_simp
  from get_delivers_file[OF demo_get_facts(1,2) refl demo_get_facts(3)[symmetric] demo_get_facts(4,5,6) _
      demo_get_facts(7) k r] m r
  have "r = Pass" "msgs (appS (snd ?r)) = [MTotalSize 2, MMimeType ''text/plain'', MData (Bytes [1, 2]),
      MProcessedSize 2, MData (Bytes []), MProcessedSize 2, MData (Bytes []), MProcessedSize 2]"
    by (simp_all add: mime)
  with arg_cong[OF r, of fst] show ?thesis by simp
qed

text \<open>
  Whenever the source ends there is a schedule under which \<open>get\<close> returns, so the previous
  property is never empty.
\<close>

lemma get_returns:
  assumes "checkURL Q L kurl = kurl" "l_valid L" "url = SMBUrl_ctor Q kurl" "u = toSmbcUrl url"
    "l_stat L u (m_st s) (lw (smbS s)) = ((E_OK, st), w1)" "\<not> S_ISDIR (st_mode st)"
    "l_open L u O_RDONLY 0 w1 = ((e, fd), w2)" "0 \<le> fd"
    "read_all (read_side L fd (segmentCapacity (st_size st))) n (smbS (get_start s st u w2))
       = Some (ss, side)"
  shows "\<exists>sched r t. Kill \<notin> set sched \<and> run_state (get Q L sched kurl) s = (Some r, t)"
proof -
  let ?s = "get_start s st u w2"
  from finished_get_transfer[OF assms(9), of "fileName (base url)"] obtain sched where
    k: "Kill \<notin> set sched" and f: "finished (get_transfer L sched fd (st_size st) (fileName (base url)) ?s)"
    by blast
  from get_some[OF assms(1-8) f] k show ?thesis by blast
qed

lemma get_returns_instance:
  "\<exists>sched r t. Kill \<notin> set sched \<and> run_state (get demo_qt demo sched demo_get_url) demo_get_wk = (Some r, t)"
  by (rule get_returns[OF demo_get_facts(1,2) refl demo_get_facts(3)[symmetric] demo_get_facts(4,5,6) _
      demo_get_facts(7)]) simp

definition reads_more :: "int \<Rightarrow> int \<Rightarrow> 'w smbside \<Rightarrow> 'w smbside \<Rightarrow> bool" where
  "reads_more fd n v w \<longleftrightarrow> (\<exists>k. calls w = calls v @ replicate k (CRead fd n))"

lemma reads_more_rel: "reflp (reads_more fd n)" "transp (reads_more fd n)"
  "reads_more fd n w (snd (read_side L fd n w))"
proof -
  show "reflp (reads_more fd n)" by (rule reflpI) (simp add: reads_more_def)
  show "transp (reads_more fd n)"
    by (rule transpI) (auto simp: reads_more_def replicate_add[symmetric])
  show "reads_more fd n w (snd (read_side L fd n w))"
    by (auto simp: reads_more_def read_side_def split: prod.splits intro!: exI[of _ 1])
qed

text \<open>
  C7. Whatever the schedule, also when the application asks to stop in the middle or the source
  fails: once \<open>get\<close> has opened the file, it only reads that descriptor, and it closes it last.
\<close>

theorem get_closes_descriptor:
  assumes "checkURL Q L kurl = kurl" "l_valid L" "url = SMBUrl_ctor Q kurl" "u = toSmbcUrl url"
    "l_stat L u (m_st s) (lw (smbS s)) = ((E_OK, st), w1)" "\<not> S_ISDIR (st_mode st)"
    "l_open L u O_RDONLY 0 w1 = ((e, fd), w2)" "0 \<le> fd"
    "run_state (get Q L sched kurl) s = (Some r, t)"
  shows "\<exists>k. calls (smbS t) = calls (smbS s) @ [CStat u, COpen u O_RDONLY 0]
    @ replicate k (CRead fd (segmentCapacity (st_size st))) @ [CClose fd]"
proof -
  let ?s = "get_start s st u w2" and ?n = "segmentCapacity (st_size st)"
  let ?x = "get_transfer L sched fd (st_size st) (fileName (base url)) ?s"
  note run = get_run[OF assms(1-8) refl refl, of sched, unfolded assms(9)]
  have f: "finished ?x" by (rule ccontr) (use run in simp)
  have "reads_more fd ?n (smbS ?s) (src ?x)"
    using src_reach[OF reads_more_rel run_schedule_reach[where rd = "read_side L fd ?n"
          and dl = "get_deliver L (fileName (base url))" and sched = sched
          and ?x0.0 = "xfer_init (smbS ?s) \<lparr>gapp = appS ?s, isFirstPacket = True, totalbytesread = 0\<rparr>"]]
    unfolding get_transfer_def by (simp add: xfer_init_def)
  then obtain k where k: "calls (src ?x) = calls (smbS s) @ [CStat u, COpen u O_RDONLY 0]
      @ replicate k (CRead fd ?n)"
    by (auto simp: reads_more_def get_start_def)
  from run f k have "calls (smbS t) = calls (src ?x) @ [CClose fd]"
    by (auto simp: smb_call_def split: prod.splits if_splits option.splits)
  with k show ?thesis by auto
qed

text \<open>A schedule in which the application asks to stop after the first read.\<close>

definition killed_schedule :: "actor list" where
  "killed_schedule = [Producer, Producer, Producer, Kill] @ replicate 5 Producer @ replicate 8 Consumer"

theorem get_closes_descriptor_witness:
  "\<exists>k. calls (smbS (snd (run_state (get demo_qt demo killed_schedule demo_get_url) demo_get_wk)))
     = [CStat ''/s/f'', COpen ''/s/f'' O_RDONLY 0] @ replicate k (CRead 3 65536) @ [CClose 3]"
proof -
  let ?r = "run_state (get demo_qt demo killed_schedule demo_get_url) demo_get_wk"
  have "finished (get_transfer demo killed_schedule 3 (st_size (demo_stat_t 2))
      (fileName (base (SMBUrl_ctor demo_qt demo_get_url))) (get_start demo_get_wk (demo_stat_t 2) ''/s/f'' demo_get_open))"
    by code_simp
  from get_some[OF demo_get_facts(1,2) refl demo_get_facts(3)[symmetric] demo_get_facts(4,5,6) _ this]
  obtain r where r: "?r = (Some r, snd ?r)" by auto
  have n: "segmentCapacity (st_size (demo_stat_t 2)) = 65536" "calls (smbS demo_get_wk) = []"
    by code_simp+
  from get_closes_descriptor[OF demo_get_facts(1,2) refl demo_get_facts(3)[symmetric] demo_get_facts(4,5,6) _ r]
  show ?thesis by (simp add: n)
qed

section \<open>The file job and put\<close>

definition job_effect :: "smb_call \<Rightarrow> ('w, 'l) wk \<Rightarrow> worker_result \<times> ('w, 'l) wk \<Rightarrow> bool" where
  "job_effect c s rt = (case rt of (r, t) \<Rightarrow>
     (if r = Pass then calls (smbS t) = calls (smbS s) @ [c] \<and> (\<exists>m. msgs (appS t) = msgs (appS s) @ [m])
      else calls (smbS t) = calls (smbS s) @ [c, CClose (m_openFd s)] \<and> msgs (appS t) = msgs (appS s))
     \<and> aw (appS t) = aw (appS s) \<and> m_openFd t = m_openFd s)"

text \<open>
  The operations of a file job on the open descriptor. Each makes its one call; when it fails
  it says nothing to the application and closes the descriptor, and when it succeeds it keeps the
  descriptor and sends one message.
\<close>

lemma file_job_effects:
  "job_effect (CRead (m_openFd s) (uint n)) s (run_state (smb_read Q L n) s)
   \<and> job_effect (CWrite (m_openFd s) b) s (run_state (smb_write Q L b) s)
   \<and> job_effect (CSeek (m_openFd s) (sint n) False) s (run_state (smb_seek L n) s)
   \<and> job_effect (CTruncate (m_openFd s) (sint n)) s (run_state (smb_truncate L n) s)"
  by (auto simp: job_effect_def smb_read_def smb_write_def smb_seek_def smb_truncate_def
      closeWithoutFinish_def smb_call_def split: prod.splits)

text \<open>
  Opening a file job. When \<open>open\<close> answers with an error, either no descriptor was opened or the
  one that was opened has been closed last; when it succeeds without redirecting, the descriptor
  that the job keeps is valid and open, and the application has been told the position 0.
\<close>

lemma open_keeps_or_closes:
  assumes "checkURL Q L kurl = kurl" "run_state (smb_open Q L kurl mode) s = (r, t)"
  shows "if r = Pass
     then 0 \<le> m_openFd t \<and> (\<forall>fd. CClose fd \<notin> set (drop (length (calls (smbS s))) (calls (smbS t))))
        \<and> last (msgs (appS t)) = MPosition 0
     else calls (smbS t) = calls (smbS s)
        \<or> calls (smbS t) = calls (smbS s) @ [CStat (toSmbcUrl (m_openUrl t))]
        \<or> m_openFd t < 0 \<or> last (calls (smbS t)) = CClose (m_openFd t)"
  using assms
  by (auto simp: smb_open_def Let_def stat_member_def cache_stat_def closeWithoutFinish_def
      smb_call_def State_Monad.update_def split: prod.splits if_splits)

lemma open_keeps_or_closes_instance:
  "0 \<le> m_openFd (snd (run_state (smb_open demo_qt demo demo_get_url
      \<lparr>om_read = True, om_write = False, om_append = False, om_truncate = False\<rparr>) demo_get_wk))"
proof -
  let ?r = "run_state (smb_open demo_qt demo demo_get_url
      \<lparr>om_read = True, om_write = False, om_append = False, om_truncate = False\<rparr>) demo_get_wk"
  have p: "fst ?r = Pass" by code_simp
  have r: "?r = (fst ?r, snd ?r)" by simp
  from open_keeps_or_closes[OF demo_get_facts(1) r] p show ?thesis by simp
qed

text \<open>What the application supplies to \<open>put\<close> before it ends the data or asks to stop.\<close>

fun supplied :: "('w, 'l) smbc \<Rightarrow> nat \<Rightarrow> 'l \<Rightarrow> (byte list list \<times> 'l) option" where
  "supplied L 0 l = None"
| "supplied L (Suc n) l = (case a_wasKilled L l of (stop, l) \<Rightarrow>
     if stop then Some ([], l)
     else (case a_readData L l of ((result, d), l) \<Rightarrow>
       if result \<le> 0 then Some ([], l)
       else (case supplied L n l of None \<Rightarrow> None | Some (ds, l) \<Rightarrow> Some (d # ds, l))))"

definition write_all :: "('w, 'l) smbc \<Rightarrow> int \<Rightarrow> byte list list \<Rightarrow> 'w \<Rightarrow> 'w" where
  "write_all L fd ds w = fold (\<lambda>d w. snd (l_write L fd d w)) ds w"

lemma put_loop_run:
  assumes "supplied L n (aw (appS s)) = Some (ds, l)" "\<And>d w. 0 \<le> fst (l_write L fd d w)"
  shows "\<exists>t. run_state (put_loop L fd n) s = (Some True, t)
     \<and> smbS t = \<lparr>lw = write_all L fd ds (lw (smbS s)), calls = calls (smbS s) @ map (CWrite fd) ds\<rparr>
     \<and> aw (appS t) = l"
  using assms(1)
proof (induction n arbitrary: s ds)
  case (Suc n)
  obtain stop l1 where k: "a_wasKilled L (aw (appS s)) = (stop, l1)" by fastforce
  obtain r d l2 where d: "a_readData L l1 = ((r, d), l2)" by (metis surj_pair)
  show ?case
  proof (cases "stop \<or> r \<le> 0")
    case True
    with Suc.prems k d show ?thesis
      by (auto simp: app_call_def write_all_def emit_def split: if_splits)
  next
    case False
    obtain z w where w: "l_write L fd d (lw (smbS s)) = (z, w)" by fastforce
    with assms(2)[of d "lw (smbS s)"] have z: "\<not> z < 0" by simp
    from False Suc.prems k d obtain ds' where
      s': "supplied L n l2 = Some (ds', l)" and ds: "ds = d # ds'"
      by (auto split: option.splits)
    let ?s = "s\<lparr>smbS := \<lparr>lw = w, calls = calls (smbS s) @ [CWrite fd d]\<rparr>,
        appS := (appS s)\<lparr>aw := l2, msgs := msgs (appS s) @ [MDataReq]\<rparr>\<rparr>"
    from Suc.IH[of ?s ds'] s' obtain t where t: "run_state (put_loop L fd n) ?s = (Some True, t)"
      "smbS t = \<lparr>lw = write_all L fd ds' w, calls = calls (smbS s) @ map (CWrite fd) (d # ds')\<rparr>"
      "aw (appS t) = l" by auto
    have "run_state (put_loop L fd (Suc n)) s = run_state (put_loop L fd n) ?s"
      using False k d w z by (simp add: app_call_def smb_call_def emit_def)
    with t ds w show ?thesis by (auto simp: write_all_def)
  qed
qed simp


text \<open>The demonstration application supplies the contents of its local files, one block each.\<close>

definition demo_put_wk :: "(disk, disk) wk" where
  "demo_put_wk = demo_wk [] [(''a'', [1, 2]), (''b'', [3])]"

definition demo_new_disk :: disk where
  "demo_new_disk = store ''/s/f'' [] ((demo_disk [])\<lparr>openName := ''/s/f'', openPos := 0\<rparr>)"

definition no_flags :: job_flags where
  "no_flags = \<lparr>fl_overwrite = False, fl_resume = False\<rparr>"


text \<open>
  When the destination of \<open>put\<close> cannot be opened nothing is written or closed. Without Resume a
  permission problem is reported as such; with Resume the error that is looked at is that of the
  seek on the invalid descriptor, so the reason why the file did not open is lost.
\<close>

lemma put_open_failure:
  assumes "u = toSmbcUrl (SMBUrl_ctor Q kurl)"
    "l_stat L u (m_st s) (lw (smbS s)) = ((e, st), w1)"
    "e \<noteq> E_OK \<or> fl_overwrite flags \<or> fl_resume flags"
    "fl = (if fl_resume flags then O_RDWR else O_CREAT OR O_TRUNC OR O_WRONLY)"
    "m = (if fl_resume flags then 0 else put_mode permissions)"
    "l_open L u fl m w1 = ((e', fd), w2)" "fd < 0"
    "l_lseek L fd 0 True w2 = ((EBADF, -1), w3)"
  shows "\<exists>t. run_state (put Q L fuel kurl permissions flags) s =
      (Some (Fail (if e' = EACCES \<and> \<not> fl_resume flags then ERR_WRITE_ACCESS_DENIED
                   else ERR_CANNOT_OPEN_FOR_WRITING) (displayText Q (base (SMBUrl_ctor Q kurl)))), t)
    \<and> calls (smbS t) = calls (smbS s) @ [CStat u, COpen u fl m]
        @ (if fl_resume flags then [CSeek fd 0 True] else [])"
  using assms
  by (auto simp: put_def put_open_def Let_def stat_member_def cache_stat_def smb_call_def
      State_Monad.update_def split: if_splits)

text \<open>A server on which the file exists and may not be opened.\<close>

definition demo_denied :: "(disk, disk) smbc" where
  "demo_denied = demo\<lparr>l_open := (\<lambda>u f m d. ((EACCES, -1), d)),
     l_lseek := (\<lambda>fd n e d. ((EBADF, -1), d))\<rparr>"

end
