(* ===== verification/SmbResume.thy ===== *)
theory SmbResume
  imports SmbDemo
begin

text \<open>
  The resume logic of smb/transfer_resume.h: the two classes that hide where the files are
  (\<open>SMBResumeIO\<close>, \<open>QFileResumeIO\<close>), the template functions \<open>shouldResume\<close> and
  \<open>concludeResumeHasError\<close> that are written against them, and what both rely on, as the locale
  \<open>resume_io_laws\<close> that both classes satisfy.
\<close>

section \<open>The two kinds of files\<close>

text \<open>
  An object of these classes looks its file up once, on first use, and answers \<open>exists\<close>, \<open>isDir\<close>
  and \<open>size\<close> from that; \<open>io_info\<close> is that lookup.
\<close>

record 's resume_io =
  io_info :: "smburl \<Rightarrow> ('s, file_info) state"
  io_remove :: "smburl \<Rightarrow> ('s, bool) state"
  io_renameTo :: "smburl \<Rightarrow> smburl \<Rightarrow> ('s, bool) state"

definition empty_stat :: stat_t where
  "empty_stat = \<lparr>st_mode = 0, st_size = 0, st_ino = 0, st_dev = 0, st_mtime = 0, st_atime = 0\<rparr>"

definition SMBResumeIO :: "('w, 'l) smbc \<Rightarrow> ('w, 'l) wk resume_io" where
  "SMBResumeIO L = \<lparr>
     io_info = (\<lambda>url. do {
       (e, st) \<leftarrow> cache_stat L url empty_stat;
       ret \<lparr>fi_exists = (e = E_OK), fi_isDir = S_ISDIR (st_mode st), fi_size = st_size st\<rparr>
     }),
     io_remove = (\<lambda>url. do {
       e \<leftarrow> smb_call (CUnlink (toSmbcUrl url)) (l_unlink L (toSmbcUrl url));
       ret (e \<noteq> E_OK)
     }),
     io_renameTo = (\<lambda>url newUrl. do {
       e \<leftarrow> smb_call (CRename (toSmbcUrl url) (toSmbcUrl newUrl))
              (l_rename L (toSmbcUrl url) (toSmbcUrl newUrl));
       ret (e = E_OK)
     })\<rparr>"

definition QFileResumeIO :: "('w, 'l) smbc \<Rightarrow> ('w, 'l) wk resume_io" where
  "QFileResumeIO L = \<lparr>
     io_info = (\<lambda>url. app_call (q_info L (path url))),
     io_remove = (\<lambda>url. app_call (q_remove L (path url))),
     io_renameTo = (\<lambda>url newUrl. do {
       _ \<leftarrow> app_call (q_remove L (path newUrl));
       app_call (q_rename L (path url) (path newUrl))
     })\<rparr>"

section \<open>The template functions\<close>

record transfer_context =
  resuming :: bool
  destination :: smburl
  partDestination :: smburl
  completeDestination :: smburl
  destinationOffset :: int

definition shouldResume ::
  "qt \<Rightarrow> ('w, 'l) smbc \<Rightarrow> ('w, 'l) wk resume_io \<Rightarrow> smburl \<Rightarrow> job_flags
     \<Rightarrow> (('w, 'l) wk, transfer_context + worker_result) state" where
  "shouldResume Q L io dst flags =
     (let partCheck =
        (if a_markPartial L then
           (let partUrl = partUrl Q dst in do {
              part \<leftarrow> io_info io partUrl;
              resume \<leftarrow> (if fi_exists part then app_call (a_canResume L (fi_size part)) else ret False);
              if resume then
                ret (Inl \<lparr>resuming = True, destination = partUrl, partDestination = partUrl,
                      completeDestination = dst, destinationOffset = fi_size part\<rparr>)
              else
                ret (Inl \<lparr>resuming = False, destination = partUrl, partDestination = partUrl,
                      completeDestination = dst, destinationOffset = -1\<rparr>)
            })
         else ret (Inl \<lparr>resuming = False, destination = dst,
                     partDestination = SMBUrl_ctor Q empty_qurl, completeDestination = dst,
                     destinationOffset = -1\<rparr>))
      in do {
        dest \<leftarrow> io_info io dst;
        if fi_exists dest then
          (if fl_resume flags then
             ret (Inl \<lparr>resuming = True, destination = dst, partDestination = dst,
                   completeDestination = dst, destinationOffset = fi_size dest\<rparr>)
           else if \<not> fl_overwrite flags then
             ret (Inr (Fail (if fi_isDir dest then ERR_IS_DIRECTORY else ERR_FILE_ALREADY_EXIST)
                        (displayText Q (base dst))))
           else partCheck)
        else partCheck
      })"

definition concludeResumeHasError ::
  "qt \<Rightarrow> ('w, 'l) smbc \<Rightarrow> ('w, 'l) wk resume_io \<Rightarrow> worker_result \<Rightarrow> transfer_context
     \<Rightarrow> (('w, 'l) wk, worker_result) state" where
  "concludeResumeHasError Q L io result resume =
     (if base (destination resume) = base (completeDestination resume) then ret result
      else if \<not> success result then do {
        dest \<leftarrow> io_info io (destination resume);
        if fi_exists dest \<and> fi_size dest < a_minimumKeepSize L then do {
          _ \<leftarrow> io_remove io (destination resume);
          ret result
        } else ret result
      } else do {
        ok \<leftarrow> io_renameTo io (partDestination resume) (completeDestination resume);
        if \<not> ok then
          ret (Fail ERR_CANNOT_RENAME_PARTIAL (displayText Q (base (partDestination resume))))
        else ret result
      })"

section \<open>What the template functions rely on\<close>

text \<open>
  Looking a file up respects \<open>quiet\<close>, everything respects \<open>touching\<close>; so does asking the
  application. The template functions inherit this.
\<close>

locale resume_io_laws =
  fixes io :: "('w, 'l) wk resume_io"
    and quiet touching :: "('w, 'l) wk \<Rightarrow> ('w, 'l) wk \<Rightarrow> bool"
  assumes quiet_refl: "reflp quiet" and quiet_trans: "transp quiet"
    and touching_refl: "reflp touching" and touching_trans: "transp touching"
    and quiet_touching: "quiet s t \<Longrightarrow> touching s t"
    and info_quiet: "state_io_rel quiet (io_info io u)"
    and app_quiet: "state_io_rel quiet (app_call f :: (('w, 'l) wk, bool) state)"
    and remove_touching: "state_io_rel touching (io_remove io u)"
    and rename_touching: "state_io_rel touching (io_renameTo io u v)"
begin

lemma shouldResume_quiet: "state_io_rel quiet (shouldResume Q L io dst flags)"
  unfolding shouldResume_def Let_def
  by (intro rel_bind[OF quiet_trans] rel_if rel_return[OF quiet_refl] info_quiet app_quiet)

lemma info_touching: "state_io_rel touching (io_info io u)"
  using info_quiet quiet_touching unfolding state_io_rel_def by blast

lemma conclude_touching: "state_io_rel touching (concludeResumeHasError Q L io r c)"
  unfolding concludeResumeHasError_def Let_def
  by (intro rel_bind[OF touching_trans] rel_if rel_return[OF touching_refl] info_touching
      remove_touching rename_touching)

end

fun is_conclusion :: "smb_call \<Rightarrow> bool" where
  "is_conclusion (CStat u) = True"
| "is_conclusion (CUnlink u) = True"
| "is_conclusion (CRename u v) = True"
| "is_conclusion _ = False"

interpretation smbIO: resume_io_laws "SMBResumeIO L" "made is_stat" "made is_conclusion" for L
proof
  fix s t :: "('a, 'b) wk"
  assume "made is_stat s t"
  then show "made is_conclusion s t"
    by (rule made_mono) (auto elim!: is_stat.elims)
qed (auto simp: reflp_made transp_made made_app SMBResumeIO_def
    intro!: rel_intros rel_bind[OF transp_made] made_cache_stat made_smb_call)

interpretation fileIO: resume_io_laws "QFileResumeIO L" "made (\<lambda>_. False)" "made (\<lambda>_. False)" for L
  by unfold_locales
    (auto simp: reflp_made transp_made made_app QFileResumeIO_def intro!: rel_intros rel_bind[OF transp_made])

section \<open>Properties\<close>

text \<open>
  What \<open>shouldResume\<close> decides. It fails exactly when the destination exists and neither Resume
  nor Overwrite was given. Otherwise the transfer goes to the destination itself when that exists
  and is to be resumed, or when part files are off, and else to the part file; it appends only to a
  file that exists, from that file's size, and to a part file only with the application's consent.
\<close>

lemma shouldResume_decides:
  assumes "run_state (shouldResume Q L io dst flags) s = (r, t)"
  shows "\<exists>dest s1. run_state (io_info io dst) s = (dest, s1) \<and>
    (if fi_exists dest \<and> \<not> fl_resume flags \<and> \<not> fl_overwrite flags
     then r = Inr (Fail (if fi_isDir dest then ERR_IS_DIRECTORY else ERR_FILE_ALREADY_EXIST)
                     (displayText Q (base dst)))
     else (\<exists>c. r = Inl c \<and> completeDestination c = dst
       \<and> (if fi_exists dest \<and> fl_resume flags
          then destination c = dst \<and> resuming c \<and> destinationOffset c = fi_size dest
          else if a_markPartial L
          then destination c = partUrl Q dst \<and> partDestination c = partUrl Q dst
            \<and> (\<exists>part s2. run_state (io_info io (partUrl Q dst)) s1 = (part, s2)
                \<and> (resuming c \<longleftrightarrow> fi_exists part \<and> fst (a_canResume L (fi_size part) (aw (appS s2))))
                \<and> (resuming c \<longrightarrow> destinationOffset c = fi_size part))
          else destination c = dst \<and> \<not> resuming c)))"
proof -
  obtain dest s1 where 1: "run_state (io_info io dst) s = (dest, s1)" by fastforce
  obtain part s2 where 2: "run_state (io_info io (partUrl Q dst)) s1 = (part, s2)" by fastforce
  obtain k l where 3: "a_canResume L (fi_size part) (aw (appS s2)) = (k, l)" by fastforce
  note run = assms[unfolded shouldResume_def Let_def, simplified 1, simplified]
  show ?thesis
  proof (intro exI[of _ dest] exI[of _ s1] conjI 1)
    show "if fi_exists dest \<and> \<not> fl_resume flags \<and> \<not> fl_overwrite flags
     then r = Inr (Fail (if fi_isDir dest then ERR_IS_DIRECTORY else ERR_FILE_ALREADY_EXIST)
                     (displayText Q (base dst)))
     else (\<exists>c. r = Inl c \<and> completeDestination c = dst
       \<and> (if fi_exists dest \<and> fl_resume flags
          then destination c = dst \<and> resuming c \<and> destinationOffset c = fi_size dest
          else if a_markPartial L
          then destination c = partUrl Q dst \<and> partDestination c = partUrl Q dst
            \<and> (\<exists>part s2. run_state (io_info io (partUrl Q dst)) s1 = (part, s2)
                \<and> (resuming c \<longleftrightarrow> fi_exists part \<and> fst (a_canResume L (fi_size part) (aw (appS s2))))
                \<and> (resuming c \<longrightarrow> destinationOffset c = fi_size part))
          else destination c = dst \<and> \<not> resuming c))"
    proof (cases "fi_exists dest \<and> (fl_resume flags \<or> \<not> fl_overwrite flags) \<or> \<not> a_markPartial L")
      case True
      with run 1 show ?thesis by (auto split: if_splits)
    next
      case False
      with run 1 2 3 show ?thesis
        by (cases "fi_exists part"; cases k) (auto simp: app_call_def split: if_splits)
    qed
  qed
qed

definition demo_dst :: smburl where
  "demo_dst = SMBUrl_ctor demo_qt (demo_url ''/s/f'')"

definition no_flags :: job_flags where
  "no_flags = \<lparr>fl_overwrite = False, fl_resume = False\<rparr>"

lemma shouldResume_decides_instance:
  "\<exists>c. fst (run_state (shouldResume demo_qt demo (SMBResumeIO demo) demo_dst no_flags)
       (demo_wk [(''/s/f.part'', [1, 2])] [])) = Inl c
     \<and> resuming c \<and> destinationOffset c = 2 \<and> toSmbcUrl (destination c) = ''/s/f.part''"
proof -
  let ?m = "shouldResume demo_qt demo (SMBResumeIO demo) demo_dst no_flags"
  let ?s = "demo_wk [(''/s/f.part'', [1, 2])] []"
  have i: "\<not> fi_exists (fst (run_state (io_info (SMBResumeIO demo) demo_dst) ?s))" by code_simp
  from shouldResume_decides[of demo_qt demo "SMBResumeIO demo" demo_dst no_flags ?s
      "fst (run_state ?m ?s)" "snd (run_state ?m ?s)"] i
  have "\<exists>c. fst (run_state ?m ?s) = Inl c" by auto
  moreover have "(case fst (run_state ?m ?s) of
      Inl c \<Rightarrow> resuming c \<and> destinationOffset c = 2 \<and> toSmbcUrl (destination c) = ''/s/f.part''
    | Inr r \<Rightarrow> False)" by code_simp
  ultimately show ?thesis by auto
qed

text \<open>
  After a transfer to a part file of the server: a failed transfer stays failed, and then the
  part file is deleted only when it is smaller than the size worth keeping, and nothing is renamed;
  a successful transfer makes exactly one call, the renaming of the part file to the destination,
  and succeeds exactly when that does. A transfer without a part file calls nothing.
\<close>

lemma conclude_smb_effects:
  assumes "run_state (concludeResumeHasError Q L (SMBResumeIO L) r c) s = (r', t)"
    and "base (destination c) \<noteq> base (completeDestination c)"
  shows "if success r
    then calls (smbS t) = calls (smbS s)
           @ [CRename (toSmbcUrl (partDestination c)) (toSmbcUrl (completeDestination c))]
      \<and> (r' = Pass \<longleftrightarrow> fst (l_rename L (toSmbcUrl (partDestination c))
            (toSmbcUrl (completeDestination c)) (lw (smbS s))) = E_OK)
    else r' = r \<and> (\<exists>st w. l_stat L (toSmbcUrl (destination c)) empty_stat (lw (smbS s)) = st \<and>
      calls (smbS t) = calls (smbS s) @ CStat (toSmbcUrl (destination c)) #
        (if fst (fst st) = E_OK \<and> st_size (snd (fst st)) < a_minimumKeepSize L
         then [CUnlink (toSmbcUrl (destination c))] else []))"
proof (cases r)
  case Pass
  with assms show ?thesis
    by (auto simp: concludeResumeHasError_def SMBResumeIO_def smb_call_def Let_def
        split: prod.splits if_splits)
next
  case (Fail e m)
  with assms show ?thesis
    by (auto simp: concludeResumeHasError_def SMBResumeIO_def cache_stat_def smb_call_def Let_def
        split: prod.splits if_splits)
qed

definition demo_context :: transfer_context where
  "demo_context = \<lparr>resuming = False, destination = partUrl demo_qt demo_dst,
     partDestination = partUrl demo_qt demo_dst, completeDestination = demo_dst, destinationOffset = -1\<rparr>"

end
