(* ===== verification/SmbDir.thy ===== *)
theory SmbDir
  imports SmbFile SmbResume
begin

text \<open>
  Directories and copies of the SMB worker (smb/kio_smb_dir.cpp): \<open>copy\<close> with its three ways
  (between two remote files, from the server, to the server), \<open>del\<close>, \<open>mkdir\<close>, \<open>rename\<close>. Loops that
  depend on the size of a file have fuel, None when it is used up; the two threads of \<open>smbCopyGet\<close>
  run under a schedule, None when they do not both end under it. A scope guard that closes a
  descriptor is a call at the end of the handler.
\<close>

section \<open>Between two remote files\<close>

datatype copy_end = CopyDone | CopyReadError | CopyWriteError

fun smbCopy_loop ::
  "('w, 'l) smbc \<Rightarrow> int \<Rightarrow> int \<Rightarrow> int \<Rightarrow> nat \<Rightarrow> filesize \<Rightarrow> (('w, 'l) wk, copy_end option) state" where
  "smbCopy_loop L srcfd dstfd n 0 processed = ret None"
| "smbCopy_loop L srcfd dstfd n (Suc fuel) processed = do {
     stop \<leftarrow> app_call (a_wasKilled L);
     if stop then ret (Some CopyDone)
     else do {
       s \<leftarrow> smb_call (CRead srcfd n) (l_read L srcfd n);
       case s of
         ReadError \<Rightarrow> ret (Some CopyReadError)
       | Bytes b \<Rightarrow>
           (if b = [] then ret (Some CopyDone)
            else do {
              w \<leftarrow> smb_call (CWrite dstfd b) (l_write L dstfd b);
              if w = -1 then ret (Some CopyWriteError)
              else do {
                let processed = processed + word_of_int w;
                emit (MProcessedSize processed);
                smbCopy_loop L srcfd dstfd n fuel processed
              }
            })
     }
   }"

definition smbCopy_flags :: "job_flags \<Rightarrow> open_flags" where
  "smbCopy_flags flags =
     (if \<not> fl_overwrite flags then O_CREAT OR O_TRUNC OR O_WRONLY OR O_EXCL
      else O_CREAT OR O_TRUNC OR O_WRONLY)"

definition smbCopy_mode :: "int \<Rightarrow> mode_t" where
  "smbCopy_mode permissions = (if permissions \<noteq> -1 then word_of_int permissions OR S_IWUSR
                               else 0 OR S_IWUSR)"

definition close_fd :: "('w, 'l) smbc \<Rightarrow> int \<Rightarrow> (('w, 'l) wk, errno) state" where
  "close_fd L fd = smb_call (CClose fd) (l_close L fd)"

definition smbCopy ::
  "qt \<Rightarrow> ('w, 'l) smbc \<Rightarrow> nat \<Rightarrow> qurl \<Rightarrow> qurl \<Rightarrow> int \<Rightarrow> job_flags
     \<Rightarrow> (('w, 'l) wk, worker_result option) state" where
  "smbCopy Q L fuel ksrc kdst permissions flags =
     (let src = SMBUrl_ctor Q ksrc; dst = SMBUrl_ctor Q kdst;
          srcText = displayText Q (base src); dstText = displayText Q (base dst);
          dstflags = smbCopy_flags flags; initialmode = smbCopy_mode permissions
      in do {
        errNum \<leftarrow> stat_member L src;
        s \<leftarrow> State_Monad.get;
        if errNum \<noteq> E_OK then
          ret (Some (Fail (if errNum = EACCES then ERR_ACCESS_DENIED else ERR_DOES_NOT_EXIST) srcText))
        else if S_ISDIR (st_mode (m_st s)) then ret (Some (Fail ERR_IS_DIRECTORY srcText))
        else do {
          let srcSize = st_size (m_st s);
          emit (MTotalSize srcSize);
          errNum \<leftarrow> stat_member L dst;
          s \<leftarrow> State_Monad.get;
          if errNum = E_OK \<and> S_ISDIR (st_mode (m_st s)) then
            ret (Some (Fail ERR_DIR_ALREADY_EXIST dstText))
          else if errNum = E_OK \<and> \<not> fl_overwrite flags then
            ret (Some (Fail ERR_FILE_ALREADY_EXIST dstText))
          else do {
            (errno, srcfd) \<leftarrow> smb_call (COpen (toSmbcUrl src) O_RDONLY 0) (l_open L (toSmbcUrl src) O_RDONLY 0);
            if srcfd < 0 then do {
              _ \<leftarrow> close_fd L srcfd;
              ret (Some (Fail (if errno = EACCES then ERR_ACCESS_DENIED else ERR_CANNOT_OPEN_FOR_READING) srcText))
            } else do {
              (errno, dstfd) \<leftarrow> smb_call (COpen (toSmbcUrl dst) dstflags initialmode)
                                  (l_open L (toSmbcUrl dst) dstflags initialmode);
              if dstfd < 0 then do {
                _ \<leftarrow> close_fd L dstfd;
                _ \<leftarrow> close_fd L srcfd;
                ret (Some (Fail (if errno = EACCES then ERR_WRITE_ACCESS_DENIED
                                 else ERR_CANNOT_OPEN_FOR_WRITING) dstText))
              } else do {
                r \<leftarrow> smbCopy_loop L srcfd dstfd (segmentSizeForFileSize srcSize) fuel 0;
                case r of
                  None \<Rightarrow> ret None
                | Some e \<Rightarrow> do {
                    result \<leftarrow> (case e of
                      CopyReadError \<Rightarrow> ret (Fail ERR_CANNOT_READ srcText)
                    | CopyWriteError \<Rightarrow> ret (Fail ERR_CANNOT_WRITE dstText)
                    | CopyDone \<Rightarrow> do {
                        _ \<leftarrow> close_fd L srcfd;
                        closed \<leftarrow> close_fd L dstfd;
                        if closed = E_OK then do { applyMTimeSMBC L dst; ret Pass }
                        else ret (Fail ERR_CANNOT_WRITE dstText)
                      });
                    _ \<leftarrow> close_fd L dstfd;
                    _ \<leftarrow> close_fd L srcfd;
                    ret (Some result)
                  }
              }
            }
          }
        }
      })"

section \<open>From the server to a local file\<close>

record 'l copy_locals =
  capp :: "'l appside"
  processed_size :: filesize

definition copy_deliver :: "('w, 'l) smbc \<Rightarrow> segment \<Rightarrow> 'l copy_locals \<Rightarrow> bool \<times> 'l copy_locals" where
  "copy_deliver L s g = (case q_write L s (aw (capp g)) of (bytesWritten, l) \<Rightarrow>
     if bytesWritten = -1 then (False, g\<lparr>capp := (capp g)\<lparr>aw := l\<rparr>\<rparr>)
     else (let p = processed_size g + word_of_int bytesWritten
           in (True, g\<lparr>capp := (capp g)\<lparr>aw := l, msgs := msgs (capp g) @ [MProcessedSize p]\<rparr>,
                       processed_size := p\<rparr>)))"

text \<open>The destination file: what was decided about it, or the answer that ends the handler.\<close>

definition copyGet_destination ::
  "qt \<Rightarrow> ('w, 'l) smbc \<Rightarrow> qurl \<Rightarrow> int \<Rightarrow> job_flags
     \<Rightarrow> (('w, 'l) wk, transfer_context + worker_result) state" where
  "copyGet_destination Q L kdst permissions flags =
     (let dstText = displayText Q kdst in do {
        dstInfo \<leftarrow> app_call (q_info L (path kdst));
        if fi_exists dstInfo \<and> fi_isDir dstInfo then ret (Inr (Fail ERR_IS_DIRECTORY dstText))
        else if fi_exists dstInfo \<and> \<not> fl_overwrite flags then
          ret (Inr (Fail ERR_FILE_ALREADY_EXIST dstText))
        else do {
          resumeVariant \<leftarrow> shouldResume Q L (QFileResumeIO L) (SMBUrl_ctor Q kdst) flags;
          case resumeVariant of
            Inr r \<Rightarrow> ret (Inr r)
          | Inl resume \<Rightarrow> do {
              let file = path (destination resume);
              (if \<not> resuming resume then
                 app_do (q_setPermissions L file
                   (if permissions = -1 then 0x6000
                    else a_convertPermissions L (word_of_int permissions OR 0x2000)))
               else ret ());
              e \<leftarrow> app_call (q_open L file (resuming resume));
              case e of
                None \<Rightarrow> ret (Inl resume)
              | Some OpenError \<Rightarrow>
                  (if resuming resume then ret (Inr (Fail ERR_CANNOT_RESUME dstText))
                   else ret (Inr (Fail ERR_CANNOT_OPEN_FOR_WRITING dstText)))
              | Some PermissionsError \<Rightarrow> ret (Inr (Fail ERR_WRITE_ACCESS_DENIED dstText))
              | Some OtherError \<Rightarrow> ret (Inr (Fail ERR_CANNOT_OPEN_FOR_WRITING dstText))
            }
        }
      })"

text \<open>
  The source: its descriptor and the offset to start from. When this fails, the guard has closed
  the descriptor, also an invalid one.
\<close>

definition copyGet_source ::
  "qt \<Rightarrow> ('w, 'l) smbc \<Rightarrow> smburl \<Rightarrow> transfer_context
     \<Rightarrow> (('w, 'l) wk, (int \<times> filesize) + worker_result) state" where
  "copyGet_source Q L source resume =
     (let srcText = displayText Q (base source) in do {
        errNum \<leftarrow> stat_member L source;
        s \<leftarrow> State_Monad.get;
        if errNum \<noteq> E_OK then
          ret (Inr (Fail (if errNum = EACCES then ERR_ACCESS_DENIED else ERR_DOES_NOT_EXIST) srcText))
        else if S_ISDIR (st_mode (m_st s)) then ret (Inr (Fail ERR_IS_DIRECTORY srcText))
        else do {
          emit (MTotalSize (st_size (m_st s)));
          (errno, srcfd) \<leftarrow> smb_call (COpen (toSmbcUrl source) O_RDONLY 0)
                              (l_open L (toSmbcUrl source) O_RDONLY 0);
          if srcfd < 0 then do {
            _ \<leftarrow> close_fd L srcfd;
            ret (Inr (Fail (if errno = EACCES then ERR_ACCESS_DENIED else ERR_DOES_NOT_EXIST) srcText))
          } else if resuming resume then do {
            (_, offset) \<leftarrow> smb_call (CSeek srcfd (destinationOffset resume) False)
                             (l_lseek L srcfd (destinationOffset resume) False);
            if offset = -1 then do {
              _ \<leftarrow> close_fd L srcfd;
              ret (Inr (Fail ERR_CANNOT_SEEK srcText))
            } else ret (Inl (srcfd, word_of_int offset))
          } else ret (Inl (srcfd, 0))
        }
      })"

definition copyGet_transfer ::
  "('w, 'l) smbc \<Rightarrow> actor list \<Rightarrow> int \<Rightarrow> int \<Rightarrow> filesize \<Rightarrow> ('w, 'l) wk
     \<Rightarrow> ('w smbside, 'l copy_locals) xfer" where
  "copyGet_transfer L sched srcfd fsize processed s =
     run_schedule (read_side L srcfd (segmentCapacity fsize)) (copy_deliver L) sched
       (xfer_init (smbS s) \<lparr>capp = appS s, processed_size = processed\<rparr>)"

definition copyGet_result :: "qt \<Rightarrow> qurl \<Rightarrow> qurl \<Rightarrow> ('w, 'l) xfer \<Rightarrow> worker_result" where
  "copyGet_result Q ksrc kdst x =
     (if isErr x then Fail ERR_CANNOT_WRITE (displayText Q kdst)
      else (case readResult x of
        Some e \<Rightarrow> if \<not> killed x then Fail e (displayText Q ksrc) else Pass
      | None \<Rightarrow> Pass))"

text \<open>After the loops: close, flush and time stamp, then the part file. The guard closes again.\<close>

definition copyGet_finish ::
  "qt \<Rightarrow> ('w, 'l) smbc \<Rightarrow> qurl \<Rightarrow> int \<Rightarrow> int \<Rightarrow> worker_result \<Rightarrow> transfer_context
     \<Rightarrow> (('w, 'l) wk, worker_result) state" where
  "copyGet_finish Q L kdst srcfd sourceMTime result resume = do {
     _ \<leftarrow> close_fd L srcfd;
     result \<leftarrow> (if success result then do {
         ok \<leftarrow> app_call (q_flush L);
         if \<not> ok then ret (Fail ERR_CANNOT_WRITE (displayText Q kdst))
         else do { app_do (q_setMTime L sourceMTime); ret result }
       } else ret result);
     app_do (q_close L);
     conclusionResult \<leftarrow> concludeResumeHasError Q L (QFileResumeIO L) result resume;
     _ \<leftarrow> close_fd L srcfd;
     ret (if \<not> success conclusionResult then conclusionResult else Pass)
   }"

definition smbCopyGet ::
  "qt \<Rightarrow> ('w, 'l) smbc \<Rightarrow> actor list \<Rightarrow> qurl \<Rightarrow> qurl \<Rightarrow> int \<Rightarrow> job_flags
     \<Rightarrow> (('w, 'l) wk, worker_result option) state" where
  "smbCopyGet Q L sched ksrc kdst permissions flags = do {
     d \<leftarrow> copyGet_destination Q L kdst permissions flags;
     case d of
       Inr r \<Rightarrow> ret (Some r)
     | Inl resume \<Rightarrow> do {
         f \<leftarrow> copyGet_source Q L (SMBUrl_ctor Q ksrc) resume;
         case f of
           Inr r \<Rightarrow> do { app_do (q_close L); ret (Some r) }
         | Inl (srcfd, offset) \<Rightarrow> do {
             s \<leftarrow> State_Monad.get;
             let x = copyGet_transfer L sched srcfd (st_size (m_st s)) offset s;
             State_Monad.update (\<lambda>s. s\<lparr>smbS := src x, appS := capp (sink x)\<rparr>);
             if \<not> finished x then ret None
             else do {
               r \<leftarrow> copyGet_finish Q L kdst srcfd (st_mtime (m_st s)) (copyGet_result Q ksrc kdst x) resume;
               ret (Some r)
             }
           }
       }
   }"

section \<open>From a local file to the server\<close>

fun copyPut_loop ::
  "qt \<Rightarrow> ('w, 'l) smbc \<Rightarrow> qurl \<Rightarrow> qurl \<Rightarrow> int \<Rightarrow> int \<Rightarrow> nat \<Rightarrow> filesize
     \<Rightarrow> (('w, 'l) wk, worker_result option) state" where
  "copyPut_loop Q L ksrc kdst dstfd n 0 processed = ret None"
| "copyPut_loop Q L ksrc kdst dstfd n (Suc fuel) processed = do {
     stop \<leftarrow> app_call (a_wasKilled L);
     if stop then ret (Some Pass)
     else do {
       s \<leftarrow> app_call (q_read L n);
       case s of
         ReadError \<Rightarrow> ret (Some (Fail ERR_CANNOT_READ (displayText Q ksrc)))
       | Bytes b \<Rightarrow>
           (if b = [] then ret (Some Pass)
            else do {
              bytesWritten \<leftarrow> smb_call (CWrite dstfd b) (l_write L dstfd b);
              if bytesWritten = -1 then ret (Some (Fail ERR_CANNOT_WRITE (displayText Q kdst)))
              else do {
                let processed = processed + word_of_int bytesWritten;
                emit (MProcessedSize processed);
                copyPut_loop Q L ksrc kdst dstfd n fuel processed
              }
            })
     }
   }"

definition copyPut_source ::
  "qt \<Rightarrow> ('w, 'l) smbc \<Rightarrow> qurl \<Rightarrow> (('w, 'l) wk, file_info + worker_result) state" where
  "copyPut_source Q L ksrc =
     (let srcText = displayText Q ksrc in do {
        srcInfo \<leftarrow> app_call (q_info L (path ksrc));
        if \<not> fi_exists srcInfo then ret (Inr (Fail ERR_DOES_NOT_EXIST srcText))
        else if fi_isDir srcInfo then ret (Inr (Fail ERR_IS_DIRECTORY srcText))
        else do {
          e \<leftarrow> app_call (q_openRead L (path ksrc));
          case e of
            None \<Rightarrow> do { emit (MTotalSize (fi_size srcInfo)); ret (Inl srcInfo) }
          | Some PermissionsError \<Rightarrow> ret (Inr (Fail ERR_WRITE_ACCESS_DENIED srcText))
          | Some _ \<Rightarrow> ret (Inr (Fail ERR_CANNOT_OPEN_FOR_READING srcText))
        }
      })"

text \<open>The descriptor of the destination and the offset to go on from.\<close>

definition copyPut_open ::
  "qt \<Rightarrow> ('w, 'l) smbc \<Rightarrow> smburl \<Rightarrow> bool \<Rightarrow> int
     \<Rightarrow> (('w, 'l) wk, (int \<times> filesize) + worker_result) state" where
  "copyPut_open Q L dstUrl resume permissions =
     (let u = toSmbcUrl dstUrl; dstText = displayText Q (base dstUrl);
          failed = (\<lambda>errNum. Inr (Fail (if errNum = EACCES then ERR_WRITE_ACCESS_DENIED
                                        else ERR_CANNOT_OPEN_FOR_WRITING) dstText))
      in if resume then do {
           (errNum, dstfd) \<leftarrow> smb_call (COpen u O_RDWR 0) (l_open L u O_RDWR 0);
           if dstfd < 0 then ret (failed errNum)
           else do {
             (_, offset) \<leftarrow> smb_call (CSeek dstfd 0 True) (l_lseek L dstfd 0 True);
             if offset = -1 then do {
               _ \<leftarrow> close_fd L dstfd;
               ret (Inr (Fail ERR_CANNOT_SEEK dstText))
             } else ret (Inl (dstfd, word_of_int offset))
           }
         } else do {
           (errNum, dstfd) \<leftarrow> smb_call (COpen u (O_CREAT OR O_TRUNC OR O_WRONLY) (put_mode permissions))
                               (l_open L u (O_CREAT OR O_TRUNC OR O_WRONLY) (put_mode permissions));
           if dstfd < 0 then ret (failed errNum) else ret (Inl (dstfd, 0))
         })"

definition smbCopyPut ::
  "qt \<Rightarrow> ('w, 'l) smbc \<Rightarrow> nat \<Rightarrow> qurl \<Rightarrow> qurl \<Rightarrow> int \<Rightarrow> job_flags
     \<Rightarrow> (('w, 'l) wk, worker_result option) state" where
  "smbCopyPut Q L fuel ksrc kdst permissions flags = do {
     f \<leftarrow> copyPut_source Q L ksrc;
     case f of
       Inr r \<Rightarrow> ret (Some r)
     | Inl srcInfo \<Rightarrow> do {
         let dstOrigUrl = SMBUrl_ctor Q kdst;
         resumeVariant \<leftarrow> shouldResume Q L (SMBResumeIO L) dstOrigUrl flags;
         case resumeVariant of
           Inr r \<Rightarrow> ret (Some r)
         | Inl resume \<Rightarrow> do {
             d \<leftarrow> copyPut_open Q L (destination resume) (resuming resume) permissions;
             case d of
               Inr r \<Rightarrow> ret (Some r)
             | Inl (dstfd, processed) \<Rightarrow> do {
                 positioned \<leftarrow> (if processed = 0 then ret True else app_call (q_seek L processed));
                 r \<leftarrow> (if positioned
                      then copyPut_loop Q L ksrc kdst dstfd (segmentSizeForFileSize (fi_size srcInfo)) fuel processed
                      else ret (Some (Fail ERR_CANNOT_SEEK (displayText Q ksrc))));
                 case r of
                   None \<Rightarrow> ret None
                 | Some result \<Rightarrow> do {
                     closed \<leftarrow> close_fd L dstfd;
                     if closed \<noteq> E_OK then
                       ret (Some (Fail ERR_CANNOT_WRITE (displayText Q (base (destination resume)))))
                     else do {
                       conclusionResult \<leftarrow> concludeResumeHasError Q L (SMBResumeIO L) result resume;
                       if \<not> success conclusionResult then ret (Some conclusionResult)
                       else do { applyMTimeSMBC L dstOrigUrl; ret (Some Pass) }
                     }
                   }
               }
           }
       }
   }"

definition isLocalFile :: "qurl \<Rightarrow> bool" where
  "isLocalFile u \<longleftrightarrow> scheme u = ''file''"

definition copy ::
  "qt \<Rightarrow> ('w, 'l) smbc \<Rightarrow> actor list \<Rightarrow> nat \<Rightarrow> qurl \<Rightarrow> qurl \<Rightarrow> int \<Rightarrow> job_flags
     \<Rightarrow> (('w, 'l) wk, worker_result option) state" where
  "copy Q L sched fuel ksrc kdst permissions flags =
     (if \<not> isLocalFile ksrc \<and> isLocalFile kdst then smbCopyGet Q L sched ksrc kdst permissions flags
      else if isLocalFile ksrc \<and> \<not> isLocalFile kdst then smbCopyPut Q L fuel ksrc kdst permissions flags
      else smbCopy Q L fuel ksrc kdst permissions flags)"

section \<open>del, mkdir, rename\<close>

definition del :: "qt \<Rightarrow> ('w, 'l) smbc \<Rightarrow> qurl \<Rightarrow> bool \<Rightarrow> (('w, 'l) wk, worker_result) state" where
  "del Q L kurl isfile =
     (let url = SMBUrl_ctor Q kurl; u = toSmbcUrl url in do {
        State_Monad.update (\<lambda>s. s\<lparr>m_current_url := url\<rparr>);
        errNum \<leftarrow> (if isfile then smb_call (CUnlink u) (l_unlink L u)
                   else smb_call (CRmdir u) (l_rmdir L u));
        if errNum \<noteq> E_OK then ret (reportError Q L url errNum) else ret Pass
      })"

definition mkdir :: "qt \<Rightarrow> ('w, 'l) smbc \<Rightarrow> qurl \<Rightarrow> int \<Rightarrow> (('w, 'l) wk, worker_result) state" where
  "mkdir Q L kurl permissions =
     (let url = SMBUrl_ctor Q kurl; u = toSmbcUrl url in do {
        State_Monad.update (\<lambda>s. s\<lparr>m_current_url := url\<rparr>);
        errNum \<leftarrow> smb_call (CMkdir u 0x1FF) (l_mkdir L u 0x1FF);
        if errNum \<noteq> E_OK then
          (if errNum = EEXIST then do {
             errNum \<leftarrow> stat_member L url;
             s \<leftarrow> State_Monad.get;
             ret (Fail (if errNum = E_OK \<and> S_ISDIR (st_mode (m_st s)) then ERR_DIR_ALREADY_EXIST
                        else ERR_FILE_ALREADY_EXIST) (displayText Q (base url)))
           } else ret (reportError Q L url errNum))
        else ret Pass
      })"

definition badInode :: u64 where "badInode = -1"

definition sameInodeStat :: "bool \<Rightarrow> stat_t \<Rightarrow> stat_t \<Rightarrow> bool" where
  "sameInodeStat hasSrcStat srcStat dstStat =
     (if \<not> hasSrcStat then False
      else if st_ino srcStat = badInode \<or> st_ino dstStat = badInode then False
      else st_ino srcStat = st_ino dstStat \<and> st_dev srcStat = st_dev dstStat)"

definition rename ::
  "qt \<Rightarrow> ('w, 'l) smbc \<Rightarrow> qurl \<Rightarrow> qurl \<Rightarrow> job_flags \<Rightarrow> (('w, 'l) wk, worker_result) state" where
  "rename Q L ksrc kdest flags =
     (let src = SMBUrl_ctor Q ksrc; dst = SMBUrl_ctor Q kdest;
          srcText = displayText Q (base src); dstText = displayText Q (base dst)
      in do {
        (hasSrcStat, srcStat) \<leftarrow>
          (if foldCase Q (path src) = foldCase Q (path dst) then do {
             errNum \<leftarrow> stat_member L dst;
             s \<leftarrow> State_Monad.get;
             ret (if errNum = E_OK then (True, m_st s) else (False, empty_stat))
           } else ret (False, empty_stat));
        errNum \<leftarrow> stat_member L dst;
        s \<leftarrow> State_Monad.get;
        let collides = (errNum = E_OK \<and> \<not> sameInodeStat hasSrcStat srcStat (m_st s));
        if collides \<and> S_ISDIR (st_mode (m_st s)) then ret (Fail ERR_DIR_ALREADY_EXIST dstText)
        else if collides \<and> \<not> fl_overwrite flags then ret (Fail ERR_FILE_ALREADY_EXIST dstText)
        else do {
          errNum \<leftarrow> smb_call (CRename (toSmbcUrl src) (toSmbcUrl dst))
                     (l_rename L (toSmbcUrl src) (toSmbcUrl dst));
          case errNum of
            E_OK \<Rightarrow> ret Pass
          | ENOENT \<Rightarrow> do {
              errNum \<leftarrow> stat_member L src;
              if errNum \<noteq> E_OK then
                ret (Fail (if errNum = EACCES then ERR_ACCESS_DENIED else ERR_DOES_NOT_EXIST) srcText)
              else ret (Fail ERR_CANNOT_RENAME srcText)
            }
          | EACCES \<Rightarrow> ret (Fail ERR_ACCESS_DENIED dstText)
          | EPERM \<Rightarrow> ret (Fail ERR_ACCESS_DENIED dstText)
          | _ \<Rightarrow> ret (Fail ERR_CANNOT_RENAME srcText)
        }
      })"

section \<open>Facts\<close>

lemma copyGet_transfer_end:
  assumes "read_all (read_side L fd (segmentCapacity n)) k (smbS s) = Some (ss, w)"
    "deliver_all (copy_deliver L) ss \<lparr>capp = appS s, processed_size = off\<rparr> = (b, g)"
    "finished (copyGet_transfer L sched fd n off s)" "Kill \<notin> set sched"
  shows "killed (copyGet_transfer L sched fd n off s) = False"
    "isErr (copyGet_transfer L sched fd n off s) = (\<not> b)" "sink (copyGet_transfer L sched fd n off s) = g"
    "b \<Longrightarrow> readResult (copyGet_transfer L sched fd n off s) = read_result ss"
    "b \<Longrightarrow> src (copyGet_transfer L sched fd n off s) = w"
proof -
  let ?x = "copyGet_transfer L sched fd n off s"
  note r = run_schedule_reach[of "read_side L fd (segmentCapacity n)" "copy_deliver L"
      "xfer_init (smbS s) \<lparr>capp = appS s, processed_size = off\<rparr>" sched, folded copyGet_transfer_def]
  show k: "killed ?x = False"
    unfolding copyGet_transfer_def run_not_killed[OF assms(4)] by (simp add: xfer_init_def)
  from reach_finished(1)[OF r assms(3) _ assms(1)] k assms(2)
  show i: "isErr ?x = (\<not> b)" and "sink ?x = g" by auto
  show "b \<Longrightarrow> readResult ?x = read_result ss" "b \<Longrightarrow> src ?x = w"
    using reach_finished(2)[OF r assms(3) _ assms(1)] k i by blast+
qed

lemma smbCopyGet_core:
  assumes "run_state (copyGet_destination Q L kdst permissions flags) s = (Inl resume, s1)"
    "run_state (copyGet_source Q L (SMBUrl_ctor Q ksrc) resume) s1 = (Inl (fd, off), s2)"
    "read_all (read_side L fd (segmentCapacity (st_size (m_st s2)))) n (smbS s2) = Some (ss, side)"
    "deliver_all (copy_deliver L) ss \<lparr>capp = appS s2, processed_size = off\<rparr> = (b, g)"
    "Kill \<notin> set sched" "run_state (smbCopyGet Q L sched ksrc kdst permissions flags) s = (Some r, t)"
  shows "\<exists>side'. (b \<longrightarrow> side' = side)
    \<and> run_state (copyGet_finish Q L kdst fd (st_mtime (m_st s2))
        (if \<not> b then Fail ERR_CANNOT_WRITE (displayText Q kdst)
         else if last ss = ReadError then Fail ERR_CANNOT_READ (displayText Q ksrc) else Pass) resume)
        (s2\<lparr>smbS := side', appS := capp g\<rparr>) = (r, t)"
proof -
  let ?x = "copyGet_transfer L sched fd (st_size (m_st s2)) off s2"
  have f: "finished ?x"
    by (rule ccontr) (use assms(1,2,6) in \<open>simp add: smbCopyGet_def Let_def State_Monad.update_def\<close>)
  note e = copyGet_transfer_end[OF assms(3,4) f assms(5)]
  have c: "copyGet_result Q ksrc kdst ?x = (if \<not> b then Fail ERR_CANNOT_WRITE (displayText Q kdst)
         else if last ss = ReadError then Fail ERR_CANNOT_READ (displayText Q ksrc) else Pass)"
    using e by (cases b) (auto simp: copyGet_result_def read_result_def seg_size_neg)
  from assms(1,2,6) f have "run_state (copyGet_finish Q L kdst fd (st_mtime (m_st s2))
        (copyGet_result Q ksrc kdst ?x) resume) (s2\<lparr>smbS := src ?x, appS := capp (sink ?x)\<rparr>) = (r, t)"
    by (simp add: smbCopyGet_def Let_def State_Monad.update_def split: prod.splits)
  with e c show ?thesis by (intro exI[of _ "src ?x"]) simp
qed

text \<open>An error that the copy had is what the handler answers.\<close>

lemma conclude_keeps_error:
  "run_state (concludeResumeHasError Q L io (Fail e m) c) s = (r, t) \<Longrightarrow> r = Fail e m"
  by (auto simp: concludeResumeHasError_def Let_def split: prod.splits if_splits)

lemma copyGet_finish_error:
  "run_state (copyGet_finish Q L kdst fd mt (Fail e m) resume) s = (r, t) \<Longrightarrow> r = Fail e m"
  by (auto simp: copyGet_finish_def close_fd_def smb_call_def app_do_def app_call_def
      dest!: conclude_keeps_error split: prod.splits if_splits)

lemma deliver_all_refused:
  "ss \<noteq> [] \<Longrightarrow> (\<And>l. \<not> fst (dl (last ss) l)) \<Longrightarrow> \<not> fst (deliver_all dl ss l)"
proof (induction ss arbitrary: l)
  case (Cons s ss)
  show ?case
  proof (cases "ss = []")
    case True
    with Cons.prems(2)[of l] show ?thesis by (auto split: prod.splits)
  next
    case False
    with Cons show ?thesis by (auto split: prod.splits)
  qed
qed simp

text \<open>The calls that \<open>smbCopy\<close> may make.\<close>

fun copy_call :: "string \<Rightarrow> string \<Rightarrow> job_flags \<Rightarrow> smb_call \<Rightarrow> bool" where
  "copy_call u v flags (CStat w) = True"
| "copy_call u v flags (COpen w f m) = (w = u \<and> f = O_RDONLY
     \<or> w = v \<and> (fl_overwrite flags \<or> f AND O_EXCL = O_EXCL))"
| "copy_call u v flags (CClose fd) = True"
| "copy_call u v flags (CRead fd n) = True"
| "copy_call u v flags (CWrite fd b) = True"
| "copy_call u v flags (CUtime w a m) = (w = v)"
| "copy_call u v flags c = False"

lemma made_smbCopy_loop: "state_io_rel (made (copy_call u v flags)) (smbCopy_loop L a b n fuel p)"
proof (induction fuel arbitrary: p)
  case (Suc fuel)
  then show ?case
    by (auto intro!: rel_intros rel_bind[OF transp_made] made_smb_call simp: Let_def
        split: segment.splits)
qed (simp add: rel_intros)

lemma smbCopy_flags_excl: "\<not> fl_overwrite flags \<Longrightarrow> smbCopy_flags flags AND O_EXCL = O_EXCL"
  by (simp add: smbCopy_flags_def open_flag_defs)

lemma made_applyMTime: "P (CUtime (toSmbcUrl url) (a_now L) (the (a_modified L))) \<Longrightarrow>
   state_io_rel (made P) (applyMTimeSMBC L url)"
  unfolding applyMTimeSMBC_def
  by (auto intro!: rel_intros rel_bind[OF transp_made] made_smb_call split: option.splits)

section \<open>Properties\<close>


text \<open>
  C8. \<open>smbCopyGet\<close> refines a sequential copy. For a source that ends after finitely many reads and
  any complete schedule without a request to stop, the answer and the final state are those of
  reading everything first, writing the segments one after the other up to the first refusal, and
  then finishing with the first error there was. Only where the server's file position stands
  after a refused write depends on the schedule.
\<close>

theorem smbCopyGet_sequential:
  assumes "run_state (copyGet_destination Q L kdst permissions flags) s = (Inl resume, s1)"
    "run_state (copyGet_source Q L (SMBUrl_ctor Q ksrc) resume) s1 = (Inl (fd, off), s2)"
    "read_all (read_side L fd (segmentCapacity (st_size (m_st s2)))) n (smbS s2) = Some (ss, side)"
    "deliver_all (copy_deliver L) ss \<lparr>capp = appS s2, processed_size = off\<rparr> = (b, g)"
    "Kill \<notin> set sched" "run_state (smbCopyGet Q L sched ksrc kdst permissions flags) s = (Some r, t)"
  shows "\<exists>side'. (b \<longrightarrow> side' = side)
    \<and> run_state (copyGet_finish Q L kdst fd (st_mtime (m_st s2))
        (if \<not> b then Fail ERR_CANNOT_WRITE (displayText Q kdst)
         else if last ss = ReadError then Fail ERR_CANNOT_READ (displayText Q ksrc) else Pass) resume)
        (s2\<lparr>smbS := side', appS := capp g\<rparr>) = (r, t)"
  by (rule smbCopyGet_core[OF assms])

text \<open>A file of two bytes goes to a local file; the part file is new.\<close>

definition demo_local_url :: qurl where
  "demo_local_url = empty_qurl\<lparr>scheme := ''file'', path := ''/l''\<rparr>"

definition overwrite :: job_flags where
  "overwrite = \<lparr>fl_overwrite = True, fl_resume = False\<rparr>"

definition demo_resume :: transfer_context where
  "demo_resume = \<lparr>resuming = False, destination = partUrl demo_qt (SMBUrl_ctor demo_qt demo_local_url),
     partDestination = partUrl demo_qt (SMBUrl_ctor demo_qt demo_local_url),
     completeDestination = SMBUrl_ctor demo_qt demo_local_url, destinationOffset = -1\<rparr>"

definition demo_local_disk :: disk where
  "demo_local_disk = store ''/l.part'' [] (demo_disk [])\<lparr>openName := ''/l.part'', openPos := 0\<rparr>"

definition demo_opened :: "(disk, disk) wk" where
  "demo_opened = demo_get_wk\<lparr>appS := \<lparr>aw = demo_local_disk, msgs = []\<rparr>\<rparr>"

lemma demo_copyGet_facts:
  "run_state (copyGet_destination demo_qt demo demo_local_url (-1) overwrite) demo_get_wk
     = (Inl demo_resume, demo_opened)"
  "run_state (copyGet_source demo_qt demo (SMBUrl_ctor demo_qt demo_get_url) demo_resume) demo_opened
     = (Inl (3, 0), get_start demo_opened (demo_stat_t 2) ''/s/f'' demo_get_open)"
  "read_all (read_side demo 3 (segmentCapacity (st_size (m_st (get_start demo_opened (demo_stat_t 2) ''/s/f'' demo_get_open))))) 2
     (smbS (get_start demo_opened (demo_stat_t 2) ''/s/f'' demo_get_open))
     = Some ([Bytes [1, 2], Bytes []], demo_get_side)"
  by code_simp+

lemma smbCopyGet_some:
  assumes "run_state (copyGet_destination Q L kdst permissions flags) s = (Inl resume, s1)"
    "run_state (copyGet_source Q L (SMBUrl_ctor Q ksrc) resume) s1 = (Inl (fd, off), s2)"
    "finished (copyGet_transfer L sched fd (st_size (m_st s2)) off s2)"
  shows "\<exists>r. run_state (smbCopyGet Q L sched ksrc kdst permissions flags) s
     = (Some r, snd (run_state (smbCopyGet Q L sched ksrc kdst permissions flags) s))"
  using assms by (auto simp: smbCopyGet_def Let_def State_Monad.update_def split: prod.splits)

theorem smbCopyGet_sequential_witness:
  "\<exists>r g. fst (run_state (smbCopyGet demo_qt demo full_schedule demo_get_url demo_local_url (-1) overwrite) demo_get_wk)
     = Some r
   \<and> deliver_all (copy_deliver demo) [Bytes [1, 2], Bytes []]
       \<lparr>capp = appS (get_start demo_opened (demo_stat_t 2) ''/s/f'' demo_get_open), processed_size = 0\<rparr> = (True, g)
   \<and> fst (run_state (copyGet_finish demo_qt demo demo_local_url 3 5 Pass demo_resume)
       ((get_start demo_opened (demo_stat_t 2) ''/s/f'' demo_get_open)\<lparr>smbS := demo_get_side, appS := capp g\<rparr>)) = r"
proof -
  let ?s = "get_start demo_opened (demo_stat_t 2) ''/s/f'' demo_get_open"
  let ?d = "deliver_all (copy_deliver demo) [Bytes [1, 2], Bytes []] \<lparr>capp = appS ?s, processed_size = 0\<rparr>"
  have "finished (copyGet_transfer demo full_schedule 3 (st_size (m_st ?s)) 0 ?s)" by code_simp
  from smbCopyGet_some[OF demo_copyGet_facts(1,2) this] obtain r t where
    r: "run_state (smbCopyGet demo_qt demo full_schedule demo_get_url demo_local_url (-1) overwrite) demo_get_wk = (Some r, t)"
    by blast
  have "fst ?d" by code_simp
  then have d: "?d = (True, snd ?d)" by (simp add: prod_eq_iff)
  have k: "Kill \<notin> set full_schedule" by code_simp
  have m: "st_mtime (m_st ?s) = 5" by code_simp
  from smbCopyGet_sequential[OF demo_copyGet_facts d k r]
  have "run_state (copyGet_finish demo_qt demo demo_local_url 3 5 Pass demo_resume)
       (?s\<lparr>smbS := demo_get_side, appS := capp (snd ?d)\<rparr>) = (r, t)"
    by (simp add: m)
  with r d show ?thesis by auto
qed

text \<open>
  A read error of the server is answered as a failure to write. The segment of a failed read
  is given to \<open>QFile::write\<close> with its size of -1, which \<open>QIODevice::write\<close> refuses, so the consumer
  takes it for a write error and the producer's result is never looked at.
\<close>

lemma copyGet_read_error_is_write_error:
  assumes "run_state (copyGet_destination Q L kdst permissions flags) s = (Inl resume, s1)"
    "run_state (copyGet_source Q L (SMBUrl_ctor Q ksrc) resume) s1 = (Inl (fd, off), s2)"
    "read_all (read_side L fd (segmentCapacity (st_size (m_st s2)))) n (smbS s2) = Some (ss, side)"
    "last ss = ReadError" "\<And>l. fst (q_write L ReadError l) = -1"
    "Kill \<notin> set sched" "run_state (smbCopyGet Q L sched ksrc kdst permissions flags) s = (Some r, t)"
  shows "r = Fail ERR_CANNOT_WRITE (displayText Q kdst)"
proof -
  let ?d = "deliver_all (copy_deliver L) ss \<lparr>capp = appS s2, processed_size = off\<rparr>"
  have "\<not> fst (copy_deliver L (last ss) l)" for l
    using assms(4) assms(5)[of "aw (capp l)"] by (auto simp: copy_deliver_def Let_def split: prod.splits)
  with read_all_last[OF assms(3)] have "\<not> fst ?d" by (intro deliver_all_refused) auto
  then obtain g where d: "?d = (False, g)" by (metis prod.collapse)
  from smbCopyGet_core[OF assms(1-3) d assms(6,7)] show ?thesis
    by (auto dest: copyGet_finish_error)
qed

text \<open>The same file on a server whose reads fail.\<close>

definition demo_broken :: "(disk, disk) smbc" where
  "demo_broken = demo\<lparr>l_read := (\<lambda>fd n d. (ReadError, d))\<rparr>"

definition demo_broken_side :: "disk smbside" where
  "demo_broken_side = \<lparr>lw = demo_get_open, calls = [CStat ''/s/f'', COpen ''/s/f'' O_RDONLY 0, CRead 3 65536]\<rparr>"

lemma demo_broken_facts:
  "run_state (copyGet_destination demo_qt demo_broken demo_local_url (-1) overwrite) demo_get_wk
     = (Inl demo_resume, demo_opened)"
  "run_state (copyGet_source demo_qt demo_broken (SMBUrl_ctor demo_qt demo_get_url) demo_resume) demo_opened
     = (Inl (3, 0), get_start demo_opened (demo_stat_t 2) ''/s/f'' demo_get_open)"
  "read_all (read_side demo_broken 3 (segmentCapacity (st_size (m_st (get_start demo_opened (demo_stat_t 2) ''/s/f'' demo_get_open))))) 1
     (smbS (get_start demo_opened (demo_stat_t 2) ''/s/f'' demo_get_open))
     = Some ([ReadError], demo_broken_side)"
  by code_simp+

lemma copyGet_read_error_is_write_error_instance:
  "fst (run_state (smbCopyGet demo_qt demo_broken full_schedule demo_get_url demo_local_url (-1) overwrite) demo_get_wk)
     = Some (Fail ERR_CANNOT_WRITE ''/l'')"
proof -
  let ?s = "get_start demo_opened (demo_stat_t 2) ''/s/f'' demo_get_open"
  have "finished (copyGet_transfer demo_broken full_schedule 3 (st_size (m_st ?s)) 0 ?s)" by code_simp
  from smbCopyGet_some[OF demo_broken_facts(1,2) this] obtain r t where
    r: "run_state (smbCopyGet demo_qt demo_broken full_schedule demo_get_url demo_local_url (-1) overwrite) demo_get_wk = (Some r, t)"
    by blast
  have k: "Kill \<notin> set full_schedule" by code_simp
  have q: "fst (q_write demo_broken ReadError l) = -1" for l by (simp add: demo_broken_def demo_def)
  have t: "displayText demo_qt demo_local_url = ''/l''" by code_simp
  from copyGet_read_error_is_write_error[OF demo_broken_facts _ q k r] r show ?thesis by (simp add: t)
qed

text \<open>
  C11. \<open>rename\<close> without Overwrite does not touch an existing destination, as long as the two names
  differ by more than case: it answers that the destination exists and calls nothing but \<open>stat\<close>.
\<close>

theorem rename_keeps_existing:
  assumes "from_url = SMBUrl_ctor Q ksrc" "to_url = SMBUrl_ctor Q kdest"
    "foldCase Q (path from_url) \<noteq> foldCase Q (path to_url)"
    "l_stat L (toSmbcUrl to_url) (m_st s) (lw (smbS s)) = ((E_OK, st), w)" "\<not> fl_overwrite flags"
    "run_state (rename Q L ksrc kdest flags) s = (r, t)"
  shows "r = Fail (if S_ISDIR (st_mode st) then ERR_DIR_ALREADY_EXIST else ERR_FILE_ALREADY_EXIST)
      (displayText Q (base to_url)) \<and> smbS t = \<lparr>lw = w, calls = calls (smbS s) @ [CStat (toSmbcUrl to_url)]\<rparr>"
  using assms
  by (auto simp: rename_def Let_def stat_member_def cache_stat_def smb_call_def sameInodeStat_def
      State_Monad.update_def)

theorem rename_keeps_existing_witness:
  "fst (run_state (rename demo_qt demo (demo_url ''/s/a'') demo_get_url no_flags) demo_get_wk)
     = Fail ERR_FILE_ALREADY_EXIST ''/s/f''"
proof -
  let ?r = "run_state (rename demo_qt demo (demo_url ''/s/a'') demo_get_url no_flags) demo_get_wk"
  have n: "foldCase demo_qt (path (SMBUrl_ctor demo_qt (demo_url ''/s/a'')))
      \<noteq> foldCase demo_qt (path (SMBUrl_ctor demo_qt demo_get_url))"
    and l: "l_stat demo (toSmbcUrl (SMBUrl_ctor demo_qt demo_get_url)) (m_st demo_get_wk) (lw (smbS demo_get_wk))
     = ((E_OK, demo_stat_t 2), demo_disk [(''/s/f'', [1, 2])])"
    and f: "\<not> fl_overwrite no_flags" "\<not> S_ISDIR (st_mode (demo_stat_t 2))"
    and t: "displayText demo_qt (base (SMBUrl_ctor demo_qt demo_get_url)) = ''/s/f''"
    by code_simp+
  have r: "?r = (fst ?r, snd ?r)" by simp
  from rename_keeps_existing[OF refl refl n l f(1) r] f(2) t show ?thesis by simp
qed

text \<open>
  When the two names differ at most in case the check is void: the code stats the destination
  twice instead of the source and the destination, so the two always have the same inode and an
  existing file, whatever its inode is, is replaced although Overwrite was not given.
\<close>

lemma rename_case_variant_overwrites:
  assumes "from_url = SMBUrl_ctor Q ksrc" "to_url = SMBUrl_ctor Q kdest"
    "foldCase Q (path from_url) = foldCase Q (path to_url)"
    "\<And>st0. l_stat L (toSmbcUrl to_url) st0 (lw (smbS s)) = ((E_OK, st), lw (smbS s))"
    "st_ino st \<noteq> badInode" "l_rename L (toSmbcUrl from_url) (toSmbcUrl to_url) (lw (smbS s)) = (E_OK, w)"
  shows "\<exists>t. run_state (rename Q L ksrc kdest flags) s = (Pass, t)
    \<and> smbS t = \<lparr>lw = w, calls = calls (smbS s) @ [CStat (toSmbcUrl to_url), CStat (toSmbcUrl to_url),
        CRename (toSmbcUrl from_url) (toSmbcUrl to_url)]\<rparr>"
  using assms
  by (auto simp: rename_def Let_def stat_member_def cache_stat_def smb_call_def sameInodeStat_def
      State_Monad.update_def)

text \<open>A server with two files whose names differ in case, and a Qt that folds case.\<close>

definition demo_fold_qt :: qt where
  "demo_fold_qt = demo_qt\<lparr>foldCase := (\<lambda>t. map (\<lambda>c. if c = CHR ''F'' then CHR ''f'' else c) t)\<rparr>"

definition demo_case_wk :: "(disk, disk) wk" where
  "demo_case_wk = demo_wk [(''/s/f'', [1, 2]), (''/s/F'', [3])] []"

lemma rename_case_variant_overwrites_instance:
  "\<exists>t. run_state (rename demo_fold_qt demo (demo_url ''/s/F'') demo_get_url no_flags) demo_case_wk = (Pass, t)
     \<and> map_of (files (lw (smbS t))) ''/s/f'' = Some [3]"
proof -
  let ?w = "store ''/s/f'' [3] ((demo_disk [(''/s/f'', [1, 2]), (''/s/F'', [3])])
      \<lparr>files := AList.delete ''/s/F'' [(''/s/f'', [1, 2]), (''/s/F'', [3])]\<rparr>)"
  have u: "toSmbcUrl (SMBUrl_ctor demo_fold_qt demo_get_url) = ''/s/f''"
    "toSmbcUrl (SMBUrl_ctor demo_fold_qt (demo_url ''/s/F'')) = ''/s/F''"
    "foldCase demo_fold_qt (path (SMBUrl_ctor demo_fold_qt (demo_url ''/s/F'')))
      = foldCase demo_fold_qt (path (SMBUrl_ctor demo_fold_qt demo_get_url))"
    "lw (smbS demo_case_wk) = demo_disk [(''/s/f'', [1, 2]), (''/s/F'', [3])]"
    "st_ino (demo_stat_t 2) \<noteq> badInode" "map_of (files ?w) ''/s/f'' = Some [3]"
    by code_simp+
  have l: "l_stat demo ''/s/f'' st0 (demo_disk [(''/s/f'', [1, 2]), (''/s/F'', [3])])
     = ((E_OK, demo_stat_t 2), demo_disk [(''/s/f'', [1, 2]), (''/s/F'', [3])])" for st0
    by (simp add: demo_def demo_disk_def numeral_2_eq_2)
  have n: "l_rename demo ''/s/F'' ''/s/f'' (demo_disk [(''/s/f'', [1, 2]), (''/s/F'', [3])]) = (E_OK, ?w)"
    by code_simp
  from rename_case_variant_overwrites[where Q = demo_fold_qt and L = demo and s = demo_case_wk
      and ksrc = "demo_url ''/s/F''" and kdest = demo_get_url and st = "demo_stat_t 2" and flags = no_flags,
      OF refl refl, unfolded u(1,2,4), OF u(3) l u(5) n] u(6)
  show ?thesis by fastforce
qed

text \<open>
  A copy to the server that is stopped before anything was sent is concluded as a success: the
  empty part file that was just created takes the name of the destination.
\<close>

lemma copyPut_stopped_is_concluded:
  assumes "run_state (copyPut_source Q L ksrc) s = (Inl srcInfo, s1)" "dst = SMBUrl_ctor Q kdst"
    "run_state (shouldResume Q L (SMBResumeIO L) dst flags) s1 = (Inl resume, s2)"
    "run_state (copyPut_open Q L (destination resume) (resuming resume) permissions) s2
       = (Inl (fd, 0), s3)"
    "base (destination resume) \<noteq> base dst" "completeDestination resume = dst"
    "partDestination resume = part"
    "a_wasKilled L (aw (appS s3)) = (True, l)" "\<And>w. fst (l_close L fd w) = E_OK"
    "\<And>w. fst (l_rename L (toSmbcUrl part) (toSmbcUrl dst) w) = E_OK" "a_modified L = None"
  shows "\<exists>t. run_state (smbCopyPut Q L (Suc fuel) ksrc kdst permissions flags) s = (Some Pass, t)
    \<and> calls (smbS t) = calls (smbS s3) @ [CClose fd, CRename (toSmbcUrl part) (toSmbcUrl dst)]"
proof -
  obtain w1 where c: "l_close L fd (lw (smbS s3)) = (E_OK, w1)"
    using assms(9) by (metis prod.collapse)
  obtain w2 where n: "l_rename L (toSmbcUrl part) (toSmbcUrl dst) w1 = (E_OK, w2)"
    using assms(10) by (metis prod.collapse)
  show ?thesis
    using assms(1-8,11) c n
    by (simp add: smbCopyPut_def Let_def app_call_def close_fd_def smb_call_def
        concludeResumeHasError_def SMBResumeIO_def applyMTimeSMBC_def)
qed

text \<open>The application stops the copy at once.\<close>

definition demo_stopped :: "(disk, disk) smbc" where
  "demo_stopped = demo\<lparr>a_wasKilled := (\<lambda>d. (True, d))\<rparr>"

definition demo_stop_wk :: "(disk, disk) wk" where
  "demo_stop_wk = demo_wk [] [(''/l'', [1, 2])]"

definition demo_stop_resume :: transfer_context where
  "demo_stop_resume = demo_context\<lparr>completeDestination := SMBUrl_ctor demo_qt demo_get_url,
     destination := partUrl demo_qt (SMBUrl_ctor demo_qt demo_get_url),
     partDestination := partUrl demo_qt (SMBUrl_ctor demo_qt demo_get_url)\<rparr>"

lemma copyPut_stopped_is_concluded_instance:
  "fst (run_state (smbCopyPut demo_qt demo_stopped 1 demo_local_url demo_get_url (-1) no_flags) demo_stop_wk)
     = Some Pass"
proof -
  let ?s1 = "snd (run_state (copyPut_source demo_qt demo_stopped demo_local_url) demo_stop_wk)"
  let ?dst = "SMBUrl_ctor demo_qt demo_get_url"
  let ?s2 = "snd (run_state (shouldResume demo_qt demo_stopped (SMBResumeIO demo_stopped) ?dst no_flags) ?s1)"
  let ?o = "run_state (copyPut_open demo_qt demo_stopped (destination demo_stop_resume)
      (resuming demo_stop_resume) (-1)) ?s2"
  have a: "run_state (copyPut_source demo_qt demo_stopped demo_local_url) demo_stop_wk
      = (Inl \<lparr>fi_exists = True, fi_isDir = False, fi_size = 2\<rparr>, ?s1)"
    "run_state (shouldResume demo_qt demo_stopped (SMBResumeIO demo_stopped) ?dst no_flags) ?s1
      = (Inl demo_stop_resume, ?s2)"
    "?o = (Inl (3, 0), snd ?o)"
    "base (destination demo_stop_resume) \<noteq> base ?dst" "completeDestination demo_stop_resume = ?dst"
    by code_simp+
  have k: "a_wasKilled demo_stopped w = (True, w)" "fst (l_close demo_stopped fd d) = E_OK"
    "fst (l_rename demo_stopped x y d) = E_OK" "a_modified demo_stopped = None" for w d fd x y
    by (simp_all add: demo_stopped_def demo_def)
  from copyPut_stopped_is_concluded[OF a(1) refl a(2,3,4,5) refl k(1,2,3,4), of 0]
  show ?thesis by (auto simp: prod_eq_iff)
qed

end
