(* ===== verification/SmbAuth.thy ===== *)
theory SmbAuth
  imports SmbDemo
begin

text \<open>
  The authentication callback of libsmbclient (smb/smbauthenticator.cpp). The three buffers that the
  library passes are lists of bytes, of which the callback may use the first \<open>maxlen\<close>; conversions
  to and from UTF-8, the password cache and the environment are parameters.
\<close>

section \<open>C strings\<close>

definition c_string :: "byte list \<Rightarrow> byte list" where
  "c_string b = takeWhile (\<lambda>c. c \<noteq> 0) b"

definition strncpy :: "byte list \<Rightarrow> byte list \<Rightarrow> nat \<Rightarrow> byte list" where
  "strncpy dst s n = take n (c_string s @ replicate n 0) @ drop n dst"

lemma length_strncpy: "n \<le> length dst \<Longrightarrow> length (strncpy dst s n) = length dst"
  by (simp add: strncpy_def)

lemma strncpy_keeps: "n \<le> i \<Longrightarrow> i < length dst \<Longrightarrow> strncpy dst s n ! i = dst ! i"
proof -
  assume i: "n \<le> i" "i < length dst"
  have "length (take n (c_string s @ replicate n 0)) = n" by simp
  with i show ?thesis unfolding strncpy_def by (simp add: nth_append del: length_take take_append)
qed

lemma c_string_no_zero: "0 \<notin> set (c_string b)"
  by (auto simp: c_string_def dest: set_takeWhileD)

lemma c_string_append: "0 \<notin> set a \<Longrightarrow> c_string (a @ 0 # r) = a"
  by (subst c_string_def, subst takeWhile_append2) auto

lemma c_string_strncpy:
  assumes "n < length dst" "dst ! n = 0"
  shows "c_string (strncpy dst s n) = take n (c_string s)"
proof -
  have d: "drop n dst = 0 # drop (Suc n) dst" using assms by (metis Cons_nth_drop_Suc)
  have z: "0 \<notin> set (take n (c_string s))" using c_string_no_zero in_set_takeD by fastforce
  show ?thesis
  proof (cases "n \<le> length (c_string s)")
    case True
    then show ?thesis using c_string_append[OF z] by (simp add: strncpy_def d)
  next
    case False
    then obtain k where k: "n - length (c_string s) = Suc k" by (metis Suc_diff_Suc not_le)
    with False have "strncpy dst s n = take n (c_string s) @ 0 # (replicate k 0 @ drop n dst)"
      by (simp add: strncpy_def)
    then show ?thesis using c_string_append[OF z] by simp
  qed
qed

section \<open>auth\<close>

record auth_bufs =
  workgroup_buf :: "byte list"
  username_buf :: "byte list"
  password_buf :: "byte list"

record auth_info =
  ai_url :: qurl
  ai_username :: string
  ai_password :: string

text \<open>
  \<open>checkCached\<close> is \<open>checkCachedAuthentication\<close> of the frontend, which may fill in the user and the
  password; \<open>envUser\<close> is the variable USER.
\<close>

record 'l auth_env =
  toUtf8 :: "string \<Rightarrow> byte list"
  fromUtf8 :: "byte list \<Rightarrow> string"
  checkCached :: "auth_info \<Rightarrow> 'l \<Rightarrow> (bool \<times> auth_info) \<times> 'l"
  envUser :: "string option"

record authenticator =
  m_defaultUser :: string
  m_defaultPassword :: string

definition terminate_buf :: "nat \<Rightarrow> byte list \<Rightarrow> byte list" where
  "terminate_buf maxlen b = b[maxlen - 1 := 0]"

text \<open>The user, password and workgroup that are written back.\<close>

definition chosen_login ::
  "'l auth_env \<Rightarrow> authenticator \<Rightarrow> nat \<Rightarrow> byte list \<Rightarrow> auth_info \<Rightarrow> 'l
     \<Rightarrow> (byte list \<times> string \<times> string) \<times> 'l" where
  "chosen_login E A wgmaxlen workgroup info l =
     (case checkCached E info l of ((cached, info), l) \<Rightarrow>
        if cached then
          (case splitDomainUser (ai_username info) of (domain, bareUser) \<Rightarrow>
             ((if domain \<noteq> []
               then (strncpy workgroup (toUtf8 E domain) (wgmaxlen - 1))[wgmaxlen - 1 := 0]
               else workgroup, bareUser, ai_password info), l))
        else if m_defaultUser A \<noteq> [] then ((workgroup, m_defaultUser A, m_defaultPassword A), l)
        else if ai_username info = [] then
          ((workgroup, case envUser E of None \<Rightarrow> ''guest'' | Some u \<Rightarrow> u, ai_password info), l)
        else ((workgroup, ai_username info, ai_password info), l))"

definition auth_url :: "'l auth_env \<Rightarrow> byte list \<Rightarrow> byte list \<Rightarrow> qurl" where
  "auth_url E server share =
     empty_qurl\<lparr>scheme := ''smb'', host := fromUtf8 E (c_string server),
       path := ''/'' @ fromUtf8 E (c_string share)\<rparr>"

text \<open>
  The buffers after the call, and what \<open>smbc_set_credentials_with_fallback\<close> is given, None when it
  is not called.
\<close>

definition auth ::
  "qt \<Rightarrow> 'l auth_env \<Rightarrow> authenticator \<Rightarrow> byte list \<Rightarrow> byte list \<Rightarrow> nat \<Rightarrow> nat \<Rightarrow> nat \<Rightarrow> auth_bufs \<Rightarrow> 'l
     \<Rightarrow> (auth_bufs \<times> (byte list \<times> byte list \<times> byte list) option) \<times> 'l" where
  "auth Q E A server share wgmaxlen unmaxlen pwmaxlen b l =
     (let workgroup = terminate_buf wgmaxlen (workgroup_buf b);
          username = terminate_buf unmaxlen (username_buf b);
          password = terminate_buf pwmaxlen (password_buf b);
          u = auth_url E server share
      in if fst (getType (SMBUrl_ctor Q u)) = SMBURLTYPE_ENTIRE_NETWORK
         then ((\<lparr>workgroup_buf = workgroup, username_buf = username, password_buf = password\<rparr>, None), l)
         else
           (case chosen_login E A wgmaxlen workgroup
               \<lparr>ai_url = u, ai_username = fromUtf8 E (c_string username),
                ai_password = fromUtf8 E (c_string password)\<rparr> l of
             ((workgroup, user, pass), l) \<Rightarrow>
               (let username = strncpy username (toUtf8 E user) (unmaxlen - 1);
                    password = strncpy password (toUtf8 E pass) (pwmaxlen - 1)
                in ((\<lparr>workgroup_buf = workgroup, username_buf = username, password_buf = password\<rparr>,
                     Some (c_string workgroup, c_string username, c_string password)), l))))"

section \<open>Properties\<close>

definition buf_ok :: "nat \<Rightarrow> byte list \<Rightarrow> bool" where
  "buf_ok maxlen b \<longleftrightarrow> length b = maxlen \<and> b ! (maxlen - 1) = 0"

lemma buf_ok_terminate: "length b = n \<Longrightarrow> 0 < n \<Longrightarrow> buf_ok n (terminate_buf n b)"
  by (simp add: buf_ok_def terminate_buf_def)

lemma buf_ok_strncpy: "buf_ok n b \<Longrightarrow> 0 < n \<Longrightarrow> buf_ok n (strncpy b s (n - 1))"
  by (simp add: buf_ok_def length_strncpy strncpy_keeps)

lemma buf_ok_last: "buf_ok n b \<Longrightarrow> 0 < n \<Longrightarrow> buf_ok n (b[n - 1 := 0])"
  by (simp add: buf_ok_def)

lemma buf_ok_string:
  "buf_ok n b \<Longrightarrow> 0 < n \<Longrightarrow> c_string (strncpy b s (n - 1)) = take (n - 1) (c_string s)"
  by (simp add: buf_ok_def c_string_strncpy)

lemma chosen_workgroup:
  assumes "chosen_login E A n w info l = ((w', user, pass), l')" "buf_ok n w" "0 < n"
  shows "buf_ok n w'"
  using assms buf_ok_last[OF buf_ok_strncpy[OF assms(2,3)] assms(3)]
  by (auto simp: chosen_login_def split: prod.splits if_splits)


definition demo_auth_env :: "unit auth_env" where
  "demo_auth_env = \<lparr>toUtf8 = map (\<lambda>c. of_nat (of_char c)), fromUtf8 = map (\<lambda>b. char_of (unat b)),
     checkCached = (\<lambda>i l. ((True, i\<lparr>ai_username := ''D/user'', ai_password := ''pw''\<rparr>), l)),
     envUser = None\<rparr>"

lemma demo_login: "auth demo_qt demo_auth_env \<lparr>m_defaultUser = [], m_defaultPassword = []\<rparr> [104] [115] 4 4 4
      \<lparr>workgroup_buf = [0, 0, 0, 0], username_buf = [0, 0, 0, 0], password_buf = [0, 0, 0, 0]\<rparr> ()
    = ((\<lparr>workgroup_buf = [68, 0, 0, 0], username_buf = [117, 115, 101, 0], password_buf = [112, 119, 0, 0]\<rparr>,
       Some ([68], [117, 115, 101], [112, 119])), ())"
  by code_simp


end
