(* ===== verification/SmbDiscover.thy ===== *)
theory SmbDiscover
  imports SmbBrowse
begin

text \<open>
  The three discoverers that feed a listing: the one of libsmbclient (smb/smbcdiscoverer.h,
  smb/smbcdiscoverer.cpp), DNS-SD (smb/dnssddiscoverer.h, smb/dnssddiscoverer.cpp) and WS-Discovery
  (smb/wsdiscoverer.h, smb/wsdiscoverer.cpp). Each is a state with its reactions; a reaction gives
  the signals it sends as events of the loop of \<open>listDir\<close>, in which the discoverers have the
  numbers 0, 1 and 2.
\<close>

section \<open>libsmbclient\<close>

datatype smbc_type =
    SMBC_WORKGROUP | SMBC_SERVER | SMBC_FILE_SHARE | SMBC_PRINTER_SHARE | SMBC_DIR | SMBC_FILE | SMBC_UNKNOWN

record dirent =
  de_name :: string
  de_comment :: string
  de_type :: smbc_type

text \<open>
  \<open>hostUrl\<close> is the text of the URL \<open>smb://\<close> with a host, None when Qt finds it invalid. Whether the
  library has \<open>smbc_readdirplus2\<close> is decided when the worker is built, \<open>printersOnly\<close> by the
  environment.
\<close>

record 'w smbdir =
  d_opendir :: "string \<Rightarrow> 'w \<Rightarrow> (errno \<times> int) \<times> 'w"
  d_readdirplus2 :: "int \<Rightarrow> 'w \<Rightarrow> (string \<times> stat_t) option \<times> 'w"
  d_readdir :: "int \<Rightarrow> 'w \<Rightarrow> dirent option \<times> 'w"
  d_closedir :: "int \<Rightarrow> 'w \<Rightarrow> unit \<times> 'w"
  hostUrl :: "string \<Rightarrow> string option"
  havePlus :: bool
  printersOnly :: bool

record smbc_disc =
  m_url :: smburl
  m_finished :: bool
  m_error :: errno
  m_dirWasRoot :: bool
  m_dirFd :: int

definition new_smbc_disc :: "smburl \<Rightarrow> smbc_disc" where
  "new_smbc_disc u = \<lparr>m_url = u, m_finished = False, m_error = E_OK, m_dirWasRoot = True, m_dirFd = -1\<rparr>"

definition read_only_dir :: mode_t where "read_only_dir = 0x16D"
definition share_dir :: mode_t where "share_dir = 0x1FD"

definition server_discovery :: "'w smbdir \<Rightarrow> string \<Rightarrow> uds \<Rightarrow> uds" where
  "server_discovery D name entry = entry
     @ [UDS_URL (case hostUrl D name of None \<Rightarrow> [] | Some t \<Rightarrow> t), UDS_MIME_TYPE ''application/x-smb-server'',
        UDS_ICON_NAME ''network-server'', UDS_FILE_TYPE S_IFDIR, UDS_ACCESS read_only_dir]"

definition share_discovery :: "uds \<Rightarrow> uds" where
  "share_discovery entry = entry @ [UDS_FILE_TYPE S_IFDIR, UDS_ACCESS share_dir]"

definition workgroup_discovery :: "qt \<Rightarrow> 'w smbdir \<Rightarrow> string \<Rightarrow> uds \<Rightarrow> uds" where
  "workgroup_discovery Q D name entry =
     (let u = (case hostUrl D name of
                 None \<Rightarrow> urlText Q (empty_qurl\<lparr>scheme := ''smb'', query := [(''kio-workgroup'', name)]\<rparr>)
               | Some t \<Rightarrow> t)
      in entry @ [UDS_MIME_TYPE ''application/x-smb-workgroup'', UDS_URL u,
           UDS_FILE_TYPE S_IFDIR, UDS_ACCESS read_only_dir])"

definition printer_discovery :: "string \<Rightarrow> uds \<Rightarrow> uds" where
  "printer_discovery name entry = entry
     @ [UDS_MIME_TYPE ''inode/vnd.kde.kio.smb.printer'', UDS_URL (name @ ''?kio-printer=true''), UDS_ACCESS 0]"

definition stop_smbc :: "smbc_disc \<Rightarrow> smbc_disc \<times> disc_event list" where
  "stop_smbc d = (d\<lparr>m_finished := True\<rparr>, [Finished 0])"

definition init_smbc ::
  "'w smbdir \<Rightarrow> smbc_disc \<Rightarrow> (('w, 'l) wk, smbc_disc \<times> disc_event list) state" where
  "init_smbc D d = do {
     (e, fd) \<leftarrow> smb_call (COpendir (toSmbcUrl (m_url d))) (d_opendir D (toSmbcUrl (m_url d)));
     let d = d\<lparr>m_dirFd := fd\<rparr>;
     ret (if fd \<ge> 0 then (d\<lparr>m_error := E_OK\<rparr>, []) else stop_smbc (d\<lparr>m_error := e\<rparr>))
   }"

definition discoverNextFileInfo ::
  "qt \<Rightarrow> 'w smbdir \<Rightarrow> smbc_disc \<Rightarrow> (('w, 'l) wk, bool \<times> smbc_disc \<times> disc_event list) state" where
  "discoverNextFileInfo Q D d =
     (if \<not> havePlus D then ret (False, d, [])
      else do {
        fileInfo \<leftarrow> smb_call (CReaddirplus (m_dirFd d)) (d_readdirplus2 D (m_dirFd d));
        case fileInfo of
          None \<Rightarrow> ret (False, d, [])
        | Some (name, st) \<Rightarrow>
            (if name = ''.'' then ret (True, d, [])
             else if name = ''..'' then ret (True, d\<lparr>m_dirWasRoot := False\<rparr>, [])
             else (let u = addPath Q name (m_url d) in do {
               (_, entry) \<leftarrow> statToUDSEntry Q (base u) st [UDS_NAME name];
               ret (True, d\<lparr>m_url := cdUp Q u\<rparr>, [NewDiscovery name entry])
             }))
      })"

text \<open>A directory entry when files are not reported by \<open>smbc_readdirplus2\<close>.\<close>

definition dirent_file ::
  "qt \<Rightarrow> ('w, 'l) smbc \<Rightarrow> 'w smbdir \<Rightarrow> dirent \<Rightarrow> uds \<Rightarrow> smbc_disc
     \<Rightarrow> (('w, 'l) wk, smbc_disc \<times> disc_event list) state" where
  "dirent_file Q L D e entry d =
     (if havePlus D then ret (d, [])
      else if de_name e = ''.'' then ret (d, [])
      else if de_name e = ''..'' then ret (d\<lparr>m_dirWasRoot := False\<rparr>, [])
      else if de_type e = SMBC_FILE \<or> de_type e = SMBC_DIR then
        (let u = addPath Q (de_name e) (m_url d) in do {
           (statErr, entry) \<leftarrow> browse_stat_path Q L u entry;
           ret (d\<lparr>m_url := cdUp Q u\<rparr>, if statErr = E_OK then [NewDiscovery (de_name e) entry] else [])
         })
      else ret (d, []))"

definition dirent_place :: "qt \<Rightarrow> 'w smbdir \<Rightarrow> dirent \<Rightarrow> uds \<Rightarrow> disc_event list" where
  "dirent_place Q D e entry =
     (if de_type e = SMBC_SERVER then [NewDiscovery (de_name e) (server_discovery D (de_name e) entry)]
      else if de_type e = SMBC_FILE_SHARE then [NewDiscovery (de_name e) (share_discovery entry)]
      else if de_type e = SMBC_WORKGROUP
      then [NewDiscovery (de_name e) (workgroup_discovery Q D (de_name e) entry)]
      else [])"

definition dirent_entry :: "dirent \<Rightarrow> uds" where
  "dirent_entry e = [UDS_NAME (de_name e), UDS_COMMENT (de_comment e)]
     @ (if ends_with ''$'' (de_name e) then [UDS_HIDDEN True] else [])"

definition discoverNext ::
  "qt \<Rightarrow> ('w, 'l) smbc \<Rightarrow> 'w smbdir \<Rightarrow> smbc_disc \<Rightarrow> (('w, 'l) wk, smbc_disc \<times> disc_event list) state" where
  "discoverNext Q L D d =
     (if m_dirFd d = -1 then init_smbc D d
      else do {
        (done, d, evs) \<leftarrow> (if printersOnly D then ret (False, d, []) else discoverNextFileInfo Q D d);
        if done then ret (d, evs)
        else do {
          dirp \<leftarrow> smb_call (CReaddir (m_dirFd d)) (d_readdir D (m_dirFd d));
          case dirp of
            None \<Rightarrow> ret (stop_smbc d)
          | Some e \<Rightarrow>
              (let entry = dirent_entry e in
               if printersOnly D then
                 ret (d, if de_type e = SMBC_PRINTER_SHARE
                         then [NewDiscovery (de_name e) (printer_discovery (de_name e) entry)] else [])
               else do {
                 (d, evs) \<leftarrow> dirent_file Q L D e entry d;
                 ret (d, evs @ dirent_place Q D e entry)
               })
        }
      })"

text \<open>
  The loop events of the discoverer, one \<open>discoverNext\<close> for each until it has finished (\<open>queue\<close> posts
  the next one). None when the fuel is used up first.
\<close>

fun smbc_run ::
  "qt \<Rightarrow> ('w, 'l) smbc \<Rightarrow> 'w smbdir \<Rightarrow> nat \<Rightarrow> smbc_disc
     \<Rightarrow> (('w, 'l) wk, (smbc_disc \<times> disc_event list) option) state" where
  "smbc_run Q L D 0 d = (if m_finished d then ret (Some (d, [])) else ret None)"
| "smbc_run Q L D (Suc n) d =
     (if m_finished d then ret (Some (d, []))
      else do {
        (d, evs) \<leftarrow> discoverNext Q L D d;
        r \<leftarrow> smbc_run Q L D n d;
        ret (map_option (\<lambda>(d, rest). (d, evs @ rest)) r)
      })"

section \<open>DNS-SD\<close>

text \<open>Two services are equal when their names, types and domains are.\<close>

record dns_service =
  sv_name :: string
  sv_type :: string
  sv_domain :: string

record dnssd =
  m_services :: "dns_service list"
  m_resolvedCount :: nat
  m_disconnected :: bool

datatype dnssd_event = ServiceAdded dns_service | ServiceResolved dns_service string int | BrowseFinished

definition new_dnssd :: dnssd where
  "new_dnssd = \<lparr>m_services = [], m_resolvedCount = 0, m_disconnected = False\<rparr>"

definition dnssd_entry :: "qt \<Rightarrow> dns_service \<Rightarrow> string \<Rightarrow> int \<Rightarrow> uds" where
  "dnssd_entry Q s h p =
     [UDS_NAME (sv_name s), UDS_ICON_NAME ''network-server'',
      UDS_URL (urlText Q (empty_qurl\<lparr>scheme := ''smb'', host := h,
                 port := (if p > 0 \<and> p \<noteq> 445 then p else -1), path := ''/''\<rparr>)),
      UDS_MIME_TYPE ''application/x-smb-server'', UDS_FILE_TYPE S_IFDIR, UDS_ACCESS read_only_dir]"

definition dnssd_isFinished :: "dnssd \<Rightarrow> bool" where
  "dnssd_isFinished d \<longleftrightarrow> m_disconnected d \<and> length (m_services d) = m_resolvedCount d"

definition dnssd_maybeFinish :: "dnssd \<Rightarrow> disc_event list" where
  "dnssd_maybeFinish d = (if dnssd_isFinished d then [Finished 1] else [])"

fun dnssd_step :: "qt \<Rightarrow> dnssd \<Rightarrow> dnssd_event \<Rightarrow> dnssd \<times> disc_event list" where
  "dnssd_step Q d (ServiceAdded s) =
     (if m_disconnected d \<or> s \<in> set (m_services d) then (d, [])
      else (d\<lparr>m_services := m_services d @ [s]\<rparr>, []))"
| "dnssd_step Q d (ServiceResolved s h p) =
     (if s \<notin> set (m_services d) then (d, [])
      else (let d = d\<lparr>m_resolvedCount := m_resolvedCount d + 1\<rparr>
            in (d, NewDiscovery (sv_name s) (dnssd_entry Q s h p) # dnssd_maybeFinish d)))"
| "dnssd_step Q d BrowseFinished =
     (if m_disconnected d then (d, [])
      else (let d = d\<lparr>m_disconnected := True\<rparr> in (d, dnssd_maybeFinish d)))"

section \<open>WS-Discovery\<close>

subsection \<open>The name of a computer\<close>

text \<open>
  A regular expression \<open>(?<name>.+)[\\/]word(.+)?\<close>: the leftmost match with the longest name. In the
  C++ literal the class is a slash that is escaped with a backslash, so it does not contain the
  backslash.
\<close>

definition name_before :: "string \<Rightarrow> bool \<Rightarrow> string \<Rightarrow> string option" where
  "name_before word needs s =
     (let fits = (\<lambda>i j. CHR 0x0A \<notin> set (take (j - i) (drop i s)) \<and> starts_with (''/'' @ word) (drop j s)
                   \<and> (needs \<longrightarrow> j + 1 + length word < length s \<and> s ! (j + 1 + length word) \<noteq> CHR 0x0A));
          found = concat (map (\<lambda>i. map (\<lambda>j. take (j - i) (drop i s)) (filter (fits i) (rev [i + 1..<length s])))
                    [0..<length s])
      in (case found of [] \<Rightarrow> None | n # _ \<Rightarrow> Some n))"

definition nameFromComputerInfo :: "string \<Rightarrow> string" where
  "nameFromComputerInfo info =
     (case name_before ''NotJoined'' False info of
        Some n \<Rightarrow> n
      | None \<Rightarrow>
          (case name_before ''Domain:'' True info of
             Some n \<Rightarrow> n
           | None \<Rightarrow> (case name_before ''Workgroup:'' True info of Some n \<Rightarrow> n | None \<Rightarrow> info)))"

text \<open>
  \<open>PBSDResolver::run\<close>: the name and the host of a discovery, from the values of the sections in the
  answer (None for a fault), the host of the endpoint, and what \<open>QHostInfo\<close> finds for it.
\<close>

definition pbsd_run :: "string list option \<Rightarrow> string \<Rightarrow> string option \<Rightarrow> string \<times> string" where
  "pbsd_run response h hostInfo =
     (let computer = (case response of
            None \<Rightarrow> []
          | Some values \<Rightarrow> nameFromComputerInfo (case filter (\<lambda>v. v \<noteq> []) values of [] \<Rightarrow> [] | v # _ \<Rightarrow> v));
          computer = (if computer = [] then (case hostInfo of None \<Rightarrow> [] | Some n \<Rightarrow> n) else computer)
      in if computer = [] then (''Unknown Device @ '' @ h, h)
         else (computer, if ends_with ''.local'' computer then computer else computer @ wsdSuffix))"

definition ws_entry :: "qt \<Rightarrow> string \<Rightarrow> string \<Rightarrow> uds" where
  "ws_entry Q computer remote =
     [UDS_NAME computer, UDS_ICON_NAME ''network-server'',
      UDS_URL (urlText Q (empty_qurl\<lparr>scheme := ''smb'', host := remote, path := ''/''\<rparr>)),
      UDS_MIME_TYPE ''application/x-smb-server'', UDS_FILE_TYPE S_IFDIR, UDS_ACCESS read_only_dir]"

subsection \<open>The discoverer\<close>

record ws_service =
  ws_endpoint :: string
  ws_xaddrs :: "qurl list"

text \<open>\<open>w_resolvers\<close>: the hosts that are being asked for their names; \<open>w_waiting\<close>: the endpoints whose addresses are.\<close>

record wsd =
  w_started :: bool
  w_timer :: bool
  w_seen :: "string list"
  w_resolvers :: "qurl list"
  w_resolved :: nat
  w_waiting :: "string list"

text \<open>
  What reaches the discoverer: the answer to its probe, the end of the time for these, the answer to
  a resolve for an endpoint or the end of the time for it, and the result of a \<open>PBSDResolver\<close>.
\<close>

datatype wsd_event =
    ProbeMatch ws_service | ProbeTimeout | ResolveMatch string ws_service | ResolveTimeout string
  | Resolved string string

definition wsd_start :: wsd where
  "wsd_start = \<lparr>w_started = True, w_timer = True, w_seen = [], w_resolvers = [], w_resolved = 0, w_waiting = []\<rparr>"

definition wsd_isFinished :: "wsd \<Rightarrow> bool" where
  "wsd_isFinished d \<longleftrightarrow> w_started d \<and> \<not> w_timer d \<and> w_waiting d = [] \<and> length (w_resolvers d) = w_resolved d"

definition wsd_maybeFinish :: "wsd \<Rightarrow> disc_event list" where
  "wsd_maybeFinish d = (if wsd_isFinished d then [Finished 2] else [])"

definition resolveReceived :: "(string \<Rightarrow> bool) \<Rightarrow> ws_service \<Rightarrow> wsd \<Rightarrow> wsd" where
  "resolveReceived resolves s d =
     (if ws_endpoint s \<in> set (w_seen d) then d
      else (let d = d\<lparr>w_seen := w_seen d @ [ws_endpoint s]\<rparr>
            in (case filter (\<lambda>u. resolves (host u)) (ws_xaddrs s) of
                  [] \<Rightarrow> d
                | addr # _ \<Rightarrow> d\<lparr>w_resolvers := w_resolvers d @ [addr]\<rparr>)))"

definition matchReceived :: "(string \<Rightarrow> bool) \<Rightarrow> ws_service \<Rightarrow> wsd \<Rightarrow> wsd" where
  "matchReceived resolves s d =
     (if \<not> w_timer d then d
      else if ws_xaddrs s = [] then
        (if ws_endpoint s \<in> set (w_seen d) \<or> ws_endpoint s \<in> set (w_waiting d) then d
         else d\<lparr>w_waiting := w_waiting d @ [ws_endpoint s]\<rparr>)
      else resolveReceived resolves s d)"

definition resolver_stopped :: "string \<Rightarrow> wsd \<Rightarrow> wsd \<times> disc_event list" where
  "resolver_stopped ep d = (let d = d\<lparr>w_waiting := removeAll ep (w_waiting d)\<rparr> in (d, wsd_maybeFinish d))"

fun wsd_step :: "qt \<Rightarrow> (string \<Rightarrow> bool) \<Rightarrow> wsd \<Rightarrow> wsd_event \<Rightarrow> wsd \<times> disc_event list" where
  "wsd_step Q resolves d (ProbeMatch s) = (matchReceived resolves s d, [])"
| "wsd_step Q resolves d ProbeTimeout =
     (let d = d\<lparr>w_started := True, w_timer := False\<rparr> in (d, wsd_maybeFinish d))"
| "wsd_step Q resolves d (ResolveMatch ep s) = resolver_stopped ep (resolveReceived resolves s d)"
| "wsd_step Q resolves d (ResolveTimeout ep) = resolver_stopped ep d"
| "wsd_step Q resolves d (Resolved computer remote) =
     (let d = d\<lparr>w_resolved := w_resolved d + 1\<rparr>
      in (d, NewDiscovery computer (ws_entry Q computer remote) # wsd_maybeFinish d))"

section \<open>What a listing shows\<close>

text \<open>The first entry of each name, without regard to case, among the events of a loop.\<close>

fun firsts :: "qt \<Rightarrow> string list \<Rightarrow> disc_event list \<Rightarrow> uds list" where
  "firsts Q seen [] = []"
| "firsts Q seen (NewDiscovery n e # es) =
     (if foldCase Q n \<in> foldCase Q ` set seen then firsts Q seen es else e # firsts Q (seen @ [n]) es)"
| "firsts Q seen (_ # es) = firsts Q seen es"

definition listed :: "listing \<Rightarrow> uds list" where
  "listed l = concat (sent l) @ pending_list l"

lemma flush_listed [simp]:
  "listed (flushEntries l) = listed l" "discoveredNames (flushEntries l) = discoveredNames l"
  "unfinished (flushEntries l) = unfinished l" "quit (flushEntries l) = quit l"
  "pending_list (flushEntries l) = []"
  by (simp_all add: flushEntries_def listed_def)

definition finished_in :: "disc_event list \<Rightarrow> nat set" where
  "finished_in es = {i. Finished i \<in> set es}"

lemma finished_in_Cons [simp]:
  "finished_in (NewDiscovery n e # es) = finished_in es" "finished_in (Timeout # es) = finished_in es"
  "finished_in (Finished i # es) = insert i (finished_in es)" "finished_in [] = {}"
  by (auto simp: finished_in_def)

lemma disc_loop_before:
  assumes "\<not> quit l" "\<not> set (unfinished l) \<subseteq> finished_in es"
  shows "listed (disc_loop Q es l) = listed l @ firsts Q (discoveredNames l) es
    \<and> set (unfinished (disc_loop Q es l)) = set (unfinished l) - finished_in es \<and> \<not> quit (disc_loop Q es l)"
  using assms
proof (induction es arbitrary: l)
  case (Cons e es)
  show ?case
  proof (cases e)
    case (NewDiscovery n d)
    let ?l = "appendDiscovery Q n d l"
    have "\<not> quit ?l" "unfinished ?l = unfinished l" "discoveredNames ?l
          = (if foldCase Q n \<in> foldCase Q ` set (discoveredNames l) then discoveredNames l else discoveredNames l @ [n])"
        "listed ?l = listed l @ (if foldCase Q n \<in> foldCase Q ` set (discoveredNames l) then [] else [d])"
      using Cons.prems(1) by (simp_all add: appendDiscovery_def listed_def)
    with Cons.IH[of ?l] Cons.prems NewDiscovery show ?thesis by auto
  next
    case Timeout
    with Cons.IH[of "flushEntries l"] Cons.prems show ?thesis by simp
  next
    case (Finished i)
    let ?l = "l\<lparr>unfinished := removeAll i (unfinished l)\<rparr>"
    from Cons.prems(2) Finished have n: "\<not> set (unfinished ?l) \<subseteq> finished_in es" by auto
    then have "set (unfinished ?l) \<noteq> {}" by (metis empty_subsetI)
    then have "unfinished ?l \<noteq> []" by (metis set_empty)
    then have "maybeFinished ?l = ?l" by (simp add: maybeFinished_def)
    with Cons.IH[of ?l] Cons.prems(1) Finished n show ?thesis
      by (auto simp: listed_def)
  qed
qed (simp add: listed_def)

lemma disc_loop_append: "disc_loop Q (a @ b) l = disc_loop Q b (disc_loop Q a l)"
proof (induction a arbitrary: l)
  case Nil
  then show ?case by simp
next
  case (Cons e a)
  have "quit l \<Longrightarrow> disc_loop Q b l = l" by (cases b) simp_all
  with Cons show ?case by simp
qed

lemma listing_ends:
  assumes "\<not> {0..<n} \<subseteq> finished_in pre" "{0..<n} \<subseteq> insert i (finished_in pre)"
  shows "(let l = disc_loop Q (pre @ Finished i # post) (listing_init n) in
      quit l \<and> concat (sent l) = firsts Q [] pre \<and> pending_list l = [])
    \<and> \<not> quit (disc_loop Q pre (listing_init n))"
proof -
  let ?l = "disc_loop Q pre (listing_init n)"
  have i: "listed ?l = firsts Q [] pre" "set (unfinished ?l) = {0..<n} - finished_in pre" "\<not> quit ?l"
    using disc_loop_before[of "listing_init n" pre Q] assms(1) by (simp_all add: listing_init_def listed_def)
  from i(2) assms(2) have e: "removeAll i (unfinished ?l) = []"
    by (metis Diff_insert Diff_eq_empty_iff insert_is_Un set_empty set_removeAll)
  let ?m = "maybeFinished (?l\<lparr>unfinished := removeAll i (unfinished ?l)\<rparr>)"
  have m: "quit ?m" "listed ?m = listed ?l" "pending_list ?m = []"
    unfolding maybeFinished_def e
    by (simp_all add: listed_def flushEntries_def)
  have "disc_loop Q post ?m = ?m" using m(1) by (cases post) simp_all
  with i(3) have "disc_loop Q (pre @ Finished i # post) (listing_init n) = ?m"
    by (simp add: disc_loop_append)
  with i m show ?thesis by (simp add: listed_def)
qed

text \<open>
  A listing ends as soon as the last discoverer has finished, not before. It has then sent the
  application one entry for each name that was discovered, the first one, in the order of discovery;
  names that differ in case only count as one, whatever the timer and the discoverers interleave.
\<close>

lemma listing_sends_first_of_each_name:
  assumes "\<not> {0..<n} \<subseteq> finished_in pre" "{0..<n} \<subseteq> insert i (finished_in pre)"
  shows "(let l = disc_loop Q (pre @ Finished i # post) (listing_init n) in
      quit l \<and> concat (sent l) = firsts Q [] pre \<and> pending_list l = [])
    \<and> \<not> quit (disc_loop Q pre (listing_init n))"
  using assms by (rule listing_ends)

section \<open>The directory of a server\<close>

definition stat_fields :: "stat_t \<Rightarrow> uds \<Rightarrow> uds" where
  "stat_fields st e =
     (if \<not> S_ISDIR (st_mode st) \<and> \<not> S_ISREG (st_mode st) then e
      else e @ (if \<not> S_ISDIR (st_mode st) \<and> st_mode st AND S_IXOTH \<noteq> 0 then [UDS_HIDDEN True] else [])
        @ [UDS_FILE_TYPE (st_mode st AND S_IFMT), UDS_SIZE (st_size st),
           UDS_MODIFICATION_TIME (st_mtime st), UDS_ACCESS_TIME (st_atime st)])"

lemma run_statToUDSEntry:
  "\<exists>err s'. run_state (statToUDSEntry Q u st e) s = ((err, stat_fields st e), s') \<and> smbS s' = smbS s"
  by (simp add: statToUDSEntry_def stat_fields_def Let_def)

definition plus_events :: "string \<times> stat_t \<Rightarrow> disc_event list" where
  "plus_events = (\<lambda>(name, st). if name = ''.'' \<or> name = ''..'' then []
     else [NewDiscovery name (stat_fields st [UDS_NAME name])])"

text \<open>
  Documented behaviour of libsmbclient's directory streams: \<open>dir\<close> gives what the two reading functions
  have still to return for the descriptor, each in order and then nothing.
\<close>

definition serves :: "'w smbdir \<Rightarrow> int \<Rightarrow> ('w \<Rightarrow> (string \<times> stat_t) list \<times> dirent list) \<Rightarrow> bool" where
  "serves D fd dir \<longleftrightarrow> (\<forall>w.
     (case fst (dir w) of
        [] \<Rightarrow> fst (d_readdirplus2 D fd w) = None \<and> dir (snd (d_readdirplus2 D fd w)) = dir w
      | x # xs \<Rightarrow> fst (d_readdirplus2 D fd w) = Some x \<and> dir (snd (d_readdirplus2 D fd w)) = (xs, snd (dir w)))
     \<and> (case snd (dir w) of
          [] \<Rightarrow> fst (d_readdir D fd w) = None
        | y # ys \<Rightarrow> fst (d_readdir D fd w) = Some y \<and> dir (snd (d_readdir D fd w)) = (fst (dir w), ys)))"

lemma serves_plus:
  assumes "serves D fd dir"
  shows "dir w = (x # xs, ys) \<Longrightarrow> \<exists>w'. d_readdirplus2 D fd w = (Some x, w') \<and> dir w' = (xs, ys)"
    "dir w = ([], ys) \<Longrightarrow> \<exists>w'. d_readdirplus2 D fd w = (None, w') \<and> dir w' = ([], ys)"
  using assms[unfolded serves_def, rule_format, of w] by (cases "d_readdirplus2 D fd w"; simp)+

lemma serves_readdir:
  assumes "serves D fd dir"
  shows "dir w = (xs, y # ys) \<Longrightarrow> \<exists>w'. d_readdir D fd w = (Some y, w') \<and> dir w' = (xs, ys)"
    "dir w = (xs, []) \<Longrightarrow> \<exists>w'. d_readdir D fd w = (None, w')"
  using assms[unfolded serves_def, rule_format, of w] by (cases "d_readdir D fd w"; simp)+

lemma next_file:
  assumes "serves D fd dir" "havePlus D" "\<not> printersOnly D" "m_dirFd d = fd" "fd \<noteq> -1"
    "dir (lw (smbS s)) = (x # xs, ys)"
  shows "\<exists>u s'. run_state (discoverNext Q L D d) s
      = ((d\<lparr>m_url := u, m_dirWasRoot := m_dirWasRoot d \<and> fst x \<noteq> ''..''\<rparr>, plus_events x), s')
    \<and> dir (lw (smbS s')) = (xs, ys)"
proof -
  obtain w where w: "d_readdirplus2 D fd (lw (smbS s)) = (Some x, w)" "dir w = (xs, ys)"
    using serves_plus(1)[OF assms(1,6)] by blast
  let ?s = "s\<lparr>smbS := \<lparr>lw = w, calls = calls (smbS s) @ [CReaddirplus fd]\<rparr>\<rparr>"
  obtain name st where x: "x = (name, st)" by fastforce
  obtain err s' where st: "run_state (statToUDSEntry Q (base (addPath Q name (m_url d))) st [UDS_NAME name]) ?s
      = ((err, stat_fields st [UDS_NAME name]), s')" "smbS s' = smbS ?s"
    using run_statToUDSEntry by blast
  have c: "run_state (smb_call (CReaddirplus fd) (d_readdirplus2 D fd)) s = (Some x, ?s)"
    by (simp add: smb_call_def w)
  show ?thesis
  proof (cases "name = ''.'' \<or> name = ''..''")
    case True
    with assms c w have "run_state (discoverNext Q L D d) s = ((d\<lparr>m_url := m_url d,
        m_dirWasRoot := m_dirWasRoot d \<and> fst x \<noteq> ''..''\<rparr>, plus_events x), ?s)"
      by (cases "name = ''.''") (simp_all add: discoverNext_def discoverNextFileInfo_def x plus_events_def)
    with w(2) show ?thesis by (intro exI[of _ "m_url d"] exI[of _ ?s]) simp
  next
    case False
    with assms c w st have "run_state (discoverNext Q L D d) s = ((d\<lparr>m_url := cdUp Q (addPath Q name (m_url d)),
        m_dirWasRoot := m_dirWasRoot d \<and> fst x \<noteq> ''..''\<rparr>, plus_events x), s')"
      by (simp add: discoverNext_def discoverNextFileInfo_def x plus_events_def Let_def)
    with w st show ?thesis by force
  qed
qed

lemma next_dirent:
  assumes "serves D fd dir" "havePlus D" "\<not> printersOnly D" "m_dirFd d = fd" "fd \<noteq> -1"
    "dir (lw (smbS s)) = ([], ys)"
  shows "\<exists>s'. run_state (discoverNext Q L D d) s = ((case ys of
        [] \<Rightarrow> (d\<lparr>m_finished := True\<rparr>, [Finished 0]) | y # _ \<Rightarrow> (d, dirent_place Q D y (dirent_entry y))), s')
    \<and> (ys \<noteq> [] \<longrightarrow> dir (lw (smbS s')) = ([], tl ys))"
proof -
  obtain w where w: "d_readdirplus2 D fd (lw (smbS s)) = (None, w)" "dir w = ([], ys)"
    using serves_plus(2)[OF assms(1,6)] by blast
  show ?thesis
  proof (cases ys)
    case Nil
    with w obtain v where "d_readdir D fd w = (None, v)" using serves_readdir(2)[OF assms(1)] by blast
    with w assms Nil show ?thesis
      by (simp add: discoverNext_def discoverNextFileInfo_def smb_call_def stop_smbc_def)
  next
    case (Cons y zs)
    with w obtain v where "d_readdir D fd w = (Some y, v)" "dir v = ([], zs)"
      using serves_readdir(1)[OF assms(1)] by blast
    with w assms Cons show ?thesis
      by (simp add: discoverNext_def discoverNextFileInfo_def smb_call_def dirent_file_def Let_def)
  qed
qed

declare smbc_run.simps [simp del]

lemma smbc_run_finished: "m_finished d \<Longrightarrow> run_state (smbc_run Q L D n d) s = (Some (d, []), s)"
  by (cases n) (simp_all add: smbc_run.simps)

lemma smbc_run_next:
  assumes "run_state (discoverNext Q L D d) s = ((d1, e), t)" "\<not> m_finished d"
    "run_state (smbc_run Q L D n d1) t = (Some (d2, es), u)"
  shows "run_state (smbc_run Q L D (Suc n) d) s = (Some (d2, e @ es), u)"
  using assms by (simp add: smbc_run.simps)

lemma run_dirents:
  assumes "serves D fd dir" "havePlus D" "\<not> printersOnly D" "m_dirFd d = fd" "fd \<noteq> -1" "\<not> m_finished d"
    "dir (lw (smbS s)) = ([], ys)"
  shows "\<exists>s'. run_state (smbc_run Q L D (Suc (length ys) + k) d) s
    = (Some (d\<lparr>m_finished := True\<rparr>, concat (map (\<lambda>y. dirent_place Q D y (dirent_entry y)) ys) @ [Finished 0]), s')"
  using assms(7)
proof (induction ys arbitrary: s)
  case Nil
  with next_dirent[OF assms(1-5), of s "[]" Q L]
  obtain t where "run_state (discoverNext Q L D d) s = ((d\<lparr>m_finished := True\<rparr>, [Finished 0]), t)" by auto
  from smbc_run_next[OF this assms(6) smbc_run_finished, of k] show ?case by auto
next
  case (Cons y ys)
  with next_dirent[OF assms(1-5), of s "y # ys" Q L]
  obtain t where "run_state (discoverNext Q L D d) s = ((d, dirent_place Q D y (dirent_entry y)), t)"
      "dir (lw (smbS t)) = ([], ys)" by auto
  moreover obtain s' where "run_state (smbc_run Q L D (Suc (length ys) + k) d) t = (Some (d\<lparr>m_finished := True\<rparr>,
      concat (map (\<lambda>y. dirent_place Q D y (dirent_entry y)) ys) @ [Finished 0]), s')"
    using Cons.IH[of t] calculation(2) by blast
  ultimately show ?case using smbc_run_next[of Q L D d s _ _ t _ _ _ s', OF _ assms(6)] by auto
qed

lemma run_files:
  assumes "serves D fd dir" "havePlus D" "\<not> printersOnly D" "fd \<noteq> -1"
    "m_dirFd d = fd" "\<not> m_finished d" "dir (lw (smbS s)) = (xs, ys)"
  shows "\<exists>u s'. run_state (smbc_run Q L D (Suc (length xs + length ys) + k) d) s
    = (Some (d\<lparr>m_url := u, m_dirWasRoot := m_dirWasRoot d \<and> ''..'' \<notin> fst ` set xs, m_finished := True\<rparr>,
        concat (map plus_events xs) @ concat (map (\<lambda>y. dirent_place Q D y (dirent_entry y)) ys) @ [Finished 0]), s')"
  using assms(5-7)
proof (induction xs arbitrary: d s)
  case Nil
  with run_dirents[OF assms(1-3) Nil(1) assms(4) Nil(2,3), of Q L k]
  obtain s' where "run_state (smbc_run Q L D (Suc (length ys) + k) d) s
      = (Some (d\<lparr>m_finished := True\<rparr>, concat (map (\<lambda>y. dirent_place Q D y (dirent_entry y)) ys) @ [Finished 0]), s')"
    by blast
  moreover have "d\<lparr>m_finished := True\<rparr>
      = d\<lparr>m_url := m_url d, m_dirWasRoot := m_dirWasRoot d \<and> ''..'' \<notin> fst ` set [], m_finished := True\<rparr>" by simp
  ultimately have "run_state (smbc_run Q L D (Suc (length [] + length ys) + k) d) s
      = (Some (d\<lparr>m_url := m_url d, m_dirWasRoot := m_dirWasRoot d \<and> ''..'' \<notin> fst ` set [], m_finished := True\<rparr>,
        concat (map plus_events []) @ concat (map (\<lambda>y. dirent_place Q D y (dirent_entry y)) ys) @ [Finished 0]), s')"
    by simp
  then show ?case by blast
next
  case (Cons x xs)
  obtain u t where t: "run_state (discoverNext Q L D d) s
      = ((d\<lparr>m_url := u, m_dirWasRoot := m_dirWasRoot d \<and> fst x \<noteq> ''..''\<rparr>, plus_events x), t)"
      "dir (lw (smbS t)) = (xs, ys)"
    using next_file[OF assms(1-3) Cons(2) assms(4) Cons(4)] by blast
  let ?d = "d\<lparr>m_url := u, m_dirWasRoot := m_dirWasRoot d \<and> fst x \<noteq> ''..''\<rparr>"
  obtain v s' where "run_state (smbc_run Q L D (Suc (length xs + length ys) + k) ?d) t
      = (Some (?d\<lparr>m_url := v, m_dirWasRoot := m_dirWasRoot ?d \<and> ''..'' \<notin> fst ` set xs, m_finished := True\<rparr>,
        concat (map plus_events xs) @ concat (map (\<lambda>y. dirent_place Q D y (dirent_entry y)) ys) @ [Finished 0]), s')"
    using Cons.IH[of ?d t] Cons.prems t(2) by auto
  from smbc_run_next[OF t(1) Cons.prems(2) this]
  have "run_state (smbc_run Q L D (Suc (length (x # xs) + length ys) + k) d) s
      = (Some (d\<lparr>m_url := v, m_dirWasRoot := m_dirWasRoot d \<and> ''..'' \<notin> fst ` set (x # xs), m_finished := True\<rparr>,
        concat (map plus_events (x # xs)) @ concat (map (\<lambda>y. dirent_place Q D y (dirent_entry y)) ys) @ [Finished 0]), s')"
    by (simp add: eq_commute[of "''..''"])
  then show ?case by blast
qed

text \<open>What the discoverer of libsmbclient reports for the contents of a directory.\<close>

definition dir_events :: "qt \<Rightarrow> 'w smbdir \<Rightarrow> (string \<times> stat_t) list \<Rightarrow> dirent list \<Rightarrow> disc_event list" where
  "dir_events Q D xs ys =
     concat (map plus_events xs) @ concat (map (\<lambda>y. dirent_place Q D y (dirent_entry y)) ys)"

lemma plus_events_finished: "concat (map plus_events xs) = es \<Longrightarrow> Finished i \<notin> set es"
  by (auto simp: plus_events_def split: if_splits)

lemma dir_events_finished: "finished_in (dir_events Q D xs ys) = {}"
  by (auto simp: finished_in_def dir_events_def plus_events_def dirent_place_def split: if_splits)


text \<open>A library whose state is what it has still to return.\<close>

definition demo_dir :: "((string \<times> stat_t) list \<times> dirent list) smbdir" where
  "demo_dir = \<lparr>d_opendir = (\<lambda>u w. ((E_OK, 3), w)),
     d_readdirplus2 = (\<lambda>fd w. case w of ([], ys) \<Rightarrow> (None, ([], ys)) | (x # xs, ys) \<Rightarrow> (Some x, (xs, ys))),
     d_readdir = (\<lambda>fd w. case w of (xs, []) \<Rightarrow> (None, (xs, [])) | (xs, y # ys) \<Rightarrow> (Some y, (xs, ys))),
     d_closedir = (\<lambda>fd w. ((), w)), hostUrl = (\<lambda>h. Some h), havePlus = True, printersOnly = False\<rparr>"

lemma demo_dir_serves: "serves demo_dir 3 (\<lambda>w. w)"
  by (auto simp: serves_def demo_dir_def split: list.splits prod.splits)

lemma demo_dir_facts:
  "havePlus demo_dir" "\<not> printersOnly demo_dir" "d_opendir demo_dir t w = ((E_OK, 3), w)"
  by (simp_all add: demo_dir_def)

definition demo_listing :: "((string \<times> stat_t) list \<times> dirent list, disk) wk" where
  "demo_listing = \<lparr>smbS = \<lparr>lw = ([(''..'', demo_stat_t 1), (''f'', demo_stat_t 1)], []), calls = []\<rparr>,
     appS = \<lparr>aw = demo_disk [], msgs = []\<rparr>, m_current_url = newSMBUrl, m_openUrl = newSMBUrl,
     m_st = demo_stat_t 0, m_openFd = -1\<rparr>"


section \<open>No discoverer keeps a listing waiting\<close>

text \<open>
  What a discoverer may be told: a service is resolved once, the answer to a resolve is about the
  endpoint that it was sent for, and a host answers once.
\<close>

fun dnssd_fits :: "dnssd \<Rightarrow> dnssd_event \<Rightarrow> bool" where
  "dnssd_fits d (ServiceResolved s h p) = (m_resolvedCount d < length (m_services d))"
| "dnssd_fits d _ = True"

fun wsd_fits :: "wsd \<Rightarrow> wsd_event \<Rightarrow> bool" where
  "wsd_fits d (Resolved c r) = (w_resolved d < length (w_resolvers d))"
| "wsd_fits d (ResolveMatch ep s) = (ws_endpoint s = ep \<and> (ep \<in> set (w_waiting d) \<or> ep \<in> set (w_seen d)))"
| "wsd_fits d _ = True"



lemma name_before_none:
  assumes "\<And>j. \<not> starts_with (''/'' @ word) (drop j s)"
  shows "name_before word needs s = None"
proof -
  have e: "concat (map (\<lambda>i. []) xs) = []" for xs :: "nat list" by (induction xs) auto
  show ?thesis using assms by (simp add: name_before_def Let_def e)
qed

lemma filter_one: "distinct xs \<Longrightarrow> x \<in> set xs \<Longrightarrow> (\<And>y. y \<in> set xs \<Longrightarrow> P y \<longleftrightarrow> y = x) \<Longrightarrow> filter P xs = [x]"
proof (induction xs)
  case (Cons y ys)
  then show ?case
  proof (cases "y = x")
    case True
    with Cons.prems have "filter P ys = []" by (auto simp: filter_empty_conv)
    with Cons.prems True show ?thesis by simp
  qed auto
qed simp

lemma name_before_unique:
  assumes "0 < k" "k < length s" "CHR 0x0A \<notin> set (take k s)" "starts_with (''/'' @ word) (drop k s)"
    "needs \<Longrightarrow> k + 1 + length word < length s \<and> s ! (k + 1 + length word) \<noteq> CHR 0x0A"
    "\<And>j. starts_with (''/'' @ word) (drop j s) \<Longrightarrow> j = k"
  shows "name_before word needs s = Some (take k s)"
proof -
  let ?fits = "\<lambda>i j. CHR 0x0A \<notin> set (take (j - i) (drop i s)) \<and> starts_with (''/'' @ word) (drop j s)
      \<and> (needs \<longrightarrow> j + 1 + length word < length s \<and> s ! (j + 1 + length word) \<noteq> CHR 0x0A)"
  define F where "F = (\<lambda>i. map (\<lambda>j. take (j - i) (drop i s)) (filter (?fits i) (rev [i + 1..<length s])))"
  have "filter (?fits 0) (rev [0 + 1..<length s]) = [k]"
  proof (rule filter_one)
    show "?fits 0 y \<longleftrightarrow> y = k" for y
      using assms(3,4,5) assms(6)[of y] unfolding diff_zero drop_0 by blast
  qed (use assms(1,2) in \<open>simp_all only: set_rev set_upt distinct_rev distinct_upt, simp_all\<close>)
  then have f: "F 0 = [take k s]" by (simp add: F_def)
  have u: "[0..<length s] = 0 # [1..<length s]" using assms(2) by (metis One_nat_def le0 less_le_trans not_less0 upt_conv_Cons neq0_conv)
  have c: "concat (map F [0..<length s]) = take k s # concat (map F [1..<length s])"
    by (simp only: u list.map concat.simps f append_Cons append_Nil)
  have "name_before word needs s = (case concat (map F [0..<length s]) of [] \<Rightarrow> None | n # _ \<Rightarrow> Some n)"
    unfolding name_before_def Let_def F_def ..
  then show ?thesis by (simp only: c list.case)
qed

lemma starts_char: "starts_with (c # w) (drop j s) \<Longrightarrow> j < length s \<and> s ! j = c"
proof -
  assume s: "starts_with (c # w) (drop j s)"
  then have l: "j < length s" by (cases "j < length s") (simp_all add: starts_with_def)
  with s show ?thesis by (simp add: starts_with_def Cons_nth_drop_Suc[symmetric])
qed

lemma one_slash:
  assumes "starts_with (CHR ''/'' # w) (drop j (a @ CHR ''/'' # b))" "CHR ''/'' \<notin> set a" "CHR ''/'' \<notin> set b"
  shows "j = length a"
proof (rule ccontr)
  assume "j \<noteq> length a"
  with starts_char[OF assms(1)]
  have "j < length a \<and> a ! j = CHR ''/'' \<or> j - Suc (length a) < length b \<and> b ! (j - Suc (length a)) = CHR ''/''"
    by (auto simp: nth_append nth_Cons' split: if_splits)
  with assms(2,3) show False using nth_mem by metis
qed

lemma no_slash: "CHR ''/'' \<notin> set s \<Longrightarrow> \<not> starts_with (CHR ''/'' # w) (drop j s)"
  using starts_char nth_mem by metis

text \<open>
  The name of a computer is found in what it says of itself when name and membership are separated
  by a slash. The documentation also allows a backslash, which the expressions do not match: then the
  whole text is taken for the name.
\<close>

lemma computer_name:
  assumes "CHR ''/'' \<notin> set name" "name \<noteq> []" "CHR 0x0A \<notin> set name" "CHR ''/'' \<notin> set g" "g \<noteq> []" "CHR 0x0A \<notin> set g"
  shows "nameFromComputerInfo (name @ ''/Workgroup:'' @ g) = name
    \<and> nameFromComputerInfo (name @ [CHR 0x5C] @ ''Workgroup:'' @ g) = name @ [CHR 0x5C] @ ''Workgroup:'' @ g"
proof
  let ?w = "''Workgroup:'' @ g"
  let ?s = "name @ CHR ''/'' # ?w"
  have w: "CHR ''/'' \<notin> set ?w" using assms(4) by simp
  have n: "name_before word needs ?s = None" if "\<not> starts_with (CHR ''/'' # word) (CHR ''/'' # ?w)" for word needs
  proof (rule name_before_none, rule notI)
    fix j
    assume j: "starts_with (''/'' @ word) (drop j ?s)"
    then have "starts_with (CHR ''/'' # word) (drop j ?s)" by simp
    from one_slash[OF this assms(1) w] j that show False by simp
  qed
  have "name_before ''NotJoined'' False ?s = None" "name_before ''Domain:'' True ?s = None"
    by (rule n, simp add: starts_with_def)+
  moreover have "name_before ''Workgroup:'' True ?s = Some (take (length name) ?s)"
  proof (rule name_before_unique)
    show "j = length name" if "starts_with (''/'' @ ''Workgroup:'') (drop j ?s)" for j
      using that by (intro one_slash[OF _ assms(1) w]) (simp only: append_Cons append_Nil)
    show "length name + 1 + length ''Workgroup:'' < length ?s \<and> ?s ! (length name + 1 + length ''Workgroup:'') \<noteq> CHR 0x0A"
    proof -
      have "?s ! (length name + Suc (length ''Workgroup:'')) = (CHR ''/'' # ?w) ! Suc (length ''Workgroup:'')"
        by (rule nth_append_length_plus)
      moreover have "(CHR ''/'' # ?w) ! Suc (length ''Workgroup:'') = hd g"
        using assms(5) by (cases g) simp_all
      moreover have "hd g \<noteq> CHR 0x0A" using assms(5,6) by (cases g) auto
      moreover have "0 < length g" using assms(5) by simp
      ultimately show ?thesis by simp
    qed
  qed (use assms in \<open>simp_all add: starts_with_def\<close>)
  ultimately show "nameFromComputerInfo (name @ ''/Workgroup:'' @ g) = name" by (simp add: nameFromComputerInfo_def)
  let ?t = "name @ [CHR 0x5C] @ ''Workgroup:'' @ g"
  have "CHR ''/'' \<notin> set ?t" using assms(1,4) by simp
  from no_slash[OF this] have "name_before word needs ?t = None" for word needs
    by (intro name_before_none) (simp only: append_Cons append_Nil not_False_eq_True)
  then show "nameFromComputerInfo ?t = ?t" by (simp add: nameFromComputerInfo_def)
qed

end
