(* ===== verification/FishCommands.thy ===== *)
theory FishCommands
  imports QtUrl
begin

text \<open>
  The commands of the FISH protocol (fish/fish.cpp): the table \<open>fishInfo\<close>, the escaping of
  arguments, and the text that \<open>sendCommand\<close> queues for a command. The text has two lines: the
  command for a server that understands the protocol, behind \<open>#\<close> so that a plain shell takes it for
  a comment, and the shell commands that do the same. \<open>CHECKSUM\<close> comes from a generated file and is
  a parameter. What a shell reads from the text is specified by \<open>sh_word\<close>.
\<close>

section \<open>The table\<close>

datatype (plugins only: code) fish_command_type =
    FISH_FISH | FISH_VER | FISH_PWD | FISH_LIST | FISH_STAT | FISH_RETR | FISH_STOR | FISH_CWD
  | FISH_CHMOD | FISH_DELE | FISH_MKD | FISH_RMD | FISH_RENAME | FISH_LINK | FISH_SYMLINK
  | FISH_CHOWN | FISH_CHGRP | FISH_READ | FISH_WRITE | FISH_COPY | FISH_APPEND | FISH_EXEC

record fish_info =
  command :: string
  params :: nat
  alt :: string
  lines :: int

primrec fishInfo :: "string \<Rightarrow> fish_command_type \<Rightarrow> fish_info" where
  "fishInfo checksum FISH_FISH = \<lparr>command = ''FISH'', params = 0, alt =
       ''echo; /bin/sh -c start_fish_server > /dev/null 2>/dev/null; perl .fishsrv.pl '' @ checksum
        @ '' 2>/dev/null; perl -e '' @ [CHR 0x27] @ ''$|=1; print '' @ [CHR 0x22]
        @ ''### 100 transfer fish server'' @ [CHR 0x5C] @ ''n'' @ [CHR 0x22]
        @ ''; while(<STDIN>) { last if /^__END__/; $code.=$_; } exit(eval($code));'' @ [CHR 0x27]
        @ '' '' @ ''2>/dev/null;'',
     lines = 1\<rparr>"
| "fishInfo checksum FISH_VER = \<lparr>command = ''VER 0.0.3 copy append lscount lslinks lsmime exec stat'', params = 0, alt =
       ''echo '' @ [CHR 0x27] @ ''VER 0.0.3 copy append lscount lslinks lsmime exec stat''
        @ [CHR 0x27],
     lines = 1\<rparr>"
| "fishInfo checksum FISH_PWD = \<lparr>command = ''PWD'', params = 0, alt =
       ''pwd'',
     lines = 1\<rparr>"
| "fishInfo checksum FISH_LIST = \<lparr>command = ''LIST'', params = 1, alt =
       ''echo `ls -Lla %1 2> /dev/null | grep '' @ [CHR 0x27] @ ''^[-dsplcb]'' @ [CHR 0x27]
        @ '' | wc -l`;'' @ ''echo '' @ [CHR 0x27] @ ''### 100'' @ [CHR 0x27] @ '';''
        @ ''ls -Lla %1 2>/dev/null | grep '' @ [CHR 0x27] @ ''^[-dspl]'' @ [CHR 0x27]
        @ '' | ( while read -r p x u g s m d y n; do file -b -i $n 2>/dev/null | sed -e ''
        @ [CHR 0x27, CHR 0x5C] @ '',^[^/]*$,d;s/^/M/;s,/.*[ '' @ [CHR 0x09] @ ''],/,'' @ [CHR 0x27]
        @ ''; FILE=%1; if [ -e %1'' @ [CHR 0x22] @ ''/$n'' @ [CHR 0x22] @ '' ]; then FILE=%1''
        @ [CHR 0x22] @ ''/$n'' @ [CHR 0x22] @ ''; fi; if [ -L '' @ [CHR 0x22] @ ''$FILE''
        @ [CHR 0x22] @ '' ]; then echo '' @ [CHR 0x22] @ '':$n'' @ [CHR 0x22] @ ''; ls -lad ''
        @ [CHR 0x22] @ ''$FILE'' @ [CHR 0x22] @ '' | sed -e '' @ [CHR 0x27] @ ''s/.* -> /L/''
        @ [CHR 0x27] @ ''; else '' @ ''echo '' @ [CHR 0x22] @ '':$n'' @ [CHR 0x22] @ '' | sed -e ''
        @ [CHR 0x27] @ ''s/ -> /'' @ [CHR 0x5C, CHR 0x0A] @ ''L/'' @ [CHR 0x27] @ ''; fi; echo ''
        @ [CHR 0x22] @ ''P$p $u.$g'' @ [CHR 0x0A] @ ''S$s'' @ [CHR 0x0A] @ ''d$m $d $y''
        @ [CHR 0x0A, CHR 0x22] @ ''; done; );'' @ ''ls -Lla %1 2>/dev/null | grep '' @ [CHR 0x27]
        @ ''^[cb]'' @ [CHR 0x27] @ '' | ( while read -r p x u g a i m d y n; do echo '' @ [CHR 0x22]
        @ ''P$p $u.$g'' @ [CHR 0x0A] @ ''E$a$i'' @ [CHR 0x0A] @ ''d$m $d $y'' @ [CHR 0x0A] @ '':$n''
        @ [CHR 0x0A, CHR 0x22] @ ''; done; )'',
     lines = 0\<rparr>"
| "fishInfo checksum FISH_STAT = \<lparr>command = ''STAT'', params = 1, alt =
       ''echo `ls -dLla %1 2> /dev/null | grep '' @ [CHR 0x27] @ ''^[-dsplcb]'' @ [CHR 0x27]
        @ '' | wc -l`;'' @ ''echo '' @ [CHR 0x27] @ ''### 100'' @ [CHR 0x27] @ '';''
        @ ''ls -dLla %1 2>/dev/null | grep '' @ [CHR 0x27] @ ''^[-dspl]'' @ [CHR 0x27]
        @ '' | ( while read -r p x u g s m d y n; do file -b -i $n 2>/dev/null | sed -e ''
        @ [CHR 0x27, CHR 0x5C] @ '',^[^/]*$,d;s/^/M/;s,/.*[ '' @ [CHR 0x09] @ ''],/,'' @ [CHR 0x27]
        @ ''; FILE=%1; if [ -e %1'' @ [CHR 0x22] @ ''/$n'' @ [CHR 0x22] @ '' ]; then FILE=%1''
        @ [CHR 0x22] @ ''/$n'' @ [CHR 0x22] @ ''; fi; if [ -L '' @ [CHR 0x22] @ ''$FILE''
        @ [CHR 0x22] @ '' ]; then echo '' @ [CHR 0x22] @ '':$n'' @ [CHR 0x22] @ ''; ls -lad ''
        @ [CHR 0x22] @ ''$FILE'' @ [CHR 0x22] @ '' | sed -e '' @ [CHR 0x27] @ ''s/.* -> /L/''
        @ [CHR 0x27] @ ''; else '' @ ''echo '' @ [CHR 0x22] @ '':$n'' @ [CHR 0x22] @ '' | sed -e ''
        @ [CHR 0x27] @ ''s/ -> /'' @ [CHR 0x5C, CHR 0x0A] @ ''L/'' @ [CHR 0x27] @ ''; fi; echo ''
        @ [CHR 0x22] @ ''P$p $u.$g'' @ [CHR 0x0A] @ ''S$s'' @ [CHR 0x0A] @ ''d$m $d $y''
        @ [CHR 0x0A, CHR 0x22] @ ''; done; );'' @ ''ls -dLla %1 2>/dev/null | grep '' @ [CHR 0x27]
        @ ''^[cb]'' @ [CHR 0x27] @ '' | ( while read -r p x u g a i m d y n; do echo '' @ [CHR 0x22]
        @ ''P$p $u.$g'' @ [CHR 0x0A] @ ''E$a$i'' @ [CHR 0x0A] @ ''d$m $d $y'' @ [CHR 0x0A] @ '':$n''
        @ [CHR 0x0A, CHR 0x22] @ ''; done; )'',
     lines = 0\<rparr>"
| "fishInfo checksum FISH_RETR = \<lparr>command = ''RETR'', params = 1, alt =
       ''ls -l %1 2>&1 | ( read -r a b c d x e; echo $x ) 2>&1; echo '' @ [CHR 0x27] @ ''### 001''
        @ [CHR 0x27] @ ''; cat %1'',
     lines = 1\<rparr>"
| "fishInfo checksum FISH_STOR = \<lparr>command = ''STOR'', params = 2, alt =
       ''> %2; echo '' @ [CHR 0x27] @ ''### 001'' @ [CHR 0x27] @ ''; ( [ '' @ [CHR 0x22]
        @ ''`expr %1 / 4096`'' @ [CHR 0x22]
        @ '' -gt 0 ] && dd bs=4096 count=`expr %1 / 4096` 2>/dev/null;'' @ ''[ '' @ [CHR 0x22]
        @ ''`expr %1 % 4096`'' @ [CHR 0x22]
        @ '' -gt 0 ] && dd bs=`expr %1 % 4096` count=1 2>/dev/null; ) | ( cat > %2 || echo Error $?; cat > /dev/null )'',
     lines = 0\<rparr>"
| "fishInfo checksum FISH_CWD = \<lparr>command = ''CWD'', params = 1, alt =
       ''cd %1'',
     lines = 0\<rparr>"
| "fishInfo checksum FISH_CHMOD = \<lparr>command = ''CHMOD'', params = 2, alt =
       ''chmod %1 %2'',
     lines = 0\<rparr>"
| "fishInfo checksum FISH_DELE = \<lparr>command = ''DELE'', params = 1, alt =
       ''rm -f %1'',
     lines = 0\<rparr>"
| "fishInfo checksum FISH_MKD = \<lparr>command = ''MKD'', params = 1, alt =
       ''mkdir %1'',
     lines = 0\<rparr>"
| "fishInfo checksum FISH_RMD = \<lparr>command = ''RMD'', params = 1, alt =
       ''rmdir %1'',
     lines = 0\<rparr>"
| "fishInfo checksum FISH_RENAME = \<lparr>command = ''RENAME'', params = 2, alt =
       ''mv -f %1 %2'',
     lines = 0\<rparr>"
| "fishInfo checksum FISH_LINK = \<lparr>command = ''LINK'', params = 2, alt =
       ''ln -f %1 %2'',
     lines = 0\<rparr>"
| "fishInfo checksum FISH_SYMLINK = \<lparr>command = ''SYMLINK'', params = 2, alt =
       ''ln -sf %1 %2'',
     lines = 0\<rparr>"
| "fishInfo checksum FISH_CHOWN = \<lparr>command = ''CHOWN'', params = 2, alt =
       ''chown %1 %2'',
     lines = 0\<rparr>"
| "fishInfo checksum FISH_CHGRP = \<lparr>command = ''CHGRP'', params = 2, alt =
       ''chgrp %1 %2'',
     lines = 0\<rparr>"
| "fishInfo checksum FISH_READ = \<lparr>command = ''READ'', params = 3, alt =
       ''echo '' @ [CHR 0x27] @ ''### 100'' @ [CHR 0x27] @ '';cat %3 /dev/zero | ( [ '' @ [CHR 0x22]
        @ ''`expr %1 / 4096`'' @ [CHR 0x22]
        @ '' -gt 0 ] && dd bs=4096 count=`expr %1 / 4096` >/dev/null;'' @ ''[ '' @ [CHR 0x22]
        @ ''`expr %1 % 4096`'' @ [CHR 0x22]
        @ '' -gt 0 ] && dd bs=`expr %1 % 4096` count=1 >/dev/null;''
        @ ''dd bs=%2 count=1; ) 2>/dev/null;'',
     lines = 0\<rparr>"
| "fishInfo checksum FISH_WRITE = \<lparr>command = ''WRITE'', params = 3, alt =
       ''>> %3; echo '' @ [CHR 0x27] @ ''### 001'' @ [CHR 0x27]
        @ ''; ( [ %2 -gt 0 ] && dd ibs=1 obs=%2 count=%2 2>/dev/null ) | ''
        @ ''( dd ibs=32768 obs=%1 seek=1 of=%3 2>/dev/null || echo Error $?; cat >/dev/null; )'',
     lines = 0\<rparr>"
| "fishInfo checksum FISH_COPY = \<lparr>command = ''COPY'', params = 2, alt =
       ''if [ -L %1 ]; then if cp -pdf %1 %2 2>/dev/null; then :; else LINK='' @ [CHR 0x22]
        @ ''`readlink %1`'' @ [CHR 0x22] @ ''; ln -sf $LINK %2; fi; else cp -pf %1 %2; fi'',
     lines = 0\<rparr>"
| "fishInfo checksum FISH_APPEND = \<lparr>command = ''APPEND'', params = 2, alt =
       ''>> %2; echo '' @ [CHR 0x27] @ ''### 001'' @ [CHR 0x27]
        @ ''; ( [ %1 -gt 0 ] && dd ibs=1 obs=%1 count=%1 2> /dev/null; ) | ( cat >> %2 || echo Error $?; cat >/dev/null; )'',
     lines = 0\<rparr>"
| "fishInfo checksum FISH_EXEC = \<lparr>command = ''EXEC'', params = 2, alt =
       ''UMASK=`umask`; umask 077; touch %2; umask $UMASK; eval %1 < /dev/null > %2 2>&1; echo ''
        @ [CHR 0x22] @ ''###RESULT: $?'' @ [CHR 0x22] @ '' >> %2'',
     lines = 0\<rparr>"

section \<open>Building a command\<close>

text \<open>\<open>rx\<close>: the characters that are escaped.\<close>

definition rx :: string where
  "rx = '']['' @ [CHR 0x5C, CHR 0x0A] @ '' $`#!()*?{}~&<>;'' @ [CHR 0x27, CHR 0x22] @ ''%^@|'' @ [CHR 0x09]"

fun escape :: "string \<Rightarrow> string" where
  "escape [] = []"
| "escape (c # s) = (if c \<in> set rx then CHR 0x5C # c # escape s else c # escape s)"

text \<open>\<open>QString::replace\<close> of the two characters \<open>%k\<close>, from left to right.\<close>

fun replace_param :: "char \<Rightarrow> string \<Rightarrow> string \<Rightarrow> string" where
  "replace_param k r [] = []"
| "replace_param k r [c] = [c]"
| "replace_param k r (c # d # s) = (if c = CHR ''%'' \<and> d = k then r @ replace_param k r s
                                   else c # replace_param k r (d # s))"

definition param_digit :: "nat \<Rightarrow> char" where
  "param_digit i = char_of (49 + i)"

fun build :: "nat \<Rightarrow> string list \<Rightarrow> string \<times> string \<Rightarrow> string \<times> string" where
  "build i [] (realCmd, realAlt) = (realCmd, realAlt)"
| "build i (a # as) (realCmd, realAlt) = (let arg = escape a in
     build (Suc i) as (realCmd @ '' '' @ arg, replace_param (param_digit i) arg realAlt))"

definition command_text :: "string \<Rightarrow> fish_command_type \<Rightarrow> string list \<Rightarrow> string" where
  "command_text checksum cmd args =
     (let info = fishInfo checksum cmd;
          (realCmd, realAlt) = build 0 (take (params info) args) (command info, alt info);
          s = ''#'' @ realCmd @ [CHR 0x0A, CHR 0x20] @ realAlt
              @ '' 2>&1;echo '' @ [CHR 0x27] @ ''### 200'' @ [CHR 0x27, CHR 0x0A]
      in if realCmd = ''FISH'' then '' '' @ s else s)"

section \<open>What a shell reads\<close>

text \<open>
  The word that a POSIX shell reads from an unquoted text: a backslash makes the next character
  literal, a backslash before a newline disappears with it, and None is a text in which another
  character has a meaning for the shell, so that it is not one word.
\<close>

definition sh_special :: string where
  "sh_special = ''|&;<>()$`*?[]#~%!{}^'' @ [CHR 0x22, CHR 0x27, CHR 0x20, CHR 0x09, CHR 0x0A]"

fun sh_word :: "string \<Rightarrow> string option" where
  "sh_word [] = Some []"
| "sh_word [c] = (if c = CHR 0x5C \<or> c \<in> set sh_special then None else Some [c])"
| "sh_word (c # d # s) =
     (if c = CHR 0x5C then (if d = CHR 0x0A then sh_word s else map_option ((#) d) (sh_word s))
      else if c \<in> set sh_special then None
      else map_option ((#) c) (sh_word (d # s)))"

text \<open>What is left of a text after its first line, which a shell skips when it is a comment.\<close>

definition after_line :: "string \<Rightarrow> string" where
  "after_line s = drop 1 (dropWhile (\<lambda>c. c \<noteq> CHR 0x0A) s)"

section \<open>Facts\<close>

lemma sh_word_plain:
  "c \<noteq> CHR 0x5C \<Longrightarrow> c \<notin> set sh_special \<Longrightarrow> sh_word (c # s) = map_option ((#) c) (sh_word s)"
  by (cases s) auto

lemma special_rx: "c \<in> set sh_special \<Longrightarrow> c \<in> set rx"
  by (auto simp: sh_special_def rx_def)

lemma backslash_rx: "CHR 0x5C \<in> set rx" "CHR ''%'' \<in> set rx" "CHR 0x0A \<in> set rx"
  by (simp_all add: rx_def)

lemma sh_word_escape: "sh_word (escape s) = Some (filter (\<lambda>c. c \<noteq> CHR 0x0A) s)"
proof (induction s)
  case (Cons c s)
  show ?case
  proof (cases "c \<in> set rx")
    case True
    with Cons show ?thesis by simp
  next
    case False
    then have "c \<noteq> CHR 0x5C" "c \<notin> set sh_special" "c \<noteq> CHR 0x0A"
      using special_rx backslash_rx by auto
    with Cons False show ?thesis by (simp add: sh_word_plain)
  qed
qed simp

lemma replace_param_prefix:
  "CHR ''%'' \<notin> set p \<Longrightarrow> replace_param k r (p @ s) = p @ replace_param k r s"
proof (induction p)
  case (Cons c p)
  then show ?case by (cases "p @ s") auto
qed simp

lemma replace_param_skip: "c \<noteq> CHR ''%'' \<Longrightarrow> replace_param k r (c # s) = c # replace_param k r s"
  using replace_param_prefix[of "[c]" k r s] by simp

lemma replace_param_none: "CHR ''%'' \<notin> set s \<Longrightarrow> replace_param k r s = s"
  using replace_param_prefix[of s k r "[]"] by simp

lemma replace_param_hit: "replace_param k r (CHR ''%'' # k # s) = r @ replace_param k r s"
  by simp

lemma escape_append: "escape (a @ b) = escape a @ escape b"
  by (induction a) auto

lemma escape_no_percent: "CHR ''%'' \<notin> set a \<Longrightarrow> CHR ''%'' \<notin> set (escape a)"
  by (induction a) auto

section \<open>Properties\<close>


lemma param_digits: "param_digit 0 = CHR ''1''" "param_digit (Suc 0) = CHR ''2''"
  by code_simp+

definition rename_text :: "string \<Rightarrow> string \<Rightarrow> string \<Rightarrow> string" where
  "rename_text a b moved = ''#RENAME '' @ a @ '' '' @ b @ [CHR 0x0A, CHR 0x20]
     @ ''mv -f '' @ moved @ '' '' @ b @ '' 2>&1;echo '' @ [CHR 0x27] @ ''### 200'' @ [CHR 0x27, CHR 0x0A]"

lemma rename_build:
  assumes "replace_param (CHR ''2'') (escape b) (escape a @ '' %2'') = moved @ '' '' @ escape b"
  shows "command_text csum FISH_RENAME [a, b] = rename_text (escape a) (escape b) moved"
  using assms by (simp add: command_text_def rename_text_def Let_def param_digits replace_param_skip)

text \<open>
  The shell commands of a rename name the two files, each as its escaped name, when the name of
  the first contains no percent sign. When it contains the characters \<open>%2\<close>, the second replacement
  puts the second name in their place, so that the shell moves another file.
\<close>

lemma rename_command_names:
  assumes "CHR ''%'' \<notin> set a" "CHR ''%'' \<notin> set c"
  shows "command_text csum FISH_RENAME [a, b] = rename_text (escape a) (escape b) (escape a)
    \<and> command_text csum FISH_RENAME [a @ ''%2'' @ c, b]
      = rename_text (escape (a @ ''%2'' @ c)) (escape b) (escape a @ [CHR 0x5C] @ escape b @ escape c)"
proof
  show "command_text csum FISH_RENAME [a, b] = rename_text (escape a) (escape b) (escape a)"
    by (rule rename_build) (simp add: replace_param_prefix[OF escape_no_percent[OF assms(1)]])
  have e: "escape (a @ ''%2'' @ c) @ '' %2'' = (escape a @ [CHR 0x5C]) @ CHR ''%'' # CHR ''2'' # escape c @ '' %2''"
    by (simp add: escape_append rx_def)
  have a: "CHR ''%'' \<notin> set (escape a @ [CHR 0x5C])" using escape_no_percent[OF assms(1)] by simp
  have "replace_param (CHR ''2'') (escape b) (escape (a @ ''%2'' @ c) @ '' %2'')
      = (escape a @ [CHR 0x5C]) @ escape b @ escape c @ replace_param (CHR ''2'') (escape b) '' %2''"
    by (simp only: e replace_param_prefix[OF a] replace_param_hit
        replace_param_prefix[OF escape_no_percent[OF assms(2)]])
  then have "replace_param (CHR ''2'') (escape b) (escape (a @ ''%2'' @ c) @ '' %2'')
      = (escape a @ [CHR 0x5C] @ escape b @ escape c) @ '' '' @ escape b" by simp
  then show "command_text csum FISH_RENAME [a @ ''%2'' @ c, b]
      = rename_text (escape (a @ ''%2'' @ c)) (escape b) (escape a @ [CHR 0x5C] @ escape b @ escape c)"
    by (rule rename_build)
qed

lemma rename_command_names_instance:
  "command_text [] FISH_RENAME [''a%2'', ''c''] = rename_text (escape ''a%2'') (escape ''c'') (''a'' @ [CHR 0x5C] @ ''c'')"
  using rename_command_names[of "''a''" "[]" "[]" "''c''"] by (simp add: rx_def)

text \<open>
  A newline in the argument of a command with one argument ends the comment that hides the
  protocol command from a plain shell: the rest of the name is the next line that the shell runs.
\<close>

lemma newline_ends_comment:
  assumes "params (fishInfo csum cmd) = 1" "CHR 0x0A \<notin> set p"
  shows "\<exists>rest. after_line (command_text csum cmd [p @ CHR 0x0A # q]) = escape q @ CHR 0x0A # rest"
proof -
  have d: "dropWhile (\<lambda>c. c \<noteq> CHR 0x0A) (h @ CHR 0x0A # t) = CHR 0x0A # t" if "CHR 0x0A \<notin> set h" for h t
    using that by (induction h) auto
  have e: "escape (p @ CHR 0x0A # q) = (escape p @ [CHR 0x5C]) @ CHR 0x0A # escape q"
    by (simp add: escape_append rx_def)
  have "CHR 0x0A \<notin> set (escape p)" using assms(2) by (induction p) auto
  moreover have "CHR 0x0A \<notin> set (command (fishInfo csum cmd))" by (cases cmd) simp_all
  ultimately have n: "CHR 0x0A \<notin> set (''#'' @ command (fishInfo csum cmd) @ '' '' @ escape p @ [CHR 0x5C])"
    by simp
  have c: "command (fishInfo csum cmd) @ '' '' @ t \<noteq> ''FISH''" for t by (cases cmd) simp_all
  have "command_text csum cmd [p @ CHR 0x0A # q] = (''#'' @ command (fishInfo csum cmd) @ '' '' @ escape p @ [CHR 0x5C])
      @ CHR 0x0A # escape q @ CHR 0x0A # CHR 0x20
        # replace_param (CHR ''1'') (escape (p @ CHR 0x0A # q)) (alt (fishInfo csum cmd))
        @ '' 2>&1;echo '' @ [CHR 0x27] @ ''### 200'' @ [CHR 0x27, CHR 0x0A]"
    using assms(1) c by (simp add: command_text_def Let_def param_digits e)
  with d[OF n] show ?thesis by (simp only: after_line_def) simp
qed

end
