(* ===== verification/FishWorker.thy ===== *)
theory FishWorker
  imports FishCommands "HOL-Library.Signed_Division"
begin

text \<open>
  The FISH worker (fish/fish.h, fish/fish.cpp): its members, the queue of commands, the reaction to
  each line of the server (\<open>manageConnection\<close>), raw data (\<open>received\<close>, \<open>sent\<close>), the login, the event
  loops and the handlers. Texts and bytes are both character lists. What arrives from the child
  process is an input: a list of events; an answer None means that the events do not end the
  handler. A character of a line past its end is taken as NUL.
\<close>

section \<open>Parameters\<close>

record fish_auth =
  au_username :: string
  au_password :: string
  au_keepPassword :: bool
  au_prompt :: string
  au_caption :: string

datatype fmsg =
    FRedirection qurl | FTotalSize int | FMimeType string | FData string | FProcessedSize int
  | FDataReq | FStatEntry uds | FListEntry uds | FInfoMessage string | FCacheAuth fish_auth

text \<open>
  \<open>toInt\<close>, \<open>toLongLong\<close>: numbers in texts, None when the text is not a number. \<open>now\<close> is the current
  year, month and time of day, \<open>secs\<close> the seconds since the epoch of a date and a time. \<open>mimeUrl\<close> is
  None for the default MIME type. The last four talk to the application.
\<close>

record 'a fenv =
  toInt :: "string \<Rightarrow> int option"
  toLongLong :: "string \<Rightarrow> int option"
  number :: "int \<Rightarrow> nat \<Rightarrow> string"
  now :: "int \<times> int \<times> (int \<times> int \<times> int)"
  secs :: "int \<times> int \<times> int \<Rightarrow> int \<times> int \<times> int \<Rightarrow> int"
  mimeUrl :: "string \<Rightarrow> string option"
  mimeData :: "string \<Rightarrow> string \<Rightarrow> string"
  display :: "qurl \<Rightarrow> string"
  normalized :: "qurl \<Rightarrow> qurl"
  stripSlash :: "qurl \<Rightarrow> qurl"
  encode :: "string \<Rightarrow> string"
  decode :: "string \<Rightarrow> string"
  logname :: string
  checksum :: string
  fishCode :: string
  readData :: "'a \<Rightarrow> (int \<times> string) \<times> 'a"
  cachedAuth :: "fish_auth \<Rightarrow> 'a \<Rightarrow> (bool \<times> fish_auth) \<times> 'a"
  passwordDialog :: "fish_auth \<Rightarrow> 'a \<Rightarrow> (kio_error option \<times> fish_auth) \<times> 'a"
  messageBox :: "string \<Rightarrow> 'a \<Rightarrow> bool \<times> 'a"

section \<open>The members\<close>

datatype list_reason = CHECK | LIST

text \<open>\<open>childPid\<close> is whether there is a child process. \<open>udsMime\<close> is None when it is a null text.\<close>

record 'a fish =
  childPid :: bool
  outBuf :: string
  outBufPos :: int
  local_host :: bool
  isStat :: bool
  redirectUser :: string
  redirectPass :: string
  udsEntry :: uds
  udsStatEntry :: uds
  udsType :: mode_t
  udsMime :: "string option"
  thisFn :: string
  url :: qurl
  isLoggedIn :: bool
  connectionHost :: string
  connectionUser :: string
  connectionPort :: int
  connectionPassword :: string
  connectionAuth :: fish_auth
  errorCount :: int
  qlist :: "string list"
  commandList :: "string list"
  commandCodes :: "fish_command_type list"
  rawRead :: int
  rawWrite :: int
  recvLen :: int
  sendLen :: int
  writeReady :: bool
  isRunning :: bool
  listReason :: list_reason
  hasAppend :: bool
  putPerm :: int
  checkOverwrite :: bool
  putPos :: int
  checkExist :: bool
  firstLogin :: bool
  rawData :: string
  mimeBuffer :: string
  mimeTypeSent :: bool
  dataRead :: int
  fishCommand :: fish_command_type
  app :: 'a
  out :: "fmsg list"

text \<open>The constructor; members that it does not set keep whatever value they have.\<close>

definition resize :: "nat \<Rightarrow> string \<Rightarrow> string" where
  "resize n s = take n s @ replicate (n - length s) (CHR 0x00)"

definition fishProtocol :: "'a fish \<Rightarrow> 'a fish" where
  "fishProtocol s = s\<lparr>mimeBuffer := replicate 1024 (CHR 0x00), mimeTypeSent := False,
     childPid := False, connectionPort := 0, isLoggedIn := False, writeReady := True,
     isRunning := False, firstLogin := True, errorCount := 0, rawRead := 0, rawWrite := -1,
     recvLen := -1, sendLen := -1, connectionAuth := (connectionAuth s)\<lparr>au_keepPassword := True\<rparr>,
     outBufPos := -1, outBuf := [], udsType := 0, hasAppend := False, isStat := False,
     redirectUser := [], redirectPass := [], qlist := [], commandList := [], commandCodes := []\<rparr>"

definition say :: "fmsg \<Rightarrow> 'a fish \<Rightarrow> 'a fish" where
  "say m s = s\<lparr>out := out s @ [m]\<rparr>"

section \<open>Writing to the child, and the queue of commands\<close>

definition writeChild :: "string \<Rightarrow> 'a fish \<Rightarrow> 'a fish" where
  "writeChild buf s = (if outBufPos s \<ge> 0 \<and> outBuf s \<noteq> [] then s
                       else s\<lparr>outBuf := buf, outBufPos := 0\<rparr>)"

definition shutdownConnection :: "bool \<Rightarrow> 'a fish \<Rightarrow> 'a fish" where
  "shutdownConnection forced s =
     (let s = (if childPid s
               then (let s = s\<lparr>childPid := False\<rparr>
                     in if \<not> forced then say (FInfoMessage ''Disconnected.'') s else s)
               else s)
      in s\<lparr>outBufPos := -1, outBuf := [], qlist := [], commandList := [], commandCodes := [],
           isLoggedIn := False, writeReady := True, isRunning := False, rawRead := 0,
           rawWrite := -1, recvLen := -1, sendLen := -1\<rparr>)"

definition error :: "kio_error \<Rightarrow> string \<Rightarrow> 'a fish \<Rightarrow> worker_result \<times> 'a fish" where
  "error type detail s =
     (Fail type detail, s\<lparr>commandList := [], commandCodes := [], isRunning := False\<rparr>)"

definition broken :: "kio_error \<Rightarrow> string \<Rightarrow> 'a fish \<Rightarrow> worker_result \<times> 'a fish" where
  "broken type detail s = error type detail (shutdownConnection False s)"

definition sendCommand :: "'a fenv \<Rightarrow> fish_command_type \<Rightarrow> string list \<Rightarrow> 'a fish \<Rightarrow> 'a fish" where
  "sendCommand E cmd args s =
     s\<lparr>commandList := commandList s @ [command_text (checksum E) cmd args],
       commandCodes := commandCodes s @ [cmd]\<rparr>"

definition writeStdin :: "'a fenv \<Rightarrow> string \<Rightarrow> 'a fish \<Rightarrow> 'a fish" where
  "writeStdin E line s =
     (let s = s\<lparr>qlist := qlist s @ [encode E line]\<rparr>
      in if writeReady s then writeChild (hd (qlist s)) (s\<lparr>writeReady := False\<rparr>) else s)"

definition finished :: "'a fenv \<Rightarrow> 'a fish \<Rightarrow> 'a fish" where
  "finished E s =
     (case (commandList s, commandCodes s) of
        (c # cs, k # ks) \<Rightarrow>
          (let s = s\<lparr>fishCommand := k, errorCount := - lines (fishInfo (checksum E) k),
                     rawRead := 0, rawWrite := -1, udsEntry := [], udsStatEntry := []\<rparr>;
               s = writeStdin E c s
           in s\<lparr>commandList := cs, commandCodes := ks\<rparr>)
      | _ \<Rightarrow> s\<lparr>isRunning := False\<rparr>)"

text \<open>\<open>readData\<close> puts what the application sends into \<open>rawData\<close>.\<close>

definition read_data :: "'a fenv \<Rightarrow> 'a fish \<Rightarrow> int \<times> 'a fish" where
  "read_data E s = (case readData E (app s) of ((n, d), a) \<Rightarrow> (n, s\<lparr>rawData := d, app := a\<rparr>))"

definition sent :: "'a fenv \<Rightarrow> 'a fish \<Rightarrow> 'a fish" where
  "sent E s =
     (if rawWrite s > 0 then
        (let s = writeChild (take (nat (rawWrite s)) (rawData s)) s;
             s = s\<lparr>rawWrite := rawWrite s - int (length (rawData s))\<rparr>
         in if rawWrite s > 0 then
              (case read_data E (say FDataReq s) of
                 (n, s) \<Rightarrow> if n \<le> 0 then shutdownConnection False s else s)
            else s)
      else if rawWrite s = 0 then
        (writeChild (replicate 15 (CHR 0x0A)) s)\<lparr>rawWrite := -1\<rparr>
      else (let s = s\<lparr>qlist := tl (qlist s)\<rparr>
            in if qlist s = [] then s\<lparr>writeReady := True\<rparr> else writeChild (hd (qlist s)) s))"

section \<open>Reading an answer\<close>

definition handleResponse :: "'a fenv \<Rightarrow> string \<Rightarrow> 'a fish \<Rightarrow> int \<times> 'a fish" where
  "handleResponse E str s =
     (if starts_with ''### '' str then
        (let result = (case toInt E (mid 4 3 str) of None \<Rightarrow> 500 | Some n \<Rightarrow> n);
             result = (if result = 0 then (if errorCount s \<noteq> 0 then 500 else 200) else result);
             result = (if result = 1 then (if errorCount s \<noteq> 0 then 500 else 100) else result)
         in (result, s))
      else (0, s\<lparr>errorCount := errorCount s + 1\<rparr>))"

definition monthNames :: "string list" where
  "monthNames = [''Jan'', ''Feb'', ''Mar'', ''Apr'', ''May'', ''Jun'', ''Jul'', ''Aug'', ''Sep'', ''Oct'',
     ''Nov'', ''Dec'']"

fun month_of :: "int \<Rightarrow> string list \<Rightarrow> string \<Rightarrow> int \<Rightarrow> int" where
  "month_of i [] monthStr current = current"
| "month_of i (m # ms) monthStr current =
     (if starts_with m monthStr then i else month_of (i + 1) ms monthStr current)"

definition to_int0 :: "'a fenv \<Rightarrow> string \<Rightarrow> int" where
  "to_int0 E t = (case toInt E t of None \<Rightarrow> 0 | Some n \<Rightarrow> n)"

definition makeTimeFromLs :: "'a fenv \<Rightarrow> string \<Rightarrow> string \<Rightarrow> string \<Rightarrow> int" where
  "makeTimeFromLs E monthStr dayStr timeyearStr =
     (case now E of (year, currentMonth, time) \<Rightarrow>
       (let day = to_int0 E dayStr;
            month = month_of 1 monthNames monthStr currentMonth;
            pos = index_of (CHR '':'') timeyearStr
        in if length timeyearStr = 4 \<and> pos = -1 then secs E (to_int0 E timeyearStr, month, day) time
           else if pos = -1 then 0
           else secs E (if month > currentMonth + 1 then year - 1 else year, month, day)
             (to_int0 E (take (nat pos) timeyearStr), to_int0 E (drop (nat pos + 1) timeyearStr), 0)))"

subsection \<open>Lines of LIST and STAT\<close>

definition file_type :: "char \<Rightarrow> mode_t option" where
  "file_type c = (if c = CHR ''-'' then Some S_IFREG else if c = CHR ''l'' then Some S_IFLNK
     else if c = CHR ''c'' then Some 0x2000 else if c = CHR ''b'' then Some 0x6000
     else if c = CHR ''s'' then Some 0xC000 else if c = CHR ''p'' then Some 0x1000 else None)"

definition access_bits :: "string \<Rightarrow> mode_t" where
  "access_bits l =
     (let b = (\<lambda>i cs (m :: mode_t). if char_at l i \<in> set cs then m else 0)
      in b 2 ''r'' 0x100 OR b 3 ''w'' 0x80 OR b 4 ''xs'' 0x40 OR b 4 ''Ss'' 0x800
         OR b 5 ''r'' 0x20 OR b 6 ''w'' 0x10 OR b 7 ''xs'' 0x8 OR b 7 ''Ss'' 0x400
         OR b 8 ''r'' 0x4 OR b 9 ''w'' 0x2 OR b 10 ''xt'' 0x1 OR b 10 ''Tt'' 0x200)"

definition ok :: "'a fish \<Rightarrow> 'a fish" where
  "ok s = s\<lparr>errorCount := errorCount s - 1\<rparr>"

definition set_field :: "uds_field \<Rightarrow> 'a fish \<Rightarrow> 'a fish" where
  "set_field f s = s\<lparr>udsEntry := uds_replace f (udsEntry s)\<rparr>"

definition perm_line :: "string \<Rightarrow> 'a fish \<Rightarrow> 'a fish" where
  "perm_line l s =
     (let s = ok s; c = char_at l 1;
          typed = (if c = CHR ''d'' then Some (s\<lparr>udsMime := Some ''inode/directory'', udsType := S_IFDIR\<rparr>)
                   else map_option (\<lambda>t. s\<lparr>udsType := t\<rparr>) (file_type c))
      in case typed of
           None \<Rightarrow> s\<lparr>errorCount := errorCount s + 1\<rparr>
         | Some s \<Rightarrow>
             (let s = set_field (UDS_ACCESS (access_bits l)) s; pos = index_of_from (CHR '':'') 12 l
              in if pos < 0 then s\<lparr>errorCount := errorCount s + 1\<rparr>
                 else set_field (UDS_GROUP (drop (nat pos + 1) l))
                        (set_field (UDS_USER (mid 12 (nat pos - 12) l)) s)))"

definition time_line :: "'a fenv \<Rightarrow> string \<Rightarrow> 'a fish \<Rightarrow> 'a fish" where
  "time_line E l s =
     (let pos = index_of (CHR '' '') l; pos2 = index_of_from (CHR '' '') (nat (pos + 1)) l
      in if pos < 0 \<or> pos2 < 0 then s
         else set_field (UDS_MODIFICATION_TIME (makeTimeFromLs E (mid 1 (nat (pos - 1)) l)
                (mid (nat (pos + 1)) (nat (pos2 - pos)) l) (drop (nat (pos2 + 1)) l))) (ok s))"

definition date_line :: "'a fenv \<Rightarrow> string \<Rightarrow> 'a fish \<Rightarrow> 'a fish" where
  "date_line E l s =
     (let next = (\<lambda>p. index_of_from (CHR '' '') (nat (p + 1)) l);
          part = (\<lambda>p q. to_int0 E (mid (nat (p + 1)) (nat (q - p - 1)) l));
          pos = index_of (CHR '' '') l; pos2 = next pos; pos3 = next pos2
      in if pos < 0 \<or> pos2 < 0 \<or> pos3 < 0 then s
         else (let date = (to_int0 E (mid 1 (nat (pos - 1)) l), part pos pos2, part pos2 pos3);
                   pos = pos3; pos2 = next pos; pos3 = next pos2
               in if pos < 0 \<or> pos2 < 0 \<or> pos3 < 0 then s
                  else set_field (UDS_MODIFICATION_TIME (secs E date
                         (part pos pos2, part pos2 pos3, to_int0 E (drop (nat (pos3 + 1)) l)))) (ok s)))"

definition name_line :: "'a fenv \<Rightarrow> string \<Rightarrow> 'a fish \<Rightarrow> 'a fish" where
  "name_line E l s =
     (let fn = (if CHR ''/'' \<in> set l then rev (takeWhile (\<lambda>c. c \<noteq> CHR ''/'') (rev l)) else drop 1 l);
          s = s\<lparr>thisFn := fn\<rparr>;
          s = (if fishCommand s = FISH_LIST then set_field (UDS_NAME fn) s else s);
          s = (if udsMime s \<noteq> Some ''inode/directory''
               then (case mimeUrl E fn of None \<Rightarrow> s | Some m \<Rightarrow> s\<lparr>udsMime := Some m\<rparr>)
               else s)
      in ok s)"

definition mime_line :: "string \<Rightarrow> 'a fish \<Rightarrow> 'a fish" where
  "mime_line l s =
     ok (if (udsMime s = None \<or> udsMime s = Some []) \<and> \<not> ends_with ''/unknown'' l
            \<and> (CHR ''.'' \<notin> set (thisFn s) \<or> (take 8 l \<noteq> ''Mtext/x-'' \<and> l \<noteq> ''Mtext/plain''))
         then (let s = s\<lparr>udsMime := Some (drop 1 l)\<rparr>
               in if udsMime s = Some ''inode/directory'' then s\<lparr>udsType := S_IFDIR\<rparr> else s)
         else s)"

definition link_line :: "string \<Rightarrow> 'a fish \<Rightarrow> 'a fish" where
  "link_line l s =
     (let s = set_field (UDS_LINK_DEST (drop 1 l)) s
      in ok (if udsType s = 0 then s\<lparr>udsType := S_IFLNK\<rparr> else s))"

definition size_line :: "'a fenv \<Rightarrow> string \<Rightarrow> 'a fish \<Rightarrow> 'a fish" where
  "size_line E l s = (case toLongLong E (drop 1 l) of None \<Rightarrow> s | Some n \<Rightarrow> set_field (UDS_SIZE n) (ok s))"

definition count_line :: "'a fenv \<Rightarrow> string \<Rightarrow> 'a fish \<Rightarrow> 'a fish" where
  "count_line E l s =
     (let val = (case toLongLong E l of None \<Rightarrow> 0 | Some n \<Rightarrow> n);
          s = (if val > 0 then ok s else s)
      in if fishCommand s = FISH_LIST \<and> listReason s = LIST then say (FTotalSize val) s else s)"

text \<open>An empty line ends an entry.\<close>

definition end_line :: "'a fish \<Rightarrow> 'a fish" where
  "end_line s =
     (let s = (case udsMime s of None \<Rightarrow> s | Some m \<Rightarrow> set_field (UDS_MIME_TYPE m) s);
          s = s\<lparr>udsMime := None\<rparr>;
          s = (set_field (UDS_FILE_TYPE (udsType s)) s)\<lparr>udsType := 0\<rparr>;
          s = (if fishCommand s = FISH_STAT then s\<lparr>udsStatEntry := udsEntry s\<rparr>
               else if listReason s = LIST then say (FListEntry (udsEntry s)) s
               else s\<lparr>checkExist := True\<rparr>)
      in (ok s)\<lparr>udsEntry := []\<rparr>)"

definition stat_line :: "'a fenv \<Rightarrow> string \<Rightarrow> 'a fish \<Rightarrow> 'a fish" where
  "stat_line E l s =
     (case l of
        [] \<Rightarrow> end_line s
      | c # _ \<Rightarrow>
          if c \<in> set ''0123456789'' then count_line E l s
          else if c = CHR ''P'' then perm_line l s
          else if c = CHR ''d'' then time_line E l s
          else if c = CHR ''D'' then date_line E l s
          else if c = CHR ''S'' then size_line E l s
          else if c = CHR ''E'' then ok s
          else if c = CHR '':'' then name_line E l s
          else if c = CHR ''M'' then mime_line l s
          else if c = CHR ''L'' then link_line l s
          else s)"

subsection \<open>Lines by their result code\<close>

definition text_line :: "'a fenv \<Rightarrow> string \<Rightarrow> 'a fish \<Rightarrow> worker_result \<times> 'a fish" where
  "text_line E l s =
     (case fishCommand s of
        FISH_VER \<Rightarrow>
          if starts_with ''VER 0.0.3'' l
          then (Pass, s\<lparr>hasAppend := contains '' append '' (l @ '' '')\<rparr>)
          else broken ERR_UNSUPPORTED_PROTOCOL l s
      | FISH_PWD \<Rightarrow>
          (let s = s\<lparr>url := (url s)\<lparr>path := l\<rparr>\<rparr> in (Pass, say (FRedirection (url s)) s))
      | FISH_LIST \<Rightarrow> (Pass, stat_line E l s)
      | FISH_STAT \<Rightarrow> (Pass, stat_line E l s)
      | FISH_RETR \<Rightarrow>
          if l = [] then error ERR_IS_DIRECTORY (display E (url s)) (s\<lparr>recvLen := 0\<rparr>)
          else (case toLongLong E l of
                  Some n \<Rightarrow> (Pass, s\<lparr>recvLen := n\<rparr>)
                | None \<Rightarrow> broken ERR_CANNOT_READ (display E (url s)) (s\<lparr>recvLen := 0\<rparr>))
      | _ \<Rightarrow> (Pass, s))"

definition ready_line :: "'a fenv \<Rightarrow> 'a fish \<Rightarrow> worker_result \<times> 'a fish" where
  "ready_line E s =
     (if fishCommand s = FISH_FISH then (Pass, writeChild (fishCode E) s)
      else if fishCommand s = FISH_READ \<or> fishCommand s = FISH_RETR then
        (let s = (if fishCommand s = FISH_READ then s\<lparr>recvLen := 1024\<rparr> else s)
         in if recvLen s = -1 then broken ERR_CANNOT_READ (display E (url s)) s
            else (let s = s\<lparr>rawRead := recvLen s, dataRead := 0, mimeTypeSent := False\<rparr>
                  in (Pass, if recvLen s = 0
                            then (say (FMimeType ''application/x-zerosize'') s)\<lparr>mimeTypeSent := True\<rparr>
                            else s)))
      else if fishCommand s \<in> {FISH_STOR, FISH_WRITE, FISH_APPEND} then
        (Pass, writeChild [] (s\<lparr>rawWrite := sendLen s\<rparr>))
      else (Pass, s))"

definition fail_line :: "'a fenv \<Rightarrow> int \<Rightarrow> string \<Rightarrow> 'a fish \<Rightarrow> worker_result \<times> 'a fish" where
  "fail_line E rc l s =
     (let u = display E (url s) in
      case fishCommand s of
        FISH_STOR \<Rightarrow> broken ERR_CANNOT_WRITE u s
      | FISH_WRITE \<Rightarrow> broken ERR_CANNOT_WRITE u s
      | FISH_APPEND \<Rightarrow> broken ERR_CANNOT_WRITE u s
      | FISH_RETR \<Rightarrow> broken ERR_CANNOT_READ u s
      | FISH_READ \<Rightarrow>
          if rc = 501
          then (Pass, finished E ((say (FMimeType ''inode/directory'') s)\<lparr>mimeTypeSent := True, recvLen := 0\<rparr>))
          else broken ERR_CANNOT_READ u s
      | FISH_FISH \<Rightarrow> broken ERR_WORKER_DEFINED l s
      | FISH_VER \<Rightarrow> broken ERR_WORKER_DEFINED l s
      | FISH_PWD \<Rightarrow> error ERR_CANNOT_ENTER_DIRECTORY u s
      | FISH_CWD \<Rightarrow> error ERR_CANNOT_ENTER_DIRECTORY u s
      | FISH_LIST \<Rightarrow>
          (case listReason s of
             LIST \<Rightarrow> error ERR_CANNOT_ENTER_DIRECTORY u s
           | CHECK \<Rightarrow> (Pass, finished E (s\<lparr>checkExist := False\<rparr>)))
      | FISH_STAT \<Rightarrow> error ERR_DOES_NOT_EXIST u (s\<lparr>udsStatEntry := []\<rparr>)
      | FISH_CHMOD \<Rightarrow> error ERR_CANNOT_CHMOD u s
      | FISH_CHOWN \<Rightarrow> error ERR_ACCESS_DENIED u s
      | FISH_CHGRP \<Rightarrow> error ERR_ACCESS_DENIED u s
      | FISH_MKD \<Rightarrow> if rc = 501 then error ERR_DIR_ALREADY_EXIST u s else error ERR_CANNOT_MKDIR u s
      | FISH_RMD \<Rightarrow> error ERR_CANNOT_RMDIR u s
      | FISH_DELE \<Rightarrow> error ERR_CANNOT_DELETE u s
      | FISH_RENAME \<Rightarrow> error ERR_CANNOT_RENAME u s
      | FISH_COPY \<Rightarrow> error ERR_CANNOT_WRITE u s
      | FISH_LINK \<Rightarrow> error ERR_CANNOT_WRITE u s
      | FISH_SYMLINK \<Rightarrow> error ERR_CANNOT_WRITE u s
      | FISH_EXEC \<Rightarrow> (Pass, s))"

text \<open>The next block of a \<open>put\<close>, or the permissions when the data has ended.\<close>

definition next_block :: "'a fenv \<Rightarrow> 'a fish \<Rightarrow> 'a fish" where
  "next_block E s =
     (let p = path (url s); chmod = sendCommand E FISH_CHMOD [encode E (number E (putPerm s) 8), encode E p]
      in case read_data E (say FDataReq s) of (n, s) \<Rightarrow>
        (let size = int (length (rawData s))
         in if fishCommand s = FISH_APPEND then
              (let s = (if n > 0 then sendCommand E FISH_APPEND [encode E (number E size 10), encode E p] s
                        else if \<not> checkExist s \<and> putPerm s > -1 then chmod s else s)
               in s\<lparr>sendLen := size\<rparr>)
            else
              (let s = (if n > 0 then sendCommand E FISH_WRITE
                          [encode E (number E (putPos s) 10), encode E (number E size 10), encode E p] s
                        else if \<not> checkExist s \<and> putPerm s > -1 then chmod s else s)
               in s\<lparr>putPos := putPos s + size, sendLen := size\<rparr>)))"

definition done_line :: "'a fenv \<Rightarrow> 'a fish \<Rightarrow> worker_result \<times> 'a fish" where
  "done_line E s =
     (let s = (if fishCommand s = FISH_STOR
               then s\<lparr>fishCommand := (if hasAppend s then FISH_APPEND else FISH_WRITE)\<rparr> else s)
      in if fishCommand s = FISH_LIST \<and> listReason s = CHECK \<and> \<not> checkOverwrite s \<and> checkExist s
         then error ERR_FILE_ALREADY_EXIST (display E (url s)) s
         else
           (let s = (if fishCommand s = FISH_STAT then
                       (let s = s\<lparr>udsStatEntry := uds_replace (UDS_NAME (fileName (url s))) (udsStatEntry s)\<rparr>
                        in say (FStatEntry (udsStatEntry s)) s)
                     else if fishCommand s = FISH_APPEND \<or> fishCommand s = FISH_WRITE then next_block E s
                     else if fishCommand s = FISH_RETR then say (FData []) s
                     else s)
            in (Pass, finished E s)))"

definition manageConnection :: "'a fenv \<Rightarrow> string \<Rightarrow> 'a fish \<Rightarrow> worker_result \<times> 'a fish" where
  "manageConnection E l s =
     (case handleResponse E l s of (rc, s) \<Rightarrow>
        if rc = 0 then text_line E l s
        else if rc = 100 then ready_line E s
        else if rc sdiv 100 \<noteq> 2 then fail_line E rc l s
        else done_line E s)"

section \<open>Bytes from the child\<close>

text \<open>
  One turn of the loop of \<open>received\<close>: what to do next, and the bytes that are left. A text without
  a newline stays in the buffer and ends the loop.
\<close>

datatype turn = Leave worker_result | Again

definition data_turn :: "string \<Rightarrow> 'a fish \<Rightarrow> string \<times> 'a fish" where
  "data_turn buf s =
     (let dataSize = min (nat (rawRead s)) (length buf);
          s = say (FData (take dataSize buf)) s;
          s = s\<lparr>dataRead := dataRead s + int dataSize, rawRead := rawRead s - int dataSize\<rparr>;
          s = say (FProcessedSize (dataRead s)) s
      in (drop dataSize buf, s))"

definition mime_fill :: "string \<Rightarrow> 'a fish \<Rightarrow> string \<times> 'a fish" where
  "mime_fill buf s =
     (let dataSize = min (nat (rawRead s)) (length buf);
          mimeSize = min dataSize (nat (int (length (mimeBuffer s)) - dataRead s));
          at = nat (dataRead s);
          s = s\<lparr>mimeBuffer := take at (mimeBuffer s) @ take mimeSize buf @ drop (at + mimeSize) (mimeBuffer s),
                dataRead := dataRead s + int mimeSize, rawRead := rawRead s - int mimeSize\<rparr>
      in (drop mimeSize buf,
          if rawRead s = 0 then s\<lparr>mimeBuffer := resize (nat (dataRead s)) (mimeBuffer s)\<rparr> else s))"

definition mime_emit :: "'a fenv \<Rightarrow> 'a fish \<Rightarrow> 'a fish" where
  "mime_emit E s =
     (let s = say (FMimeType (mimeData E (path (url s)) (mimeBuffer s))) s;
          s = s\<lparr>mimeTypeSent := True\<rparr>;
          s = (if fishCommand s \<noteq> FISH_READ
               then say (FProcessedSize (dataRead s)) (say (FData (mimeBuffer s))
                      (say (FTotalSize (dataRead s + rawRead s)) s))
               else s)
      in s\<lparr>mimeBuffer := resize 1024 (mimeBuffer s)\<rparr>)"

definition mime_turn :: "'a fenv \<Rightarrow> string \<Rightarrow> 'a fish \<Rightarrow> turn \<times> string \<times> 'a fish" where
  "mime_turn E buf s =
     (case mime_fill buf s of (buf, s) \<Rightarrow>
        if dataRead s < int (length (mimeBuffer s)) then (Leave Pass, buf, s)
        else (Again, buf, mime_emit E s))"

definition line_turn :: "'a fenv \<Rightarrow> string \<Rightarrow> 'a fish \<Rightarrow> turn \<times> string \<times> 'a fish" where
  "line_turn E buf s =
     (if CHR 0x0A \<notin> set buf then (Leave Pass, buf, s)
      else (let l = takeWhile (\<lambda>c. c \<noteq> CHR 0x0A) buf; buf = drop (length l + 1) buf
            in case manageConnection E (decode E l) s of (result, s) \<Rightarrow>
              if \<not> success result then (Leave result, buf, s)
              else if childPid s \<and> buf \<noteq> [] \<and> (rawRead s > 0 \<or> CHR 0x0A \<in> set buf) then (Again, buf, s)
              else (Leave Pass, buf, s)))"

definition recv_turn :: "'a fenv \<Rightarrow> string \<Rightarrow> 'a fish \<Rightarrow> turn \<times> string \<times> 'a fish" where
  "recv_turn E buf s =
     (if buf = [] then (Leave Pass, buf, s)
      else if rawRead s > 0 then
        (if \<not> mimeTypeSent s then
           (case mime_turn E buf s of
              (Again, buf, s) \<Rightarrow> if childPid s \<and> buf \<noteq> [] then (Again, buf, s) else (Leave Pass, buf, s)
            | r \<Rightarrow> r)
         else (case data_turn buf s of (buf, s) \<Rightarrow>
            if rawRead s > 0 then (Leave Pass, [], s)
            else if buf = [] then (Leave Pass, buf, s)
            else line_turn E buf s))
      else line_turn E buf s)"

lemma line_turn_shorter:
  assumes "line_turn E buf s = (Again, buf', s')"
  shows "length buf' < length buf"
proof -
  let ?l = "takeWhile (\<lambda>c. c \<noteq> CHR 0x0A) buf"
  obtain r t where m: "manageConnection E (decode E ?l) s = (r, t)" by fastforce
  from assms have n: "CHR 0x0A \<in> set buf" by (auto simp: line_turn_def split: if_splits)
  with assms m have "buf' = drop (length ?l + 1) buf"
    by (simp add: line_turn_def Let_def split: if_splits)
  with n show ?thesis by (cases buf) auto
qed

lemma mime_fill_length: "length (fst (mime_fill buf s)) \<le> length buf"
  by (simp add: mime_fill_def Let_def)

lemma mime_emit_sent: "mimeTypeSent (mime_emit E s)"
  by (simp add: mime_emit_def Let_def say_def)

lemma mime_turn_progress:
  "mime_turn E buf s = (Again, buf', s') \<Longrightarrow> length buf' \<le> length buf \<and> mimeTypeSent s'"
  using mime_fill_length[of buf s] mime_emit_sent
  by (auto simp: mime_turn_def split: if_splits prod.splits)

lemma data_turn_length: "length (fst (data_turn buf s)) \<le> length buf"
  by (simp add: data_turn_def Let_def)

lemma recv_turn_progress:
  assumes "recv_turn E buf s = (Again, buf', s')"
  shows "length buf' < length buf \<or> length buf' \<le> length buf \<and> \<not> mimeTypeSent s \<and> mimeTypeSent s'"
proof (cases "rawRead s > 0")
  case True
  show ?thesis
  proof (cases "mimeTypeSent s")
    case False
    obtain o1 b t where m: "mime_turn E buf s = (o1, b, t)" by (metis surj_pair)
    with True False assms have "o1 = Again" "b = buf'" "t = s'"
      by (auto simp: recv_turn_def split: if_splits turn.splits)
    with mime_turn_progress[of E buf s] m False show ?thesis by blast
  next
    case sent: True
    obtain b t where d: "data_turn buf s = (b, t)" by fastforce
    with True sent assms have "line_turn E b t = (Again, buf', s')"
      by (auto simp: recv_turn_def split: if_splits)
    with line_turn_shorter[of E b t] data_turn_length[of buf s] d show ?thesis by fastforce
  qed
next
  case False
  with assms have "line_turn E buf s = (Again, buf', s')" by (auto simp: recv_turn_def split: if_splits)
  then show ?thesis using line_turn_shorter by blast
qed

function received :: "'a fenv \<Rightarrow> string \<Rightarrow> 'a fish \<Rightarrow> string \<times> worker_result \<times> 'a fish" where
  "received E buf s =
     (case recv_turn E buf s of
        (Leave r, buf', s') \<Rightarrow> (buf', r, s')
      | (Again, buf', s') \<Rightarrow> received E buf' s')"
  by pat_completeness auto

termination
  by (relation "measures [\<lambda>(E, buf, s). length buf, \<lambda>(E, buf, s). if mimeTypeSent s then 0 else 1]")
    (auto dest!: recv_turn_progress[OF sym])

declare received.simps [simp del]

section \<open>Logging in\<close>

definition strip_trailing :: "string \<Rightarrow> string" where
  "strip_trailing s = rev (dropWhile (\<lambda>c. c = CHR '' '') (rev s))"

text \<open>
  Bytes before the login is complete: what remains in the buffer (-1 with a failure), and the
  result. \<open>prompt_end\<close> is the reaction to a text that ends with a colon or a question mark.
\<close>

definition redirect_login :: "string \<Rightarrow> string \<Rightarrow> 'a fish \<Rightarrow> int \<times> worker_result \<times> 'a fish" where
  "redirect_login user pass s =
     (let s = say (FRedirection ((url s)\<lparr>userName := user, password := pass\<rparr>)) s
      in (-1, Fail ERR_UNKNOWN [], s\<lparr>commandList := [], commandCodes := [], isRunning := False\<rparr>))"

definition cached_password :: "'a fenv \<Rightarrow> 'a fish \<Rightarrow> bool \<times> 'a fish" where
  "cached_password E s =
     (if \<not> firstLogin s then (False, s)
      else (case cachedAuth E (connectionAuth s) (app s) of
              ((b, au), a) \<Rightarrow> (b, s\<lparr>connectionAuth := au, app := a\<rparr>)))"

definition enter_password :: "'a fenv \<Rightarrow> 'a fish \<Rightarrow> kio_error option \<times> 'a fish" where
  "enter_password E s =
     (case passwordDialog E ((connectionAuth s)\<lparr>au_password := []\<rparr>) (app s) of
        ((e, au), a) \<Rightarrow> (e, s\<lparr>connectionAuth := au, app := a\<rparr>))"

definition use_password :: "'a fish \<Rightarrow> int \<times> worker_result \<times> 'a fish" where
  "use_password s =
     (let au = connectionAuth s; au = au\<lparr>au_password := au_password au @ [CHR 0x0A]\<rparr>;
          s = s\<lparr>firstLogin := False, connectionAuth := au\<rparr>
      in if au_username au \<noteq> connectionUser s
         then redirect_login (au_username au) (au_password au)
           (if isStat s then s\<lparr>redirectUser := au_username au, redirectPass := au_password au\<rparr> else s)
         else (0, Pass, (writeChild (au_password au) s)\<lparr>thisFn := []\<rparr>))"

definition ask_password :: "'a fenv \<Rightarrow> string \<Rightarrow> 'a fish \<Rightarrow> int \<times> worker_result \<times> 'a fish" where
  "ask_password E buf s =
     (let s = s\<lparr>connectionAuth := (connectionAuth s)\<lparr>au_prompt := thisFn s @ buf,
                au_caption := (if local_host s then ''Local Login'' else ''SSH Authentication'')\<rparr>\<rparr>
      in case cached_password E s of (cached, s) \<Rightarrow>
        if cached then use_password s
        else (case enter_password E s of
                (Some e, s) \<Rightarrow>
                  (case error e (connectionHost s) (shutdownConnection False s) of (r, s) \<Rightarrow> (-1, r, s))
              | (None, s) \<Rightarrow> use_password s))"

definition prompt_end :: "'a fenv \<Rightarrow> string \<Rightarrow> 'a fish \<Rightarrow> int \<times> worker_result \<times> 'a fish" where
  "prompt_end E buf s =
     (if ends_with '':'' buf then
        (if redirectUser s \<noteq> [] \<and> connectionUser s \<noteq> redirectUser s
         then redirect_login (redirectUser s) (redirectPass s) (s\<lparr>redirectUser := [], redirectPass := []\<rparr>)
         else if connectionPassword s \<noteq> [] then
           (let au = (connectionAuth s)\<lparr>au_password := connectionPassword s @ [CHR 0x0A]\<rparr>
            in (0, Pass, (writeChild (au_password au)
                  (s\<lparr>connectionAuth := au, connectionPassword := []\<rparr>))\<lparr>thisFn := []\<rparr>))
         else ask_password E buf s)
      else (case messageBox E (thisFn s @ buf) (app s) of (yes, a) \<Rightarrow>
        (0, Pass, (writeChild (if yes then ''yes'' @ [CHR 0x0A] else ''no'' @ [CHR 0x0A])
           (s\<lparr>app := a\<rparr>))\<lparr>thisFn := []\<rparr>)))"

definition logged_in :: "'a fish \<Rightarrow> 'a fish" where
  "logged_in s =
     (let s = say (FInfoMessage ''Initiating protocol...'') (s\<lparr>thisFn := []\<rparr>); au = connectionAuth s;
          s = (if au_password au \<noteq> []
               then (let au = au\<lparr>au_password := butlast (au_password au)\<rparr>; s = s\<lparr>connectionAuth := au\<rparr>
                     in if au_keepPassword au then say (FCacheAuth au) s else s)
               else s)
      in s\<lparr>isLoggedIn := True\<rparr>)"

function establish :: "'a fenv \<Rightarrow> string \<Rightarrow> 'a fish \<Rightarrow> int \<times> worker_result \<times> 'a fish" where
  "establish E buf s =
     (if \<not> childPid s then (int (length buf), Pass, s)
      else if CHR 0x0A \<in> set buf then
        (let str = takeWhile (\<lambda>c. c \<noteq> CHR 0x0A) buf @ [CHR 0x0A]; rest = drop (length str) buf
         in if str = [CHR 0x0A] then establish E rest s
            else if str = ''FISH:'' @ [CHR 0x0A] then (0, Pass, logged_in s)
            else establish E rest (s\<lparr>thisFn := thisFn s @ str\<rparr>))
      else if ends_with '':'' buf \<or> ends_with ''?'' buf then prompt_end E buf s
      else (int (length buf), Pass, s))"
  by pat_completeness auto

termination
proof (relation "measure (\<lambda>(E, buf, s). length buf)", goal_cases)
  case (2 E buf s x rest)
  then show ?case by (cases buf) auto
next
  case (3 E buf s x rest)
  then show ?case by (cases buf) auto
qed simp

declare establish.simps [simp del]

definition establishConnection :: "'a fenv \<Rightarrow> string \<Rightarrow> 'a fish \<Rightarrow> int \<times> worker_result \<times> 'a fish" where
  "establishConnection E buf s = establish E (strip_trailing buf) s"

section \<open>Event loops\<close>

text \<open>
  What \<open>select\<close> and the following \<open>read\<close> or \<open>write\<close> on the child's descriptor give: \<open>CanWrite\<close> has
  what \<open>write\<close> returns, \<open>CanRead\<close> the bytes that were read, none when the read failed; an
  interrupted call is no event. The flag is whether the application has asked to stop by then.
\<close>

datatype child_event = SelectFails | CanWrite int | CanRead string | Idle
datatype start = PtyFails | ForkFails | Started

type_synonym events = "(child_event \<times> bool) list"

definition last_chars :: "int \<Rightarrow> string \<Rightarrow> string" where
  "last_chars n s = drop (length s - nat n) s"

definition wrote :: "int \<Rightarrow> 'a fish \<Rightarrow> 'a fish" where
  "wrote rc s = (if rc \<ge> 0 then s\<lparr>outBufPos := outBufPos s + rc\<rparr> else s\<lparr>outBufPos := -1\<rparr>)"

definition login_event ::
  "'a fenv \<Rightarrow> child_event \<Rightarrow> string \<Rightarrow> 'a fish \<Rightarrow> worker_result option \<times> string \<times> 'a fish" where
  "login_event E e buf s =
     (let failed = (case error ERR_CANNOT_CONNECT (connectionHost s) s of (r, s) \<Rightarrow> (Some r, [], s)) in
      case e of
        SelectFails \<Rightarrow> failed
      | CanWrite n \<Rightarrow>
          if outBufPos s \<ge> 0 then
            (let s = wrote (if outBuf s \<noteq> [] then n else 0) s
             in (None, buf, if outBufPos s \<ge> int (length (outBuf s))
                            then s\<lparr>outBufPos := -1, outBuf := []\<rparr> else s))
          else (None, buf, s)
      | CanRead chunk \<Rightarrow>
          if chunk = [] then failed
          else (case establishConnection E (buf @ chunk) s of (noff, r, s) \<Rightarrow>
            if \<not> success r then (Some r, [], s) else (None, last_chars noff (buf @ chunk), s))
      | Idle \<Rightarrow> (None, buf, s))"

fun login_loop ::
  "'a fenv \<Rightarrow> events \<Rightarrow> string \<Rightarrow> 'a fish \<Rightarrow> worker_result option \<times> events \<times> 'a fish" where
  "login_loop E [] buf s = (if isLoggedIn s then (Some Pass, [], s) else (None, [], s))"
| "login_loop E ((e, k) # es) buf s =
     (if isLoggedIn s then (Some Pass, (e, k) # es, s)
      else (case login_event E e buf s of
              (Some r, _, s) \<Rightarrow> (Some r, es, s)
            | (None, buf, s) \<Rightarrow> login_loop E es buf s))"

definition connectionStart ::
  "'a fenv \<Rightarrow> start \<Rightarrow> events \<Rightarrow> 'a fish \<Rightarrow> worker_result option \<times> events \<times> 'a fish" where
  "connectionStart E st evs s =
     (let s = s\<lparr>thisFn := []\<rparr>;
          failed = (case error ERR_CANNOT_CONNECT (connectionHost s) s of (r, s) \<Rightarrow> (Some r, evs, s))
      in case st of PtyFails \<Rightarrow> failed | ForkFails \<Rightarrow> failed
         | Started \<Rightarrow> login_loop E evs [] (s\<lparr>childPid := True\<rparr>))"

definition openConnection ::
  "'a fenv \<Rightarrow> start \<Rightarrow> events \<Rightarrow> 'a fish \<Rightarrow> worker_result option \<times> events \<times> 'a fish" where
  "openConnection E st evs s =
     (if childPid s then (Some Pass, evs, s)
      else if connectionHost s = [] then
        (case error ERR_UNKNOWN_HOST [] s of (r, s) \<Rightarrow> (Some r, evs, s))
      else
        (let s = sendCommand E FISH_VER [] (sendCommand E FISH_FISH [] (say (FInfoMessage ''Connecting...'') s))
         in case connectionStart E st evs s of
              (Some r, evs, s) \<Rightarrow> (Some r, evs, if success r then s else shutdownConnection False s)
            | r \<Rightarrow> r))"

definition run_event ::
  "'a fenv \<Rightarrow> child_event \<Rightarrow> string \<Rightarrow> 'a fish \<Rightarrow> worker_result option \<times> string \<times> 'a fish" where
  "run_event E e buf s =
     (let failed = (case broken ERR_CONNECTION_BROKEN (connectionHost s) s of (r, s) \<Rightarrow> (Some r, [], s)) in
      case e of
        SelectFails \<Rightarrow> failed
      | CanWrite n \<Rightarrow>
          if outBufPos s \<ge> 0 then
            (let rc = (if int (length (outBuf s)) - outBufPos s > 0 then n else 0)
             in if rc < 0 then failed
                else (let s = s\<lparr>outBufPos := outBufPos s + rc\<rparr>
                      in (None, buf, if outBufPos s \<ge> int (length (outBuf s))
                                     then sent E (s\<lparr>outBufPos := -1, outBuf := []\<rparr>) else s)))
          else (None, buf, s)
      | CanRead chunk \<Rightarrow>
          if chunk = [] then failed
          else (case received E (buf @ chunk) s of (rest, r, s) \<Rightarrow>
            if \<not> success r then (Some r, [], s) else (None, rest, s))
      | Idle \<Rightarrow> (None, buf, s))"

fun run_loop ::
  "'a fenv \<Rightarrow> events \<Rightarrow> string \<Rightarrow> 'a fish \<Rightarrow> worker_result option \<times> 'a fish" where
  "run_loop E [] buf s = (if isRunning s then (None, s) else (Some Pass, s))"
| "run_loop E ((e, k) # es) buf s =
     (if \<not> isRunning s then (Some Pass, s)
      else (case run_event E e buf s of
              (Some r, _, s) \<Rightarrow> (Some r, s)
            | (None, buf, s) \<Rightarrow> if k then (Some (Fail ERR_UNKNOWN []), s) else run_loop E es buf s))"

definition run :: "'a fenv \<Rightarrow> events \<Rightarrow> 'a fish \<Rightarrow> worker_result option \<times> 'a fish" where
  "run E evs s =
     (if isRunning s then (Some (Fail ERR_UNKNOWN []), s)
      else run_loop E evs [] (finished E (s\<lparr>isRunning := True\<rparr>)))"

section \<open>The handlers\<close>

definition setHost :: "'a fenv \<Rightarrow> string \<Rightarrow> int \<Rightarrow> string \<Rightarrow> string \<Rightarrow> 'a fish \<Rightarrow> 'a fish" where
  "setHost E h p u pass s =
     (let s = s\<lparr>local_host := (h = ''localhost'' \<and> p = 0)\<rparr>; user = (if u = [] then logname E else u)
      in if h = connectionHost s \<and> p = connectionPort s \<and> user = connectionUser s then s
         else (let s = (if childPid s then shutdownConnection False s else s)
               in s\<lparr>connectionHost := h, connectionUser := user,
                    connectionAuth := (connectionAuth s)\<lparr>au_username := user\<rparr>,
                    connectionPort := p, connectionPassword := pass, firstLogin := True\<rparr>))"

definition setHostInternal :: "'a fenv \<Rightarrow> qurl \<Rightarrow> 'a fish \<Rightarrow> 'a fish" where
  "setHostInternal E u s =
     setHost E (host u) (if port u \<le> 0 then 0 else port u) (userName u) (password u) s"

definition closeConnection :: "'a fish \<Rightarrow> 'a fish" where
  "closeConnection s = shutdownConnection True s"

text \<open>
  The common frame of the handlers: take the host from \<open>h\<close>, make \<open>u\<close> the URL of the request,
  connect, normalise the URL, queue the commands (\<open>PWD\<close> when there is no path) and run.
\<close>

definition request ::
  "'a fenv \<Rightarrow> start \<Rightarrow> events \<Rightarrow> bool \<Rightarrow> qurl \<Rightarrow> qurl \<Rightarrow> (events \<Rightarrow> 'a fish \<Rightarrow> worker_result option \<times> 'a fish)
     \<Rightarrow> 'a fish \<Rightarrow> worker_result option \<times> 'a fish" where
  "request E st evs statting h u k s =
     (let s = (setHostInternal E h s)\<lparr>url := u, isStat := statting\<rparr>
      in case openConnection E st evs s of
           (None, _, s) \<Rightarrow> (None, s)
         | (Some r, evs, s) \<Rightarrow>
             (let s = s\<lparr>isStat := False\<rparr>
              in if \<not> success r then (Some r, s) else k evs (s\<lparr>url := normalized E (url s)\<rparr>)))"

definition run_on ::
  "'a fenv \<Rightarrow> ('a fish \<Rightarrow> string) \<Rightarrow> ('a fish \<Rightarrow> 'a fish) \<Rightarrow> events \<Rightarrow> 'a fish \<Rightarrow> worker_result option \<times> 'a fish" where
  "run_on E p queue evs s = run E evs (if p s = [] then sendCommand E FISH_PWD [] s else queue s)"

definition here :: "'a fish \<Rightarrow> string" where
  "here s = path (url s)"

definition octal :: "'a fenv \<Rightarrow> int \<Rightarrow> string" where
  "octal E n = encode E (number E n 8)"

text \<open>Look first whether the destination exists, unless it may be replaced.\<close>

definition check_first :: "'a fenv \<Rightarrow> bool \<Rightarrow> 'a fish \<Rightarrow> 'a fish" where
  "check_first E overwrite s =
     (if \<not> overwrite
      then sendCommand E FISH_LIST [encode E (here s)] (s\<lparr>listReason := CHECK, checkOverwrite := False\<rparr>)
      else s)"

definition chmod_after :: "'a fenv \<Rightarrow> int \<Rightarrow> 'a fish \<Rightarrow> 'a fish" where
  "chmod_after E permissions s =
     (if permissions > -1 then sendCommand E FISH_CHMOD [octal E permissions, encode E (here s)] s else s)"

definition fish_get where
  "fish_get E st evs u s = request E st evs False u u (run_on E here (\<lambda>s.
     sendCommand E FISH_RETR [encode E (here s)] (s\<lparr>recvLen := -1\<rparr>))) s"

definition fish_put where
  "fish_put E st evs u permissions overwrite s = request E st evs False u u (run_on E here (\<lambda>s.
     sendCommand E FISH_STOR [''0'', encode E (here s)] (sendCommand E FISH_LIST [encode E (here s)]
       (s\<lparr>putPerm := permissions, checkOverwrite := overwrite, checkExist := False, putPos := 0,
          listReason := CHECK\<rparr>)))) s"

definition fish_stat where
  "fish_stat E st evs u s = request E st evs True u u (run_on E here (\<lambda>s.
     sendCommand E FISH_STAT [encode E (path (stripSlash E (url s)))] s)) s"

definition fish_mimetype where
  "fish_mimetype E st evs u s = request E st evs False u u (run_on E here (\<lambda>s.
     sendCommand E FISH_READ [''0'', ''1024'', encode E (here s)] (s\<lparr>recvLen := 1024\<rparr>))) s"

definition fish_listDir where
  "fish_listDir E st evs u s = request E st evs False u u (run_on E here (\<lambda>s.
     sendCommand E FISH_LIST [encode E (here s)] (s\<lparr>listReason := LIST\<rparr>))) s"

definition fish_mkdir where
  "fish_mkdir E st evs u permissions s = request E st evs False u u (run_on E here (\<lambda>s.
     chmod_after E permissions (sendCommand E FISH_MKD [encode E (here s)] s))) s"

definition other_place :: "qurl \<Rightarrow> qurl \<Rightarrow> bool" where
  "other_place a b \<longleftrightarrow> host a \<noteq> host b \<or> port a \<noteq> port b \<or> userName a \<noteq> userName b"

definition refuse :: "'a fenv \<Rightarrow> qurl \<Rightarrow> 'a fish \<Rightarrow> worker_result option \<times> 'a fish" where
  "refuse E u s = (case error ERR_UNSUPPORTED_ACTION (display E u) s of (r, s) \<Rightarrow> (Some r, s))"

definition fish_rename where
  "fish_rename E st evs a d overwrite s =
     (if other_place a d then refuse E a s
      else request E st evs False a d (run_on E here (\<lambda>s.
        sendCommand E FISH_RENAME [encode E (path (normalized E a)), encode E (here s)]
          (check_first E overwrite s))) s)"

definition fish_symlink where
  "fish_symlink E st evs target u overwrite s = request E st evs False u u (run_on E here (\<lambda>s.
     sendCommand E FISH_SYMLINK [encode E target, encode E (here s)] (check_first E overwrite s))) s"

definition fish_chmod where
  "fish_chmod E st evs u permissions s = request E st evs False u u (\<lambda>evs s.
     if here s \<noteq> [] \<and> permissions < 0 then (Some Pass, s)
     else run_on E here (\<lambda>s. sendCommand E FISH_CHMOD [octal E permissions, encode E (here s)] s) evs s) s"

definition fish_copy where
  "fish_copy E st evs a d permissions overwrite s =
     (if other_place a d then refuse E a s
      else request E st evs False a d (run_on E (\<lambda>_. path (normalized E a)) (\<lambda>s.
        chmod_after E permissions (sendCommand E FISH_COPY [encode E (path (normalized E a)), encode E (here s)]
          (check_first E overwrite s)))) s)"

definition fish_del where
  "fish_del E st evs u isFile s = request E st evs False u u (run_on E here (\<lambda>s.
     sendCommand E (if isFile then FISH_DELE else FISH_RMD) [encode E (here s)] s)) s"

text \<open>\<open>special\<close> knows one command, the character X.\<close>

definition fish_special where
  "fish_special E st evs tmp u cmdline s =
     (if tmp = (88::int) then
        (let s = (setHostInternal E u s)\<lparr>url := u\<rparr>
         in case openConnection E st evs s of
              (None, _, s) \<Rightarrow> (None, s)
            | (Some r, evs, s) \<Rightarrow>
                if \<not> success r then (Some r, s)
                else run E evs (sendCommand E FISH_EXEC [encode E cmdline, encode E (here s)] s))
      else (case error ERR_UNSUPPORTED_ACTION (number E tmp 10) s of (r, s) \<Rightarrow> (Some r, s)))"

end
