(* ===== verification/FishDemo.thy ===== *)
theory FishDemo
  imports FishWorker
begin

text \<open>
  A concrete instance of the parameters of the FISH worker: an application that supplies the blocks
  of a list, texts that are encoded as themselves, no number in any text but the result codes. The
  witnesses run the worker on it; it is not part of the model of the program.
\<close>

definition demo_auth :: fish_auth where
  "demo_auth = \<lparr>au_username = ''me'', au_password = [], au_keepPassword = False, au_prompt = [],
     au_caption = []\<rparr>"

definition demo_fenv :: "string list fenv" where
  "demo_fenv = \<lparr>toInt = (\<lambda>t. if t = ''100'' then Some 100 else if t = ''200'' then Some 200
       else if t = ''500'' then Some 500 else None),
     toLongLong = (\<lambda>t. if t = ''3'' then Some 3 else None), number = (\<lambda>n b. ''7''),
     now = (2024, 1, (0, 0, 0)), secs = (\<lambda>d t. 0), mimeUrl = (\<lambda>f. None),
     mimeData = (\<lambda>p d. ''text/plain''), display = path, normalized = (\<lambda>u. u), stripSlash = (\<lambda>u. u),
     encode = (\<lambda>t. t), decode = (\<lambda>t. t), logname = ''me'', checksum = ''0'', fishCode = ''code'',
     readData = (\<lambda>bs. case bs of [] \<Rightarrow> ((0, []), []) | b # bs \<Rightarrow> ((int (length b), b), bs)),
     cachedAuth = (\<lambda>au bs. ((False, au), bs)), passwordDialog = (\<lambda>au bs. ((None, au), bs)),
     messageBox = (\<lambda>t bs. (True, bs))\<rparr>"

definition demo_fish_url :: qurl where
  "demo_fish_url = empty_qurl\<lparr>scheme := ''fish'', host := ''h'', path := ''/f''\<rparr>"

definition demo_fish :: "string list fish" where
  "demo_fish = \<lparr>childPid = True, outBuf = [], outBufPos = -1, local_host = False, isStat = False,
     redirectUser = [], redirectPass = [], udsEntry = [], udsStatEntry = [], udsType = 0, udsMime = None,
     thisFn = [], url = demo_fish_url, isLoggedIn = True, connectionHost = ''h'', connectionUser = ''me'',
     connectionPort = 0, connectionPassword = [], connectionAuth = demo_auth, errorCount = 0, qlist = [],
     commandList = [], commandCodes = [], rawRead = 0, rawWrite = -1, recvLen = 3, sendLen = -1,
     writeReady = True, isRunning = False, listReason = LIST, hasAppend = False, putPerm = -1,
     checkOverwrite = False, putPos = 0, checkExist = False, firstLogin = True, rawData = [],
     mimeBuffer = replicate 1024 (CHR 0x00), mimeTypeSent = False, dataRead = 0, fishCommand = FISH_RETR,
     app = [], out = []\<rparr>"

end
