(* ===== verification/FishFacts.thy ===== *)
theory FishFacts
  imports FishDemo
begin

text \<open>
  What holds of the FISH worker: the invariant of its two queues and of the writer, what a failing
  answer leaves behind, the delivery of a file however the connection cuts it, and the permissions
  that \<open>ls\<close> prints.
\<close>

section \<open>The invariant of the queues\<close>

text \<open>
  The texts and the codes of the queued commands belong together, and the writer is ready exactly
  when nothing is waiting to be written. \<open>qkey\<close> is what the invariant looks at.
\<close>

definition qkey :: "'a fish \<Rightarrow> string list \<times> fish_command_type list \<times> bool \<times> string list" where
  "qkey s = (commandList s, commandCodes s, writeReady s, qlist s)"

definition queues_ok :: "'a fish \<Rightarrow> bool" where
  "queues_ok s \<longleftrightarrow> length (commandList s) = length (commandCodes s) \<and> (writeReady s \<longleftrightarrow> qlist s = [])"

named_theorems same_queues

lemma same: "qkey t = qkey s \<Longrightarrow> queues_ok s \<Longrightarrow> queues_ok t"
  by (auto simp: qkey_def queues_ok_def)

lemma qkey_say [same_queues]: "qkey (say m s) = qkey s"
  by (simp add: qkey_def say_def)

lemma qkey_writeChild [same_queues]: "qkey (writeChild b s) = qkey s"
  by (simp add: qkey_def writeChild_def)

lemma qkey_read_data [same_queues]: "qkey (snd (read_data E s)) = qkey s"
  by (simp add: qkey_def read_data_def split: prod.splits)

lemma qkey_handleResponse [same_queues]: "qkey (snd (handleResponse E l s)) = qkey s"
  by (simp add: qkey_def handleResponse_def Let_def)

lemma qkey_set_field [same_queues]: "qkey (set_field f s) = qkey s" "qkey (ok s) = qkey s"
  by (simp_all add: qkey_def set_field_def ok_def)

lemma qkey_lines [same_queues]:
  "qkey (count_line E l s) = qkey s" "qkey (size_line E l s) = qkey s" "qkey (link_line l s) = qkey s"
  "qkey (mime_line l s) = qkey s" "qkey (name_line E l s) = qkey s" "qkey (time_line E l s) = qkey s"
  "qkey (date_line E l s) = qkey s"
  by (simp_all add: qkey_def count_line_def size_line_def link_line_def mime_line_def name_line_def
      time_line_def date_line_def set_field_def ok_def say_def Let_def split: option.splits)

lemma qkey_perm_line [same_queues]: "qkey (perm_line l s) = qkey s"
  by (simp add: qkey_def perm_line_def set_field_def ok_def Let_def split: option.splits)

lemma qkey_end_line [same_queues]: "qkey (end_line s) = qkey s"
  by (simp add: qkey_def end_line_def set_field_def ok_def say_def Let_def split: option.splits)

lemma qkey_stat_line [same_queues]: "qkey (stat_line E l s) = qkey s"
  by (simp add: stat_line_def same_queues split: list.splits)

lemma ok_shutdown: "queues_ok (shutdownConnection b s)"
  by (simp add: queues_ok_def shutdownConnection_def Let_def say_def)

lemma ok_error: "queues_ok s \<Longrightarrow> queues_ok (snd (error e d s))"
  by (simp add: queues_ok_def error_def)

lemma ok_broken: "queues_ok (snd (broken e d s))"
  by (simp add: broken_def ok_error ok_shutdown)

lemma ok_sendCommand: "queues_ok s \<Longrightarrow> queues_ok (sendCommand E c as s)"
  by (simp add: queues_ok_def sendCommand_def)

lemma ok_finished: "queues_ok s \<Longrightarrow> queues_ok (finished E s)"
  by (cases "commandList s"; cases "commandCodes s")
    (auto simp: queues_ok_def finished_def writeStdin_def writeChild_def Let_def)

lemma ok_sent: "queues_ok s \<Longrightarrow> queues_ok (sent E s)"
  unfolding sent_def Let_def
  by (cases "qlist s")
    (auto simp: queues_ok_def writeChild_def say_def read_data_def ok_shutdown[unfolded queues_ok_def]
      split: prod.splits)

text \<open>Updates of other members do not matter.\<close>

lemma qkey_frames [same_queues]:
  "qkey (s\<lparr>rawRead := a\<rparr>) = qkey s" "qkey (s\<lparr>rawWrite := a\<rparr>) = qkey s" "qkey (s\<lparr>recvLen := a\<rparr>) = qkey s"
  "qkey (s\<lparr>sendLen := a\<rparr>) = qkey s" "qkey (s\<lparr>dataRead := a\<rparr>) = qkey s" "qkey (s\<lparr>putPos := a\<rparr>) = qkey s"
  "qkey (s\<lparr>mimeTypeSent := b\<rparr>) = qkey s" "qkey (s\<lparr>checkExist := b\<rparr>) = qkey s" "qkey (s\<lparr>hasAppend := b\<rparr>) = qkey s"
  "qkey (s\<lparr>fishCommand := k\<rparr>) = qkey s" "qkey (s\<lparr>udsStatEntry := e\<rparr>) = qkey s" "qkey (s\<lparr>url := u\<rparr>) = qkey s"
  "qkey (s\<lparr>mimeBuffer := t\<rparr>) = qkey s" "qkey (s\<lparr>thisFn := t\<rparr>) = qkey s" "qkey (s\<lparr>isRunning := b\<rparr>) = qkey s"
  "qkey (s\<lparr>isStat := b\<rparr>) = qkey s" "qkey (s\<lparr>childPid := b\<rparr>) = qkey s" "qkey (s\<lparr>isLoggedIn := b\<rparr>) = qkey s"
  "qkey (s\<lparr>outBufPos := a\<rparr>) = qkey s" "qkey (s\<lparr>outBuf := t\<rparr>) = qkey s" "qkey (s\<lparr>firstLogin := b\<rparr>) = qkey s"
  "qkey (s\<lparr>connectionAuth := au\<rparr>) = qkey s" "qkey (s\<lparr>connectionPassword := t\<rparr>) = qkey s"
  "qkey (s\<lparr>redirectUser := t\<rparr>) = qkey s" "qkey (s\<lparr>redirectPass := t\<rparr>) = qkey s" "qkey (s\<lparr>app := x\<rparr>) = qkey s"
  "qkey (s\<lparr>listReason := lr\<rparr>) = qkey s" "qkey (s\<lparr>checkOverwrite := b\<rparr>) = qkey s" "qkey (s\<lparr>putPerm := a\<rparr>) = qkey s"
  by (simp_all add: qkey_def)

lemma queues_ok_key: "queues_ok s = (case qkey s of (cl, cc, w, q) \<Rightarrow> length cl = length cc \<and> (w \<longleftrightarrow> q = []))"
  by (simp add: queues_ok_def qkey_def)

lemma queues_ok_cong: "qkey t = qkey s \<Longrightarrow> queues_ok t = queues_ok s"
  by (simp add: queues_ok_key)

named_theorems keeps_ok

lemmas [keeps_ok] = ok_error ok_broken ok_shutdown ok_sendCommand ok_finished ok_sent

lemma ok_frames [keeps_ok]:
  "queues_ok (s\<lparr>rawRead := a\<rparr>) = queues_ok s" "queues_ok (s\<lparr>rawWrite := a\<rparr>) = queues_ok s"
  "queues_ok (s\<lparr>recvLen := a\<rparr>) = queues_ok s" "queues_ok (s\<lparr>sendLen := a\<rparr>) = queues_ok s"
  "queues_ok (s\<lparr>dataRead := a\<rparr>) = queues_ok s" "queues_ok (s\<lparr>putPos := a\<rparr>) = queues_ok s"
  "queues_ok (s\<lparr>mimeTypeSent := b\<rparr>) = queues_ok s" "queues_ok (s\<lparr>checkExist := b\<rparr>) = queues_ok s"
  "queues_ok (s\<lparr>hasAppend := b\<rparr>) = queues_ok s" "queues_ok (s\<lparr>fishCommand := k\<rparr>) = queues_ok s"
  "queues_ok (s\<lparr>udsStatEntry := e\<rparr>) = queues_ok s" "queues_ok (s\<lparr>url := u\<rparr>) = queues_ok s"
  "queues_ok (s\<lparr>mimeBuffer := t\<rparr>) = queues_ok s" "queues_ok (s\<lparr>thisFn := t\<rparr>) = queues_ok s"
  "queues_ok (s\<lparr>isRunning := b\<rparr>) = queues_ok s" "queues_ok (s\<lparr>isStat := b\<rparr>) = queues_ok s"
  "queues_ok (s\<lparr>childPid := b\<rparr>) = queues_ok s" "queues_ok (s\<lparr>isLoggedIn := b\<rparr>) = queues_ok s"
  "queues_ok (s\<lparr>outBufPos := a\<rparr>) = queues_ok s" "queues_ok (s\<lparr>outBuf := t\<rparr>) = queues_ok s"
  "queues_ok (s\<lparr>firstLogin := b\<rparr>) = queues_ok s" "queues_ok (s\<lparr>connectionAuth := au\<rparr>) = queues_ok s"
  "queues_ok (s\<lparr>connectionPassword := t\<rparr>) = queues_ok s" "queues_ok (s\<lparr>redirectUser := t\<rparr>) = queues_ok s"
  "queues_ok (s\<lparr>redirectPass := t\<rparr>) = queues_ok s" "queues_ok (s\<lparr>app := x\<rparr>) = queues_ok s"
  "queues_ok (s\<lparr>listReason := lr\<rparr>) = queues_ok s" "queues_ok (s\<lparr>checkOverwrite := b\<rparr>) = queues_ok s"
  "queues_ok (s\<lparr>putPerm := a\<rparr>) = queues_ok s" "queues_ok (say m s) = queues_ok s"
  "queues_ok (writeChild t s) = queues_ok s" "queues_ok (stat_line E l s) = queues_ok s"
  "queues_ok (snd (read_data E s)) = queues_ok s" "queues_ok (snd (handleResponse E l s)) = queues_ok s"
  "queues_ok (s\<lparr>local_host := b\<rparr>) = queues_ok s" "queues_ok (s\<lparr>connectionHost := t\<rparr>) = queues_ok s"
  "queues_ok (s\<lparr>connectionUser := t\<rparr>) = queues_ok s" "queues_ok (s\<lparr>connectionPort := a\<rparr>) = queues_ok s"
  by (rule queues_ok_cong, simp add: same_queues | simp add: queues_ok_def)+

lemma ok_text_line [keeps_ok]: "queues_ok s \<Longrightarrow> queues_ok (snd (text_line E l s))"
  by (simp add: text_line_def keeps_ok Let_def split: fish_command_type.splits option.splits)

lemma ok_ready_line [keeps_ok]: "queues_ok s \<Longrightarrow> queues_ok (snd (ready_line E s))"
  by (simp add: ready_line_def keeps_ok Let_def)

lemma ok_fail_line [keeps_ok]: "queues_ok s \<Longrightarrow> queues_ok (snd (fail_line E rc l s))"
  by (simp add: fail_line_def keeps_ok Let_def split: fish_command_type.splits list_reason.splits)

lemma ok_next_block [keeps_ok]: "queues_ok s \<Longrightarrow> queues_ok (next_block E s)"
proof -
  assume "queues_ok s"
  then have "queues_ok (snd (read_data E (say FDataReq s)))" by (simp add: keeps_ok)
  then show ?thesis
    by (cases "read_data E (say FDataReq s)") (simp add: next_block_def keeps_ok Let_def)
qed

lemma ok_done_line [keeps_ok]: "queues_ok s \<Longrightarrow> queues_ok (snd (done_line E s))"
  by (simp add: done_line_def keeps_ok Let_def)

lemma ok_manageConnection [keeps_ok]: "queues_ok s \<Longrightarrow> queues_ok (snd (manageConnection E l s))"
proof -
  assume "queues_ok s"
  then have "queues_ok (snd (handleResponse E l s))" by (simp add: keeps_ok)
  then show ?thesis by (cases "handleResponse E l s") (simp add: manageConnection_def keeps_ok)
qed

lemma ok_data_turn: "queues_ok s \<Longrightarrow> queues_ok (snd (data_turn buf s))"
  by (simp add: data_turn_def keeps_ok Let_def)

lemma ok_mime_fill: "queues_ok (snd (mime_fill buf s)) = queues_ok s"
  unfolding mime_fill_def Let_def snd_conv by (split if_split) (simp only: ok_frames simp_thms)

lemma ok_mime_emit: "queues_ok (mime_emit E s) = queues_ok s"
  unfolding mime_emit_def Let_def by (split if_split) (simp only: ok_frames simp_thms)

lemma ok_mime_turn: "queues_ok s \<Longrightarrow> queues_ok (snd (snd (mime_turn E buf s)))"
  using ok_mime_fill[of buf s] by (cases "mime_fill buf s") (simp add: mime_turn_def ok_mime_emit)

lemma ok_line_turn: "queues_ok s \<Longrightarrow> queues_ok (snd (snd (line_turn E buf s)))"
proof -
  assume "queues_ok s"
  then have "queues_ok (snd (manageConnection E (decode E (takeWhile (\<lambda>c. c \<noteq> CHR 0x0A) buf)) s))"
    by (rule ok_manageConnection)
  then show ?thesis using \<open>queues_ok s\<close>
    by (cases "manageConnection E (decode E (takeWhile (\<lambda>c. c \<noteq> CHR 0x0A) buf)) s")
      (simp add: line_turn_def Let_def)
qed

lemma ok_recv_turn: "queues_ok s \<Longrightarrow> queues_ok (snd (snd (recv_turn E buf s)))"
  using ok_mime_turn[of s E buf] ok_data_turn[of s buf] ok_line_turn
  by (auto simp: recv_turn_def split: prod.splits turn.splits)

lemma ok_received [keeps_ok]: "queues_ok s \<Longrightarrow> queues_ok (snd (snd (received E buf s)))"
proof (induction E buf s rule: received.induct)
  case (1 E buf s)
  obtain o1 b t where r: "recv_turn E buf s = (o1, b, t)" by (metis surj_pair)
  with ok_recv_turn[OF 1(2), of E buf] have t: "queues_ok t" by simp
  show ?case
  proof (cases o1)
    case (Leave x)
    with r t show ?thesis by (simp add: received.simps[of E buf s])
  next
    case Again
    with r 1(1)[OF r[symmetric] Again refl t] show ?thesis
      by (simp add: received.simps[of E buf s])
  qed
qed

lemma ok_cleared [keeps_ok]:
  "queues_ok s \<Longrightarrow> queues_ok (s\<lparr>commandList := [], commandCodes := []\<rparr>)"
  "queues_ok s \<Longrightarrow> queues_ok (s\<lparr>commandList := [], commandCodes := [], isRunning := False\<rparr>)"
  by (simp_all add: queues_ok_def)

lemma ok_cached_password: "queues_ok s \<Longrightarrow> queues_ok (snd (cached_password E s))"
  by (simp add: cached_password_def keeps_ok split: prod.splits)

lemma ok_enter_password: "queues_ok s \<Longrightarrow> queues_ok (snd (enter_password E s))"
  by (simp add: enter_password_def keeps_ok split: prod.splits)

lemma ok_use_password: "queues_ok s \<Longrightarrow> queues_ok (snd (snd (use_password s)))"
  by (simp add: use_password_def redirect_login_def keeps_ok Let_def)

lemma ok_error_shutdown:
  "queues_ok (snd (snd (case error e h (shutdownConnection b s) of (r, s) \<Rightarrow> (n, r, s))))"
  by (simp add: error_def keeps_ok ok_shutdown)

lemma ok_ask_password: "queues_ok s \<Longrightarrow> queues_ok (snd (snd (ask_password E buf s)))"
proof -
  assume s: "queues_ok s"
  let ?s = "s\<lparr>connectionAuth := (connectionAuth s)\<lparr>au_prompt := thisFn s @ buf,
       au_caption := (if local_host s then ''Local Login'' else ''SSH Authentication'')\<rparr>\<rparr>"
  obtain c t where c: "cached_password E ?s = (c, t)" by fastforce
  with ok_cached_password[of ?s E] s have t: "queues_ok t" by (simp add: keeps_ok)
  obtain e u where e: "enter_password E t = (e, u)" by fastforce
  with ok_enter_password[of t E] t have u: "queues_ok u" by simp
  show ?thesis unfolding ask_password_def Let_def
    using c t e u by (cases e) (simp_all add: ok_use_password ok_broken[unfolded broken_def])
qed

lemma ok_prompt_end: "queues_ok s \<Longrightarrow> queues_ok (snd (snd (prompt_end E buf s)))"
  by (cases "messageBox E (thisFn s @ buf) (app s)")
    (simp add: prompt_end_def redirect_login_def keeps_ok ok_ask_password Let_def)

lemma ok_logged_in: "queues_ok s \<Longrightarrow> queues_ok (logged_in s)"
  by (simp add: logged_in_def keeps_ok Let_def)

lemma ok_establish [keeps_ok]: "queues_ok s \<Longrightarrow> queues_ok (snd (snd (establish E buf s)))"
proof (induction E buf s rule: establish.induct)
  case (1 E buf s)
  then show ?case
    by (subst establish.simps) (auto simp: Let_def ok_prompt_end ok_logged_in keeps_ok)
qed

lemma ok_wrote [keeps_ok]: "queues_ok s \<Longrightarrow> queues_ok (wrote n s)"
  by (simp add: wrote_def keeps_ok)

lemma ok_login_event: "queues_ok s \<Longrightarrow> queues_ok (snd (snd (login_event E e buf s)))"
proof (cases e)
  case (CanRead chunk)
  assume s: "queues_ok s"
  obtain n r t where e: "establishConnection E (buf @ chunk) s = (n, r, t)" by (metis surj_pair)
  from ok_establish[OF s, of E "strip_trailing (buf @ chunk)"] have "queues_ok t"
    unfolding establishConnection_def[symmetric] e by simp
  with s CanRead e show ?thesis by (simp add: login_event_def error_def keeps_ok Let_def)
qed (simp_all add: login_event_def error_def keeps_ok Let_def)

lemma ok_login_loop: "queues_ok s \<Longrightarrow> queues_ok (snd (snd (login_loop E evs buf s)))"
proof (induction E evs buf s rule: login_loop.induct)
  case (2 E e k es buf s)
  obtain r b t where l: "login_event E e buf s = (r, b, t)" by (metis surj_pair)
  with ok_login_event[OF 2(2), of E e buf] have t: "queues_ok t" by simp
  with l 2 show ?case by (cases r) (auto simp: keeps_ok)
qed simp

lemma ok_connectionStart: "queues_ok s \<Longrightarrow> queues_ok (snd (snd (connectionStart E st evs s)))"
  by (simp add: connectionStart_def error_def keeps_ok ok_login_loop Let_def split: start.splits)

lemma ok_openConnection: "queues_ok s \<Longrightarrow> queues_ok (snd (snd (openConnection E st evs s)))"
proof -
  assume s: "queues_ok s"
  let ?s = "sendCommand E FISH_VER [] (sendCommand E FISH_FISH [] (say (FInfoMessage ''Connecting...'') s))"
  from s have "queues_ok ?s" by (simp add: keeps_ok)
  from ok_connectionStart[OF this, of E st evs]
  have "queues_ok (snd (snd (connectionStart E st evs ?s)))" .
  then show ?thesis using s
    by (cases "connectionStart E st evs ?s" rule: prod_cases3; cases "fst (connectionStart E st evs ?s)")
      (auto simp: openConnection_def error_def keeps_ok Let_def)
qed

lemma ok_run_event: "queues_ok s \<Longrightarrow> queues_ok (snd (snd (run_event E e buf s)))"
proof (cases e)
  case (CanRead chunk)
  assume s: "queues_ok s"
  obtain b r t where e: "received E (buf @ chunk) s = (b, r, t)" by (metis surj_pair)
  from ok_received[OF s, of E "buf @ chunk"] have "queues_ok t" unfolding e by simp
  with s CanRead e show ?thesis
    by (simp add: run_event_def broken_def error_def keeps_ok ok_shutdown Let_def)
qed (simp_all add: run_event_def broken_def error_def keeps_ok Let_def)

lemma ok_run_loop: "queues_ok s \<Longrightarrow> queues_ok (snd (run_loop E evs buf s))"
proof (induction E evs buf s rule: run_loop.induct)
  case (2 E e k es buf s)
  obtain r b t where l: "run_event E e buf s = (r, b, t)" by (metis surj_pair)
  with ok_run_event[OF 2(2), of E e buf] have t: "queues_ok t" by simp
  with l 2 show ?case by (cases r) (auto simp: keeps_ok)
qed simp

lemma ok_run [keeps_ok]: "queues_ok s \<Longrightarrow> queues_ok (snd (run E evs s))"
  by (simp add: run_def keeps_ok ok_run_loop)

lemma ok_setHost [keeps_ok]: "queues_ok s \<Longrightarrow> queues_ok (setHostInternal E u s)"
  by (simp add: setHostInternal_def setHost_def keeps_ok Let_def)

lemma ok_request:
  assumes "queues_ok s" "\<And>evs t. queues_ok t \<Longrightarrow> queues_ok (snd (k evs t))"
  shows "queues_ok (snd (request E st evs b h u k s))"
proof -
  let ?s = "(setHostInternal E h s)\<lparr>url := u, isStat := b\<rparr>"
  obtain r es t where o: "openConnection E st evs ?s = (r, es, t)" by (metis surj_pair)
  with ok_openConnection[of ?s E st evs] assms(1) have "queues_ok t" by (simp add: keeps_ok)
  with o assms(2) show ?thesis by (cases r) (simp_all add: request_def keeps_ok Let_def)
qed

lemma ok_run_on: "queues_ok s \<Longrightarrow> (queues_ok s \<Longrightarrow> queues_ok (q s)) \<Longrightarrow> queues_ok (snd (run_on E p q evs s))"
  by (simp add: run_on_def keeps_ok)

lemma ok_check_chmod [keeps_ok]:
  "queues_ok s \<Longrightarrow> queues_ok (check_first E b s)" "queues_ok s \<Longrightarrow> queues_ok (chmod_after E n s)"
  by (simp_all add: check_first_def chmod_after_def keeps_ok)

lemma ok_refuse: "queues_ok s \<Longrightarrow> queues_ok (snd (refuse E u s))"
  by (simp add: refuse_def error_def keeps_ok)

section \<open>Properties\<close>

text \<open>
  C18. The constructor establishes the invariant of the queues and every handler keeps it, whatever
  the server sends, however a write or a read fails, and whenever the application stops it: each
  queued text has its code, and the writer is ready exactly when no text is waiting.
\<close>

theorem handlers_keep_queues:
  assumes "queues_ok s"
  shows "queues_ok (fishProtocol s0)
    \<and> queues_ok (snd (fish_get E st evs u s)) \<and> queues_ok (snd (fish_put E st evs u n b s))
    \<and> queues_ok (snd (fish_stat E st evs u s)) \<and> queues_ok (snd (fish_mimetype E st evs u s))
    \<and> queues_ok (snd (fish_listDir E st evs u s)) \<and> queues_ok (snd (fish_mkdir E st evs u n s))
    \<and> queues_ok (snd (fish_rename E st evs u v b s)) \<and> queues_ok (snd (fish_symlink E st evs t u b s))
    \<and> queues_ok (snd (fish_chmod E st evs u n s)) \<and> queues_ok (snd (fish_copy E st evs u v n b s))
    \<and> queues_ok (snd (fish_del E st evs u b s)) \<and> queues_ok (snd (fish_special E st evs n u t s))
    \<and> queues_ok (closeConnection s)"
proof (intro conjI)
  show "queues_ok (fishProtocol s0)" by (simp add: fishProtocol_def queues_ok_def)
  show "queues_ok (closeConnection s)" by (simp add: closeConnection_def keeps_ok)
  show "queues_ok (snd (fish_special E st evs n u t s))"
  proof (cases "n = 88")
    case True
    let ?s = "(setHostInternal E u s)\<lparr>url := u\<rparr>"
    obtain r es t' where o: "openConnection E st evs ?s = (r, es, t')" by (metis surj_pair)
    with ok_openConnection[of ?s E st evs] assms have "queues_ok t'" by (simp add: keeps_ok)
    with o True show ?thesis by (cases r) (simp_all add: fish_special_def keeps_ok Let_def)
  qed (simp add: fish_special_def error_def keeps_ok assms)
qed (use assms in \<open>auto simp: fish_get_def fish_put_def fish_stat_def fish_mimetype_def fish_listDir_def
    fish_mkdir_def fish_rename_def fish_symlink_def fish_chmod_def fish_copy_def fish_del_def keeps_ok
    intro!: ok_request ok_run_on ok_refuse\<close>)

lemma demo_queues_ok: "queues_ok demo_fish"
  by (simp add: queues_ok_def demo_fish_def)

theorem handlers_keep_queues_witness:
  "queues_ok (snd (fish_get demo_fenv Started [] demo_fish_url demo_fish))"
  using handlers_keep_queues[OF demo_queues_ok] by blast

subsection \<open>Failing answers\<close>

lemma fails_clear:
  "error e d s = (r, t) \<Longrightarrow> commandList t = [] \<and> commandCodes t = [] \<and> \<not> isRunning t"
  "broken e d s = (r, t) \<Longrightarrow> commandList t = [] \<and> commandCodes t = [] \<and> \<not> isRunning t"
  by (auto simp: error_def broken_def)

lemma text_line_fails: "text_line E l s = (r, t) \<Longrightarrow> \<not> success r
    \<Longrightarrow> commandList t = [] \<and> commandCodes t = [] \<and> \<not> isRunning t"
  by (auto simp: text_line_def Let_def fails_clear split: fish_command_type.splits if_splits option.splits)

lemma fail_line_fails: "fail_line E rc l s = (r, t) \<Longrightarrow> \<not> success r
    \<Longrightarrow> commandList t = [] \<and> commandCodes t = [] \<and> \<not> isRunning t"
  by (auto simp: fail_line_def Let_def fails_clear
      split: fish_command_type.splits if_splits list_reason.splits)

lemma ready_line_fails: "ready_line E s = (r, t) \<Longrightarrow> \<not> success r
    \<Longrightarrow> commandList t = [] \<and> commandCodes t = [] \<and> \<not> isRunning t"
  by (auto simp: ready_line_def Let_def fails_clear split: if_splits)

lemma done_line_fails: "done_line E s = (r, t) \<Longrightarrow> \<not> success r
    \<Longrightarrow> commandList t = [] \<and> commandCodes t = [] \<and> \<not> isRunning t"
  by (auto simp: done_line_def Let_def fails_clear split: if_splits)

text \<open>
  When an answer of the server makes the request fail, no queued command is left to be sent and
  the worker is not running, so that the next request starts with an empty queue.
\<close>

lemma failing_answer_clears_queue:
  assumes "manageConnection E l s = (r, t)" "\<not> success r"
  shows "commandList t = [] \<and> commandCodes t = [] \<and> \<not> isRunning t"
proof -
  obtain rc u where "handleResponse E l s = (rc, u)" by fastforce
  with assms show ?thesis
    by (auto simp: manageConnection_def text_line_fails fail_line_fails ready_line_fails done_line_fails
        split: if_splits)
qed

subsection \<open>Raw data\<close>

text \<open>
  \<open>feed\<close> gives the reads of a sequence one after the other to \<open>received\<close>, as \<open>run\<close> does, what is
  left in the buffer before each. \<open>data_of\<close> is the file data among the messages.
\<close>

fun feed :: "'a fenv \<Rightarrow> string list \<Rightarrow> string \<Rightarrow> 'a fish \<Rightarrow> string \<times> worker_result \<times> 'a fish" where
  "feed E [] buf s = (buf, Pass, s)"
| "feed E (c # cs) buf s =
     (case received E (buf @ c) s of (b, r, t) \<Rightarrow> if success r then feed E cs b t else (b, r, t))"

fun data_of :: "fmsg list \<Rightarrow> string" where
  "data_of [] = []"
| "data_of (FData d # ms) = d @ data_of ms"
| "data_of (_ # ms) = data_of ms"

lemma data_of_append: "data_of (a @ b) = data_of a @ data_of b"
  by (induction a rule: data_of.induct) auto

text \<open>\<open>p\<close> has arrived and \<open>d\<close> is still to come; \<open>o\<close> was sent to the application before.\<close>

definition receiving :: "string \<Rightarrow> string \<Rightarrow> string \<Rightarrow> 'a fish \<Rightarrow> bool" where
  "receiving o' p d s \<longleftrightarrow> rawRead s = int (length d) \<and> dataRead s = int (length p) \<and> fishCommand s = FISH_RETR
     \<and> length (mimeBuffer s) = 1024 \<and> childPid s \<and> (d = [] \<longrightarrow> mimeTypeSent s)
     \<and> (if mimeTypeSent s then data_of (out s) = o' @ p
        else length p < 1024 \<and> take (length p) (mimeBuffer s) = p \<and> data_of (out s) = o')"

lemma data_turn_receiving:
  assumes "receiving o' p (c @ d) s" "mimeTypeSent s"
  shows "\<exists>t. data_turn c s = ([], t) \<and> receiving o' (p @ c) d t \<and> mimeTypeSent t"
  using assms by (simp add: data_turn_def receiving_def say_def data_of_append Let_def)

lemma sent_receiving:
  assumes "receiving o' p (c @ d) s" "mimeTypeSent s" "c \<noteq> []"
  shows "\<exists>t. received E c s = ([], Pass, t) \<and> receiving o' (p @ c) d t"
proof -
  obtain t where t: "data_turn c s = ([], t)" "receiving o' (p @ c) d t"
    using data_turn_receiving[OF assms(1,2)] by blast
  from assms(1,3) have "rawRead s > 0" by (cases c) (simp_all add: receiving_def)
  with t assms(2,3) have "recv_turn E c s = (Leave Pass, [], t)" by (simp add: recv_turn_def)
  with t show ?thesis by (simp add: received.simps[of E c s])
qed

lemma resize_same: "length x = n \<Longrightarrow> resize n x = x"
  by (simp add: resize_def)

lemma length_resize: "length (resize n x) = n"
  by (simp add: resize_def)

lemma resize_prefix: "length x = n \<Longrightarrow> resize n (x @ y) = x"
  by (simp add: resize_def)

lemma mime_fill_run:
  assumes "rawRead s = int n" "dataRead s = int k" "length (mimeBuffer s) = 1024"
    "min (min n (length buf)) (1024 - k) = m"
  shows "mime_fill buf s = (drop m buf,
    let b = take k (mimeBuffer s) @ take m buf @ drop (k + m) (mimeBuffer s);
        b = (if n = m then resize (k + m) b else b)
    in s\<lparr>mimeBuffer := b, dataRead := int (k + m), rawRead := int n - int m\<rparr>)"
proof -
  have "nat (int (length (mimeBuffer s)) - int k) = 1024 - k" using assms(3) by simp
  with assms(4) have m: "min (min n (length buf)) (nat (int (length (mimeBuffer s)) - int k)) = m" by simp
  have k: "nat (int k + int m) = k + m" by simp
  show ?thesis unfolding mime_fill_def Let_def assms(1,2) nat_int m
    by (cases "n = m") (simp_all add: k)
qed

text \<open>Fewer bytes than the MIME buffer needs, and more to come: they are kept.\<close>

lemma mime_part:
  assumes "receiving o' p (c @ d) s" "\<not> mimeTypeSent s" "length p + length c < 1024" "d \<noteq> []"
  shows "\<exists>t. mime_turn E c s = (Leave Pass, [], t) \<and> receiving o' (p @ c) d t"
proof -
  let ?t = "s\<lparr>mimeBuffer := p @ c @ drop (length p + length c) (mimeBuffer s),
              dataRead := int (length p + length c), rawRead := int (length d)\<rparr>"
  from assms have f: "mime_fill c s = ([], ?t)"
    by (simp add: mime_fill_def receiving_def Let_def)
  from assms have "receiving o' (p @ c) d ?t" by (simp add: receiving_def)
  moreover have "dataRead ?t < int (length (mimeBuffer ?t))"
    using assms by (simp add: receiving_def)
  ultimately show ?thesis using f by (auto simp: mime_turn_def)
qed

text \<open>Enough bytes for the MIME buffer, or the last ones of the file: the type is found.\<close>

lemma mime_full:
  assumes "receiving o' p (a @ d) s" "\<not> mimeTypeSent s" "length p + length a = 1024 \<or> d = []"
    "length p + length a \<le> 1024" "a \<noteq> []" "b @ e = d" "length p + length a = 1024 \<or> b = []"
  shows "\<exists>t. mime_turn E (a @ b) s = (Again, b, t) \<and> receiving o' (p @ a) d t \<and> mimeTypeSent t"
proof -
  let ?m = "p @ a @ drop (length p + length a) (mimeBuffer s)"
  let ?t = "s\<lparr>mimeBuffer := if d = [] then p @ a else ?m,
              dataRead := int (length p + length a), rawRead := int (length d)\<rparr>"
  from assms(1,2) have l: "length (mimeBuffer s) = 1024" "rawRead s = int (length a + length d)"
      "dataRead s = int (length p)" "take (length p) (mimeBuffer s) = p"
    by (simp_all add: receiving_def)
  have k: "min (min (length a + length d) (length (a @ b))) (1024 - length p) = length a"
    using assms(4,6,7) by (cases "b = []") auto
  have z: "length a + length d = length a \<longleftrightarrow> d = []" by simp
  have r: "resize (length p + length a) (p @ a @ y) = p @ a" for y by (simp add: resize_def)
  have f: "mime_fill (a @ b) s = (b, ?t)"
    unfolding mime_fill_run[OF l(2,3,1) k] z using l(4) by (simp add: r)
  have full: "(if d = [] then p @ a else ?m) = p @ a" using assms(3) l(1) by auto
  have "int (length (mimeBuffer ?t)) = dataRead ?t" by (simp add: full del: if_split)
  then have "mime_turn E (a @ b) s = (Again, b, mime_emit E ?t)" by (simp add: mime_turn_def f)
  moreover have "receiving o' (p @ a) d (mime_emit E ?t)"
    using assms(1,2) full by (simp add: receiving_def mime_emit_def say_def data_of_append length_resize Let_def)
  ultimately show ?thesis using mime_emit_sent by blast
qed

lemma received_step:
  assumes "receiving o' p (c @ d) s" "c \<noteq> []"
  shows "\<exists>t. received E c s = ([], Pass, t) \<and> receiving o' (p @ c) d t"
proof (cases "mimeTypeSent s")
  case True
  with sent_receiving[OF assms(1)] assms(2) show ?thesis by blast
next
  case False
  let ?n = "1024 - length p"
  have pos: "rawRead s > 0" using assms by (cases c) (simp_all add: receiving_def)
  have p: "length p < 1024" using assms(1) False by (simp add: receiving_def)
  show ?thesis
  proof (cases "length p + length c < 1024 \<and> d \<noteq> []")
    case True
    then obtain t where t: "mime_turn E c s = (Leave Pass, [], t)" "receiving o' (p @ c) d t"
      using mime_part[OF assms(1) False] by blast
    then have "recv_turn E c s = (Leave Pass, [], t)"
      using pos False assms(2) by (simp add: recv_turn_def)
    with t show ?thesis by (simp add: received.simps[of E c s])
  next
    case full: False
    obtain t where t: "mime_turn E c s = (Again, drop ?n c, t)"
        "receiving o' (p @ take ?n c) (drop ?n c @ d) t" "mimeTypeSent t"
    proof -
      have "length p + length (take ?n c) = 1024 \<or> drop ?n c @ d = []"
          "length p + length (take ?n c) = 1024 \<or> drop ?n c = []" "take ?n c \<noteq> []"
        using full p assms(2) by (auto simp: min_def)
      moreover have "length p + length (take ?n c) \<le> 1024" using p by simp
      moreover have "receiving o' p (take ?n c @ drop ?n c @ d) s"
        using assms(1) by (metis append_assoc append_take_drop_id)
      ultimately show thesis
        using mime_full[of o' p "take ?n c" "drop ?n c @ d" s "drop ?n c" d E] False that by auto
    qed
    then have ct: "childPid t" by (simp add: receiving_def)
    show ?thesis
    proof (cases "drop ?n c = []")
      case True
      with t pos False assms(2) have "recv_turn E c s = (Leave Pass, [], t)" by (simp add: recv_turn_def)
      with t True show ?thesis by (simp add: received.simps[of E c s])
    next
      case more: False
      with t ct pos False assms(2) have "recv_turn E c s = (Again, drop ?n c, t)" by (simp add: recv_turn_def)
      moreover obtain u where "received E (drop ?n c) t = ([], Pass, u)"
          "receiving o' ((p @ take ?n c) @ drop ?n c) d u"
        using sent_receiving[OF t(2,3) more] by blast
      ultimately show ?thesis by (auto simp: received.simps[of E c s])
    qed
  qed
qed

lemma feed_receiving:
  "receiving o' p (concat cs @ d) s \<Longrightarrow> [] \<notin> set cs
     \<Longrightarrow> \<exists>t. feed E cs [] s = ([], Pass, t) \<and> receiving o' (p @ concat cs) d t"
proof (induction cs arbitrary: p s)
  case (Cons c cs)
  then obtain t where t: "received E c s = ([], Pass, t)" "receiving o' (p @ c) (concat cs @ d) t"
    using received_step[of o' p c "concat cs @ d" s E] by auto
  with Cons.IH[of "p @ c" t] Cons.prems show ?case by auto
qed simp



lemma failing_answer_clears_queue_instance:
  "manageConnection demo_fenv ''### 500'' (demo_fish\<lparr>fishCommand := FISH_MKD, commandList := [''x'']\<rparr>)
      = (Fail ERR_CANNOT_MKDIR ''/f'', demo_fish\<lparr>fishCommand := FISH_MKD, commandList := []\<rparr>)
    \<and> commandList (demo_fish\<lparr>fishCommand := FISH_MKD, commandList := []\<rparr>) = []"
proof -
  have m: "manageConnection demo_fenv ''### 500'' (demo_fish\<lparr>fishCommand := FISH_MKD, commandList := [''x'']\<rparr>)
      = (Fail ERR_CANNOT_MKDIR ''/f'', demo_fish\<lparr>fishCommand := FISH_MKD, commandList := []\<rparr>)"
    by code_simp
  from failing_answer_clears_queue[OF m] m show ?thesis by simp
qed

subsection \<open>Permissions\<close>

definition when_bit :: "mode_t \<Rightarrow> nat \<Rightarrow> mode_t" where
  "when_bit m i = (if bit m i then 2 ^ i else 0)"

lemma bit_when_bit: "bit (when_bit m i) n \<longleftrightarrow> n = i \<and> bit m n"
  using bit_imp_le_length[of m i] by (auto simp: when_bit_def bit_simps)

text \<open>How \<open>ls -l\<close> prints the twelve permission bits (POSIX), and each of the tests of the worker.\<close>

definition bit_char :: "mode_t \<Rightarrow> nat \<Rightarrow> char \<Rightarrow> char" where
  "bit_char m i x = (if bit m i then x else CHR ''-'')"

definition exec_char :: "mode_t \<Rightarrow> nat \<Rightarrow> nat \<Rightarrow> char \<Rightarrow> char \<Rightarrow> char" where
  "exec_char m i j both one = (if bit m j then (if bit m i then both else one) else bit_char m i (CHR ''x''))"

definition ls_mode :: "mode_t \<Rightarrow> string" where
  "ls_mode m =
     [bit_char m 8 (CHR ''r''), bit_char m 7 (CHR ''w''), exec_char m 6 11 (CHR ''s'') (CHR ''S''),
      bit_char m 5 (CHR ''r''), bit_char m 4 (CHR ''w''), exec_char m 3 10 (CHR ''s'') (CHR ''S''),
      bit_char m 2 (CHR ''r''), bit_char m 1 (CHR ''w''), exec_char m 0 9 (CHR ''t'') (CHR ''T'')]"

lemma mode_tests:
  "(if bit_char m i (CHR ''r'') \<in> set ''r'' then 2 ^ i else 0) = when_bit m i"
  "(if bit_char m i (CHR ''w'') \<in> set ''w'' then 2 ^ i else 0) = when_bit m i"
  "(if exec_char m i j (CHR ''s'') (CHR ''S'') \<in> set ''xs'' then 2 ^ i else 0) = when_bit m i"
  "(if exec_char m i j (CHR ''s'') (CHR ''S'') \<in> set ''Ss'' then 2 ^ j else 0) = when_bit m j"
  "(if exec_char m i j (CHR ''t'') (CHR ''T'') \<in> set ''xt'' then 2 ^ i else 0) = when_bit m i"
  "(if exec_char m i j (CHR ''t'') (CHR ''T'') \<in> set ''Tt'' then 2 ^ j else 0) = when_bit m j"
  by (simp_all add: bit_char_def exec_char_def when_bit_def)

lemma access_bits_ls:
  "access_bits (CHR ''P'' # type # ls_mode m @ rest)
    = when_bit m 8 OR when_bit m 7 OR when_bit m 6 OR when_bit m 11 OR when_bit m 5 OR when_bit m 4
      OR when_bit m 3 OR when_bit m 10 OR when_bit m 2 OR when_bit m 1 OR when_bit m 0 OR when_bit m 9"
proof -
  have "access_bits (CHR ''P'' # type # ls_mode m @ rest) =
      (let t = (\<lambda>c cs v. if c \<in> set cs then v else (0 :: mode_t));
           u = exec_char m 6 11 (CHR ''s'') (CHR ''S''); g = exec_char m 3 10 (CHR ''s'') (CHR ''S'');
           o' = exec_char m 0 9 (CHR ''t'') (CHR ''T'')
       in t (bit_char m 8 (CHR ''r'')) ''r'' (2 ^ 8) OR t (bit_char m 7 (CHR ''w'')) ''w'' (2 ^ 7)
        OR t u ''xs'' (2 ^ 6) OR t u ''Ss'' (2 ^ 11)
        OR t (bit_char m 5 (CHR ''r'')) ''r'' (2 ^ 5) OR t (bit_char m 4 (CHR ''w'')) ''w'' (2 ^ 4)
        OR t g ''xs'' (2 ^ 3) OR t g ''Ss'' (2 ^ 10)
        OR t (bit_char m 2 (CHR ''r'')) ''r'' (2 ^ 2) OR t (bit_char m 1 (CHR ''w'')) ''w'' (2 ^ 1)
        OR t o' ''xt'' (2 ^ 0) OR t o' ''Tt'' (2 ^ 9))"
    by (simp add: access_bits_def ls_mode_def char_at_def Let_def split del: if_split)
  then show ?thesis unfolding Let_def by (simp only: mode_tests)
qed

text \<open>
  C23. Round trip of permissions: from the mode that \<open>ls\<close> prints for a file, the worker gets back the
  twelve permission bits of the file, set-user-id, set-group-id and sticky bit included.
\<close>

theorem access_of_ls_mode:
  "access_bits (CHR ''P'' # type # ls_mode m @ rest) = m AND 0xFFF"
proof (rule bit_word_eqI)
  fix n
  assume "n < LENGTH(32)"
  have "(0xFFF :: mode_t) = mask 12" by (simp add: mask_eq_decr_exp)
  then have "bit (m AND 0xFFF) n \<longleftrightarrow> bit m n \<and> n < 12"
    by (simp only: bit_and_iff bit_mask_iff) auto
  moreover have "n < 12 \<longleftrightarrow> n \<in> {0, 1, 2, 3, 4, 5, 6, 7, 8, 9, 10, 11}"
    unfolding insert_iff empty_iff by presburger
  ultimately show "bit (access_bits (CHR ''P'' # type # ls_mode m @ rest)) n = bit (m AND 0xFFF) n"
    unfolding access_bits_ls bit_or_iff bit_when_bit by auto
qed

end
