(* ===== verification/Calls.thy ===== *)
theory Calls
  imports Kio
begin

text \<open>
  What every worker that talks to something outside shares. Its state extends the record \<open>io\<close>: the
  outside world, a state of any type, and the log of all calls with their answers and of all messages,
  in order. \<open>call\<close> asks the world, \<open>tell\<close> sends a message, \<open>look\<close> reads the world without a trace.

  A handler that may not return (a loop that the other side keeps going, a recursion without end)
  answers an option, None when it did not return; \<open>andThen\<close> goes on after one that did.
\<close>

record ('w, 'e) io =
  world :: 'w
  trace :: "'e list"

definition call :: "('w \<Rightarrow> 'a \<times> 'w) \<Rightarrow> ('a \<Rightarrow> 'e) \<Rightarrow> (('w, 'e, 'x) io_scheme, 'a) state" where
  "call f e = State (\<lambda>s. case f (world s) of
     (a, w) \<Rightarrow> (a, s\<lparr>world := w, trace := trace s @ [e a]\<rparr>))"

definition act :: "('w \<Rightarrow> 'w) \<Rightarrow> 'e \<Rightarrow> (('w, 'e, 'x) io_scheme, unit) state" where
  "act f e = call (\<lambda>w. ((), f w)) (\<lambda>_. e)"

definition tell :: "'e \<Rightarrow> (('w, 'e, 'x) io_scheme, unit) state" where
  "tell e = act (\<lambda>w. w) e"

definition look :: "('w \<Rightarrow> 'a) \<Rightarrow> (('w, 'e, 'x) io_scheme, 'a) state" where
  "look f = State (\<lambda>s. (f (world s), s))"

abbreviation ret :: "'a \<Rightarrow> ('s, 'a) state" where
  "ret \<equiv> State_Monad.return"

definition andThen :: "('s, 'a option) state \<Rightarrow> ('a \<Rightarrow> ('s, 'b option) state) \<Rightarrow> ('s, 'b option) state" where
  "andThen m k = do { r \<leftarrow> m; case r of None \<Rightarrow> ret None | Some a \<Rightarrow> k a }"

section \<open>Weakest preconditions\<close>

lemma wp_call [wp_simps]:
  "wp (call f e) Q s = (case f (world s) of (a, w) \<Rightarrow> Q a (s\<lparr>world := w, trace := trace s @ [e a]\<rparr>))"
  by (simp add: wp_def call_def split: prod.splits)

lemma wp_act [wp_simps]: "wp (act f e) Q s = Q () (s\<lparr>world := f (world s), trace := trace s @ [e]\<rparr>)"
  by (simp add: act_def wp_call)

lemma wp_tell [wp_simps]: "wp (tell e) Q s = Q () (s\<lparr>trace := trace s @ [e]\<rparr>)"
  by (simp add: tell_def wp_act)

lemma wp_look [wp_simps]: "wp (look f) Q s = Q (f (world s)) s"
  by (simp add: look_def wp_def)

lemma wp_andThen [wp_simps]:
  "wp (andThen m k) Q s = wp m (\<lambda>r t. case r of None \<Rightarrow> Q None t | Some a \<Rightarrow> wp (k a) Q t) s"
  by (simp add: andThen_def wp_def split: prod.splits option.splits)

lemma run_call: "f (world s) = (a, w) \<Longrightarrow> run_state (call f e) s = (a, s\<lparr>world := w, trace := trace s @ [e a]\<rparr>)"
  by (simp add: call_def)

lemma run_tell: "run_state (tell e) s = ((), s\<lparr>trace := trace s @ [e]\<rparr>)"
  by (simp add: tell_def act_def call_def)

lemma run_andThen:
  "run_state (andThen m k) s = (case run_state m s of (None, t) \<Rightarrow> (None, t) | (Some a, t) \<Rightarrow> run_state (k a) t)"
  by (simp add: andThen_def split: prod.splits option.splits)

lemma rel_andThen [rel_intros]:
  "transp R \<Longrightarrow> reflp R \<Longrightarrow> state_io_rel R m \<Longrightarrow> (\<And>a. state_io_rel R (k a)) \<Longrightarrow> state_io_rel R (andThen m k)"
  unfolding andThen_def by (intro rel_intros) auto

section \<open>What happened\<close>

text \<open>
  \<open>did P s t\<close>: between \<open>s\<close> and \<open>t\<close> only events that satisfy \<open>P\<close> happened, after those before. It is
  reflexive and transitive and passes from the calls to the handlers.
\<close>

definition did :: "('e \<Rightarrow> bool) \<Rightarrow> ('w, 'e, 'x) io_scheme \<Rightarrow> ('w, 'e, 'x) io_scheme \<Rightarrow> bool" where
  "did P s t \<longleftrightarrow> (\<exists>es. trace t = trace s @ es \<and> list_all P es)"

lemma reflp_did [rel_intros]: "reflp (did P)"
  by (auto simp: did_def intro: reflpI)

lemma transp_did [rel_intros]: "transp (did P)"
  by (rule transpI) (fastforce simp: did_def)

lemma did_call: "(\<And>a. P (e a)) \<Longrightarrow> state_io_rel (did P) (call f e)"
  by (auto simp: state_io_rel_def did_def call_def split: prod.splits)

lemma did_act: "P e \<Longrightarrow> state_io_rel (did P) (act f e)"
  by (simp add: act_def did_call)

lemma did_tell: "P e \<Longrightarrow> state_io_rel (did P) (tell e)"
  by (simp add: tell_def did_act)

lemma did_look [rel_intros]: "state_io_rel (did P) (look f)"
  by (simp add: state_io_rel_def did_def look_def)

lemma did_update: "(\<And>s. trace (f s) = trace s) \<Longrightarrow> state_io_rel (did P) (State_Monad.update f)"
  by (rule rel_update) (simp add: did_def)

lemma relD: "state_io_rel R m \<Longrightarrow> run_state m s = (a, t) \<Longrightarrow> R s t"
  unfolding state_io_rel_def by (metis snd_conv)

lemma did_run:
  "state_io_rel (did P) m \<Longrightarrow> run_state m s = (a, t) \<Longrightarrow> \<exists>es. trace t = trace s @ es \<and> list_all P es"
  by (drule (1) relD) (simp add: did_def)

lemma did_refl: "did P s s"
  by (simp add: did_def)

lemma rel_did_mono:
  "state_io_rel (did P) m \<Longrightarrow> (\<And>e. P e \<Longrightarrow> Q e) \<Longrightarrow> state_io_rel (did Q) m"
  unfolding state_io_rel_def did_def by (blast intro: list.pred_mono_strong)

text \<open>After a call, only the answers that the callee can give matter.\<close>

lemma rel_bind_call:
  fixes f :: "'c \<Rightarrow> 'a \<times> 'c" and g :: "'a \<Rightarrow> (('c, 'e, 'x) io_scheme, 'b) state"
  assumes "\<And>a. P (e a)" "\<And>a w w'. f w = (a, w') \<Longrightarrow> state_io_rel (did P) (g a)"
  shows "state_io_rel (did P) (State_Monad.bind (call f e) g)"
  unfolding state_io_rel_def
proof
  fix s :: "('c, 'e, 'x) io_scheme"
  obtain a w' where 1: "f (world s) = (a, w')" by (cases "f (world s)")
  let ?t = "s\<lparr>world := w', trace := trace s @ [e a]\<rparr>"
  have "did P ?t (snd (run_state (g a) ?t))"
    using assms(2)[OF 1] by (simp add: state_io_rel_def)
  moreover have "did P s ?t" by (simp add: did_def assms(1))
  ultimately have "did P s (snd (run_state (g a) ?t))"
    by (rule transpD[OF transp_did, rotated])
  then show "did P s (snd (run_state (State_Monad.bind (call f e) g) s))"
    by (simp add: run_call[of f, OF 1])
qed

text \<open>Running through the stages of a handler with what has happened since \<open>s0\<close>.\<close>

lemma wp_did:
  assumes "state_io_rel (did P) m" "did P s0 s" "\<And>a t. did P s0 t \<Longrightarrow> Q a t"
  shows "wp m Q s"
  using assms transpD[OF transp_did assms(2)] by (metis relD wpI)

lemma wp_seq: "wp m (\<lambda>a t. wp (f a) Q t) s \<Longrightarrow> wp (State_Monad.bind m f) Q s"
  by (simp add: wp_bind)

lemma rel_case_nat [rel_intros]:
  "state_io_rel R m \<Longrightarrow> (\<And>k. state_io_rel R (f k)) \<Longrightarrow>
   state_io_rel R (case n of 0 \<Rightarrow> m | Suc k \<Rightarrow> f k)"
  by (simp split: nat.splits)

end
