(* ===== verification/SftpWorld.thy ===== *)
theory SftpWorld
  imports QtUrl Calls
begin

text \<open>
  The SFTP worker (sftp/kio_sftp.h, sftp/kio_sftp.cpp): its members, what it calls, and its small
  conversions. Everything outside the worker (libssh, the server, the local files, the application)
  is the parameter \<open>sftp\<close>, functions on one state \<open>'w\<close> that return an answer and the next state.
  Every call is recorded with its answer in \<open>trace\<close>, in order, together with the messages that the
  worker sends. Sessions are blocking, so that \<open>SSH_AGAIN\<close> is not an answer.
\<close>

section \<open>Conversions\<close>

subsection \<open>Numbers\<close>

text \<open>
  \<open>narrow\<close> between unsigned and signed 64-bit numbers, as the worker uses it: the value read at the
  other type, None when it aborts because the way back gives another value.
\<close>

definition narrow_signed :: "u64 \<Rightarrow> int option" where
  "narrow_signed i = (let o' = sint i in if i \<noteq> (word_of_int o' :: u64) then None else Some o')"

lemma narrow_signed_total: "narrow_signed i = Some (sint i)"
  by (simp add: narrow_signed_def)

definition narrow_unsigned :: "int \<Rightarrow> u64 option" where
  "narrow_unsigned i = (let o' = (word_of_int i :: u64) in if i \<noteq> sint o' then None else Some o')"

subsection \<open>Permissions\<close>

type_synonym perms = u32

definition perms_mask :: perms where "perms_mask = 0xFFF"
definition owner_write :: perms where "owner_write = 0x80"
definition owner_read :: perms where "owner_read = 0x100"
definition DEFAULT_FILE_PERMISSIONS :: perms where "DEFAULT_FILE_PERMISSIONS = 0x1B6"

definition modeToOptionalPerms :: "int \<Rightarrow> perms option" where
  "modeToOptionalPerms mode = (if mode < 0 then None else Some (word_of_int mode AND perms_mask))"

text \<open>The permissions of attributes are an unsigned number that is converted to \<open>int\<close>.\<close>

definition attr_perms :: "u32 \<Rightarrow> perms option" where
  "attr_perms p = modeToOptionalPerms (sint p)"

definition permsToQtPermissions :: "perms \<Rightarrow> u32" where
  "permsToQtPermissions mode =
     ((mode AND 0x7) OR push_bit 1 (mode AND 0x38)) OR push_bit 2 (mode AND 0x1C0)"

subsection \<open>Errors\<close>

datatype ssh_fx =
    SSH_FX_OK | SSH_FX_NO_SUCH_FILE | SSH_FX_NO_SUCH_PATH | SSH_FX_PERMISSION_DENIED
  | SSH_FX_FILE_ALREADY_EXISTS | SSH_FX_INVALID_HANDLE | SSH_FX_OP_UNSUPPORTED | SSH_FX_BAD_MESSAGE
  | SSH_FX_OTHER int

definition toKIOError :: "ssh_fx \<Rightarrow> kio_error" where
  "toKIOError err = (case err of
     SSH_FX_NO_SUCH_FILE \<Rightarrow> ERR_DOES_NOT_EXIST
   | SSH_FX_NO_SUCH_PATH \<Rightarrow> ERR_DOES_NOT_EXIST
   | SSH_FX_PERMISSION_DENIED \<Rightarrow> ERR_ACCESS_DENIED
   | SSH_FX_FILE_ALREADY_EXISTS \<Rightarrow> ERR_FILE_ALREADY_EXIST
   | SSH_FX_INVALID_HANDLE \<Rightarrow> ERR_MALFORMED_URL
   | SSH_FX_OP_UNSUPPORTED \<Rightarrow> ERR_UNSUPPORTED_ACTION
   | SSH_FX_BAD_MESSAGE \<Rightarrow> ERR_UNKNOWN
   | _ \<Rightarrow> ERR_INTERNAL)"

section \<open>Calls and messages\<close>

datatype file_type =
    TYPE_REGULAR | TYPE_DIRECTORY | TYPE_SYMLINK | TYPE_SPECIAL | TYPE_UNKNOWN | TYPE_OTHER

record attributes =
  a_name :: string
  a_type :: file_type
  a_size :: u64
  a_permissions :: u32
  a_uid :: u32
  a_gid :: u32
  a_owner :: "string option"
  a_group :: "string option"
  a_flags :: u32
  a_atime :: u32
  a_mtime :: u32
  a_mtime64 :: u64
  a_mtime_nseconds :: u32
  a_createtime :: u64

record file_info =
  fi_exists :: bool
  fi_isDir :: bool
  fi_size :: int

datatype written = Written nat | WriteError errno

datatype known_host = HOST_OTHER | HOST_CHANGED | HOST_NOT_FOUND | HOST_UNKNOWN | HOST_ERROR | HOST_OK

datatype auth_rc = AUTH_SUCCESS | AUTH_DENIED | AUTH_PARTIAL | AUTH_INFO | AUTH_ERROR

record auth_info =
  ai_url :: qurl
  ai_username :: string
  ai_password :: string
  ai_keepPassword :: bool

type_synonym open_flags = u32

definition O_RDONLY :: open_flags where "O_RDONLY = 0"
definition O_WRONLY :: open_flags where "O_WRONLY = 1"
definition O_RDWR :: open_flags where "O_RDWR = 2"
definition O_CREAT :: open_flags where "O_CREAT = 0x40"
definition O_TRUNC :: open_flags where "O_TRUNC = 0x200"
definition O_APPEND :: open_flags where "O_APPEND = 0x400"

text \<open>Files, directories and requests of libssh are numbers, None the null pointer.\<close>

text \<open>Events on files of the server, on the session, on local files, and towards the application.\<close>

datatype (plugins only: code) file_ev =
    Lstat string "attributes option" | Stat string "attributes option" | Fstat int "attributes option"
  | Open string open_flags perms "int option" | Close int bool
  | Read int nat "byte list option" | Seek int u64 bool | Rewind int | Tell int u64
  | Limits "(nat \<times> nat) option"
  | BeginRead int nat "int option" | WaitRead int "byte list option"
  | BeginWrite int "byte list" "int option" | WaitWrite int "nat option"

datatype (plugins only: code) name_ev =
    Unlink string bool | Rmdir string bool | Mkdir string int bool | Rename string string bool
  | Symlink string string bool | Chmod string perms bool | Chown string u32 u32 bool
  | Utimes string int int bool | Setstat string attributes bool | Readlink string "string option"
  | Opendir string "int option" | Readdir int "attributes option" | Closedir int
  | Canonicalize string "string option" | Statvfs string "(u64 \<times> u64 \<times> u64) option"

datatype (plugins only: code) ssh_ev =
    SshNew bool | SshOption string bool | SshParseConfig bool | SshConnect bool | SshDisconnect | SftpFree
  | ServerKey "(string \<times> string) + string" | IsKnown known_host | AskUser bool | UpdateKnownHosts bool
  | AuthNone auth_rc | AuthList u32 | AuthPublickey auth_rc | AuthGssapi auth_rc
  | AuthKbdint auth_rc | AuthPrompts nat | AuthPrompt nat string bool | AuthAnswer nat string bool
  | AuthPassword string string auth_rc | SftpNew bool | SftpInit bool | Poll bool int
  | CachedAuth auth_info | PasswordDialog auth_info "kio_error option \<times> auth_info"
  | CacheAuth auth_info

datatype (plugins only: code) local_ev =
    LInfo string file_info | LOpen string bool perms "int option" | LOpenRead string "int option"
  | LSeek int u64 u64 | LRead int "byte list option" | LWrite int "byte list" written | LClose int bool
  | LRemove string bool | LRename string string bool | LSetMTime string int bool
  | LSetPermissions string u32 bool

datatype (plugins only: code) app_ev =
    WasKilled bool | ReadData int "byte list" | CanResumeAt u64 bool
  | Data "byte list" | TotalSize u64 | ProcessedSize u64 | Position u64 | WrittenMsg nat | Truncated u64
  | MimeType string | CanResume | DataReq | Redirect qurl | StatEntry uds | ListEntry uds | Info string
  | Warning string | MetaData string u64 | SpecialTimeout

datatype (plugins only: code) ev =
    EFile file_ev | EName name_ev | ESsh ssh_ev | ELocal local_ev | EApp app_ev

text \<open>
  \<open>t_\<close> are functions of Qt and translations on texts, \<open>c_\<close> settings. In \<open>l_open\<close> the flag is True for
  opening an existing part file, False for creating or truncating.
\<close>

record 'w sftp =
  s_lstat :: "string \<Rightarrow> 'w \<Rightarrow> attributes option \<times> 'w"
  s_stat :: "string \<Rightarrow> 'w \<Rightarrow> attributes option \<times> 'w"
  s_fstat :: "int \<Rightarrow> 'w \<Rightarrow> attributes option \<times> 'w"
  s_open :: "string \<Rightarrow> open_flags \<Rightarrow> perms \<Rightarrow> 'w \<Rightarrow> int option \<times> 'w"
  s_close :: "int \<Rightarrow> 'w \<Rightarrow> bool \<times> 'w"
  s_read :: "int \<Rightarrow> nat \<Rightarrow> 'w \<Rightarrow> byte list option \<times> 'w"
  s_seek :: "int \<Rightarrow> u64 \<Rightarrow> 'w \<Rightarrow> bool \<times> 'w"
  s_rewind :: "int \<Rightarrow> 'w \<Rightarrow> 'w"
  s_tell :: "int \<Rightarrow> 'w \<Rightarrow> u64 \<times> 'w"
  s_limits :: "'w \<Rightarrow> (nat \<times> nat) option \<times> 'w"
  s_begin_read :: "int \<Rightarrow> nat \<Rightarrow> 'w \<Rightarrow> int option \<times> 'w"
  s_wait_read :: "int \<Rightarrow> 'w \<Rightarrow> byte list option \<times> 'w"
  s_begin_write :: "int \<Rightarrow> byte list \<Rightarrow> 'w \<Rightarrow> int option \<times> 'w"
  s_wait_write :: "int \<Rightarrow> 'w \<Rightarrow> nat option \<times> 'w"
  s_unlink :: "string \<Rightarrow> 'w \<Rightarrow> bool \<times> 'w"
  s_rmdir :: "string \<Rightarrow> 'w \<Rightarrow> bool \<times> 'w"
  s_mkdir :: "string \<Rightarrow> int \<Rightarrow> 'w \<Rightarrow> bool \<times> 'w"
  s_rename :: "string \<Rightarrow> string \<Rightarrow> 'w \<Rightarrow> bool \<times> 'w"
  s_symlink :: "string \<Rightarrow> string \<Rightarrow> 'w \<Rightarrow> bool \<times> 'w"
  s_chmod :: "string \<Rightarrow> perms \<Rightarrow> 'w \<Rightarrow> bool \<times> 'w"
  s_chown :: "string \<Rightarrow> u32 \<Rightarrow> u32 \<Rightarrow> 'w \<Rightarrow> bool \<times> 'w"
  s_utimes :: "string \<Rightarrow> int \<Rightarrow> int \<Rightarrow> 'w \<Rightarrow> bool \<times> 'w"
  s_setstat :: "string \<Rightarrow> attributes \<Rightarrow> 'w \<Rightarrow> bool \<times> 'w"
  s_readlink :: "string \<Rightarrow> 'w \<Rightarrow> string option \<times> 'w"
  s_opendir :: "string \<Rightarrow> 'w \<Rightarrow> int option \<times> 'w"
  s_readdir :: "int \<Rightarrow> 'w \<Rightarrow> attributes option \<times> 'w"
  s_closedir :: "int \<Rightarrow> 'w \<Rightarrow> 'w"
  s_canonicalize :: "string \<Rightarrow> 'w \<Rightarrow> string option \<times> 'w"
  s_statvfs :: "string \<Rightarrow> 'w \<Rightarrow> (u64 \<times> u64 \<times> u64) option \<times> 'w"
  s_hasStatvfs :: bool
  s_error :: "'w \<Rightarrow> ssh_fx"
  s_fatal :: "'w \<Rightarrow> bool"
  s_errorText :: "'w \<Rightarrow> string"
  s_new :: "'w \<Rightarrow> bool \<times> 'w"
  s_option :: "string \<Rightarrow> 'w \<Rightarrow> bool \<times> 'w"
  s_parseConfig :: "'w \<Rightarrow> bool \<times> 'w"
  s_connect :: "'w \<Rightarrow> bool \<times> 'w"
  s_disconnect :: "'w \<Rightarrow> 'w"
  s_free :: "'w \<Rightarrow> 'w"
  s_serverKey :: "'w \<Rightarrow> ((string \<times> string) + string) \<times> 'w"
  s_isKnown :: "'w \<Rightarrow> known_host \<times> 'w"
  s_updateKnown :: "'w \<Rightarrow> bool \<times> 'w"
  s_authNone :: "'w \<Rightarrow> auth_rc \<times> 'w"
  s_authList :: "'w \<Rightarrow> u32 \<times> 'w"
  s_authPublickey :: "'w \<Rightarrow> auth_rc \<times> 'w"
  s_pubkeyAsked :: "'w \<Rightarrow> bool"
  s_authGssapi :: "'w \<Rightarrow> auth_rc \<times> 'w"
  s_authKbdint :: "'w \<Rightarrow> auth_rc \<times> 'w"
  s_prompts :: "'w \<Rightarrow> nat \<times> 'w"
  s_prompt :: "nat \<Rightarrow> 'w \<Rightarrow> (string \<times> bool) \<times> 'w"
  s_answer :: "nat \<Rightarrow> string \<Rightarrow> 'w \<Rightarrow> bool \<times> 'w"
  s_authPassword :: "string \<Rightarrow> string \<Rightarrow> 'w \<Rightarrow> auth_rc \<times> 'w"
  s_sftpNew :: "'w \<Rightarrow> bool \<times> 'w"
  s_sftpInit :: "'w \<Rightarrow> bool \<times> 'w"
  s_poll :: "bool \<Rightarrow> 'w \<Rightarrow> int \<times> 'w"
  w_askUser :: "string \<Rightarrow> 'w \<Rightarrow> bool \<times> 'w"
  w_cachedAuth :: "auth_info \<Rightarrow> 'w \<Rightarrow> auth_info \<times> 'w"
  w_passwordDialog :: "auth_info \<Rightarrow> 'w \<Rightarrow> (kio_error option \<times> auth_info) \<times> 'w"
  w_wasKilled :: "'w \<Rightarrow> bool \<times> 'w"
  w_readData :: "'w \<Rightarrow> (int \<times> byte list) \<times> 'w"
  w_canResume :: "u64 \<Rightarrow> 'w \<Rightarrow> bool \<times> 'w"
  l_info :: "string \<Rightarrow> 'w \<Rightarrow> file_info \<times> 'w"
  l_open :: "string \<Rightarrow> bool \<Rightarrow> perms \<Rightarrow> 'w \<Rightarrow> int option \<times> 'w"
  l_openRead :: "string \<Rightarrow> 'w \<Rightarrow> int option \<times> 'w"
  l_openErrno :: "'w \<Rightarrow> errno"
  l_seek :: "int \<Rightarrow> u64 \<Rightarrow> 'w \<Rightarrow> u64 \<times> 'w"
  l_read :: "int \<Rightarrow> 'w \<Rightarrow> byte list option \<times> 'w"
  l_write :: "int \<Rightarrow> byte list \<Rightarrow> 'w \<Rightarrow> written \<times> 'w"
  l_close :: "int \<Rightarrow> 'w \<Rightarrow> bool \<times> 'w"
  l_remove :: "string \<Rightarrow> 'w \<Rightarrow> bool \<times> 'w"
  l_rename :: "string \<Rightarrow> string \<Rightarrow> 'w \<Rightarrow> bool \<times> 'w"
  l_setMTime :: "string \<Rightarrow> int \<Rightarrow> 'w \<Rightarrow> bool \<times> 'w"
  l_setPermissions :: "string \<Rightarrow> u32 \<Rightarrow> 'w \<Rightarrow> bool \<times> 'w"
  t_text :: "qurl \<Rightarrow> string"
  t_display :: "qurl \<Rightarrow> string"
  t_number :: "int \<Rightarrow> string"
  t_mime :: "string \<Rightarrow> byte list \<Rightarrow> string option"
  t_mimeUrl :: "qurl \<Rightarrow> string"
  c_markPartial :: bool
  c_resume :: "int option"
  c_modified :: "int option"
  c_details :: int
  c_overwriteDir :: bool
  c_loginName :: string

section \<open>The members\<close>

text \<open>\<open>mSession\<close> and \<open>mSftp\<close> are whether there is a session of either kind.\<close>

record 'w sw = "('w, ev) io" +
  mConnected :: bool
  mCanSetPermissions :: bool
  mHost :: string
  mPort :: int
  mSession :: bool
  mSftp :: bool
  mUsername :: string
  mPassword :: string
  mOpenFile :: "int option"
  mOpenUrl :: qurl

definition DEFAULT_SFTP_PORT :: int where "DEFAULT_SFTP_PORT = 22"
definition MAX_XFER_BUF_SIZE :: nat where "MAX_XFER_BUF_SIZE = 60 * 1024"
definition MAX_PENDING_REQUESTS :: nat where "MAX_PENDING_REQUESTS = 128"
definition DEFAULT_MINIMUM_KEEP_SIZE :: u64 where "DEFAULT_MINIMUM_KEEP_SIZE = 5000"

section \<open>The handlers' common parts\<close>

definition KSFTP_ISDIR :: "attributes \<Rightarrow> bool" where
  "KSFTP_ISDIR sb \<longleftrightarrow> a_type sb = TYPE_DIRECTORY"

definition closeConnection :: "'w sftp \<Rightarrow> ('w sw, unit) state" where
  "closeConnection F = do {
     s \<leftarrow> State_Monad.get;
     (if mSftp s then act (s_free F) (ESsh SftpFree) else ret ());
     (if mSession s then act (s_disconnect F) (ESsh SshDisconnect) else ret ());
     State_Monad.update (\<lambda>s. s\<lparr>mSftp := False, mSession := False, mConnected := False\<rparr>)
   }"

definition reportError :: "'w sftp \<Rightarrow> qurl \<Rightarrow> ssh_fx \<Rightarrow> ('w sw, worker_result) state" where
  "reportError F url err = do {
     fatal \<leftarrow> look (s_fatal F);
     (if fatal then closeConnection F else ret ());
     ret (Fail (toKIOError err) (t_display F url))
   }"

definition reportLast :: "'w sftp \<Rightarrow> qurl \<Rightarrow> ('w sw, worker_result) state" where
  "reportLast F url = do { e \<leftarrow> look (s_error F); reportError F url e }"

text \<open>\<open>writeToFile\<close> writes until everything is written; interrupted calls are repeated.\<close>

fun writeToFile :: "'w sftp \<Rightarrow> nat \<Rightarrow> int \<Rightarrow> byte list \<Rightarrow> ('w sw, kio_error option option) state" where
  "writeToFile F n fd [] = ret (Some None)"
| "writeToFile F 0 fd (b # bs) = ret None"
| "writeToFile F (Suc n) fd (b # bs) = do {
     r \<leftarrow> call (l_write F fd (b # bs)) (\<lambda>a. ELocal (LWrite fd (b # bs) a));
     case r of
       Written k \<Rightarrow> writeToFile F n fd (drop k (b # bs))
     | WriteError e \<Rightarrow>
         (if e = EINTR \<or> e = EAGAIN then writeToFile F n fd (b # bs)
          else if e = EPIPE then ret (Some (Some ERR_CONNECTION_BROKEN))
          else if e = ENOSPC then ret (Some (Some ERR_DISK_FULL))
          else ret (Some (Some ERR_CANNOT_WRITE)))
   }"

end
