(* ===== verification/SftpAuth.thy ===== *)
theory SftpAuth
  imports SftpWorld
begin

text \<open>
  Connecting and logging in (sftp/kio_sftp.cpp): the session with its options, the check of the host
  key, the methods of authentication in their order, \<open>openConnection\<close>, \<open>sftpLogin\<close>. The passphrase
  dialog of a public key runs inside libssh, so it belongs to the parameter. Loops that the server or
  the user keep going have fuel; None is a loop that has not ended with it.
\<close>

section \<open>The session\<close>

definition sftp_url :: "string \<Rightarrow> int \<Rightarrow> string \<Rightarrow> qurl" where
  "sftp_url h p u = empty_qurl\<lparr>scheme := ''sftp'', host := h,
     port := (if p > 0 \<and> p \<noteq> DEFAULT_SFTP_PORT then p else -1), userName := u\<rparr>"

fun set_options :: "'w sftp \<Rightarrow> (string \<times> string) list \<Rightarrow> ('w sw, worker_result) state" where
  "set_options F [] = ret Pass"
| "set_options F ((opt, failure) # os) = do {
     rc \<leftarrow> call (s_option F opt) (\<lambda>a. ESsh (SshOption opt a));
     if rc then set_options F os else ret (Fail ERR_INTERNAL failure)
   }"

definition session_options :: "int \<Rightarrow> string \<Rightarrow> (string \<times> string) list" where
  "session_options p user =
     [(''timeout'', ''Could not set a timeout.''), (''timeout_usec'', ''Could not set a timeout.''),
      (''nodelay'', ''Could not disable Nagle's Algorithm.''),
      (''compression_c_s'', ''Could not set compression.''), (''compression_s_c'', ''Could not set compression.''),
      (''host'', ''Could not set host.'')]
     @ (if p > 0 then [(''port'', ''Could not set port.'')] else [])
     @ (if user \<noteq> [] then [(''user'', ''Could not set username.'')] else [])"

definition sftpOpenConnection :: "'w sftp \<Rightarrow> auth_info \<Rightarrow> ('w sw, worker_result) state" where
  "sftpOpenConnection F info = do {
     closeConnection F;
     new \<leftarrow> call (s_new F) (\<lambda>a. ESsh (SshNew a));
     if \<not> new then ret (Fail ERR_OUT_OF_MEMORY ''Could not create a new SSH session.'')
     else do {
       State_Monad.update (\<lambda>s. s\<lparr>mSession := True\<rparr>);
       s \<leftarrow> State_Monad.get;
       opts \<leftarrow> set_options F (session_options (mPort s) (ai_username info));
       if \<not> success opts then ret opts
       else do {
         parsed \<leftarrow> call (s_parseConfig F) (\<lambda>a. ESsh (SshParseConfig a));
         if \<not> parsed then ret (Fail ERR_INTERNAL ''Could not parse the config file.'')
         else do {
           tell (EApp (Info ''Opening SFTP connection''));
           rc \<leftarrow> call (s_connect F) (\<lambda>a. ESsh (SshConnect a));
           if rc then ret Pass
           else do {
             errorString \<leftarrow> look (s_errorText F);
             closeConnection F;
             ret (Fail ERR_WORKER_DEFINED errorString)
           }
         }
       }
     }
   }"

text \<open>The key of the server is its type and its fingerprint, or what went wrong with it.\<close>

definition host_check :: "'w sftp \<Rightarrow> ('w sw, worker_result) state" where
  "host_check F = do {
     inspection \<leftarrow> call (s_serverKey F) (\<lambda>a. ESsh (ServerKey a));
     case inspection of
       Inr failure \<Rightarrow> ret (Fail ERR_WORKER_DEFINED failure)
     | Inl (keyType, fingerprint) \<Rightarrow> do {
         st \<leftarrow> call (s_isKnown F) (\<lambda>a. ESsh (IsKnown a));
         text \<leftarrow> look (s_errorText F);
         (if st = HOST_OTHER then ret (Fail ERR_WORKER_DEFINED (keyType @ text))
          else if st = HOST_ERROR then ret (Fail ERR_WORKER_DEFINED text)
          else if st = HOST_OK then ret Pass
          else do {
            yes \<leftarrow> call (w_askUser F fingerprint) (\<lambda>a. ESsh (AskUser a));
            if \<not> yes then ret (Fail ERR_USER_CANCELED [])
            else do {
              rc \<leftarrow> call (s_updateKnown F) (\<lambda>a. ESsh (UpdateKnownHosts a));
              text \<leftarrow> look (s_errorText F);
              ret (if rc then Pass else Fail ERR_USER_CANCELED text)
            }
          })
       }
   }"

section \<open>Authentication\<close>

definition METHOD_PASSWORD :: u32 where "METHOD_PASSWORD = 2"
definition METHOD_PUBLICKEY :: u32 where "METHOD_PUBLICKEY = 4"
definition METHOD_INTERACTIVE :: u32 where "METHOD_INTERACTIVE = 16"
definition METHOD_GSSAPI_MIC :: u32 where "METHOD_GSSAPI_MIC = 32"

definition login_failed :: worker_result where
  "login_failed = Fail ERR_CANNOT_LOGIN ''Authentication failed.''"

definition wasUsernameChanged :: "'w sftp \<Rightarrow> string \<Rightarrow> auth_info \<Rightarrow> bool" where
  "wasUsernameChanged F username info
     \<longleftrightarrow> (if username = [] then c_loginName F else username) \<noteq> ai_username info"

text \<open>A stage gives the last result and the methods that the server allows, or fails.\<close>

type_synonym stage = "worker_result + auth_rc \<times> u32"

definition auth_none :: "'w sftp \<Rightarrow> ('w sw, stage) state" where
  "auth_none F = do {
     rc \<leftarrow> call (s_authNone F) (\<lambda>a. ESsh (AuthNone a));
     if rc = AUTH_ERROR then ret (Inl login_failed)
     else do {
       meth \<leftarrow> call (s_authList F) (\<lambda>a. ESsh (AuthList a));
       ret (if rc \<noteq> AUTH_SUCCESS \<and> meth = 0 then Inl (Fail ERR_CANNOT_LOGIN
                ''Authentication failed. The server didn't send any authentication methods'')
            else Inr (rc, meth))
     }
   }"

text \<open>\<open>s_pubkeyAsked\<close>: the user was asked for a passphrase and has entered one.\<close>

fun pubkey_loop :: "'w sftp \<Rightarrow> nat \<Rightarrow> u32 \<Rightarrow> ('w sw, stage option) state" where
  "pubkey_loop F 0 meth = ret None"
| "pubkey_loop F (Suc n) meth = do {
     rc \<leftarrow> call (s_authPublickey F) (\<lambda>a. ESsh (AuthPublickey a));
     asked \<leftarrow> look (s_pubkeyAsked F);
     if rc = AUTH_ERROR then ret (Some (Inl login_failed))
     else if rc = AUTH_PARTIAL then do {
       meth \<leftarrow> call (s_authList F) (\<lambda>a. ESsh (AuthList a));
       ret (Some (Inr (rc, meth)))
     }
     else if rc \<noteq> AUTH_DENIED \<or> \<not> asked then ret (Some (Inr (rc, meth)))
     else pubkey_loop F n meth
   }"

definition auth_gssapi :: "'w sftp \<Rightarrow> u32 \<Rightarrow> ('w sw, stage) state" where
  "auth_gssapi F meth = do {
     rc \<leftarrow> call (s_authGssapi F) (\<lambda>a. ESsh (AuthGssapi a));
     ret (if rc = AUTH_ERROR then Inl login_failed else Inr (rc, meth))
   }"

subsection \<open>Keyboard interactive\<close>

text \<open>The answers to the prompts \<open>i\<close> to \<open>n\<close> of a round; Some when the authentication is to stop.\<close>

fun kbdint_prompts ::
  "'w sftp \<Rightarrow> nat \<Rightarrow> nat \<Rightarrow> auth_info \<Rightarrow> ('w sw, (auth_rc \<times> kio_error option) option \<times> auth_info) state" where
  "kbdint_prompts F i 0 info = ret (None, info)"
| "kbdint_prompts F i (Suc n) info = do {
     (prompt, echo) \<leftarrow> call (s_prompt F i) (\<lambda>(p, e). ESsh (AuthPrompt i p e));
     s \<leftarrow> State_Monad.get;
     let asked = (if echo then \<lparr>ai_url = sftp_url (mHost s) (mPort s) [], ai_username = [],
                                ai_password = [], ai_keepPassword = False\<rparr> else info);
     (dialogError, filled) \<leftarrow> call (w_passwordDialog F asked) (\<lambda>a. ESsh (PasswordDialog asked a));
     let info = (if echo then info else filled);
     if dialogError \<noteq> None then ret (Some (AUTH_DENIED, dialogError), info)
     else do {
       let answer = (if echo then ai_username filled else ai_password filled);
       rc \<leftarrow> call (s_answer F i answer) (\<lambda>a. ESsh (AuthAnswer i answer a));
       if rc then kbdint_prompts F (i + 1) n info else ret (Some (AUTH_ERROR, None), info)
     }
   }"

fun kbdint_loop ::
  "'w sftp \<Rightarrow> nat \<Rightarrow> auth_rc \<Rightarrow> auth_info \<Rightarrow> ('w sw, ((auth_rc \<times> kio_error option) \<times> auth_info) option) state" where
  "kbdint_loop F n err info =
     (if err \<noteq> AUTH_INFO then ret (Some ((err, None), info))
      else (case n of
              0 \<Rightarrow> ret None
            | Suc m \<Rightarrow> do {
                k \<leftarrow> call (s_prompts F) (\<lambda>a. ESsh (AuthPrompts a));
                (stop, info) \<leftarrow> kbdint_prompts F 0 k info;
                case stop of
                  Some r \<Rightarrow> ret (Some (r, info))
                | None \<Rightarrow> do {
                    err \<leftarrow> call (s_authKbdint F) (\<lambda>a. ESsh (AuthKbdint a));
                    kbdint_loop F m err info
                  }
              }))"

definition authenticateKeyboardInteractive ::
  "'w sftp \<Rightarrow> nat \<Rightarrow> auth_info \<Rightarrow> ('w sw, ((auth_rc \<times> kio_error option) \<times> auth_info) option) state" where
  "authenticateKeyboardInteractive F n info = do {
     err \<leftarrow> call (s_authKbdint F) (\<lambda>a. ESsh (AuthKbdint a));
     kbdint_loop F n err info
   }"

subsection \<open>Password\<close>

definition ask_password ::
  "'w sftp \<Rightarrow> auth_info \<Rightarrow> ('w sw, worker_result \<times> auth_info) state" where
  "ask_password F info = do {
     let asked = info\<lparr>ai_keepPassword := True\<rparr>;
     (errCode, info) \<leftarrow> call (w_passwordDialog F asked) (\<lambda>a. ESsh (PasswordDialog asked a));
     case errCode of
       Some e \<Rightarrow> ret (Fail e [], info)
     | None \<Rightarrow>
         (if wasUsernameChanged F (ai_username asked) info then do {
            let info = (if userName (ai_url info) \<noteq> []
                        then info\<lparr>ai_url := (ai_url info)\<lparr>userName := ai_username info\<rparr>\<rparr> else info);
            r \<leftarrow> sftpOpenConnection F info;
            ret (r, info)
          } else ret (Pass, info))
   }"

fun password_loop ::
  "'w sftp \<Rightarrow> nat \<Rightarrow> bool \<Rightarrow> auth_info \<Rightarrow> ('w sw, (worker_result \<times> auth_info) option) state" where
  "password_loop F 0 isFirst info = ret None"
| "password_loop F (Suc n) isFirst info = do {
     (r, info) \<leftarrow> (if \<not> isFirst \<or> ai_password info = [] then ask_password F info else ret (Pass, info));
     if \<not> success r then ret (Some (r, info))
     else do {
       rc \<leftarrow> call (s_authPassword F (ai_username info) (ai_password info))
               (\<lambda>a. ESsh (AuthPassword (ai_username info) (ai_password info) a));
       if rc = AUTH_SUCCESS then ret (Some (Pass, info))
       else if rc = AUTH_ERROR then ret (Some (login_failed, info))
       else password_loop F n False (info\<lparr>ai_password := []\<rparr>)
     }
   }"

subsection \<open>The methods in their order\<close>

definition auth_interactive ::
  "'w sftp \<Rightarrow> nat \<Rightarrow> u32 \<Rightarrow> auth_info \<Rightarrow> ('w sw, (stage \<times> auth_info) option) state" where
  "auth_interactive F n meth info = do {
     r \<leftarrow> authenticateKeyboardInteractive F n info;
     ret (case r of
            None \<Rightarrow> None
          | Some ((rc, Some e), _) \<Rightarrow> Some (Inl (Fail e []), info)
          | Some ((rc, None), info2) \<Rightarrow>
              Some (if rc = AUTH_ERROR then Inl login_failed else Inr (rc, meth),
                    if rc = AUTH_SUCCESS then info2 else info))
   }"

definition public_stage :: "'w sftp \<Rightarrow> nat \<Rightarrow> ('w sw, stage option) state" where
  "public_stage F n = do {
     r \<leftarrow> auth_none F;
     case r of
       Inl e \<Rightarrow> ret (Some (Inl e))
     | Inr (rc, meth) \<Rightarrow> do {
         r \<leftarrow> (if rc \<noteq> AUTH_SUCCESS \<and> meth AND METHOD_PUBLICKEY \<noteq> 0 then pubkey_loop F n meth
               else ret (Some (Inr (rc, meth))));
         case r of
           Some (Inr (rc, meth)) \<Rightarrow>
             (if rc \<noteq> AUTH_SUCCESS \<and> meth AND METHOD_GSSAPI_MIC \<noteq> 0
              then do { r \<leftarrow> auth_gssapi F meth; ret (Some r) } else ret (Some (Inr (rc, meth))))
         | _ \<Rightarrow> ret r
       }
   }"

definition authenticate ::
  "'w sftp \<Rightarrow> nat \<Rightarrow> auth_info \<Rightarrow> ('w sw, (worker_result \<times> auth_info) option) state" where
  "authenticate F n info = do {
     r \<leftarrow> public_stage F n;
     case r of
       None \<Rightarrow> ret None
     | Some (Inl e) \<Rightarrow> ret (Some (e, info))
     | Some (Inr (rc, meth)) \<Rightarrow> do {
         r \<leftarrow> (if rc \<noteq> AUTH_SUCCESS \<and> meth AND METHOD_INTERACTIVE \<noteq> 0 then auth_interactive F n meth info
               else ret (Some (Inr (rc, meth), info)));
         case r of
           None \<Rightarrow> ret None
         | Some (Inl e, info) \<Rightarrow> ret (Some (e, info))
         | Some (Inr (rc, meth), info) \<Rightarrow>
             (if rc = AUTH_SUCCESS then ret (Some (Pass, info))
              else if meth AND METHOD_PASSWORD \<noteq> 0 then password_loop F n True info
              else ret (Some (login_failed, info)))
       }
   }"

section \<open>openConnection\<close>

definition start_sftp :: "'w sftp \<Rightarrow> auth_info \<Rightarrow> ('w sw, worker_result) state" where
  "start_sftp F info = do {
     new \<leftarrow> call (s_sftpNew F) (\<lambda>a. ESsh (SftpNew a));
     if \<not> new then ret (Fail ERR_CANNOT_LOGIN
       ''Unable to request the SFTP subsystem. Make sure SFTP is enabled on the server.'')
     else do {
       State_Monad.update (\<lambda>s. s\<lparr>mSftp := True\<rparr>);
       ok \<leftarrow> call (s_sftpInit F) (\<lambda>a. ESsh (SftpInit a));
       if \<not> ok then ret (Fail ERR_CANNOT_LOGIN ''Could not initialize the SFTP session.'')
       else do {
         tell (EApp (Info ''Successfully connected''));
         (if ai_keepPassword info then tell (ESsh (CacheAuth info)) else ret ());
         State_Monad.update (\<lambda>s. if mUsername s \<noteq> [] then s\<lparr>mUsername := ai_username info\<rparr> else s);
         tell (EApp SpecialTimeout);
         State_Monad.update (\<lambda>s. s\<lparr>mConnected := True\<rparr>);
         ret Pass
       }
     }
   }"

definition openConnectionWithoutCloseOnError ::
  "'w sftp \<Rightarrow> nat \<Rightarrow> ('w sw, worker_result option) state" where
  "openConnectionWithoutCloseOnError F n = do {
     s \<leftarrow> State_Monad.get;
     if mConnected s then ret (Some Pass)
     else if mHost s = [] then ret (Some (Fail ERR_UNKNOWN_HOST []))
     else do {
       let info = \<lparr>ai_url = sftp_url (mHost s) (mPort s) (mUsername s), ai_username = mUsername s,
                   ai_password = [], ai_keepPassword = False\<rparr>;
       info \<leftarrow> (if mPassword s = [] then call (w_cachedAuth F info) (\<lambda>a. ESsh (CachedAuth a))
                else ret (info\<lparr>ai_password := mPassword s\<rparr>));
       r \<leftarrow> sftpOpenConnection F info;
       if \<not> success r then ret (Some r)
       else do {
         r \<leftarrow> host_check F;
         if \<not> success r then ret (Some r)
         else do {
           r \<leftarrow> authenticate F n info;
           case r of
             None \<Rightarrow> ret None
           | Some (r, info) \<Rightarrow>
               (if \<not> success r then ret (Some r) else do { r \<leftarrow> start_sftp F info; ret (Some r) })
         }
       }
     }
   }"

definition openConnection :: "'w sftp \<Rightarrow> nat \<Rightarrow> ('w sw, worker_result option) state" where
  "openConnection F n = do {
     State_Monad.update (\<lambda>s. s\<lparr>mCanSetPermissions := True\<rparr>);
     r \<leftarrow> openConnectionWithoutCloseOnError F n;
     case r of
       None \<Rightarrow> ret None
     | Some res \<Rightarrow> (if success res then ret r else do { closeConnection F; ret r })
   }"

definition setHost :: "'w sftp \<Rightarrow> string \<Rightarrow> int \<Rightarrow> string \<Rightarrow> string \<Rightarrow> ('w sw, unit) state" where
  "setHost F h p user pass = do {
     s \<leftarrow> State_Monad.get;
     (if h \<noteq> mHost s \<or> p \<noteq> mPort s \<or> user \<noteq> mUsername s \<or> pass \<noteq> mPassword s
      then closeConnection F else ret ());
     State_Monad.update (\<lambda>s. s\<lparr>mHost := h, mPort := p, mUsername := user, mPassword := pass\<rparr>)
   }"

definition requiresUserNameRedirection :: "'w sw \<Rightarrow> qurl" where
  "requiresUserNameRedirection s = (sftp_url (mHost s) (mPort s) (mUsername s))\<lparr>password := mPassword s\<rparr>"

definition sftpLogin :: "'w sftp \<Rightarrow> nat \<Rightarrow> ('w sw, worker_result option) state" where
  "sftpLogin F n = do {
     s \<leftarrow> State_Monad.get;
     let origUsername = mUsername s;
     r \<leftarrow> openConnection F n;
     case r of
       None \<Rightarrow> ret None
     | Some res \<Rightarrow>
         (if \<not> success res then ret r
          else do {
            s \<leftarrow> State_Monad.get;
            if origUsername \<noteq> [] \<and> origUsername \<noteq> mUsername s then do {
              tell (EApp (Redirect (requiresUserNameRedirection s)));
              ret (Some (Fail ERR_UNKNOWN []))
            }
            else ret (Some (if mConnected s then Pass else Fail ERR_UNKNOWN []))
          })
   }"

definition special :: "'w sftp \<Rightarrow> ('w sw, worker_result) state" where
  "special F = do {
     s \<leftarrow> State_Monad.get;
     if \<not> mSftp s then ret (Fail ERR_INTERNAL ''Invalid sftp context'')
     else do {
       rc \<leftarrow> call (s_poll F False) (\<lambda>a. ESsh (Poll False a));
       (if rc > 0 then do { _ \<leftarrow> call (s_poll F True) (\<lambda>a. ESsh (Poll True a)); ret () } else ret ());
       tell (EApp SpecialTimeout);
       ret Pass
     }
   }"

end
