(* ===== verification/SftpRead.thy ===== *)
theory SftpRead
  imports SftpAuth
begin

text \<open>
  Reading files of the server (sftp/kio_sftp.cpp): the generator \<open>asyncRead\<close> with its queue of
  requests (the variant for HAVE_SFTP_AIO), \<open>get\<close>, and \<open>copy\<close> from the server to a local file. A
  generator is its local variables and the function that runs it to its next \<open>co_yield\<close>. The limits
  of a server are below 2^63.
\<close>

definition logged_in ::
  "'w sftp \<Rightarrow> nat \<Rightarrow> ('w sw, worker_result option) state \<Rightarrow> ('w sw, worker_result option) state" where
  "logged_in F n k = do {
     r \<leftarrow> sftpLogin F n;
     case r of
       None \<Rightarrow> ret None
     | Some res \<Rightarrow> (if success res then k else ret (Some res))
   }"

section \<open>asyncRead\<close>

datatype read_step = ReadEnd | ReadError kio_error | ReadBytes "byte list"

record rgen =
  g_file :: int
  g_size :: nat
  g_chunk :: nat
  g_queued :: nat
  g_received :: nat
  g_pending :: "int list"

definition ended_rgen :: "int \<Rightarrow> nat \<Rightarrow> rgen" where
  "ended_rgen f sz = \<lparr>g_file = f, g_size = sz, g_chunk = 0, g_queued = 0, g_received = 0, g_pending = []\<rparr>"

text \<open>\<open>queueChunkMaybe\<close>: None when the request cannot be sent.\<close>

definition queue_read :: "'w sftp \<Rightarrow> rgen \<Rightarrow> ('w sw, rgen option) state" where
  "queue_read F g =
     (if g_queued g \<ge> g_size g then ret (Some g)
      else do {
        let len = min (g_chunk g) (g_size g - g_queued g);
        a \<leftarrow> call (s_begin_read F (g_file g) len) (\<lambda>a. EFile (BeginRead (g_file g) len a));
        ret (case a of
               None \<Rightarrow> None
             | Some aio \<Rightarrow> Some (g\<lparr>g_pending := g_pending g @ [aio], g_queued := g_queued g + len\<rparr>))
      })"

text \<open>The first requests: every round adds one, so the bound is the number of rounds.\<close>

fun fill_reads :: "'w sftp \<Rightarrow> nat \<Rightarrow> rgen \<Rightarrow> ('w sw, rgen option) state" where
  "fill_reads F 0 g = ret (Some g)"
| "fill_reads F (Suc n) g =
     (if length (g_pending g) < MAX_PENDING_REQUESTS \<and> g_queued g < g_size g then do {
        r \<leftarrow> queue_read F g;
        case r of None \<Rightarrow> ret None | Some g' \<Rightarrow> fill_reads F n g'
      } else ret (Some g))"

definition read_next :: "'w sftp \<Rightarrow> rgen \<Rightarrow> ('w sw, read_step \<times> rgen) state" where
  "read_next F g =
     (case g_pending g of
        [] \<Rightarrow> ret (ReadEnd, g)
      | aio # aios \<Rightarrow> do {
          r \<leftarrow> queue_read F (g\<lparr>g_pending := aios\<rparr>);
          case r of
            None \<Rightarrow> ret (ReadError ERR_CANNOT_READ, g\<lparr>g_pending := []\<rparr>)
          | Some g' \<Rightarrow> do {
              a \<leftarrow> call (s_wait_read F aio) (\<lambda>a. EFile (WaitRead aio a));
              case a of
                None \<Rightarrow> ret (ReadError ERR_CANNOT_READ, g'\<lparr>g_pending := []\<rparr>)
              | Some d \<Rightarrow> do {
                  let received = g_received g' + length d;
                  ret (if length d \<noteq> g_chunk g' \<and> received \<noteq> g_size g'
                       then (ReadError ERR_CANNOT_READ, g'\<lparr>g_pending := []\<rparr>)
                       else (ReadBytes d, g'\<lparr>g_received := received\<rparr>))
                }
            }
        })"

definition asyncRead :: "'w sftp \<Rightarrow> int \<Rightarrow> nat \<Rightarrow> ('w sw, read_step \<times> rgen) state" where
  "asyncRead F f sz = do {
     lim \<leftarrow> call (s_limits F) (\<lambda>a. EFile (Limits a));
     case lim of
       None \<Rightarrow> ret (ReadError ERR_CANNOT_READ, ended_rgen f sz)
     | Some (max_read, max_write) \<Rightarrow> do {
         r \<leftarrow> fill_reads F MAX_PENDING_REQUESTS
               ((ended_rgen f sz)\<lparr>g_chunk := min max_read MAX_XFER_BUF_SIZE\<rparr>);
         case r of
           None \<Rightarrow> ret (ReadError ERR_CANNOT_READ, ended_rgen f sz)
         | Some g \<Rightarrow> read_next F g
       }
   }"

section \<open>get\<close>

definition sftpSendMimetype :: "'w sftp \<Rightarrow> int \<Rightarrow> qurl \<Rightarrow> ('w sw, worker_result) state" where
  "sftpSendMimetype F file url = do {
     r \<leftarrow> call (s_read F file 1024) (\<lambda>a. EFile (Read file 1024 a));
     case r of
       None \<Rightarrow> ret (Fail ERR_CANNOT_READ (t_text F url))
     | Some d \<Rightarrow> do {
         tell (EApp (MimeType (case t_mime F (fileName url) d of Some m \<Rightarrow> m | None \<Rightarrow> t_mimeUrl F url)));
         act (s_rewind F file) (EFile (Rewind file));
         ret Pass
       }
   }"

text \<open>Where the data goes: messages to the application when \<open>fd\<close> is -1, else a local file.\<close>

definition deliver :: "'w sftp \<Rightarrow> nat \<Rightarrow> int \<Rightarrow> byte list \<Rightarrow> ('w sw, kio_error option option) state" where
  "deliver F n fd d =
     (if fd = -1 then do { tell (EApp (Data d)); ret (Some None) } else writeToFile F n fd d)"

datatype get_end = GetEnded | GetKilled | GetFailed kio_error

fun get_loop ::
  "'w sftp \<Rightarrow> nat \<Rightarrow> int \<Rightarrow> u64 \<Rightarrow> read_step \<times> rgen \<Rightarrow> ('w sw, get_end option) state" where
  "get_loop F n fd tot (ReadEnd, g) = ret (Some GetEnded)"
| "get_loop F 0 fd tot (_, g) = ret None"
| "get_loop F (Suc n) fd tot (step, g) = do {
     killed \<leftarrow> call (w_wasKilled F) (\<lambda>a. EApp (WasKilled a));
     if killed then ret (Some GetKilled)
     else case step of
       ReadError e \<Rightarrow> ret (Some (GetFailed e))
     | ReadBytes d \<Rightarrow> do {
         w \<leftarrow> deliver F n fd d;
         case w of
           None \<Rightarrow> ret None
         | Some (Some e) \<Rightarrow> ret (Some (GetFailed e))
         | Some None \<Rightarrow> do {
             let tot = tot + word_of_nat (length d);
             tell (EApp (ProcessedSize tot));
             nxt \<leftarrow> read_next F g;
             get_loop F n fd tot nxt
           }
       }
     | ReadEnd \<Rightarrow> ret (Some GetEnded)
   }"

definition get_offset :: "'w sftp \<Rightarrow> int \<Rightarrow> int" where
  "get_offset F offset = (if offset < 0 then (case c_resume F of Some r \<Rightarrow> r | None \<Rightarrow> offset) else offset)"

text \<open>The start of the transfer: how much counts as read already, and how much is to be read.\<close>

definition get_start :: "'w sftp \<Rightarrow> int \<Rightarrow> u64 \<Rightarrow> int \<Rightarrow> ('w sw, u64 \<times> u64) state" where
  "get_start F file sz offset =
     (if offset > 0 \<and> word_of_int offset < sz then do {
        sought \<leftarrow> call (s_seek F file (word_of_int offset)) (\<lambda>a. EFile (Seek file (word_of_int offset) a));
        if sought then do {
          tell (EApp CanResume);
          ret (word_of_int offset, sz - word_of_int offset)
        } else ret (0, sz)
      } else ret (0, sz))"

definition get_transfer ::
  "'w sftp \<Rightarrow> nat \<Rightarrow> qurl \<Rightarrow> int \<Rightarrow> u64 \<Rightarrow> int \<Rightarrow> int \<Rightarrow> ('w sw, worker_result option) state" where
  "get_transfer F n url file sz offset fd = do {
     (tot, readSize) \<leftarrow> get_start F file sz (get_offset F offset);
     first \<leftarrow> asyncRead F file (unat readSize);
     e \<leftarrow> get_loop F n fd tot first;
     case e of
       None \<Rightarrow> ret None
     | Some GetKilled \<Rightarrow> ret (Some Pass)
     | Some (GetFailed err) \<Rightarrow> ret (Some (Fail err (t_text F url)))
     | Some GetEnded \<Rightarrow> do {
         (if fd = -1 then tell (EApp (Data [])) else ret ());
         tell (EApp (ProcessedSize sz));
         ret (Some Pass)
       }
   }"

text \<open>The file is closed at the end of the scope, however it is left.\<close>

definition close_file :: "'w sftp \<Rightarrow> int \<Rightarrow> ('w sw, unit) state" where
  "close_file F file = do { _ \<leftarrow> call (s_close F file) (\<lambda>a. EFile (Close file a)); ret () }"

definition get_file ::
  "'w sftp \<Rightarrow> nat \<Rightarrow> qurl \<Rightarrow> int \<Rightarrow> u64 \<Rightarrow> int \<Rightarrow> int \<Rightarrow> ('w sw, worker_result option) state" where
  "get_file F n url file sz offset fd = do {
     m \<leftarrow> sftpSendMimetype F file url;
     r \<leftarrow> (if \<not> success m then ret (Some m)
          else do {
            tell (EApp (TotalSize sz));
            get_transfer F n url file sz offset fd
          });
     (if r = None then ret () else close_file F file);
     ret r
   }"

text \<open>The handler after the login.\<close>

definition get_opened :: "'w sftp \<Rightarrow> nat \<Rightarrow> qurl \<Rightarrow> int \<Rightarrow> int \<Rightarrow> ('w sw, worker_result option) state" where
  "get_opened F n url offset fd = do {
     sb \<leftarrow> call (s_stat F (path url)) (\<lambda>a. EFile (Stat (path url) a));
     case sb of
       None \<Rightarrow> do { e \<leftarrow> look (s_error F); ret (Some (Fail (toKIOError e) (t_text F url))) }
     | Some sb \<Rightarrow>
         (if a_type sb = TYPE_DIRECTORY then ret (Some (Fail ERR_IS_DIRECTORY (t_text F url)))
          else if a_type sb = TYPE_SPECIAL \<or> a_type sb = TYPE_UNKNOWN
          then ret (Some (Fail ERR_CANNOT_OPEN_FOR_READING (t_text F url)))
          else do {
            file \<leftarrow> call (s_open F (path url) O_RDONLY 0) (\<lambda>a. EFile (Open (path url) O_RDONLY 0 a));
            case file of
              None \<Rightarrow> ret (Some (Fail ERR_CANNOT_OPEN_FOR_READING (t_text F url)))
            | Some f \<Rightarrow> get_file F n url f (a_size sb) offset fd
          })
   }"

definition sftpGet :: "'w sftp \<Rightarrow> nat \<Rightarrow> qurl \<Rightarrow> int \<Rightarrow> int \<Rightarrow> ('w sw, worker_result option) state" where
  "sftpGet F n url offset fd = logged_in F n (get_opened F n url offset fd)"

definition get_job :: "'w sftp \<Rightarrow> nat \<Rightarrow> qurl \<Rightarrow> ('w sw, worker_result option) state" where
  "get_job F n url = do {
     r \<leftarrow> sftpGet F n url (-1) (-1);
     ret (case r of Some (Fail e _) \<Rightarrow> Some (Fail e (t_display F url)) | _ \<Rightarrow> r)
   }"

end
