(* ===== verification/SftpWrite.thy ===== *)
theory SftpWrite
  imports SftpRead
begin

text \<open>
  Writing files of the server (sftp/kio_sftp.cpp): the readers that supply data, the generator
  \<open>asyncWrite\<close> with its queue of requests (the variant for HAVE_SFTP_AIO), \<open>put\<close> in its steps (part
  file, opening, transfer, renaming and attributes), and the file job \<open>open\<close>, \<open>read\<close>, \<open>write\<close>,
  \<open>seek\<close>, \<open>truncate\<close>, \<open>close\<close>. The loops that the supplier of the data keeps going have fuel.
\<close>

section \<open>Readers\<close>

text \<open>
  The lambdas that yield the data: from the application, from a local file (blocks of at most
  \<open>MAX_XFER_BUF_SIZE\<close>), or one block; the flag is whether the loop goes on.
\<close>

datatype reader = AppReader bool | FdReader int bool | OneReader "byte list option"

definition reader_next :: "'w sftp \<Rightarrow> reader \<Rightarrow> ('w sw, read_step \<times> reader) state" where
  "reader_next F rd = (case rd of
     AppReader live \<Rightarrow>
       (if \<not> live then ret (ReadEnd, rd)
        else do {
          tell (EApp DataReq);
          (result, d) \<leftarrow> call (w_readData F) (\<lambda>(r, d). EApp (ReadData r d));
          ret (if result = 0 then (ReadEnd, AppReader False) else (ReadBytes d, AppReader (result > 0)))
        })
   | FdReader fd live \<Rightarrow>
       (if \<not> live then ret (ReadEnd, rd)
        else do {
          r \<leftarrow> call (l_read F fd) (\<lambda>a. ELocal (LRead fd a));
          ret (case r of
                 None \<Rightarrow> (ReadError ERR_CANNOT_READ, FdReader fd False)
               | Some d \<Rightarrow> (if d = [] then (ReadEnd, FdReader fd False) else (ReadBytes d, FdReader fd True)))
        })
   | OneReader d \<Rightarrow>
       ret (case d of None \<Rightarrow> (ReadEnd, rd) | Some d \<Rightarrow> (ReadBytes d, OneReader None)))"

section \<open>asyncWrite\<close>

datatype write_step = WriteEnd | WriteFailed kio_error | Wrote nat

record wgen =
  v_file :: int
  v_max :: nat
  v_pending :: "int list"
  v_cur :: read_step
  v_reader :: reader

text \<open>
  The requests for one block. A round takes at least a byte unless the limit is 0; then the loop
  does not end, and the rounds, as many as bytes, are used up: None.
\<close>

fun begin_writes ::
  "'w sftp \<Rightarrow> nat \<Rightarrow> int \<Rightarrow> nat \<Rightarrow> byte list \<Rightarrow> int list \<Rightarrow> ('w sw, (kio_error + int list) option) state" where
  "begin_writes F n f len [] pend = ret (Some (Inr pend))"
| "begin_writes F 0 f len (b # bs) pend = ret None"
| "begin_writes F (Suc n) f len (b # bs) pend = do {
     a \<leftarrow> call (s_begin_write F f (take len (b # bs))) (\<lambda>a. EFile (BeginWrite f (take len (b # bs)) a));
     case a of
       None \<Rightarrow> ret (Some (Inl ERR_CANNOT_READ))
     | Some aio \<Rightarrow> begin_writes F n f len (drop len (b # bs)) (pend @ [aio])
   }"

definition queue_write :: "'w sftp \<Rightarrow> wgen \<Rightarrow> ('w sw, (kio_error + wgen) option) state" where
  "queue_write F v = (case v_cur v of
     ReadEnd \<Rightarrow> ret (Some (Inr v))
   | ReadError e \<Rightarrow> ret (Some (Inl e))
   | ReadBytes d \<Rightarrow> do {
       r \<leftarrow> begin_writes F (length d) (v_file v) (min (v_max v) (length d)) d (v_pending v);
       case r of
         None \<Rightarrow> ret None
       | Some (Inl e) \<Rightarrow> ret (Some (Inl e))
       | Some (Inr pend) \<Rightarrow> do {
           (c, rd) \<leftarrow> reader_next F (v_reader v);
           ret (Some (Inr (v\<lparr>v_pending := pend, v_cur := c, v_reader := rd\<rparr>)))
         }
     })"

fun fill_writes :: "'w sftp \<Rightarrow> nat \<Rightarrow> wgen \<Rightarrow> ('w sw, (kio_error + wgen) option) state" where
  "fill_writes F n v =
     (if length (v_pending v) < MAX_PENDING_REQUESTS \<and> v_cur v \<noteq> ReadEnd then
        (case n of
           0 \<Rightarrow> ret None
         | Suc m \<Rightarrow> do {
             r \<leftarrow> queue_write F v;
             case r of Some (Inr v') \<Rightarrow> fill_writes F m v' | _ \<Rightarrow> ret r
           })
      else ret (Some (Inr v)))"

definition write_next :: "'w sftp \<Rightarrow> wgen \<Rightarrow> ('w sw, (write_step \<times> wgen) option) state" where
  "write_next F v = (case v_pending v of
     [] \<Rightarrow> ret (Some (WriteEnd, v))
   | aio # aios \<Rightarrow> do {
       r \<leftarrow> queue_write F (v\<lparr>v_pending := aios\<rparr>);
       case r of
         None \<Rightarrow> ret None
       | Some (Inl e) \<Rightarrow> ret (Some (WriteFailed e, v\<lparr>v_pending := []\<rparr>))
       | Some (Inr v') \<Rightarrow> do {
           a \<leftarrow> call (s_wait_write F aio) (\<lambda>a. EFile (WaitWrite aio a));
           ret (Some (case a of
                        None \<Rightarrow> (WriteFailed ERR_CANNOT_WRITE, v'\<lparr>v_pending := []\<rparr>)
                      | Some k \<Rightarrow> (Wrote k, v')))
         }
     })"

definition asyncWrite :: "'w sftp \<Rightarrow> nat \<Rightarrow> int \<Rightarrow> reader \<Rightarrow> ('w sw, (write_step \<times> wgen) option) state" where
  "asyncWrite F n f rd = do {
     lim \<leftarrow> call (s_limits F) (\<lambda>a. EFile (Limits a));
     case lim of
       None \<Rightarrow> ret (Some (WriteFailed ERR_CANNOT_READ,
                 \<lparr>v_file = f, v_max = 0, v_pending = [], v_cur = ReadEnd, v_reader = rd\<rparr>))
     | Some (max_read, max_write) \<Rightarrow> do {
         (c, rd) \<leftarrow> reader_next F rd;
         let v = \<lparr>v_file = f, v_max = max_write, v_pending = [], v_cur = c, v_reader = rd\<rparr>;
         r \<leftarrow> fill_writes F n v;
         case r of
           None \<Rightarrow> ret None
         | Some (Inl e) \<Rightarrow> ret (Some (WriteFailed e, v))
         | Some (Inr v') \<Rightarrow> write_next F v'
       }
   }"

section \<open>put\<close>

subsection \<open>The part file\<close>

definition part_path :: "qurl \<Rightarrow> string" where
  "part_path url = path url @ ''.part''"

text \<open>Whether there is a part file, and the flags with the decision to resume.\<close>

definition put_part ::
  "'w sftp \<Rightarrow> qurl \<Rightarrow> job_flags \<Rightarrow> int \<Rightarrow> ('w sw, worker_result + bool \<times> job_flags) state" where
  "put_part F url flags fd =
     (if \<not> c_markPartial F then ret (Inr (False, flags))
      else do {
        sb \<leftarrow> call (s_lstat F (part_path url)) (\<lambda>a. EFile (Lstat (part_path url) a));
        case sb of
          None \<Rightarrow> ret (Inr (False, flags))
        | Some p \<Rightarrow>
            (if \<not> fl_resume flags \<and> \<not> fl_overwrite flags \<and> a_size p > 0 \<and> a_type p = TYPE_REGULAR then
               (if fd = -1 then do {
                  yes \<leftarrow> call (w_canResume F (a_size p)) (\<lambda>a. EApp (CanResumeAt (a_size p) a));
                  ret (Inr (True, flags\<lparr>fl_resume := yes\<rparr>))
                } else do {
                  pos \<leftarrow> call (l_seek F fd (a_size p)) (\<lambda>a. ELocal (LSeek fd (a_size p) a));
                  ret (if pos \<noteq> a_size p then Inl (Fail ERR_CANNOT_SEEK (t_text F url))
                       else Inr (True, flags\<lparr>fl_resume := True\<rparr>))
                })
             else ret (Inr (True, flags)))
      })"

definition put_target ::
  "'w sftp \<Rightarrow> qurl \<Rightarrow> job_flags \<Rightarrow> bool \<Rightarrow> ('w sw, string) state" where
  "put_target F url flags part =
     (if c_markPartial F then do {
        (if part \<and> \<not> fl_resume flags
         then do { _ \<leftarrow> call (s_unlink F (part_path url)) (\<lambda>a. EName (Unlink (part_path url) a)); ret () }
         else ret ());
        ret (part_path url)
      } else ret (path url))"

subsection \<open>Opening\<close>

definition initial_mode :: "perms \<Rightarrow> perms option \<Rightarrow> perms" where
  "initial_mode extra p = (case p of None \<Rightarrow> DEFAULT_FILE_PERMISSIONS | Some m \<Rightarrow> m OR extra)"

definition create_flags :: open_flags where
  "create_flags = (O_CREAT OR O_TRUNC) OR O_WRONLY"

text \<open>The file and the number of bytes that it has already.\<close>

definition put_open ::
  "'w sftp \<Rightarrow> string \<Rightarrow> job_flags \<Rightarrow> perms option \<Rightarrow> ('w sw, int option \<times> u64) state" where
  "put_open F dest flags permissions =
     (if fl_resume flags then do {
        file \<leftarrow> call (s_open F dest O_RDWR 0) (\<lambda>a. EFile (Open dest O_RDWR 0 a));
        case file of
          None \<Rightarrow> ret (None, 0)
        | Some f \<Rightarrow> do {
            st \<leftarrow> call (s_fstat F f) (\<lambda>a. EFile (Fstat f a));
            case st of
              None \<Rightarrow> ret (Some f, 0)
            | Some a \<Rightarrow> do {
                _ \<leftarrow> call (s_seek F f (a_size a)) (\<lambda>r. EFile (Seek f (a_size a) r));
                ret (Some f, a_size a)
              }
          }
      } else do {
        let mode = initial_mode (owner_write OR owner_read) permissions;
        file \<leftarrow> call (s_open F dest create_flags mode) (\<lambda>a. EFile (Open dest create_flags mode a));
        ret (file, 0)
      })"

text \<open>\<open>closeOnError\<close>: a part file that is too small is not kept.\<close>

definition closeOnError ::
  "'w sftp \<Rightarrow> string \<Rightarrow> int option \<Rightarrow> ('w sw, unit) state" where
  "closeOnError F dest file = (case file of
     None \<Rightarrow> ret ()
   | Some f \<Rightarrow> do {
       close_file F f;
       attr \<leftarrow> call (s_stat F dest) (\<lambda>a. EFile (Stat dest a));
       case attr of
         None \<Rightarrow> ret ()
       | Some a \<Rightarrow>
           (if c_markPartial F \<and> a_size a < DEFAULT_MINIMUM_KEEP_SIZE
            then do { _ \<leftarrow> call (s_unlink F dest) (\<lambda>a. EName (Unlink dest a)); ret () } else ret ())
     })"

subsection \<open>The transfer\<close>

datatype put_end = PutEnded | PutKilled | PutFailed

fun put_loop ::
  "'w sftp \<Rightarrow> nat \<Rightarrow> u64 \<Rightarrow> write_step \<times> wgen \<Rightarrow> ('w sw, put_end option) state" where
  "put_loop F n tot (WriteEnd, v) = ret (Some PutEnded)"
| "put_loop F 0 tot (_, v) = ret None"
| "put_loop F (Suc n) tot (step, v) = do {
     killed \<leftarrow> call (w_wasKilled F) (\<lambda>a. EApp (WasKilled a));
     if killed then ret (Some PutKilled)
     else case step of
       Wrote k \<Rightarrow> do {
         let tot = tot + word_of_nat k;
         tell (EApp (ProcessedSize tot));
         nxt \<leftarrow> write_next F v;
         case nxt of None \<Rightarrow> ret None | Some nxt \<Rightarrow> put_loop F n tot nxt
       }
     | _ \<Rightarrow> ret (Some PutFailed)
   }"

subsection \<open>After the transfer\<close>

definition put_rename :: "'w sftp \<Rightarrow> qurl \<Rightarrow> job_flags \<Rightarrow> string \<Rightarrow> ('w sw, bool) state" where
  "put_rename F url flags dest =
     (if c_markPartial F then do {
        (if fl_overwrite flags
         then do { _ \<leftarrow> call (s_unlink F (path url)) (\<lambda>a. EName (Unlink (path url) a)); ret () } else ret ());
        call (s_rename F dest (path url)) (\<lambda>a. EName (Rename dest (path url) a))
      } else ret True)"

text \<open>False: the server has refused, and the handler ends there.\<close>

definition put_permissions ::
  "'w sftp \<Rightarrow> qurl \<Rightarrow> job_flags \<Rightarrow> perms option \<Rightarrow> ('w sw, bool) state" where
  "put_permissions F url flags permissions = do {
     s \<leftarrow> State_Monad.get;
     case permissions of
       None \<Rightarrow> ret True
     | Some p \<Rightarrow>
         (if fl_resume flags \<or> \<not> mCanSetPermissions s then ret True
          else do {
            rc \<leftarrow> call (s_chmod F (path url) p) (\<lambda>a. EName (Chmod (path url) p a));
            if rc then ret True
            else do {
              State_Monad.update (\<lambda>s. s\<lparr>mCanSetPermissions := False\<rparr>);
              tell (EApp (Warning (t_text F url)));
              ret False
            }
          })
   }"

definition put_owner :: "'w sftp \<Rightarrow> qurl \<Rightarrow> attributes option \<Rightarrow> ('w sw, unit) state" where
  "put_owner F url orig = (case orig of
     None \<Rightarrow> ret ()
   | Some a \<Rightarrow> do {
       _ \<leftarrow> call (s_chown F (path url) (a_uid a) (a_gid a))
             (\<lambda>r. EName (Chown (path url) (a_uid a) (a_gid a) r));
       ret ()
     })"

definition put_mtime :: "'w sftp \<Rightarrow> qurl \<Rightarrow> ('w sw, unit) state" where
  "put_mtime F url = (case c_modified F of
     None \<Rightarrow> ret ()
   | Some t \<Rightarrow> do {
       attr \<leftarrow> call (s_lstat F (path url)) (\<lambda>a. EFile (Lstat (path url) a));
       case attr of
         None \<Rightarrow> ret ()
       | Some a \<Rightarrow> do {
           _ \<leftarrow> call (s_utimes F (path url) (uint (a_atime a)) t)
                 (\<lambda>r. EName (Utimes (path url) (uint (a_atime a)) t r));
           ret ()
         }
     })"

definition put_finish ::
  "'w sftp \<Rightarrow> qurl \<Rightarrow> job_flags \<Rightarrow> perms option \<Rightarrow> attributes option \<Rightarrow> string \<Rightarrow> int
   \<Rightarrow> ('w sw, worker_result) state" where
  "put_finish F url flags permissions orig dest file = do {
     closed \<leftarrow> call (s_close F file) (\<lambda>a. EFile (Close file a));
     if \<not> closed then ret (Fail ERR_CANNOT_WRITE (t_text F url))
     else do {
       renamed \<leftarrow> put_rename F url flags dest;
       if \<not> renamed then ret (Fail ERR_CANNOT_RENAME_PARTIAL (t_text F url))
       else do {
         go \<leftarrow> put_permissions F url flags permissions;
         if \<not> go then ret Pass
         else do { put_owner F url orig; put_mtime F url; ret Pass }
       }
     }
   }"

subsection \<open>The handler\<close>

definition put_reader :: "int \<Rightarrow> reader" where
  "put_reader fd = (if fd = -1 then AppReader True else FdReader fd True)"

definition put_transfer ::
  "'w sftp \<Rightarrow> nat \<Rightarrow> qurl \<Rightarrow> job_flags \<Rightarrow> int \<Rightarrow> perms option \<Rightarrow> attributes option \<Rightarrow> string \<Rightarrow> int \<Rightarrow> u64
   \<Rightarrow> ('w sw, worker_result option) state" where
  "put_transfer F n url flags fd permissions orig dest f sent = do {
     first \<leftarrow> asyncWrite F n f (put_reader fd);
     case first of
       None \<Rightarrow> ret None
     | Some step \<Rightarrow> do {
         e \<leftarrow> put_loop F n sent step;
         case e of
           None \<Rightarrow> ret None
         | Some PutKilled \<Rightarrow> do { closeOnError F dest (Some f); ret (Some Pass) }
         | Some PutFailed \<Rightarrow> do {
             closeOnError F dest (Some f);
             ret (Some (Fail ERR_CANNOT_WRITE (t_text F url)))
           }
         | Some PutEnded \<Rightarrow> do { r \<leftarrow> put_finish F url flags permissions orig dest f; ret (Some r) }
       }
   }"

definition put_file ::
  "'w sftp \<Rightarrow> nat \<Rightarrow> qurl \<Rightarrow> job_flags \<Rightarrow> int \<Rightarrow> perms option \<Rightarrow> attributes option \<Rightarrow> bool
   \<Rightarrow> ('w sw, worker_result option) state" where
  "put_file F n url flags fd permissions orig part = do {
     dest \<leftarrow> put_target F url flags part;
     (file, sent) \<leftarrow> put_open F dest flags permissions;
     case file of
       None \<Rightarrow> do {
         e \<leftarrow> look (s_error F);
         closeOnError F dest None;
         ret (Some (Fail (if e = SSH_FX_PERMISSION_DENIED then ERR_WRITE_ACCESS_DENIED
                          else ERR_CANNOT_OPEN_FOR_WRITING) (t_text F url)))
       }
     | Some f \<Rightarrow> put_transfer F n url flags fd permissions orig dest f sent
   }"

text \<open>The handler after the login.\<close>

definition put_checked ::
  "'w sftp \<Rightarrow> nat \<Rightarrow> qurl \<Rightarrow> int \<Rightarrow> job_flags \<Rightarrow> int \<Rightarrow> ('w sw, worker_result option) state" where
  "put_checked F n url permissionsMode flags fd = do {
     orig \<leftarrow> call (s_lstat F (path url)) (\<lambda>a. EFile (Lstat (path url) a));
     let permissions = (case orig of
       Some a \<Rightarrow> attr_perms (a_permissions a) | None \<Rightarrow> modeToOptionalPerms permissionsMode);
     r \<leftarrow> put_part F url flags fd;
     case r of
       Inl e \<Rightarrow> ret (Some e)
     | Inr (part, flags) \<Rightarrow>
         (case orig of
            Some a \<Rightarrow>
              (if \<not> fl_overwrite flags \<and> \<not> fl_resume flags
               then ret (Some (Fail (if KSFTP_ISDIR a then ERR_DIR_ALREADY_EXIST else ERR_FILE_ALREADY_EXIST)
                          (t_text F url)))
               else put_file F n url flags fd permissions orig part)
          | None \<Rightarrow> put_file F n url flags fd permissions orig part)
   }"

definition sftpPut ::
  "'w sftp \<Rightarrow> nat \<Rightarrow> qurl \<Rightarrow> int \<Rightarrow> job_flags \<Rightarrow> int \<Rightarrow> ('w sw, worker_result option) state" where
  "sftpPut F n url permissionsMode flags fd = logged_in F n (put_checked F n url permissionsMode flags fd)"

definition put_job ::
  "'w sftp \<Rightarrow> nat \<Rightarrow> qurl \<Rightarrow> int \<Rightarrow> job_flags \<Rightarrow> ('w sw, worker_result option) state" where
  "put_job F n url permissions flags = sftpPut F n url permissions flags (-1)"

end
