(* ===== verification/SftpJob.thy ===== *)
theory SftpJob
  imports SftpWrite
begin

text \<open>
  Copies between the server and local files, and the file job (sftp/kio_sftp.cpp): \<open>copy\<close> in both
  directions, \<open>open\<close>, \<open>read\<close>, \<open>write\<close>, \<open>seek\<close>, \<open>truncate\<close>, \<open>close\<close>.
\<close>

section \<open>Copying\<close>

definition discard :: "('s, 'a) state \<Rightarrow> ('s, unit) state" where
  "discard m = do { _ \<leftarrow> m; ret () }"

definition local_close :: "'w sftp \<Rightarrow> int \<Rightarrow> ('w sw, bool) state" where
  "local_close F fd = call (l_close F fd) (\<lambda>a. ELocal (LClose fd a))"

definition local_remove :: "'w sftp \<Rightarrow> string \<Rightarrow> ('w sw, bool) state" where
  "local_remove F f = call (l_remove F f) (\<lambda>a. ELocal (LRemove f a))"

definition local_rename :: "'w sftp \<Rightarrow> string \<Rightarrow> string \<Rightarrow> ('w sw, bool) state" where
  "local_rename F a b = call (l_rename F a b) (\<lambda>r. ELocal (LRename a b r))"

definition local_info :: "'w sftp \<Rightarrow> string \<Rightarrow> ('w sw, file_info) state" where
  "local_info F f = call (l_info F f) (\<lambda>a. ELocal (LInfo f a))"

definition local_open :: "'w sftp \<Rightarrow> string \<Rightarrow> bool \<Rightarrow> perms \<Rightarrow> ('w sw, int) state" where
  "local_open F f resume mode = do {
     a \<leftarrow> call (l_open F f resume mode) (\<lambda>a. ELocal (LOpen f resume mode a));
     ret (case a of Some fd \<Rightarrow> fd | None \<Rightarrow> -1)
   }"

subsection \<open>From the server\<close>

text \<open>
  The destination and its part file, which \<open>QFileInfo\<close> looks at once each; whether to resume, and
  what the part file was.
\<close>

definition copy_get_check ::
  "'w sftp \<Rightarrow> string \<Rightarrow> job_flags \<Rightarrow> ('w sw, worker_result + bool \<times> bool \<times> file_info) state" where
  "copy_get_check F f flags = do {
     copyFile \<leftarrow> local_info F f;
     if fi_exists copyFile \<and> fi_isDir copyFile then ret (Inl (Fail ERR_IS_DIRECTORY f))
     else if fi_exists copyFile \<and> \<not> fl_overwrite flags then ret (Inl (Fail ERR_FILE_ALREADY_EXIST f))
     else do {
       partFile \<leftarrow> local_info F (f @ ''.part'');
       if c_markPartial F \<and> fi_exists partFile \<and> fi_isDir partFile
       then ret (Inl (Fail ERR_FILE_ALREADY_EXIST f))
       else do {
         let at = word_of_int (fi_size copyFile);
         resume \<leftarrow> (if c_markPartial F \<and> fi_exists partFile \<and> fi_size partFile > 0
                   then call (w_canResume F at) (\<lambda>a. EApp (CanResumeAt at a)) else ret False);
         (if fi_exists partFile \<and> \<not> resume then discard (local_remove F (f @ ''.part'')) else ret ());
         ret (Inr (fi_exists copyFile, resume, partFile))
       }
     }
   }"

text \<open>The local file and the offset; a failed \<open>lseek\<close> is an offset that differs from the one asked.\<close>

definition copy_get_open ::
  "'w sftp \<Rightarrow> string \<Rightarrow> bool \<Rightarrow> file_info \<Rightarrow> perms \<Rightarrow> ('w sw, worker_result + int \<times> int) state" where
  "copy_get_open F f resume partFile mode =
     (if resume then do {
        fd \<leftarrow> local_open F (f @ ''.part'') True 0;
        offset \<leftarrow> call (l_seek F fd (word_of_int (fi_size partFile)))
                    (\<lambda>a. ELocal (LSeek fd (word_of_int (fi_size partFile)) a));
        if sint offset \<noteq> fi_size partFile then do {
          discard (local_close F fd);
          ret (Inl (Fail ERR_CANNOT_RESUME f))
        } else ret (Inr (fd, sint offset))
      } else do {
        fd \<leftarrow> local_open F (if c_markPartial F then f @ ''.part'' else f) False mode;
        ret (Inr (fd, 0))
      })"

definition copy_get_rename ::
  "'w sftp \<Rightarrow> string \<Rightarrow> bool \<Rightarrow> worker_result \<Rightarrow> worker_result \<Rightarrow> ('w sw, worker_result) state" where
  "copy_get_rename F f destExists getResult res =
     (if \<not> c_markPartial F then ret res
      else if success getResult then do {
        renamed \<leftarrow> local_rename F (f @ ''.part'') f;
        if renamed then ret res
        else if \<not> destExists then ret (Fail ERR_CANNOT_RENAME_PARTIAL f)
        else do {
          removed \<leftarrow> local_remove F f;
          if \<not> removed then ret (Fail ERR_CANNOT_RENAME_PARTIAL f)
          else do {
            again \<leftarrow> local_rename F (f @ ''.part'') f;
            ret (if again then res else Fail ERR_CANNOT_RENAME_PARTIAL f)
          }
        }
      } else do {
        part \<leftarrow> local_info F (f @ ''.part'');
        (if fi_exists part \<and> fi_size part < uint DEFAULT_MINIMUM_KEEP_SIZE
         then discard (local_remove F (f @ ''.part'')) else ret ());
        ret res
      })"

definition copy_get_mtime :: "'w sftp \<Rightarrow> string \<Rightarrow> ('w sw, unit) state" where
  "copy_get_mtime F f = (case c_modified F of
     None \<Rightarrow> ret ()
   | Some t \<Rightarrow> do {
       i \<leftarrow> local_info F f;
       (if fi_exists i then discard (call (l_setMTime F f t) (\<lambda>a. ELocal (LSetMTime f t a))) else ret ())
     })"

text \<open>True: the permissions could not be set, and the handler ends there.\<close>

definition copy_get_permissions ::
  "'w sftp \<Rightarrow> string \<Rightarrow> perms option \<Rightarrow> perms \<Rightarrow> ('w sw, bool) state" where
  "copy_get_permissions F f permissions mode = (case permissions of
     None \<Rightarrow> ret False
   | Some p \<Rightarrow>
       (if p = mode then ret False
        else do {
          i \<leftarrow> local_info F f;
          if \<not> fi_exists i then ret False
          else do {
            let q = permsToQtPermissions p;
            ok \<leftarrow> call (l_setPermissions F f q) (\<lambda>a. ELocal (LSetPermissions f q a));
            ret (\<not> ok)
          }
        }))"

definition copy_get_finish ::
  "'w sftp \<Rightarrow> string \<Rightarrow> bool \<Rightarrow> perms option \<Rightarrow> perms \<Rightarrow> int \<Rightarrow> worker_result \<Rightarrow> ('w sw, worker_result) state" where
  "copy_get_finish F f destExists permissions mode fd getResult = do {
     closed \<leftarrow> local_close F fd;
     let res = (if \<not> closed \<and> success getResult then Fail ERR_CANNOT_WRITE f else getResult);
     res \<leftarrow> copy_get_rename F f destExists getResult res;
     copy_get_mtime F f;
     hidden \<leftarrow> copy_get_permissions F f permissions mode;
     ret (if hidden then Pass else res)
   }"

definition sftpCopyGet ::
  "'w sftp \<Rightarrow> nat \<Rightarrow> qurl \<Rightarrow> string \<Rightarrow> int \<Rightarrow> job_flags \<Rightarrow> ('w sw, worker_result option) state" where
  "sftpCopyGet F n url f permissionsMode flags = do {
     let permissions = modeToOptionalPerms permissionsMode;
     c \<leftarrow> copy_get_check F f flags;
     case c of
       Inl e \<Rightarrow> ret (Some e)
     | Inr (destExists, resume, partFile) \<Rightarrow> do {
         let mode = initial_mode owner_write permissions;
         o' \<leftarrow> copy_get_open F f resume partFile mode;
         case o' of
           Inl e \<Rightarrow> ret (Some e)
         | Inr (fd, offset) \<Rightarrow>
             (if fd = -1 then do {
                err \<leftarrow> look (l_openErrno F);
                ret (Some (Fail (if err = EACCES then ERR_WRITE_ACCESS_DENIED else ERR_CANNOT_OPEN_FOR_WRITING) f))
              } else do {
                r \<leftarrow> sftpGet F n url offset fd;
                case r of
                  None \<Rightarrow> ret None
                | Some getResult \<Rightarrow> do {
                    res \<leftarrow> copy_get_finish F f destExists permissions mode fd getResult;
                    ret (Some res)
                  }
              })
       }
   }"

subsection \<open>To the server\<close>

definition sftpCopyPut ::
  "'w sftp \<Rightarrow> nat \<Rightarrow> qurl \<Rightarrow> string \<Rightarrow> int \<Rightarrow> job_flags \<Rightarrow> ('w sw, worker_result option) state" where
  "sftpCopyPut F n url f permissions flags = do {
     copyFile \<leftarrow> local_info F f;
     if \<not> fi_exists copyFile then ret (Some (Fail ERR_DOES_NOT_EXIST f))
     else if fi_isDir copyFile then ret (Some (Fail ERR_IS_DIRECTORY f))
     else do {
       file \<leftarrow> call (l_openRead F f) (\<lambda>a. ELocal (LOpenRead f a));
       case file of
         None \<Rightarrow> ret (Some (Fail ERR_CANNOT_OPEN_FOR_READING f))
       | Some fd \<Rightarrow> do {
           tell (EApp (TotalSize (word_of_int (fi_size copyFile))));
           r \<leftarrow> sftpPut F n url permissions flags fd;
           case r of
             None \<Rightarrow> ret None
           | Some res \<Rightarrow> do { discard (local_close F fd); ret (Some res) }
         }
     }
   }"

text \<open>A URL with the scheme of files names a local file by its path.\<close>

definition isLocalFile :: "qurl \<Rightarrow> bool" where
  "isLocalFile u \<longleftrightarrow> scheme u = ''file''"

definition copy_job ::
  "'w sftp \<Rightarrow> nat \<Rightarrow> qurl \<Rightarrow> qurl \<Rightarrow> int \<Rightarrow> job_flags \<Rightarrow> ('w sw, worker_result option) state" where
  "copy_job F n srcUrl dest permissions flags =
     (if \<not> isLocalFile srcUrl \<and> isLocalFile dest then sftpCopyGet F n srcUrl (path dest) permissions flags
      else if isLocalFile srcUrl \<and> \<not> isLocalFile dest then sftpCopyPut F n dest (path srcUrl) permissions flags
      else ret (Some (Fail ERR_UNSUPPORTED_ACTION [])))"

section \<open>The file job\<close>

record open_mode =
  om_read :: bool
  om_write :: bool
  om_append :: bool
  om_truncate :: bool

definition open_flags_of :: "open_mode \<Rightarrow> open_flags" where
  "open_flags_of m =
     (if om_read m then (if om_write m then O_RDWR OR O_CREAT else O_RDONLY)
      else if om_write m then O_WRONLY OR O_CREAT else 0)
     OR (if om_append m then O_APPEND else if om_truncate m then O_TRUNC else 0)"

definition close_job :: "'w sftp \<Rightarrow> ('w sw, worker_result) state" where
  "close_job F = do {
     s \<leftarrow> State_Monad.get;
     (case mOpenFile s of Some f \<Rightarrow> close_file F f | None \<Rightarrow> ret ());
     State_Monad.update (\<lambda>s. s\<lparr>mOpenFile := None\<rparr>);
     ret Pass
   }"

definition open_file :: "'w sftp \<Rightarrow> qurl \<Rightarrow> open_mode \<Rightarrow> u64 \<Rightarrow> ('w sw, worker_result) state" where
  "open_file F url m sz = do {
     let flags = open_flags_of m;
     let mode = (if flags AND O_CREAT \<noteq> 0 then DEFAULT_FILE_PERMISSIONS else 0);
     file \<leftarrow> call (s_open F (path url) flags mode) (\<lambda>a. EFile (Open (path url) flags mode a));
     State_Monad.update (\<lambda>s. s\<lparr>mOpenFile := file\<rparr>);
     case file of
       None \<Rightarrow> do { e \<leftarrow> look (s_error F); ret (Fail (toKIOError e) (path url)) }
     | Some f \<Rightarrow> do {
         r \<leftarrow> (if om_read m then sftpSendMimetype F f url else ret Pass);
         if \<not> success r then do { close_job F; ret r }
         else do {
           State_Monad.update (\<lambda>s. s\<lparr>mOpenUrl := url\<rparr>);
           tell (EApp (TotalSize sz));
           tell (EApp (Position 0));
           ret Pass
         }
       }
   }"

definition open_job :: "'w sftp \<Rightarrow> nat \<Rightarrow> qurl \<Rightarrow> open_mode \<Rightarrow> ('w sw, worker_result option) state" where
  "open_job F n url m = logged_in F n (do {
     sb \<leftarrow> call (s_stat F (path url)) (\<lambda>a. EFile (Stat (path url) a));
     case sb of
       None \<Rightarrow> do { r \<leftarrow> reportLast F url; ret (Some r) }
     | Some sb \<Rightarrow>
         (if a_type sb = TYPE_DIRECTORY then ret (Some (Fail ERR_IS_DIRECTORY (t_display F url)))
          else if a_type sb = TYPE_SPECIAL \<or> a_type sb = TYPE_UNKNOWN
          then ret (Some (Fail ERR_CANNOT_OPEN_FOR_READING (t_display F url)))
          else do { r \<leftarrow> open_file F url m (a_size sb); ret (Some r) })
   })"

text \<open>The handlers of an open file assert that there is one; None is a failed assertion.\<close>

definition close_fail :: "'w sftp \<Rightarrow> kio_error \<Rightarrow> string \<Rightarrow> ('w sw, worker_result option) state" where
  "close_fail F e t = do { close_job F; ret (Some (Fail e t)) }"

definition read_job :: "'w sftp \<Rightarrow> u64 \<Rightarrow> ('w sw, worker_result option) state" where
  "read_job F bytes = do {
     s \<leftarrow> State_Monad.get;
     case mOpenFile s of
       None \<Rightarrow> ret None
     | Some f \<Rightarrow> do {
         r \<leftarrow> call (s_read F f (unat bytes)) (\<lambda>a. EFile (Read f (unat bytes) a));
         case r of
           None \<Rightarrow> close_fail F ERR_CANNOT_READ (t_display F (mOpenUrl s))
         | Some d \<Rightarrow> do { tell (EApp (Data d)); ret (Some Pass) }
       }
   }"

fun write_all :: "'w sftp \<Rightarrow> nat \<Rightarrow> write_step \<times> wgen \<Rightarrow> ('w sw, bool option) state" where
  "write_all F n (WriteEnd, v) = ret (Some True)"
| "write_all F n (WriteFailed e, v) = ret (Some False)"
| "write_all F 0 (Wrote k, v) = ret None"
| "write_all F (Suc n) (Wrote k, v) = do {
     nxt \<leftarrow> write_next F v;
     case nxt of None \<Rightarrow> ret None | Some nxt \<Rightarrow> write_all F n nxt
   }"

definition write_job :: "'w sftp \<Rightarrow> nat \<Rightarrow> byte list \<Rightarrow> ('w sw, worker_result option) state" where
  "write_job F n d = do {
     s \<leftarrow> State_Monad.get;
     case mOpenFile s of
       None \<Rightarrow> ret None
     | Some f \<Rightarrow> do {
         first \<leftarrow> asyncWrite F n f (OneReader (Some d));
         case first of
           None \<Rightarrow> ret None
         | Some step \<Rightarrow> do {
             e \<leftarrow> write_all F n step;
             case e of
               None \<Rightarrow> ret None
             | Some ok \<Rightarrow>
                 (if \<not> ok then close_fail F ERR_CANNOT_WRITE (t_display F (mOpenUrl s))
                  else do { tell (EApp (WrittenMsg (length d))); ret (Some Pass) })
           }
       }
   }"

definition seek_job :: "'w sftp \<Rightarrow> u64 \<Rightarrow> ('w sw, worker_result option) state" where
  "seek_job F offset = do {
     s \<leftarrow> State_Monad.get;
     case mOpenFile s of
       None \<Rightarrow> ret None
     | Some f \<Rightarrow> do {
         ok \<leftarrow> call (s_seek F f offset) (\<lambda>a. EFile (Seek f offset a));
         if \<not> ok then close_fail F ERR_CANNOT_SEEK (path (mOpenUrl s))
         else do {
           p \<leftarrow> call (s_tell F f) (\<lambda>a. EFile (Tell f a));
           tell (EApp (Position p));
           ret (Some Pass)
         }
       }
   }"

definition truncate_job :: "'w sftp \<Rightarrow> u64 \<Rightarrow> ('w sw, worker_result option) state" where
  "truncate_job F len = do {
     s \<leftarrow> State_Monad.get;
     case mOpenFile s of
       None \<Rightarrow> ret None
     | Some f \<Rightarrow> do {
         attr \<leftarrow> call (s_fstat F f) (\<lambda>a. EFile (Fstat f a));
         ok \<leftarrow> (case attr of
                  None \<Rightarrow> ret False
                | Some a \<Rightarrow> (let new = a\<lparr>a_size := len\<rparr>; p = path (mOpenUrl s) in
                    call (s_setstat F p new) (\<lambda>r. EName (Setstat p new r))));
         if ok then do { tell (EApp (Truncated len)); ret (Some Pass) }
         else do {
           e \<leftarrow> look (s_error F);
           close_fail F (if toKIOError e = ERR_INTERNAL then ERR_CANNOT_TRUNCATE else toKIOError e)
             (path (mOpenUrl s))
         }
       }
   }"

end
