(* ===== verification/SftpDir.thy ===== *)
theory SftpDir
  imports SftpJob
begin

text \<open>
  Names and attributes on the server (sftp/kio_sftp.cpp): entries, \<open>stat\<close>, \<open>mimetype\<close>, \<open>listDir\<close>,
  \<open>mkdir\<close>, \<open>rename\<close>, \<open>symlink\<close>, \<open>chmod\<close>, \<open>setModificationTime\<close>, \<open>del\<close>, \<open>fileSystemFreeSpace\<close>.
\<close>

section \<open>Entries\<close>

definition ATTR_ACCESSTIME :: u32 where "ATTR_ACCESSTIME = 0x8"
definition ATTR_CREATETIME :: u32 where "ATTR_CREATETIME = 0x10"
definition ATTR_MODIFYTIME :: u32 where "ATTR_MODIFYTIME = 0x20"
definition ATTR_SUBSECOND_TIMES :: u32 where "ATTR_SUBSECOND_TIMES = 0x100"

definition no_type :: mode_t where "no_type = S_IFMT - 1"

definition entry_type :: "file_type \<Rightarrow> mode_t" where
  "entry_type t = (case t of
     TYPE_REGULAR \<Rightarrow> S_IFREG | TYPE_DIRECTORY \<Rightarrow> S_IFDIR | TYPE_SYMLINK \<Rightarrow> S_IFLNK
   | TYPE_SPECIAL \<Rightarrow> no_type | TYPE_UNKNOWN \<Rightarrow> no_type | TYPE_OTHER \<Rightarrow> S_IFREG)"

text \<open>The entry from the attributes, the target of a link, and whether the link is broken.\<close>

definition uds_of ::
  "'w sftp \<Rightarrow> string \<Rightarrow> int \<Rightarrow> attributes \<Rightarrow> string option \<Rightarrow> bool \<Rightarrow> uds" where
  "uds_of F name details sb link broken =
     [UDS_NAME name]
     @ (case link of Some l \<Rightarrow> [UDS_LINK_DEST l] | None \<Rightarrow> [])
     @ (if details > 0
        then [UDS_USER (case a_owner sb of Some u \<Rightarrow> u | None \<Rightarrow> t_number F (uint (a_uid sb))),
              UDS_GROUP (case a_group sb of Some g \<Rightarrow> g | None \<Rightarrow> t_number F (uint (a_gid sb)))]
        else [])
     @ [UDS_FILE_TYPE (if broken then no_type else entry_type (a_type sb)),
        UDS_ACCESS (if broken then 0x1FF
                    else (case attr_perms (a_permissions sb) of Some p \<Rightarrow> p | None \<Rightarrow> 0)),
        UDS_SIZE (if broken then 0 else sint (a_size sb))]
     @ (if details > 0
        then [UDS_ACCESS_TIME (uint (a_atime sb)), UDS_MODIFICATION_TIME (uint (a_mtime sb))]
             @ (if a_flags sb AND ATTR_CREATETIME \<noteq> 0
                then [UDS_CREATION_TIME (sint (a_createtime sb))] else [])
        else [])"

definition createUDSEntry ::
  "'w sftp \<Rightarrow> attributes \<Rightarrow> string \<Rightarrow> string \<Rightarrow> int \<Rightarrow> ('w sw, worker_result + uds) state" where
  "createUDSEntry F sb p name details =
     (if a_type sb \<noteq> TYPE_SYMLINK then ret (Inr (uds_of F name details sb None False))
      else do {
        link \<leftarrow> call (s_readlink F p) (\<lambda>a. EName (Readlink p a));
        case link of
          None \<Rightarrow> ret (Inl (Fail ERR_INTERNAL p))
        | Some l \<Rightarrow>
            (if details > 1 then do {
               sb2 \<leftarrow> call (s_stat F p) (\<lambda>a. EFile (Stat p a));
               ret (Inr (case sb2 of
                      None \<Rightarrow> uds_of F name details sb (Some l) True
                    | Some sb2 \<Rightarrow> uds_of F name details sb2 (Some l) False))
             } else ret (Inr (uds_of F name details sb (Some l) False)))
      })"

section \<open>Redirection to the canonical path\<close>

definition canonicalizePath :: "'w sftp \<Rightarrow> string \<Rightarrow> ('w sw, string) state" where
  "canonicalizePath F p =
     (if p = [] then ret []
      else do {
        c \<leftarrow> call (s_canonicalize F p) (\<lambda>a. EName (Canonicalize p a));
        ret (case c of Some q \<Rightarrow> q | None \<Rightarrow> [])
      })"

text \<open>Qt takes a path that begins with a colon (a resource) as absolute.\<close>

definition isRelativePath :: "string \<Rightarrow> bool" where
  "isRelativePath p \<longleftrightarrow> \<not> starts_with ''/'' p \<and> \<not> starts_with '':'' p"

definition needs_canonical :: "string \<Rightarrow> bool" where
  "needs_canonical p \<longleftrightarrow> p = [] \<or> isRelativePath p \<or> contains ''/./'' p \<or> contains ''/../'' p"

definition redirect_canonical :: "'w sftp \<Rightarrow> qurl \<Rightarrow> ('w sw, worker_result) state" where
  "redirect_canonical F url = do {
     c \<leftarrow> canonicalizePath F (if path url \<noteq> [] then path url else ''.'');
     if c = [] then ret (Fail ERR_MALFORMED_URL (t_display F url))
     else do { tell (EApp (Redirect (url\<lparr>path := c\<rparr>))); ret Pass }
   }"

section \<open>stat, mimetype, listDir\<close>

definition stat_job :: "'w sftp \<Rightarrow> nat \<Rightarrow> qurl \<Rightarrow> ('w sw, worker_result option) state" where
  "stat_job F n url = logged_in F n (
     if needs_canonical (path url) then do { r \<leftarrow> redirect_canonical F url; ret (Some r) }
     else do {
       sb \<leftarrow> call (s_lstat F (path url)) (\<lambda>a. EFile (Lstat (path url) a));
       case sb of
         None \<Rightarrow> ret (Some (Fail ERR_DOES_NOT_EXIST (t_display F url)))
       | Some sb \<Rightarrow> do {
           e \<leftarrow> createUDSEntry F sb (path url) (fileName url) (c_details F);
           case e of
             Inl r \<Rightarrow> ret (Some r)
           | Inr entry \<Rightarrow> do { tell (EApp (StatEntry entry)); ret (Some Pass) }
         }
     })"

definition mimetype_job :: "'w sftp \<Rightarrow> nat \<Rightarrow> qurl \<Rightarrow> ('w sw, worker_result option) state" where
  "mimetype_job F n url = logged_in F n (do {
     r \<leftarrow> open_job F n url \<lparr>om_read = True, om_write = False, om_append = False, om_truncate = False\<rparr>;
     case r of
       None \<Rightarrow> ret None
     | Some res \<Rightarrow> do { discard (close_job F); ret (Some res) }
   })"

text \<open>The entries until the server has no more; an entry that fails is left out.\<close>

fun list_loop :: "'w sftp \<Rightarrow> nat \<Rightarrow> int \<Rightarrow> string \<Rightarrow> ('w sw, unit option) state" where
  "list_loop F 0 dp p = ret None"
| "list_loop F (Suc n) dp p = do {
     a \<leftarrow> call (s_readdir F dp) (\<lambda>a. EName (Readdir dp a));
     case a of
       None \<Rightarrow> ret (Some ())
     | Some sb \<Rightarrow> do {
         e \<leftarrow> createUDSEntry F sb (p @ ''/'' @ a_name sb) (a_name sb) (c_details F);
         (case e of Inl _ \<Rightarrow> ret () | Inr entry \<Rightarrow> tell (EApp (ListEntry entry)));
         list_loop F n dp p
       }
   }"

definition listDir_job :: "'w sftp \<Rightarrow> nat \<Rightarrow> qurl \<Rightarrow> ('w sw, worker_result option) state" where
  "listDir_job F n url = logged_in F n (
     if needs_canonical (path url) then do { r \<leftarrow> redirect_canonical F url; ret (Some r) }
     else do {
       dp \<leftarrow> call (s_opendir F (path url)) (\<lambda>a. EName (Opendir (path url) a));
       case dp of
         None \<Rightarrow> do { r \<leftarrow> reportLast F url; ret (Some r) }
       | Some dp \<Rightarrow> do {
           r \<leftarrow> list_loop F n dp (path url);
           case r of
             None \<Rightarrow> ret None
           | Some _ \<Rightarrow> do { act (s_closedir F dp) (EName (Closedir dp)); ret (Some Pass) }
         }
     })"

section \<open>Changing names and attributes\<close>

text \<open>Pass, or the report of the server's last error.\<close>

definition checked :: "'w sftp \<Rightarrow> qurl \<Rightarrow> ('w sw, bool) state \<Rightarrow> ('w sw, worker_result option) state" where
  "checked F url m = do {
     ok \<leftarrow> m;
     if ok then ret (Some Pass) else do { r \<leftarrow> reportLast F url; ret (Some r) }
   }"

definition unlink :: "'w sftp \<Rightarrow> string \<Rightarrow> ('w sw, bool) state" where
  "unlink F p = call (s_unlink F p) (\<lambda>a. EName (Unlink p a))"

definition rmdir :: "'w sftp \<Rightarrow> string \<Rightarrow> ('w sw, bool) state" where
  "rmdir F p = call (s_rmdir F p) (\<lambda>a. EName (Rmdir p a))"

definition mkdir_job :: "'w sftp \<Rightarrow> nat \<Rightarrow> qurl \<Rightarrow> int \<Rightarrow> ('w sw, worker_result option) state" where
  "mkdir_job F n url permissions = logged_in F n (
     if path url = [] then ret (Some (Fail ERR_MALFORMED_URL (t_display F url)))
     else do {
       (if c_overwriteDir F then discard (unlink F (path url)) else ret ());
       sb \<leftarrow> call (s_lstat F (path url)) (\<lambda>a. EFile (Lstat (path url) a));
       let mode = (if permissions = -1 then 0x1FF else permissions);
       case sb of
         None \<Rightarrow> checked F url (call (s_mkdir F (path url) mode) (\<lambda>a. EName (Mkdir (path url) mode a)))
       | Some sb \<Rightarrow>
           ret (Some (Fail (if KSFTP_ISDIR sb then ERR_DIR_ALREADY_EXIST else ERR_FILE_ALREADY_EXIST) (path url)))
     })"

definition rename_job ::
  "'w sftp \<Rightarrow> nat \<Rightarrow> qurl \<Rightarrow> qurl \<Rightarrow> job_flags \<Rightarrow> ('w sw, worker_result option) state" where
  "rename_job F n from dest flags = logged_in F n (do {
     sb \<leftarrow> call (s_lstat F (path dest)) (\<lambda>a. EFile (Lstat (path dest) a));
     let go = checked F dest (call (s_rename F (path from) (path dest))
                (\<lambda>a. EName (Rename (path from) (path dest) a)));
     case sb of
       None \<Rightarrow> go
     | Some sb \<Rightarrow>
         (if \<not> fl_overwrite flags
          then ret (Some (Fail (if KSFTP_ISDIR sb then ERR_DIR_ALREADY_EXIST else ERR_FILE_ALREADY_EXIST)
                     (t_text F dest)))
          else do {
            gone \<leftarrow> (if KSFTP_ISDIR sb then rmdir F (path dest) else unlink F (path dest));
            if gone then go else do { r \<leftarrow> reportLast F dest; ret (Some r) }
          })
   })"

definition make_symlink :: "'w sftp \<Rightarrow> string \<Rightarrow> string \<Rightarrow> ('w sw, bool) state" where
  "make_symlink F t d = call (s_symlink F t d) (\<lambda>a. EName (Symlink t d a))"

text \<open>False is the variable \<open>failed\<close> set; without Overwrite a failure does not set it.\<close>

definition symlink_try :: "'w sftp \<Rightarrow> string \<Rightarrow> string \<Rightarrow> job_flags \<Rightarrow> ('w sw, bool) state" where
  "symlink_try F t d flags = do {
     ok \<leftarrow> make_symlink F t d;
     if ok \<or> \<not> (fl_overwrite flags \<and> \<not> fl_resume flags) then ret True
     else do {
       sb \<leftarrow> call (s_lstat F d) (\<lambda>a. EFile (Lstat d a));
       case sb of
         None \<Rightarrow> ret False
       | Some _ \<Rightarrow> do {
           gone \<leftarrow> unlink F d;
           if gone then make_symlink F t d else ret False
         }
     }
   }"

definition symlink_job ::
  "'w sftp \<Rightarrow> nat \<Rightarrow> string \<Rightarrow> qurl \<Rightarrow> job_flags \<Rightarrow> ('w sw, worker_result option) state" where
  "symlink_job F n target dest flags =
     logged_in F n (checked F dest (symlink_try F target (path dest) flags))"

definition chmod_job :: "'w sftp \<Rightarrow> nat \<Rightarrow> qurl \<Rightarrow> int \<Rightarrow> ('w sw, worker_result option) state" where
  "chmod_job F n url permissions = logged_in F n (
     let p = word_of_int permissions in
     checked F url (call (s_chmod F (path url) p) (\<lambda>a. EName (Chmod (path url) p a))))"

text \<open>The time as seconds and as milliseconds; the remainder has the sign of the time.\<close>

definition nseconds :: "int \<Rightarrow> u32" where
  "nseconds ms = word_of_int (sgn ms * (\<bar>ms\<bar> mod 1000) * 1000000)"

definition with_mtime :: "int \<Rightarrow> int \<Rightarrow> attributes \<Rightarrow> attributes" where
  "with_mtime secs ms a = a\<lparr>a_mtime := word_of_int secs, a_mtime64 := word_of_int secs,
     a_mtime_nseconds := nseconds ms,
     a_flags := (ATTR_ACCESSTIME OR ATTR_MODIFYTIME) OR ATTR_SUBSECOND_TIMES\<rparr>"

definition setModificationTime_job ::
  "'w sftp \<Rightarrow> nat \<Rightarrow> qurl \<Rightarrow> int \<Rightarrow> int \<Rightarrow> ('w sw, worker_result option) state" where
  "setModificationTime_job F n url secs ms = logged_in F n (do {
     attr \<leftarrow> call (s_stat F (path url)) (\<lambda>a. EFile (Stat (path url) a));
     case attr of
       None \<Rightarrow> do { r \<leftarrow> reportLast F url; ret (Some r) }
     | Some a \<Rightarrow>
         (let new = with_mtime secs ms a in
          checked F url (call (s_setstat F (path url) new) (\<lambda>r. EName (Setstat (path url) new r))))
   })"

definition del_job :: "'w sftp \<Rightarrow> nat \<Rightarrow> qurl \<Rightarrow> bool \<Rightarrow> ('w sw, worker_result option) state" where
  "del_job F n url isfile =
     logged_in F n (checked F url (if isfile then unlink F (path url) else rmdir F (path url)))"

definition fileSystemFreeSpace_job :: "'w sftp \<Rightarrow> nat \<Rightarrow> qurl \<Rightarrow> ('w sw, worker_result option) state" where
  "fileSystemFreeSpace_job F n url = logged_in F n (
     if \<not> s_hasStatvfs F then ret (Some (Fail ERR_UNSUPPORTED_ACTION []))
     else do {
       let p = (if path url = [] then ''/'' else path url);
       st \<leftarrow> call (s_statvfs F p) (\<lambda>a. EName (Statvfs p a));
       case st of
         None \<Rightarrow> do { r \<leftarrow> reportLast F url; ret (Some r) }
       | Some (frsize, blocks, bavail) \<Rightarrow> do {
           tell (EApp (MetaData ''total'' (frsize * blocks)));
           tell (EApp (MetaData ''available'' (frsize * bavail)));
           ret (Some Pass)
         }
     })"

end
