(* ===== verification/SftpDemo.thy ===== *)
theory SftpDemo
  imports SftpDir
begin

text \<open>
  A concrete server, user and local disk, on which the witnesses of the properties run: one file of
  three bytes, read two at a time, an application that supplies two blocks.
\<close>

record dw =
  d_pos :: nat
  d_reqs :: "int \<Rightarrow> (nat \<times> nat) option"
  d_next :: int
  d_feed :: "(int \<times> byte list) list"
  d_polls :: nat

definition demo_bytes :: "byte list" where "demo_bytes = [1, 2, 3]"

definition demo_attr :: attributes where
  "demo_attr = \<lparr>a_name = ''f'', a_type = TYPE_REGULAR, a_size = 3, a_permissions = 0x81A4, a_uid = 1, a_gid = 1,
     a_owner = None, a_group = None, a_flags = 0, a_atime = 7, a_mtime = 8, a_mtime64 = 8, a_mtime_nseconds = 0,
     a_createtime = 0\<rparr>"

definition demo_begin :: "int \<Rightarrow> nat \<Rightarrow> dw \<Rightarrow> int option \<times> dw" where
  "demo_begin f n w = (if d_reqs w (d_next w) = None
     then (Some (d_next w), w\<lparr>d_pos := d_pos w + n, d_reqs := (d_reqs w)(d_next w \<mapsto> (d_pos w, n)), d_next := d_next w + 1\<rparr>)
     else (None, w))"

definition demo_wait :: "int \<Rightarrow> dw \<Rightarrow> byte list option \<times> dw" where
  "demo_wait a w = (case d_reqs w a of
     None \<Rightarrow> (None, w)
   | Some (q, n) \<Rightarrow> (Some (take n (drop q demo_bytes)), w\<lparr>d_reqs := (d_reqs w)(a := None)\<rparr>))"

definition demo_feed :: "dw \<Rightarrow> (int \<times> byte list) \<times> dw" where
  "demo_feed w = (case d_feed w of [] \<Rightarrow> ((0, []), w) | (r, d) # xs \<Rightarrow>
     ((r, if 0 < r \<and> d = [] then [0] else d), w\<lparr>d_feed := xs\<rparr>))"

text \<open>The worker is killed when the polls are used up; a start with many polls is never killed.\<close>

definition demo_killed :: "dw \<Rightarrow> bool \<times> dw" where
  "demo_killed w = (case d_polls w of 0 \<Rightarrow> (True, w) | Suc k \<Rightarrow> (False, w\<lparr>d_polls := k\<rparr>))"

definition demo_dialog :: "auth_info \<Rightarrow> dw \<Rightarrow> (kio_error option \<times> auth_info) \<times> dw" where
  "demo_dialog i w = ((None, i\<lparr>ai_username := (if ai_username i = [] then ''me'' else ai_username i),
     ai_password := ''secret''\<rparr>), w)"

definition demo :: "dw sftp" where
  "demo = \<lparr>
     s_lstat = \<lambda>p w. (if p = ''/f'' then Some demo_attr else None, w),
     s_stat = \<lambda>p w. (if p = ''/f'' then Some demo_attr else None, w),
     s_fstat = \<lambda>f w. (Some demo_attr, w),
     s_open = \<lambda>p fl m w. (Some 5, w\<lparr>d_pos := 0\<rparr>),
     s_close = \<lambda>f w. (True, w),
     s_read = \<lambda>f n w. (Some (take n demo_bytes), w),
     s_seek = \<lambda>f at w. (True, w\<lparr>d_pos := unat at\<rparr>),
     s_rewind = \<lambda>f w. w\<lparr>d_pos := 0\<rparr>,
     s_tell = \<lambda>f w. (of_nat (d_pos w), w),
     s_limits = \<lambda>w. (Some (2, 2), w),
     s_begin_read = demo_begin, s_wait_read = demo_wait,
     s_begin_write = \<lambda>f d w. (Some (int (length d)), w),
     s_wait_write = \<lambda>a w. (Some (nat a), w),
     s_unlink = \<lambda>p w. (True, w), s_rmdir = \<lambda>p w. (True, w), s_mkdir = \<lambda>p m w. (True, w),
     s_rename = \<lambda>p q w. (True, w), s_symlink = \<lambda>p q w. (False, w), s_chmod = \<lambda>p m w. (True, w),
     s_chown = \<lambda>p u g w. (True, w), s_utimes = \<lambda>p a m w. (True, w), s_setstat = \<lambda>p a w. (True, w),
     s_readlink = \<lambda>p w. (None, w), s_opendir = \<lambda>p w. (None, w), s_readdir = \<lambda>d w. (None, w),
     s_closedir = \<lambda>d w. w, s_canonicalize = \<lambda>p w. (Some p, w), s_statvfs = \<lambda>p w. (None, w),
     s_hasStatvfs = False, s_error = \<lambda>w. SSH_FX_PERMISSION_DENIED, s_fatal = \<lambda>w. False, s_errorText = \<lambda>w. ''error'',
     s_new = \<lambda>w. (True, w), s_option = \<lambda>opt w. (True, w), s_parseConfig = \<lambda>w. (True, w),
     s_connect = \<lambda>w. (True, w), s_disconnect = \<lambda>w. w, s_free = \<lambda>w. w,
     s_serverKey = \<lambda>w. (Inl (''ed25519'', ''fingerprint''), w), s_isKnown = \<lambda>w. (HOST_UNKNOWN, w),
     s_updateKnown = \<lambda>w. (True, w), s_authNone = \<lambda>w. (AUTH_DENIED, w), s_authList = \<lambda>w. (METHOD_PASSWORD, w),
     s_authPublickey = \<lambda>w. (AUTH_DENIED, w), s_pubkeyAsked = \<lambda>w. False, s_authGssapi = \<lambda>w. (AUTH_DENIED, w),
     s_authKbdint = \<lambda>w. (AUTH_DENIED, w), s_prompts = \<lambda>w. (0, w), s_prompt = \<lambda>i w. ((''?'', False), w),
     s_answer = \<lambda>i a w. (True, w), s_authPassword = \<lambda>u p w. (if p = ''secret'' then AUTH_SUCCESS else AUTH_DENIED, w),
     s_sftpNew = \<lambda>w. (True, w), s_sftpInit = \<lambda>w. (True, w), s_poll = \<lambda>b w. (0, w),
     w_askUser = \<lambda>t w. (True, w), w_cachedAuth = \<lambda>i w. (i, w),
     w_passwordDialog = demo_dialog,
     w_wasKilled = demo_killed, w_readData = demo_feed, w_canResume = \<lambda>n w. (False, w),
     l_info = \<lambda>f w. (\<lparr>fi_exists = False, fi_isDir = False, fi_size = 0\<rparr>, w),
     l_open = \<lambda>f r m w. (Some 3, w), l_openRead = \<lambda>f w. (Some 3, w), l_openErrno = \<lambda>w. ENOENT,
     l_seek = \<lambda>fd at w. (at, w), l_read = \<lambda>fd w. (None, w), l_write = \<lambda>fd d w. (Written (length d), w),
     l_close = \<lambda>fd w. (True, w), l_remove = \<lambda>f w. (True, w), l_rename = \<lambda>f g w. (True, w),
     l_setMTime = \<lambda>f t w. (True, w), l_setPermissions = \<lambda>f m w. (True, w),
     t_text = path, t_display = path, t_number = \<lambda>i. ''1'', t_mime = \<lambda>f d. Some ''text/plain'', t_mimeUrl = \<lambda>u. ''x'',
     c_markPartial = True, c_resume = None, c_modified = None, c_details = 2, c_overwriteDir = False,
     c_loginName = ''me''\<rparr>"

lemma demo_simps [simp]:
  "s_lstat demo = (\<lambda>p w. (if p = ''/f'' then Some demo_attr else None, w))"
  "s_stat demo = (\<lambda>p w. (if p = ''/f'' then Some demo_attr else None, w))"
  "s_fstat demo = (\<lambda>f w. (Some demo_attr, w))"
  "s_open demo = (\<lambda>p fl m w. (Some 5, w\<lparr>d_pos := 0\<rparr>))"
  "s_close demo = (\<lambda>f w. (True, w))"
  "s_read demo = (\<lambda>f n w. (Some (take n demo_bytes), w))"
  "s_seek demo = (\<lambda>f at w. (True, w\<lparr>d_pos := unat at\<rparr>))"
  "s_rewind demo = (\<lambda>f w. w\<lparr>d_pos := 0\<rparr>)"
  "s_tell demo = (\<lambda>f w. (of_nat (d_pos w), w))"
  "s_limits demo = (\<lambda>w. (Some (2, 2), w))"
  "s_begin_read demo = demo_begin"
  "s_wait_read demo = demo_wait"
  "s_begin_write demo = (\<lambda>f d w. (Some (int (length d)), w))"
  "s_wait_write demo = (\<lambda>a w. (Some (nat a), w))"
  "s_unlink demo = (\<lambda>p w. (True, w))"
  "s_rmdir demo = (\<lambda>p w. (True, w))"
  "s_mkdir demo = (\<lambda>p m w. (True, w))"
  "s_rename demo = (\<lambda>p q w. (True, w))"
  "s_symlink demo = (\<lambda>p q w. (False, w))"
  "s_chmod demo = (\<lambda>p m w. (True, w))"
  "s_chown demo = (\<lambda>p u g w. (True, w))"
  "s_utimes demo = (\<lambda>p a m w. (True, w))"
  "s_setstat demo = (\<lambda>p a w. (True, w))"
  "s_readlink demo = (\<lambda>p w. (None, w))"
  "s_opendir demo = (\<lambda>p w. (None, w))"
  "s_readdir demo = (\<lambda>d w. (None, w))"
  "s_closedir demo = (\<lambda>d w. w)"
  "s_canonicalize demo = (\<lambda>p w. (Some p, w))"
  "s_statvfs demo = (\<lambda>p w. (None, w))"
  "s_hasStatvfs demo = False"
  "s_error demo = (\<lambda>w. SSH_FX_PERMISSION_DENIED)"
  "s_fatal demo = (\<lambda>w. False)"
  "s_errorText demo = (\<lambda>w. ''error'')"
  "s_new demo = (\<lambda>w. (True, w))"
  "s_option demo = (\<lambda>opt w. (True, w))"
  "s_parseConfig demo = (\<lambda>w. (True, w))"
  "s_connect demo = (\<lambda>w. (True, w))"
  "s_disconnect demo = (\<lambda>w. w)"
  "s_free demo = (\<lambda>w. w)"
  "s_serverKey demo = (\<lambda>w. (Inl (''ed25519'', ''fingerprint''), w))"
  "s_isKnown demo = (\<lambda>w. (HOST_UNKNOWN, w))"
  "s_updateKnown demo = (\<lambda>w. (True, w))"
  "s_authNone demo = (\<lambda>w. (AUTH_DENIED, w))"
  "s_authList demo = (\<lambda>w. (METHOD_PASSWORD, w))"
  "s_authPublickey demo = (\<lambda>w. (AUTH_DENIED, w))"
  "s_pubkeyAsked demo = (\<lambda>w. False)"
  "s_authGssapi demo = (\<lambda>w. (AUTH_DENIED, w))"
  "s_authKbdint demo = (\<lambda>w. (AUTH_DENIED, w))"
  "s_prompts demo = (\<lambda>w. (0, w))"
  "s_prompt demo = (\<lambda>i w. ((''?'', False), w))"
  "s_answer demo = (\<lambda>i a w. (True, w))"
  "s_authPassword demo = (\<lambda>u p w. (if p = ''secret'' then AUTH_SUCCESS else AUTH_DENIED, w))"
  "s_sftpNew demo = (\<lambda>w. (True, w))"
  "s_sftpInit demo = (\<lambda>w. (True, w))"
  "s_poll demo = (\<lambda>b w. (0, w))"
  "w_askUser demo = (\<lambda>t w. (True, w))"
  "w_cachedAuth demo = (\<lambda>i w. (i, w))"
  "w_passwordDialog demo = demo_dialog"
  "w_wasKilled demo = demo_killed"
  "w_readData demo = demo_feed"
  "w_canResume demo = (\<lambda>n w. (False, w))"
  "l_info demo = (\<lambda>f w. (\<lparr>fi_exists = False, fi_isDir = False, fi_size = 0\<rparr>, w))"
  "l_open demo = (\<lambda>f r m w. (Some 3, w))"
  "l_openRead demo = (\<lambda>f w. (Some 3, w))"
  "l_openErrno demo = (\<lambda>w. ENOENT)"
  "l_seek demo = (\<lambda>fd at w. (at, w))"
  "l_read demo = (\<lambda>fd w. (None, w))"
  "l_write demo = (\<lambda>fd d w. (Written (length d), w))"
  "l_close demo = (\<lambda>fd w. (True, w))"
  "l_remove demo = (\<lambda>f w. (True, w))"
  "l_rename demo = (\<lambda>f g w. (True, w))"
  "l_setMTime demo = (\<lambda>f t w. (True, w))"
  "l_setPermissions demo = (\<lambda>f m w. (True, w))"
  "t_text demo = path"
  "t_display demo = path"
  "t_number demo = (\<lambda>i. ''1'')"
  "t_mime demo = (\<lambda>f d. Some ''text/plain'')"
  "t_mimeUrl demo = (\<lambda>u. ''x'')"
  "c_markPartial demo = True"
  "c_resume demo = None"
  "c_modified demo = None"
  "c_details demo = 2"
  "c_overwriteDir demo = False"
  "c_loginName demo = ''me''"
  by (simp_all add: demo_def)

definition demo_world :: dw where
  "demo_world = \<lparr>d_pos = 0, d_reqs = Map.empty, d_next = 0, d_feed = [(2, [9, 8]), (1, [7])], d_polls = 100\<rparr>"

definition demo_start :: "dw sw" where
  "demo_start = \<lparr>world = demo_world, trace = [], mConnected = False, mCanSetPermissions = True, mHost = ''h'',
     mPort = 22, mSession = False, mSftp = False, mUsername = ''me'', mPassword = [], mOpenFile = None,
     mOpenUrl = empty_qurl\<rparr>"

definition demo_online :: "dw sw" where
  "demo_online = demo_start\<lparr>mConnected := True, mSession := True, mSftp := True\<rparr>"

definition demo_url :: qurl where
  "demo_url = empty_qurl\<lparr>scheme := ''sftp'', host := ''h'', path := ''/f''\<rparr>"

definition demo_new :: qurl where
  "demo_new = empty_qurl\<lparr>scheme := ''sftp'', host := ''h'', path := ''/n''\<rparr>"

lemmas evals = call_def act_def tell_def look_def State_Monad.update_def Let_def success_def
  closeConnection_def demo_start_def demo_online_def demo_world_def

lemmas login_evals = demo_dialog_def openConnection_def openConnectionWithoutCloseOnError_def sftpOpenConnection_def
  session_options_def host_check_def authenticate_def public_stage_def auth_none_def auth_gssapi_def
  ask_password_def wasUsernameChanged_def start_sftp_def METHOD_PASSWORD_def METHOD_PUBLICKEY_def
  METHOD_INTERACTIVE_def METHOD_GSSAPI_MIC_def login_failed_def sftp_url_def empty_qurl_def DEFAULT_SFTP_PORT_def

lemma fill_reads_numeral:
  "fill_reads F (numeral k) g =
     (if length (g_pending g) < MAX_PENDING_REQUESTS \<and> g_queued g < g_size g then do {
        r \<leftarrow> queue_read F g;
        case r of None \<Rightarrow> ret None | Some g' \<Rightarrow> fill_reads F (pred_numeral k) g'
      } else ret (Some g))"
  by (simp add: numeral_eq_Suc)

text \<open>Fuel for the witnesses.\<close>

definition demo_fuel :: nat where "demo_fuel = Suc (Suc (Suc (Suc (Suc 0))))"

lemmas read_evals = sftpLogin_def openConnection_def openConnectionWithoutCloseOnError_def logged_in_def
  sftpGet_def get_opened_def get_file_def sftpSendMimetype_def get_transfer_def get_start_def get_offset_def
  asyncRead_def ended_rgen_def queue_read_def read_next_def deliver_def close_file_def MAX_PENDING_REQUESTS_def
  MAX_XFER_BUF_SIZE_def demo_begin_def demo_wait_def demo_bytes_def demo_attr_def demo_killed_def demo_feed_def
  demo_url_def demo_new_def empty_qurl_def fill_reads_numeral fileName_def demo_fuel_def

declare fill_writes.simps [simp del]

lemmas write_evals = sftpPut_def put_checked_def put_part_def put_file_def put_target_def put_open_def
  put_transfer_def put_reader_def put_finish_def put_rename_def put_permissions_def put_owner_def put_mtime_def
  closeOnError_def asyncWrite_def reader_next_def queue_write_def write_next_def part_path_def initial_mode_def
  modeToOptionalPerms_def attr_perms_def KSFTP_ISDIR_def fill_writes.simps[of _ "Suc n" for n]
  fill_writes.simps[of _ 0]

lemmas copy_evals = sftpCopyGet_def copy_get_check_def copy_get_open_def copy_get_finish_def copy_get_rename_def
  copy_get_mtime_def copy_get_permissions_def local_info_def local_open_def local_close_def local_remove_def
  local_rename_def discard_def sftpCopyPut_def

definition no_flags :: job_flags where "no_flags = \<lparr>fl_overwrite = False, fl_resume = False\<rparr>"

definition demo_info :: auth_info where
  "demo_info = \<lparr>ai_url = empty_qurl, ai_username = ''me'', ai_password = [], ai_keepPassword = False\<rparr>"

text \<open>The same with another answer of the user, of the server, of the disk.\<close>

definition demo_renamed :: "dw sftp" where
  "demo_renamed = demo\<lparr>w_passwordDialog := \<lambda>i w. ((None, i\<lparr>ai_username := ''you'', ai_password := ''secret''\<rparr>), w)\<rparr>"

definition demo_offline :: "dw sftp" where
  "demo_offline = demo\<lparr>s_connect := \<lambda>w. (False, w)\<rparr>"

definition demo_readonly :: "dw sftp" where
  "demo_readonly = demo\<lparr>l_info := \<lambda>f w. (\<lparr>fi_exists = f = ''/n'', fi_isDir = False, fi_size = 0\<rparr>, w),
     l_rename := \<lambda>f g w. (False, w), l_setPermissions := \<lambda>f m w. (False, w)\<rparr>"

end
