(* ===== verification/SftpAuthFacts.thy ===== *)
theory SftpAuthFacts
  imports SftpDemo
begin

text \<open>
  What connecting guarantees: nothing is sent to authenticate the user before the key of the server
  of this connection was accepted, a failed attempt leaves no connection, and a connected worker
  has its sessions.
\<close>

section \<open>Which events happen\<close>

named_theorems did_rules

lemma did_closeConnection [did_rules]:
  "P (ESsh SftpFree) \<Longrightarrow> P (ESsh SshDisconnect) \<Longrightarrow> state_io_rel (did P) (closeConnection F)"
  unfolding closeConnection_def by (intro rel_intros did_act did_update) simp_all

lemma did_set_options: "(\<And>o' a. P (ESsh (SshOption o' a))) \<Longrightarrow> state_io_rel (did P) (set_options F os)"
  by (induction F os rule: set_options.induct) (auto intro!: rel_intros did_call)

subsection \<open>The order of the host key and of authentication\<close>

text \<open>
  Reading a trace: whether the key of the current connection is accepted. A new connection starts
  without; an event that authenticates needs it.
\<close>

fun key_after :: "bool \<Rightarrow> ev \<Rightarrow> bool" where
  "key_after k (ESsh (SshConnect _)) = False"
| "key_after k (ESsh (IsKnown h)) = (h = HOST_OK \<or> k)"
| "key_after k (ESsh (UpdateKnownHosts b)) = (b \<or> k)"
| "key_after k _ = k"

fun authenticates :: "ev \<Rightarrow> bool" where
  "authenticates (ESsh (AuthNone _)) = True"
| "authenticates (ESsh (AuthPublickey _)) = True"
| "authenticates (ESsh (AuthGssapi _)) = True"
| "authenticates (ESsh (AuthKbdint _)) = True"
| "authenticates (ESsh (AuthAnswer _ _ _)) = True"
| "authenticates (ESsh (AuthPassword _ _ _)) = True"
| "authenticates _ = False"

fun safe_auth :: "bool \<Rightarrow> ev list \<Rightarrow> bool" where
  "safe_auth k [] = True"
| "safe_auth k (e # es) = ((authenticates e \<longrightarrow> k) \<and> safe_auth (key_after k e) es)"

fun connects :: "ev \<Rightarrow> bool" where
  "connects (ESsh (SshConnect _)) = True"
| "connects _ = False"

lemma safe_append: "safe_auth k (es @ es') = (safe_auth k es \<and> safe_auth (foldl key_after k es) es')"
  by (induction es arbitrary: k) auto

lemma safe_without_auth: "list_all (\<lambda>e. \<not> authenticates e) es \<Longrightarrow> safe_auth k es"
  by (induction es arbitrary: k) auto

lemma key_after_True: "\<not> connects e \<Longrightarrow> key_after True e"
  by (induction True e rule: key_after.induct) auto

lemma safe_without_connect:
  "list_all (\<lambda>e. \<not> connects e) es \<Longrightarrow> safe_auth True es \<and> foldl key_after True es"
  by (induction es) (auto simp: key_after_True)

section \<open>Connecting\<close>

lemma no_auth_before_key: "state_io_rel (did (\<lambda>e. \<not> authenticates e)) (sftpOpenConnection F info)"
  unfolding sftpOpenConnection_def Let_def
  by (intro rel_intros did_rules did_set_options did_call did_tell did_update) simp_all

lemma host_check_no_auth: "state_io_rel (did (\<lambda>e. \<not> authenticates e)) (host_check F)"
  unfolding host_check_def Let_def
  by (intro rel_intros did_call) simp_all

lemma host_check_accepts:
  assumes "run_state (host_check F) s = (Pass, t)"
  shows "\<exists>es. trace t = trace s @ es \<and> foldl key_after k es"
proof -
  have "wp (host_check F) (\<lambda>r t. r = Pass \<longrightarrow> (\<exists>es. trace t = trace s @ es \<and> foldl key_after k es)) s"
    unfolding host_check_def by (auto simp: wp_simps split: prod.splits sum.splits)
  from wp_run[OF this assms] show ?thesis by simp
qed

text \<open>The dialogs for a password leave the user name as it is.\<close>

definition keeps_user :: "'w sftp \<Rightarrow> bool" where
  "keeps_user F \<longleftrightarrow> (\<forall>asked w info w'. w_passwordDialog F asked w = ((None, info), w')
     \<longrightarrow> \<not> wasUsernameChanged F (ai_username asked) info)"

lemma no_connect_ask:
  assumes "keeps_user F"
  shows "state_io_rel (did (\<lambda>e. \<not> connects e)) (ask_password F info)"
  unfolding ask_password_def Let_def
proof (rule rel_bind_call, goal_cases)
  case (2 a w w')
  obtain code filled where a: "a = (code, filled)" by (cases a)
  have "code = None \<Longrightarrow> \<not> wasUsernameChanged F (ai_username info) filled"
    using assms[unfolded keeps_user_def, rule_format, of "info\<lparr>ai_keepPassword := True\<rparr>" w filled w'] 2 a
    by simp
  then show ?case by (auto simp: a intro!: rel_intros split: option.splits)
qed simp

text \<open>
  The stages make no connection but that of the password dialog, so what holds of the other events
  of the session and of that dialog holds of all they do.
\<close>

lemma did_password:
  "(\<And>x. \<not> connects (ESsh x) \<Longrightarrow> P (ESsh x)) \<Longrightarrow> (\<And>i. state_io_rel (did P) (ask_password F i)) \<Longrightarrow>
    state_io_rel (did P) (password_loop F n isFirst info)"
  by (induction n arbitrary: isFirst info)
     (auto intro!: rel_intros did_call simp: Let_def split: prod.splits)

lemma did_pubkey:
  "(\<And>x. \<not> connects (ESsh x) \<Longrightarrow> P (ESsh x)) \<Longrightarrow> state_io_rel (did P) (pubkey_loop F n meth)"
  by (induction n arbitrary: meth) (auto intro!: rel_intros did_call)

lemma did_prompts:
  "(\<And>x. \<not> connects (ESsh x) \<Longrightarrow> P (ESsh x)) \<Longrightarrow> state_io_rel (did P) (kbdint_prompts F i n info)"
  by (induction n arbitrary: i info) (auto intro!: rel_intros did_call simp: Let_def split: prod.splits)

declare kbdint_loop.simps [simp del]

lemma did_kbdint:
  assumes "\<And>x. \<not> connects (ESsh x) \<Longrightarrow> P (ESsh x)"
  shows "state_io_rel (did P) (kbdint_loop F n err info)"
proof (induction n arbitrary: err info)
  case 0
  show ?case by (auto simp: kbdint_loop.simps[of F 0] intro!: rel_intros)
next
  case (Suc n)
  show ?case
    by (auto simp: kbdint_loop.simps[of F "Suc n"] intro!: rel_intros did_call did_prompts Suc assms
        split: prod.splits option.splits)
qed

lemma did_stages:
  assumes "\<And>x. \<not> connects (ESsh x) \<Longrightarrow> P (ESsh x)"
  shows "state_io_rel (did P) (public_stage F n)" "state_io_rel (did P) (auth_interactive F n meth info)"
  unfolding public_stage_def auth_none_def auth_gssapi_def auth_interactive_def
    authenticateKeyboardInteractive_def
  by (auto intro!: rel_intros did_call did_pubkey did_kbdint assms split: sum.splits option.splits prod.splits)

lemma did_authenticate:
  assumes "\<And>x. \<not> connects (ESsh x) \<Longrightarrow> P (ESsh x)" "\<And>i. state_io_rel (did P) (ask_password F i)"
  shows "state_io_rel (did P) (authenticate F n info)"
  unfolding authenticate_def
  by (auto intro!: rel_intros did_stages did_password assms split: sum.splits option.splits prod.splits)

lemma did_start:
  assumes "\<And>x. \<not> connects (ESsh x) \<Longrightarrow> P (ESsh x)" "\<And>x. P (EApp (Info x))" "P (EApp SpecialTimeout)"
  shows "state_io_rel (did P) (start_sftp F info)"
  unfolding start_sftp_def by (intro rel_intros did_call did_tell did_update) (simp_all add: assms)

lemma no_connect_authenticate:
  "keeps_user F \<Longrightarrow> state_io_rel (did (\<lambda>e. \<not> connects e)) (authenticate F n info)"
  by (rule did_authenticate) (simp_all add: no_connect_ask)

lemma no_connect_start: "state_io_rel (did (\<lambda>e. \<not> connects e)) (start_sftp F info)"
  by (rule did_start) simp_all

subsection \<open>What a login does at all\<close>

fun login_event :: "ev \<Rightarrow> bool" where
  "login_event (ESsh e) = True"
| "login_event (EApp (Info x)) = True"
| "login_event (EApp SpecialTimeout) = True"
| "login_event (EApp (Redirect u)) = True"
| "login_event e = False"

lemma did_sftpOpenConnection:
  assumes "\<And>x. P (ESsh x)" "\<And>x. P (EApp (Info x))"
  shows "state_io_rel (did P) (sftpOpenConnection F info)"
  unfolding sftpOpenConnection_def Let_def
  by (intro rel_intros did_rules did_set_options did_call did_tell did_update) (simp_all add: assms)

lemma did_ask_password:
  assumes "\<And>x. P (ESsh x)" "\<And>x. P (EApp (Info x))"
  shows "state_io_rel (did P) (ask_password F info)"
  unfolding ask_password_def Let_def
  by (auto intro!: rel_intros did_call did_sftpOpenConnection assms split: prod.splits option.splits)

lemma did_host_check:
  "(\<And>x. \<not> connects (ESsh x) \<Longrightarrow> P (ESsh x)) \<Longrightarrow> state_io_rel (did P) (host_check F)"
  unfolding host_check_def Let_def
  by (auto intro!: rel_intros did_call split: sum.splits prod.splits)

lemma login_events: "state_io_rel (did login_event) (sftpLogin F n)"
proof -
  have "state_io_rel (did login_event) (openConnectionWithoutCloseOnError F n)"
    unfolding openConnectionWithoutCloseOnError_def Let_def
    by (auto intro!: rel_intros did_call did_host_check did_authenticate did_start did_sftpOpenConnection
        did_ask_password split: option.splits prod.splits)
  then have "state_io_rel (did login_event) (openConnection F n)"
    unfolding openConnection_def
    by (auto intro!: rel_intros did_update did_closeConnection split: option.splits)
  then show ?thesis
    unfolding sftpLogin_def Let_def
    by (auto intro!: rel_intros did_tell split: option.splits)
qed

text \<open>\<open>guarded K s t\<close>: what was added since \<open>s\<close> is safe, and with \<open>K\<close> the key is accepted in the end.\<close>

definition guarded :: "bool \<Rightarrow> 'w sw \<Rightarrow> 'w sw \<Rightarrow> bool" where
  "guarded K s t \<longleftrightarrow> (\<exists>es. trace t = trace s @ es \<and> safe_auth False es \<and> (K \<longrightarrow> foldl key_after False es))"

lemma guarded_refl: "trace t = trace s \<Longrightarrow> guarded False s t"
  by (simp add: guarded_def)

lemma guarded_weaken: "guarded K s t \<Longrightarrow> guarded False s t"
  by (auto simp: guarded_def)

lemma guarded_append:
  assumes "guarded K s t" "trace u = trace t @ es" "\<And>k. K \<longrightarrow> k \<Longrightarrow> safe_auth k es \<and> (K' \<longrightarrow> foldl key_after k es)"
  shows "guarded K' s u"
  using assms by (fastforce simp: guarded_def safe_append)

lemma guarded_no_auth:
  assumes "state_io_rel (did (\<lambda>e. \<not> authenticates e)) m" "guarded K s0 s"
  shows "wp m (\<lambda>_ t. guarded False s0 t) s"
proof (rule wpI)
  fix a t
  assume r: "run_state m s = (a, t)"
  obtain es where "trace t = trace s @ es" "list_all (\<lambda>e. \<not> authenticates e) es"
    using did_run[OF assms(1) r] by blast
  then show "guarded False s0 t"
    using guarded_append[OF assms(2), of t es False] safe_without_auth by blast
qed

lemma guarded_no_connect:
  assumes "state_io_rel (did (\<lambda>e. \<not> connects e)) m" "guarded True s0 s"
  shows "wp m (\<lambda>_ t. guarded True s0 t) s"
proof (rule wpI)
  fix a t
  assume r: "run_state m s = (a, t)"
  obtain es where "trace t = trace s @ es" "list_all (\<lambda>e. \<not> connects e) es"
    using did_run[OF assms(1) r] by blast
  then show "guarded True s0 t"
    by (intro guarded_append[OF assms(2)]) (auto dest: safe_without_connect)
qed

lemma guarded_host_check:
  assumes "guarded K s0 s"
  shows "wp (host_check F) (\<lambda>r t. guarded (r = Pass) s0 t) s"
proof (rule wpI)
  fix r t
  assume r: "run_state (host_check F) s = (r, t)"
  obtain es where es: "trace t = trace s @ es" "list_all (\<lambda>e. \<not> authenticates e) es"
    using relD[OF host_check_no_auth r] by (auto simp: did_def)
  have "foldl key_after k es" if "r = Pass" for k
    using host_check_accepts[of F s t k] r that es by auto
  then show "guarded (r = Pass) s0 t"
    using guarded_append[OF assms es(1)] safe_without_auth[OF es(2)] by blast
qed

lemma openConnection_guarded:
  assumes "keeps_user F"
  shows "wp (openConnectionWithoutCloseOnError F n) (\<lambda>_ t. guarded False s t) s"
proof -
  have start: "wp (do { r \<leftarrow> start_sftp F info; ret (Some r) }) (\<lambda>_ t. guarded False s t) u"
    if "guarded True s u" for info u
    by (rule wp_seq, rule wp_mono[OF guarded_no_connect[OF no_connect_start that]])
       (auto simp: wp_simps intro: guarded_weaken)
  have auth: "wp (do { r \<leftarrow> authenticate F n info;
      case r of None \<Rightarrow> ret None
      | Some (r, info) \<Rightarrow> (if \<not> success r then ret (Some r) else do { r \<leftarrow> start_sftp F info; ret (Some r) }) })
      (\<lambda>_ t. guarded False s t) u" if "guarded True s u" for info u
    by (rule wp_seq, rule wp_mono[OF guarded_no_connect[OF no_connect_authenticate[OF assms] that]])
       (auto simp: wp_return intro!: start intro: guarded_weaken split: option.splits)
  have check: "wp (do { r \<leftarrow> host_check F; if \<not> success r then ret (Some r) else do { r \<leftarrow> authenticate F n info;
      case r of None \<Rightarrow> ret None
      | Some (r, info) \<Rightarrow> (if \<not> success r then ret (Some r) else do { r \<leftarrow> start_sftp F info; ret (Some r) }) } })
      (\<lambda>_ t. guarded False s t) u" if "guarded False s u" for info u
    by (rule wp_seq, rule wp_mono[OF guarded_host_check[OF that]])
       (auto simp: wp_return success_def intro!: auth intro: guarded_weaken)
  have conn: "wp (do { r \<leftarrow> sftpOpenConnection F info; if \<not> success r then ret (Some r) else
      do { r \<leftarrow> host_check F; if \<not> success r then ret (Some r) else do { r \<leftarrow> authenticate F n info;
      case r of None \<Rightarrow> ret None
      | Some (r, info) \<Rightarrow> (if \<not> success r then ret (Some r) else do { r \<leftarrow> start_sftp F info; ret (Some r) }) } } })
      (\<lambda>_ t. guarded False s t) u" if "guarded False s u" for info u
    by (rule wp_seq, rule wp_mono[OF guarded_no_auth[OF no_auth_before_key that]])
       (auto simp: wp_return intro!: check)
  have cached: "guarded False s (s\<lparr>world := w, trace := trace s @ [ESsh (CachedAuth a)]\<rparr>)" for w a
    by (simp add: guarded_def)
  show ?thesis
    unfolding openConnectionWithoutCloseOnError_def Let_def
    by (auto simp: wp_bind wp_get wp_return wp_call guarded_refl wp_if
        intro!: conn[unfolded wp_bind] cached split: prod.splits)
qed

lemma did_no_auth_close: "state_io_rel (did (\<lambda>e. \<not> authenticates e)) (closeConnection F)"
  by (rule did_closeConnection) simp_all



section \<open>A changed user name\<close>

lemma open_connects_last:
  assumes "run_state (sftpOpenConnection F info) s = (Pass, t)"
  shows "\<exists>es. trace t = trace s @ es @ [ESsh (SshConnect True)]"
proof -
  have close: "wp (closeConnection F) (\<lambda>_ t. \<exists>es. trace t = trace s @ es) s" for s
    using did_closeConnection[of "\<lambda>_. True" F] by (intro wpI) (auto dest!: did_run)
  have opts: "wp (set_options F os) (\<lambda>_ t. \<exists>es. trace t = trace s @ es) s" for s os
    using did_set_options[of "\<lambda>_. True" F] by (intro wpI) (auto dest!: did_run)
  have "wp (sftpOpenConnection F info) (\<lambda>r t. r = Pass \<longrightarrow> (\<exists>es. trace t = trace s @ es @ [ESsh (SshConnect True)])) s"
    unfolding sftpOpenConnection_def
    apply (simp add: wp_bind)
    apply (rule wp_mono[OF close])
    apply (auto simp: wp_bind wp_call wp_update wp_get wp_return split: prod.splits)
    apply (rule wp_mono[OF opts])
    apply (auto simp: wp_bind wp_call wp_update wp_get wp_return wp_tell wp_look split: prod.splits
        intro!: wpI)
    done
  from wp_run[OF this assms] show ?thesis by simp
qed

lemma unsafe_append: "\<not> safe_auth k es \<Longrightarrow> \<not> safe_auth k (es @ es')"
  by (simp add: safe_append)

lemma did_True_password: "state_io_rel (did (\<lambda>_. True)) (password_loop F n isFirst info)"
  by (rule did_password) (simp_all add: did_ask_password)

text \<open>
  When the user changes the name in the password dialog the worker connects again and sends the
  password over the new connection, whose host key nobody has looked at.
\<close>

lemma changed_user_skips_host_key:
  assumes "ai_password info = []"
    "w_passwordDialog F (info\<lparr>ai_keepPassword := True\<rparr>) (world s) = ((None, filled), w)"
    "wasUsernameChanged F (ai_username info) filled" "userName (ai_url filled) = []"
    "run_state (sftpOpenConnection F filled)
       (s\<lparr>world := w, trace := trace s @ [ESsh (PasswordDialog (info\<lparr>ai_keepPassword := True\<rparr>) (None, filled))]\<rparr>)
       = (Pass, u)"
    "run_state (password_loop F (Suc n) isFirst info) s = (r, t)"
  shows "\<exists>es. trace t = trace s @ es \<and> \<not> safe_auth True es"
proof -
  define s1 where "s1 = s\<lparr>world := w, trace := trace s
    @ [ESsh (PasswordDialog (info\<lparr>ai_keepPassword := True\<rparr>) (None, filled))]\<rparr>"
  obtain es where es: "trace u = trace s1 @ es @ [ESsh (SshConnect True)]"
    using open_connects_last[of F filled s1 u] assms(5) by (auto simp: s1_def)
  have ask: "run_state (ask_password F info) s = ((Pass, filled), u)"
    using assms(2-5) by (simp add: ask_password_def Let_def run_call[of "w_passwordDialog F (info\<lparr>ai_keepPassword := True\<rparr>)", OF assms(2)])
  define a where "a = fst (s_authPassword F (ai_username filled) (ai_password filled) (world u))"
  define v where "v = u\<lparr>world := snd (s_authPassword F (ai_username filled) (ai_password filled) (world u)),
    trace := trace u @ [ESsh (AuthPassword (ai_username filled) (ai_password filled) a)]\<rparr>"
  have auth: "run_state (call (s_authPassword F (ai_username filled) (ai_password filled))
      (\<lambda>a. ESsh (AuthPassword (ai_username filled) (ai_password filled) a))) u = (a, v)"
    by (simp add: call_def a_def v_def prod.case_eq_if)
  have "run_state (password_loop F (Suc n) isFirst info) s
      = run_state (if a = AUTH_SUCCESS then ret (Some (Pass, filled))
         else if a = AUTH_ERROR then ret (Some (login_failed, filled))
         else password_loop F n False (filled\<lparr>ai_password := []\<rparr>)) v"
    using assms(1) by (simp add: ask auth)
  moreover have "state_io_rel (did (\<lambda>_. True)) (if a = AUTH_SUCCESS then ret (Some (Pass, filled))
         else if a = AUTH_ERROR then ret (Some (login_failed, filled))
         else password_loop F n False (filled\<lparr>ai_password := []\<rparr>))"
    by (intro rel_intros did_True_password)
  ultimately obtain es' where "trace t = trace v @ es'"
    using did_run assms(6) by metis
  then have "trace t = trace s @ ([ESsh (PasswordDialog (info\<lparr>ai_keepPassword := True\<rparr>) (None, filled))] @ es
      @ [ESsh (SshConnect True), ESsh (AuthPassword (ai_username filled) (ai_password filled) a)]) @ es'"
    by (simp add: v_def es s1_def)
  moreover have "\<not> safe_auth True ([ESsh (PasswordDialog (info\<lparr>ai_keepPassword := True\<rparr>) (None, filled))] @ es
      @ [ESsh (SshConnect True), ESsh (AuthPassword (ai_username filled) (ai_password filled) a)])"
    by (simp add: safe_append)
  ultimately show ?thesis using unsafe_append by blast
qed

lemma changed_user_skips_host_key_instance:
  "\<exists>es. trace (snd (run_state (password_loop demo_renamed 1 True demo_info) demo_start)) = trace demo_start @ es
     \<and> \<not> safe_auth True es"
proof -
  let ?asked = "demo_info\<lparr>ai_keepPassword := True\<rparr>"
  let ?filled = "?asked\<lparr>ai_username := ''you'', ai_password := ''secret''\<rparr>"
  let ?s = "demo_start\<lparr>world := demo_world, trace := trace demo_start @ [ESsh (PasswordDialog ?asked (None, ?filled))]\<rparr>"
  have run: "run_state (sftpOpenConnection demo_renamed ?filled) ?s
      = (Pass, snd (run_state (sftpOpenConnection demo_renamed ?filled) ?s))"
    by (simp add: evals login_evals demo_renamed_def demo_info_def)
  have dialog: "w_passwordDialog demo_renamed ?asked (world demo_start) = ((None, ?filled), demo_world)"
    by (simp add: demo_renamed_def demo_start_def)
  have facts: "ai_password demo_info = []" "wasUsernameChanged demo_renamed (ai_username demo_info) ?filled"
      "userName (ai_url ?filled) = []"
    by (simp_all add: demo_info_def wasUsernameChanged_def empty_qurl_def)
  have "run_state (password_loop demo_renamed 1 True demo_info) demo_start
      = run_state (password_loop demo_renamed (Suc 0) True demo_info) demo_start" by simp
  from changed_user_skips_host_key[OF facts(1) dialog facts(2,3) run trans[OF this[symmetric] prod.collapse[symmetric]]]
  show ?thesis .
qed

section \<open>Failing and succeeding\<close>

text \<open>
  A login that fails leaves the worker without a session of either kind, not connected.
\<close>

lemma failed_connection_is_closed:
  assumes "run_state (openConnection F n) s = (Some (Fail e x), t)"
  shows "\<not> mConnected t \<and> \<not> mSession t \<and> \<not> mSftp t"
proof -
  have closed: "wp (closeConnection F) (\<lambda>_ t. \<not> mConnected t \<and> \<not> mSession t \<and> \<not> mSftp t) u" for u
    by (simp add: closeConnection_def wp_bind wp_get wp_update wp_act wp_return)
  have "wp (openConnection F n) (\<lambda>r t. \<forall>e x. r = Some (Fail e x) \<longrightarrow> \<not> mConnected t \<and> \<not> mSession t \<and> \<not> mSftp t) s"
    unfolding openConnection_def
    apply (simp add: wp_bind wp_update)
    apply (rule wpI)
    apply (auto simp: wp_bind wp_return success_def intro!: wp_mono[OF closed] split: option.splits)
    done
  from wp_run[OF this assms] show ?thesis by simp
qed

end
