(* ===== verification/SftpGetFacts.thy ===== *)
theory SftpGetFacts
  imports SftpAuthFacts
begin

text \<open>
  What reading delivers: a transfer that ends without a request to stop and without an error has
  handed over the bytes of the file from the offset on, in order and complete, however many
  requests are pending; and it ends.
\<close>

section \<open>Events of a transfer\<close>

fun sent_by :: "ev \<Rightarrow> byte list" where
  "sent_by (EApp (Data d)) = d"
| "sent_by _ = []"

fun stored_by :: "int \<Rightarrow> ev \<Rightarrow> byte list" where
  "stored_by fd (ELocal (LWrite fd' d (Written k))) = (if fd' = fd then take k d else [])"
| "stored_by fd _ = []"

text \<open>What the application has got, or what was written to the local file.\<close>

definition delivered :: "int \<Rightarrow> ev list \<Rightarrow> byte list" where
  "delivered fd es = concat (map (if fd = -1 then sent_by else stored_by fd) es)"

lemma delivered_append [simp]: "delivered fd (es @ es') = delivered fd es @ delivered fd es'"
  by (simp add: delivered_def)

lemma delivered_Nil [simp]: "delivered fd [] = []"
  by (simp add: delivered_def)

fun quiet :: "ev \<Rightarrow> bool" where
  "quiet (EApp (Data d)) = False"
| "quiet (EApp CanResume) = False"
| "quiet (EApp (WasKilled b)) = (\<not> b)"
| "quiet (ELocal (LWrite fd d r)) = False"
| "quiet _ = True"

lemma quiet_delivers: "quiet e \<Longrightarrow> sent_by e = [] \<and> stored_by fd e = []"
  by (induction e rule: quiet.induct) auto

lemma delivered_quiet: "list_all quiet es \<Longrightarrow> delivered fd es = []"
  by (induction es) (auto simp: delivered_def quiet_delivers)

lemma delivered_Cons_quiet: "quiet e \<Longrightarrow> delivered fd (e # es) = delivered fd es"
  by (simp add: delivered_def quiet_delivers)

lemma quiet_not_in: "list_all quiet es \<Longrightarrow> EApp CanResume \<notin> set es \<and> EApp (WasKilled True) \<notin> set es"
  by (induction es) auto

section \<open>A server with one file\<close>

text \<open>
  libssh reads ahead from a position: a request takes the next bytes and gets the answer for the
  place where it was made. \<open>pos\<close> is the position, \<open>reqs\<close> the requests that are not answered yet.
\<close>

definition serves ::
  "'w sftp \<Rightarrow> string \<Rightarrow> byte list \<Rightarrow> ('w \<Rightarrow> nat) \<Rightarrow> ('w \<Rightarrow> int \<Rightarrow> (nat \<times> nat) option) \<Rightarrow> bool" where
  "serves F p c pos reqs \<longleftrightarrow>
     (\<forall>w sb w'. s_stat F p w = (Some sb, w') \<longrightarrow> unat (a_size sb) = length c)
   \<and> (\<forall>f w. pos (s_rewind F f w) = 0)
   \<and> (\<forall>f at w ok w'. s_seek F f at w = (ok, w') \<longrightarrow> pos w' = (if ok then unat at else pos w))
   \<and> (\<forall>w lim w'. s_limits F w = (lim, w') \<longrightarrow> pos w' = pos w)
   \<and> (\<forall>f n w a w'. s_begin_read F f n w = (Some a, w') \<longrightarrow>
        reqs w a = None \<and> pos w' = pos w + n \<and> reqs w' = (reqs w)(a \<mapsto> (pos w, n)))
   \<and> (\<forall>a w d w'. s_wait_read F a w = (Some d, w') \<longrightarrow>
        (\<forall>q n. reqs w a = Some (q, n) \<longrightarrow> d = take n (drop q c)) \<and> pos w' = pos w \<and> reqs w' = (reqs w)(a := None))
   \<and> (\<forall>w b w'. w_wasKilled F w = (b, w') \<longrightarrow> pos w' = pos w \<and> reqs w' = reqs w)
   \<and> (\<forall>fd d w r w'. l_write F fd d w = (r, w') \<longrightarrow> pos w' = pos w \<and> reqs w' = reqs w)"

lemma serves_wait:
  assumes "serves F p c pos reqs" "s_wait_read F a w = (Some d, w')"
  shows "reqs w a = Some (q, n) \<Longrightarrow> d = take n (drop q c)" "pos w' = pos w" "reqs w' = (reqs w)(a := None)"
  using assms unfolding serves_def by simp_all

lemma serves_begin:
  assumes "serves F p c pos reqs" "s_begin_read F f n w = (Some a, w')"
  shows "reqs w a = None" "pos w' = pos w + n" "reqs w' = (reqs w)(a \<mapsto> (pos w, n))"
  using assms unfolding serves_def by simp_all

lemma serves_same:
  assumes "serves F p c pos reqs"
  shows "w_wasKilled F w = (b, w') \<Longrightarrow> pos w' = pos w \<and> reqs w' = reqs w"
    "l_write F fd d w = (r, w') \<Longrightarrow> pos w' = pos w \<and> reqs w' = reqs w"
    "s_limits F w = (lim, w') \<Longrightarrow> pos w' = pos w"
  using assms unfolding serves_def by blast+

text \<open>The pending requests cover consecutive parts of the file, in their order.\<close>

fun laid :: "(int \<Rightarrow> (nat \<times> nat) option) \<Rightarrow> nat \<Rightarrow> int list \<Rightarrow> nat list \<Rightarrow> bool" where
  "laid q p [] [] = True"
| "laid q p (a # as) (l # ls) = (q a = Some (p, l) \<and> laid q (p + l) as ls)"
| "laid q p _ _ = False"

lemma laid_append: "laid q p as ls \<Longrightarrow> q a = Some (p + sum_list ls, l) \<Longrightarrow> laid q p (as @ [a]) (ls @ [l])"
  by (induction q p as ls rule: laid.induct) (auto simp: add.assoc)

lemma laid_other: "laid q p as ls \<Longrightarrow> a \<notin> set as \<Longrightarrow> laid (q(a := x)) p as ls"
  by (induction q p as ls rule: laid.induct) auto

lemma laid_fresh: "laid q p as ls \<Longrightarrow> q a = None \<Longrightarrow> a \<notin> set as"
  by (induction q p as ls rule: laid.induct) auto

lemma laid_Nil: "laid q p [] ls \<Longrightarrow> ls = []"
  by (cases ls) auto

lemma laid_Cons: "laid q p (a # as) ls \<Longrightarrow> \<exists>l ls'. ls = l # ls' \<and> q a = Some (p, l) \<and> laid q (p + l) as ls'"
  by (cases ls) auto

definition reading :: "nat \<Rightarrow> ('w \<Rightarrow> nat) \<Rightarrow> ('w \<Rightarrow> int \<Rightarrow> (nat \<times> nat) option) \<Rightarrow> 'w \<Rightarrow> rgen \<Rightarrow> bool" where
  "reading start pos reqs w g \<longleftrightarrow> (\<exists>ls. laid (reqs w) (start + g_received g) (g_pending g) ls
     \<and> distinct (g_pending g) \<and> g_received g + sum_list ls = g_queued g \<and> g_queued g \<le> g_size g
     \<and> pos w = start + g_queued g \<and> (\<forall>l \<in> set ls. l \<le> g_chunk g))"

lemma queue_read_quiet: "state_io_rel (did quiet) (queue_read F g)"
  unfolding queue_read_def Let_def by (intro rel_intros did_call) simp_all

lemma queue_read_reading:
  assumes "serves F p c pos reqs" "reading start pos reqs (world s) g"
    "run_state (queue_read F g) s = (Some g', t)"
  shows "reading start pos reqs (world t) g' \<and> g_received g' = g_received g \<and> g_size g' = g_size g
    \<and> g_chunk g' = g_chunk g \<and> (g_pending g' = [] \<longrightarrow> g_queued g' = g_size g')
    \<and> (\<forall>x v. reqs (world s) x = Some v \<longrightarrow> reqs (world t) x = Some v
         \<and> (x \<notin> set (g_pending g) \<longrightarrow> x \<notin> set (g_pending g')))"
proof (cases "g_queued g \<ge> g_size g")
  case True
  then show ?thesis using assms(2,3) by (auto simp: queue_read_def reading_def)
next
  case False
  define len where "len = min (g_chunk g) (g_size g - g_queued g)"
  obtain a w where a: "s_begin_read F (g_file g) len (world s) = (Some a, w)"
      "g' = g\<lparr>g_pending := g_pending g @ [a], g_queued := g_queued g + len\<rparr>" "world t = w"
    using assms(3) False
    by (auto simp: queue_read_def Let_def call_def len_def split: prod.splits option.splits)
  have law: "reqs (world s) a = None" "pos w = pos (world s) + len"
      "reqs w = (reqs (world s))(a \<mapsto> (pos (world s), len))"
    by (rule serves_begin[OF assms(1) a(1)])+
  obtain ls where ls: "laid (reqs (world s)) (start + g_received g) (g_pending g) ls"
      "distinct (g_pending g)" "g_received g + sum_list ls = g_queued g" "g_queued g \<le> g_size g"
      "pos (world s) = start + g_queued g" "\<forall>l \<in> set ls. l \<le> g_chunk g"
    using assms(2) unfolding reading_def by blast
  have new: "a \<notin> set (g_pending g)" using laid_fresh[OF ls(1) law(1)] .
  have "laid (reqs w) (start + g_received g) (g_pending g @ [a]) (ls @ [len])"
    using laid_append[OF laid_other[OF ls(1) new, where x = "Some (pos (world s), len)"], where a = a and l = len]
      ls(3,5) law(3) by (simp add: add.assoc)
  then have "reading start pos reqs w g'"
    using ls new law(2) a(2) False unfolding reading_def by (intro exI[of _ "ls @ [len]"]) (auto simp: len_def)
  then show ?thesis using a law by (auto simp: len_def)
qed

lemma fill_reads_quiet: "state_io_rel (did quiet) (fill_reads F n g)"
  by (induction n arbitrary: g) (auto intro!: rel_intros queue_read_quiet)

lemma fill_reads_reading:
  assumes "serves F p c pos reqs"
  shows "reading start pos reqs (world s) g \<Longrightarrow> MAX_PENDING_REQUESTS \<le> n + length (g_pending g) \<Longrightarrow>
    run_state (fill_reads F n g) s = (Some g', t) \<Longrightarrow>
    reading start pos reqs (world t) g' \<and> g_received g' = g_received g \<and> g_size g' = g_size g
    \<and> (g_pending g' = [] \<longrightarrow> g_queued g' = g_size g')"
proof (induction n arbitrary: g s)
  case 0
  then show ?case by (auto simp: MAX_PENDING_REQUESTS_def)
next
  case (Suc n)
  show ?case
  proof (cases "length (g_pending g) < MAX_PENDING_REQUESTS \<and> g_queued g < g_size g")
    case False
    then show ?thesis using Suc.prems by (auto simp: MAX_PENDING_REQUESTS_def reading_def)
  next
    case True
    obtain r u where r: "run_state (queue_read F g) s = (r, u)" by fastforce
    obtain g1 where g1: "r = Some g1" "run_state (fill_reads F n g1) u = (Some g', t)"
      using Suc.prems(3) True r by (auto split: option.splits)
    have q: "reading start pos reqs (world u) g1" "g_received g1 = g_received g" "g_size g1 = g_size g"
      using queue_read_reading[OF assms Suc.prems(1) r[unfolded g1(1)]] by auto
    have "length (g_pending g1) = Suc (length (g_pending g))"
      using r g1(1) True by (auto simp: queue_read_def Let_def call_def split: prod.splits option.splits)
    then show ?thesis using Suc.IH[OF q(1) _ g1(2)] Suc.prems(2) q by auto
  qed
qed

lemma read_next_quiet: "state_io_rel (did quiet) (read_next F g)"
  unfolding read_next_def Let_def
  by (auto intro!: rel_intros queue_read_quiet did_call split: list.splits option.splits)

lemma queue_read_received:
  "run_state (queue_read F (g\<lparr>g_received := r\<rparr>)) s
     = map_prod (map_option (\<lambda>g. g\<lparr>g_received := r\<rparr>)) id (run_state (queue_read F g) s)"
  by (simp add: queue_read_def Let_def call_def split: prod.splits option.splits)

lemma queue_read_fields:
  "run_state (queue_read F g) s = (Some g', t) \<Longrightarrow>
    g_received g' = g_received g \<and> g_size g' = g_size g \<and> g_chunk g' = g_chunk g"
  by (auto simp: queue_read_def Let_def call_def split: prod.splits option.splits if_splits)

lemma reading_pop:
  assumes "reading start pos reqs w g" "g_pending g = a # as"
  obtains l where "reqs w a = Some (start + g_received g, l)" "l \<le> g_chunk g" "g_received g + l \<le> g_size g" "a \<notin> set as"
    "reading start pos reqs w (g\<lparr>g_pending := as, g_received := g_received g + l\<rparr>)"
proof -
  from assms obtain ls where ls: "laid (reqs w) (start + g_received g) (a # as) ls"
      "distinct (a # as)" "g_received g + sum_list ls = g_queued g" "g_queued g \<le> g_size g"
      "pos w = start + g_queued g" "\<forall>l \<in> set ls. l \<le> g_chunk g"
    unfolding reading_def by metis
  obtain l ls' where l: "ls = l # ls'" "reqs w a = Some (start + g_received g, l)"
      "laid (reqs w) (start + g_received g + l) as ls'"
    using laid_Cons[OF ls(1)] by blast
  show ?thesis
    by (rule that[of l]) (use ls l in \<open>auto simp: reading_def add.assoc intro!: exI[of _ ls']\<close>)
qed

lemma reading_answered:
  assumes "reading start pos reqs w g" "a \<notin> set (g_pending g)" "pos w' = pos w" "reqs w' = (reqs w)(a := None)"
  shows "reading start pos reqs w' g"
  using assms laid_other[of "reqs w" _ "g_pending g" _ a None] unfolding reading_def by fastforce

lemma read_next_reading:
  assumes "serves F p c pos reqs" "reading start pos reqs (world s) g"
    "g_pending g = [] \<longrightarrow> g_queued g = g_size g" "run_state (read_next F g) s = ((step, g'), t)"
  shows "step = ReadEnd \<Longrightarrow> g_received g = g_size g"
    "step = ReadBytes d \<Longrightarrow> reading start pos reqs (world t) g' \<and> (g_pending g' = [] \<longrightarrow> g_queued g' = g_size g')
      \<and> g_received g' = g_received g + length d \<and> g_size g' = g_size g
      \<and> d = take (length d) (drop (start + g_received g) c)"
proof -
  have "(step = ReadEnd \<longrightarrow> g_received g = g_size g)
    \<and> (step = ReadBytes d \<longrightarrow> reading start pos reqs (world t) g' \<and> (g_pending g' = [] \<longrightarrow> g_queued g' = g_size g')
      \<and> g_received g' = g_received g + length d \<and> g_size g' = g_size g
      \<and> d = take (length d) (drop (start + g_received g) c))"
  proof (cases "g_pending g")
    case Nil
    then show ?thesis using assms(2-4) by (auto simp: read_next_def reading_def dest: laid_Nil)
  next
    case (Cons a as)
    obtain l where l: "reqs (world s) a = Some (start + g_received g, l)" "l \<le> g_chunk g" "g_received g + l \<le> g_size g"
        "a \<notin> set as" "reading start pos reqs (world s) (g\<lparr>g_pending := as, g_received := g_received g + l\<rparr>)"
      using reading_pop[OF assms(2) Cons] .
    obtain r u where r: "run_state (queue_read F (g\<lparr>g_pending := as\<rparr>)) s = (r, u)" by fastforce
    show ?thesis
    proof (cases r)
      case None
      then show ?thesis using assms(4) Cons r by (auto simp: read_next_def)
    next
      case (Some g1)
      let ?g2 = "g1\<lparr>g_received := g_received g + l\<rparr>"
      have "run_state (queue_read F (g\<lparr>g_pending := as, g_received := g_received g + l\<rparr>)) s = (Some ?g2, u)"
        using queue_read_received[where g = "g\<lparr>g_pending := as\<rparr>" and r = "g_received g + l" and s = s and F = F] r Some
        by simp
      note q = queue_read_reading[OF assms(1) l(5) this]
      have q1: "reading start pos reqs (world u) ?g2" using q by blast
      have q2: "g_pending g1 = [] \<longrightarrow> g_queued g1 = g_size g1" using q by simp
      have q3: "reqs (world u) a = Some (start + g_received g, l)" using q l(1) by blast
      have q4: "a \<notin> set (g_pending g1)" using q l(1,4) by simp
      have g1: "g_received g1 = g_received g" "g_size g1 = g_size g" "g_chunk g1 = g_chunk g"
        using queue_read_fields[of F "g\<lparr>g_pending := as\<rparr>"] r Some by simp_all
      obtain x w where x: "s_wait_read F a (world u) = (x, w)" by fastforce
      show ?thesis
      proof (cases x)
        case None
        then show ?thesis using assms(4) Cons r Some x by (auto simp: read_next_def call_def)
      next
        case (Some e)
        note law = serves_wait[OF assms(1) x[unfolded Some]]
        have e: "e = take l (drop (start + g_received g) c)" using law(1)[OF q3] .
        have r2: "reading start pos reqs w ?g2"
          by (rule reading_answered[OF q1 _ law(2,3)]) (simp add: q4)
        have len: "length e = l" if "length e = g_chunk g \<or> g_received g + length e = g_size g"
        proof -
          have "length e \<le> l" by (simp add: e)
          then show ?thesis using that l(2,3) by auto
        qed
        have "(step = ReadBytes e \<and> length e = l \<and> g' = ?g2 \<and> world t = w) \<or> (\<exists>k. step = ReadError k)"
          using assms(4) Cons r x Some \<open>r = Some g1\<close> g1 len
          by (auto simp: read_next_def call_def Let_def split: if_splits)
        then show ?thesis using r2 q2 g1 e by auto
      qed
    qed
  qed
  then show "step = ReadEnd \<Longrightarrow> g_received g = g_size g"
    "step = ReadBytes d \<Longrightarrow> reading start pos reqs (world t) g' \<and> (g_pending g' = [] \<longrightarrow> g_queued g' = g_size g')
      \<and> g_received g' = g_received g + length d \<and> g_size g' = g_size g
      \<and> d = take (length d) (drop (start + g_received g) c)" by blast+
qed

section \<open>Delivery\<close>

text \<open>\<open>writeToFile\<close> stores the whole block when it reports no error.\<close>

definition undisturbed :: "int \<Rightarrow> ev list \<Rightarrow> byte list \<Rightarrow> bool" where
  "undisturbed fd es d \<longleftrightarrow> delivered fd es = d \<and> EApp CanResume \<notin> set es \<and> EApp (WasKilled True) \<notin> set es"

lemma undisturbed_append: "undisturbed fd es d \<Longrightarrow> undisturbed fd es' d' \<Longrightarrow> undisturbed fd (es @ es') (d @ d')"
  by (auto simp: undisturbed_def)

lemma undisturbed_quiet: "list_all quiet es \<Longrightarrow> undisturbed fd es []"
  by (auto simp: undisturbed_def delivered_quiet dest: quiet_not_in)

lemma writeToFile_stores:
  assumes laws: "serves F p c pos reqs" and fd: "fd \<noteq> -1"
  shows "run_state (writeToFile F n fd d) s = (Some None, t) \<Longrightarrow>
    pos (world t) = pos (world s) \<and> reqs (world t) = reqs (world s)
    \<and> (\<exists>es. trace t = trace s @ es \<and> undisturbed fd es d)"
proof (induction n arbitrary: d s)
  case 0
  then show ?case by (cases d) (auto simp: undisturbed_def)
next
  case (Suc n)
  show ?case
  proof (cases d)
    case Nil
    then show ?thesis using Suc.prems by (auto simp: undisturbed_def)
  next
    case (Cons b bs)
    obtain r w where r: "l_write F fd d (world s) = (r, w)" by fastforce
    define u where "u = s\<lparr>world := w, trace := trace s @ [ELocal (LWrite fd d r)]\<rparr>"
    define d' where "d' = (case r of Written k \<Rightarrow> drop k d | _ \<Rightarrow> d)"
    have run: "run_state (writeToFile F n fd d') u = (Some None, t)"
      using Suc.prems r Cons by (auto simp: call_def u_def d'_def split: written.splits if_splits)
    have first: "undisturbed fd [ELocal (LWrite fd d r)] (case r of Written k \<Rightarrow> take k d | _ \<Rightarrow> [])"
      using fd by (auto simp: undisturbed_def delivered_def split: written.splits)
    obtain es where es: "trace t = trace u @ es" "undisturbed fd es d'"
      using Suc.IH[OF run] by blast
    have "undisturbed fd ([ELocal (LWrite fd d r)] @ es) d"
      using undisturbed_append[OF first es(2)] by (cases r) (simp_all add: d'_def)
    then show ?thesis
      using Suc.IH[OF run] serves_same(2)[OF laws r] es(1) by (auto simp: u_def)
  qed
qed

lemma deliver_delivers:
  assumes "serves F p c pos reqs" "run_state (deliver F n fd d) s = (Some None, t)"
  shows "pos (world t) = pos (world s) \<and> reqs (world t) = reqs (world s)
    \<and> (\<exists>es. trace t = trace s @ es \<and> undisturbed fd es d)"
proof (cases "fd = -1")
  case True
  then show ?thesis using assms(2)
    by (auto simp: deliver_def tell_def act_def call_def undisturbed_def delivered_def)
next
  case False
  then show ?thesis using writeToFile_stores[OF assms(1) False] assms(2) by (simp add: deliver_def)
qed

lemma reading_same:
  "reading start pos reqs w g \<Longrightarrow> pos w' = pos w \<Longrightarrow> reqs w' = reqs w \<Longrightarrow> reading start pos reqs w' g"
  by (simp add: reading_def)

text \<open>The state of the loop: the generator has just yielded a step.\<close>

definition at_step ::
  "byte list \<Rightarrow> nat \<Rightarrow> ('w \<Rightarrow> nat) \<Rightarrow> ('w \<Rightarrow> int \<Rightarrow> (nat \<times> nat) option) \<Rightarrow> 'w \<Rightarrow> nat \<Rightarrow> read_step \<times> rgen \<Rightarrow> bool" where
  "at_step c start pos reqs w got sg \<longleftrightarrow> (case sg of
     (ReadEnd, g) \<Rightarrow> got = g_size g
   | (ReadError e, g) \<Rightarrow> True
   | (ReadBytes d, g) \<Rightarrow> reading start pos reqs w g \<and> (g_pending g = [] \<longrightarrow> g_queued g = g_size g)
       \<and> g_received g = got + length d \<and> d = take (length d) (drop (start + got) c))"

lemma read_next_size: "run_state (read_next F g) s = ((step, g'), t) \<Longrightarrow> g_size g' = g_size g"
proof (cases "g_pending g")
  case (Cons a as)
  assume run: "run_state (read_next F g) s = ((step, g'), t)"
  obtain r u where r: "run_state (queue_read F (g\<lparr>g_pending := as\<rparr>)) s = (r, u)" by fastforce
  show ?thesis
  proof (cases r)
    case (Some g1)
    then show ?thesis using queue_read_fields[of F "g\<lparr>g_pending := as\<rparr>" s g1 u] run Cons r
      by (auto simp: read_next_def call_def Let_def split: prod.splits option.splits if_splits)
  qed (use run Cons r in \<open>auto simp: read_next_def\<close>)
qed (auto simp: read_next_def)

lemma read_next_at_step:
  assumes "serves F p c pos reqs" "reading start pos reqs (world s) g"
    "g_pending g = [] \<longrightarrow> g_queued g = g_size g" "run_state (read_next F g) s = (sg, t)"
  shows "at_step c start pos reqs (world t) (g_received g) sg \<and> g_size (snd sg) = g_size g"
proof (cases sg)
  case (Pair step g')
  then show ?thesis
    using read_next_reading[OF assms(1-3) assms(4)[unfolded Pair]] read_next_size[OF assms(4)[unfolded Pair]]
    by (cases step) (auto simp: at_step_def)
qed

lemma take_continued:
  assumes "d = take (length d) (drop a c)" "length d \<le> n"
  shows "d @ take (n - length d) (drop (a + length d) c) = take n (drop a c)"
proof -
  have "take n (drop a c) = take (length d) (drop a c) @ take (n - length d) (drop (length d) (drop a c))"
    using assms(2) by (metis le_add_diff_inverse take_add)
  then show ?thesis using assms(1) by (simp add: add.commute)
qed

lemma get_loop_delivers:
  assumes laws: "serves F p c pos reqs"
  shows "at_step c start pos reqs (world s) got sg \<Longrightarrow>
    run_state (get_loop F n fd tot sg) s = (Some GetEnded, t) \<Longrightarrow>
    \<exists>es. trace t = trace s @ es \<and> undisturbed fd es (take (g_size (snd sg) - got) (drop (start + got) c))"
proof (induction n arbitrary: got tot sg s)
  case 0
  obtain step g where sg: "sg = (step, g)" by (cases sg)
  with 0 show ?case by (cases step) (auto simp: at_step_def undisturbed_def)
next
  case (Suc n)
  obtain step g where sg: "sg = (step, g)" by (cases sg)
  show ?case
  proof (cases step)
    case ReadEnd
    with Suc.prems sg show ?thesis by (auto simp: at_step_def undisturbed_def)
  next
    case (ReadError e)
    with Suc.prems sg show ?thesis by (auto simp: call_def split: prod.splits if_splits)
  next
    case (ReadBytes d)
    obtain k w where k: "w_wasKilled F (world s) = (k, w)" by fastforce
    define s1 where "s1 = s\<lparr>world := w, trace := trace s @ [EApp (WasKilled k)]\<rparr>"
    obtain r s2 where r: "run_state (deliver F n fd d) s1 = (r, s2)" by fastforce
    have no: "\<not> k" "r = Some None"
      using Suc.prems(2) sg ReadBytes k r
      by (auto simp: call_def s1_def split: if_splits option.splits)
    define tot' where "tot' = tot + word_of_nat (length d)"
    define s3 where "s3 = s2\<lparr>trace := trace s2 @ [EApp (ProcessedSize tot')]\<rparr>"
    obtain sg' s4 where nx: "run_state (read_next F g) s3 = (sg', s4)" by fastforce
    have run: "run_state (get_loop F n fd tot' sg') s4 = (Some GetEnded, t)"
      using Suc.prems(2) sg ReadBytes k r nx no
      by (simp add: call_def s1_def s3_def tot'_def tell_def act_def Let_def)
    have at: "reading start pos reqs (world s) g" "g_pending g = [] \<longrightarrow> g_queued g = g_size g"
        "g_received g = got + length d" "d = take (length d) (drop (start + got) c)"
      using Suc.prems(1) sg ReadBytes by (auto simp: at_step_def)
    obtain es1 where es1: "trace s2 = trace s1 @ es1" "undisturbed fd es1 d"
        and same: "pos (world s2) = pos (world s1)" "reqs (world s2) = reqs (world s1)"
      using deliver_delivers[OF laws] r no(2) by blast
    have "reading start pos reqs (world s3) g"
      using reading_same[OF at(1)] same serves_same(1)[OF laws k] by (simp add: s3_def s1_def)
    note nxt = read_next_at_step[OF laws this at(2) nx]
    obtain es2 where es2: "trace s4 = trace s3 @ es2" "list_all quiet es2"
      using did_run[OF read_next_quiet nx] by blast
    obtain es3 where es3: "trace t = trace s4 @ es3"
        "undisturbed fd es3 (take (g_size (snd sg') - g_received g) (drop (start + g_received g) c))"
      using Suc.IH[OF conjunct1[OF nxt] run] by blast
    have le: "length d \<le> g_size g - got" using at(1,3) by (auto simp: reading_def)
    have "undisturbed fd ([EApp (WasKilled k)] @ es1 @ [EApp (ProcessedSize tot')] @ es2 @ es3)
        ([] @ d @ [] @ [] @ take (g_size (snd sg') - g_received g) (drop (start + g_received g) c))"
      by (intro undisturbed_append undisturbed_quiet es1(2) es2(2) es3(2)) (simp_all add: no(1))
    moreover have "trace t = trace s @ ([EApp (WasKilled k)] @ es1 @ [EApp (ProcessedSize tot')] @ es2 @ es3)"
      using es1(1) es2(1) es3(1) by (simp add: s1_def s3_def)
    ultimately show ?thesis
      using take_continued[OF at(4) le] nxt at(3) sg by (auto simp: add.assoc)
  qed
qed

lemma asyncRead_at_step:
  assumes "serves F p c pos reqs" "pos (world s) = start" "run_state (asyncRead F f sz) s = (sg, t)"
  shows "at_step c start pos reqs (world t) 0 sg \<and> g_size (snd sg) = sz"
proof -
  obtain lim w where lim: "s_limits F (world s) = (lim, w)" by fastforce
  define s1 where "s1 = s\<lparr>world := w, trace := trace s @ [EFile (Limits lim)]\<rparr>"
  show ?thesis
  proof (cases lim)
    case None
    then show ?thesis using assms(3) lim by (auto simp: asyncRead_def call_def ended_rgen_def at_step_def)
  next
    case (Some l)
    define g0 where "g0 = (ended_rgen f sz)\<lparr>g_chunk := min (fst l) MAX_XFER_BUF_SIZE\<rparr>"
    obtain r s2 where r: "run_state (fill_reads F MAX_PENDING_REQUESTS g0) s1 = (r, s2)" by fastforce
    have "reading start pos reqs (world s1) g0"
      using assms(2) serves_same(3)[OF assms(1) lim]
      by (auto simp: reading_def g0_def ended_rgen_def s1_def intro!: exI[of _ "[]"])
    note fill = fill_reads_reading[OF assms(1) this, of MAX_PENDING_REQUESTS]
    show ?thesis
    proof (cases r)
      case None
      then show ?thesis using assms(3) lim Some r
        by (auto simp: asyncRead_def call_def s1_def g0_def ended_rgen_def at_step_def prod.case_eq_if)
    next
      case (Some g)
      have "run_state (read_next F g) s2 = (sg, t)"
        using assms(3) lim \<open>lim = Some l\<close> Some r
        by (auto simp: asyncRead_def call_def s1_def g0_def prod.case_eq_if)
      then show ?thesis
        using read_next_at_step[OF assms(1), of start s2 g sg t] fill[OF _ r[unfolded Some]]
        by (simp add: g0_def ended_rgen_def)
    qed
  qed
qed

lemma rel_any: "state_io_rel (did P) m \<Longrightarrow> state_io_rel (did (\<lambda>_. True)) m"
  unfolding state_io_rel_def did_def by (metis (mono_tags, lifting) list_all_iff)

lemma did_writeToFile:
  "(\<And>d r. P (ELocal (LWrite fd d r))) \<Longrightarrow> state_io_rel (did P) (writeToFile F n fd d)"
proof (induction n arbitrary: d)
  case 0
  then show ?case by (cases d) (auto intro!: rel_intros)
next
  case (Suc n)
  then show ?case by (cases d) (auto intro!: rel_intros did_call split: written.splits)
qed

lemma did_deliver:
  "(\<And>d r. P (ELocal (LWrite fd d r))) \<Longrightarrow> (\<And>d. P (EApp (Data d))) \<Longrightarrow> state_io_rel (did P) (deliver F n fd d)"
  unfolding deliver_def by (intro rel_intros did_tell did_writeToFile) auto

lemma get_loop_killed:
  "run_state (get_loop F n fd tot sg) s = (Some GetKilled, t) \<Longrightarrow>
    \<exists>es. trace t = trace s @ es \<and> EApp (WasKilled True) \<in> set es"
proof (induction n arbitrary: tot sg s)
  case 0
  then show ?case by (cases sg; cases "fst sg") auto
next
  case (Suc n)
  obtain step g where sg: "sg = (step, g)" by (cases sg)
  obtain k w where k: "w_wasKilled F (world s) = (k, w)" by fastforce
  define s1 where "s1 = s\<lparr>world := w, trace := trace s @ [EApp (WasKilled k)]\<rparr>"
  show ?case
  proof (cases "k \<or> (\<forall>d. step \<noteq> ReadBytes d)")
    case True
    then show ?thesis using Suc.prems sg k by (cases step) (auto simp: call_def split: if_splits)
  next
    case False
    then obtain d where d: "step = ReadBytes d" "\<not> k" by blast
    obtain r s2 where r: "run_state (deliver F n fd d) s1 = (r, s2)" by fastforce
    have no: "r = Some None"
      using Suc.prems sg d k r by (auto simp: call_def s1_def split: option.splits)
    define tot' where "tot' = tot + word_of_nat (length d)"
    define s3 where "s3 = s2\<lparr>trace := trace s2 @ [EApp (ProcessedSize tot')]\<rparr>"
    obtain sg' s4 where nx: "run_state (read_next F g) s3 = (sg', s4)" by fastforce
    have run: "run_state (get_loop F n fd tot' sg') s4 = (Some GetKilled, t)"
      using Suc.prems sg d k r nx no
      by (simp add: call_def s1_def s3_def tot'_def tell_def act_def Let_def)
    obtain es1 where "trace s2 = trace s1 @ es1"
      using did_run[OF did_deliver[of "\<lambda>_. True"] r] by blast
    moreover obtain es2 where "trace s4 = trace s3 @ es2"
      using did_run[OF read_next_quiet nx] by blast
    moreover obtain es3 where "trace t = trace s4 @ es3" "EApp (WasKilled True) \<in> set es3"
      using Suc.IH[OF run] by blast
    ultimately show ?thesis by (auto simp: s1_def s3_def)
  qed
qed

lemma did_get_loop:
  assumes "\<And>b. P (EApp (WasKilled b))" "\<And>d r. P (ELocal (LWrite fd d r))" "\<And>d. P (EApp (Data d))"
    "\<And>x. P (EApp (ProcessedSize x))" "\<And>e. quiet e \<Longrightarrow> P e"
  shows "state_io_rel (did P) (get_loop F n fd tot sg)"
proof (induction n arbitrary: tot sg)
  case 0
  show ?case by (cases sg; cases "fst sg") (auto intro!: rel_intros)
next
  case (Suc n)
  have "state_io_rel (did P) (read_next F g)" for g
    using rel_did_mono[OF read_next_quiet] assms(5) by blast
  then show ?case
    by (cases sg; cases "fst sg")
       (auto simp: Let_def intro!: rel_intros did_call did_tell did_deliver Suc assms(1-4))
qed

lemma get_loop_no_resume:
  "run_state (get_loop F n fd tot sg) s = (r, t) \<Longrightarrow> trace t = trace s @ es \<Longrightarrow> EApp CanResume \<notin> set es"
proof -
  assume "run_state (get_loop F n fd tot sg) s = (r, t)" "trace t = trace s @ es"
  moreover have "state_io_rel (did (\<lambda>e. e \<noteq> EApp CanResume)) (get_loop F n fd tot sg)"
    by (rule did_get_loop) auto
  ultimately have "list_all (\<lambda>e. e \<noteq> EApp CanResume) es" using did_run by force
  then show ?thesis by (auto simp: list_all_iff)
qed

lemma asyncRead_quiet: "state_io_rel (did quiet) (asyncRead F f sz)"
  unfolding asyncRead_def
  by (auto intro!: rel_intros did_call fill_reads_quiet read_next_quiet split: option.splits)

definition resumed_at :: "'w sftp \<Rightarrow> int \<Rightarrow> ev list \<Rightarrow> nat" where
  "resumed_at F offset es =
     (if EApp CanResume \<in> set es then unat (word_of_int (get_offset F offset) :: u64) else 0)"

lemma get_start_position:
  assumes "serves F p c pos reqs" "pos (world s) = 0"
    "run_state (get_start F f sz at) s = ((tot, n), t)"
  shows "\<exists>es. trace t = trace s @ es \<and> delivered fd es = [] \<and> EApp (WasKilled True) \<notin> set es
    \<and> pos (world t) = (if EApp CanResume \<in> set es then unat (word_of_int at :: u64) else 0)
    \<and> (EApp CanResume \<in> set es \<longrightarrow> pos (world t) < unat sz) \<and> unat n = unat sz - pos (world t)"
proof (cases "at > 0 \<and> word_of_int at < sz")
  case False
  then show ?thesis using assms(2,3) by (auto simp: get_start_def)
next
  case True
  obtain ok w where ok: "s_seek F f (word_of_int at) (world s) = (ok, w)" by fastforce
  have law: "pos w = (if ok then unat (word_of_int at :: u64) else pos (world s))"
    using assms(1) ok unfolding serves_def by metis
  have "unat (sz - word_of_int at) = unat sz - unat (word_of_int at :: u64)"
    using True by (simp add: unat_sub order_less_imp_le)
  then show ?thesis
    using assms(2,3) True ok law
    by (intro exI[of _ "EFile (Seek f (word_of_int at) ok) # (if ok then [EApp CanResume] else [])"])
       (auto simp: get_start_def call_def tell_def act_def delivered_def word_less_nat_alt split: if_splits)
qed

text \<open>What a transfer of the file \<open>c\<close> has done when it passes.\<close>

definition transferred :: "'w sftp \<Rightarrow> byte list \<Rightarrow> int \<Rightarrow> int \<Rightarrow> ev list \<Rightarrow> bool" where
  "transferred F c offset fd es \<longleftrightarrow>
     (EApp CanResume \<in> set es \<longrightarrow> resumed_at F offset es < length c)
   \<and> (EApp (WasKilled True) \<notin> set es \<longrightarrow> delivered fd es = drop (resumed_at F offset es) c)"

lemma get_transfer_delivers:
  assumes laws: "serves F p c pos reqs" and "pos (world s) = 0" "unat sz = length c"
    and run: "run_state (get_transfer F n url f sz offset fd) s = (Some Pass, t)"
  shows "\<exists>es. trace t = trace s @ es \<and> transferred F c offset fd es"
proof -
  obtain tot m s1 where 1: "run_state (get_start F f sz (get_offset F offset)) s = ((tot, m), s1)"
    by (metis prod.exhaust)
  obtain sg s2 where 2: "run_state (asyncRead F f (unat m)) s1 = (sg, s2)" by fastforce
  obtain r s3 where 3: "run_state (get_loop F n fd tot sg) s2 = (r, s3)" by fastforce
  obtain es1 where es1: "trace s1 = trace s @ es1" "delivered fd es1 = []" "EApp (WasKilled True) \<notin> set es1"
      "pos (world s1) = resumed_at F offset es1" "unat m = length c - resumed_at F offset es1"
      "EApp CanResume \<in> set es1 \<longrightarrow> resumed_at F offset es1 < length c"
    using get_start_position[OF laws assms(2) 1, of fd, folded resumed_at_def] assms(3) by metis
  obtain es2 where es2: "trace s2 = trace s1 @ es2" "list_all quiet es2"
    using did_run[OF asyncRead_quiet 2] by blast
  consider (killed) "r = Some GetKilled" "t = s3" | (ended) "r = Some GetEnded"
    using run 1 2 3 by (auto simp: get_transfer_def split: option.splits get_end.splits)
  then show ?thesis
  proof cases
    case killed
    then obtain es3 where es3: "trace s3 = trace s2 @ es3" "EApp (WasKilled True) \<in> set es3"
      using get_loop_killed 3 by blast
    have "EApp CanResume \<notin> set es3" using es3 3 get_loop_no_resume by blast
    then have "resumed_at F offset (es1 @ es2 @ es3) = resumed_at F offset es1"
      using quiet_not_in[OF es2(2)] by (auto simp: resumed_at_def)
    then show ?thesis using es1(1,6) es2(1) es3 killed(2) quiet_not_in[OF es2(2)] \<open>EApp CanResume \<notin> set es3\<close>
      by (intro exI[of _ "es1 @ es2 @ es3"]) (auto simp: transferred_def)
  next
    case ended
    note at = asyncRead_at_step[OF laws es1(4) 2]
    obtain es3 where es3: "trace s3 = trace s2 @ es3"
        "undisturbed fd es3 (take (unat m) (drop (resumed_at F offset es1) c))"
      using get_loop_delivers[OF laws conjunct1[OF at] 3[unfolded ended]] at by auto
    define es4 where "es4 = (if fd = -1 then [EApp (Data [])] else []) @ [EApp (ProcessedSize sz)]"
    have t: "trace t = trace s3 @ es4"
      using run 1 2 3 ended by (auto simp: get_transfer_def run_tell es4_def split: if_splits)
    have u4: "undisturbed fd es4 []" by (auto simp: undisturbed_def es4_def delivered_def)
    have "resumed_at F offset (es1 @ es2 @ es3 @ es4) = resumed_at F offset es1"
      using quiet_not_in[OF es2(2)] es3(2) u4 by (auto simp: resumed_at_def undisturbed_def)
    moreover have "delivered fd (es1 @ es2 @ es3 @ es4) = drop (resumed_at F offset es1) c"
      using es1(2,5) delivered_quiet[OF es2(2)] es3(2) u4 by (auto simp: undisturbed_def)
    ultimately show ?thesis using es1(1,6) es2(1) es3 t quiet_not_in[OF es2(2)] u4
      by (intro exI[of _ "es1 @ es2 @ es3 @ es4"]) (auto simp: transferred_def undisturbed_def)
  qed
qed

lemma mimetype_quiet: "state_io_rel (did quiet) (sftpSendMimetype F f url)"
  unfolding sftpSendMimetype_def
  by (auto intro!: rel_intros did_call did_tell did_act split: option.splits)

lemma mimetype_rewinds:
  assumes "serves F p c pos reqs" "run_state (sftpSendMimetype F f url) s = (Pass, t)"
  shows "pos (world t) = 0"
  using assms unfolding serves_def
  by (auto simp: sftpSendMimetype_def call_def act_def tell_def split: option.splits prod.splits)

lemma get_file_delivers:
  assumes laws: "serves F p c pos reqs" and "unat sz = length c"
    and run: "run_state (get_file F n url f sz offset fd) s = (Some Pass, t)"
  shows "\<exists>es. trace t = trace s @ es \<and> transferred F c offset fd es"
proof -
  obtain m s1 where 1: "run_state (sftpSendMimetype F f url) s = (m, s1)" by fastforce
  have m: "m = Pass" using run 1 by (cases m) (auto simp: get_file_def close_file_def call_def split: prod.splits)
  define s2 where "s2 = s1\<lparr>trace := trace s1 @ [EApp (TotalSize sz)]\<rparr>"
  obtain s3 where 3: "run_state (get_transfer F n url f sz offset fd) s2 = (Some Pass, s3)"
      "\<exists>b. trace t = trace s3 @ [EFile (Close f b)]"
    using run 1 m by (auto simp: get_file_def close_file_def call_def run_tell s2_def split: prod.splits)
  obtain es1 where es1: "trace s1 = trace s @ es1" "list_all quiet es1"
    using did_run[OF mimetype_quiet 1] by blast
  have "pos (world s2) = 0" using mimetype_rewinds[OF laws] 1 m by (simp add: s2_def)
  then obtain es3 where es3: "trace s3 = trace s2 @ es3"
      "transferred F c offset fd es3"
    using get_transfer_delivers[OF laws _ assms(2) 3(1)] by blast
  obtain b where b: "trace t = trace s3 @ [EFile (Close f b)]" using 3(2) by blast
  let ?es = "es1 @ [EApp (TotalSize sz)] @ es3 @ [EFile (Close f b)]"
  have "delivered fd ?es = delivered fd es3" "resumed_at F offset ?es = resumed_at F offset es3"
    using quiet_not_in[OF es1(2)]
    by (simp_all add: delivered_quiet[OF es1(2)] delivered_Cons_quiet resumed_at_def)
  then show ?thesis using es1(1) es3 b quiet_not_in[OF es1(2)]
    by (intro exI[of _ ?es]) (auto simp: s2_def transferred_def)
qed

lemma login_quiet: "login_event e \<Longrightarrow> quiet e"
  by (induction e rule: login_event.induct) auto

lemma logged_in_run:
  assumes "run_state (logged_in F n k) s = (Some Pass, t)"
  obtains u where "run_state (sftpLogin F n) s = (Some Pass, u)" "run_state k u = (Some Pass, t)"
proof -
  obtain r u where r: "run_state (sftpLogin F n) s = (r, u)" by fastforce
  with assms show ?thesis
    by (cases r) (auto simp: logged_in_def success_def split: if_splits intro: that)
qed

lemma login_suffix:
  assumes "run_state (sftpLogin F n) s = (r, t)"
  obtains es where "trace t = trace s @ es" "list_all login_event es"
  using did_run[OF login_events assms] by blast

lemma get_delivers_all:
  assumes "serves F (path url) c pos reqs" "run_state (sftpGet F n url offset fd) s = (Some Pass, t)"
  shows "\<exists>es. trace t = trace s @ es \<and> transferred F c offset fd es"
proof -
  obtain u where u: "run_state (sftpLogin F n) s = (Some Pass, u)"
    and k: "run_state (get_opened F n url offset fd) u = (Some Pass, t)"
    using logged_in_run[OF assms(2)[unfolded sftpGet_def]] .
  obtain es0 where es0: "trace u = trace s @ es0" "list_all login_event es0"
    using login_suffix[OF u] .
  have q0: "list_all quiet es0" using es0(2) login_quiet by (simp add: list_all_iff)
  obtain sb w where sb: "s_stat F (path url) (world u) = (sb, w)" by fastforce
  obtain f w' where f: "s_open F (path url) O_RDONLY 0 w = (f, w')" by fastforce
  define s2 where "s2 = u\<lparr>world := w', trace := (trace u @ [EFile (Stat (path url) sb)]) @ [EFile (Open (path url) O_RDONLY 0 f)]\<rparr>"
  obtain a where a: "sb = Some a"
    using k sb by (cases sb) (simp_all add: get_opened_def call_def look_def)
  obtain f' where f': "f = Some f'"
    using k sb a f by (cases f) (simp_all add: get_opened_def call_def split: if_splits)
  have go: "run_state (get_file F n url f' (a_size a) offset fd) s2 = (Some Pass, t)"
    using k sb a f f' by (simp add: get_opened_def call_def s2_def split: if_splits)
  have "unat (a_size a) = length c" using assms(1) sb a unfolding serves_def by metis
  then obtain es where es: "trace t = trace s2 @ es"
      "transferred F c offset fd es"
    using get_file_delivers[OF assms(1) _ go] by blast
  let ?es = "es0 @ [EFile (Stat (path url) sb), EFile (Open (path url) O_RDONLY 0 f)] @ es"
  have "delivered fd ?es = delivered fd es" "resumed_at F offset ?es = resumed_at F offset es"
    using quiet_not_in[OF q0]
    by (simp_all add: delivered_quiet[OF q0] delivered_Cons_quiet resumed_at_def)
  then show ?thesis using es0(1) es quiet_not_in[OF q0]
    by (intro exI[of _ ?es]) (auto simp: s2_def transferred_def)
qed

text \<open>
  C13. A \<open>get\<close>, or the reading half of a copy, that passes and was not told to stop has delivered the
  file from the offset on, every byte once and in order, with up to 128 requests in flight.
\<close>

theorem sftp_get_delivers_file:
  assumes "serves F (path url) c pos reqs" "run_state (sftpGet F n url offset fd) s = (Some Pass, t)"
  shows "\<exists>es. trace t = trace s @ es \<and>
    (EApp CanResume \<in> set es \<longrightarrow> resumed_at F offset es < length c) \<and>
    (EApp (WasKilled True) \<notin> set es \<longrightarrow> delivered fd es = drop (resumed_at F offset es) c)"
  using get_delivers_all[OF assms] unfolding transferred_def by blast

lemma demo_serves: "serves demo (path demo_url) demo_bytes d_pos d_reqs"
  by (auto simp: serves_def demo_url_def demo_begin_def demo_wait_def demo_killed_def demo_bytes_def demo_attr_def
      split: if_splits option.splits nat.splits)

theorem sftp_get_delivers_file_witness:
  "\<exists>t es. run_state (sftpGet demo demo_fuel demo_url (-1) (-1)) demo_online = (Some Pass, t)
     \<and> trace t = trace demo_online @ es \<and> EApp (WasKilled True) \<notin> set es \<and> delivered (-1) es = [1, 2, 3]"
proof -
  let ?r = "run_state (sftpGet demo demo_fuel demo_url (-1) (-1)) demo_online"
  have run: "?r = (Some Pass, snd ?r)" by (simp add: evals read_evals)
  have old: "trace demo_online = []" by (simp add: demo_online_def demo_start_def)
  have ok: "EApp (WasKilled True) \<notin> set (trace (snd ?r))" "EApp CanResume \<notin> set (trace (snd ?r))"
    by (simp_all add: evals read_evals)
  from sftp_get_delivers_file[OF demo_serves run] ok old
  have "delivered (-1) (trace (snd ?r)) = [1, 2, 3]"
    by (auto simp: resumed_at_def demo_bytes_def)
  then show ?thesis using run ok old by (intro exI[of _ "snd ?r"] exI[of _ "trace (snd ?r)"]) simp
qed

text \<open>
  A part file that already has the length of the file on the server, which a copy positions at
  its end before the transfer, gets the whole file a second time: an offset that is not smaller than
  the size starts from the beginning.
\<close>

lemma complete_part_is_doubled:
  assumes "serves F (path url) c pos reqs" "length c < 2 ^ 64"
    "run_state (sftpGet F n url (int (length c)) fd) s = (Some Pass, t)"
  shows "\<exists>es. trace t = trace s @ es \<and> (EApp (WasKilled True) \<notin> set es \<longrightarrow> delivered fd es = c)"
proof -
  obtain es where es: "trace t = trace s @ es" "transferred F c (int (length c)) fd es"
    using get_delivers_all[OF assms(1,3)] by blast
  have "get_offset F (int (length c)) = int (length c)" by (simp add: get_offset_def)
  then have "EApp CanResume \<notin> set es"
    using es(2) assms(2) by (auto simp: transferred_def resumed_at_def unat_of_nat)
  then show ?thesis using es by (auto simp: transferred_def resumed_at_def)
qed

lemma complete_part_is_doubled_instance:
  "\<exists>t es. run_state (sftpGet demo demo_fuel demo_url (int (length demo_bytes)) 3) demo_online = (Some Pass, t)
     \<and> trace t = trace demo_online @ es \<and> delivered 3 es = [1, 2, 3]"
proof -
  let ?r = "run_state (sftpGet demo demo_fuel demo_url (int (length demo_bytes)) 3) demo_online"
  have run: "?r = (Some Pass, snd ?r)" by (simp add: evals read_evals)
  have old: "trace demo_online = []" by (simp add: demo_online_def demo_start_def)
  have ok: "EApp (WasKilled True) \<notin> set (trace (snd ?r))" by (simp add: evals read_evals)
  have "length demo_bytes < 2 ^ 64" by (simp add: demo_bytes_def)
  from complete_part_is_doubled[OF demo_serves this run] ok old
  have "delivered 3 (trace (snd ?r)) = [1, 2, 3]" by (auto simp: demo_bytes_def)
  then show ?thesis using run old by (intro exI[of _ "snd ?r"] exI[of _ "trace (snd ?r)"]) simp
qed

section \<open>Returning\<close>

definition work :: "rgen \<Rightarrow> nat" where
  "work g = length (g_pending g) + (g_size g - g_queued g)"

lemma queue_read_work:
  assumes "run_state (queue_read F g) s = (Some g', t)" "g_chunk g > 0"
  shows "work g' \<le> work g" "g_chunk g' = g_chunk g"
  using assms
  by (auto simp: queue_read_def Let_def call_def work_def split: prod.splits option.splits if_splits)

lemma fill_reads_work:
  "run_state (fill_reads F n g) s = (Some g', t) \<Longrightarrow> g_chunk g > 0 \<Longrightarrow> work g' \<le> work g \<and> g_chunk g' = g_chunk g"
proof (induction n arbitrary: g s)
  case (Suc n)
  obtain r u where r: "run_state (queue_read F g) s = (r, u)" by fastforce
  show ?case
  proof (cases r)
    case None
    then show ?thesis using Suc.prems r by (auto split: if_splits)
  next
    case (Some g1)
    then show ?thesis
      using Suc.prems r Suc.IH[of g1 u] queue_read_work[of F g s g1 u] by (auto split: if_splits)
  qed
qed simp

lemma read_next_work:
  assumes "run_state (read_next F g) s = ((ReadBytes d, g'), t)" "g_chunk g > 0"
  shows "work g' < work g \<and> g_chunk g' = g_chunk g"
proof (cases "g_pending g")
  case Nil
  then show ?thesis using assms by (simp add: read_next_def)
next
  case (Cons a as)
  obtain r u where r: "run_state (queue_read F (g\<lparr>g_pending := as\<rparr>)) s = (r, u)" by fastforce
  then obtain g1 where g1: "r = Some g1" using assms(1) Cons by (cases r) (auto simp: read_next_def)
  have "work g1 \<le> work (g\<lparr>g_pending := as\<rparr>)" "g_chunk g1 = g_chunk g"
    using queue_read_work[OF r[unfolded g1]] assms(2) by simp_all
  moreover have "work (g\<lparr>g_pending := as\<rparr>) < work g" using Cons by (simp add: work_def)
  moreover have "work g' = work g1" "g_chunk g' = g_chunk g1"
    using assms(1) Cons r g1
    by (auto simp: read_next_def call_def Let_def work_def split: prod.splits option.splits if_splits)
  ultimately show ?thesis by simp
qed

lemma get_loop_returns:
  "g_chunk g > 0 \<Longrightarrow> work g < n \<Longrightarrow> fst (run_state (get_loop F n (-1) tot (step, g)) s) \<noteq> None"
proof (induction n arbitrary: g step tot s)
  case (Suc n)
  show ?case
  proof (cases step)
    case (ReadBytes d)
    obtain k w where k: "w_wasKilled F (world s) = (k, w)" by fastforce
    define s3 where "s3 = s\<lparr>world := w, trace := trace s @ [EApp (WasKilled k), EApp (Data d),
      EApp (ProcessedSize (tot + word_of_nat (length d)))]\<rparr>"
    obtain step' g' s4 where nx: "run_state (read_next F g) s3 = ((step', g'), s4)" by (metis prod.exhaust)
    have go: "fst (run_state (get_loop F n (-1) (tot + word_of_nat (length d)) (step', g')) s4) \<noteq> None"
    proof (cases step')
      case ReadEnd
      then show ?thesis by (cases n) auto
    next
      case (ReadError e)
      then have "g_pending g \<noteq> []" using nx by (auto simp: read_next_def)
      then show ?thesis using ReadError Suc.prems by (cases n) (auto simp: call_def work_def split: prod.splits)
    next
      case (ReadBytes d')
      then show ?thesis using Suc.IH[of g'] read_next_work[of F g s3 d' g' s4] nx Suc.prems by auto
    qed
    show ?thesis
      using go k nx ReadBytes by (cases k) (simp_all add: call_def deliver_def run_tell Let_def s3_def)
  qed (auto simp: call_def split: prod.splits)
qed simp

text \<open>The server allows requests of at least a byte, when it tells its limits.\<close>

definition allows_reads :: "'w sftp \<Rightarrow> bool" where
  "allows_reads F \<longleftrightarrow> (\<forall>w l w'. s_limits F w = (Some l, w') \<longrightarrow> 0 < fst l)"

lemma asyncRead_work:
  assumes limits: "allows_reads F"
    and run: "run_state (asyncRead F f sz) s = ((step, g), t)"
  shows "(\<exists>d. step = ReadBytes d) \<Longrightarrow> 0 < g_chunk g \<and> work g < sz"
proof -
  assume "\<exists>d. step = ReadBytes d"
  then obtain d where d: "step = ReadBytes d" by blast
  obtain lim w where lim: "s_limits F (world s) = (lim, w)" by fastforce
  obtain l where l: "lim = Some l" using run lim d by (cases lim) (auto simp: asyncRead_def call_def)
  define s1 where "s1 = s\<lparr>world := w, trace := trace s @ [EFile (Limits lim)]\<rparr>"
  define g0 where "g0 = (ended_rgen f sz)\<lparr>g_chunk := min (fst l) MAX_XFER_BUF_SIZE\<rparr>"
  have "0 < fst l" using limits lim l unfolding allows_reads_def by metis
  then have pos: "0 < g_chunk g0" by (simp add: g0_def MAX_XFER_BUF_SIZE_def)
  obtain r s2 where r: "run_state (fill_reads F MAX_PENDING_REQUESTS g0) s1 = (r, s2)" by fastforce
  obtain g1 where g1: "r = Some g1" "run_state (read_next F g1) s2 = ((ReadBytes d, g), t)"
    using run lim l r d by (cases r) (auto simp: asyncRead_def call_def s1_def g0_def prod.case_eq_if)
  have "work g1 \<le> work g0" "0 < g_chunk g1"
    using fill_reads_work[OF r[unfolded g1(1)] pos] pos by auto
  moreover have "work g0 = sz" by (simp add: work_def g0_def ended_rgen_def)
  ultimately show ?thesis using read_next_work[OF g1(2)] by auto
qed

lemma get_transfer_returns:
  assumes limits: "allows_reads F" and n: "2 ^ 64 \<le> n"
  shows "fst (run_state (get_transfer F n url f sz offset (-1)) s) \<noteq> None"
proof -
  obtain tot m s1 where 1: "run_state (get_start F f sz (get_offset F offset)) s = ((tot, m), s1)"
    by (metis prod.exhaust)
  obtain step g s2 where 2: "run_state (asyncRead F f (unat m)) s1 = ((step, g), s2)" by (metis prod.exhaust)
  obtain r s3 where 3: "run_state (get_loop F n (-1) tot (step, g)) s2 = (r, s3)" by fastforce
  have "unat m < n" using n unsigned_less[of m, where 'a = nat] by simp
  have "fst (run_state (get_loop F n (-1) tot (step, g)) s2) \<noteq> None"
  proof (cases "\<exists>d. step = ReadBytes d")
    case True
    then show ?thesis
      using asyncRead_work[OF limits 2] \<open>unat m < n\<close> by (intro get_loop_returns) auto
  next
    case False
    then show ?thesis using \<open>unat m < n\<close> by (cases n; cases step) (auto simp: call_def split: prod.splits)
  qed
  then have "r \<noteq> None" using 3 by simp
  then show ?thesis using 1 2 3
    by (auto simp: get_transfer_def run_tell split: get_end.splits option.splits)
qed

text \<open>
  C15. A \<open>get\<close> for the application returns once the login has returned, whatever the server answers,
  as long as it allows requests of at least a byte; fuel for one round per byte is enough.
\<close>

theorem sftp_get_returns:
  assumes "allows_reads F" "2 ^ 64 \<le> n"
    "fst (run_state (sftpLogin F n) s) \<noteq> None"
  shows "fst (run_state (get_job F n url) s) \<noteq> None"
proof -
  note transfer = get_transfer_returns[OF assms(1,2)]
  have filed: "fst (run_state (get_file F n url f sz off (-1)) u) \<noteq> None" for f sz off u
  proof -
    obtain m u1 where m: "run_state (sftpSendMimetype F f url) u = (m, u1)" by fastforce
    obtain r u2 where r: "run_state (get_transfer F n url f sz off (-1)) (u1\<lparr>trace := trace u1 @ [EApp (TotalSize sz)]\<rparr>) = (r, u2)"
      by fastforce
    then have "r \<noteq> None" using transfer by (metis fst_conv)
    then show ?thesis using m r
      by (auto simp: get_file_def run_tell close_file_def call_def split: prod.splits if_splits)
  qed
  have opened: "fst (run_state (get_opened F n url off (-1)) u) \<noteq> None" for off u
    using filed by (auto simp: get_opened_def call_def look_def split: prod.splits option.splits)
  have "fst (run_state (logged_in F n (get_opened F n url (-1) (-1))) s) \<noteq> None"
    using assms(3) opened by (auto simp: logged_in_def split: prod.splits option.splits)
  then show ?thesis
    by (auto simp: get_job_def sftpGet_def split: prod.splits option.splits worker_result.splits)
qed

theorem sftp_get_returns_witness:
  "fst (run_state (get_job demo (2 ^ 64) demo_url) demo_online) \<noteq> None"
proof (rule sftp_get_returns)
  show "allows_reads demo" by (auto simp: allows_reads_def)
  show "fst (run_state (sftpLogin demo (2 ^ 64)) demo_online) \<noteq> None"
    by (simp add: evals sftpLogin_def openConnection_def openConnectionWithoutCloseOnError_def)
qed simp

end
