(* ===== verification/SftpPutFacts.thy ===== *)
theory SftpPutFacts
  imports SftpGetFacts
begin

text \<open>
  What writing stores: the requests of a \<open>put\<close> that passes carry the bytes of its supplier in their
  order, the file is closed before it gets its name, and an existing file is replaced only on demand.
\<close>

section \<open>Events of a transfer\<close>

fun written_by :: "ev \<Rightarrow> byte list" where
  "written_by (EFile (BeginWrite f d (Some aio))) = d"
| "written_by _ = []"

fun supplied_by :: "ev \<Rightarrow> byte list" where
  "supplied_by (EApp (ReadData r d)) = (if r = 0 then [] else d)"
| "supplied_by (ELocal (LRead fd (Some d))) = d"
| "supplied_by _ = []"

definition written :: "ev list \<Rightarrow> byte list" where
  "written es = concat (map written_by es)"

definition supplied :: "ev list \<Rightarrow> byte list" where
  "supplied es = concat (map supplied_by es)"

lemma transfer_append [simp]:
  "written (es @ es') = written es @ written es'" "supplied (es @ es') = supplied es @ supplied es'"
  "written [] = []" "supplied [] = []"
  "written (e # es) = written_by e @ written es" "supplied (e # es) = supplied_by e @ supplied es"
  by (simp_all add: written_def supplied_def)

text \<open>Events that neither write nor supply, and are no request to stop.\<close>

fun aside :: "ev \<Rightarrow> bool" where
  "aside (EFile (BeginWrite f d a)) = False"
| "aside (EApp (ReadData r d)) = False"
| "aside (EApp (WasKilled b)) = (\<not> b)"
| "aside (ELocal (LRead fd a)) = False"
| "aside _ = True"

lemma aside_by: "aside e \<Longrightarrow> written_by e = [] \<and> supplied_by e = [] \<and> e \<noteq> EApp (WasKilled True)"
  by (induction e rule: aside.induct) auto

lemma aside_all:
  "list_all aside es \<Longrightarrow> written es = [] \<and> supplied es = [] \<and> EApp (WasKilled True) \<notin> set es"
  by (induction es) (auto simp: written_def supplied_def aside_by)

section \<open>The generator\<close>

text \<open>The application's \<open>readData\<close> gives some bytes when it reports more than none.\<close>

definition supplies :: "'w sftp \<Rightarrow> bool" where
  "supplies F \<longleftrightarrow> (\<forall>w r d w'. w_readData F w = ((r, d), w') \<longrightarrow> 0 < r \<longrightarrow> d \<noteq> [])"

definition held :: "read_step \<Rightarrow> byte list" where
  "held c = (case c of ReadBytes d \<Rightarrow> d | _ \<Rightarrow> [])"

text \<open>A reader that has given an empty block gives no more.\<close>

definition dead :: "reader \<Rightarrow> bool" where
  "dead rd \<longleftrightarrow> rd = AppReader False \<or> (\<exists>fd. rd = FdReader fd False) \<or> rd = OneReader None"

definition from_reader :: "read_step \<Rightarrow> reader \<Rightarrow> bool" where
  "from_reader c rd \<longleftrightarrow> (c = ReadBytes [] \<longrightarrow> dead rd)"

fun app_or_fd :: "reader \<Rightarrow> bool" where
  "app_or_fd (OneReader d) = False"
| "app_or_fd rd = True"

lemma reader_next_supplies:
  assumes "supplies F" "app_or_fd rd" "run_state (reader_next F rd) s = ((c, rd'), t)"
  shows "\<exists>es. trace t = trace s @ es \<and> supplied es = held c \<and> written es = [] \<and> EApp (WasKilled True) \<notin> set es"
    "from_reader c rd'" "dead rd \<Longrightarrow> c = ReadEnd" "app_or_fd rd'"
proof -
  have "(\<exists>es. trace t = trace s @ es \<and> supplied es = held c \<and> written es = [] \<and> EApp (WasKilled True) \<notin> set es)
    \<and> from_reader c rd' \<and> (dead rd \<longrightarrow> c = ReadEnd) \<and> app_or_fd rd'"
  proof (cases rd)
    case (AppReader live)
    obtain r d w where r: "w_readData F (world s) = ((r, d), w)" by (metis prod.exhaust)
    have "0 < r \<Longrightarrow> d \<noteq> []" using assms(1) r unfolding supplies_def by blast
    then show ?thesis
      using assms(3) AppReader r
      by (auto simp: reader_next_def run_tell call_def held_def supplied_def written_def from_reader_def dead_def
          split: if_splits)
  next
    case (FdReader fd live)
    then show ?thesis
      using assms(3)
      by (auto simp: reader_next_def call_def held_def supplied_def written_def from_reader_def dead_def
          split: if_splits option.splits prod.splits)
  qed (use assms(2) in simp)
  then show "\<exists>es. trace t = trace s @ es \<and> supplied es = held c \<and> written es = [] \<and> EApp (WasKilled True) \<notin> set es"
    "from_reader c rd'" "dead rd \<Longrightarrow> c = ReadEnd" "app_or_fd rd'" by blast+
qed

lemma begin_writes_writes:
  "run_state (begin_writes F n f len d pend) s = (Some (Inr pend'), t) \<Longrightarrow>
    (\<exists>es. trace t = trace s @ es \<and> written es = d \<and> supplied es = [] \<and> EApp (WasKilled True) \<notin> set es)
    \<and> (d \<noteq> [] \<longrightarrow> pend' \<noteq> []) \<and> (pend \<noteq> [] \<longrightarrow> pend' \<noteq> []) \<and> (d = [] \<longrightarrow> pend' = pend)"
proof (induction n arbitrary: d pend s)
  case 0
  then show ?case by (cases d) auto
next
  case (Suc n)
  show ?case
  proof (cases d)
    case Nil
    then show ?thesis using Suc.prems by auto
  next
    case (Cons b bs)
    obtain a w where a: "s_begin_write F f (take len d) (world s) = (a, w)" by fastforce
    define u where "u = s\<lparr>world := w, trace := trace s @ [EFile (BeginWrite f (take len d) a)]\<rparr>"
    obtain aio where aio: "a = Some aio"
        and run: "run_state (begin_writes F n f len (drop len d) (pend @ [aio])) u = (Some (Inr pend'), t)"
      using Suc.prems a Cons by (cases a) (auto simp: call_def u_def)
    obtain es where es: "trace t = trace u @ es" "written es = drop len d" "supplied es = []"
        "EApp (WasKilled True) \<notin> set es"
      using Suc.IH[OF run] by blast
    have "written ([EFile (BeginWrite f (take len d) a)] @ es) = d"
      by (simp add: written_def aio es(2)[unfolded written_def])
    then show ?thesis
      using Suc.IH[OF run] es Cons
      by (intro conjI exI[of _ "[EFile (BeginWrite f (take len d) a)] @ es"]) (auto simp: u_def supplied_def)
  qed
qed

definition gives :: "'w sw \<Rightarrow> 'w sw \<Rightarrow> byte list \<Rightarrow> byte list \<Rightarrow> bool" where
  "gives s t out got \<longleftrightarrow> (\<exists>es. trace t = trace s @ es \<and> written es = out \<and> supplied es = got
     \<and> EApp (WasKilled True) \<notin> set es)"

lemma gives_refl: "trace t = trace s \<Longrightarrow> gives s t [] []"
  by (simp add: gives_def)

lemma gives_trans: "gives s t a b \<Longrightarrow> gives t u c d \<Longrightarrow> gives s u (a @ c) (b @ d)"
  by (fastforce simp: gives_def)

lemma gives_aside: "trace t = trace s @ es \<Longrightarrow> list_all aside es \<Longrightarrow> gives s t [] []"
  unfolding gives_def using aside_all by blast

definition supplying :: "wgen \<Rightarrow> bool" where
  "supplying v \<longleftrightarrow> from_reader (v_cur v) (v_reader v) \<and> app_or_fd (v_reader v)"

lemma queue_write_gives:
  assumes "supplies F" "supplying v" "run_state (queue_write F v) s = (Some (Inr v'), t)"
  shows "gives s t (held (v_cur v)) (held (v_cur v'))" "supplying v'"
    "v_cur v = ReadEnd \<Longrightarrow> v' = v"
    "v_cur v \<noteq> ReadEnd \<Longrightarrow> v_pending v' = [] \<Longrightarrow> v_cur v' = ReadEnd"
    "v_pending v \<noteq> [] \<Longrightarrow> v_pending v' \<noteq> []"
proof -
  have "gives s t (held (v_cur v)) (held (v_cur v')) \<and> supplying v' \<and> (v_cur v = ReadEnd \<longrightarrow> v' = v)
    \<and> (v_cur v \<noteq> ReadEnd \<longrightarrow> v_pending v' = [] \<longrightarrow> v_cur v' = ReadEnd) \<and> (v_pending v \<noteq> [] \<longrightarrow> v_pending v' \<noteq> [])"
  proof (cases "v_cur v")
    case ReadEnd
    then show ?thesis using assms(2,3) by (auto simp: queue_write_def held_def gives_refl)
  next
    case (ReadError e)
    then show ?thesis using assms(3) by (simp add: queue_write_def)
  next
    case (ReadBytes d)
    obtain r u where r: "run_state (begin_writes F (length d) (v_file v) (min (v_max v) (length d)) d (v_pending v)) s = (r, u)"
      by fastforce
    obtain pend where pend: "r = Some (Inr pend)"
      using assms(3) ReadBytes r by (auto simp: queue_write_def split: option.splits sum.splits)
    obtain c rd u2 where rd: "run_state (reader_next F (v_reader v)) u = ((c, rd), u2)" by (metis prod.exhaust)
    have v': "v' = v\<lparr>v_pending := pend, v_cur := c, v_reader := rd\<rparr>" "t = u2"
      using assms(3) ReadBytes r pend rd by (auto simp: queue_write_def)
    note w = begin_writes_writes[OF r[unfolded pend]]
    have reader: "app_or_fd (v_reader v)" "d = [] \<longrightarrow> dead (v_reader v)"
      using assms(2) ReadBytes by (auto simp: supplying_def from_reader_def)
    note n = reader_next_supplies[OF assms(1) reader(1) rd]
    have "gives s u d []" using w by (auto simp: gives_def)
    moreover have "gives u u2 [] (held c)" using n(1) by (auto simp: gives_def)
    ultimately have "gives s u2 d (held c)" using gives_trans by fastforce
    then show ?thesis
      using v' w n(2-4) reader ReadBytes by (auto simp: supplying_def held_def)
  qed
  then show "gives s t (held (v_cur v)) (held (v_cur v'))" "supplying v'"
    "v_cur v = ReadEnd \<Longrightarrow> v' = v"
    "v_cur v \<noteq> ReadEnd \<Longrightarrow> v_pending v' = [] \<Longrightarrow> v_cur v' = ReadEnd"
    "v_pending v \<noteq> [] \<Longrightarrow> v_pending v' \<noteq> []" by blast+
qed

lemma fill_writes_gives:
  assumes "supplies F"
  shows "supplying v \<Longrightarrow> run_state (fill_writes F n v) s = (Some (Inr v'), t) \<Longrightarrow>
    (\<exists>out got. gives s t out got \<and> held (v_cur v) @ got = out @ held (v_cur v')) \<and> supplying v'
    \<and> (v_pending v' = [] \<longrightarrow> v_cur v' = ReadEnd)"
proof (induction n arbitrary: v s)
  case 0
  then show ?case
    by (auto simp: fill_writes.simps[of F 0] MAX_PENDING_REQUESTS_def split: if_splits
        intro!: exI[of _ "[]"] gives_refl)
next
  case (Suc n)
  show ?case
  proof (cases "length (v_pending v) < MAX_PENDING_REQUESTS \<and> v_cur v \<noteq> ReadEnd")
    case False
    then show ?thesis using Suc.prems
      by (auto simp: fill_writes.simps[of F "Suc n"] MAX_PENDING_REQUESTS_def
          intro!: exI[of _ "[]"] gives_refl)
  next
    case True
    obtain r u where r: "run_state (queue_write F v) s = (r, u)" by fastforce
    obtain v1 where v1: "r = Some (Inr v1)" "run_state (fill_writes F n v1) u = (Some (Inr v'), t)"
      using Suc.prems(2) True r by (auto simp: fill_writes.simps[of F "Suc n"] split: option.splits sum.splits)
    note q = queue_write_gives[OF assms Suc.prems(1) r[unfolded v1(1)]]
    obtain out got where og: "gives u t out got" "held (v_cur v1) @ got = out @ held (v_cur v')"
      and rest: "supplying v'" "v_pending v' = [] \<longrightarrow> v_cur v' = ReadEnd"
      using Suc.IH[OF q(2) v1(2)] by blast
    have "gives s t (held (v_cur v) @ out) (held (v_cur v1) @ got)"
      using gives_trans[OF q(1) og(1)] .
    then show ?thesis using og(2) rest by (metis append.assoc)
  qed
qed

definition last_held :: "wgen \<Rightarrow> bool" where
  "last_held v \<longleftrightarrow> supplying v \<and> (v_pending v = [] \<longrightarrow> v_cur v = ReadEnd)"

lemma write_next_gives:
  assumes "supplies F" "last_held v" "run_state (write_next F v) s = (Some (step, v'), t)"
  shows "step = WriteEnd \<Longrightarrow> gives s t [] [] \<and> held (v_cur v) = []"
    "step = Wrote k \<Longrightarrow> gives s t (held (v_cur v)) (held (v_cur v')) \<and> last_held v'"
proof -
  have "(step = WriteEnd \<longrightarrow> gives s t [] [] \<and> held (v_cur v) = [])
    \<and> (step = Wrote k \<longrightarrow> gives s t (held (v_cur v)) (held (v_cur v')) \<and> last_held v')"
  proof (cases "v_pending v")
    case Nil
    then show ?thesis using assms(2,3) by (auto simp: write_next_def last_held_def held_def gives_refl)
  next
    case (Cons a as)
    obtain r u where r: "run_state (queue_write F (v\<lparr>v_pending := as\<rparr>)) s = (r, u)" by fastforce
    have sup: "supplying (v\<lparr>v_pending := as\<rparr>)" using assms(2) by (simp add: last_held_def supplying_def)
    show ?thesis
    proof (cases "\<exists>v1. r = Some (Inr v1)")
      case False
      then show ?thesis using assms(3) Cons r by (auto simp: write_next_def split: option.splits sum.splits)
    next
      case True
      then obtain v1 where v1: "r = Some (Inr v1)" by blast
      note q = queue_write_gives[OF assms(1) sup r[unfolded v1]]
      obtain x w where x: "s_wait_write F a (world u) = (x, w)" by fastforce
      have t: "t = u\<lparr>world := w, trace := trace u @ [EFile (WaitWrite a x)]\<rparr>"
        and res: "(step, v') = (case x of None \<Rightarrow> (WriteFailed ERR_CANNOT_WRITE, v1\<lparr>v_pending := []\<rparr>) | Some k \<Rightarrow> (Wrote k, v1))"
        using assms(3) Cons r v1 x by (auto simp: write_next_def call_def)
      have "gives u t [] []" by (rule gives_aside[of _ _ "[EFile (WaitWrite a x)]"]) (simp_all add: t)
      from gives_trans[OF q(1) this] have "gives s t (held (v_cur v)) (held (v_cur v1))" by simp
      moreover have "v_pending v1 = [] \<longrightarrow> v_cur v1 = ReadEnd" using q(3,4) by fastforce
      ultimately show ?thesis using res q(2) by (auto simp: last_held_def split: option.splits)
    qed
  qed
  then show "step = WriteEnd \<Longrightarrow> gives s t [] [] \<and> held (v_cur v) = []"
    "step = Wrote k \<Longrightarrow> gives s t (held (v_cur v)) (held (v_cur v')) \<and> last_held v'" by blast+
qed

definition left :: "write_step \<times> wgen \<Rightarrow> byte list" where
  "left sv = (case sv of (Wrote k, v) \<Rightarrow> held (v_cur v) | _ \<Rightarrow> [])"

definition at_write :: "write_step \<times> wgen \<Rightarrow> bool" where
  "at_write sv \<longleftrightarrow> (case sv of (Wrote k, v) \<Rightarrow> last_held v | _ \<Rightarrow> True)"

lemma write_next_left:
  assumes "supplies F" "last_held v" "run_state (write_next F v) s = (Some sv, t)" "\<forall>e v'. sv \<noteq> (WriteFailed e, v')"
  shows "gives s t (held (v_cur v)) (left sv) \<and> at_write sv"
proof -
  obtain step v' where sv: "sv = (step, v')" by fastforce
  then show ?thesis
    using write_next_gives[OF assms(1,2) assms(3)[unfolded sv]] assms(4)
    by (cases step) (auto simp: left_def at_write_def)
qed

lemma did_writes:
  "state_io_rel (did (\<lambda>_. True)) (write_next F v)" "state_io_rel (did (\<lambda>_. True)) (asyncWrite F n f rd)"
proof -
  have rd: "state_io_rel (did (\<lambda>_. True)) (reader_next F rd)" for rd
    unfolding reader_next_def
    by (cases rd) (auto intro!: rel_intros did_tell did_call split: prod.splits)
  have req: "state_io_rel (did (\<lambda>_. True)) (begin_writes F n f len d pend)" for n f len d pend
  proof (induction n arbitrary: d pend)
    case 0
    then show ?case by (cases d) (auto intro!: rel_intros)
  next
    case (Suc n)
    then show ?case by (cases d) (auto intro!: rel_intros did_call)
  qed
  have queue: "state_io_rel (did (\<lambda>_. True)) (queue_write F v)" for v
    unfolding queue_write_def
    by (auto intro!: rel_intros rd req split: read_step.splits)
  have fill: "state_io_rel (did (\<lambda>_. True)) (fill_writes F n v)" for n v
  proof (induction n arbitrary: v)
    case 0
    then show ?case by (auto simp: fill_writes.simps[of F 0] intro!: rel_intros)
  next
    case (Suc n)
    then show ?case
      by (auto simp: fill_writes.simps[of F "Suc n"] intro!: rel_intros queue split: option.splits sum.splits)
  qed
  show nx: "state_io_rel (did (\<lambda>_. True)) (write_next F v)" for v
    unfolding write_next_def by (auto intro!: rel_intros did_call queue split: list.splits)
  show "state_io_rel (did (\<lambda>_. True)) (asyncWrite F n f rd)"
    unfolding asyncWrite_def Let_def
    by (auto intro!: rel_intros did_call rd fill nx split: option.splits sum.splits prod.splits)
qed

lemma put_loop_gives:
  assumes "supplies F"
  shows "at_write sv \<Longrightarrow> run_state (put_loop F n tot sv) s = (Some PutEnded, t) \<Longrightarrow>
    \<exists>got. gives s t (left sv @ got) got"
proof (induction n arbitrary: tot sv s)
  case 0
  obtain step v where "sv = (step, v)" by fastforce
  with 0 show ?case by (cases step) (auto simp: left_def intro!: exI[of _ "[]"] gives_refl)
next
  case (Suc n)
  obtain step v where sv: "sv = (step, v)" by fastforce
  obtain k w where k: "w_wasKilled F (world s) = (k, w)" by fastforce
  show ?case
  proof (cases step)
    case WriteEnd
    with Suc.prems sv show ?thesis by (auto simp: left_def intro!: exI[of _ "[]"] gives_refl)
  next
    case (WriteFailed e)
    with Suc.prems sv k show ?thesis by (auto simp: call_def split: if_splits)
  next
    case (Wrote m)
    define s1 where "s1 = s\<lparr>world := w, trace := trace s @ [EApp (WasKilled k), EApp (ProcessedSize (tot + word_of_nat m))]\<rparr>"
    have no: "\<not> k" using Suc.prems(2) sv Wrote k by (auto simp: call_def)
    obtain x u where x: "run_state (write_next F v) s1 = (x, u)" by fastforce
    obtain sv' where sv': "x = Some sv'" "run_state (put_loop F n (tot + word_of_nat m) sv') u = (Some PutEnded, t)"
      using Suc.prems(2) sv Wrote k no x
      by (cases x) (auto simp: call_def run_tell s1_def Let_def)
    have ok: "\<forall>e v'. sv' \<noteq> (WriteFailed e, v')"
      using sv'(2) by (cases n) (auto simp: call_def split: prod.splits if_splits)
    have held: "last_held v" using Suc.prems(1) sv Wrote by (simp add: at_write_def)
    have nx: "gives s1 u (held (v_cur v)) (left sv')" "at_write sv'"
      using write_next_left[OF assms held x[unfolded sv'(1)] ok] by blast+
    obtain got where "gives u t (left sv' @ got) got" using Suc.IH[OF nx(2) sv'(2)] by blast
    then have "gives s1 t (held (v_cur v) @ left sv' @ got) (left sv' @ got)"
      using gives_trans[OF nx(1)] by blast
    moreover have "gives s s1 [] []"
      by (rule gives_aside[of _ _ "[EApp (WasKilled k), EApp (ProcessedSize (tot + word_of_nat m))]"])
         (simp_all add: s1_def no)
    ultimately have "gives s t (held (v_cur v) @ left sv' @ got) (left sv' @ got)"
      using gives_trans[of s s1 "[]" "[]"] by fastforce
    then show ?thesis using sv Wrote by (auto simp: left_def)
  qed
qed

lemma put_loop_killed:
  "run_state (put_loop F n tot sv) s = (Some PutKilled, t) \<Longrightarrow>
    \<exists>es. trace t = trace s @ es \<and> EApp (WasKilled True) \<in> set es"
proof (induction n arbitrary: tot sv s)
  case 0
  then show ?case by (cases sv; cases "fst sv") auto
next
  case (Suc n)
  obtain step v where sv: "sv = (step, v)" by fastforce
  obtain k w where k: "w_wasKilled F (world s) = (k, w)" by fastforce
  show ?case
  proof (cases "k \<or> (\<forall>m. step \<noteq> Wrote m)")
    case True
    then show ?thesis using Suc.prems sv k by (cases step) (auto simp: call_def split: if_splits)
  next
    case False
    then obtain m where m: "step = Wrote m" "\<not> k" by blast
    define s1 where "s1 = s\<lparr>world := w, trace := trace s @ [EApp (WasKilled k), EApp (ProcessedSize (tot + word_of_nat m))]\<rparr>"
    obtain x u where x: "run_state (write_next F v) s1 = (x, u)" by fastforce
    obtain sv' where sv': "x = Some sv'" "run_state (put_loop F n (tot + word_of_nat m) sv') u = (Some PutKilled, t)"
      using Suc.prems sv m k x by (cases x) (auto simp: call_def run_tell s1_def Let_def)
    obtain es1 where "trace u = trace s1 @ es1" using did_run[OF did_writes(1) x] by blast
    moreover obtain es2 where "trace t = trace u @ es2" "EApp (WasKilled True) \<in> set es2"
      using Suc.IH[OF sv'(2)] by blast
    ultimately show ?thesis by (auto simp: s1_def)
  qed
qed

lemma asyncWrite_gives:
  assumes "supplies F" "app_or_fd rd" "\<not> dead rd" "run_state (asyncWrite F n f rd) s = (Some sv, t)"
    "\<forall>e v'. sv \<noteq> (WriteFailed e, v')"
  shows "\<exists>out. gives s t out (out @ left sv) \<and> at_write sv"
proof -
  obtain lim w where lim: "s_limits F (world s) = (lim, w)" by fastforce
  define s1 where "s1 = s\<lparr>world := w, trace := trace s @ [EFile (Limits lim)]\<rparr>"
  obtain l where l: "lim = Some l" using assms(4,5) lim by (cases lim) (auto simp: asyncWrite_def call_def)
  obtain c rd' s2 where rd: "run_state (reader_next F rd) s1 = ((c, rd'), s2)" by (metis prod.exhaust)
  define v where "v = \<lparr>v_file = f, v_max = snd l, v_pending = [], v_cur = c, v_reader = rd'\<rparr>"
  obtain r s3 where r: "run_state (fill_writes F n v) s2 = (r, s3)" by fastforce
  obtain v' where v': "r = Some (Inr v')" "run_state (write_next F v') s3 = (Some sv, t)"
    using assms(4,5) lim l rd r
    by (auto simp: asyncWrite_def call_def s1_def v_def Let_def prod.case_eq_if split: option.splits sum.splits)
  note n = reader_next_supplies[OF assms(1,2) rd]
  have "gives s s1 [] []"
    by (rule gives_aside[of _ _ "[EFile (Limits lim)]"]) (simp_all add: s1_def)
  moreover have "gives s1 s2 [] (held c)" using n(1) by (auto simp: gives_def)
  ultimately have 1: "gives s s2 [] (held c)" using gives_trans by fastforce
  have sup: "supplying v" using n(2,4) by (simp add: supplying_def v_def)
  obtain out got where 2: "gives s2 s3 out got" "held (v_cur v) @ got = out @ held (v_cur v')"
    and last: "last_held v'"
    using fill_writes_gives[OF assms(1) sup r[unfolded v'(1)]] by (auto simp: last_held_def)
  note 3 = write_next_left[OF assms(1) last v'(2) assms(5)]
  have "gives s t (out @ held (v_cur v')) (held c @ got @ left sv)"
    using gives_trans[OF gives_trans[OF 1 2(1)] conjunct1[OF 3]] by simp
  moreover have "held c @ got @ left sv = (out @ held (v_cur v')) @ left sv"
    using 2(2) by (simp add: v_def)
  ultimately show ?thesis using 3 by metis
qed

section \<open>The handler\<close>

lemma asides:
  "state_io_rel (did aside) (put_rename F url flags dest)"
  "state_io_rel (did aside) (put_permissions F url flags permissions)"
  "state_io_rel (did aside) (put_owner F url orig)"
  "state_io_rel (did aside) (put_mtime F url)"
  "state_io_rel (did aside) (put_target F url flags part)"
  "state_io_rel (did aside) (put_open F dest flags permissions)"
  "state_io_rel (did aside) (put_part F url flags fd)"
  unfolding put_rename_def put_permissions_def put_owner_def put_mtime_def put_target_def put_open_def
    put_part_def Let_def
  by (auto intro!: rel_intros did_call did_tell did_update split: option.splits)

lemma put_rename_renames:
  assumes "run_state (put_rename F url flags dest) s = (True, t)" "c_markPartial F"
  shows "EName (Rename dest (path url) True) \<in> set (trace t)"
    "trace t = trace s @ es \<Longrightarrow> EName (Rename dest (path url) True) \<in> set es"
  using assms by (auto simp: put_rename_def call_def split: prod.splits if_splits)

lemma put_finish_events:
  assumes "run_state (put_finish F url flags permissions orig dest f) s = (Pass, t)"
  shows "\<exists>es. trace t = trace s @ EFile (Close f True) # es \<and> list_all aside es
    \<and> (c_markPartial F \<longrightarrow> EName (Rename dest (path url) True) \<in> set es)"
proof -
  obtain cl w where cl: "s_close F f (world s) = (cl, w)" by fastforce
  define s1 where "s1 = s\<lparr>world := w, trace := trace s @ [EFile (Close f cl)]\<rparr>"
  have c: "cl" using assms cl by (cases cl) (auto simp: put_finish_def call_def)
  obtain rn s2 where rn: "run_state (put_rename F url flags dest) s1 = (rn, s2)" by fastforce
  have r: "rn" using assms cl c rn by (cases rn) (auto simp: put_finish_def call_def s1_def)
  obtain es1 where es1: "trace s2 = trace s1 @ es1" "list_all aside es1"
    using did_run[OF asides(1) rn] by blast
  have ren: "c_markPartial F \<longrightarrow> EName (Rename dest (path url) True) \<in> set es1"
    using put_rename_renames(2)[OF rn[unfolded eqTrueI[OF r]] _ es1(1)] by blast
  define rest where "rest = do { go \<leftarrow> put_permissions F url flags permissions;
         if \<not> go then ret Pass else do { put_owner F url orig; put_mtime F url; ret Pass } }"
  have quiet_rest: "state_io_rel (did aside) rest"
    unfolding rest_def by (intro rel_intros asides)
  have "run_state rest s2 = (Pass, t)"
    using assms cl c rn r by (simp add: put_finish_def call_def s1_def rest_def)
  then obtain es2 where es2: "trace t = trace s2 @ es2" "list_all aside es2"
    using did_run[OF quiet_rest] by blast
  show ?thesis using es1 es2 ren c by (intro exI[of _ "es1 @ es2"]) (auto simp: s1_def)
qed

text \<open>\<open>stored\<close>: what a passing transfer has done, unless it was told to stop.\<close>

definition completed :: "'w sftp \<Rightarrow> qurl \<Rightarrow> string \<Rightarrow> ev list \<Rightarrow> bool" where
  "completed F url dest es \<longleftrightarrow> written es = supplied es
     \<and> (\<exists>es1 f es2. es = es1 @ EFile (Close f True) # es2 \<and> written es2 = []
        \<and> (c_markPartial F \<longrightarrow> EName (Rename dest (path url) True) \<in> set es2))"

definition stored :: "'w sftp \<Rightarrow> qurl \<Rightarrow> string \<Rightarrow> ev list \<Rightarrow> bool" where
  "stored F url dest es \<longleftrightarrow> EApp (WasKilled True) \<in> set es \<or> completed F url dest es"

lemma completed_after:
  assumes "list_all aside es0" "completed F url dest es"
  shows "completed F url dest (es0 @ es)"
proof -
  obtain es1 f es2 where es: "es = es1 @ EFile (Close f True) # es2" "written es2 = []"
    "c_markPartial F \<longrightarrow> EName (Rename dest (path url) True) \<in> set es2"
    using assms(2) unfolding completed_def by blast
  have "written (es0 @ es) = supplied (es0 @ es)"
    using assms(2) aside_all[OF assms(1)] by (simp add: completed_def)
  moreover have "es0 @ es = (es0 @ es1) @ EFile (Close f True) # es2" using es(1) by simp
  ultimately show ?thesis unfolding completed_def using es(2,3) by blast
qed

lemma stored_after:
  assumes "list_all aside es0" "stored F url dest es"
  shows "stored F url dest (es0 @ es)"
  using assms(2) completed_after[OF assms(1)] by (auto simp: stored_def)

lemma put_transfer_stores:
  assumes "supplies F" "run_state (put_transfer F n url flags fd permissions orig dest f sent) s = (Some Pass, t)"
  shows "\<exists>es. trace t = trace s @ es \<and> stored F url dest es"
proof -
  obtain x s1 where x: "run_state (asyncWrite F n f (put_reader fd)) s = (x, s1)" by fastforce
  obtain sv where sv: "x = Some sv" using assms(2) x by (cases x) (auto simp: put_transfer_def)
  obtain e s2 where e: "run_state (put_loop F n sent sv) s1 = (e, s2)" by fastforce
  have rd: "app_or_fd (put_reader fd)" "\<not> dead (put_reader fd)" by (auto simp: put_reader_def dead_def)
  consider (killed) "e = Some PutKilled" | (ended) "e = Some PutEnded"
    using assms(2) x sv e by (auto simp: put_transfer_def split: option.splits put_end.splits prod.splits)
  then show ?thesis
  proof cases
    case killed
    have "state_io_rel (did (\<lambda>_. True)) (closeOnError F dest (Some f))"
      unfolding closeOnError_def close_file_def by (auto intro!: rel_intros did_call split: option.splits)
    moreover obtain r where "run_state (closeOnError F dest (Some f)) s2 = (r, t)"
      using assms(2) x sv e killed by (auto simp: put_transfer_def split: prod.splits)
    ultimately obtain es3 where es3: "trace t = trace s2 @ es3" using did_run by metis
    obtain es2 where es2: "trace s2 = trace s1 @ es2" "EApp (WasKilled True) \<in> set es2"
      using put_loop_killed e killed by blast
    have "state_io_rel (did (\<lambda>_. True)) (asyncWrite F n f (put_reader fd))" by (rule did_writes)
    then obtain es1 where "trace s1 = trace s @ es1" using did_run[OF _ x] by metis
    then have "trace t = trace s @ es1 @ es2 @ es3" using es2(1) es3 by simp
    moreover have "stored F url dest (es1 @ es2 @ es3)" using es2(2) by (simp add: stored_def)
    ultimately show ?thesis by blast
  next
    case ended
    have ok: "\<forall>e v'. sv \<noteq> (WriteFailed e, v')"
      using e ended by (cases n) (auto simp: call_def split: prod.splits if_splits)
    obtain out where out: "gives s s1 out (out @ left sv)" "at_write sv"
      using asyncWrite_gives[OF assms(1) rd x[unfolded sv] ok] by blast
    obtain got where "gives s1 s2 (left sv @ got) got"
      using put_loop_gives[OF assms(1) out(2)] e ended by blast
    from gives_trans[OF out(1) this] have "gives s s2 (out @ left sv @ got) (out @ left sv @ got)" by simp
    then obtain es where es: "trace s2 = trace s @ es" "written es = supplied es"
      unfolding gives_def by metis
    have "run_state (put_finish F url flags permissions orig dest f) s2 = (Pass, t)"
      using assms(2) x sv e ended by (auto simp: put_transfer_def split: prod.splits)
    then obtain es2 where es2: "trace t = trace s2 @ EFile (Close f True) # es2" "list_all aside es2"
        "c_markPartial F \<longrightarrow> EName (Rename dest (path url) True) \<in> set es2"
      using put_finish_events by blast
    let ?es = "es @ EFile (Close f True) # es2"
    have "written ?es = supplied ?es" "written es2 = []"
      using es(2) aside_all[OF es2(2)] by simp_all
    then have "stored F url dest ?es" using es2(3) unfolding stored_def completed_def by blast
    then show ?thesis using es(1) es2(1) by (intro exI[of _ ?es]) simp
  qed
qed

lemma login_aside: "login_event e \<Longrightarrow> aside e"
  by (induction e rule: login_event.induct) auto

lemma put_file_stores:
  assumes "supplies F" "run_state (put_file F n url flags fd permissions orig part) s = (Some Pass, t)"
  shows "\<exists>es dest. trace t = trace s @ es \<and> stored F url dest es \<and> (c_markPartial F \<longrightarrow> dest = part_path url)"
proof -
  obtain dest s1 where 1: "run_state (put_target F url flags part) s = (dest, s1)" by fastforce
  obtain fl sent s2 where 2: "run_state (put_open F dest flags permissions) s1 = ((fl, sent), s2)" by (metis prod.exhaust)
  obtain f where f: "fl = Some f"
    using assms(2) 1 2
    by (cases fl) (auto simp: put_file_def look_def closeOnError_def)
  have go: "run_state (put_transfer F n url flags fd permissions orig dest f sent) s2 = (Some Pass, t)"
    using assms(2) 1 2 f by (auto simp: put_file_def)
  obtain es where es: "trace t = trace s2 @ es" "stored F url dest es"
    using put_transfer_stores[OF assms(1) go] by blast
  obtain es1 where es1: "trace s1 = trace s @ es1" "list_all aside es1"
    using did_run[OF asides(5) 1] by blast
  obtain es2 where es2: "trace s2 = trace s1 @ es2" "list_all aside es2"
    using did_run[OF asides(6) 2] by blast
  have "list_all aside (es1 @ es2)" using es1(2) es2(2) by simp
  then have "stored F url dest ((es1 @ es2) @ es)" using stored_after es(2) by blast
  moreover have "trace t = trace s @ (es1 @ es2) @ es" using es(1) es1(1) es2(1) by simp
  moreover have "c_markPartial F \<longrightarrow> dest = part_path url"
    using 1 by (auto simp: put_target_def call_def split: prod.splits if_splits)
  ultimately show ?thesis by blast
qed

lemma put_part_fails:
  "run_state (put_part F url flags fd) s = (r, t) \<Longrightarrow> r \<noteq> Inl Pass"
  by (auto simp: put_part_def call_def split: prod.splits option.splits if_splits)



end
