(* ===== verification/SftpFacts.thy ===== *)
theory SftpFacts
  imports SftpPutFacts
begin

text \<open>
  The handlers around the transfers: what they keep, what they report, and where a failure is lost.
\<close>

section \<open>The refusal to set permissions\<close>

lemma sftpLogin_forgets:
  "run_state (sftpLogin F n) (s\<lparr>mCanSetPermissions := b\<rparr>) = run_state (sftpLogin F n) s"
proof -
  define G where "G u = do {
     r \<leftarrow> openConnection F n;
     case r of
       None \<Rightarrow> ret None
     | Some res \<Rightarrow>
         (if \<not> success res then ret r
          else do {
            s \<leftarrow> State_Monad.get;
            if u \<noteq> [] \<and> u \<noteq> mUsername s then do {
              tell (EApp (Redirect (requiresUserNameRedirection s)));
              ret (Some (Fail ERR_UNKNOWN []))
            }
            else ret (Some (if mConnected s then Pass else Fail ERR_UNKNOWN []))
          })
   }" for u
  have split: "run_state (sftpLogin F n) s = run_state (G (mUsername s)) s" for s
    by (simp add: sftpLogin_def G_def Let_def)
  have "run_state (G u) (s\<lparr>mCanSetPermissions := b\<rparr>) = run_state (G u) s" for u
    by (simp add: G_def openConnection_def State_Monad.update_def)
  then show ?thesis by (simp add: split)
qed

text \<open>
  Whether an earlier file was refused its permissions makes no difference to a \<open>put\<close>: each
  handler logs in first, and logging in forgets the refusal even when the worker is connected.
\<close>

lemma refusal_is_forgotten:
  "run_state (sftpPut F n url permissions flags fd) (s\<lparr>mCanSetPermissions := b\<rparr>)
     = run_state (sftpPut F n url permissions flags fd) s"
  by (simp add: sftpPut_def logged_in_def sftpLogin_forgets)

section \<open>Links, names\<close>

lemma login_connected:
  "mConnected s \<Longrightarrow> run_state (sftpLogin F n) s = (Some Pass, s\<lparr>mCanSetPermissions := True\<rparr>)"
  by (simp add: sftpLogin_def openConnection_def openConnectionWithoutCloseOnError_def State_Monad.update_def Let_def)

lemma logged_in_connected:
  "mConnected s \<Longrightarrow> run_state (logged_in F n k) s = run_state k (s\<lparr>mCanSetPermissions := True\<rparr>)"
  by (simp add: logged_in_def login_connected)

text \<open>
  Without Overwrite a connected worker answers that it has made a symbolic link, whatever the
  server says, and makes one attempt.
\<close>

lemma symlink_failure_is_hidden:
  assumes "mConnected s" "\<not> fl_overwrite flags" "run_state (symlink_job F n target dest flags) s = (r, t)"
  shows "r = Some Pass \<and> (\<exists>a. trace t = trace s @ [EName (Symlink target (path dest) a)])"
  using assms
  by (auto simp: symlink_job_def logged_in_connected checked_def symlink_try_def make_symlink_def call_def
      split: prod.splits)

fun changes :: "ev \<Rightarrow> bool" where
  "changes (EName (Readlink p a)) = False"
| "changes (EName (Opendir p a)) = False"
| "changes (EName (Readdir d a)) = False"
| "changes (EName (Closedir d)) = False"
| "changes (EName (Canonicalize p a)) = False"
| "changes (EName (Statvfs p a)) = False"
| "changes (EName e) = True"
| "changes (EFile (Open p fl m a)) = (fl \<noteq> O_RDONLY)"
| "changes (EFile (BeginWrite f d a)) = True"
| "changes _ = False"

lemma login_changes: "login_event e \<Longrightarrow> \<not> changes e"
  by (induction e rule: login_event.induct) auto

lemma login_no_change: "state_io_rel (did (\<lambda>e. \<not> changes e)) (sftpLogin F n)"
  by (rule rel_did_mono[OF login_events login_changes])

lemma logged_in_no_change:
  "state_io_rel (did (\<lambda>e. \<not> changes e)) k \<Longrightarrow> state_io_rel (did (\<lambda>e. \<not> changes e)) (logged_in F n k)"
  unfolding logged_in_def by (intro rel_intros login_no_change) auto

lemma fatal_no_change: "state_io_rel (did (\<lambda>e. \<not> changes e)) (reportLast F url)"
  unfolding reportLast_def reportError_def by (intro rel_intros did_closeConnection) auto

text \<open>The name is taken, at every moment.\<close>

definition taken :: "'w sftp \<Rightarrow> string \<Rightarrow> bool" where
  "taken F p \<longleftrightarrow> (\<forall>w a w'. s_lstat F p w = (a, w') \<longrightarrow> a \<noteq> None)"

text \<open>
  \<open>rename\<close> without Overwrite changes nothing on the server while the new name is taken, and fails.
\<close>

lemma rename_keeps_taken_name:
  assumes "taken F (path dest)" "\<not> fl_overwrite flags" "run_state (rename_job F n from dest flags) s = (r, t)"
  shows "(\<exists>es. trace t = trace s @ es \<and> list_all (\<lambda>e. \<not> changes e) es) \<and> r \<noteq> Some Pass"
proof
  define k where "k = do {
     sb \<leftarrow> call (s_lstat F (path dest)) (\<lambda>a. EFile (Lstat (path dest) a));
     let go = checked F dest (call (s_rename F (path from) (path dest))
                (\<lambda>a. EName (Rename (path from) (path dest) a)));
     case sb of
       None \<Rightarrow> go
     | Some sb \<Rightarrow>
         (if \<not> fl_overwrite flags
          then ret (Some (Fail (if KSFTP_ISDIR sb then ERR_DIR_ALREADY_EXIST else ERR_FILE_ALREADY_EXIST)
                     (t_text F dest)))
          else do {
            gone \<leftarrow> (if KSFTP_ISDIR sb then rmdir F (path dest) else unlink F (path dest));
            if gone then go else do { r \<leftarrow> reportLast F dest; ret (Some r) }
          })
   }"
  have run: "run_state (logged_in F n k) s = (r, t)"
    using assms(3) by (simp add: rename_job_def k_def)
  have "state_io_rel (did (\<lambda>e. \<not> changes e)) k"
    unfolding k_def
  proof (rule rel_bind_call)
    fix a w w'
    assume "s_lstat F (path dest) w = (a, w')"
    then obtain sb where "a = Some sb" using assms(1) unfolding taken_def by blast
    then show "state_io_rel (did (\<lambda>e. \<not> changes e)) (let go = checked F dest (call (s_rename F (path from) (path dest))
                (\<lambda>a. EName (Rename (path from) (path dest) a))) in case a of None \<Rightarrow> go | Some sb \<Rightarrow>
         (if \<not> fl_overwrite flags
          then ret (Some (Fail (if KSFTP_ISDIR sb then ERR_DIR_ALREADY_EXIST else ERR_FILE_ALREADY_EXIST)
                     (t_text F dest)))
          else do {
            gone \<leftarrow> (if KSFTP_ISDIR sb then rmdir F (path dest) else unlink F (path dest));
            if gone then go else do { r \<leftarrow> reportLast F dest; ret (Some r) }
          }))"
      using assms(2) by (auto simp: Let_def intro!: rel_intros)
  qed simp
  from did_run[OF logged_in_no_change[OF this] run]
  show "\<exists>es. trace t = trace s @ es \<and> list_all (\<lambda>e. \<not> changes e) es" .
  show "r \<noteq> Some Pass"
  proof
    assume "r = Some Pass"
    then obtain u where "run_state k u = (Some Pass, t)"
      using logged_in_run[of F n k s t] run by blast
    moreover obtain sb w where "s_lstat F (path dest) (world u) = (Some sb, w)"
      using assms(1) unfolding taken_def by (metis not_None_eq surj_pair)
    ultimately show False using assms(2) by (simp add: k_def call_def Let_def)
  qed
qed

section \<open>Copies from the server\<close>

lemma did_reads:
  assumes "\<And>e. P (EFile e)"
  shows "state_io_rel (did P) (read_next F g)" "state_io_rel (did P) (asyncRead F f sz)"
proof -
  have queue: "state_io_rel (did P) (queue_read F g)" for g
    unfolding queue_read_def Let_def by (intro rel_intros did_call assms)
  have fill: "state_io_rel (did P) (fill_reads F n g)" for n g
    by (induction n arbitrary: g) (auto intro!: rel_intros queue)
  show nx: "state_io_rel (did P) (read_next F g)" for g
    unfolding read_next_def Let_def
    by (auto intro!: rel_intros queue did_call assms split: list.splits option.splits)
  show "state_io_rel (did P) (asyncRead F f sz)"
    unfolding asyncRead_def by (auto intro!: rel_intros did_call fill nx assms split: option.splits)
qed

lemma rel_case_get_end:
  "state_io_rel R a \<Longrightarrow> state_io_rel R b \<Longrightarrow> (\<And>e. state_io_rel R (c e)) \<Longrightarrow>
   state_io_rel R (case x of GetEnded \<Rightarrow> a | GetKilled \<Rightarrow> b | GetFailed e \<Rightarrow> c e)"
  by (cases x) simp_all

lemma did_sftpGet:
  assumes P: "\<And>e. P (EFile e)" "\<And>e. P (ESsh e)" "\<And>e. P (EApp e)" "\<And>d r. P (ELocal (LWrite fd d r))"
  shows "state_io_rel (did P) (get_loop F n fd tot sg)" "state_io_rel (did P) (sftpGet F n url offset fd)"
proof -
  show loop: "state_io_rel (did P) (get_loop F n fd tot sg)" for n tot sg
  proof (induction n arbitrary: tot sg)
    case 0
    show ?case by (cases sg; cases "fst sg") (auto intro!: rel_intros)
  next
    case (Suc n)
    then show ?case
      by (cases sg; cases "fst sg") (auto simp: Let_def intro!: rel_intros did_call did_tell did_deliver did_reads P)
  qed
  have transfer: "state_io_rel (did P) (get_transfer F n url f sz offset fd)" for f sz
    unfolding get_transfer_def get_start_def
    by (intro rel_intros did_call did_tell did_reads loop P rel_case_get_end)
  have opened: "state_io_rel (did P) (get_opened F n url offset fd)"
    unfolding get_opened_def get_file_def sftpSendMimetype_def close_file_def
    by (auto intro!: rel_intros did_call did_tell did_act did_look transfer P split: option.splits)
  have "login_event e \<Longrightarrow> P e" for e using P(2,3) by (induction e rule: login_event.induct) auto
  then have "state_io_rel (did P) (sftpLogin F n)" using rel_did_mono[OF login_events] by blast
  then show "state_io_rel (did P) (sftpGet F n url offset fd)"
    unfolding sftpGet_def logged_in_def by (auto intro!: rel_intros opened split: option.splits)
qed

lemma did_copy_stages:
  assumes "\<And>e. P (EApp e)" "\<And>e. (\<forall>p q a. e \<noteq> LSetPermissions p q a) \<Longrightarrow> P (ELocal e)"
  shows "state_io_rel (did P) (copy_get_check F f flags)" "state_io_rel (did P) (copy_get_open F f resume part mode)"
    "state_io_rel (did P) (copy_get_rename F f de gr res)" "state_io_rel (did P) (copy_get_mtime F f)"
    "state_io_rel (did P) (local_close F fd)"
  unfolding copy_get_check_def copy_get_open_def copy_get_rename_def copy_get_mtime_def local_close_def
    local_open_def local_info_def local_remove_def local_rename_def discard_def Let_def
  by (auto intro!: rel_intros did_call assms split: option.splits)

lemma permissions_hidden:
  assumes "did P s0 s" "\<And>e. (\<forall>p q. e \<noteq> ELocal (LSetPermissions p q False)) \<Longrightarrow> P e"
  shows "wp (copy_get_permissions F f permissions mode) (\<lambda>h t. \<not> h \<longrightarrow> did P s0 t) s"
proof -
  have "did P s0 t" if "trace t = trace s @ es" "list_all P es" for t es
    using assms(1) that by (auto simp: did_def)
  then show ?thesis
    using assms(2) by (auto simp: copy_get_permissions_def local_info_def wp_simps Let_def assms(1)
        split: option.splits prod.splits)
qed

text \<open>
  When the last step of a copy to a local file, setting its permissions, fails, the copy passes
  whatever went wrong before: a failed read, write or renaming is not reported.
\<close>

lemma failed_permissions_hide_errors:
  assumes "run_state (sftpCopyGet F n url f mode flags) s = (r, t)" "trace t = trace s @ es"
    "ELocal (LSetPermissions p q False) \<in> set es"
  shows "r = Some Pass"
proof -
  define P where "P = (\<lambda>e. \<forall>p q. e \<noteq> ELocal (LSetPermissions p q False))"
  have no: "P e \<Longrightarrow> e \<noteq> ELocal (LSetPermissions p q False)" for e by (simp add: P_def)
  have stages: "state_io_rel (did P) (copy_get_check F f flags)"
    "\<And>resume part mode. state_io_rel (did P) (copy_get_open F f resume part mode)"
    "\<And>de gr res. state_io_rel (did P) (copy_get_rename F f de gr res)"
    "state_io_rel (did P) (copy_get_mtime F f)" "\<And>fd. state_io_rel (did P) (local_close F fd)"
    "\<And>off fd. state_io_rel (did P) (sftpGet F n url off fd)"
    by (rule did_copy_stages did_sftpGet; auto simp: P_def)+
  note go = wp_did[OF stages(1)] wp_did[OF stages(2)] wp_did[OF stages(3)] wp_did[OF stages(4)]
    wp_did[OF stages(5)] wp_did[OF stages(6)]
  have finish: "wp (copy_get_finish F f de permissions m fd gr) (\<lambda>r t. r \<noteq> Pass \<longrightarrow> did P s t) u"
    if "did P s u" for de permissions m fd gr u
    unfolding copy_get_finish_def Let_def wp_bind wp_return
    apply (rule go(5)[OF that], rule go(3), assumption, rule go(4), assumption)
    apply (rule wp_mono[OF permissions_hidden], assumption)
    apply (auto simp: P_def)
    done
  have "wp (sftpCopyGet F n url f mode flags) (\<lambda>r t. r \<noteq> Some Pass \<longrightarrow> did P s t) s"
    unfolding sftpCopyGet_def Let_def wp_bind
    apply (rule go(1)[OF did_refl])
    apply (auto simp: wp_simps split: sum.splits)
    apply (rule go(2), assumption)
    apply (auto simp: wp_simps split: sum.splits)
    apply (rule go(6), assumption)
    apply (auto simp: wp_simps split: option.splits intro!: wp_mono[OF finish])
    done
  then have "r \<noteq> Some Pass \<longrightarrow> did P s t" using wp_run assms(1) by fast
  then show ?thesis
    using assms(2,3) no by (auto simp: did_def list_all_iff)
qed

lemma failed_permissions_hide_errors_instance:
  "fst (run_state (sftpCopyGet demo_readonly demo_fuel demo_url ''/n'' 0x124 (no_flags\<lparr>fl_overwrite := True\<rparr>)) demo_online)
     = Some Pass"
proof (rule failed_permissions_hide_errors[OF prod.collapse[symmetric]])
  show "trace (snd (run_state (sftpCopyGet demo_readonly demo_fuel demo_url ''/n'' 0x124 (no_flags\<lparr>fl_overwrite := True\<rparr>)) demo_online))
    = trace demo_online @ trace (snd (run_state (sftpCopyGet demo_readonly demo_fuel demo_url ''/n'' 0x124
        (no_flags\<lparr>fl_overwrite := True\<rparr>)) demo_online))"
    by (simp add: demo_online_def demo_start_def)
  show "ELocal (LSetPermissions ''/n'' 0x444 False) \<in> set (trace (snd (run_state (sftpCopyGet demo_readonly demo_fuel demo_url
      ''/n'' 0x124 (no_flags\<lparr>fl_overwrite := True\<rparr>)) demo_online)))"
    by (simp add: evals read_evals copy_evals no_flags_def demo_readonly_def modeToOptionalPerms_def perms_mask_def
        initial_mode_def owner_write_def permsToQtPermissions_def)
qed

fun alive :: "ev \<Rightarrow> bool" where
  "alive (EApp (WasKilled b)) = (\<not> b)"
| "alive e = True"

lemma alive_neq: "alive e \<longleftrightarrow> e \<noteq> EApp (WasKilled True)"
  by (induction e rule: alive.induct) auto

lemma did_more: "did P s0 s \<Longrightarrow> trace t = trace s @ es \<Longrightarrow> list_all P es \<Longrightarrow> did P s0 t"
  by (auto simp: did_def)

lemma login_alive: "login_event e \<Longrightarrow> alive e"
  by (induction e rule: login_event.induct) auto

lemma alive_stages:
  "state_io_rel (did alive) (read_next F g)" "state_io_rel (did alive) (asyncRead F f sz)"
  "state_io_rel (did alive) (deliver F n fd d)" "state_io_rel (did alive) (get_start F f sz2 at)"
  "state_io_rel (did alive) (sftpSendMimetype F f url)" "state_io_rel (did alive) (close_file F f)"
  "state_io_rel (did alive) (sftpLogin F n)"
       apply (rule did_reads did_deliver; simp)+
     apply (auto simp: get_start_def sftpSendMimetype_def close_file_def
        intro!: rel_intros did_call did_tell did_act split: option.splits)[3]
  apply (rule rel_did_mono[OF login_events login_alive], assumption)
  done

lemma loop_killed:
  "did alive s0 s \<Longrightarrow> wp (get_loop F n fd tot sg) (\<lambda>e t. did alive s0 t \<or> e = Some GetKilled) s"
proof (induction n arbitrary: tot sg s)
  case 0
  then show ?case by (cases sg; cases "fst sg") (auto simp: wp_return)
next
  case (Suc n)
  obtain step g where sg: "sg = (step, g)" by fastforce
  show ?case
  proof (cases "step = ReadEnd")
    case True
    then show ?thesis using sg Suc.prems by (simp add: wp_return)
  next
    case False
    show ?thesis
    proof (cases "fst (w_wasKilled F (world s))")
      case True
      then show ?thesis using sg False
        by (cases step) (auto simp: wp_bind wp_call wp_return split: prod.splits)
    next
      case no: False
      define s1 where "s1 = s\<lparr>world := snd (w_wasKilled F (world s)), trace := trace s @ [EApp (WasKilled False)]\<rparr>"
      have s1: "did alive s0 s1"
        by (rule did_more[OF Suc.prems, where es = "[EApp (WasKilled False)]"]) (simp_all add: s1_def)
      have body: "wp (do { w \<leftarrow> deliver F n fd d; case w of None \<Rightarrow> ret None
         | Some (Some e) \<Rightarrow> ret (Some (GetFailed e))
         | Some None \<Rightarrow> do {
             let tot = tot + word_of_nat (length d);
             tell (EApp (ProcessedSize tot));
             nxt \<leftarrow> read_next F g;
             get_loop F n fd tot nxt } }) (\<lambda>e t. did alive s0 t \<or> e = Some GetKilled) s1" for d
        unfolding wp_bind
        apply (rule wp_did[OF alive_stages(3) s1])
        apply (auto simp: wp_return wp_bind wp_tell Let_def split: option.splits)
        apply (rule wp_did[OF alive_stages(1)])
         apply (erule did_more, simp, simp)
        apply (rule Suc.IH, assumption)
        done
      show ?thesis
        using body s1 sg False no
        by (cases step) (auto simp: wp_bind wp_call wp_return s1_def[symmetric] prod.case_eq_if)
    qed
  qed
qed

lemma get_killed: "wp (sftpGet F n url offset fd) (\<lambda>r t. did alive s t \<or> r = Some Pass) s"
proof -
  have transfer: "wp (get_transfer F n url f sz offset fd) (\<lambda>r t. did alive s t \<or> r = Some Pass) u"
    if "did alive s u" for f sz u
    unfolding get_transfer_def wp_bind wp_case_prod
    apply (rule wp_did[OF alive_stages(4) that])
    apply (split prod.split, intro allI impI)
    apply (rule wp_did[OF alive_stages(2)], assumption)
    apply (rule wp_mono[OF loop_killed], assumption)
    apply (auto simp: wp_simps intro: did_more split: option.splits get_end.splits)
    done
  have closing: "wp (close_file F f) (\<lambda>_ t. did alive s t) u" if "did alive s u" for f u
    by (rule wp_did[OF alive_stages(6) that])
  have close: "wp (do { (if r = None then ret () else close_file F f); ret r }) (\<lambda>r t. did alive s t \<or> r = Some Pass) u"
    if "did alive s u \<or> r = Some Pass" for r f u
    using that closing[of u f] by (cases "r = Some Pass") (auto simp: wp_bind wp_return intro: wpI wp_mono)
  have whole: "wp (get_file F n url f sz offset fd) (\<lambda>r t. did alive s t \<or> r = Some Pass) u"
    if "did alive s u" for f sz u
    unfolding get_file_def
    apply (rule wp_seq, rule wp_did[OF alive_stages(5) that])
    apply (rule wp_seq, rule wp_mono[of _ "\<lambda>r t. did alive s t \<or> r = Some Pass"])
     apply (auto simp: wp_simps intro!: transfer intro: did_more)[1]
    apply (rule close, assumption)
    done
  have opened: "wp (get_opened F n url offset fd) (\<lambda>r t. did alive s t \<or> r = Some Pass) u"
    if "did alive s u" for u
    unfolding get_opened_def
    by (auto simp: wp_simps intro!: whole intro: did_more[OF that] split: option.splits prod.splits)
  show ?thesis
    unfolding sftpGet_def logged_in_def
    apply (rule wp_seq, rule wp_did[OF alive_stages(7) did_refl])
    apply (auto simp: wp_simps intro!: opened split: option.splits)
    done
qed

definition renamed_since :: "string \<Rightarrow> 'w sw \<Rightarrow> 'w sw \<Rightarrow> bool" where
  "renamed_since f s t \<longleftrightarrow> (\<exists>b es. trace t = trace s @ es \<and> ELocal (LRename (f @ ''.part'') f b) \<in> set es)"

lemma did_copy_all:
  assumes "\<And>e. e \<noteq> EApp (WasKilled True) \<Longrightarrow> P e"
  shows "state_io_rel (did P) (copy_get_check F f flags)" "state_io_rel (did P) (copy_get_open F f resume part mode)"
    "state_io_rel (did P) (copy_get_rename F f de gr res)" "state_io_rel (did P) (copy_get_mtime F f)"
    "state_io_rel (did P) (local_close F fd)" "state_io_rel (did P) (copy_get_permissions F f p m)"
  using assms unfolding copy_get_check_def copy_get_open_def copy_get_rename_def copy_get_mtime_def local_close_def
    local_open_def local_info_def local_remove_def local_rename_def discard_def copy_get_permissions_def Let_def
  by (auto intro!: rel_intros did_call split: option.splits)

lemma did_copy_alive:
  "state_io_rel (did alive) (copy_get_check F f flags)" "state_io_rel (did alive) (copy_get_open F f resume part mode)"
  "state_io_rel (did alive) (copy_get_rename F f de gr res)" "state_io_rel (did alive) (copy_get_mtime F f)"
  "state_io_rel (did alive) (local_close F fd)" "state_io_rel (did alive) (copy_get_permissions F f p m)"
  by (rule did_copy_all; simp add: alive_neq)+

lemma renamed_keeps:
  assumes "state_io_rel (did (\<lambda>_. True)) m" "renamed_since f s u"
  shows "wp m (\<lambda>_ t. renamed_since f s t) u"
proof (rule wpI)
  fix a t
  assume "run_state m u = (a, t)"
  from did_run[OF assms(1) this] obtain es where "trace t = trace u @ es" by blast
  then show "renamed_since f s t" using assms(2) by (auto simp: renamed_since_def)
qed

lemma finish_alive:
  "did alive s u \<Longrightarrow> wp (copy_get_finish F f de p m fd gr) (\<lambda>_ t. did alive s t) u"
  unfolding copy_get_finish_def Let_def wp_bind wp_return
  apply (rule wp_did[OF did_copy_alive(5)], assumption)
  apply (rule wp_did[OF did_copy_alive(3)], assumption)
  apply (rule wp_did[OF did_copy_alive(4)], assumption)
  apply (rule wp_did[OF did_copy_alive(6)], assumption)
  apply assumption
  done

lemma finish_renames:
  assumes "c_markPartial F" "did (\<lambda>_. True) s u"
  shows "wp (copy_get_finish F f de p m fd Pass) (\<lambda>_ t. renamed_since f s t) u"
proof -
  have rename: "wp (copy_get_rename F f de Pass res) (\<lambda>_ t. renamed_since f s t) v" if "did (\<lambda>_. True) s v" for res v
    using that assms(1)
    by (auto simp: copy_get_rename_def local_rename_def local_remove_def wp_simps renamed_since_def did_def
        split: prod.splits)
  show ?thesis
    unfolding copy_get_finish_def Let_def wp_bind wp_return
    apply (rule wp_did[OF did_copy_all(5) assms(2)], simp)
    apply (rule wp_mono[OF rename], assumption)
    apply (rule wp_mono[OF renamed_keeps[OF did_copy_all(4)]], simp, assumption)
    apply (rule wp_mono[OF renamed_keeps[OF did_copy_all(6)]], simp, assumption)
    apply assumption
    done
qed

text \<open>
  A copy to a local file that is stopped in the middle goes on as if it were complete: the
  incomplete part file gets the name of the destination.
\<close>

lemma stopped_copy_is_renamed:
  assumes "run_state (sftpCopyGet F n url f mode flags) s = (r, t)" "trace t = trace s @ es"
    "c_markPartial F" "r \<noteq> None" "EApp (WasKilled True) \<in> set es"
  shows "\<exists>b. ELocal (LRename (f @ ''.part'') f b) \<in> set es"
proof -
  have got: "wp (sftpGet F n url offset fd)
      (\<lambda>r t. did (\<lambda>_. True) s t \<and> (did alive s t \<or> r = Some Pass)) u" if "did alive s u" for offset fd u
  proof (rule wpI)
    fix r t
    assume r: "run_state (sftpGet F n url offset fd) u = (r, t)"
    have "did (\<lambda>_. True) u t" using relD[OF did_sftpGet(2) r] by simp
    moreover have "did (\<lambda>_. True) s u" using that by (auto simp: did_def list_all_iff)
    moreover have "did alive u t \<or> r = Some Pass" using wp_run[OF get_killed r] .
    ultimately show "did (\<lambda>_. True) s t \<and> (did alive s t \<or> r = Some Pass)"
      using that transpD[OF transp_did] by blast
  qed
  have "wp (sftpCopyGet F n url f mode flags) (\<lambda>r t. did alive s t \<or> r = None \<or> renamed_since f s t) s"
    unfolding sftpCopyGet_def Let_def wp_bind
    apply (rule wp_did[OF did_copy_alive(1) did_refl])
    apply (auto simp: wp_simps split: sum.splits)
    apply (rule wp_did[OF did_copy_alive(2)], assumption)
    apply (auto simp: wp_simps split: sum.splits)
    apply (rule wp_mono[OF got], assumption)
    apply (auto simp: wp_simps split: option.splits)
     apply (rule wp_mono[OF finish_alive], assumption, simp add: wp_return)
    apply (rule wp_mono[OF finish_renames[OF assms(3)]], assumption, simp add: wp_return)
    done
  from wp_run[OF this assms(1)] show ?thesis
    using assms(2,4,5) by (auto simp: did_def renamed_since_def list_all_iff alive_neq)
qed

lemma stopped_copy_is_renamed_instance:
  "\<exists>b. ELocal (LRename (''/n'' @ ''.part'') ''/n'' b) \<in> set (trace (snd (run_state (sftpCopyGet demo demo_fuel demo_url
     ''/n'' (-1) no_flags) (demo_online\<lparr>world := demo_world\<lparr>d_polls := 1\<rparr>\<rparr>))))"
proof (rule stopped_copy_is_renamed[OF prod.collapse[symmetric]])
  let ?s = "demo_online\<lparr>world := demo_world\<lparr>d_polls := 1\<rparr>\<rparr>"
  let ?r = "run_state (sftpCopyGet demo demo_fuel demo_url ''/n'' (-1) no_flags) ?s"
  show "trace (snd ?r) = trace ?s @ trace (snd ?r)" by (simp add: demo_online_def demo_start_def)
  show "fst ?r \<noteq> None" "EApp (WasKilled True) \<in> set (trace (snd ?r))"
    by (simp_all add: evals read_evals copy_evals no_flags_def modeToOptionalPerms_def initial_mode_def)
qed simp

section \<open>Existing files\<close>

text \<open>What makes a \<open>put\<close> without flags resume: the application agrees, or the source is a local file.\<close>

definition resumes :: "int \<Rightarrow> ev list \<Rightarrow> bool" where
  "resumes fd es \<longleftrightarrow> (\<exists>n. EApp (CanResumeAt n True) \<in> set es) \<or> (fd \<noteq> -1 \<and> (\<exists>n. ELocal (LSeek fd n n) \<in> set es))"

definition resumed_since :: "int \<Rightarrow> 'w sw \<Rightarrow> 'w sw \<Rightarrow> bool" where
  "resumed_since fd s t \<longleftrightarrow> (\<exists>es. trace t = trace s @ es \<and> resumes fd es)"

lemma put_part_resumes:
  assumes "\<not> fl_overwrite flags" "\<not> fl_resume flags" "did (\<lambda>e. \<not> changes e) s u"
  shows "wp (put_part F url flags fd) (\<lambda>r t. did (\<lambda>e. \<not> changes e) s t \<and> r \<noteq> Inl Pass
    \<and> (\<forall>part fl. r = Inr (part, fl) \<longrightarrow> \<not> fl_overwrite fl \<and> (fl_resume fl \<longrightarrow> resumed_since fd s t))) u"
proof -
  obtain es0 where es0: "trace u = trace s @ es0" "list_all (\<lambda>e. \<not> changes e) es0"
    using assms(3) by (auto simp: did_def)
  show ?thesis
    using assms(1,2) es0
    by (auto simp: put_part_def wp_simps did_def resumed_since_def resumes_def split: option.splits prod.splits)
qed

lemma did_put_file: "state_io_rel (did (\<lambda>_. True)) (put_file F n url flags fd permissions orig part)"
proof -
  note any = rel_did_mono[OF asides(1)] rel_did_mono[OF asides(2)] rel_did_mono[OF asides(3)]
    rel_did_mono[OF asides(4)] rel_did_mono[OF asides(5)] rel_did_mono[OF asides(6)]
  have loop: "state_io_rel (did (\<lambda>_. True)) (put_loop F n tot sv)" for n tot sv
  proof (induction n arbitrary: tot sv)
    case 0
    show ?case by (cases sv; cases "fst sv") (auto intro!: rel_intros)
  next
    case (Suc n)
    then show ?case
      by (cases sv; cases "fst sv") (auto simp: Let_def intro!: rel_intros did_call did_tell did_writes)
  qed
  have close: "state_io_rel (did (\<lambda>_. True)) (closeOnError F dest h)" for dest h
    unfolding closeOnError_def close_file_def by (auto intro!: rel_intros did_call split: option.splits)
  have finish: "state_io_rel (did (\<lambda>_. True)) (put_finish F url flags permissions orig dest f)" for dest f
    unfolding put_finish_def by (intro rel_intros did_call any) auto
  have "state_io_rel (did (\<lambda>_. True)) (put_transfer F n url flags fd permissions orig dest f sent)" for dest f sent
    unfolding put_transfer_def
    by (auto intro!: rel_intros did_writes loop close finish split: option.splits put_end.splits)
  then show ?thesis
    unfolding put_file_def by (intro rel_intros any did_look close) auto
qed

text \<open>
  C16. \<open>put\<close> without Overwrite and Resume leaves a name that is taken alone and fails, except that a
  leftover part file makes it resume: for the application after asking it, for a copy of a local
  file without asking anyone.
\<close>

theorem put_keeps_taken_name:
  assumes "taken F (path url)" "\<not> fl_overwrite flags" "\<not> fl_resume flags"
    "run_state (sftpPut F n url mode flags fd) s = (r, t)"
  shows "\<exists>es. trace t = trace s @ es \<and>
    (list_all (\<lambda>e. \<not> changes e) es \<and> r \<noteq> Some Pass \<or> resumes fd es)"
proof -
  let ?Q = "\<lambda>r t. did (\<lambda>e. \<not> changes e) s t \<and> r \<noteq> Some Pass \<or> resumed_since fd s t"
  have any: "wp (put_file F n url fl fd p orig part) ?Q u" if "resumed_since fd s u" for fl p orig part u
  proof (rule wpI)
    fix r t
    assume "run_state (put_file F n url fl fd p orig part) u = (r, t)"
    from did_run[OF did_put_file this] obtain es where "trace t = trace u @ es" by blast
    then show "?Q r t" using that by (fastforce simp: resumed_since_def resumes_def)
  qed
  have checked: "wp (put_checked F n url mode flags fd) ?Q u" if "did (\<lambda>e. \<not> changes e) s u" for u
  proof -
    obtain a w where a: "s_lstat F (path url) (world u) = (Some a, w)"
      using assms(1) unfolding taken_def by (metis not_None_eq surj_pair)
    define u1 where "u1 = u\<lparr>world := w, trace := trace u @ [EFile (Lstat (path url) (Some a))]\<rparr>"
    have u1: "did (\<lambda>e. \<not> changes e) s u1"
      by (rule did_more[OF that, where es = "[EFile (Lstat (path url) (Some a))]"]) (simp_all add: u1_def)
    show ?thesis
      unfolding put_checked_def Let_def wp_bind wp_call
      apply (simp add: a u1_def[symmetric])
      apply (rule wp_mono[OF put_part_resumes[OF assms(2,3) u1]])
      apply (auto simp: wp_return split: sum.splits intro!: any)
      done
  qed
  have "wp (sftpPut F n url mode flags fd) ?Q s"
    unfolding sftpPut_def logged_in_def
    apply (rule wp_seq, rule wp_did[OF login_no_change did_refl])
    apply (auto simp: wp_return intro!: checked split: option.splits)
    done
  from wp_run[OF this assms(4)] show ?thesis
    by (auto simp: did_def resumed_since_def)
qed

theorem put_keeps_taken_name_witness:
  "taken demo (path demo_url) \<and>
   fst (run_state (sftpPut demo demo_fuel demo_url (-1) no_flags (-1)) demo_online)
     = Some (Fail ERR_FILE_ALREADY_EXIST ''/f'') \<and>
   (\<exists>es. trace (snd (run_state (sftpPut demo demo_fuel demo_url (-1) no_flags (-1)) demo_online)) = trace demo_online @ es
     \<and> (list_all (\<lambda>e. \<not> changes e) es \<and> fst (run_state (sftpPut demo demo_fuel demo_url (-1) no_flags (-1)) demo_online) \<noteq> Some Pass
        \<or> resumes (-1) es))"
proof (intro conjI)
  show taken: "taken demo (path demo_url)" by (auto simp: taken_def demo_url_def)
  show "fst (run_state (sftpPut demo demo_fuel demo_url (-1) no_flags (-1)) demo_online)
     = Some (Fail ERR_FILE_ALREADY_EXIST ''/f'')"
    by (simp add: evals read_evals write_evals no_flags_def)
  show "\<exists>es. trace (snd (run_state (sftpPut demo demo_fuel demo_url (-1) no_flags (-1)) demo_online)) = trace demo_online @ es
     \<and> (list_all (\<lambda>e. \<not> changes e) es \<and> fst (run_state (sftpPut demo demo_fuel demo_url (-1) no_flags (-1)) demo_online) \<noteq> Some Pass
        \<or> resumes (-1) es)"
    by (rule put_keeps_taken_name[OF taken _ _ prod.collapse[symmetric]]) (simp_all add: no_flags_def)
qed

section \<open>Two runs\<close>

text \<open>An error of \<open>readData\<close> ends the supply like its end: the upload is cut, renamed, and passes.\<close>

lemma failed_supply_is_stored:
  defines "s \<equiv> demo_online\<lparr>world := demo_world\<lparr>d_feed := [(2, [9, 8]), (-1, [])]\<rparr>\<rparr>"
  defines "r \<equiv> run_state (sftpPut demo demo_fuel demo_new (-1) no_flags (-1)) s"
  shows "fst r = Some Pass" "EApp (ReadData (-1) []) \<in> set (trace (snd r))"
    "EName (Rename (part_path demo_new) (path demo_new) True) \<in> set (trace (snd r))"
  by (simp_all add: r_def s_def evals read_evals write_evals no_flags_def)

text \<open>
  A copy of a local file to a name that is taken, without Overwrite and Resume: the part file that is
  there is continued and replaces the file, and nobody was asked.
\<close>

definition demo_leftover :: "dw sftp" where
  "demo_leftover = demo\<lparr>s_lstat := \<lambda>p w. (Some demo_attr, w), l_read := \<lambda>fd w. (Some [], w),
     l_info := \<lambda>f w. (\<lparr>fi_exists = True, fi_isDir = False, fi_size = 3\<rparr>, w)\<rparr>"

lemma leftover_part_replaces:
  defines "r \<equiv> run_state (sftpCopyPut demo_leftover demo_fuel demo_url ''/l'' (-1) no_flags) demo_online"
  shows "fst r = Some Pass" "EName (Rename (part_path demo_url) (path demo_url) True) \<in> set (trace (snd r))"
    "EFile (Lstat (path demo_url) (Some demo_attr)) \<in> set (trace (snd r))"
  by (simp_all add: r_def demo_leftover_def evals read_evals write_evals copy_evals no_flags_def)

end
