(* ===== verification/NfsWorld.thy ===== *)
theory NfsWorld
  imports QtUrl Calls
begin

text \<open>
  The NFS worker (nfs/kio_nfs.h, nfs/kio_nfs.cpp, nfs/nfsv3.h): file handles, the members of
  \<open>NFSWorker\<close> and of its \<open>NFSProtocolV3\<close>, what they call, and the parts that the handlers share. The
  server, the resolver, local files and the application are the parameter \<open>nfs\<close>, functions on one
  state \<open>'w\<close>. The arguments and results of a remote call are the fields that the worker fills in and
  reads; attributes that a server leaves out of an answer are the zeros that the worker put there,
  and the count in an answer to READ is the length of its data (RFC 1813). \<open>fuel\<close> bounds the depth of
  the recursion through links, and the number of rounds of a loop.
\<close>

section \<open>Answers of the server\<close>

type_synonym fh3 = "byte list"

text \<open>\<open>nfsstat3\<close> without \<open>NFS3_OK\<close>.\<close>

datatype (plugins only: code) nfs_error =
    NFS3ERR_PERM | NFS3ERR_NOENT | NFS3ERR_IO | NFS3ERR_NXIO | NFS3ERR_ACCES | NFS3ERR_EXIST
  | NFS3ERR_NODEV | NFS3ERR_NOTDIR | NFS3ERR_ISDIR | NFS3ERR_FBIG | NFS3ERR_NOSPC | NFS3ERR_ROFS
  | NFS3ERR_NAMETOOLONG | NFS3ERR_NOTEMPTY | NFS3ERR_DQUOT | NFS3ERR_STALE | NFS3ERR_NOTSUPP
  | NFS3ERR_OTHER int

text \<open>
  The answer to a call: \<open>RpcError n\<close> is \<open>clnt_stat\<close> n + 1 (0 is \<open>RPC_SUCCESS\<close>), \<open>NfsError\<close> a status
  of the server. The functions that prepare a call give a status in the same way.
\<close>

datatype 'a reply = RpcError nat | NfsError nfs_error | Ok 'a

fun is_ok :: "'a reply \<Rightarrow> bool" where
  "is_ok (Ok _) = True"
| "is_ok _ = False"

fun forget :: "'a reply \<Rightarrow> unit reply" where
  "forget (Ok _) = Ok ()"
| "forget (NfsError e) = NfsError e"
| "forget (RpcError n) = RpcError n"

datatype ftype3 = NF3REG | NF3DIR | NF3BLK | NF3CHR | NF3LNK | NF3SOCK | NF3FIFO | NF3_NONE

record fattr3 =
  at_type :: ftype3
  at_mode :: u32
  at_uid :: u32
  at_gid :: u32
  at_size :: u64
  at_atime :: u32
  at_mtime :: u32
  at_mtime_nsec :: u32

record entryplus3 =
  en_name :: string
  en_cookie :: u64
  en_attr :: fattr3
  en_handle :: fh3

record sattr3 =
  sa_mode :: "u32 option"
  sa_mtime :: "(u32 \<times> u32) option"

text \<open>The answer to mounting an exported directory.\<close>

datatype mount_reply = Mounted fh3 | NotMounted int

section \<open>File handles\<close>

text \<open>
  \<open>m_size\<close> and \<open>m_linkSize\<close> are the lengths of the two handles; after \<open>setBadLink\<close> the bytes of the
  link's handle are never read again.
\<close>

record nfs_handle =
  m_handle :: fh3
  m_linkHandle :: fh3
  m_isLink :: bool

definition emptyHandle :: nfs_handle where
  "emptyHandle = \<lparr>m_handle = [], m_linkHandle = [], m_isLink = False\<rparr>"

definition isInvalid :: "nfs_handle \<Rightarrow> bool" where
  "isInvalid h \<longleftrightarrow> m_handle h = [] \<and> m_linkHandle h = []"

definition isBadLink :: "nfs_handle \<Rightarrow> bool" where
  "isBadLink h \<longleftrightarrow> m_isLink h \<and> m_linkHandle h = []"

definition setLinkSource :: "fh3 \<Rightarrow> nfs_handle \<Rightarrow> nfs_handle" where
  "setLinkSource src h = h\<lparr>m_linkHandle := src, m_isLink := True\<rparr>"

definition setBadLink :: "nfs_handle \<Rightarrow> nfs_handle" where
  "setBadLink h = h\<lparr>m_isLink := True, m_linkHandle := []\<rparr>"

definition fromFH :: "fh3 \<Rightarrow> nfs_handle" where
  "fromFH src = emptyHandle\<lparr>m_handle := src\<rparr>"

text \<open>\<open>operator=\<close>: an empty handle of the source does not replace the one that is there.\<close>

definition assignHandle :: "nfs_handle \<Rightarrow> nfs_handle \<Rightarrow> nfs_handle" where
  "assignHandle h src =
     (let h = (if m_handle src \<noteq> [] then h\<lparr>m_handle := m_handle src\<rparr> else h);
          h = (if m_linkHandle src \<noteq> [] then h\<lparr>m_linkHandle := m_linkHandle src\<rparr> else h)
      in h\<lparr>m_isLink := m_isLink src\<rparr>)"

lemma copy_is_source: "assignHandle emptyHandle src = src"
  by (simp add: assignHandle_def emptyHandle_def Let_def)

section \<open>Paths\<close>

text \<open>
  \<open>QFileInfo\<close> of a path: \<open>dirName\<close> is \<open>path()\<close>, \<open>baseName\<close> is \<open>fileName()\<close>, \<open>childPath\<close> the path of a
  name in a directory.
\<close>

abbreviation slash :: char where "slash \<equiv> CHR ''/''"

definition baseName :: "string \<Rightarrow> string" where
  "baseName p = rev (takeWhile (\<lambda>c. c \<noteq> slash) (rev p))"

definition dirName :: "string \<Rightarrow> string" where
  "dirName p =
     (if p = [] then []
      else case dropWhile (\<lambda>c. c \<noteq> slash) (rev p) of
        [] \<Rightarrow> ''.''
      | _ # r \<Rightarrow> if r = [] then ''/'' else rev r)"

definition childPath :: "string \<Rightarrow> string \<Rightarrow> string" where
  "childPath d n =
     (if starts_with ''/'' n then n else if ends_with ''/'' d then d @ n else d @ ''/'' @ n)"

definition isRootPath :: "string \<Rightarrow> bool" where
  "isRootPath p \<longleftrightarrow> p = [] \<or> p = ''/''"

section \<open>Calls and messages\<close>

datatype prog = MOUNT_PROGRAM | NFSPROG

datatype open_error = OpenError | PermissionsError | OtherOpenError

record local_info =
  li_exists :: bool
  li_isDir :: bool
  li_size :: u64

text \<open>Remote calls that change nothing, those that do, local files, connections, the application.\<close>

datatype (plugins only: code) look_ev =
    NLookup fh3 string "(fh3 \<times> fattr3) reply" | NGetattr fh3 "fattr3 reply" | NReadlink fh3 "string reply"
  | NRead fh3 u64 u32 "(byte list \<times> fattr3) reply" | NFsinfo fh3 "(u32 \<times> u32 \<times> u32) reply"
  | NReaddirplus fh3 u64 u32 "(entryplus3 list \<times> bool) reply"
  | NReaddir fh3 u64 u32 "((string \<times> u64) list \<times> bool) reply"

datatype (plugins only: code) change_ev =
    NWrite fh3 u64 "byte list" "u32 reply" | NCreate fh3 string u32 u32 u32 "fh3 reply"
  | NMkdir fh3 string u32 "unit reply" | NRemove fh3 string "unit reply" | NRmdir fh3 string "unit reply"
  | NRename fh3 string fh3 string "unit reply" | NSetattr fh3 sattr3 "unit reply"
  | NSymlink fh3 string string "unit reply"

datatype (plugins only: code) nlocal_ev =
    QExists string bool | QInfo string local_info | QRemove string bool | QRename string string bool
  | QLink string string bool | QSetPermissions string u32 bool | QOpenWrite string bool "open_error option"
  | QWrite string "byte list" bool | QOpenRead string bool | QRead string nat "byte list option"
  | QClose string | QSymLinkTarget string string | QUtime string int bool

datatype (plugins only: code) conn_ev =
    ResolveHost string bool | GetHostByName string bool | ConnectTcp prog string bool
  | ConnectUdp prog string bool | AuthUnix prog u32 u32 | Disconnect prog | NullCall bool
  | Exports "nat + string list" | MountCall string mount_reply | UnmountAll

datatype (plugins only: code) napp_ev =
    AData "byte list" | AMimeType string | ATotalSize u64 | AProcessedSize u64 | ADataReq
  | AReadData int "byte list" | ACanResume u64 bool | AListEntry uds | AStatEntry uds | ARedirection qurl
  | AException

datatype (plugins only: code) nev =
    ELook look_ev | EChange change_ev | EQFile nlocal_ev | EConn conn_ev | EWorker napp_ev

text \<open>
  \<open>t_\<close> are functions of Qt and translations on texts, \<open>c_\<close> settings of the configuration: \<open>c_default\<close>
  and \<open>c_host\<close> are minproto, maxproto and usedirplus3 of the group for all hosts and of the group for
  one host, where they are set.
\<close>

record proto_config =
  pc_minproto :: "int option"
  pc_maxproto :: "int option"
  pc_usedirplus3 :: "bool option"

record 'w nfs =
  n_lookup :: "fh3 \<Rightarrow> string \<Rightarrow> 'w \<Rightarrow> (fh3 \<times> fattr3) reply \<times> 'w"
  n_getattr :: "fh3 \<Rightarrow> 'w \<Rightarrow> fattr3 reply \<times> 'w"
  n_readlink :: "fh3 \<Rightarrow> 'w \<Rightarrow> string reply \<times> 'w"
  n_read :: "fh3 \<Rightarrow> u64 \<Rightarrow> u32 \<Rightarrow> 'w \<Rightarrow> (byte list \<times> fattr3) reply \<times> 'w"
  n_fsinfo :: "fh3 \<Rightarrow> 'w \<Rightarrow> (u32 \<times> u32 \<times> u32) reply \<times> 'w"
  n_readdirplus :: "fh3 \<Rightarrow> u64 \<Rightarrow> u32 \<Rightarrow> 'w \<Rightarrow> (entryplus3 list \<times> bool) reply \<times> 'w"
  n_readdir :: "fh3 \<Rightarrow> u64 \<Rightarrow> u32 \<Rightarrow> 'w \<Rightarrow> ((string \<times> u64) list \<times> bool) reply \<times> 'w"
  n_write :: "fh3 \<Rightarrow> u64 \<Rightarrow> byte list \<Rightarrow> 'w \<Rightarrow> u32 reply \<times> 'w"
  n_create :: "fh3 \<Rightarrow> string \<Rightarrow> u32 \<Rightarrow> u32 \<Rightarrow> u32 \<Rightarrow> 'w \<Rightarrow> fh3 reply \<times> 'w"
  n_mkdir :: "fh3 \<Rightarrow> string \<Rightarrow> u32 \<Rightarrow> 'w \<Rightarrow> unit reply \<times> 'w"
  n_remove :: "fh3 \<Rightarrow> string \<Rightarrow> 'w \<Rightarrow> unit reply \<times> 'w"
  n_rmdir :: "fh3 \<Rightarrow> string \<Rightarrow> 'w \<Rightarrow> unit reply \<times> 'w"
  n_rename :: "fh3 \<Rightarrow> string \<Rightarrow> fh3 \<Rightarrow> string \<Rightarrow> 'w \<Rightarrow> unit reply \<times> 'w"
  n_setattr :: "fh3 \<Rightarrow> sattr3 \<Rightarrow> 'w \<Rightarrow> unit reply \<times> 'w"
  n_symlink :: "fh3 \<Rightarrow> string \<Rightarrow> string \<Rightarrow> 'w \<Rightarrow> unit reply \<times> 'w"
  n_resolve :: "string \<Rightarrow> 'w \<Rightarrow> bool \<times> 'w"
  n_getHostByName :: "string \<Rightarrow> 'w \<Rightarrow> bool \<times> 'w"
  n_tcp :: "prog \<Rightarrow> string \<Rightarrow> 'w \<Rightarrow> bool \<times> 'w"
  n_udp :: "prog \<Rightarrow> string \<Rightarrow> 'w \<Rightarrow> bool \<times> 'w"
  n_auth :: "prog \<Rightarrow> u32 \<Rightarrow> u32 \<Rightarrow> 'w \<Rightarrow> 'w"
  n_disconnect :: "prog \<Rightarrow> 'w \<Rightarrow> 'w"
  n_null :: "'w \<Rightarrow> bool \<times> 'w"
  n_exports :: "'w \<Rightarrow> (nat + string list) \<times> 'w"
  n_mount :: "string \<Rightarrow> 'w \<Rightarrow> mount_reply \<times> 'w"
  n_umntall :: "'w \<Rightarrow> 'w"
  q_exists :: "string \<Rightarrow> 'w \<Rightarrow> bool \<times> 'w"
  q_info :: "string \<Rightarrow> 'w \<Rightarrow> local_info \<times> 'w"
  q_remove :: "string \<Rightarrow> 'w \<Rightarrow> bool \<times> 'w"
  q_rename :: "string \<Rightarrow> string \<Rightarrow> 'w \<Rightarrow> bool \<times> 'w"
  q_link :: "string \<Rightarrow> string \<Rightarrow> 'w \<Rightarrow> bool \<times> 'w"
  q_setPermissions :: "string \<Rightarrow> u32 \<Rightarrow> 'w \<Rightarrow> bool \<times> 'w"
  q_openWrite :: "string \<Rightarrow> bool \<Rightarrow> 'w \<Rightarrow> open_error option \<times> 'w"
  q_write :: "string \<Rightarrow> byte list \<Rightarrow> 'w \<Rightarrow> bool \<times> 'w"
  q_openRead :: "string \<Rightarrow> 'w \<Rightarrow> bool \<times> 'w"
  q_read :: "string \<Rightarrow> nat \<Rightarrow> 'w \<Rightarrow> byte list option \<times> 'w"
  q_close :: "string \<Rightarrow> 'w \<Rightarrow> 'w"
  q_symLinkTarget :: "string \<Rightarrow> 'w \<Rightarrow> string \<times> 'w"
  q_utime :: "string \<Rightarrow> int \<Rightarrow> 'w \<Rightarrow> bool \<times> 'w"
  a_readData :: "'w \<Rightarrow> (int \<times> byte list) \<times> 'w"
  a_canResume :: "u64 \<Rightarrow> 'w \<Rightarrow> bool \<times> 'w"
  t_absolute :: "string \<Rightarrow> string \<Rightarrow> string"
  t_absolutePath :: "string \<Rightarrow> string"
  t_clean :: "qurl \<Rightarrow> qurl"
  t_valid :: "qurl \<Rightarrow> bool"
  t_display :: "qurl \<Rightarrow> string"
  t_rootOf :: "qurl \<Rightarrow> qurl"
  t_mime :: "string \<Rightarrow> byte list \<Rightarrow> string"
  t_rpcError :: "nat \<Rightarrow> string"
  t_nfsError :: "nfs_error \<Rightarrow> string \<Rightarrow> string"
  t_noVersion :: "string \<Rightarrow> string"
  t_number :: "u32 \<Rightarrow> string"
  t_toUInt :: "string \<Rightarrow> u32 option"
  t_convertPermissions :: "u32 \<Rightarrow> u32"
  c_default :: proto_config
  c_host :: "string \<Rightarrow> proto_config option"
  c_euid :: u32
  c_egid :: u32
  c_getpwnam :: "string \<Rightarrow> u32 option"
  c_getpwuid :: "u32 \<Rightarrow> string option"
  c_getgrgid :: "u32 \<Rightarrow> string option"
  c_markPartial :: bool
  c_modified :: "int option"

section \<open>The members\<close>

text \<open>
  First the worker's, then those of its protocol object, of which \<open>m_protocol\<close> says whether there is
  one. A client (\<open>m_mountClient\<close>, \<open>m_nfsClient\<close>) is whether there is a connection.
\<close>

record 'w ns = "('w, nev) io" +
  m_protocol :: bool
  m_host :: string
  m_user :: string
  m_usedirplus3 :: bool
  m_currentHost :: string
  m_currentUser :: string
  m_handleCache :: "string \<rightharpoonup> nfs_handle"
  m_exportedDirs :: "string list"
  m_usercache :: "u32 \<rightharpoonup> string"
  m_groupcache :: "u32 \<rightharpoonup> string"
  m_mountClient :: bool
  m_nfsClient :: bool
  m_readBufferSize :: u32
  m_writeBufferSize :: u32
  m_readDirSize :: u32

definition NFS3_MAXDATA :: u32 where "NFS3_MAXDATA = 32768"
definition DEFAULT_MINIMUM_KEEP_SIZE :: u64 where "DEFAULT_MINIMUM_KEEP_SIZE = 5000"

text \<open>\<open>MaybeNFSFileHandle\<close>.\<close>

type_synonym maybe_handle = "worker_result + nfs_handle"

end
