(* ===== verification/NfsLookup.thy ===== *)
theory NfsLookup
  imports NfsWorld
begin

text \<open>
  What the handlers of NFS are made of (nfs/kio_nfs.cpp, nfs/nfsv3.cpp): the exported directories, the
  cache of file handles, finding the handle of a path through its parent directories and through
  links, and one function for each call of the protocol that changes something.
\<close>

section \<open>Exported directories and the cache\<close>

definition isExportedDir :: "string list \<Rightarrow> string \<Rightarrow> bool" where
  "isExportedDir exps p \<longleftrightarrow> isRootPath p \<or> list_ex (\<lambda>e. starts_with (p @ ''/'') e) exps"

definition isValidPath :: "string list \<Rightarrow> string \<Rightarrow> bool" where
  "isValidPath exps p \<longleftrightarrow>
     isRootPath p \<or> list_ex (\<lambda>e. p = e \<or> starts_with (e @ ''/'') p) exps"

definition isConnected :: "'w ns \<Rightarrow> bool" where
  "isConnected s = m_nfsClient s"

definition addExportedDir :: "string \<Rightarrow> ('w ns, unit) state" where
  "addExportedDir p = State_Monad.update (\<lambda>s. s\<lparr>m_exportedDirs := m_exportedDirs s @ [p]\<rparr>)"

definition removeExportedDir :: "string \<Rightarrow> ('w ns, unit) state" where
  "removeExportedDir p = State_Monad.update (\<lambda>s. s\<lparr>m_exportedDirs := remove1 p (m_exportedDirs s)\<rparr>)"

text \<open>A path that is there already is assigned to.\<close>

definition insertHandle :: "string \<Rightarrow> nfs_handle \<Rightarrow> (string \<rightharpoonup> nfs_handle) \<Rightarrow> (string \<rightharpoonup> nfs_handle)" where
  "insertHandle p h c = c(p \<mapsto> (case c p of None \<Rightarrow> h | Some old \<Rightarrow> assignHandle old h))"

definition addFileHandle :: "string \<Rightarrow> nfs_handle \<Rightarrow> ('w ns, unit) state" where
  "addFileHandle p h =
     (if isInvalid h then ret ()
      else State_Monad.update (\<lambda>s. s\<lparr>m_handleCache := insertHandle p h (m_handleCache s)\<rparr>))"

definition removeFileHandle :: "string \<Rightarrow> ('w ns, unit) state" where
  "removeFileHandle p = State_Monad.update (\<lambda>s. s\<lparr>m_handleCache := (m_handleCache s)(p := None)\<rparr>)"

section \<open>Errors\<close>

definition nfs_error_code :: "nfs_error \<Rightarrow> kio_error" where
  "nfs_error_code e = (case e of
     NFS3ERR_PERM \<Rightarrow> ERR_ACCESS_DENIED
   | NFS3ERR_NOENT \<Rightarrow> ERR_DOES_NOT_EXIST
   | NFS3ERR_IO \<Rightarrow> ERR_INTERNAL_SERVER
   | NFS3ERR_NXIO \<Rightarrow> ERR_DOES_NOT_EXIST
   | NFS3ERR_ACCES \<Rightarrow> ERR_ACCESS_DENIED
   | NFS3ERR_EXIST \<Rightarrow> ERR_FILE_ALREADY_EXIST
   | NFS3ERR_NODEV \<Rightarrow> ERR_DOES_NOT_EXIST
   | NFS3ERR_NOTDIR \<Rightarrow> ERR_IS_FILE
   | NFS3ERR_ISDIR \<Rightarrow> ERR_IS_DIRECTORY
   | NFS3ERR_FBIG \<Rightarrow> ERR_INTERNAL_SERVER
   | NFS3ERR_NOSPC \<Rightarrow> ERR_DISK_FULL
   | NFS3ERR_ROFS \<Rightarrow> ERR_WRITE_ACCESS_DENIED
   | NFS3ERR_NAMETOOLONG \<Rightarrow> ERR_INTERNAL_SERVER
   | NFS3ERR_NOTEMPTY \<Rightarrow> ERR_CANNOT_RMDIR
   | NFS3ERR_DQUOT \<Rightarrow> ERR_INTERNAL_SERVER
   | NFS3ERR_STALE \<Rightarrow> ERR_DOES_NOT_EXIST
   | _ \<Rightarrow> ERR_UNKNOWN)"

definition nfs_error_text :: "'w nfs \<Rightarrow> nfs_error \<Rightarrow> string \<Rightarrow> string" where
  "nfs_error_text F e text = (case e of
     NFS3ERR_NAMETOOLONG \<Rightarrow> ''Filename too long''
   | NFS3ERR_DQUOT \<Rightarrow> ''Disk quota exceeded''
   | NFS3ERR_NOTSUPP \<Rightarrow> t_nfsError F e text
   | NFS3ERR_OTHER _ \<Rightarrow> t_nfsError F e text
   | _ \<Rightarrow> text)"

fun checkResult :: "'w nfs \<Rightarrow> 'a reply \<Rightarrow> string \<Rightarrow> worker_result" where
  "checkResult F (RpcError n) text = Fail ERR_INTERNAL_SERVER (t_rpcError F n)"
| "checkResult F (NfsError e) text = Fail (nfs_error_code e) (nfs_error_text F e text)"
| "checkResult F (Ok a) text = Pass"

section \<open>Finding the handle of a path\<close>

text \<open>\<open>handleOf\<close> is \<open>getFileHandle\<close>, which these two call for the directory.\<close>

definition lookupHandle_by ::
  "(string \<Rightarrow> ('w ns, maybe_handle option) state) \<Rightarrow> 'w nfs \<Rightarrow> string
   \<Rightarrow> ('w ns, (fh3 \<times> fattr3) reply option) state" where
  "lookupHandle_by handleOf F p = do {
     s \<leftarrow> State_Monad.get;
     if \<not> isConnected s then ret (Some (NfsError NFS3ERR_ACCES))
     else andThen (handleOf (dirName p)) (\<lambda>parent. case parent of
       Inl _ \<Rightarrow> ret (Some (NfsError NFS3ERR_NOENT))
     | Inr h \<Rightarrow> do {
         r \<leftarrow> call (n_lookup F (m_handle h) (baseName p)) (\<lambda>a. ELook (NLookup (m_handle h) (baseName p) a));
         ret (Some r)
       })
   }"

text \<open>The target of a link, and its handle with the one of the link recorded in it.\<close>

definition resolveLink_by ::
  "(string \<Rightarrow> ('w ns, maybe_handle option) state) \<Rightarrow> 'w nfs \<Rightarrow> string \<Rightarrow> fh3
   \<Rightarrow> ('w ns, nfs_handle option) state" where
  "resolveLink_by handleOf F p link = do {
     r \<leftarrow> call (n_readlink F link) (\<lambda>a. ELook (NReadlink link a));
     s \<leftarrow> State_Monad.get;
     case r of
       Ok target \<Rightarrow>
         (let linkPath = t_absolute F (dirName p) target in
          if isValidPath (m_exportedDirs s) linkPath
          then andThen (lookupHandle_by handleOf F linkPath) (\<lambda>t. case t of
                 Ok (object, _) \<Rightarrow> ret (Some (setLinkSource link (fromFH object)))
               | _ \<Rightarrow> ret (Some (setBadLink (fromFH link))))
          else ret (Some (setBadLink (fromFH link))))
     | _ \<Rightarrow> ret (Some (setBadLink (fromFH link)))
   }"

definition lookupFileHandle_by ::
  "(string \<Rightarrow> ('w ns, maybe_handle option) state) \<Rightarrow> 'w nfs \<Rightarrow> string
   \<Rightarrow> ('w ns, nfs_handle option option) state" where
  "lookupFileHandle_by handleOf F p =
     andThen (lookupHandle_by handleOf F p) (\<lambda>r. case r of
       Ok (object, attr) \<Rightarrow>
         (if at_type attr = NF3LNK
          then andThen (resolveLink_by handleOf F p object) (\<lambda>h. ret (Some (Some h)))
          else ret (Some (Some (fromFH object))))
     | _ \<Rightarrow> ret (Some None))"

text \<open>The checks before the cache is asked.\<close>

definition refusedPath :: "'w ns \<Rightarrow> string \<Rightarrow> worker_result option" where
  "refusedPath s p =
     (if \<not> isConnected s then Some (Fail ERR_CONNECTION_BROKEN [])
      else if p \<in> set (m_exportedDirs s) \<and> m_handleCache s p = None then Some (Fail ERR_CANNOT_MOUNT p)
      else if \<not> isValidPath (m_exportedDirs s) p then Some (Fail ERR_CANNOT_ENTER_DIRECTORY p)
      else None)"

fun getFileHandle :: "'w nfs \<Rightarrow> nat \<Rightarrow> string \<Rightarrow> ('w ns, maybe_handle option) state" where
  "getFileHandle F 0 = (\<lambda>p. ret None)"
| "getFileHandle F (Suc n) = (\<lambda>p. do {
     s \<leftarrow> State_Monad.get;
     case refusedPath s p of
       Some e \<Rightarrow> ret (Some (Inl e))
     | None \<Rightarrow>
         (case m_handleCache s p of
            Some h \<Rightarrow> ret (Some (Inr h))
          | None \<Rightarrow>
              (if dirName p = p then ret (Some (Inl (Fail ERR_CANNOT_ENTER_DIRECTORY p)))
               else andThen (lookupFileHandle_by (getFileHandle F n) F p) (\<lambda>child. case child of
                 None \<Rightarrow> ret (Some (Inl (Fail ERR_DOES_NOT_EXIST p)))
               | Some h \<Rightarrow> do { addFileHandle p h; ret (Some (Inr h)) })))
   })"

definition lookupHandle :: "'w nfs \<Rightarrow> nat \<Rightarrow> string \<Rightarrow> ('w ns, (fh3 \<times> fattr3) reply option) state" where
  "lookupHandle F n p = lookupHandle_by (getFileHandle F n) F p"

definition lookupFileHandle :: "'w nfs \<Rightarrow> nat \<Rightarrow> string \<Rightarrow> ('w ns, nfs_handle option option) state" where
  "lookupFileHandle F n p = lookupFileHandle_by (getFileHandle F n) F p"

text \<open>What a handler does with the handle of a path: its error, or what follows.\<close>

definition withHandle ::
  "'w nfs \<Rightarrow> nat \<Rightarrow> string \<Rightarrow> (nfs_handle \<Rightarrow> ('w ns, worker_result option) state)
   \<Rightarrow> ('w ns, worker_result option) state" where
  "withHandle F n p k = andThen (getFileHandle F n p) (\<lambda>m. case m of Inl e \<Rightarrow> ret (Some e) | Inr h \<Rightarrow> k h)"

definition exists_path :: "'w nfs \<Rightarrow> nat \<Rightarrow> string \<Rightarrow> ('w ns, bool option) state" where
  "exists_path F n p = andThen (getFileHandle F n p) (\<lambda>m. ret (Some (\<not> isl m)))"

section \<open>Single calls\<close>

definition getAttr :: "'w nfs \<Rightarrow> nat \<Rightarrow> string \<Rightarrow> ('w ns, fattr3 reply option) state" where
  "getAttr F n p = do {
     s \<leftarrow> State_Monad.get;
     if \<not> isConnected s then ret (Some (NfsError NFS3ERR_ACCES))
     else andThen (getFileHandle F n p) (\<lambda>m. case m of
       Inl _ \<Rightarrow> ret (Some (NfsError NFS3ERR_NOENT))
     | Inr h \<Rightarrow> do {
         r \<leftarrow> call (n_getattr F (m_handle h)) (\<lambda>a. ELook (NGetattr (m_handle h) a));
         ret (Some r)
       })
   }"

text \<open>
  \<open>symLinkTarget\<close> gives up when there is a handle. Without one it goes on to take it out of the
  variant, and the exception ends the process.
\<close>

definition symLinkTarget :: "'w nfs \<Rightarrow> nat \<Rightarrow> string \<Rightarrow> ('w ns, string reply option) state" where
  "symLinkTarget F n p = andThen (getFileHandle F n p) (\<lambda>m. case m of
     Inr _ \<Rightarrow> ret (Some (NfsError NFS3ERR_NOENT))
   | Inl _ \<Rightarrow> do { tell (EWorker AException); ret None })"

text \<open>The remote call that removes a name, and the cache after it.\<close>

definition removeEntry :: "'w nfs \<Rightarrow> fh3 \<Rightarrow> string \<Rightarrow> ftype3 \<Rightarrow> ('w ns, unit reply) state" where
  "removeEntry F dir p type = do {
     r \<leftarrow> (if type \<noteq> NF3DIR
          then call (n_remove F dir (baseName p)) (\<lambda>a. EChange (NRemove dir (baseName p) a))
          else call (n_rmdir F dir (baseName p)) (\<lambda>a. EChange (NRmdir dir (baseName p) a)));
     (if is_ok r then removeFileHandle p else ret ());
     ret r
   }"

definition remove :: "'w nfs \<Rightarrow> nat \<Rightarrow> string \<Rightarrow> ('w ns, unit reply option) state" where
  "remove F n p = do {
     s \<leftarrow> State_Monad.get;
     if \<not> isConnected s then ret (Some (NfsError NFS3ERR_PERM))
     else if isExportedDir (m_exportedDirs s) (dirName p) then ret (Some (NfsError NFS3ERR_ACCES))
     else andThen (getFileHandle F n (dirName p)) (\<lambda>m. case m of
       Inl _ \<Rightarrow> ret (Some (NfsError NFS3ERR_NOENT))
     | Inr dir \<Rightarrow> andThen (lookupHandle F n p) (\<lambda>r. case r of
           Ok (_, attr) \<Rightarrow> do {
             r \<leftarrow> removeEntry F (m_handle dir) p (at_type attr);
             ret (Some r)
           }
         | _ \<Rightarrow> ret (Some (NfsError NFS3ERR_NOENT))))
   }"

text \<open>After a renaming the cache follows only when the new name is found.\<close>

definition followRename :: "'w nfs \<Rightarrow> nat \<Rightarrow> string \<Rightarrow> string \<Rightarrow> ('w ns, unit option) state" where
  "followRename F n src dest = andThen (lookupHandle F n dest) (\<lambda>r. case r of
     Ok (object, _) \<Rightarrow> do { removeFileHandle src; addFileHandle dest (fromFH object); ret (Some ()) }
   | _ \<Rightarrow> ret (Some ()))"

definition renameCall ::
  "'w nfs \<Rightarrow> nat \<Rightarrow> fh3 \<Rightarrow> string \<Rightarrow> fh3 \<Rightarrow> string \<Rightarrow> ('w ns, unit reply option) state" where
  "renameCall F n fromDir src toDir dest = do {
     r \<leftarrow> call (n_rename F fromDir (baseName src) toDir (baseName dest))
            (\<lambda>a. EChange (NRename fromDir (baseName src) toDir (baseName dest) a));
     if is_ok r then andThen (followRename F n src dest) (\<lambda>_. ret (Some r)) else ret (Some r)
   }"

definition renamePath :: "'w nfs \<Rightarrow> nat \<Rightarrow> string \<Rightarrow> string \<Rightarrow> ('w ns, unit reply option) state" where
  "renamePath F n src dest = do {
     s \<leftarrow> State_Monad.get;
     if isExportedDir (m_exportedDirs s) (dirName src) then ret (Some (NfsError NFS3ERR_ACCES))
     else andThen (getFileHandle F n (dirName src)) (\<lambda>m. case m of
       Inl _ \<Rightarrow> ret (Some (NfsError NFS3ERR_NOENT))
     | Inr srcDir \<Rightarrow>
         (if isExportedDir (m_exportedDirs s) (dirName dest) then ret (Some (NfsError NFS3ERR_ACCES))
          else andThen (getFileHandle F n (dirName dest)) (\<lambda>m. case m of
            Inl _ \<Rightarrow> ret (Some (NfsError NFS3ERR_NOENT))
          | Inr destDir \<Rightarrow> renameCall F n (m_handle srcDir) src (m_handle destDir) dest)))
   }"

definition setAttr :: "'w nfs \<Rightarrow> nat \<Rightarrow> string \<Rightarrow> sattr3 \<Rightarrow> ('w ns, unit reply option) state" where
  "setAttr F n p attrs = andThen (getFileHandle F n p) (\<lambda>m. case m of
     Inl _ \<Rightarrow> ret (Some (NfsError NFS3ERR_NOENT))
   | Inr h \<Rightarrow> do {
       r \<leftarrow> call (n_setattr F (m_handle h) attrs) (\<lambda>a. EChange (NSetattr (m_handle h) attrs a));
       ret (Some r)
     })"

text \<open>What is at the destination is removed first, whatever becomes of that.\<close>

definition symLink :: "'w nfs \<Rightarrow> nat \<Rightarrow> string \<Rightarrow> string \<Rightarrow> ('w ns, unit reply option) state" where
  "symLink F n target dest =
     andThen (remove F n dest) (\<lambda>_. andThen (getFileHandle F n (dirName dest)) (\<lambda>m. case m of
       Inl _ \<Rightarrow> ret (Some (NfsError NFS3ERR_NOENT))
     | Inr dir \<Rightarrow> do {
         r \<leftarrow> call (n_symlink F (m_handle dir) (baseName dest) target)
                (\<lambda>a. EChange (NSymlink (m_handle dir) (baseName dest) target a));
         andThen (getFileHandle F n dest) (\<lambda>d. case d of
           Inr h \<Rightarrow> do { addFileHandle dest h; ret (Some r) }
         | Inl _ \<Rightarrow> ret (Some r))
       }))"

definition create_mode :: "int \<Rightarrow> u32" where
  "create_mode mode = (if mode = -1 then 0x1A4 else word_of_int mode)"

definition create :: "'w nfs \<Rightarrow> nat \<Rightarrow> string \<Rightarrow> int \<Rightarrow> ('w ns, maybe_handle option) state" where
  "create F n p mode = do {
     s \<leftarrow> State_Monad.get;
     if \<not> isConnected s then ret (Some (Inl (Fail ERR_CANNOT_CONNECT p)))
     else andThen (getFileHandle F n (dirName p)) (\<lambda>m. case m of
       Inl e \<Rightarrow> ret (Some (Inl e))
     | Inr dir \<Rightarrow> do {
         r \<leftarrow> call (n_create F (m_handle dir) (baseName p) (create_mode mode) (c_euid F) (c_egid F))
                (\<lambda>a. EChange (NCreate (m_handle dir) (baseName p) (create_mode mode) (c_euid F) (c_egid F) a));
         ret (Some (case r of Ok fh \<Rightarrow> Inr (fromFH fh) | _ \<Rightarrow> Inl (checkResult F r p)))
       })
   }"

definition initPreferredSizes :: "'w nfs \<Rightarrow> nfs_handle \<Rightarrow> ('w ns, unit) state" where
  "initPreferredSizes F h = do {
     r \<leftarrow> call (n_fsinfo F (m_handle h)) (\<lambda>a. ELook (NFsinfo (m_handle h) a));
     (case r of
        Ok (rtpref, wtpref, dtpref) \<Rightarrow> State_Monad.update (\<lambda>s.
          s\<lparr>m_writeBufferSize := wtpref, m_readBufferSize := rtpref, m_readDirSize := dtpref\<rparr>)
      | _ \<Rightarrow> State_Monad.update (\<lambda>s.
          s\<lparr>m_writeBufferSize := NFS3_MAXDATA, m_readBufferSize := NFS3_MAXDATA, m_readDirSize := NFS3_MAXDATA\<rparr>))
   }"

end
