(* ===== verification/NfsDir.thy ===== *)
theory NfsDir
  imports NfsLookup
begin

text \<open>
  The handlers of NFS that list and describe (nfs/kio_nfs.cpp, nfs/nfsv3.cpp): directories that exist
  only because something below them is exported, directories on the server with READDIRPLUS or in
  compatibility mode, single entries, links.
\<close>

section \<open>Entries\<close>

definition S_IFBLK :: mode_t where "S_IFBLK = 0x6000"
definition S_IFCHR :: mode_t where "S_IFCHR = 0x2000"
definition S_IFSOCK :: mode_t where "S_IFSOCK = 0xC000"
definition S_IFIFO :: mode_t where "S_IFIFO = 0x1000"
definition readable_by_all :: mode_t where "readable_by_all = 0x16D"

definition createVirtualDirEntry :: "uds \<Rightarrow> uds" where
  "createVirtualDirEntry e = e @ [UDS_MIME_TYPE ''inode/directory'', UDS_USER ''root'', UDS_GROUP ''root'',
     UDS_SIZE 0, UDS_FILE_TYPE S_IFDIR, UDS_ACCESS readable_by_all]"

definition completeInvalidUDSEntry :: "uds \<Rightarrow> uds" where
  "completeInvalidUDSEntry e = uds_replace (UDS_GROUP ''root'') (uds_replace (UDS_USER ''root'')
     (uds_replace (UDS_ACCESS readable_by_all) (uds_replace (UDS_FILE_TYPE (S_IFMT - 1))
     (uds_replace (UDS_SIZE 0) e))))"

definition completeBadLinkUDSEntry :: "fattr3 \<Rightarrow> uds \<Rightarrow> uds" where
  "completeBadLinkUDSEntry a e = completeInvalidUDSEntry (uds_replace (UDS_ACCESS_TIME (uint (at_atime a)))
     (uds_replace (UDS_MODIFICATION_TIME (uint (at_mtime a))) e))"

text \<open>A name that was found is remembered, one that was not is asked for again.\<close>

definition userText :: "'w nfs \<Rightarrow> u32 \<Rightarrow> ('w ns, string) state" where
  "userText F uid = do {
     s \<leftarrow> State_Monad.get;
     case m_usercache s uid of
       Some name \<Rightarrow> ret name
     | None \<Rightarrow> (case c_getpwuid F uid of
         Some name \<Rightarrow> do {
           State_Monad.update (\<lambda>s. s\<lparr>m_usercache := (m_usercache s)(uid \<mapsto> name)\<rparr>);
           ret name
         }
       | None \<Rightarrow> ret (t_number F uid))
   }"

definition groupText :: "'w nfs \<Rightarrow> u32 \<Rightarrow> ('w ns, string) state" where
  "groupText F gid = do {
     s \<leftarrow> State_Monad.get;
     case m_groupcache s gid of
       Some name \<Rightarrow> ret name
     | None \<Rightarrow> (case c_getgrgid F gid of
         Some name \<Rightarrow> do {
           State_Monad.update (\<lambda>s. s\<lparr>m_groupcache := (m_groupcache s)(gid \<mapsto> name)\<rparr>);
           ret name
         }
       | None \<Rightarrow> ret (t_number F gid))
   }"

definition completeOwner :: "'w nfs \<Rightarrow> u32 \<Rightarrow> u32 \<Rightarrow> uds \<Rightarrow> ('w ns, uds) state" where
  "completeOwner F uid gid e = do {
     user \<leftarrow> userText F uid;
     group \<leftarrow> groupText F gid;
     ret (uds_replace (UDS_GROUP group) (uds_replace (UDS_USER user) e))
   }"

definition type_bits :: "ftype3 \<Rightarrow> mode_t" where
  "type_bits t = (case t of
     NF3DIR \<Rightarrow> S_IFDIR | NF3BLK \<Rightarrow> S_IFBLK | NF3CHR \<Rightarrow> S_IFCHR | NF3LNK \<Rightarrow> S_IFLNK
   | NF3SOCK \<Rightarrow> S_IFSOCK | NF3FIFO \<Rightarrow> S_IFIFO | _ \<Rightarrow> S_IFREG)"

definition access_of :: "u32 \<Rightarrow> u32" where
  "access_of mode = (if mode > 0x1FF then mode AND 0xFFF else mode)"

definition completeUDSEntry :: "'w nfs \<Rightarrow> fattr3 \<Rightarrow> uds \<Rightarrow> ('w ns, uds) state" where
  "completeUDSEntry F a e = completeOwner F (at_uid a) (at_gid a)
     (uds_replace (UDS_FILE_TYPE (type_bits (at_type a))) (uds_replace (UDS_ACCESS (access_of (at_mode a)))
     (uds_replace (UDS_ACCESS_TIME (uint (at_atime a))) (uds_replace (UDS_MODIFICATION_TIME (uint (at_mtime a)))
     (uds_replace (UDS_SIZE (uint (at_size a))) e)))))"

section \<open>Directories above the exported ones\<close>

definition dirPrefix :: "string \<Rightarrow> string" where
  "dirPrefix p = (if p \<noteq> ''/'' then p @ ''/'' else p)"

text \<open>The first component of each exported directory below the prefix, every name once.\<close>

fun virtualNames :: "string \<Rightarrow> string list \<Rightarrow> string list \<Rightarrow> string list" where
  "virtualNames pre [] acc = acc"
| "virtualNames pre (e # es) acc =
     (if \<not> starts_with pre e then virtualNames pre es acc
      else let name = takeWhile (\<lambda>c. c \<noteq> slash) (drop (length pre) e) in
        virtualNames pre es (if name \<in> set acc then acc else acc @ [name]))"

definition dotEntry :: uds where
  "dotEntry = createVirtualDirEntry [] @ [UDS_NAME ''.'', UDS_ICON_NAME ''folder-network'']"

fun listVirtual :: "string list \<Rightarrow> string \<Rightarrow> uds \<Rightarrow> string list \<Rightarrow> ('w ns, unit) state" where
  "listVirtual exps pre e [] = ret ()"
| "listVirtual exps pre e (name # ns) = do {
     let e = uds_replace (UDS_ICON_NAME (if isExportedDir exps (pre @ name) then ''folder-network'' else ''folder''))
               (uds_replace (UDS_NAME name) e);
     tell (EWorker (AListEntry e));
     listVirtual exps pre e ns
   }"

text \<open>The path that is left to list, empty when there is no more to do.\<close>

definition listDirInternal :: "'w nfs \<Rightarrow> qurl \<Rightarrow> ('w ns, string) state" where
  "listDirInternal F url = do {
     s \<leftarrow> State_Monad.get;
     let p = path url;
     if isExportedDir (m_exportedDirs s) p then do {
       tell (EWorker (AListEntry dotEntry));
       listVirtual (m_exportedDirs s) (dirPrefix p) dotEntry (virtualNames (dirPrefix p) (m_exportedDirs s) []);
       ret []
     }
     else if \<not> isConnected s then ret []
     else ret p
   }"

definition virtualStatEntry :: uds where
  "virtualStatEntry = createVirtualDirEntry [UDS_NAME ''.'', UDS_ICON_NAME ''folder-network'']"

definition statInternal :: "'w nfs \<Rightarrow> qurl \<Rightarrow> ('w ns, string) state" where
  "statInternal F url = do {
     s \<leftarrow> State_Monad.get;
     let p = path url;
     if p = [] then do { tell (EWorker (ARedirection (t_rootOf F url))); ret [] }
     else if isExportedDir (m_exportedDirs s) p then do {
       tell (EWorker (AStatEntry virtualStatEntry));
       ret []
     }
     else ret p
   }"

section \<open>Links\<close>

definition validLinkResult :: "'w nfs \<Rightarrow> nat \<Rightarrow> string \<Rightarrow> string \<Rightarrow> ('w ns, worker_result option) state" where
  "validLinkResult F n parentDir linkDest =
     (if linkDest = [] then ret (Some (Fail ERR_MALFORMED_URL ''Empty destination''))
      else do {
        s \<leftarrow> State_Monad.get;
        let absDest = t_absolute F parentDir linkDest;
        if \<not> isValidPath (m_exportedDirs s) absDest then ret (Some (Fail ERR_MALFORMED_URL absDest))
        else withHandle F n absDest (\<lambda>_. ret (Some Pass))
      })"

text \<open>The handle and the attributes of the target of a link that was read in the directory \<open>p\<close>.\<close>

definition linkTarget ::
  "'w nfs \<Rightarrow> nat \<Rightarrow> string \<Rightarrow> string \<Rightarrow> worker_result \<Rightarrow> ('w ns, (fh3 \<times> fattr3) option option) state" where
  "linkTarget F n p linkDest valid =
     (if \<not> success valid then ret (Some None)
      else andThen (lookupHandle F n (t_absolute F p linkDest)) (\<lambda>r. case r of
        Ok (object, _) \<Rightarrow> andThen (getAttr F n (t_absolute F p linkDest)) (\<lambda>g. case g of
            Ok attr \<Rightarrow> ret (Some (Some (object, attr)))
          | _ \<Rightarrow> ret (Some None))
      | _ \<Rightarrow> ret (Some None)))"

text \<open>
  The entry of a link: the last result of checking a target, \<open>valid\<close> where none is checked, and the entry.
\<close>

definition linkEntry ::
  "'w nfs \<Rightarrow> nat \<Rightarrow> string \<Rightarrow> string \<Rightarrow> fh3 \<Rightarrow> fattr3 \<Rightarrow> worker_result \<Rightarrow> uds
   \<Rightarrow> ('w ns, (worker_result \<times> uds) option) state" where
  "linkEntry F n p filePath link attr valid e = andThen (symLinkTarget F n filePath) (\<lambda>r. case r of
     Ok linkDest \<Rightarrow> andThen (validLinkResult F n p linkDest) (\<lambda>valid.
       andThen (linkTarget F n p linkDest valid) (\<lambda>t. case t of
         Some (object, a) \<Rightarrow> do {
           e \<leftarrow> completeUDSEntry F a (e @ [UDS_LINK_DEST linkDest]);
           addFileHandle filePath (setLinkSource link (fromFH object));
           ret (Some (valid, e))
         }
       | None \<Rightarrow> do {
           addFileHandle filePath (setBadLink (fromFH link));
           ret (Some (valid, completeBadLinkUDSEntry attr (e @ [UDS_LINK_DEST linkDest])))
         }))
   | _ \<Rightarrow> ret (Some (valid, completeBadLinkUDSEntry attr (e @ [UDS_LINK_DEST ''Unknown target'']))))"

section \<open>Listing\<close>

subsection \<open>Compatibility mode\<close>

text \<open>The names of a directory; the parent directory is left out. None: no end.\<close>

fun readNames ::
  "'w nfs \<Rightarrow> nat \<Rightarrow> string \<Rightarrow> fh3 \<Rightarrow> u64 \<Rightarrow> string list \<Rightarrow> ('w ns, (worker_result + string list) option) state" where
  "readNames F 0 p dir cookie names = ret None"
| "readNames F (Suc n) p dir cookie names = do {
     s \<leftarrow> State_Monad.get;
     r \<leftarrow> call (n_readdir F dir cookie (m_readDirSize s)) (\<lambda>a. ELook (NReaddir dir cookie (m_readDirSize s) a));
     case r of
       Ok (entries, eof) \<Rightarrow>
         (let names = names @ filter (\<lambda>name. name \<noteq> ''..'') (map fst entries);
              cookie = (if entries = [] then cookie else snd (last entries))
          in if eof then ret (Some (Inr names)) else readNames F n p dir cookie names)
     | _ \<Rightarrow> ret (Some (Inl (checkResult F r p)))
   }"

definition compatEntry ::
  "'w nfs \<Rightarrow> nat \<Rightarrow> string \<Rightarrow> string \<Rightarrow> worker_result \<Rightarrow> ('w ns, worker_result option) state" where
  "compatEntry F n p name valid =
     (let filePath = childPath p name in
      andThen (lookupHandle F n filePath) (\<lambda>r. case r of
        Ok (object, attr) \<Rightarrow>
          (if at_type attr = NF3LNK
           then andThen (linkEntry F n p filePath object attr valid [UDS_NAME name]) (\<lambda>(valid, e). do {
             tell (EWorker (AListEntry e));
             ret (Some valid)
           })
           else do {
             addFileHandle filePath (fromFH object);
             e \<leftarrow> completeUDSEntry F attr [UDS_NAME name];
             tell (EWorker (AListEntry e));
             ret (Some valid)
           })
      | _ \<Rightarrow> ret (Some valid)))"

fun compatEntries ::
  "'w nfs \<Rightarrow> nat \<Rightarrow> string \<Rightarrow> string list \<Rightarrow> worker_result \<Rightarrow> ('w ns, worker_result option) state" where
  "compatEntries F n p [] valid = ret (Some valid)"
| "compatEntries F n p (name # ns) valid =
     andThen (compatEntry F n p name valid) (\<lambda>valid. compatEntries F n p ns valid)"

definition listDirCompat :: "'w nfs \<Rightarrow> nat \<Rightarrow> qurl \<Rightarrow> ('w ns, worker_result option) state" where
  "listDirCompat F n url = do {
     s \<leftarrow> State_Monad.get;
     let p = path url;
     if isExportedDir (m_exportedDirs s) p then ret (Some (Fail ERR_INTERNAL p))
     else withHandle F n p (\<lambda>fh.
       if isInvalid fh \<or> isBadLink fh then ret (Some (Fail ERR_DOES_NOT_EXIST p))
       else andThen (readNames F n p (m_handle fh) 0 []) (\<lambda>r. case r of
         Inl e \<Rightarrow> ret (Some e)
       | Inr names \<Rightarrow> compatEntries F n p names Pass))
   }"

subsection \<open>READDIRPLUS\<close>

text \<open>One entry: the last result of checking a link, and the cookie to go on from.\<close>

definition plusEntry ::
  "'w nfs \<Rightarrow> nat \<Rightarrow> string \<Rightarrow> entryplus3 \<Rightarrow> worker_result \<times> u64 \<Rightarrow> ('w ns, (worker_result \<times> u64) option) state" where
  "plusEntry F n p en = (\<lambda>(valid, cookie).
     if en_name en = ''..'' then ret (Some (valid, cookie))
     else if en_name en = ''.'' then do {
       e \<leftarrow> completeUDSEntry F (en_attr en) (createVirtualDirEntry [UDS_NAME ''.'']);
       tell (EWorker (AListEntry e));
       ret (Some (valid, cookie))
     }
     else if at_type (en_attr en) = NF3LNK then
       andThen (linkEntry F n p (childPath p (en_name en)) (en_handle en) (en_attr en) valid [UDS_NAME (en_name en)])
         (\<lambda>(valid, e). do {
           tell (EWorker (AListEntry e));
           ret (Some (valid, en_cookie en))
         })
     else if isInvalid (fromFH (en_handle en)) then do {
       tell (EWorker (AListEntry (completeInvalidUDSEntry [UDS_NAME (en_name en)])));
       ret (Some (valid, en_cookie en))
     }
     else do {
       addFileHandle (childPath p (en_name en)) (fromFH (en_handle en));
       e \<leftarrow> completeUDSEntry F (en_attr en) [UDS_NAME (en_name en)];
       tell (EWorker (AListEntry e));
       ret (Some (valid, en_cookie en))
     })"

fun plusEntries ::
  "'w nfs \<Rightarrow> nat \<Rightarrow> string \<Rightarrow> entryplus3 list \<Rightarrow> worker_result \<times> u64
   \<Rightarrow> ('w ns, (worker_result \<times> u64) option) state" where
  "plusEntries F n p [] v = ret (Some v)"
| "plusEntries F n p (en # ens) v = andThen (plusEntry F n p en v) (\<lambda>v. plusEntries F n p ens v)"

fun listPlus ::
  "'w nfs \<Rightarrow> nat \<Rightarrow> qurl \<Rightarrow> fh3 \<Rightarrow> worker_result \<times> u64 \<Rightarrow> ('w ns, worker_result option) state" where
  "listPlus F 0 url dir v = ret None"
| "listPlus F (Suc n) url dir v = do {
     s \<leftarrow> State_Monad.get;
     r \<leftarrow> call (n_readdirplus F dir (snd v) (m_readDirSize s))
            (\<lambda>a. ELook (NReaddirplus dir (snd v) (m_readDirSize s) a));
     case r of
       NfsError NFS3ERR_NOTSUPP \<Rightarrow> listDirCompat F n url
     | Ok (entries, eof) \<Rightarrow> andThen (plusEntries F n (path url) entries v) (\<lambda>v.
         if entries \<noteq> [] \<and> \<not> eof then listPlus F n url dir v else ret (Some (fst v)))
     | _ \<Rightarrow> ret (Some (checkResult F r (path url)))
   }"

definition listDir :: "'w nfs \<Rightarrow> nat \<Rightarrow> qurl \<Rightarrow> ('w ns, worker_result option) state" where
  "listDir F n url = do {
     p \<leftarrow> listDirInternal F url;
     if p = [] then ret (Some Pass)
     else withHandle F n p (\<lambda>fh.
       if isInvalid fh \<or> isBadLink fh then ret (Some (Fail ERR_DOES_NOT_EXIST p))
       else do {
         s \<leftarrow> State_Monad.get;
         (if m_readDirSize s = 0 then initPreferredSizes F fh else ret ());
         if \<not> m_usedirplus3 s then listDirCompat F n url
         else listPlus F n url (m_handle fh) (Pass, 0)
       })
   }"

section \<open>stat\<close>

definition statLink ::
  "'w nfs \<Rightarrow> nat \<Rightarrow> string \<Rightarrow> fattr3 \<Rightarrow> uds \<Rightarrow> ('w ns, worker_result option) state" where
  "statLink F n p attr e = andThen (symLinkTarget F n p) (\<lambda>r. case r of
     Ok linkDest \<Rightarrow> andThen (validLinkResult F n (dirName p) linkDest) (\<lambda>valid.
       if \<not> success valid then do {
         tell (EWorker (AStatEntry (completeBadLinkUDSEntry attr (e @ [UDS_LINK_DEST linkDest]))));
         ret (Some valid)
       }
       else andThen (getAttr F n (t_absolute F (dirName p) linkDest)) (\<lambda>g. case g of
         Ok a \<Rightarrow> do {
           e \<leftarrow> completeUDSEntry F a (e @ [UDS_LINK_DEST linkDest]);
           tell (EWorker (AStatEntry e));
           ret (Some valid)
         }
       | _ \<Rightarrow> ret (Some (checkResult F g (t_absolute F (dirName p) linkDest)))))
   | _ \<Rightarrow> do {
       tell (EWorker (AStatEntry (completeBadLinkUDSEntry attr (e @ [UDS_LINK_DEST []]))));
       ret (Some Pass)
     })"

definition stat :: "'w nfs \<Rightarrow> nat \<Rightarrow> qurl \<Rightarrow> ('w ns, worker_result option) state" where
  "stat F n url = do {
     p \<leftarrow> statInternal F url;
     if p = [] then ret (Some Pass)
     else withHandle F n p (\<lambda>fh.
       if isInvalid fh then ret (Some (Fail ERR_DOES_NOT_EXIST p))
       else andThen (getAttr F n p) (\<lambda>g. case g of
         Ok attr \<Rightarrow>
           (if at_type attr = NF3LNK then statLink F n p attr [UDS_NAME (baseName p)]
            else do {
              e \<leftarrow> completeUDSEntry F attr [UDS_NAME (baseName p)];
              tell (EWorker (AStatEntry e));
              ret (Some Pass)
            })
       | _ \<Rightarrow> ret (Some (checkResult F g p))))
   }"

end
