(* ===== verification/NfsFile.thy ===== *)
theory NfsFile
  imports NfsDir
begin

text \<open>
  The handlers of NFS that change names and attributes, and the transfer of a file from and to the
  application: mkdir, del, chmod, rename, symlink, get, put (nfs/nfsv3.cpp).
\<close>

section \<open>Names and attributes\<close>

definition mkdir :: "'w nfs \<Rightarrow> nat \<Rightarrow> qurl \<Rightarrow> int \<Rightarrow> ('w ns, worker_result option) state" where
  "mkdir F n url permissions = do {
     s \<leftarrow> State_Monad.get;
     let p = path url;
     let mode = (if permissions = -1 then 0x1ED else word_of_int permissions);
     if isExportedDir (m_exportedDirs s) (dirName p) then ret (Some (Fail ERR_ACCESS_DENIED p))
     else withHandle F n (dirName p) (\<lambda>fh.
       if isInvalid fh \<or> isBadLink fh then ret (Some (Fail ERR_DOES_NOT_EXIST p))
       else do {
         r \<leftarrow> call (n_mkdir F (m_handle fh) (baseName p) mode)
                (\<lambda>a. EChange (NMkdir (m_handle fh) (baseName p) mode a));
         ret (Some (checkResult F r p))
       })
   }"

definition del :: "'w nfs \<Rightarrow> nat \<Rightarrow> qurl \<Rightarrow> bool \<Rightarrow> ('w ns, worker_result option) state" where
  "del F n url isfile = do {
     s \<leftarrow> State_Monad.get;
     let p = path url;
     if isExportedDir (m_exportedDirs s) (dirName p) then ret (Some (Fail ERR_ACCESS_DENIED p))
     else andThen (remove F n p) (\<lambda>r. ret (Some (checkResult F r p)))
   }"

definition chmod :: "'w nfs \<Rightarrow> nat \<Rightarrow> qurl \<Rightarrow> int \<Rightarrow> ('w ns, worker_result option) state" where
  "chmod F n url permissions = do {
     s \<leftarrow> State_Monad.get;
     let p = path url;
     if isExportedDir (m_exportedDirs s) p then ret (Some (Fail ERR_ACCESS_DENIED p))
     else andThen (setAttr F n p \<lparr>sa_mode = Some (word_of_int permissions), sa_mtime = None\<rparr>)
            (\<lambda>r. ret (Some (checkResult F r p)))
   }"

definition rename :: "'w nfs \<Rightarrow> nat \<Rightarrow> qurl \<Rightarrow> qurl \<Rightarrow> job_flags \<Rightarrow> ('w ns, worker_result option) state" where
  "rename F n src dest flags = do {
     s \<leftarrow> State_Monad.get;
     let srcPath = path src;
     let destPath = path dest;
     if isExportedDir (m_exportedDirs s) srcPath then ret (Some (Fail ERR_CANNOT_RENAME srcPath))
     else if isExportedDir (m_exportedDirs s) destPath then ret (Some (Fail ERR_ACCESS_DENIED destPath))
     else andThen (exists_path F n destPath) (\<lambda>there.
       if there \<and> \<not> fl_overwrite flags then ret (Some (Fail ERR_FILE_ALREADY_EXIST destPath))
       else andThen (renamePath F n srcPath destPath) (\<lambda>r. ret (Some (checkResult F r destPath))))
   }"

definition symlink :: "'w nfs \<Rightarrow> nat \<Rightarrow> string \<Rightarrow> qurl \<Rightarrow> job_flags \<Rightarrow> ('w ns, worker_result option) state" where
  "symlink F n target dest flags = do {
     s \<leftarrow> State_Monad.get;
     let destPath = path dest;
     if isExportedDir (m_exportedDirs s) (dirName destPath) then ret (Some (Fail ERR_ACCESS_DENIED destPath))
     else andThen (exists_path F n destPath) (\<lambda>there.
       if there \<and> \<not> fl_overwrite flags then ret (Some (Fail ERR_FILE_ALREADY_EXIST destPath))
       else andThen (symLink F n target destPath) (\<lambda>r. ret (Some (checkResult F r destPath))))
   }"

section \<open>get\<close>

text \<open>The length of a block as the code has it, a signed number of 32 bits.\<close>

definition count_of :: "byte list \<Rightarrow> int" where
  "count_of d = sint (word_of_nat (length d) :: u32)"

text \<open>\<open>validRead\<close>: something was sent.\<close>

fun getLoop ::
  "'w nfs \<Rightarrow> nat \<Rightarrow> qurl \<Rightarrow> fh3 \<Rightarrow> u32 \<Rightarrow> u64 \<Rightarrow> bool \<Rightarrow> ('w ns, worker_result option) state" where
  "getLoop F 0 url fh cnt offset validRead = ret None"
| "getLoop F (Suc n) url fh cnt offset validRead = do {
     r \<leftarrow> call (n_read F fh offset cnt) (\<lambda>a. ELook (NRead fh offset cnt a));
     case r of
       NfsError NFS3ERR_ISDIR \<Rightarrow> ret (Some Pass)
     | Ok (d, attr) \<Rightarrow> do {
         (if offset = 0 then do {
            tell (EWorker (AMimeType (t_mime F (fileName url) d)));
            tell (EWorker (ATotalSize (at_size attr)))
          } else ret ());
         let offset = offset + word_of_int (count_of d);
         (if count_of d > 0 then do {
            tell (EWorker (AData d));
            tell (EWorker (AProcessedSize offset));
            getLoop F n url fh cnt offset True
          }
          else if validRead then do {
            tell (EWorker (AData []));
            tell (EWorker (AProcessedSize offset));
            ret (Some Pass)
          }
          else ret (Some Pass))
       }
     | _ \<Rightarrow> ret (Some (checkResult F r (path url)))
   }"

definition get :: "'w nfs \<Rightarrow> nat \<Rightarrow> qurl \<Rightarrow> ('w ns, worker_result option) state" where
  "get F n url = withHandle F n (path url) (\<lambda>fh.
     if isInvalid fh \<or> isBadLink fh then ret (Some (Fail ERR_DOES_NOT_EXIST (path url)))
     else do {
       s \<leftarrow> State_Monad.get;
       (if m_readBufferSize s = 0 then initPreferredSizes F fh else ret ());
       s \<leftarrow> State_Monad.get;
       getLoop F n url (m_handle fh) (m_readBufferSize s) 0 False
     })"

section \<open>put\<close>

text \<open>
  \<open>bytesWritten\<close> is a signed number of 32 bits, which becomes the offset of the next write. A block is
  written in pieces of at most the preferred size, each followed by what the server did not take of
  it. A server that says it took more than it got makes the pointer leave the block; that is None.
\<close>

definition put_offset :: "u32 \<Rightarrow> u64" where
  "put_offset bytesWritten = word_of_int (sint bytesWritten)"

definition piece :: "u32 \<Rightarrow> byte list \<Rightarrow> byte list" where
  "piece limit d = take (unat (min (word_of_nat (length d)) limit)) d"

fun putBlock ::
  "'w nfs \<Rightarrow> nat \<Rightarrow> string \<Rightarrow> fh3 \<Rightarrow> u32 \<Rightarrow> byte list \<Rightarrow> ('w ns, (worker_result + u32) option) state" where
  "putBlock F 0 p fh bytesWritten d = ret None"
| "putBlock F (Suc n) p fh bytesWritten d = do {
     s \<leftarrow> State_Monad.get;
     let now = piece (m_writeBufferSize s) d;
     r \<leftarrow> call (n_write F fh (put_offset bytesWritten) now)
            (\<lambda>a. EChange (NWrite fh (put_offset bytesWritten) now a));
     case r of
       Ok cnt \<Rightarrow>
         (if unat cnt > length d then ret None
          else if unat cnt = length d then ret (Some (Inr (bytesWritten + cnt)))
          else putBlock F n p fh (bytesWritten + cnt) (drop (unat cnt) d))
     | _ \<Rightarrow> ret (Some (Inl (checkResult F r p)))
   }"

fun putLoop :: "'w nfs \<Rightarrow> nat \<Rightarrow> string \<Rightarrow> fh3 \<Rightarrow> u32 \<Rightarrow> ('w ns, worker_result option) state" where
  "putLoop F 0 p fh bytesWritten = ret None"
| "putLoop F (Suc n) p fh bytesWritten = do {
     tell (EWorker ADataReq);
     (result, d) \<leftarrow> call (a_readData F) (\<lambda>(k, d). EWorker (AReadData k d));
     if result > 0
     then andThen (putBlock F n p fh bytesWritten d) (\<lambda>r. case r of
            Inl e \<Rightarrow> ret (Some e)
          | Inr bytesWritten \<Rightarrow> putLoop F n p fh bytesWritten)
     else ret (Some Pass)
   }"

text \<open>The destination exists when its handle is found; only then the preferred sizes are asked for.\<close>

definition put :: "'w nfs \<Rightarrow> nat \<Rightarrow> qurl \<Rightarrow> int \<Rightarrow> job_flags \<Rightarrow> ('w ns, worker_result option) state" where
  "put F n url mode flags = do {
     s \<leftarrow> State_Monad.get;
     let p = path url;
     if isExportedDir (m_exportedDirs s) (dirName p) then ret (Some (Fail ERR_WRITE_ACCESS_DENIED p))
     else andThen (getFileHandle F n p) (\<lambda>m.
       if \<not> isl m \<and> isBadLink (projr m) then ret (Some (Fail ERR_DOES_NOT_EXIST p))
       else if \<not> isl m \<and> \<not> fl_overwrite flags then ret (Some (Fail ERR_FILE_ALREADY_EXIST p))
       else do {
         s \<leftarrow> State_Monad.get;
         (if \<not> isl m \<and> m_writeBufferSize s = 0 then initPreferredSizes F (projr m) else ret ());
         andThen (create F n p mode) (\<lambda>c. case c of
           Inl e \<Rightarrow> ret (Some e)
         | Inr fh \<Rightarrow> putLoop F n p (m_handle fh) 0)
       })
   }"

end
