(* ===== verification/NfsCopy.thy ===== *)
theory NfsCopy
  imports NfsFile
begin

text \<open>
  Copies of NFS (nfs/nfsv3.cpp, nfs/kio_nfs.cpp): within the server, from the server to a local file and
  from a local file to the server, through a part file where the configuration asks for one.
\<close>

section \<open>Part files on the server\<close>

definition partPath :: "string \<Rightarrow> string" where
  "partPath p = p @ ''.part''"

text \<open>Whether to resume and where, or the failure; a part file that is not resumed is removed.\<close>

definition resumeAt :: "'w nfs \<Rightarrow> nat \<Rightarrow> string \<Rightarrow> ('w ns, (worker_result + u64 option) option) state" where
  "resumeAt F n part = andThen (lookupHandle F n part) (\<lambda>r. case r of
     Ok (_, attr) \<Rightarrow>
       (if c_markPartial F \<and> at_size attr > 0 then
          (if at_type attr = NF3DIR then ret (Some (Inl (Fail ERR_IS_DIRECTORY part)))
           else do {
             yes \<leftarrow> call (a_canResume F (at_size attr)) (\<lambda>a. EWorker (ACanResume (at_size attr) a));
             ret (Some (Inr (if yes then Some (at_size attr) else None)))
           })
        else ret (Some (Inr None)))
   | _ \<Rightarrow> ret (Some (Inr None)))"

definition checkPart :: "'w nfs \<Rightarrow> nat \<Rightarrow> string \<Rightarrow> ('w ns, (worker_result + u64 option) option) state" where
  "checkPart F n part = andThen (exists_path F n part) (\<lambda>there.
     if \<not> there then ret (Some (Inr None))
     else andThen (resumeAt F n part) (\<lambda>r. case r of
       Inr None \<Rightarrow> andThen (remove F n part) (\<lambda>_. ret (Some (Inr None)))
     | _ \<Rightarrow> ret (Some r)))"

text \<open>The handle to write to: the part file that is resumed, or a new file.\<close>

definition openDest ::
  "'w nfs \<Rightarrow> nat \<Rightarrow> string \<Rightarrow> int \<Rightarrow> u64 option \<Rightarrow> ('w ns, maybe_handle option) state" where
  "openDest F n destPath mode resume = (case resume of
     None \<Rightarrow> create F n (if c_markPartial F then partPath destPath else destPath) mode
   | Some _ \<Rightarrow> getFileHandle F n (partPath destPath))"

text \<open>After an error a part file that is too small is not kept.\<close>

definition dropSmallPart :: "'w nfs \<Rightarrow> nat \<Rightarrow> string \<Rightarrow> u64 \<Rightarrow> ('w ns, unit option) state" where
  "dropSmallPart F n destPath offset =
     (if c_markPartial F \<and> offset < DEFAULT_MINIMUM_KEEP_SIZE
      then andThen (remove F n (partPath destPath)) (\<lambda>_. ret (Some ()))
      else ret (Some ()))"

text \<open>The part file takes its name; the destination, if there is one, is removed before.\<close>

definition renamePart :: "'w nfs \<Rightarrow> nat \<Rightarrow> string \<Rightarrow> ('w ns, worker_result option) state" where
  "renamePart F n destPath =
     (if \<not> c_markPartial F then ret (Some Pass)
      else andThen (exists_path F n destPath) (\<lambda>there.
        andThen (if there then andThen (remove F n destPath) (\<lambda>_. ret (Some ())) else ret (Some ())) (\<lambda>_.
          andThen (renamePath F n (partPath destPath) destPath) (\<lambda>r.
            ret (Some (if is_ok r then Pass else Fail ERR_CANNOT_RENAME_PARTIAL (partPath destPath)))))))"

section \<open>Within the server\<close>

text \<open>
  The end of a transfer: the error, the offset of the reads, the offset of the writes.
\<close>

type_synonym copied = "worker_result option \<times> u64 \<times> u64"

definition firstBlock :: "u64 option \<Rightarrow> u64 \<Rightarrow> u64 \<Rightarrow> bool" where
  "firstBlock resume readOff writeOff \<longleftrightarrow> readOff = 0 \<or> resume = Some writeOff"

fun copyLoop ::
  "'w nfs \<Rightarrow> nat \<Rightarrow> qurl \<Rightarrow> qurl \<Rightarrow> fh3 \<Rightarrow> fh3 \<Rightarrow> u32 \<Rightarrow> u64 option \<Rightarrow> u64 \<Rightarrow> u64 \<Rightarrow> ('w ns, copied option) state" where
  "copyLoop F 0 src dest from to cnt resume readOff writeOff = ret None"
| "copyLoop F (Suc n) src dest from to cnt resume readOff writeOff = do {
     r \<leftarrow> call (n_read F from readOff cnt) (\<lambda>a. ELook (NRead from readOff cnt a));
     case r of
       Ok (d, attr) \<Rightarrow> do {
         (if firstBlock resume readOff writeOff then do {
            tell (EWorker (AMimeType (t_mime F (fileName src) d)));
            tell (EWorker (ATotalSize (at_size attr)))
          } else ret ());
         let readOff' = readOff + word_of_int (count_of d);
         (if count_of d > 0 then do {
            w \<leftarrow> call (n_write F to writeOff d) (\<lambda>a. EChange (NWrite to writeOff d a));
            case w of
              Ok _ \<Rightarrow> do {
                tell (EWorker (AProcessedSize readOff'));
                copyLoop F n src dest from to cnt resume readOff' (writeOff + word_of_int (count_of d))
              }
            | _ \<Rightarrow> ret (Some (Some (checkResult F w (path dest)), readOff', writeOff))
          }
          else ret (Some (None, readOff, writeOff)))
       }
     | _ \<Rightarrow> ret (Some (Some (checkResult F r (path src)), readOff, writeOff))
   }"

text \<open>The modification time of the source, where it can be had.\<close>

definition copyTimes :: "'w nfs \<Rightarrow> nat \<Rightarrow> string \<Rightarrow> string \<Rightarrow> ('w ns, unit option) state" where
  "copyTimes F n srcPath destPath = andThen (getAttr F n srcPath) (\<lambda>g. case g of
     Ok a \<Rightarrow> andThen (setAttr F n destPath \<lparr>sa_mode = None, sa_mtime = Some (at_mtime a, at_mtime_nsec a)\<rparr>)
               (\<lambda>_. ret (Some ()))
   | _ \<Rightarrow> ret (Some ()))"

definition copySameEnd :: "'w nfs \<Rightarrow> nat \<Rightarrow> string \<Rightarrow> string \<Rightarrow> copied \<Rightarrow> ('w ns, worker_result option) state" where
  "copySameEnd F n srcPath destPath = (\<lambda>(error, readOff, writeOff). case error of
     Some e \<Rightarrow> andThen (dropSmallPart F n destPath writeOff) (\<lambda>_. ret (Some e))
   | None \<Rightarrow> andThen (renamePart F n destPath) (\<lambda>r.
       if \<not> success r then ret (Some r)
       else andThen (copyTimes F n srcPath destPath) (\<lambda>_. do {
         tell (EWorker (AProcessedSize readOff));
         ret (Some Pass)
       })))"

text \<open>The transfer of a file that is not a link. The sizes are the ones that are known already.\<close>

definition copySameFile ::
  "'w nfs \<Rightarrow> nat \<Rightarrow> qurl \<Rightarrow> qurl \<Rightarrow> int \<Rightarrow> nfs_handle \<Rightarrow> ('w ns, worker_result option) state" where
  "copySameFile F n src dest mode srcFH = andThen (checkPart F n (partPath (path dest))) (\<lambda>r. case r of
     Inl e \<Rightarrow> ret (Some e)
   | Inr resume \<Rightarrow> andThen (openDest F n (path dest) mode resume) (\<lambda>m. case m of
       Inl e \<Rightarrow> ret (Some e)
     | Inr destFH \<Rightarrow> do {
         s \<leftarrow> State_Monad.get;
         let bufferSize = (if m_readBufferSize s < m_writeBufferSize s then m_readBufferSize s else m_writeBufferSize s);
         let start = (case resume of None \<Rightarrow> 0 | Some k \<Rightarrow> k);
         andThen (copyLoop F n src dest (m_handle srcFH) (m_handle destFH) bufferSize resume start start)
           (copySameEnd F n (path src) (path dest))
       }))"

definition copySameLink :: "'w nfs \<Rightarrow> nat \<Rightarrow> qurl \<Rightarrow> qurl \<Rightarrow> ('w ns, worker_result option) state" where
  "copySameLink F n src dest = andThen (symLinkTarget F n (path src)) (\<lambda>r. case r of
     Ok target \<Rightarrow> andThen (symLink F n target (path dest)) (\<lambda>w. ret (Some (checkResult F w target)))
   | _ \<Rightarrow> ret (Some (Fail ERR_DOES_NOT_EXIST (path src))))"

definition copySame ::
  "'w nfs \<Rightarrow> nat \<Rightarrow> qurl \<Rightarrow> qurl \<Rightarrow> int \<Rightarrow> job_flags \<Rightarrow> ('w ns, worker_result option) state" where
  "copySame F n src dest mode flags = do {
     s \<leftarrow> State_Monad.get;
     if isExportedDir (m_exportedDirs s) (dirName (path src)) then ret (Some (Fail ERR_ACCESS_DENIED (path src)))
     else withHandle F n (path src) (\<lambda>srcFH.
       if isInvalid srcFH then ret (Some (Fail ERR_DOES_NOT_EXIST (path src)))
       else if isExportedDir (m_exportedDirs s) (dirName (path dest))
       then ret (Some (Fail ERR_ACCESS_DENIED (path dest)))
       else andThen (exists_path F n (path dest)) (\<lambda>there.
         if there \<and> \<not> fl_overwrite flags then ret (Some (Fail ERR_FILE_ALREADY_EXIST (path dest)))
         else if m_isLink srcFH then copySameLink F n src dest
         else copySameFile F n src dest mode srcFH))
   }"

section \<open>From the server to a local file\<close>

text \<open>The offset to resume at is an \<open>unsigned int\<close>.\<close>

definition fromPart :: "'w nfs \<Rightarrow> string \<Rightarrow> ('w ns, worker_result + u32 option) state" where
  "fromPart F destPath = do {
     info \<leftarrow> call (q_info F (partPath destPath)) (\<lambda>a. EQFile (QInfo (partPath destPath) a));
     if c_markPartial F \<and> li_exists info \<and> li_size info > 0 then
       (if li_isDir info then ret (Inl (Fail ERR_IS_DIRECTORY (t_absolutePath F (partPath destPath))))
        else do {
          yes \<leftarrow> call (a_canResume F (li_size info)) (\<lambda>a. EWorker (ACanResume (li_size info) a));
          if yes then ret (Inr (Some (ucast (li_size info))))
          else do {
            _ \<leftarrow> call (q_remove F (t_absolutePath F (partPath destPath)))
                  (\<lambda>a. EQFile (QRemove (t_absolutePath F (partPath destPath)) a));
            ret (Inr None)
          }
        })
     else if li_exists info then do {
       _ \<leftarrow> call (q_remove F (t_absolutePath F (partPath destPath)))
             (\<lambda>a. EQFile (QRemove (t_absolutePath F (partPath destPath)) a));
       ret (Inr None)
     }
     else ret (Inr None)
   }"

definition local_mode :: "'w nfs \<Rightarrow> int \<Rightarrow> u32" where
  "local_mode F mode = (if mode = -1 then 0x6000 else t_convertPermissions F (word_of_int mode OR 0x2000))"

text \<open>The file that is written, or the failure to open it.\<close>

definition openLocal ::
  "'w nfs \<Rightarrow> string \<Rightarrow> int \<Rightarrow> u32 option \<Rightarrow> ('w ns, worker_result + string) state" where
  "openLocal F destPath mode resume = do {
     let name = (if resume \<noteq> None \<or> c_markPartial F then t_absolutePath F (partPath destPath) else destPath);
     (if resume = None
      then do {
        _ \<leftarrow> call (q_setPermissions F name (local_mode F mode)) (\<lambda>a. EQFile (QSetPermissions name (local_mode F mode) a));
        ret ()
      } else ret ());
     e \<leftarrow> call (q_openWrite F name (resume \<noteq> None)) (\<lambda>a. EQFile (QOpenWrite name (resume \<noteq> None) a));
     ret (case e of
       None \<Rightarrow> Inr name
     | Some OpenError \<Rightarrow> Inl (Fail (if resume \<noteq> None then ERR_CANNOT_RESUME else ERR_CANNOT_OPEN_FOR_WRITING) destPath)
     | Some PermissionsError \<Rightarrow> Inl (Fail ERR_WRITE_ACCESS_DENIED destPath)
     | Some OtherOpenError \<Rightarrow> Inl (Fail ERR_CANNOT_OPEN_FOR_WRITING destPath))
   }"

text \<open>\<open>toRead\<close> is the size from the first answer; the loop ends when the offset has reached it.\<close>

fun fromLoop ::
  "'w nfs \<Rightarrow> nat \<Rightarrow> qurl \<Rightarrow> string \<Rightarrow> string \<Rightarrow> fh3 \<Rightarrow> u32 \<Rightarrow> u32 option \<Rightarrow> u64 \<Rightarrow> u64
   \<Rightarrow> ('w ns, (worker_result option \<times> u64) option) state" where
  "fromLoop F 0 src destPath name fh cnt resume toRead offset = ret None"
| "fromLoop F (Suc n) src destPath name fh cnt resume toRead offset = do {
     r \<leftarrow> call (n_read F fh offset cnt) (\<lambda>a. ELook (NRead fh offset cnt a));
     case r of
       Ok (d, attr) \<Rightarrow> do {
         let begins = (offset = 0 \<or> (case resume of None \<Rightarrow> False | Some k \<Rightarrow> offset = ucast k));
         (if begins then do {
            tell (EWorker (ATotalSize (at_size attr)));
            tell (EWorker (AMimeType (t_mime F (fileName src) d)))
          } else ret ());
         let toRead = (if begins then at_size attr else toRead);
         if d = [] then (if offset < toRead then fromLoop F n src destPath name fh cnt resume toRead offset
                         else ret (Some (None, offset)))
         else do {
           let offset = offset + word_of_nat (length d);
           ok \<leftarrow> call (q_write F name d) (\<lambda>a. EQFile (QWrite name d a));
           if \<not> ok then ret (Some (Some (Fail ERR_CANNOT_WRITE destPath), offset))
           else do {
             tell (EWorker (AProcessedSize offset));
             (if offset < toRead then fromLoop F n src destPath name fh cnt resume toRead offset
              else ret (Some (None, offset)))
           }
         }
       }
     | _ \<Rightarrow> ret (Some (Some (checkResult F r destPath), offset))
   }"

definition fromTimes :: "'w nfs \<Rightarrow> string \<Rightarrow> ('w ns, unit) state" where
  "fromTimes F destPath = (case c_modified F of
     None \<Rightarrow> ret ()
   | Some t \<Rightarrow> do { _ \<leftarrow> call (q_utime F destPath t) (\<lambda>a. EQFile (QUtime destPath t a)); ret () })"

definition fromRename :: "'w nfs \<Rightarrow> string \<Rightarrow> ('w ns, worker_result) state" where
  "fromRename F destPath =
     (if \<not> c_markPartial F then ret Pass
      else do {
        there \<leftarrow> call (q_exists F destPath) (\<lambda>a. EQFile (QExists destPath a));
        (if there then do { _ \<leftarrow> call (q_remove F destPath) (\<lambda>a. EQFile (QRemove destPath a)); ret () } else ret ());
        let part = t_absolutePath F (partPath destPath);
        ok \<leftarrow> call (q_rename F part destPath) (\<lambda>a. EQFile (QRename part destPath a));
        ret (if ok then Pass else Fail ERR_CANNOT_RENAME_PARTIAL part)
      })"

definition fromEnd ::
  "'w nfs \<Rightarrow> string \<Rightarrow> string \<Rightarrow> worker_result option \<times> u64 \<Rightarrow> ('w ns, worker_result) state" where
  "fromEnd F destPath name = (\<lambda>(error, offset). do {
     act (q_close F name) (EQFile (QClose name));
     case error of
       Some e \<Rightarrow>
         (if c_markPartial F then do {
            info \<leftarrow> call (q_info F (partPath destPath)) (\<lambda>a. EQFile (QInfo (partPath destPath) a));
            (if li_size info < DEFAULT_MINIMUM_KEEP_SIZE
             then do {
               _ \<leftarrow> call (q_remove F (t_absolutePath F (partPath destPath)))
                     (\<lambda>a. EQFile (QRemove (t_absolutePath F (partPath destPath)) a));
               ret ()
             } else ret ());
            ret e
          } else ret e)
     | None \<Rightarrow> do {
         r \<leftarrow> fromRename F destPath;
         if \<not> success r then ret r
         else do {
           fromTimes F destPath;
           tell (EWorker (AProcessedSize offset));
           ret Pass
         }
       }
   })"

definition copyFromFile ::
  "'w nfs \<Rightarrow> nat \<Rightarrow> qurl \<Rightarrow> string \<Rightarrow> int \<Rightarrow> nfs_handle \<Rightarrow> ('w ns, worker_result option) state" where
  "copyFromFile F n src destPath mode srcFH = do {
     s \<leftarrow> State_Monad.get;
     (if m_readBufferSize s = 0 then initPreferredSizes F srcFH else ret ());
     r \<leftarrow> fromPart F destPath;
     case r of
       Inl e \<Rightarrow> ret (Some e)
     | Inr resume \<Rightarrow> do {
         o' \<leftarrow> openLocal F destPath mode resume;
         case o' of
           Inl e \<Rightarrow> ret (Some e)
         | Inr name \<Rightarrow> do {
             s \<leftarrow> State_Monad.get;
             let start = (case resume of None \<Rightarrow> 0 | Some k \<Rightarrow> ucast k);
             andThen (fromLoop F n src destPath name (m_handle srcFH) (m_readBufferSize s) resume 0 start)
               (\<lambda>e. do { r \<leftarrow> fromEnd F destPath name e; ret (Some r) })
           }
       }
   }"

definition copyFromLink :: "'w nfs \<Rightarrow> nat \<Rightarrow> string \<Rightarrow> string \<Rightarrow> ('w ns, worker_result option) state" where
  "copyFromLink F n srcPath destPath = andThen (symLinkTarget F n srcPath) (\<lambda>r. case r of
     Ok target \<Rightarrow> do {
       _ \<leftarrow> call (q_link F target destPath) (\<lambda>a. EQFile (QLink target destPath a));
       ret (Some Pass)
     }
   | _ \<Rightarrow> ret (Some (Fail ERR_DOES_NOT_EXIST srcPath)))"

definition copyFrom ::
  "'w nfs \<Rightarrow> nat \<Rightarrow> qurl \<Rightarrow> qurl \<Rightarrow> int \<Rightarrow> job_flags \<Rightarrow> ('w ns, worker_result option) state" where
  "copyFrom F n src dest mode flags = withHandle F n (path src) (\<lambda>srcFH.
     if isInvalid srcFH then ret (Some (Fail ERR_DOES_NOT_EXIST (path src)))
     else do {
       there \<leftarrow> call (q_exists F (path dest)) (\<lambda>a. EQFile (QExists (path dest) a));
       if there \<and> \<not> fl_overwrite flags then ret (Some (Fail ERR_FILE_ALREADY_EXIST (path dest)))
       else if m_isLink srcFH then copyFromLink F n (path src) (path dest)
       else copyFromFile F n src (path dest) mode srcFH
     })"

section \<open>From a local file to the server\<close>

text \<open>The local file is read from where it was opened, its start.\<close>

fun toLoop ::
  "'w nfs \<Rightarrow> nat \<Rightarrow> string \<Rightarrow> string \<Rightarrow> fh3 \<Rightarrow> u64 \<Rightarrow> ('w ns, (worker_result option \<times> u64) option) state" where
  "toLoop F 0 srcPath destPath fh offset = ret None"
| "toLoop F (Suc n) srcPath destPath fh offset = do {
     s \<leftarrow> State_Monad.get;
     r \<leftarrow> call (q_read F srcPath (unat (m_writeBufferSize s))) (\<lambda>a. EQFile (QRead srcPath (unat (m_writeBufferSize s)) a));
     case r of
       None \<Rightarrow> ret (Some (Some (Fail ERR_CANNOT_READ srcPath), offset))
     | Some d \<Rightarrow>
         (if d = [] then ret (Some (None, offset))
          else do {
            w \<leftarrow> call (n_write F fh offset d) (\<lambda>a. EChange (NWrite fh offset d a));
            case w of
              Ok _ \<Rightarrow> do {
                let offset = offset + word_of_nat (length d);
                tell (EWorker (AProcessedSize offset));
                toLoop F n srcPath destPath fh offset
              }
            | _ \<Rightarrow> ret (Some (Some (checkResult F w destPath), offset))
          })
   }"

text \<open>The nanoseconds are the seconds times 1000000000, cut to 32 bits.\<close>

definition toTimes :: "'w nfs \<Rightarrow> nat \<Rightarrow> string \<Rightarrow> ('w ns, unit option) state" where
  "toTimes F n destPath = (case c_modified F of
     None \<Rightarrow> ret (Some ())
   | Some t \<Rightarrow> andThen (setAttr F n destPath
         \<lparr>sa_mode = None,
          sa_mtime = Some (word_of_int t, ucast ((ucast (word_of_int t :: u32) :: u64) * 1000000000))\<rparr>)
       (\<lambda>_. ret (Some ())))"

definition copyToEnd ::
  "'w nfs \<Rightarrow> nat \<Rightarrow> string \<Rightarrow> worker_result option \<times> u64 \<Rightarrow> ('w ns, worker_result option) state" where
  "copyToEnd F n destPath = (\<lambda>(error, offset). case error of
     Some e \<Rightarrow> andThen (dropSmallPart F n destPath offset) (\<lambda>_. ret (Some e))
   | None \<Rightarrow> andThen (renamePart F n destPath) (\<lambda>r.
       if \<not> success r then ret (Some r)
       else andThen (toTimes F n destPath) (\<lambda>_. do {
         tell (EWorker (AProcessedSize offset));
         ret (Some Pass)
       })))"

definition copyToFile ::
  "'w nfs \<Rightarrow> nat \<Rightarrow> string \<Rightarrow> string \<Rightarrow> int \<Rightarrow> ('w ns, worker_result option) state" where
  "copyToFile F n srcPath destPath mode = andThen (checkPart F n (partPath destPath)) (\<lambda>r. case r of
     Inl e \<Rightarrow> ret (Some e)
   | Inr resume \<Rightarrow> do {
       opened \<leftarrow> call (q_openRead F srcPath) (\<lambda>a. EQFile (QOpenRead srcPath a));
       if \<not> opened then ret (Some (Fail ERR_CANNOT_OPEN_FOR_READING srcPath))
       else andThen (openDest F n destPath mode resume) (\<lambda>m. case m of
         Inl e \<Rightarrow> ret (Some e)
       | Inr destFH \<Rightarrow> do {
           info \<leftarrow> call (q_info F srcPath) (\<lambda>a. EQFile (QInfo srcPath a));
           tell (EWorker (ATotalSize (li_size info)));
           s \<leftarrow> State_Monad.get;
           (if m_writeBufferSize s = 0 then initPreferredSizes F destFH else ret ());
           andThen (toLoop F n srcPath destPath (m_handle destFH) (case resume of None \<Rightarrow> 0 | Some k \<Rightarrow> k))
             (copyToEnd F n destPath)
         })
     })"

definition copyTo ::
  "'w nfs \<Rightarrow> nat \<Rightarrow> qurl \<Rightarrow> qurl \<Rightarrow> int \<Rightarrow> job_flags \<Rightarrow> ('w ns, worker_result option) state" where
  "copyTo F n src dest mode flags = do {
     there \<leftarrow> call (q_exists F (path src)) (\<lambda>a. EQFile (QExists (path src) a));
     s \<leftarrow> State_Monad.get;
     if \<not> there then ret (Some (Fail ERR_DOES_NOT_EXIST (path src)))
     else if isExportedDir (m_exportedDirs s) (dirName (path dest))
     then ret (Some (Fail ERR_ACCESS_DENIED (path dest)))
     else andThen (exists_path F n (path dest)) (\<lambda>there.
       if there \<and> \<not> fl_overwrite flags then ret (Some (Fail ERR_FILE_ALREADY_EXIST (path dest)))
       else do {
         target \<leftarrow> call (q_symLinkTarget F (path src)) (\<lambda>a. EQFile (QSymLinkTarget (path src) a));
         if target \<noteq> [] then andThen (symLink F n target (path dest)) (\<lambda>w. ret (Some (checkResult F w target)))
         else copyToFile F n (path src) (path dest) mode
       })
   }"

definition isLocalFile :: "qurl \<Rightarrow> bool" where
  "isLocalFile url \<longleftrightarrow> scheme url = ''file''"

definition copy ::
  "'w nfs \<Rightarrow> nat \<Rightarrow> qurl \<Rightarrow> qurl \<Rightarrow> int \<Rightarrow> job_flags \<Rightarrow> ('w ns, worker_result option) state" where
  "copy F n src dest mode flags =
     (if isLocalFile src then copyTo F n src dest mode flags
      else if isLocalFile dest then copyFrom F n src dest mode flags
      else copySame F n src dest mode flags)"

end
