(* ===== verification/NfsWorker.thy ===== *)
theory NfsWorker
  imports NfsCopy
begin

text \<open>
  Connections of NFS and the worker itself (nfs/kio_nfs.cpp, nfs/nfsv3.cpp): connecting to the two
  services, mounting what the server exports, choosing a version of the protocol, the checks before
  every request.
\<close>

section \<open>Connections\<close>

definition credentials :: "'w nfs \<Rightarrow> string \<Rightarrow> u32" where
  "credentials F user =
     (if user = [] then c_euid F
      else case t_toUInt F user of
        Some uid \<Rightarrow> uid
      | None \<Rightarrow> (case c_getpwnam F user of Some uid \<Rightarrow> uid | None \<Rightarrow> c_euid F))"

text \<open>A host that begins with a digit is taken as an address.\<close>

definition hostFound :: "'w nfs \<Rightarrow> string \<Rightarrow> ('w ns, bool) state" where
  "hostFound F h =
     (if hd h \<in> set ''0123456789'' then ret True
      else call (n_getHostByName F h) (\<lambda>a. EConn (GetHostByName h a)))"

definition connectTo :: "'w nfs \<Rightarrow> prog \<Rightarrow> string \<Rightarrow> ('w ns, kio_error option) state" where
  "connectTo F pr h =
     (if h = [] then ret (Some ERR_UNKNOWN_HOST)
      else do {
        found \<leftarrow> hostFound F h;
        if \<not> found then ret (Some ERR_UNKNOWN_HOST)
        else do {
          tcp \<leftarrow> call (n_tcp F pr h) (\<lambda>a. EConn (ConnectTcp pr h a));
          ok \<leftarrow> (if tcp then ret True else call (n_udp F pr h) (\<lambda>a. EConn (ConnectUdp pr h a)));
          if \<not> ok then ret (Some ERR_CANNOT_CONNECT)
          else do {
            s \<leftarrow> State_Monad.get;
            let uid = credentials F (m_currentUser s);
            act (n_auth F pr uid (c_egid F)) (EConn (AuthUnix pr uid (c_egid F)));
            ret None
          }
        }
      })"

definition closeConnection :: "'w nfs \<Rightarrow> ('w ns, unit) state" where
  "closeConnection F = do {
     s \<leftarrow> State_Monad.get;
     (if m_mountClient s then act (n_umntall F) (EConn UnmountAll) else ret ());
     (if m_mountClient s then act (n_disconnect F MOUNT_PROGRAM) (EConn (Disconnect MOUNT_PROGRAM)) else ret ());
     (if m_nfsClient s then act (n_disconnect F NFSPROG) (EConn (Disconnect NFSPROG)) else ret ());
     State_Monad.update (\<lambda>s. s\<lparr>m_mountClient := False, m_nfsClient := False\<rparr>)
   }"

text \<open>Compatible, and whether the connection failed.\<close>

definition isCompatible :: "'w nfs \<Rightarrow> ('w ns, bool \<times> bool) state" where
  "isCompatible F = do {
     s \<leftarrow> State_Monad.get;
     e \<leftarrow> connectTo F NFSPROG (m_currentHost s);
     case e of
       Some _ \<Rightarrow> ret (False, True)
     | None \<Rightarrow> do {
         ok \<leftarrow> call (n_null F) (\<lambda>a. EConn (NullCall a));
         act (n_disconnect F NFSPROG) (EConn (Disconnect NFSPROG));
         ret (ok, False)
       }
   }"

text \<open>
  The exported directories are mounted one after the other. A remote call that fails leaves the empty
  handle of a mount that succeeded.
\<close>

fun mountExports :: "'w nfs \<Rightarrow> string list \<Rightarrow> ('w ns, unit) state" where
  "mountExports F [] = ret ()"
| "mountExports F (dir # dirs) = do {
     r \<leftarrow> call (n_mount F dir) (\<lambda>a. EConn (MountCall dir a));
     s \<leftarrow> State_Monad.get;
     let name = childPath ''/'' dir;
     (case r of
        Mounted fh \<Rightarrow>
          (if isExportedDir (m_exportedDirs s) name then ret ()
           else do { addFileHandle name (fromFH fh); addExportedDir name })
      | NotMounted _ \<Rightarrow> (if isExportedDir (m_exportedDirs s) name then ret () else addExportedDir name));
     mountExports F dirs
   }"

definition connectFailed :: "'w nfs \<Rightarrow> kio_error \<Rightarrow> ('w ns, worker_result) state" where
  "connectFailed F e = do {
     s \<leftarrow> State_Monad.get;
     closeConnection F;
     ret (Fail e (m_currentHost s))
   }"

definition openNfs :: "'w nfs \<Rightarrow> ('w ns, worker_result) state" where
  "openNfs F = do {
     s \<leftarrow> State_Monad.get;
     e \<leftarrow> connectTo F NFSPROG (m_currentHost s);
     case e of
       Some e \<Rightarrow> connectFailed F e
     | None \<Rightarrow> do { State_Monad.update (\<lambda>s. s\<lparr>m_nfsClient := True\<rparr>); ret Pass }
   }"

definition openConnection :: "'w nfs \<Rightarrow> ('w ns, worker_result) state" where
  "openConnection F = do {
     s \<leftarrow> State_Monad.get;
     closeConnection F;
     e \<leftarrow> connectTo F MOUNT_PROGRAM (m_currentHost s);
     case e of
       Some e \<Rightarrow> connectFailed F e
     | None \<Rightarrow> do {
         State_Monad.update (\<lambda>s. s\<lparr>m_mountClient := True\<rparr>);
         r \<leftarrow> call (n_exports F) (\<lambda>a. EConn (Exports a));
         case r of
           Inl n \<Rightarrow> do { closeConnection F; ret (Fail ERR_INTERNAL_SERVER (t_rpcError F n)) }
         | Inr dirs \<Rightarrow> do { mountExports F dirs; openNfs F }
       }
   }"

section \<open>The protocol object\<close>

definition setProtocolHost :: "'w nfs \<Rightarrow> string \<Rightarrow> string \<Rightarrow> ('w ns, worker_result) state" where
  "setProtocolHost F h user =
     (if h = [] then ret (Fail ERR_UNKNOWN_HOST h)
      else do {
        s \<leftarrow> State_Monad.get;
        if h = m_currentHost s \<and> user = m_currentUser s then ret Pass
        else do {
          closeConnection F;
          State_Monad.update (\<lambda>s. s\<lparr>m_currentHost := h, m_currentUser := user\<rparr>);
          ret Pass
        }
      })"

definition newProtocol :: "('w ns, unit) state" where
  "newProtocol = State_Monad.update (\<lambda>s. s\<lparr>m_protocol := True, m_currentHost := [], m_currentUser := [],
     m_handleCache := Map.empty, m_exportedDirs := [], m_usercache := Map.empty, m_groupcache := Map.empty,
     m_mountClient := False, m_nfsClient := False, m_readBufferSize := 0, m_writeBufferSize := 0,
     m_readDirSize := 0\<rparr>)"

definition deleteProtocol :: "'w nfs \<Rightarrow> ('w ns, unit) state" where
  "deleteProtocol F = do {
     s \<leftarrow> State_Monad.get;
     (if m_protocol s then closeConnection F else ret ());
     State_Monad.update (\<lambda>s. s\<lparr>m_protocol := False\<rparr>)
   }"

section \<open>The worker\<close>

definition bound :: "int \<Rightarrow> int \<Rightarrow> int \<Rightarrow> int" where
  "bound lo v hi = max lo (min hi v)"

text \<open>The versions to try in order, and whether READDIRPLUS is used.\<close>

definition setting :: "'a option \<Rightarrow> 'a \<Rightarrow> 'a" where
  "setting o' d = (case o' of None \<Rightarrow> d | Some v \<Rightarrow> v)"

definition configuration :: "'w nfs \<Rightarrow> string \<Rightarrow> int \<times> int \<times> bool" where
  "configuration F h =
     (let minproto = setting (pc_minproto (c_default F)) 2;
          maxproto = setting (pc_maxproto (c_default F)) 4;
          withPlus = setting (pc_usedirplus3 (c_default F)) True
      in case c_host F h of
           None \<Rightarrow> (minproto, maxproto, withPlus)
         | Some g \<Rightarrow> (setting (pc_minproto g) minproto, setting (pc_maxproto g) maxproto, setting (pc_usedirplus3 g) withPlus))"

definition versions :: "int \<Rightarrow> int \<Rightarrow> int list" where
  "versions minproto maxproto =
     (let lo = bound 2 minproto 4; hi = bound lo maxproto 4
      in filter (\<lambda>v. lo \<le> v \<and> v \<le> hi) [4, 3, 2])"

fun tryVersions :: "'w nfs \<Rightarrow> int list \<Rightarrow> bool \<Rightarrow> ('w ns, worker_result) state" where
  "tryVersions F [] connectionError = do {
     s \<leftarrow> State_Monad.get;
     ret (if connectionError then Fail ERR_CANNOT_CONNECT (m_host s)
          else Fail ERR_WORKER_DEFINED (t_noVersion F (m_host s)))
   }"
| "tryVersions F (v # vs) connectionError =
     (if v \<noteq> 3 then tryVersions F vs connectionError
      else do {
        newProtocol;
        s \<leftarrow> State_Monad.get;
        res \<leftarrow> setProtocolHost F (m_host s) (m_user s);
        if \<not> success res then ret res
        else do {
          (compatible, connectionError) \<leftarrow> isCompatible F;
          if compatible then openConnection F
          else do { deleteProtocol F; tryVersions F vs connectionError }
        }
      })"

definition worker_openConnection :: "'w nfs \<Rightarrow> ('w ns, worker_result) state" where
  "worker_openConnection F = do {
     s \<leftarrow> State_Monad.get;
     if m_protocol s then openConnection F
     else (case configuration F (m_host s) of (minproto, maxproto, withPlus) \<Rightarrow> do {
       State_Monad.update (\<lambda>s. s\<lparr>m_usedirplus3 := withPlus\<rparr>);
       tryVersions F (versions minproto maxproto) False
     })
   }"

definition worker_closeConnection :: "'w nfs \<Rightarrow> ('w ns, unit) state" where
  "worker_closeConnection F = do {
     s \<leftarrow> State_Monad.get;
     if m_protocol s then closeConnection F else ret ()
   }"

definition setHost :: "'w nfs \<Rightarrow> string \<Rightarrow> string \<Rightarrow> ('w ns, unit) state" where
  "setHost F h user = do {
     s \<leftarrow> State_Monad.get;
     (if m_protocol s then
        (if h \<noteq> m_host s \<or> user \<noteq> m_user s then deleteProtocol F
         else do { _ \<leftarrow> setProtocolHost F h user; ret () })
      else ret ());
     State_Monad.update (\<lambda>s. s\<lparr>m_host := h, m_user := user\<rparr>)
   }"

definition verifyProtocol :: "'w nfs \<Rightarrow> qurl \<Rightarrow> ('w ns, worker_result) state" where
  "verifyProtocol F url =
     (if scheme url \<noteq> ''nfs'' then ret Pass
      else if \<not> t_valid F url then ret (Fail ERR_MALFORMED_URL (t_display F url))
      else if host url = [] then ret (Fail ERR_WORKER_DEFINED ''The NFS protocol requires a server host name.'')
      else do {
        found \<leftarrow> call (n_resolve F (host url)) (\<lambda>a. EConn (ResolveHost (host url) a));
        s \<leftarrow> State_Monad.get;
        if \<not> found then ret (Fail ERR_UNKNOWN_HOST (host url))
        else if \<not> m_protocol s then worker_openConnection F
        else if \<not> isConnected s then openConnection F
        else ret Pass
      })"

text \<open>A call of the protocol object; without one the process ends.\<close>

definition onProtocol :: "('w ns, 'a option) state \<Rightarrow> ('w ns, 'a option) state" where
  "onProtocol m = do {
     s \<leftarrow> State_Monad.get;
     if m_protocol s then m else do { tell (EWorker AException); ret None }
   }"

definition verified :: "'w nfs \<Rightarrow> qurl \<Rightarrow> ('w ns, worker_result option) state \<Rightarrow> ('w ns, worker_result option) state" where
  "verified F url m = do {
     r \<leftarrow> verifyProtocol F url;
     if \<not> success r then ret (Some r) else m
   }"

definition worker_put :: "'w nfs \<Rightarrow> nat \<Rightarrow> qurl \<Rightarrow> int \<Rightarrow> job_flags \<Rightarrow> ('w ns, worker_result option) state" where
  "worker_put F n url mode flags = verified F url (onProtocol (put F n (t_clean F url) mode flags))"

definition worker_get :: "'w nfs \<Rightarrow> nat \<Rightarrow> qurl \<Rightarrow> ('w ns, worker_result option) state" where
  "worker_get F n url = verified F url (onProtocol (get F n (t_clean F url)))"

definition worker_listDir :: "'w nfs \<Rightarrow> nat \<Rightarrow> qurl \<Rightarrow> ('w ns, worker_result option) state" where
  "worker_listDir F n url = verified F url (onProtocol (listDir F n (t_clean F url)))"

definition worker_symlink :: "'w nfs \<Rightarrow> nat \<Rightarrow> string \<Rightarrow> qurl \<Rightarrow> job_flags \<Rightarrow> ('w ns, worker_result option) state" where
  "worker_symlink F n target dest flags = verified F dest (onProtocol (symlink F n target (t_clean F dest) flags))"

definition worker_stat :: "'w nfs \<Rightarrow> nat \<Rightarrow> qurl \<Rightarrow> ('w ns, worker_result option) state" where
  "worker_stat F n url = verified F url (onProtocol (stat F n (t_clean F url)))"

definition worker_mkdir :: "'w nfs \<Rightarrow> nat \<Rightarrow> qurl \<Rightarrow> int \<Rightarrow> ('w ns, worker_result option) state" where
  "worker_mkdir F n url permissions = verified F url (onProtocol (mkdir F n (t_clean F url) permissions))"

definition worker_del :: "'w nfs \<Rightarrow> nat \<Rightarrow> qurl \<Rightarrow> bool \<Rightarrow> ('w ns, worker_result option) state" where
  "worker_del F n url isfile = verified F url (onProtocol (del F n (t_clean F url) isfile))"

definition worker_chmod :: "'w nfs \<Rightarrow> nat \<Rightarrow> qurl \<Rightarrow> int \<Rightarrow> ('w ns, worker_result option) state" where
  "worker_chmod F n url permissions = verified F url (onProtocol (chmod F n (t_clean F url) permissions))"

definition worker_rename :: "'w nfs \<Rightarrow> nat \<Rightarrow> qurl \<Rightarrow> qurl \<Rightarrow> job_flags \<Rightarrow> ('w ns, worker_result option) state" where
  "worker_rename F n src dest flags =
     verified F src (verified F dest (onProtocol (rename F n (t_clean F src) (t_clean F dest) flags)))"

definition worker_copy ::
  "'w nfs \<Rightarrow> nat \<Rightarrow> qurl \<Rightarrow> qurl \<Rightarrow> int \<Rightarrow> job_flags \<Rightarrow> ('w ns, worker_result option) state" where
  "worker_copy F n src dest mode flags =
     verified F src (verified F dest (onProtocol (copy F n (t_clean F src) (t_clean F dest) mode flags)))"

section \<open>Requests\<close>

text \<open>What the application asks for, one constructor for each entry point.\<close>

datatype (plugins only: code) nfs_request =
    ReqPut qurl int job_flags | ReqGet qurl | ReqListDir qurl | ReqSymlink string qurl job_flags
  | ReqStat qurl | ReqMkdir qurl int | ReqDel qurl bool | ReqChmod qurl int
  | ReqRename qurl qurl job_flags | ReqCopy qurl qurl int job_flags

definition serve :: "'w nfs \<Rightarrow> nat \<Rightarrow> nfs_request \<Rightarrow> ('w ns, worker_result option) state" where
  "serve F n req = (case req of
     ReqPut url mode flags \<Rightarrow> worker_put F n url mode flags
   | ReqGet url \<Rightarrow> worker_get F n url
   | ReqListDir url \<Rightarrow> worker_listDir F n url
   | ReqSymlink target dest flags \<Rightarrow> worker_symlink F n target dest flags
   | ReqStat url \<Rightarrow> worker_stat F n url
   | ReqMkdir url permissions \<Rightarrow> worker_mkdir F n url permissions
   | ReqDel url isfile \<Rightarrow> worker_del F n url isfile
   | ReqChmod url permissions \<Rightarrow> worker_chmod F n url permissions
   | ReqRename src dest flags \<Rightarrow> worker_rename F n src dest flags
   | ReqCopy src dest mode flags \<Rightarrow> worker_copy F n src dest mode flags)"

end
