(* ===== verification/NfsBasics.thy ===== *)
theory NfsBasics
  imports NfsWorker
begin

text \<open>
  Relations between the state before and after the parts of NFS: which events can happen, which
  members stay. They pass from the calls to the handlers by the rules of the collection
  \<open>nfs_rel\<close>.
\<close>

named_theorems nfs_rel

lemma rel_case_reply [rel_intros]:
  "(\<And>k. state_io_rel R (f k)) \<Longrightarrow> (\<And>e. state_io_rel R (g e)) \<Longrightarrow> (\<And>a. state_io_rel R (h a)) \<Longrightarrow>
   state_io_rel R (case x of RpcError k \<Rightarrow> f k | NfsError e \<Rightarrow> g e | Ok a \<Rightarrow> h a)"
  by (simp split: reply.splits)

section \<open>Members that stay\<close>

definition same_setup :: "'w ns \<Rightarrow> 'w ns \<Rightarrow> bool" where
  "same_setup s t \<longleftrightarrow> m_exportedDirs t = m_exportedDirs s \<and> m_nfsClient t = m_nfsClient s \<and>
     m_mountClient t = m_mountClient s \<and> m_protocol t = m_protocol s \<and>
     m_readBufferSize t = m_readBufferSize s \<and> m_writeBufferSize t = m_writeBufferSize s \<and>
     m_readDirSize t = m_readDirSize s \<and> m_usedirplus3 t = m_usedirplus3 s"

lemma reflp_same_setup [rel_intros]: "reflp same_setup"
  by (auto simp: same_setup_def intro: reflpI)

lemma transp_same_setup [rel_intros]: "transp same_setup"
  by (rule transpI) (simp add: same_setup_def)

lemma setup_call [nfs_rel]: "state_io_rel same_setup (call f e)"
  by (simp add: state_io_rel_def same_setup_def call_def split: prod.splits)

lemma setup_tell [nfs_rel]: "state_io_rel same_setup (tell e)"
  by (simp add: state_io_rel_def same_setup_def tell_def act_def call_def)

lemma setup_addFileHandle [nfs_rel]: "state_io_rel same_setup (addFileHandle p h)"
  unfolding addFileHandle_def by (intro rel_intros rel_update) (simp_all add: same_setup_def)

lemma setup_removeFileHandle [nfs_rel]: "state_io_rel same_setup (removeFileHandle p)"
  unfolding removeFileHandle_def by (rule rel_update) (simp add: same_setup_def)

section \<open>Looking things up\<close>

text \<open>A relation that the calls of a lookup and the cache respect is respected by a lookup.\<close>

locale lookup_rel =
  fixes F :: "'w nfs" and R :: "'w ns \<Rightarrow> 'w ns \<Rightarrow> bool"
  assumes refl: "reflp R" and trans: "transp R"
    and asks: "\<And>fh name. state_io_rel R (call (n_lookup F fh name) (\<lambda>a. ELook (NLookup fh name a)))"
      "\<And>fh. state_io_rel R (call (n_readlink F fh) (\<lambda>a. ELook (NReadlink fh a)))"
      "\<And>fh. state_io_rel R (call (n_getattr F fh) (\<lambda>a. ELook (NGetattr fh a)))"
    and caches: "\<And>p h. state_io_rel R (addFileHandle p h)"
    and throws: "state_io_rel R (tell (EWorker AException))"
begin

lemmas steps = rel_return[OF refl] rel_bind[OF trans] rel_get[OF refl] rel_if rel_let rel_case_option
  rel_case_sum rel_case_prod rel_case_reply rel_andThen[OF trans refl] asks caches throws

lemma lookupHandle_by_rel:
  "(\<And>q. state_io_rel R (handleOf q)) \<Longrightarrow> state_io_rel R (lookupHandle_by handleOf F p)"
  unfolding lookupHandle_by_def by (intro steps)

lemma lookupFileHandle_by_rel:
  "(\<And>q. state_io_rel R (handleOf q)) \<Longrightarrow> state_io_rel R (lookupFileHandle_by handleOf F p)"
  unfolding lookupFileHandle_by_def resolveLink_by_def by (intro steps lookupHandle_by_rel)

lemma getFileHandle_rel: "state_io_rel R (getFileHandle F n p)"
  by (induction n arbitrary: p) (auto intro!: steps lookupFileHandle_by_rel)

lemma lookupHandle_rel: "state_io_rel R (lookupHandle F n p)"
  unfolding lookupHandle_def by (intro lookupHandle_by_rel getFileHandle_rel)

lemma withHandle_rel: "(\<And>h. state_io_rel R (k h)) \<Longrightarrow> state_io_rel R (withHandle F n p k)"
  unfolding withHandle_def by (intro steps getFileHandle_rel)

lemma exists_path_rel: "state_io_rel R (exists_path F n p)"
  unfolding exists_path_def by (intro steps getFileHandle_rel)

lemma getAttr_rel: "state_io_rel R (getAttr F n p)"
  unfolding getAttr_def by (intro steps getFileHandle_rel)

lemma symLinkTarget_rel: "state_io_rel R (symLinkTarget F n p)"
  unfolding symLinkTarget_def by (intro steps getFileHandle_rel)

lemma validLinkResult_rel: "state_io_rel R (validLinkResult F n p q)"
  unfolding validLinkResult_def by (intro steps withHandle_rel)

lemma linkTarget_rel: "state_io_rel R (linkTarget F n p q v)"
  unfolding linkTarget_def by (intro steps lookupHandle_rel getAttr_rel)

lemmas lookups = getFileHandle_rel lookupHandle_rel exists_path_rel getAttr_rel symLinkTarget_rel
  validLinkResult_rel linkTarget_rel

end

interpretation keeps_setup: lookup_rel F same_setup
  by unfold_locales (rule rel_intros nfs_rel)+

text \<open>What a lookup sends are requests that change nothing.\<close>

fun asks_only :: "nev \<Rightarrow> bool" where
  "asks_only (ELook _) = True"
| "asks_only (EWorker AException) = True"
| "asks_only _ = False"

lemma did_addFileHandle: "state_io_rel (did P) (addFileHandle p h)"
  unfolding addFileHandle_def by (intro rel_intros did_update) simp_all

lemma did_removeFileHandle: "state_io_rel (did P) (removeFileHandle p)"
  unfolding removeFileHandle_def by (rule did_update) simp

interpretation asks: lookup_rel F "did asks_only"
  by unfold_locales (auto intro!: rel_intros did_call did_tell did_addFileHandle)

end
