(* ===== verification/NfsDemo.thy ===== *)
theory NfsDemo
  imports NfsWorker
begin

text \<open>
  A concrete server and application, on which the witnesses of the NFS properties run: one exported
  directory with one file of three bytes, which is read and written a byte at a time. The world is what
  the application has yet to supply.
\<close>

type_synonym nd_world = "(int \<times> byte list) list"

definition nd_bytes :: "byte list" where "nd_bytes = [1, 2, 3]"

definition nd_attr :: fattr3 where
  "nd_attr = \<lparr>at_type = NF3REG, at_mode = 0x1A4, at_uid = 1, at_gid = 1, at_size = 3, at_atime = 5, at_mtime = 6,
     at_mtime_nsec = 7\<rparr>"

definition nfs_demo :: "nd_world nfs" where
  "nfs_demo = \<lparr>
     n_lookup = \<lambda>fh name w. (if name = ''f'' then Ok ([2], nd_attr) else NfsError NFS3ERR_NOENT, w),
     n_getattr = \<lambda>fh w. (Ok nd_attr, w),
     n_readlink = \<lambda>fh w. (Ok ''l/x'', w),
     n_read = \<lambda>fh off cnt w. (Ok (take (if cnt = 0 then 0 else 1) (drop (unat off) nd_bytes), nd_attr), w),
     n_fsinfo = \<lambda>fh w. (Ok (8, 8, 8), w),
     n_readdirplus = \<lambda>fh cookie cnt w. (Ok ([\<lparr>en_name = ''.'', en_cookie = 1, en_attr = nd_attr, en_handle = [1]\<rparr>], False), w),
     n_readdir = \<lambda>fh cookie cnt w. (Ok ([], True), w),
     n_write = \<lambda>fh off d w. (Ok (if d = [] then 0 else 1), w),
     n_create = \<lambda>d name m u g w. (Ok [9], w),
     n_mkdir = \<lambda>d name m w. (Ok (), w),
     n_remove = \<lambda>d name w. (Ok (), w),
     n_rmdir = \<lambda>d name w. (Ok (), w),
     n_rename = \<lambda>d name d' name' w. (Ok (), w),
     n_setattr = \<lambda>fh a w. (Ok (), w),
     n_symlink = \<lambda>d name t w. (Ok (), w),
     n_resolve = \<lambda>h w. (True, w),
     n_getHostByName = \<lambda>h w. (True, w),
     n_tcp = \<lambda>p h w. (True, w),
     n_udp = \<lambda>p h w. (True, w),
     n_auth = \<lambda>p u g w. w,
     n_disconnect = \<lambda>p w. w,
     n_null = \<lambda>w. (True, w),
     n_exports = \<lambda>w. (Inr [''/e''], w),
     n_mount = \<lambda>d w. (Mounted [1], w),
     n_umntall = \<lambda>w. w,
     q_exists = \<lambda>p w. (True, w),
     q_info = \<lambda>p w. (\<lparr>li_exists = False, li_isDir = False, li_size = 0\<rparr>, w),
     q_remove = \<lambda>p w. (True, w),
     q_rename = \<lambda>p q w. (True, w),
     q_link = \<lambda>t p w. (True, w),
     q_setPermissions = \<lambda>p m w. (True, w),
     q_openWrite = \<lambda>p a w. (None, w),
     q_write = \<lambda>p d w. (True, w),
     q_openRead = \<lambda>p w. (True, w),
     q_read = \<lambda>p n w. (Some [], w),
     q_close = \<lambda>p w. w,
     q_symLinkTarget = \<lambda>p w. ([], w),
     q_utime = \<lambda>p t w. (True, w),
     a_readData = \<lambda>w. (case w of [] \<Rightarrow> ((0, []), []) | x # xs \<Rightarrow> (x, xs)),
     a_canResume = \<lambda>n w. (True, w),
     t_absolute = \<lambda>d t. d @ slash # t,
     t_absolutePath = \<lambda>p. p,
     t_clean = \<lambda>u. u,
     t_valid = \<lambda>u. True,
     t_display = path,
     t_rootOf = \<lambda>u. u\<lparr>path := ''/''\<rparr>,
     t_mime = \<lambda>n d. ''text/plain'',
     t_rpcError = \<lambda>n. ''rpc'',
     t_nfsError = \<lambda>e t. t,
     t_noVersion = \<lambda>h. h,
     t_number = \<lambda>i. ''1'',
     t_toUInt = \<lambda>s. None,
     t_convertPermissions = \<lambda>m. m,
     c_default = \<lparr>pc_minproto = None, pc_maxproto = None, pc_usedirplus3 = None\<rparr>,
     c_host = \<lambda>h. None,
     c_euid = 1,
     c_egid = 1,
     c_getpwnam = \<lambda>u. None,
     c_getpwuid = \<lambda>u. None,
     c_getgrgid = \<lambda>g. None,
     c_markPartial = True,
     c_modified = None\<rparr>"

lemma nfs_demo_simps [simp]:
  "n_lookup nfs_demo = (\<lambda>fh name w. (if name = ''f'' then Ok ([2], nd_attr) else NfsError NFS3ERR_NOENT, w))"
  "n_getattr nfs_demo = (\<lambda>fh w. (Ok nd_attr, w))"
  "n_readlink nfs_demo = (\<lambda>fh w. (Ok ''l/x'', w))"
  "n_read nfs_demo = (\<lambda>fh off cnt w. (Ok (take (if cnt = 0 then 0 else 1) (drop (unat off) nd_bytes), nd_attr), w))"
  "n_fsinfo nfs_demo = (\<lambda>fh w. (Ok (8, 8, 8), w))"
  "n_readdirplus nfs_demo = (\<lambda>fh cookie cnt w. (Ok ([\<lparr>en_name = ''.'', en_cookie = 1, en_attr = nd_attr, en_handle = [1]\<rparr>], False), w))"
  "n_readdir nfs_demo = (\<lambda>fh cookie cnt w. (Ok ([], True), w))"
  "n_write nfs_demo = (\<lambda>fh off d w. (Ok (if d = [] then 0 else 1), w))"
  "n_create nfs_demo = (\<lambda>d name m u g w. (Ok [9], w))"
  "n_mkdir nfs_demo = (\<lambda>d name m w. (Ok (), w))"
  "n_remove nfs_demo = (\<lambda>d name w. (Ok (), w))"
  "n_rmdir nfs_demo = (\<lambda>d name w. (Ok (), w))"
  "n_rename nfs_demo = (\<lambda>d name d' name' w. (Ok (), w))"
  "n_setattr nfs_demo = (\<lambda>fh a w. (Ok (), w))"
  "n_symlink nfs_demo = (\<lambda>d name t w. (Ok (), w))"
  "n_resolve nfs_demo = (\<lambda>h w. (True, w))"
  "n_getHostByName nfs_demo = (\<lambda>h w. (True, w))"
  "n_tcp nfs_demo = (\<lambda>p h w. (True, w))"
  "n_udp nfs_demo = (\<lambda>p h w. (True, w))"
  "n_auth nfs_demo = (\<lambda>p u g w. w)"
  "n_disconnect nfs_demo = (\<lambda>p w. w)"
  "n_null nfs_demo = (\<lambda>w. (True, w))"
  "n_exports nfs_demo = (\<lambda>w. (Inr [''/e''], w))"
  "n_mount nfs_demo = (\<lambda>d w. (Mounted [1], w))"
  "n_umntall nfs_demo = (\<lambda>w. w)"
  "q_exists nfs_demo = (\<lambda>p w. (True, w))"
  "q_info nfs_demo = (\<lambda>p w. (\<lparr>li_exists = False, li_isDir = False, li_size = 0\<rparr>, w))"
  "q_remove nfs_demo = (\<lambda>p w. (True, w))"
  "q_rename nfs_demo = (\<lambda>p q w. (True, w))"
  "q_link nfs_demo = (\<lambda>t p w. (True, w))"
  "q_setPermissions nfs_demo = (\<lambda>p m w. (True, w))"
  "q_openWrite nfs_demo = (\<lambda>p a w. (None, w))"
  "q_write nfs_demo = (\<lambda>p d w. (True, w))"
  "q_openRead nfs_demo = (\<lambda>p w. (True, w))"
  "q_read nfs_demo = (\<lambda>p n w. (Some [], w))"
  "q_close nfs_demo = (\<lambda>p w. w)"
  "q_symLinkTarget nfs_demo = (\<lambda>p w. ([], w))"
  "q_utime nfs_demo = (\<lambda>p t w. (True, w))"
  "a_readData nfs_demo = (\<lambda>w. (case w of [] \<Rightarrow> ((0, []), []) | x # xs \<Rightarrow> (x, xs)))"
  "a_canResume nfs_demo = (\<lambda>n w. (True, w))"
  "t_absolute nfs_demo = (\<lambda>d t. d @ slash # t)"
  "t_absolutePath nfs_demo = (\<lambda>p. p)"
  "t_clean nfs_demo = (\<lambda>u. u)"
  "t_valid nfs_demo = (\<lambda>u. True)"
  "t_display nfs_demo = path"
  "t_rootOf nfs_demo = (\<lambda>u. u\<lparr>path := ''/''\<rparr>)"
  "t_mime nfs_demo = (\<lambda>n d. ''text/plain'')"
  "t_rpcError nfs_demo = (\<lambda>n. ''rpc'')"
  "t_nfsError nfs_demo = (\<lambda>e t. t)"
  "t_noVersion nfs_demo = (\<lambda>h. h)"
  "t_number nfs_demo = (\<lambda>i. ''1'')"
  "t_toUInt nfs_demo = (\<lambda>s. None)"
  "t_convertPermissions nfs_demo = (\<lambda>m. m)"
  "c_default nfs_demo = \<lparr>pc_minproto = None, pc_maxproto = None, pc_usedirplus3 = None\<rparr>"
  "c_host nfs_demo = (\<lambda>h. None)"
  "c_euid nfs_demo = 1"
  "c_egid nfs_demo = 1"
  "c_getpwnam nfs_demo = (\<lambda>u. None)"
  "c_getpwuid nfs_demo = (\<lambda>u. None)"
  "c_getgrgid nfs_demo = (\<lambda>g. None)"
  "c_markPartial nfs_demo = True"
  "c_modified nfs_demo = None"
  by (simp_all add: nfs_demo_def)

text \<open>A worker that is connected; it has the directory, the file and a link in its cache.\<close>

definition nd_link :: nfs_handle where
  "nd_link = \<lparr>m_handle = [3], m_linkHandle = [4], m_isLink = True\<rparr>"

definition nd_state :: "nd_world ns" where
  "nd_state = \<lparr>world = [], trace = [], m_protocol = True, m_host = ''h'', m_user = [], m_usedirplus3 = True,
     m_currentHost = ''h'', m_currentUser = [],
     m_handleCache = [''/e'' \<mapsto> fromFH [1], ''/e/f'' \<mapsto> fromFH [2], ''/e/s'' \<mapsto> nd_link],
     m_exportedDirs = [''/e''], m_usercache = Map.empty, m_groupcache = Map.empty, m_mountClient = True,
     m_nfsClient = True, m_readBufferSize = 0, m_writeBufferSize = 0, m_readDirSize = 8\<rparr>"

definition nd_url :: "string \<Rightarrow> qurl" where
  "nd_url p = empty_qurl\<lparr>scheme := ''nfs'', host := ''h'', path := p\<rparr>"

lemmas nd_defs = nd_state_def nd_url_def nd_link_def nd_attr_def fromFH_def emptyHandle_def isInvalid_def
  isBadLink_def isConnected_def isValidPath_def isExportedDir_def isRootPath_def starts_with_def dirName_def
  baseName_def refusedPath_def

definition nd_flags :: job_flags where "nd_flags = \<lparr>fl_overwrite = False, fl_resume = False\<rparr>"

definition nd_fuel :: nat where "nd_fuel = Suc (Suc (Suc (Suc 0)))"

lemmas nd_runs = nd_fuel_def call_def tell_def act_def run_andThen Let_def State_Monad.update_def

end
