(* ===== verification/NfsState.thy ===== *)
theory NfsState
  imports NfsBasics NfsDemo
begin

text \<open>
  The state of the NFS worker is well-formed before and after every request: the cache holds handles
  that name something, and there are connections only where there is a protocol object. The handlers
  pass a relation on from what they are made of (\<open>handler_rel\<close>); the connections are followed
  statement by statement.
\<close>

section \<open>Relations that handlers respect\<close>

fun no_write :: "nev \<Rightarrow> bool" where
  "no_write (EChange (NWrite _ _ _ _)) = False"
| "no_write _ = True"

text \<open>
  \<open>change_rel\<close>: a relation that every event that satisfies \<open>ok\<close> respects, and so does the cache; writing
  to a file need not be such an event. \<open>handler_rel\<close>: every event respects it.
\<close>

locale change_rel =
  fixes R :: "'w ns \<Rightarrow> 'w ns \<Rightarrow> bool" and ok :: "nev \<Rightarrow> bool"
  assumes stays: "reflp R" and chains: "transp R"
    and event: "\<And>s w e. ok e \<Longrightarrow> R s (s\<lparr>world := w, trace := trace s @ [e]\<rparr>)"
    and other: "\<And>e. no_write e \<Longrightarrow> ok e"
    and adds: "\<And>p h. state_io_rel R (addFileHandle p h)"
    and removes: "\<And>p. state_io_rel R (removeFileHandle p)"
begin

lemma calls: "(\<And>a. ok (e a)) \<Longrightarrow> state_io_rel R (call f e)"
  by (auto simp: state_io_rel_def call_def event split: prod.splits)

lemma tells: "ok e \<Longrightarrow> state_io_rel R (tell e)"
  by (simp add: tell_def act_def calls)

lemma acts: "ok e \<Longrightarrow> state_io_rel R (act f e)"
  by (simp add: act_def calls)

lemma no_writes:
  "ok (ELook l)" "ok (EWorker a)" "ok (EQFile q)" "ok (EConn c)" "ok (EChange (NCreate d p m u g r))"
  "ok (EChange (NRemove d p s))" "ok (EChange (NRmdir d p s))" "ok (EChange (NRename d p d' p' s))"
  "ok (EChange (NSetattr d at s))" "ok (EChange (NSymlink d p target s))" "ok (EChange (NMkdir d p m s))"
  by (simp_all add: other)

end

sublocale change_rel \<subseteq> lookup_rel F R for F
  by unfold_locales (rule stays chains calls adds tells no_writes)+

context change_rel
begin

lemmas parts = steps calls tells acts removes no_writes getFileHandle_rel lookupHandle_rel withHandle_rel
  exists_path_rel getAttr_rel symLinkTarget_rel validLinkResult_rel linkTarget_rel

lemma remove_rel: "state_io_rel R (remove F n p)"
  unfolding remove_def removeEntry_def by (intro parts)

lemma renamePath_rel: "state_io_rel R (renamePath F n p q)"
  unfolding renamePath_def renameCall_def followRename_def by (intro parts)

lemma setAttr_rel: "state_io_rel R (setAttr F n p a)"
  unfolding setAttr_def by (intro parts)

lemma symLink_rel: "state_io_rel R (symLink F n t p)"
  unfolding symLink_def by (intro parts remove_rel)

lemma create_rel: "state_io_rel R (create F n p m)"
  unfolding create_def by (intro parts)

lemma checkPart_rel: "state_io_rel R (checkPart F n part)"
  unfolding checkPart_def resumeAt_def by (intro parts remove_rel)

lemma openDest_rel: "state_io_rel R (openDest F n p m resume)"
  unfolding openDest_def by (intro parts create_rel)

lemma ends_rel: "state_io_rel R (dropSmallPart F n p off)" "state_io_rel R (renamePart F n p)"
    "state_io_rel R (copyTimes F n p q)"
  unfolding dropSmallPart_def renamePart_def copyTimes_def by (intro parts remove_rel renamePath_rel setAttr_rel)+

lemma copySameEnd_rel: "state_io_rel R (copySameEnd F n p q c)"
  unfolding copySameEnd_def by (intro parts ends_rel)

lemma copySameLink_rel: "state_io_rel R (copySameLink F n src dest)"
  unfolding copySameLink_def by (intro parts symLink_rel)

end

locale handler_rel = change_rel R "\<lambda>_. True" for R :: "'w ns \<Rightarrow> 'w ns \<Rightarrow> bool" +
  assumes users: "\<And>s c. R s (s\<lparr>m_usercache := c\<rparr>)"
    and groups: "\<And>s c. R s (s\<lparr>m_groupcache := c\<rparr>)"
    and sizes: "\<And>s a b c. R s (s\<lparr>m_writeBufferSize := a, m_readBufferSize := b, m_readDirSize := c\<rparr>)"
begin

lemma any_call: "state_io_rel R (call f e)"
  by (rule calls) simp

lemmas all_parts = any_call parts

lemma initPreferredSizes_rel: "state_io_rel R (initPreferredSizes F h)"
  unfolding initPreferredSizes_def by (intro parts rel_update sizes)

lemma completeUDSEntry_rel: "state_io_rel R (completeUDSEntry F a e)"
  unfolding completeUDSEntry_def completeOwner_def userText_def groupText_def
  by (intro all_parts rel_update users groups)

lemma linkEntry_rel: "state_io_rel R (linkEntry F n p q l a v e)"
  unfolding linkEntry_def by (intro all_parts completeUDSEntry_rel)

lemma readNames_rel: "state_io_rel R (readNames F n p dir cookie names)"
  by (induction n arbitrary: cookie names) (auto intro!: all_parts simp: Let_def)

lemma compatEntry_rel: "state_io_rel R (compatEntry F n p name v)"
  unfolding compatEntry_def by (intro all_parts linkEntry_rel completeUDSEntry_rel)

lemma compatEntries_rel: "state_io_rel R (compatEntries F n p names v)"
  by (induction names arbitrary: v) (auto intro!: all_parts compatEntry_rel)

lemma listDirCompat_rel: "state_io_rel R (listDirCompat F n url)"
  unfolding listDirCompat_def by (intro all_parts readNames_rel compatEntries_rel)

lemma plusEntry_rel: "state_io_rel R (plusEntry F n p en v)"
  unfolding plusEntry_def by (intro all_parts completeUDSEntry_rel linkEntry_rel)

lemma plusEntries_rel: "state_io_rel R (plusEntries F n p ens v)"
  by (induction ens arbitrary: v) (auto intro!: all_parts plusEntry_rel)

lemma listPlus_rel: "state_io_rel R (listPlus F n url dir v)"
  by (induction n arbitrary: v)
     (auto intro!: all_parts plusEntries_rel listDirCompat_rel split: reply.splits nfs_error.splits)

lemma listVirtual_rel: "state_io_rel R (listVirtual exps pre e names)"
  by (induction names arbitrary: e) (auto intro!: all_parts simp: Let_def)

lemma listDir_rel: "state_io_rel R (listDir F n url)"
  unfolding listDir_def listDirInternal_def
  by (intro all_parts listPlus_rel listDirCompat_rel listVirtual_rel initPreferredSizes_rel)

lemma stat_rel: "state_io_rel R (stat F n url)"
  unfolding stat_def statInternal_def statLink_def by (intro all_parts completeUDSEntry_rel)

lemma names_rel:
  "state_io_rel R (mkdir F n url perm)" "state_io_rel R (del F n url b)" "state_io_rel R (chmod F n url perm)"
  "state_io_rel R (rename F n src dest fl)" "state_io_rel R (symlink F n t url fl)"
  unfolding mkdir_def del_def chmod_def rename_def symlink_def
  by (intro all_parts remove_rel setAttr_rel renamePath_rel symLink_rel)+

lemma getLoop_rel: "state_io_rel R (getLoop F n url fh cnt off v)"
  by (induction n arbitrary: off v)
     (auto intro!: all_parts simp: Let_def split: reply.splits nfs_error.splits)

lemma get_rel: "state_io_rel R (get F n url)"
  unfolding get_def by (intro all_parts getLoop_rel initPreferredSizes_rel)

lemma putBlock_rel: "state_io_rel R (putBlock F n p fh b d)"
  by (induction n arbitrary: b d) (auto intro!: all_parts simp: Let_def)

lemma putLoop_rel: "state_io_rel R (putLoop F n p fh b)"
  by (induction n arbitrary: b) (auto intro!: all_parts putBlock_rel)

lemma put_rel: "state_io_rel R (put F n url m fl)"
  unfolding put_def by (intro all_parts putLoop_rel create_rel initPreferredSizes_rel)

lemma copyLoop_rel: "state_io_rel R (copyLoop F n src dest a b cnt resume x y)"
  by (induction n arbitrary: x y) (auto intro!: all_parts simp: Let_def)

lemma copySame_rel: "state_io_rel R (copySame F n src dest m fl)"
  unfolding copySame_def copySameFile_def
  by (intro all_parts copySameLink_rel copySameEnd_rel checkPart_rel openDest_rel copyLoop_rel)

lemma fromLoop_rel: "state_io_rel R (fromLoop F n src p name fh cnt resume a b)"
  by (induction n arbitrary: a b) (auto intro!: all_parts simp: Let_def)

lemma copyFrom_rel: "state_io_rel R (copyFrom F n src dest m fl)"
  unfolding copyFrom_def copyFromLink_def copyFromFile_def fromPart_def openLocal_def fromEnd_def fromRename_def
    fromTimes_def
  by (intro all_parts fromLoop_rel initPreferredSizes_rel)

lemma toLoop_rel: "state_io_rel R (toLoop F n p q fh off)"
  by (induction n arbitrary: off) (auto intro!: all_parts simp: Let_def)

lemma copyTo_rel: "state_io_rel R (copyTo F n src dest m fl)"
  unfolding copyTo_def copyToFile_def copyToEnd_def toTimes_def
  by (intro all_parts symLink_rel checkPart_rel openDest_rel toLoop_rel initPreferredSizes_rel ends_rel setAttr_rel)

lemma copy_rel: "state_io_rel R (copy F n src dest m fl)"
  unfolding copy_def by (intro all_parts copySame_rel copyFrom_rel copyTo_rel)

end

section \<open>Well-formed states\<close>

definition handles_valid :: "'w ns \<Rightarrow> bool" where
  "handles_valid s \<longleftrightarrow> (\<forall>p h. m_handleCache s p = Some h \<longrightarrow> \<not> isInvalid h)"

definition nfs_state_ok :: "'w ns \<Rightarrow> bool" where
  "nfs_state_ok s \<longleftrightarrow> handles_valid s \<and> (m_nfsClient s \<longrightarrow> m_mountClient s) \<and> (m_mountClient s \<longrightarrow> m_protocol s)"

definition steady :: "'w ns \<Rightarrow> 'w ns \<Rightarrow> bool" where
  "steady s t \<longleftrightarrow> m_protocol t = m_protocol s \<and> m_mountClient t = m_mountClient s \<and>
     m_nfsClient t = m_nfsClient s \<and> (handles_valid s \<longrightarrow> handles_valid t)"

lemma steady_ok: "steady s t \<Longrightarrow> nfs_state_ok s \<Longrightarrow> nfs_state_ok t"
  by (simp add: steady_def nfs_state_ok_def)

lemma assign_valid: "\<not> isInvalid h \<Longrightarrow> \<not> isInvalid (assignHandle old h)"
  by (auto simp: isInvalid_def assignHandle_def Let_def)

lemma steady_add: "state_io_rel steady (addFileHandle p h)"
  unfolding addFileHandle_def
  by (auto intro!: rel_if rel_update rel_return reflpI
      simp: steady_def handles_valid_def insertHandle_def assign_valid split: option.splits)

lemma steady_remove: "state_io_rel steady (removeFileHandle p)"
  unfolding removeFileHandle_def by (rule rel_update) (simp add: steady_def handles_valid_def)

lemma steady_refl: "reflp steady" and steady_trans: "transp steady"
  unfolding reflp_def transp_def by (simp_all add: steady_def)

lemma steady_members: "handles_valid t = handles_valid s \<Longrightarrow> m_protocol t = m_protocol s \<Longrightarrow>
    m_mountClient t = m_mountClient s \<Longrightarrow> m_nfsClient t = m_nfsClient s \<Longrightarrow> steady s t"
  by (simp add: steady_def)

interpretation steadily: handler_rel steady
  by unfold_locales (rule steady_refl steady_trans steady_add steady_remove | simp add: steady_members handles_valid_def)+

section \<open>Connections\<close>

text \<open>Where the parts of connecting leave the connections.\<close>

lemma steady_connectTo: "state_io_rel steady (connectTo F pr h)"
  unfolding connectTo_def hostFound_def by (intro steadily.all_parts)

lemma steady_isCompatible: "state_io_rel steady (isCompatible F)"
  unfolding isCompatible_def by (intro steadily.all_parts steady_connectTo)

lemma steady_mountExports: "state_io_rel steady (mountExports F dirs)"
proof (induction dirs)
  case (Cons d dirs)
  have "state_io_rel steady (addExportedDir p)" for p :: string
    unfolding addExportedDir_def by (rule rel_update) (simp add: steady_def handles_valid_def)
  then show ?case
    by (auto intro!: steadily.all_parts steady_add Cons.IH simp: Let_def split: mount_reply.splits)
qed (simp add: steadily.all_parts)

lemma wp_steady:
  assumes "state_io_rel steady m" "\<And>a t. steady s t \<Longrightarrow> Q a t"
  shows "wp m Q s"
  by (rule wpI) (rule assms(2)[OF relD[OF assms(1)]])

definition off :: "'w ns \<Rightarrow> bool" where
  "off s \<longleftrightarrow> nfs_state_ok s \<and> \<not> m_mountClient s \<and> \<not> m_nfsClient s"

lemma wp_close:
  assumes "nfs_state_ok s" "\<And>t. off t \<Longrightarrow> m_protocol t = m_protocol s \<Longrightarrow> Q () t"
  shows "wp (closeConnection F) Q s"
  using assms by (auto simp: closeConnection_def wp_simps off_def nfs_state_ok_def handles_valid_def)

lemma wp_failed:
  assumes "nfs_state_ok s" "\<And>r t. nfs_state_ok t \<Longrightarrow> m_protocol t = m_protocol s \<Longrightarrow> Q r t"
  shows "wp (connectFailed F e) Q s"
  unfolding connectFailed_def by (simp add: wp_simps) (intro wp_close assms(1); simp add: wp_simps assms(2) off_def)

lemma wp_openNfs:
  assumes "nfs_state_ok s" "m_mountClient s" "\<And>r t. nfs_state_ok t \<Longrightarrow> m_protocol t = m_protocol s \<Longrightarrow> Q r t"
  shows "wp (openNfs F) Q s"
proof -
  have "wp (case e of Some e \<Rightarrow> connectFailed F e
      | None \<Rightarrow> do { State_Monad.update (\<lambda>s. s\<lparr>m_nfsClient := True\<rparr>); ret Pass }) Q t" if "steady s t" for e t
  proof (cases e)
    case None
    then show ?thesis using that assms
      by (auto simp: wp_simps steady_def nfs_state_ok_def handles_valid_def)
  next
    case (Some e')
    show ?thesis unfolding Some option.case
      by (rule wp_failed) (use that assms steady_ok in \<open>auto simp: steady_def\<close>)
  qed
  then show ?thesis unfolding openNfs_def by (simp add: wp_simps(2,3)) (rule wp_steady[OF steady_connectTo])
qed

lemma wp_openConnection:
  assumes "nfs_state_ok s" "m_protocol s" "\<And>r t. nfs_state_ok t \<Longrightarrow> m_protocol t \<Longrightarrow> Q r t"
  shows "wp (openConnection F) Q s"
proof -
  have mounted: "wp (case r of
           Inl n \<Rightarrow> do { closeConnection F; ret (Fail ERR_INTERNAL_SERVER (t_rpcError F n)) }
         | Inr dirs \<Rightarrow> do { mountExports F dirs; openNfs F }) Q t"
    if t: "nfs_state_ok t" "m_mountClient t" "m_protocol t" for r t
  proof (cases r)
    case (Inl n)
    then show ?thesis using t by (simp add: wp_simps) (intro wp_close t; simp add: wp_simps assms(3) off_def)
  next
    case (Inr dirs)
    have "wp (openNfs F) Q u" if "steady t u" for u
      by (rule wp_openNfs) (use that t assms steady_ok in \<open>auto simp: steady_def\<close>)
    then show ?thesis unfolding Inr sum.case by (simp add: wp_simps(2)) (rule wp_steady[OF steady_mountExports])
  qed
  have connected: "wp (case e of
       Some e \<Rightarrow> connectFailed F e
     | None \<Rightarrow> do {
         State_Monad.update (\<lambda>s. s\<lparr>m_mountClient := True\<rparr>);
         r \<leftarrow> call (n_exports F) (\<lambda>a. EConn (Exports a));
         case r of
           Inl n \<Rightarrow> do { closeConnection F; ret (Fail ERR_INTERNAL_SERVER (t_rpcError F n)) }
         | Inr dirs \<Rightarrow> do { mountExports F dirs; openNfs F }
       }) Q t" if t: "nfs_state_ok t" "m_protocol t" for e t
  proof (cases e)
    case None
    define u where "u = t\<lparr>m_mountClient := True\<rparr>"
    have "wp (case r of
           Inl n \<Rightarrow> do { closeConnection F; ret (Fail ERR_INTERNAL_SERVER (t_rpcError F n)) }
         | Inr dirs \<Rightarrow> do { mountExports F dirs; openNfs F }) Q v" if "steady u v" for r v
      by (rule mounted) (use that t in \<open>auto simp: u_def steady_def nfs_state_ok_def handles_valid_def\<close>)
    then have "wp (call (n_exports F) (\<lambda>a. EConn (Exports a))) (\<lambda>r. wp (case r of
           Inl n \<Rightarrow> do { closeConnection F; ret (Fail ERR_INTERNAL_SERVER (t_rpcError F n)) }
         | Inr dirs \<Rightarrow> do { mountExports F dirs; openNfs F }) Q) u"
      by (rule wp_steady[OF steadily.any_call])
    then show ?thesis by (simp add: None wp_simps(2,5) u_def)
  next
    case (Some e')
    show ?thesis unfolding Some option.case by (rule wp_failed) (use t assms(3) in auto)
  qed
  show ?thesis
    unfolding openConnection_def wp_get wp_bind
    by (intro wp_close[OF assms(1)] wp_steady[OF steady_connectTo] connected)
       (use assms(2) steady_ok in \<open>auto simp: off_def steady_def\<close>)
qed

lemma wp_setProtocolHost:
  assumes "nfs_state_ok s" "\<And>r t. nfs_state_ok t \<Longrightarrow> m_protocol t = m_protocol s \<Longrightarrow> Q r t"
  shows "wp (setProtocolHost F h u) Q s"
proof -
  have "nfs_state_ok (t\<lparr>m_currentHost := h, m_currentUser := u\<rparr>)" if "off t" for t
    using that by (simp add: off_def nfs_state_ok_def handles_valid_def)
  then have "Q Pass (t\<lparr>m_currentHost := h, m_currentUser := u\<rparr>)" if "off t" "m_protocol t = m_protocol s" for t
    by (rule assms(2)) (use that in simp_all)
  then have "wp (closeConnection F) (\<lambda>_. wp (do {
      State_Monad.update (\<lambda>s. s\<lparr>m_currentHost := h, m_currentUser := u\<rparr>); ret Pass }) Q) s"
    by (intro wp_close[OF assms(1)]) (simp add: wp_simps)
  then show ?thesis using assms unfolding setProtocolHost_def wp_get wp_bind wp_if wp_return by simp
qed

lemma wp_deleteProtocol:
  assumes "nfs_state_ok s" "\<And>r t. nfs_state_ok t \<Longrightarrow> Q r t"
  shows "wp (deleteProtocol F) Q s"
proof -
  have gone: "Q () (t\<lparr>m_protocol := False\<rparr>)" if "off t" for t
    by (rule assms(2)) (use that in \<open>simp add: off_def nfs_state_ok_def handles_valid_def\<close>)
  show ?thesis
  proof (cases "m_protocol s")
    case True
    have "wp (closeConnection F) (\<lambda>_. wp (State_Monad.update (\<lambda>s. s\<lparr>m_protocol := False\<rparr>)) Q) s"
      by (rule wp_close[OF assms(1)]) (simp add: wp_update gone)
    then show ?thesis by (simp add: deleteProtocol_def wp_get wp_bind True)
  next
    case False
    then have "off s" using assms(1) by (auto simp: off_def nfs_state_ok_def)
    then show ?thesis using gone by (simp add: deleteProtocol_def wp_simps False)
  qed
qed

lemma wp_tryVersions:
  assumes "nfs_state_ok s" "\<And>r t. nfs_state_ok t \<Longrightarrow> Q r t"
  shows "wp (tryVersions F vs b) Q s"
  using assms(1)
proof (induction vs arbitrary: b s)
  case Nil
  then show ?case using assms(2) by (simp add: wp_simps)
next
  case (Cons v vs)
  have tried: "wp (if compatible then openConnection F
          else do { deleteProtocol F; tryVersions F vs c }) Q t"
    if t: "nfs_state_ok t" "m_protocol t" for compatible c t
    using t assms(2) by (simp add: wp_simps) (intro conjI impI wp_openConnection wp_deleteProtocol Cons.IH; simp)
  have hosted: "wp (if \<not> success res then ret res
        else do {
          (compatible, connectionError) \<leftarrow> isCompatible F;
          if compatible then openConnection F
          else do { deleteProtocol F; tryVersions F vs connectionError }
        }) Q t" if t: "nfs_state_ok t" "m_protocol t" for res t
  proof (cases "success res")
    case True
    have "wp (case r of (compatible, connectionError) \<Rightarrow> if compatible then openConnection F
          else do { deleteProtocol F; tryVersions F vs connectionError }) Q u" if "steady t u" for r u
    proof -
      have "nfs_state_ok u" "m_protocol u" using that t steady_ok[OF that t(1)] by (simp_all add: steady_def)
      from tried[OF this] show ?thesis by (simp split: prod.split)
    qed
    then show ?thesis using True by (simp add: wp_simps(2)) (rule wp_steady[OF steady_isCompatible])
  qed (use t assms(2) in \<open>simp add: wp_simps\<close>)
  show ?case
  proof (cases "v = 3")
    case True
    have new: "wp newProtocol Q' s" if "\<And>t. nfs_state_ok t \<Longrightarrow> m_protocol t \<Longrightarrow> Q' () t" for Q'
      unfolding newProtocol_def wp_update by (rule that) (simp_all add: nfs_state_ok_def handles_valid_def)
    have "wp (setProtocolHost F h u) (\<lambda>res. wp (if \<not> success res then ret res
        else do {
          (compatible, connectionError) \<leftarrow> isCompatible F;
          if compatible then openConnection F
          else do { deleteProtocol F; tryVersions F vs connectionError }
        }) Q) t" if t: "nfs_state_ok t" "m_protocol t" for h u t
      by (rule wp_setProtocolHost[OF t(1)]) (rule hosted; simp add: t(2))
    then show ?thesis using True by (simp add: wp_bind) (rule new, simp only: wp_bind wp_get)
  qed (use Cons in simp)
qed

lemma wp_verifyProtocol:
  assumes "nfs_state_ok s" "\<And>r t. nfs_state_ok t \<Longrightarrow> Q r t"
  shows "wp (verifyProtocol F url) Q s"
proof -
  have open_worker: "wp (worker_openConnection F) Q t" if "nfs_state_ok t" "\<not> m_protocol t" for t
  proof -
    have "nfs_state_ok (t\<lparr>m_usedirplus3 := b\<rparr>)" for b
      using that by (auto simp: nfs_state_ok_def handles_valid_def)
    then show ?thesis using that assms(2) unfolding worker_openConnection_def
      by (simp add: wp_simps split: prod.splits) (intro allI impI wp_tryVersions; simp)
  qed
  have rest: "wp (if \<not> found then ret (Fail ERR_UNKNOWN_HOST (host url))
        else if \<not> m_protocol t then worker_openConnection F
        else if \<not> isConnected t then openConnection F
        else ret Pass) Q t" if "nfs_state_ok t" for found t
    using that assms(2)
    by (simp add: wp_return wp_if) (intro conjI impI open_worker wp_openConnection; simp)
  have "wp (call (n_resolve F (host url)) (\<lambda>a. EConn (ResolveHost (host url) a))) (\<lambda>found. wp (do {
        s \<leftarrow> State_Monad.get;
        if \<not> found then ret (Fail ERR_UNKNOWN_HOST (host url))
        else if \<not> m_protocol s then worker_openConnection F
        else if \<not> isConnected s then openConnection F
        else ret Pass
      }) Q) s"
    by (rule wp_steady[OF steadily.any_call]) (simp only: wp_bind wp_get, rule rest, erule steady_ok, rule assms(1))
  then show ?thesis unfolding verifyProtocol_def using assms by (simp add: wp_return wp_if wp_bind)
qed

lemma wp_verified:
  assumes "nfs_state_ok s" "\<And>r t. nfs_state_ok t \<Longrightarrow> Q r t" "\<And>t. nfs_state_ok t \<Longrightarrow> wp m Q t"
  shows "wp (verified F url m) Q s"
  unfolding verified_def wp_bind
  by (rule wp_verifyProtocol[OF assms(1)]) (simp add: wp_return wp_if assms)

lemma wp_onProtocol:
  assumes "state_io_rel steady m" "nfs_state_ok s" "\<And>r t. nfs_state_ok t \<Longrightarrow> Q r t"
  shows "wp (onProtocol m) Q s"
proof -
  have "state_io_rel steady (onProtocol m)" unfolding onProtocol_def by (intro steadily.all_parts assms(1))
  then show ?thesis by (rule wp_steady) (rule assms(3)[OF steady_ok[OF _ assms(2)]])
qed

text \<open>
  C25. A well-formed state stays well-formed through every request and every change of the host,
  whatever the server answers: no empty handle gets into the cache, and a connection is open only to
  the services of the protocol object that exists.
\<close>

theorem serve_keeps_state_ok:
  assumes "nfs_state_ok s"
  shows "nfs_state_ok (snd (run_state (serve F n req) s)) \<and> nfs_state_ok (snd (run_state (setHost F h u) s)) \<and>
    nfs_state_ok (snd (run_state (worker_closeConnection F) s))"
proof (intro conjI)
  have "wp (serve F n req) (\<lambda>_. nfs_state_ok) s"
    unfolding serve_def worker_put_def worker_get_def worker_listDir_def worker_symlink_def worker_stat_def
      worker_mkdir_def worker_del_def worker_chmod_def worker_rename_def worker_copy_def
    using assms
    by (cases req; simp only: nfs_request.case)
       ((intro wp_verified wp_onProtocol steadily.put_rel steadily.get_rel steadily.listDir_rel steadily.stat_rel
         steadily.names_rel steadily.copy_rel; assumption)+)
  then show "nfs_state_ok (snd (run_state (serve F n req) s))" by (simp add: wp_def split: prod.splits)
  have "wp (setHost F h u) (\<lambda>_. nfs_state_ok) s"
  proof -
    have "nfs_state_ok (t\<lparr>m_host := h, m_user := u\<rparr>)" if "nfs_state_ok t" for t
      using that by (simp add: nfs_state_ok_def handles_valid_def)
    then show ?thesis using assms unfolding setHost_def
      by (auto simp: wp_bind wp_get wp_if wp_return intro!: wp_deleteProtocol wp_setProtocolHost; simp add: wp_simps)
  qed
  then show "nfs_state_ok (snd (run_state (setHost F h u) s))" by (simp add: wp_def split: prod.splits)
  have "wp (worker_closeConnection F) (\<lambda>_. nfs_state_ok) s"
    using assms unfolding worker_closeConnection_def
    by (simp add: wp_simps) (intro impI wp_close; simp add: off_def)
  then show "nfs_state_ok (snd (run_state (worker_closeConnection F) s))" by (simp add: wp_def split: prod.splits)
qed

theorem serve_keeps_state_ok_witness:
  "nfs_state_ok nd_state \<and> nfs_state_ok (snd (run_state (serve nfs_demo 9 (ReqStat (nd_url ''/e/f''))) nd_state))"
proof -
  have "nfs_state_ok nd_state" by (simp add: nfs_state_ok_def handles_valid_def nd_defs)
  with serve_keeps_state_ok[OF this, of nfs_demo 9 "ReqStat (nd_url ''/e/f'')"] show ?thesis by blast
qed

end
