(* ===== verification/NfsLookupFacts.thy ===== *)
theory NfsLookupFacts
  imports NfsBasics NfsDemo
begin

text \<open>
  Finding the handle of a path: it ends where no link is met, it does not end at a link that points
  below itself, and every handle that is sent to the server came from the server.
\<close>

section \<open>Paths\<close>

lemma dropWhile_no_slash: "slash \<notin> set l \<Longrightarrow> dropWhile (\<lambda>c. c \<noteq> slash) (rev l @ slash # r) = slash # r"
  by (subst dropWhile_append2) auto

lemma takeWhile_no_slash: "slash \<notin> set l \<Longrightarrow> takeWhile (\<lambda>c. c \<noteq> slash) (rev l @ slash # r) = rev l"
  by (subst takeWhile_append2) auto

lemma dirName_child: "slash \<notin> set l \<Longrightarrow> d \<noteq> [] \<Longrightarrow> dirName (d @ slash # l) = d"
  by (simp add: dirName_def dropWhile_no_slash)

lemma baseName_child: "slash \<notin> set l \<Longrightarrow> baseName (d @ slash # l) = l"
  by (simp add: baseName_def takeWhile_no_slash)

lemma length_dropWhile_rev: "length (dropWhile P xs) \<le> length xs"
  by (induction xs) auto

text \<open>A directory is shorter than what is in it, the current directory apart.\<close>

lemma dirName_cons:
  assumes "dropWhile (\<lambda>c. c \<noteq> slash) (rev p) = c # r"
  shows "dirName p = (if r = [] then ''/'' else rev r)" "c = slash"
proof -
  have "p \<noteq> []" using assms by auto
  then show "dirName p = (if r = [] then ''/'' else rev r)" by (simp add: dirName_def assms)
  show "c = slash" using hd_dropWhile[of "\<lambda>c. c \<noteq> slash" "rev p"] assms by simp
qed

lemma dirName_nil:
  assumes "dropWhile (\<lambda>c. c \<noteq> slash) (rev p) = []"
  shows "dirName p = (if p = [] then [] else ''.'')"
  unfolding dirName_def assms by simp

lemma dirName_shorter: "dirName p \<noteq> p \<Longrightarrow> dirName p = ''.'' \<or> length (dirName p) < length p"
proof (cases "dropWhile (\<lambda>c. c \<noteq> slash) (rev p)")
  case Nil
  then show "dirName p \<noteq> p \<Longrightarrow> ?thesis" using dirName_nil[of p] by (simp split: if_splits)
next
  case (Cons c r)
  assume ne: "dirName p \<noteq> p"
  have len: "Suc (length r) \<le> length p"
    using length_dropWhile_rev[of "\<lambda>c. c \<noteq> slash" "rev p"] by (simp add: Cons)
  show ?thesis
  proof (cases "r = []")
    case True
    have "p \<noteq> ''/''" using ne dirName_cons(1)[OF Cons] True by simp
    moreover have "p \<noteq> [y]" if "y \<noteq> slash" for y using Cons that by auto
    ultimately have "length p \<noteq> Suc 0" by (auto simp: length_Suc_conv)
    then have "length p > Suc 0" using len by linarith
    then show ?thesis using dirName_cons(1)[OF Cons] True by simp
  next
    case False
    then show ?thesis using dirName_cons(1)[OF Cons] len by simp
  qed
qed

definition path_depth :: "string \<Rightarrow> nat" where
  "path_depth p = (if p = ''.'' then 0 else Suc (length p))"

lemma depth_dirName: "dirName p \<noteq> p \<Longrightarrow> path_depth (dirName p) < path_depth p"
  using dirName_shorter[of p] by (auto simp: path_depth_def dirName_def)

section \<open>Single steps\<close>

lemma lookupHandle_by_run:
  assumes "isConnected s" "run_state (handleOf (dirName p)) s = (Some (Inr h), t)"
    "n_lookup F (m_handle h) (baseName p) (world t) = (r, w)"
  shows "run_state (lookupHandle_by handleOf F p) s
    = (Some r, t\<lparr>world := w, trace := trace t @ [ELook (NLookup (m_handle h) (baseName p) r)]\<rparr>)"
  using assms by (simp add: lookupHandle_by_def run_andThen call_def)

lemma getFileHandle_cached:
  "isConnected s \<Longrightarrow> m_handleCache s p = Some h \<Longrightarrow> isValidPath (m_exportedDirs s) p \<Longrightarrow>
   run_state (getFileHandle F (Suc n) p) s = (Some (Inr h), s)"
  by (simp add: refusedPath_def)

lemma getFileHandle_uncached:
  "refusedPath s p = None \<Longrightarrow> m_handleCache s p = None \<Longrightarrow> dirName p \<noteq> p \<Longrightarrow>
   run_state (getFileHandle F (Suc n) p) s
     = run_state (andThen (lookupFileHandle_by (getFileHandle F n) F p) (\<lambda>child. case child of
         None \<Rightarrow> ret (Some (Inl (Fail ERR_DOES_NOT_EXIST p)))
       | Some h \<Rightarrow> do { addFileHandle p h; ret (Some (Inr h)) })) s"
  by simp

lemma andThen_none: "fst (run_state m s) = None \<Longrightarrow> fst (run_state (andThen m k) s) = None"
  by (cases "run_state m s") (simp add: run_andThen)

section \<open>Where no link is met\<close>

definition no_links :: "'w nfs \<Rightarrow> bool" where
  "no_links F \<longleftrightarrow> (\<forall>fh name w object attr w'. n_lookup F fh name w = (Ok (object, attr), w') \<longrightarrow> at_type attr \<noteq> NF3LNK)"

lemma no_linksD: "no_links F \<Longrightarrow> n_lookup F fh name w = (Ok (object, attr), w') \<Longrightarrow> at_type attr \<noteq> NF3LNK"
  unfolding no_links_def by blast

lemma lookupHandle_by_returns:
  assumes "\<And>u. fst (run_state (handleOf (dirName p)) u) \<noteq> None"
  shows "fst (run_state (lookupHandle_by handleOf F p) s) \<noteq> None"
proof -
  obtain r t where r: "run_state (handleOf (dirName p)) s = (Some r, t)"
    using assms[of s] by (cases "run_state (handleOf (dirName p)) s") auto
  show ?thesis by (auto simp: lookupHandle_by_def run_andThen r call_def split: sum.splits prod.splits)
qed

lemma getFileHandle_returns:
  assumes "no_links F" "path_depth p < n"
  shows "fst (run_state (getFileHandle F n p) s) \<noteq> None"
  using assms(2)
proof (induction n arbitrary: p s)
  case 0
  then show ?case by simp
next
  case (Suc n)
  show ?case
  proof (cases "refusedPath s p = None \<and> m_handleCache s p = None \<and> dirName p \<noteq> p")
    case False
    then show ?thesis by (auto split: option.splits)
  next
    case True
    have below: "fst (run_state (getFileHandle F n (dirName p)) u) \<noteq> None" for u
      using Suc.IH[of "dirName p" u] Suc.prems depth_dirName[of p] True by auto
    obtain r t where r: "run_state (lookupHandle_by (getFileHandle F n) F p) s = (Some r, t)"
      using lookupHandle_by_returns[where handleOf = "getFileHandle F n" and p = p and F = F and s = s, OF below]
      by (cases "run_state (lookupHandle_by (getFileHandle F n) F p) s") auto
    have nolink: "at_type attr \<noteq> NF3LNK" if "r = Ok (object, attr)" for object attr
      using r that assms(1)
      by (auto simp: lookupHandle_by_def run_andThen call_def dest: no_linksD
          split: if_splits option.splits prod.splits sum.splits)
    show ?thesis using True r nolink
      by (auto simp: lookupFileHandle_by_def run_andThen split: reply.splits prod.splits)
  qed
qed

text \<open>
  C26. Where the server reports no link, looking up the handle of a path returns for every path and in
  every state: the depth of the recursion through the parent directories is bounded by the length of
  the path.
\<close>

theorem lookup_returns:
  assumes "no_links F"
  shows "\<exists>r t. run_state (getFileHandle F (length p + 2) p) s = (Some r, t)"
proof -
  have "path_depth p < length p + 2" by (simp add: path_depth_def)
  from getFileHandle_returns[OF assms this, of s] show ?thesis
    by (cases "run_state (getFileHandle F (length p + 2) p) s") auto
qed

theorem lookup_returns_witness:
  "\<exists>r t. run_state (getFileHandle nfs_demo 8 ''/e/f/g'') nd_state = (Some r, t)"
proof -
  have "no_links nfs_demo" by (simp add: no_links_def nd_attr_def)
  from lookup_returns[OF this, of "''/e/f/g''" nd_state] show ?thesis
    by (simp add: eval_nat_numeral del: getFileHandle.simps)
qed

section \<open>A link that points below itself\<close>

text \<open>The directory \<open>d\<close> holds the link \<open>l\<close>, whose target is the name \<open>x\<close> in the link itself.\<close>

definition self_link :: "'w nfs \<Rightarrow> fh3 \<Rightarrow> string \<Rightarrow> string \<Rightarrow> string \<Rightarrow> bool" where
  "self_link F h d l x \<longleftrightarrow>
     (\<forall>w. \<exists>object attr w'. n_lookup F h l w = (Ok (object, attr), w') \<and> at_type attr = NF3LNK) \<and>
     (\<forall>fh w. \<exists>w'. n_readlink F fh w = (Ok (l @ slash # x), w')) \<and>
     t_absolute F d (l @ slash # x) = (d @ slash # l) @ slash # x"

lemma valid_below: "starts_with (e @ ''/'') p \<Longrightarrow> e \<in> set exps \<Longrightarrow> isValidPath exps p"
  by (auto simp: isValidPath_def list_ex_iff)

definition exported_link :: "'w ns \<Rightarrow> string \<Rightarrow> string \<Rightarrow> nfs_handle \<Rightarrow> bool" where
  "exported_link s d l h \<longleftrightarrow> m_nfsClient s \<and> d \<in> set (m_exportedDirs s) \<and> m_handleCache s d = Some h \<and>
     d @ slash # l \<notin> set (m_exportedDirs s) \<and> \<not> isExportedDir (m_exportedDirs s) (d @ slash # l) \<and>
     m_handleCache s (d @ slash # l) = None"

lemma starts_with_child [simp]: "starts_with (d @ ''/'') (d @ slash # l)"
  by (simp add: starts_with_def)

lemma starts_with_child2 [simp]: "starts_with (d @ ''/'') ((d @ slash # l) @ slash # x)"
  by (simp add: starts_with_def)

lemma link_loop:
  assumes link: "self_link F (m_handle h) d l x" and names: "d \<noteq> []" "slash \<notin> set l" "slash \<notin> set x"
    and here: "exported_link s d l h"
  shows "fst (run_state (getFileHandle F n (d @ slash # l)) s) = None"
  using here
proof (induction n arbitrary: s)
  case 0
  then show ?case by simp
next
  case (Suc n)
  let ?p = "d @ slash # l"
  have dir: "dirName ?p = d" "baseName ?p = l" "dirName (?p @ slash # x) = ?p"
    using dirName_child[OF names(2,1)] baseName_child[OF names(2)] dirName_child[OF names(3), of ?p] by auto
  have conn: "isConnected s" "isValidPath (m_exportedDirs s) d" "isValidPath (m_exportedDirs s) (?p @ slash # x)"
    using Suc.prems valid_below[OF starts_with_child2, of d "m_exportedDirs s"]
    by (auto simp: exported_link_def isConnected_def isValidPath_def list_ex_iff)
  have ok: "refusedPath s ?p = None" "m_handleCache s ?p = None" "dirName ?p \<noteq> ?p"
    using Suc.prems valid_below[OF starts_with_child, of d "m_exportedDirs s"] conn dir
    by (auto simp: exported_link_def refusedPath_def)
  show ?case
  proof (cases n)
    case 0
    then show ?thesis unfolding getFileHandle_uncached[OF ok]
      by (intro andThen_none) (simp add: lookupFileHandle_by_def lookupHandle_by_def run_andThen conn)
  next
    case (Suc k)
    obtain object attr w1 where look: "n_lookup F (m_handle h) l (world s) = (Ok (object, attr), w1)"
        "at_type attr = NF3LNK" using link unfolding self_link_def by blast
    obtain w2 where read: "n_readlink F object w1 = (Ok (l @ slash # x), w2)"
      using link unfolding self_link_def by blast
    have abs: "t_absolute F d (l @ slash # x) = ?p @ slash # x" using link by (simp add: self_link_def)
    define t where "t = s\<lparr>world := w1, trace := trace s @ [ELook (NLookup (m_handle h) l (Ok (object, attr)))]\<rparr>"
    define u where "u = t\<lparr>world := w2, trace := trace t @ [ELook (NReadlink object (Ok (l @ slash # x)))]\<rparr>"
    have cached: "run_state (getFileHandle F n d) s = (Some (Inr h), s)"
      unfolding Suc by (rule getFileHandle_cached) (use Suc.prems conn in \<open>auto simp: exported_link_def\<close>)
    have first: "run_state (lookupHandle_by (getFileHandle F n) F ?p) s = (Some (Ok (object, attr)), t)"
      using lookupHandle_by_run[OF conn(1), of "getFileHandle F n" ?p h s F] cached look(1) by (simp add: dir t_def)
    have "exported_link u d l h" using Suc.prems by (simp add: exported_link_def u_def t_def)
    from Suc.IH[OF this] have again: "fst (run_state (getFileHandle F n ?p) u) = None" .
    have "fst (run_state (lookupHandle_by (getFileHandle F n) F (?p @ slash # x)) u) = None"
      using again conn(1) unfolding lookupHandle_by_def dir(3)
      by (simp add: isConnected_def u_def t_def andThen_none)
    moreover have "run_state (call (n_readlink F object) (\<lambda>a. ELook (NReadlink object a))) t = (Ok (l @ slash # x), u)"
      using read by (simp add: call_def u_def t_def)
    moreover have "m_exportedDirs u = m_exportedDirs s" by (simp add: u_def t_def)
    ultimately have "fst (run_state (resolveLink_by (getFileHandle F n) F ?p object) t) = None"
      using conn(3) by (simp add: resolveLink_by_def dirName_child[OF names(2,1)] abs andThen_none)
    then have "fst (run_state (lookupFileHandle_by (getFileHandle F n) F ?p) s) = None"
      unfolding lookupFileHandle_by_def
      by (cases "run_state (resolveLink_by (getFileHandle F n) F ?p object) t")
         (simp add: run_andThen first look(2))
    then show ?thesis unfolding getFileHandle_uncached[OF ok] by (rule andThen_none)
  qed
qed

text \<open>
  C30. A link in an exported directory that points to a name below itself is never resolved, however
  deep the recursion may go: looking it up calls itself again for the same path without end.
\<close>

theorem self_link_never_returns:
  assumes "self_link F (m_handle h) d l x" "d \<noteq> []" "slash \<notin> set l" "slash \<notin> set x" "exported_link s d l h"
  shows "fst (run_state (stat F n (empty_qurl\<lparr>path := d @ slash # l\<rparr>)) s) = None \<and>
    fst (run_state (get F n (empty_qurl\<lparr>path := d @ slash # l\<rparr>)) s) = None"
proof -
  let ?p = "d @ slash # l"
  have loop: "fst (run_state (withHandle F n ?p k) s) = None" for k
    unfolding withHandle_def by (intro andThen_none link_loop[OF assms])
  have "run_state (statInternal F (empty_qurl\<lparr>path := ?p\<rparr>)) s = (?p, s)"
    using assms(5) by (simp add: statInternal_def exported_link_def)
  then show ?thesis by (simp add: stat_def get_def loop)
qed

definition nfs_demo_link :: "nd_world nfs" where
  "nfs_demo_link = nfs_demo\<lparr>n_lookup := \<lambda>fh name w. (Ok ([2], nd_attr\<lparr>at_type := NF3LNK\<rparr>), w)\<rparr>"

theorem self_link_never_returns_witness:
  "self_link nfs_demo_link [1] ''/e'' ''l'' ''x'' \<and> exported_link nd_state ''/e'' ''l'' (fromFH [1]) \<and>
   fst (run_state (stat nfs_demo_link 1000 (empty_qurl\<lparr>path := ''/e/l''\<rparr>)) nd_state) = None"
proof -
  have 1: "self_link nfs_demo_link (m_handle (fromFH [1])) ''/e'' ''l'' ''x''"
    by (simp add: self_link_def nfs_demo_link_def nfs_demo_def)
  have 2: "exported_link nd_state ''/e'' ''l'' (fromFH [1])" by (simp add: exported_link_def nd_defs)
  from self_link_never_returns[OF 1 _ _ _ 2, of 1000] 1 2 show ?thesis by (simp add: fromFH_def)
qed

end
