(* ===== verification/NfsHandles.thy ===== *)
theory NfsHandles
  imports NfsLookupFacts
begin

text \<open>
  Every file handle that the worker sends in a request was given to it by the server before, in an
  answer of the same run or in one that filled the cache. \<open>yields Hs m g\<close> is the calculus behind it:
  when the handles \<open>Hs\<close> are known, \<open>m\<close> sends known handles only and its result holds known handles,
  those of \<open>g\<close>.
\<close>

section \<open>Handles in requests and answers\<close>

fun used_look :: "look_ev \<Rightarrow> fh3 list" where
  "used_look (NLookup h _ _) = [h]"
| "used_look (NGetattr h _) = [h]"
| "used_look (NReadlink h _) = [h]"
| "used_look (NRead h _ _ _) = [h]"
| "used_look (NFsinfo h _) = [h]"
| "used_look (NReaddirplus h _ _ _) = [h]"
| "used_look (NReaddir h _ _ _) = [h]"

fun used_change :: "change_ev \<Rightarrow> fh3 list" where
  "used_change (NWrite h _ _ _) = [h]"
| "used_change (NCreate h _ _ _ _ _) = [h]"
| "used_change (NMkdir h _ _ _) = [h]"
| "used_change (NRemove h _ _) = [h]"
| "used_change (NRmdir h _ _) = [h]"
| "used_change (NRename h _ k _ _) = [h, k]"
| "used_change (NSetattr h _ _) = [h]"
| "used_change (NSymlink h _ _ _) = [h]"

fun used_by :: "nev \<Rightarrow> fh3 list" where
  "used_by (ELook e) = used_look e"
| "used_by (EChange e) = used_change e"
| "used_by _ = []"

fun given_by :: "nev \<Rightarrow> fh3 list" where
  "given_by (ELook (NLookup _ _ (Ok (h, _)))) = [h]"
| "given_by (ELook (NReaddirplus _ _ _ (Ok (ens, _)))) = map en_handle ens"
| "given_by (EChange (NCreate _ _ _ _ _ (Ok h))) = [h]"
| "given_by (EConn (MountCall _ (Mounted h))) = [h]"
| "given_by _ = []"

definition given :: "nev list \<Rightarrow> fh3 set" where
  "given es = (\<Union>e\<in>set es. set (given_by e))"

fun honest :: "fh3 set \<Rightarrow> nev list \<Rightarrow> bool" where
  "honest K [] = True"
| "honest K (e # es) \<longleftrightarrow> set (used_by e) \<subseteq> K \<and> honest (K \<union> set (given_by e)) es"

definition cached :: "'w ns \<Rightarrow> fh3 set" where
  "cached s = m_handle ` ran (m_handleCache s)"

lemma given_append [simp]: "given (es @ fs) = given es \<union> given fs"
  by (auto simp: given_def)

lemma given_single [simp]: "given [e] = set (given_by e)"
  by (simp add: given_def)

lemma honest_append: "honest K (es @ fs) \<longleftrightarrow> honest K es \<and> honest (K \<union> given es) fs"
  by (induction es arbitrary: K) (auto simp: given_def Un_assoc)

section \<open>The calculus\<close>

text \<open>\<open>K\<close>: the handles that were known at the start, when the log was \<open>L\<close>.\<close>

definition known :: "fh3 set \<Rightarrow> nev list \<Rightarrow> 'w ns \<Rightarrow> fh3 set" where
  "known K L s = K \<union> given (drop (length L) (trace s))"

definition knowing :: "fh3 set \<Rightarrow> nev list \<Rightarrow> 'w ns \<Rightarrow> bool" where
  "knowing K L s \<longleftrightarrow> (\<exists>es. trace s = L @ es \<and> honest K es) \<and> cached s \<subseteq> known K L s"

definition yields ::
  "fh3 set \<Rightarrow> nev list \<Rightarrow> fh3 set \<Rightarrow> ('w ns, 'a) state \<Rightarrow> ('a \<Rightarrow> fh3 set) \<Rightarrow> bool" where
  "yields K L Hs m g \<longleftrightarrow> (\<forall>s a t. run_state m s = (a, t) \<and> knowing K L s \<and> Hs \<subseteq> known K L s \<longrightarrow>
     knowing K L t \<and> known K L s \<subseteq> known K L t \<and> g a \<subseteq> known K L t)"

named_theorems yields_rules

lemma yieldsD:
  "yields K L Hs m g \<Longrightarrow> run_state m s = (a, t) \<Longrightarrow> knowing K L s \<Longrightarrow> Hs \<subseteq> known K L s \<Longrightarrow>
   knowing K L t \<and> known K L s \<subseteq> known K L t \<and> g a \<subseteq> known K L t"
  unfolding yields_def by blast

lemma yields_bind:
  assumes "yields K L Hs m g" "\<And>a. yields K L (Hs \<union> g a) (f a) g'"
  shows "yields K L Hs (State_Monad.bind m f) g'"
  unfolding yields_def
proof (intro allI impI, elim conjE)
  fix s b u
  assume r: "run_state (State_Monad.bind m f) s = (b, u)" "knowing K L s" "Hs \<subseteq> known K L s"
  obtain a t where a: "run_state m s = (a, t)" by fastforce
  have 1: "knowing K L t" "known K L s \<subseteq> known K L t" "g a \<subseteq> known K L t"
    using yieldsD[OF assms(1) a r(2,3)] by simp_all
  have "run_state (f a) t = (b, u)" using r(1) a by simp
  moreover have "Hs \<union> g a \<subseteq> known K L t" using 1 r(3) by blast
  ultimately have "knowing K L u \<and> known K L t \<subseteq> known K L u \<and> g' b \<subseteq> known K L u"
    using yieldsD[OF assms(2)] 1(1) by blast
  then show "knowing K L u \<and> known K L s \<subseteq> known K L u \<and> g' b \<subseteq> known K L u" using 1(2) by blast
qed

lemma yields_return: "g a \<subseteq> Hs \<Longrightarrow> yields K L Hs (State_Monad.return a) g"
  by (auto simp: yields_def)

lemma yields_weaken: "yields K L Hs m g \<Longrightarrow> Hs \<subseteq> Hs' \<Longrightarrow> (\<And>a. g' a \<subseteq> g a \<union> Hs') \<Longrightarrow> yields K L Hs' m g'"
  unfolding yields_def by (meson Un_least subset_trans)

lemma yields_get: "yields K L Hs State_Monad.get (\<lambda>s. {})"
  by (auto simp: yields_def)

lemma yields_get_cached: "yields K L Hs State_Monad.get cached"
  by (auto simp: yields_def knowing_def)

lemma known_call:
  "trace s = L @ es \<Longrightarrow> known K L (s\<lparr>world := w, trace := trace s @ [e]\<rparr>) = known K L s \<union> set (given_by e)"
  by (auto simp: known_def)

lemma yields_call:
  assumes "\<And>a. set (used_by (e a)) \<subseteq> Hs" "\<And>a. g a \<subseteq> set (given_by (e a))"
  shows "yields K L Hs (call f e) g"
  unfolding yields_def
proof (intro allI impI, elim conjE)
  fix s a t
  assume r: "run_state (call f e) s = (a, t)" "knowing K L s" "Hs \<subseteq> known K L s"
  obtain w where t: "t = s\<lparr>world := w, trace := trace s @ [e a]\<rparr>"
    using r(1) by (auto simp: call_def split: prod.splits)
  obtain es where es: "trace s = L @ es" "honest K es" using r(2) by (auto simp: knowing_def)
  have "honest K (es @ [e a])"
    using es assms(1)[of a] r(3) by (auto simp: honest_append known_def)
  then show "knowing K L t \<and> known K L s \<subseteq> known K L t \<and> g a \<subseteq> known K L t"
    using r(2) es assms(2)[of a] by (auto simp: knowing_def t known_def cached_def)
qed

lemma yields_update:
  assumes "\<And>s. trace (f s) = trace s" "\<And>s. cached (f s) \<subseteq> cached s \<union> Hs"
  shows "yields K L Hs (State_Monad.update f) (\<lambda>_. {})"
  unfolding yields_def
proof (intro allI impI, elim conjE)
  fix s a t
  assume r: "run_state (State_Monad.update f) s = (a, t)" "knowing K L s" "Hs \<subseteq> known K L s"
  have t: "t = f s" using r(1) by (simp add: State_Monad.update_def)
  have "cached t \<subseteq> known K L t"
    using r(2,3) assms(1)[of s] assms(2)[of s] unfolding t knowing_def known_def by fastforce
  then show "knowing K L t \<and> known K L s \<subseteq> known K L t \<and> {} \<subseteq> known K L t"
    using r(2) assms(1)[of s] by (auto simp: knowing_def known_def t)
qed

section \<open>Handlers that give no handle\<close>

abbreviation sends :: "fh3 set \<Rightarrow> nev list \<Rightarrow> fh3 set \<Rightarrow> ('w ns, 'a) state \<Rightarrow> bool" where
  "sends K L Hs m \<equiv> yields K L Hs m (\<lambda>_. {})"

lemma sends_bind: "sends K L Hs m \<Longrightarrow> (\<And>a. sends K L Hs (f a)) \<Longrightarrow> sends K L Hs (State_Monad.bind m f)"
  using yields_bind[of K L Hs m "\<lambda>_. {}" f "\<lambda>_. {}"] by simp

lemma sends_andThen: "sends K L Hs m \<Longrightarrow> (\<And>a. sends K L Hs (k a)) \<Longrightarrow> sends K L Hs (andThen m k)"
  unfolding andThen_def by (intro sends_bind) (auto simp: yields_return split: option.splits)

lemma yields_andThen:
  assumes "yields K L Hs m g" "\<And>a. yields K L (Hs \<union> g (Some a)) (k a) g'" "g' None = {}"
  shows "yields K L Hs (andThen m k) g'"
  unfolding andThen_def by (rule yields_bind[OF assms(1)]) (auto simp: assms(2,3) yields_return split: option.splits)

lemma sends_call: "(\<And>a. set (used_by (e a)) \<subseteq> Hs) \<Longrightarrow> sends K L Hs (call f e)"
  by (rule yields_call) auto

lemma sends_tell: "used_by e = [] \<Longrightarrow> sends K L Hs (tell e)"
  unfolding tell_def act_def by (rule sends_call) simp

lemma sends_act: "used_by e = [] \<Longrightarrow> sends K L Hs (act f e)"
  unfolding act_def by (rule sends_call) simp

lemma sends_set: "(\<And>s. trace (f s) = trace s) \<Longrightarrow> (\<And>s. m_handleCache (f s) = m_handleCache s) \<Longrightarrow>
  sends K L Hs (State_Monad.update f)"
  by (rule yields_update) (simp_all add: cached_def)

lemma yields_if: "(b \<Longrightarrow> yields K L Hs m g) \<Longrightarrow> (\<not> b \<Longrightarrow> yields K L Hs n g) \<Longrightarrow> yields K L Hs (if b then m else n) g"
  by simp

lemma yields_let: "(\<And>x. yields K L Hs (f x) g) \<Longrightarrow> yields K L Hs (let x = t in f x) g"
  by simp

lemma yields_case_option:
  "(x = None \<Longrightarrow> yields K L Hs m g) \<Longrightarrow> (\<And>y. x = Some y \<Longrightarrow> yields K L Hs (f y) g) \<Longrightarrow>
   yields K L Hs (case x of None \<Rightarrow> m | Some y \<Rightarrow> f y) g"
  by (simp split: option.splits)

lemma yields_case_sum:
  "(\<And>e. x = Inl e \<Longrightarrow> yields K L Hs (f e) g) \<Longrightarrow> (\<And>y. x = Inr y \<Longrightarrow> yields K L Hs (h y) g) \<Longrightarrow>
   yields K L Hs (case x of Inl e \<Rightarrow> f e | Inr y \<Rightarrow> h y) g"
  by (simp split: sum.splits)

lemma yields_case_prod:
  "(\<And>a b. x = (a, b) \<Longrightarrow> yields K L Hs (f a b) g) \<Longrightarrow> yields K L Hs (case x of (a, b) \<Rightarrow> f a b) g"
  by (simp split: prod.splits)

lemma yields_case_reply:
  "(\<And>k. x = RpcError k \<Longrightarrow> yields K L Hs (f k) g) \<Longrightarrow> (\<And>e. x = NfsError e \<Longrightarrow> yields K L Hs (f' e) g) \<Longrightarrow>
   (\<And>a. x = Ok a \<Longrightarrow> yields K L Hs (h a) g) \<Longrightarrow>
   yields K L Hs (case x of RpcError k \<Rightarrow> f k | NfsError e \<Rightarrow> f' e | Ok a \<Rightarrow> h a) g"
  by (simp split: reply.splits)

lemma sends_return: "sends K L Hs (State_Monad.return a)"
  by (simp add: yields_return)

lemmas branches = yields_if yields_let yields_case_option yields_case_sum yields_case_prod yields_case_reply
lemmas sends_basic = sends_return yields_get sends_bind sends_tell sends_act branches

section \<open>The cache\<close>

lemma sends_addFileHandle: "m_handle h \<in> Hs \<Longrightarrow> sends K L Hs (addFileHandle p h)"
  unfolding addFileHandle_def insertHandle_def
  by (intro branches sends_return yields_update)
     (auto simp: cached_def ran_def assignHandle_def Let_def split: option.splits if_splits)

lemma sends_removeFileHandle: "sends K L Hs (removeFileHandle p)"
  unfolding removeFileHandle_def by (rule yields_update) (auto simp: cached_def ran_def split: if_splits)

section \<open>Lookups\<close>

text \<open>The handles in results.\<close>

fun of_handle :: "maybe_handle option \<Rightarrow> fh3 set" where
  "of_handle (Some (Inr h)) = {m_handle h}"
| "of_handle _ = {}"

fun of_lookup :: "(fh3 \<times> fattr3) reply option \<Rightarrow> fh3 set" where
  "of_lookup (Some (Ok (h, _))) = {h}"
| "of_lookup _ = {}"

fun of_child :: "nfs_handle option option \<Rightarrow> fh3 set" where
  "of_child (Some (Some h)) = {m_handle h}"
| "of_child _ = {}"

lemma yields_lookup_call:
  assumes "fh \<in> Hs"
  shows "yields K L Hs (State_Monad.bind (call (n_lookup F fh name) (\<lambda>a. ELook (NLookup fh name a))) (\<lambda>r. ret (Some r))) of_lookup"
proof (rule yields_bind)
  show "yields K L Hs (call (n_lookup F fh name) (\<lambda>a. ELook (NLookup fh name a)))
      (\<lambda>a. set (given_by (ELook (NLookup fh name a))))"
    by (rule yields_call) (use assms in auto)
  show "yields K L (Hs \<union> set (given_by (ELook (NLookup fh name a)))) (ret (Some a)) of_lookup" for a
    by (cases a) (auto simp: yields_return)
qed

lemma yields_lookupHandle_by:
  assumes "\<And>Hs q. yields K L Hs (handleOf q) of_handle"
  shows "yields K L Hs (lookupHandle_by handleOf F p) of_lookup"
  unfolding lookupHandle_by_def
proof (rule yields_bind[OF yields_get], rule yields_if)
  show "yields K L (Hs \<union> {}) (ret (Some (NfsError NFS3ERR_ACCES))) of_lookup" by (simp add: yields_return)
  show "yields K L (Hs \<union> {}) (andThen (handleOf (dirName p)) (\<lambda>parent. case parent of
       Inl _ \<Rightarrow> ret (Some (NfsError NFS3ERR_NOENT))
     | Inr h \<Rightarrow> do {
         r \<leftarrow> call (n_lookup F (m_handle h) (baseName p)) (\<lambda>a. ELook (NLookup (m_handle h) (baseName p) a));
         ret (Some r)
       })) of_lookup"
    by (rule yields_andThen[OF assms]) (auto intro!: branches yields_lookup_call simp: yields_return)
qed

lemma yields_resolveLink_by:
  assumes "\<And>Hs q. yields K L Hs (handleOf q) of_handle" "link \<in> Hs"
  shows "yields K L Hs (resolveLink_by handleOf F p link) (\<lambda>r. case r of None \<Rightarrow> {} | Some h \<Rightarrow> {m_handle h})"
  unfolding resolveLink_by_def
  apply (rule yields_bind[OF sends_call], use assms(2) in simp)
  apply (rule yields_bind[OF yields_get])
  apply (intro branches)
      apply (simp_all add: yields_return assms(2) setBadLink_def fromFH_def)
  apply (rule yields_andThen[OF yields_lookupHandle_by[OF assms(1)]])
   apply (auto intro!: branches yields_return simp: assms(2) setBadLink_def setLinkSource_def fromFH_def)
  done

lemma yields_lookupFileHandle_by:
  assumes "\<And>Hs q. yields K L Hs (handleOf q) of_handle"
  shows "yields K L Hs (lookupFileHandle_by handleOf F p) of_child"
  unfolding lookupFileHandle_by_def
  apply (rule yields_andThen[OF yields_lookupHandle_by[OF assms]])
   apply (intro branches)
      apply (simp_all add: yields_return fromFH_def)
  apply (rule yields_andThen[OF yields_resolveLink_by[OF assms]])
    apply (auto simp: yields_return)
  done

lemma yields_getFileHandle: "yields K L Hs (getFileHandle F n p) of_handle"
proof (induction n arbitrary: Hs p)
  case 0
  then show ?case by (simp add: yields_return)
next
  case (Suc n)
  show ?case
    unfolding getFileHandle.simps
    apply (rule yields_bind[OF yields_get_cached])
    apply (intro branches)
       apply (simp_all add: yields_return)
     apply (rule yields_andThen[OF yields_lookupFileHandle_by[OF Suc.IH]])
      apply (intro branches)
       apply (auto simp: cached_def ran_def intro!: yields_return yields_bind[OF sends_addFileHandle])
    done
qed

lemma yields_lookupHandle: "yields K L Hs (lookupHandle F n p) of_lookup"
  unfolding lookupHandle_def by (rule yields_lookupHandle_by[OF yields_getFileHandle])

text \<open>What follows a lookup may use the handle that it found.\<close>

lemma sends_withHandle:
  "(\<And>h. sends K L (insert (m_handle h) Hs) (k h)) \<Longrightarrow> sends K L Hs (withHandle F n p k)"
  unfolding withHandle_def
  by (rule yields_andThen[OF yields_getFileHandle]) (auto intro!: branches simp: yields_return)

lemma sends_after_handle:
  "(\<And>e. sends K L Hs (k (Inl e))) \<Longrightarrow> (\<And>h. sends K L (insert (m_handle h) Hs) (k (Inr h))) \<Longrightarrow>
   sends K L Hs (andThen (getFileHandle F n p) k)"
  by (rule yields_andThen[OF yields_getFileHandle], case_tac a) simp_all

lemma sends_after_lookup:
  "(\<And>n. sends K L Hs (k (RpcError n))) \<Longrightarrow> (\<And>e. sends K L Hs (k (NfsError e))) \<Longrightarrow>
   (\<And>h a. sends K L (insert h Hs) (k (Ok (h, a)))) \<Longrightarrow> sends K L Hs (andThen (lookupHandle F n p) k)"
  by (rule yields_andThen[OF yields_lookupHandle], case_tac a) (auto split: prod.splits)

section \<open>Single calls and handlers\<close>

lemmas sends_steps = sends_basic sends_after_handle sends_after_lookup sends_withHandle

lemma sends_getAttr: "sends K L Hs (getAttr F n p)"
  unfolding getAttr_def by (intro sends_steps sends_call) simp_all

lemma sends_exists_path: "sends K L Hs (exists_path F n p)"
  unfolding exists_path_def by (intro sends_steps)

lemma sends_symLinkTarget: "sends K L Hs (symLinkTarget F n p)"
  unfolding symLinkTarget_def by (auto intro!: sends_steps)

lemma sends_removeEntry: "dir \<in> Hs \<Longrightarrow> sends K L Hs (removeEntry F dir p type)"
  unfolding removeEntry_def by (intro sends_basic sends_call sends_removeFileHandle) simp_all

lemma sends_remove: "sends K L Hs (remove F n p)"
  unfolding remove_def by (auto intro!: sends_steps sends_removeEntry)

lemma sends_followRename: "sends K L Hs (followRename F n src dest)"
  unfolding followRename_def
  by (auto intro!: sends_steps sends_removeFileHandle sends_addFileHandle simp: fromFH_def)

lemma sends_renameCall: "a \<in> Hs \<Longrightarrow> b \<in> Hs \<Longrightarrow> sends K L Hs (renameCall F n a src b dest)"
  unfolding renameCall_def by (intro sends_basic sends_call sends_andThen sends_followRename) simp

lemma sends_renamePath: "sends K L Hs (renamePath F n src dest)"
  unfolding renamePath_def by (auto intro!: sends_steps sends_renameCall)

lemma sends_setAttr: "sends K L Hs (setAttr F n p a)"
  unfolding setAttr_def by (auto intro!: sends_steps sends_call)

lemma sends_symLink: "sends K L Hs (symLink F n target dest)"
  unfolding symLink_def
  by (auto intro!: sends_steps sends_andThen[OF sends_remove] sends_call sends_addFileHandle)

lemma sends_initPreferredSizes: "m_handle h \<in> Hs \<Longrightarrow> sends K L Hs (initPreferredSizes F h)"
  unfolding initPreferredSizes_def by (intro sends_steps sends_call sends_set) simp_all

lemma sends_validLinkResult: "sends K L Hs (validLinkResult F n p q)"
  unfolding validLinkResult_def by (intro sends_steps)

lemma yields_create_call:
  assumes "dir \<in> Hs"
  shows "yields K L Hs (State_Monad.bind (call (n_create F dir name m u g) (\<lambda>a. EChange (NCreate dir name m u g a)))
     (\<lambda>r. ret (Some (case r of Ok fh \<Rightarrow> Inr (fromFH fh) | _ \<Rightarrow> Inl (checkResult F r p))))) of_handle"
proof (rule yields_bind)
  show "yields K L Hs (call (n_create F dir name m u g) (\<lambda>a. EChange (NCreate dir name m u g a)))
      (\<lambda>a. set (given_by (EChange (NCreate dir name m u g a))))"
    by (rule yields_call) (use assms in auto)
  show "yields K L (Hs \<union> set (given_by (EChange (NCreate dir name m u g a))))
      (ret (Some (case a of Ok fh \<Rightarrow> Inr (fromFH fh) | _ \<Rightarrow> Inl (checkResult F a p)))) of_handle" for a
    by (cases a) (auto simp: yields_return fromFH_def)
qed

lemma yields_create: "yields K L Hs (create F n p mode) of_handle"
  unfolding create_def
proof (rule yields_bind[OF yields_get], rule yields_if)
  show "yields K L (Hs \<union> {}) (ret (Some (Inl (Fail ERR_CANNOT_CONNECT p)))) of_handle" by (simp add: yields_return)
  show "yields K L (Hs \<union> {}) (andThen (getFileHandle F n (dirName p)) (\<lambda>m. case m of
       Inl e \<Rightarrow> ret (Some (Inl e))
     | Inr dir \<Rightarrow> do {
         r \<leftarrow> call (n_create F (m_handle dir) (baseName p) (create_mode mode) (c_euid F) (c_egid F))
                (\<lambda>a. EChange (NCreate (m_handle dir) (baseName p) (create_mode mode) (c_euid F) (c_egid F) a));
         ret (Some (case r of Ok fh \<Rightarrow> Inr (fromFH fh) | _ \<Rightarrow> Inl (checkResult F r p)))
       })) of_handle"
    by (rule yields_andThen[OF yields_getFileHandle]) (auto intro!: yields_case_sum yields_create_call simp: yields_return)
qed

lemma sends_after_create:
  "(\<And>e. sends K L Hs (k (Inl e))) \<Longrightarrow> (\<And>h. sends K L (insert (m_handle h) Hs) (k (Inr h))) \<Longrightarrow>
   sends K L Hs (andThen (create F n p mode) k)"
  by (rule yields_andThen[OF yields_create], case_tac a) simp_all

subsection \<open>Listing\<close>

lemma sends_texts: "sends K L Hs (userText F uid)" "sends K L Hs (groupText F gid)"
  unfolding userText_def groupText_def by (intro sends_basic sends_set; simp)+

lemma sends_completeUDSEntry: "sends K L Hs (completeUDSEntry F a e)"
  unfolding completeUDSEntry_def completeOwner_def by (intro sends_basic sends_texts)

fun of_target :: "(fh3 \<times> fattr3) option option \<Rightarrow> fh3 set" where
  "of_target (Some (Some (h, _))) = {h}"
| "of_target _ = {}"

lemma yields_linkTarget: "yields K L Hs (linkTarget F n p q v) of_target"
  unfolding linkTarget_def
  apply (rule yields_if)
   apply (simp add: yields_return)
  apply (rule yields_andThen[OF yields_lookupHandle])
   apply (intro branches)
      apply (simp_all add: yields_return)
  apply (rule yields_andThen[OF sends_getAttr])
   apply (auto intro!: branches simp: yields_return)
  done

lemma sends_linkEntry: "link \<in> Hs \<Longrightarrow> sends K L Hs (linkEntry F n p q link a v e)"
  unfolding linkEntry_def
  apply (rule sends_andThen[OF sends_symLinkTarget])
  apply (intro sends_basic)
  apply (rule sends_andThen[OF sends_validLinkResult])
  apply (rule yields_andThen[OF yields_linkTarget])
   apply (auto intro!: sends_basic sends_completeUDSEntry sends_addFileHandle
      simp: setLinkSource_def setBadLink_def fromFH_def)
  done

lemma sends_readNames: "dir \<in> Hs \<Longrightarrow> sends K L Hs (readNames F n p dir cookie names)"
  by (induction n arbitrary: cookie names) (auto intro!: sends_basic sends_call)

lemma sends_compatEntry: "sends K L Hs (compatEntry F n p name v)"
  unfolding compatEntry_def
  by (auto intro!: sends_steps sends_andThen[OF sends_linkEntry] sends_addFileHandle sends_completeUDSEntry
      simp: fromFH_def)

lemma sends_compatEntries: "sends K L Hs (compatEntries F n p ns v)"
  by (induction ns arbitrary: v) (auto intro!: sends_basic sends_andThen[OF sends_compatEntry])

lemma sends_listDirCompat: "sends K L Hs (listDirCompat F n url)"
  unfolding listDirCompat_def
  by (auto intro!: sends_steps sends_andThen[OF sends_readNames] sends_compatEntries)

lemma sends_plusEntry: "en_handle en \<in> Hs \<Longrightarrow> sends K L Hs (plusEntry F n p en v)"
  unfolding plusEntry_def
  by (auto intro!: sends_steps sends_andThen[OF sends_linkEntry] sends_addFileHandle sends_completeUDSEntry
      simp: fromFH_def)

lemma sends_plusEntries: "(\<And>en. en \<in> set ens \<Longrightarrow> en_handle en \<in> Hs) \<Longrightarrow> sends K L Hs (plusEntries F n p ens v)"
  by (induction ens arbitrary: v) (auto intro!: sends_basic sends_andThen[OF sends_plusEntry])

lemma sends_listPlus: "dir \<in> Hs \<Longrightarrow> sends K L Hs (listPlus F n url dir v)"
proof (induction n arbitrary: v Hs)
  case 0
  then show ?case by (simp add: sends_return)
next
  case (Suc n)
  have call: "yields K L Hs (call (n_readdirplus F dir c sz) (\<lambda>a. ELook (NReaddirplus dir c sz a)))
      (\<lambda>a. set (given_by (ELook (NReaddirplus dir c sz a))))" for c sz
    using Suc.prems by (intro yields_call) auto
  show ?case
    unfolding listPlus.simps
    apply (rule yields_bind[OF yields_get])
    apply (rule yields_bind, simp, rule call)
    apply (intro branches)
      apply (auto intro!: sends_basic sends_listDirCompat sends_andThen sends_plusEntries Suc.IH
        simp: Suc.prems split: nfs_error.splits)
    done
qed

lemma sends_listDirInternal: "sends K L Hs (listDirInternal F url)"
proof -
  have "sends K L Hs (listVirtual exps pre e ns)" for exps pre e ns
    by (induction ns arbitrary: e) (auto intro!: sends_basic simp: Let_def)
  then show ?thesis unfolding listDirInternal_def by (intro sends_basic) simp_all
qed

lemma sends_listDir: "sends K L Hs (listDir F n url)"
  unfolding listDir_def
  by (auto intro!: sends_steps sends_bind[OF sends_listDirInternal] sends_initPreferredSizes sends_listDirCompat
      sends_listPlus)

lemma sends_stat: "sends K L Hs (stat F n url)"
  unfolding stat_def statInternal_def statLink_def
  by (auto intro!: sends_steps sends_andThen[OF sends_getAttr] sends_andThen[OF sends_symLinkTarget]
      sends_andThen[OF sends_validLinkResult] sends_completeUDSEntry simp: Let_def)

subsection \<open>Files and names\<close>

lemma sends_names:
  "sends K L Hs (mkdir F n url m)" "sends K L Hs (del F n url b)" "sends K L Hs (chmod F n url m)"
  "sends K L Hs (rename F n src dest fl)" "sends K L Hs (symlink F n target dest fl)"
  unfolding mkdir_def del_def chmod_def rename_def symlink_def
  by (auto intro!: sends_steps sends_call sends_andThen[OF sends_remove] sends_andThen[OF sends_setAttr]
      sends_andThen[OF sends_exists_path] sends_andThen[OF sends_renamePath] sends_andThen[OF sends_symLink]
      simp: Let_def)

lemma sends_getLoop: "fh \<in> Hs \<Longrightarrow> sends K L Hs (getLoop F n url fh cnt off v)"
  by (induction n arbitrary: off v) (auto intro!: sends_basic sends_call split: nfs_error.splits)

lemma sends_get: "sends K L Hs (get F n url)"
  unfolding get_def by (auto intro!: sends_steps sends_initPreferredSizes sends_getLoop)

lemma sends_putBlock: "fh \<in> Hs \<Longrightarrow> sends K L Hs (putBlock F n p fh b d)"
  by (induction n arbitrary: b d) (auto intro!: sends_basic sends_call)

lemma sends_putLoop: "fh \<in> Hs \<Longrightarrow> sends K L Hs (putLoop F n p fh b)"
  by (induction n arbitrary: b) (auto intro!: sends_basic sends_call sends_andThen[OF sends_putBlock])

lemma sends_put: "sends K L Hs (put F n url m fl)"
  unfolding put_def
  by (auto intro!: sends_steps sends_after_create sends_initPreferredSizes sends_putLoop simp: Let_def)

subsection \<open>Copies\<close>

lemma sends_checkPart: "sends K L Hs (checkPart F n part)"
  unfolding checkPart_def resumeAt_def
  by (auto intro!: sends_steps sends_andThen[OF sends_exists_path] sends_andThen[OF sends_remove] sends_call
      sends_andThen[where m = "andThen (lookupHandle F n part) _"])

lemma yields_openDest: "yields K L Hs (openDest F n p m resume) of_handle"
  unfolding openDest_def by (auto intro!: branches yields_create yields_getFileHandle)

lemma sends_after_openDest:
  "(\<And>e. sends K L Hs (k (Inl e))) \<Longrightarrow> (\<And>h. sends K L (insert (m_handle h) Hs) (k (Inr h))) \<Longrightarrow>
   sends K L Hs (andThen (openDest F n p mode resume) k)"
  by (rule yields_andThen[OF yields_openDest], case_tac a) simp_all

lemma sends_ends: "sends K L Hs (dropSmallPart F n p off)" "sends K L Hs (renamePart F n p)"
  "sends K L Hs (copyTimes F n p q)" "sends K L Hs (toTimes F n p)"
  unfolding dropSmallPart_def renamePart_def copyTimes_def toTimes_def
  by (intro sends_basic sends_andThen sends_remove sends_exists_path sends_renamePath sends_getAttr sends_setAttr)+

lemma sends_copyLoop:
  "from \<in> Hs \<Longrightarrow> to \<in> Hs \<Longrightarrow> sends K L Hs (copyLoop F n src dest from to cnt resume a b)"
  by (induction n arbitrary: a b) (auto intro!: sends_basic sends_call)

lemma sends_copySameEnd: "sends K L Hs (copySameEnd F n p q c)"
  unfolding copySameEnd_def by (intro sends_basic sends_andThen sends_ends) simp

lemma sends_copySameFile: "m_handle h \<in> Hs \<Longrightarrow> sends K L Hs (copySameFile F n src dest m h)"
  unfolding copySameFile_def
  by (auto intro!: sends_basic sends_andThen[OF sends_checkPart] sends_after_openDest sends_andThen[OF sends_copyLoop]
      sends_copySameEnd simp: Let_def)

lemma sends_copySameLink: "sends K L Hs (copySameLink F n src dest)"
  unfolding copySameLink_def
  by (auto intro!: sends_basic sends_andThen[OF sends_symLinkTarget] sends_andThen[OF sends_symLink])

lemma sends_copySame: "sends K L Hs (copySame F n src dest m fl)"
  unfolding copySame_def
  by (auto intro!: sends_steps sends_andThen[OF sends_exists_path] sends_copySameLink sends_copySameFile)

lemma sends_local: "sends K L Hs (fromPart F p)" "sends K L Hs (openLocal F p m resume)"
  "sends K L Hs (fromEnd F p name e)"
  unfolding fromPart_def openLocal_def fromEnd_def fromRename_def fromTimes_def Let_def
  by (intro sends_basic sends_call; simp)+

lemma sends_fromLoop: "fh \<in> Hs \<Longrightarrow> sends K L Hs (fromLoop F n src p name fh cnt resume a b)"
  by (induction n arbitrary: a b) (auto intro!: sends_basic sends_call simp: Let_def)

lemma sends_copyFromFile: "m_handle h \<in> Hs \<Longrightarrow> sends K L Hs (copyFromFile F n src p m h)"
  unfolding copyFromFile_def
  by (auto intro!: sends_basic sends_initPreferredSizes sends_local sends_andThen[OF sends_fromLoop] simp: Let_def)

lemma sends_copyFrom: "sends K L Hs (copyFrom F n src dest m fl)"
  unfolding copyFrom_def copyFromLink_def
  by (auto intro!: sends_steps sends_call sends_andThen[OF sends_symLinkTarget] sends_copyFromFile)

lemma sends_toLoop: "fh \<in> Hs \<Longrightarrow> sends K L Hs (toLoop F n p q fh off)"
  by (induction n arbitrary: off) (auto intro!: sends_basic sends_call)

lemma sends_copyToEnd: "sends K L Hs (copyToEnd F n p e)"
  unfolding copyToEnd_def by (intro sends_basic sends_andThen sends_ends) simp

lemma sends_copyToFile: "sends K L Hs (copyToFile F n p q m)"
  unfolding copyToFile_def
  by (auto intro!: sends_basic sends_call sends_andThen[OF sends_checkPart] sends_after_openDest
      sends_initPreferredSizes sends_andThen[OF sends_toLoop] sends_copyToEnd)

lemma sends_copy: "sends K L Hs (copy F n src dest m fl)"
  unfolding copy_def copyTo_def
  by (auto intro!: sends_steps sends_call sends_copySame sends_copyFrom sends_andThen[OF sends_exists_path]
      sends_andThen[OF sends_symLink] sends_copyToFile)

subsection \<open>Connections\<close>

lemma sends_connectTo: "sends K L Hs (connectTo F pr h)"
  unfolding connectTo_def hostFound_def by (intro sends_basic sends_call; simp)

lemma sends_closeConnection: "sends K L Hs (closeConnection F)"
  unfolding closeConnection_def by (intro sends_basic sends_set; simp)

lemma sends_mountExports: "sends K L Hs (mountExports F dirs)"
proof (induction dirs arbitrary: Hs)
  case Nil
  then show ?case by (simp add: sends_return)
next
  case (Cons d dirs)
  have "yields K L Hs (call (n_mount F d) (\<lambda>a. EConn (MountCall d a))) (\<lambda>a. set (given_by (EConn (MountCall d a))))"
    by (rule yields_call) auto
  then show ?case
    unfolding mountExports.simps addExportedDir_def
    by (rule yields_bind)
       (auto intro!: sends_basic sends_addFileHandle sends_set Cons.IH simp: fromFH_def Let_def split: mount_reply.splits)
qed

lemma sends_openConnection: "sends K L Hs (openConnection F)"
  unfolding openConnection_def openNfs_def connectFailed_def
  by (auto intro!: sends_basic sends_connectTo sends_closeConnection sends_mountExports sends_call sends_set)

lemma sends_setProtocolHost: "sends K L Hs (setProtocolHost F h u)"
  unfolding setProtocolHost_def by (intro sends_basic sends_closeConnection sends_set; simp)

lemma sends_newProtocol: "sends K L Hs newProtocol"
  unfolding newProtocol_def by (rule yields_update) (simp_all add: cached_def)

lemma sends_isCompatible: "sends K L Hs (isCompatible F)"
  unfolding isCompatible_def by (intro sends_basic sends_connectTo sends_call; simp)

lemma sends_deleteProtocol: "sends K L Hs (deleteProtocol F)"
  unfolding deleteProtocol_def by (intro sends_basic sends_closeConnection sends_set; simp)

lemma sends_tryVersions: "sends K L Hs (tryVersions F vs b)"
  by (induction vs arbitrary: b)
     (auto intro!: sends_basic sends_newProtocol sends_setProtocolHost sends_isCompatible sends_openConnection
       sends_deleteProtocol)

lemma sends_verified: "sends K L Hs m \<Longrightarrow> sends K L Hs (verified F url m)"
  unfolding verified_def verifyProtocol_def worker_openConnection_def
  by (auto intro!: sends_basic sends_call sends_set sends_tryVersions sends_openConnection)

lemma sends_onProtocol: "sends K L Hs m \<Longrightarrow> sends K L Hs (onProtocol m)"
  unfolding onProtocol_def by (auto intro!: sends_basic)

lemma sends_serve: "sends K L Hs (serve F n req)"
  unfolding serve_def worker_put_def worker_get_def worker_listDir_def worker_symlink_def worker_stat_def
    worker_mkdir_def worker_del_def worker_chmod_def worker_rename_def worker_copy_def
  by (cases req) (simp_all add: sends_verified sends_onProtocol sends_put sends_get sends_listDir sends_stat
      sends_names sends_copy)

text \<open>
  C24. Whatever the server answers and the application asks, every file handle in a request to the
  server was in the cache before or came in an earlier answer of the server, and the cache holds no
  other handles afterwards.
\<close>

theorem handles_come_from_server:
  "\<exists>es. trace (snd (run_state (serve F n req) s)) = trace s @ es \<and> honest (cached s) es \<and>
     cached (snd (run_state (serve F n req) s)) \<subseteq> cached s \<union> given es"
proof -
  obtain r t where r: "run_state (serve F n req) s = (r, t)" by fastforce
  have "knowing (cached s) (trace s) s" by (auto simp: knowing_def known_def)
  from yieldsD[OF sends_serve r this, of "{}"] show ?thesis by (auto simp: knowing_def known_def r)
qed

end
