(* ===== verification/NfsFileFacts.thy ===== *)
theory NfsFileFacts
  imports NfsHandles
begin

text \<open>
  What the transfers of NFS deliver and store: a file that is read arrives once and in order, an
  upload over an existing file stores what is supplied, an upload of a new file needs the preferred
  sizes and does not ask for them.
\<close>

section \<open>Reading\<close>

text \<open>The bytes that were delivered to the application.\<close>

fun sent_by :: "nev \<Rightarrow> byte list" where
  "sent_by (EWorker (AData d)) = d"
| "sent_by _ = []"

definition sent :: "nev list \<Rightarrow> byte list" where
  "sent es = concat (map sent_by es)"

lemma sent_append [simp]: "sent (es @ fs) = sent es @ sent fs"
  by (simp add: sent_def)

lemma sent_Cons [simp]: "sent (e # es) = sent_by e @ sent es"
  by (simp add: sent_def)

lemma sent_Nil [simp]: "sent [] = []"
  by (simp add: sent_def)

text \<open>
  The server answers each READ of a positive count with at most that many bytes of the file at the
  offset, at least one unless the file ends there; the size it prefers for reads is positive.
\<close>

definition serves_file :: "'w nfs \<Rightarrow> fh3 \<Rightarrow> byte list \<Rightarrow> bool" where
  "serves_file F fh c \<longleftrightarrow> (\<forall>off cnt w. cnt \<noteq> 0 \<longrightarrow> (\<exists>k attr w'. n_read F fh off cnt w =
     (Ok (take k (drop (unat off) c), attr), w') \<and> k < 2 ^ 31 \<and> k \<le> unat cnt \<and> 0 < k))"

definition prefers_some :: "'w nfs \<Rightarrow> bool" where
  "prefers_some F \<longleftrightarrow> (\<forall>fh w r wt dt w'. n_fsinfo F fh w = (Ok (r, wt, dt), w') \<longrightarrow> r \<noteq> 0)"

lemma count_of_small: "length d < 2 ^ 31 \<Longrightarrow> count_of d = int (length d)"
  by (simp add: count_of_def sint_uint uint_nat unat_of_nat signed_take_bit_int_eq_self)

lemma unat_plus: "unat (a :: u64) + m < 2 ^ 64 \<Longrightarrow> unat (a + word_of_nat m) = unat a + m"
  by (simp add: unat_word_ariths unat_of_nat mod_add_right_eq)

lemma take_rest: "xs = take k xs @ drop (length (take k xs)) xs"
  by (cases "k \<le> length xs") (simp_all add: min_def)

lemma getLoop_delivers:
  assumes serves: "serves_file F fh c" "cnt \<noteq> 0" and small: "length c < 2 ^ 64"
    and here: "unat off \<le> length c" "length c - unat off < n"
  shows "\<exists>t es. run_state (getLoop F n url fh cnt off v) s = (Some Pass, t) \<and> trace t = trace s @ es
    \<and> sent es = drop (unat off) c"
  using here
proof (induction n arbitrary: off v s)
  case 0
  then show ?case by simp
next
  case (Suc n)
  obtain k attr w' where rd: "n_read F fh off cnt (world s) = (Ok (take k (drop (unat off) c), attr), w')"
      "k < 2 ^ 31" "0 < k" using serves unfolding serves_file_def by blast
  define d where "d = take k (drop (unat off) c)"
  have rd1: "n_read F fh off cnt (world s) = (Ok (d, attr), w')" using rd(1) by (simp add: d_def)
  have len: "length d < 2 ^ 31" "count_of d = int (length d)" using rd(2) by (auto simp: d_def count_of_small)
  define head where "head = (if off = 0 then [EWorker (AMimeType (t_mime F (fileName url) d)), EWorker (ATotalSize (at_size attr))] else [])"
  define u where "u = s\<lparr>world := w', trace := trace s @ ELook (NRead fh off cnt (Ok (d, attr))) # head\<rparr>"
  have quiet: "sent head = []" by (simp add: head_def)
  show ?case
  proof (cases "d = []")
    case True
    then have "drop (unat off) c = []" using rd(3) by (auto simp: d_def)
    then show ?thesis using rd(1) True
      by (auto simp: call_def tell_def act_def d_def[symmetric] count_of_small Let_def head_def)
  next
    case False
    have le: "unat off + length d \<le> length c" using Suc.prems(1) by (simp add: d_def)
    have next_off: "unat (off + word_of_int (count_of d)) = unat off + length d"
      using unat_plus[of off "length d"] le small by (simp add: len(2))
    define u' where "u' = u\<lparr>trace := trace u @ [EWorker (AData d), EWorker (AProcessedSize (off + word_of_int (count_of d)))]\<rparr>"
    have "length c - unat (off + word_of_int (count_of d)) < n"
      using Suc.prems(2) False next_off le by (cases d) auto
    from Suc.IH[OF _ this, of True u'] next_off le obtain t es where
      t: "run_state (getLoop F n url fh cnt (off + word_of_int (count_of d)) True) u' = (Some Pass, t)"
        "trace t = trace u' @ es" "sent es = drop (unat off + length d) c" by auto
    have "run_state (getLoop F (Suc n) url fh cnt off v) s = (Some Pass, t)"
      using rd1 t(1) len(2) False
      by (cases "off = 0") (simp_all add: call_def tell_def act_def Let_def head_def u_def u'_def)
    moreover have "drop (unat off) c = d @ drop (unat off + length d) c"
      using take_rest[of "drop (unat off) c" k] by (simp add: d_def add.commute)
    ultimately show ?thesis using t(2,3) quiet by (intro exI[of _ t]) (simp add: u_def u'_def)
  qed
qed

lemma init_sizes_run:
  assumes "prefers_some F"
  obtains u e where "run_state (initPreferredSizes F h) s = ((), u)"
    "trace u = trace s @ [ELook (NFsinfo (m_handle h) e)]" "m_readBufferSize u \<noteq> 0"
proof (cases "n_fsinfo F (m_handle h) (world s)")
  case (Pair r w)
  have "a \<noteq> 0" if "r = Ok (a, b, d)" for a b d
    using assms Pair that unfolding prefers_some_def by blast
  then show ?thesis using Pair
    by (cases r) (auto intro!: that simp: NFS3_MAXDATA_def initPreferredSizes_def call_def State_Monad.update_def)
qed

text \<open>A path that is connected, below an exported directory and in the cache with a handle that can be used.\<close>

definition usable :: "'w ns \<Rightarrow> string \<Rightarrow> nfs_handle \<Rightarrow> bool" where
  "usable s p h \<longleftrightarrow> isConnected s \<and> isValidPath (m_exportedDirs s) p \<and> m_handleCache s p = Some h \<and>
     \<not> isInvalid h \<and> \<not> isBadLink h"

lemma usable_run: "usable s p h \<Longrightarrow> 0 < n \<Longrightarrow> run_state (getFileHandle F n p) s = (Some (Inr h), s)"
  by (cases n) (auto simp: usable_def refusedPath_def)

text \<open>
  C27. Reading a file over NFS ends and delivers its bytes, every byte once and in order, however the
  server cuts its answers, with one unit of fuel for each byte and one more.
\<close>

theorem nfs_get_delivers:
  assumes "usable s (path url) h" "serves_file F (m_handle h) c" "prefers_some F" "length c < 2 ^ 64" "length c < n"
  shows "\<exists>t es. run_state (get F n url) s = (Some Pass, t) \<and> trace t = trace s @ es \<and> sent es = c"
proof -
  have start: "run_state (getFileHandle F n (path url)) s = (Some (Inr h), s)"
    using usable_run[OF assms(1)] assms(5) by simp
  have h: "\<not> isInvalid h" "\<not> isBadLink h" using assms(1) by (auto simp: usable_def)
  have loop: "\<exists>t es. run_state (getLoop F n url (m_handle h) cnt 0 False) u = (Some Pass, t) \<and>
      trace t = trace u @ es \<and> sent es = c" if "cnt \<noteq> 0" for cnt u
    using getLoop_delivers[OF assms(2) that assms(4), of 0 n url False u] assms(5) by simp
  show ?thesis
  proof (cases "m_readBufferSize s = 0")
    case True
    obtain u e where i: "run_state (initPreferredSizes F h) s = ((), u)"
        "trace u = trace s @ [ELook (NFsinfo (m_handle h) e)]" "m_readBufferSize u \<noteq> 0"
      by (rule init_sizes_run[OF assms(3)])
    obtain t es where t: "run_state (getLoop F n url (m_handle h) (m_readBufferSize u) 0 False) u = (Some Pass, t)"
        "trace t = trace u @ es" "sent es = c" using loop[OF i(3)] by blast
    show ?thesis using True start h i t
      by (intro exI[of _ t] exI[of _ "ELook (NFsinfo (m_handle h) e) # es"])
         (simp add: get_def withHandle_def run_andThen)
  next
    case False
    then show ?thesis using start h loop[of "m_readBufferSize s" s] by (simp add: get_def withHandle_def run_andThen)
  qed
qed

theorem nfs_get_delivers_witness:
  "\<exists>t es. run_state (get nfs_demo 4 (nd_url ''/e/f'')) nd_state = (Some Pass, t) \<and> trace t = trace nd_state @ es \<and>
     sent es = [1, 2, 3]"
proof (rule nfs_get_delivers)
  show "usable nd_state (path (nd_url ''/e/f'')) (fromFH [2])" by (simp add: usable_def nd_defs)
  have "0 < unat cnt" if "cnt \<noteq> 0" for cnt :: u32 using that by (simp add: unat_gt_0)
  then show "serves_file nfs_demo (m_handle (fromFH [2])) [1, 2, 3]"
    unfolding serves_file_def nfs_demo_simps nd_bytes_def by (auto intro!: exI[of _ 1] simp: Suc_le_eq)
  show "prefers_some nfs_demo" by (auto simp: prefers_some_def)
qed simp_all

section \<open>Writing\<close>

text \<open>A file as a list of bytes, a write at an offset, and what a log of writes makes of a file.\<close>

definition write_at :: "nat \<Rightarrow> byte list \<Rightarrow> byte list \<Rightarrow> byte list" where
  "write_at off d c = take off (c @ replicate (off - length c) 0) @ d @ drop (off + length d) c"

fun apply_write :: "byte list \<Rightarrow> nev \<Rightarrow> byte list" where
  "apply_write c (EChange (NWrite _ off d (Ok cnt))) = write_at (unat off) (take (unat cnt) d) c"
| "apply_write c _ = c"

definition stored :: "byte list \<Rightarrow> nev list \<Rightarrow> byte list" where
  "stored c es = foldl apply_write c es"

lemma stored_append [simp]: "stored c (es @ fs) = stored (stored c es) fs"
  by (simp add: stored_def)

lemma stored_Cons [simp]: "stored c (e # es) = stored (apply_write c e) es"
  by (simp add: stored_def)

lemma stored_Nil [simp]: "stored c [] = c"
  by (simp add: stored_def)

lemma write_at_end: "write_at (length c) d c = c @ d"
  by (simp add: write_at_def)

text \<open>What the application supplied.\<close>

fun supplied_by :: "nev \<Rightarrow> byte list" where
  "supplied_by (EWorker (AReadData k d)) = (if k > 0 then d else [])"
| "supplied_by _ = []"

definition supplied :: "nev list \<Rightarrow> byte list" where
  "supplied es = concat (map supplied_by es)"

lemma supplied_append [simp]: "supplied (es @ fs) = supplied es @ supplied fs"
  by (simp add: supplied_def)

lemma supplied_Cons [simp]: "supplied (e # es) = supplied_by e @ supplied es"
  by (simp add: supplied_def)

lemma supplied_Nil [simp]: "supplied [] = []"
  by (simp add: supplied_def)

text \<open>A server does not say that it took more than it got.\<close>

definition counts_writes :: "'w nfs \<Rightarrow> bool" where
  "counts_writes F \<longleftrightarrow> (\<forall>fh off d w cnt w'. n_write F fh off d w = (Ok cnt, w') \<longrightarrow> unat cnt \<le> length d)"

lemma counts_writesD: "counts_writes F \<Longrightarrow> n_write F fh off d w = (Ok cnt, w') \<Longrightarrow> unat cnt \<le> length d"
  unfolding counts_writes_def by blast

lemma unat_plus32: "unat (a :: u32) + unat b < 2 ^ 32 \<Longrightarrow> unat (a + b) = unat a + unat b"
  by (simp add: unat_word_ariths)

lemma put_offset_small:
  assumes "unat b < 2 ^ 31"
  shows "unat (put_offset b) = unat b"
proof -
  have "int (unat b) < int (2 ^ 31)" using assms by (simp only: of_nat_less_iff)
  then have "uint b < 2 ^ 31" by (simp only: uint_nat[symmetric] of_nat_power of_nat_numeral)
  moreover have "- (2 ^ 31) \<le> uint b" by (rule order_trans[OF _ uint_ge_0]) simp
  ultimately have "sint b = uint b" unfolding sint_uint by (intro signed_take_bit_int_eq_self) simp_all
  then have "put_offset b = word_of_nat (unat b)" by (simp add: put_offset_def)
  moreover have "unat b < 2 ^ 64" using assms by simp
  ultimately show ?thesis by (simp only: unat_of_nat) simp
qed

lemma take_piece: "n \<le> length (piece l d) \<Longrightarrow> take n (piece l d) = take n d"
  by (simp add: piece_def)

lemma length_piece: "length (piece l d) \<le> length d"
  by (simp add: piece_def)

lemma putBlock_stores:
  assumes counts: "counts_writes F" and run: "run_state (putBlock F n p fh b d) s = (Some (Inr b'), t)"
    and small: "unat b + length d < 2 ^ 31"
  shows "\<exists>es. trace t = trace s @ es \<and> supplied es = [] \<and> unat b' = unat b + length d \<and>
    (\<forall>c. length c = unat b \<longrightarrow> stored c es = c @ d)"
  using run small
proof (induction n arbitrary: b d s)
  case 0
  then show ?case by simp
next
  case (Suc n)
  define now where "now = piece (m_writeBufferSize s) d"
  obtain r w where r: "n_write F fh (put_offset b) now (world s) = (r, w)" by fastforce
  define u where "u = s\<lparr>world := w, trace := trace s @ [EChange (NWrite fh (put_offset b) now r)]\<rparr>"
  from Suc.prems(1) r obtain cnt where cnt: "r = Ok cnt"
    by (cases r) (auto simp: call_def now_def Let_def)
  have le: "unat cnt \<le> length now" using counts_writesD[OF counts, of fh "put_offset b" now "world s" cnt w] r cnt by simp
  have le2: "unat cnt \<le> length d" using le length_piece[of "m_writeBufferSize s" d] by (simp add: now_def)
  have off: "unat (put_offset b) = unat b" using Suc.prems(2) by (intro put_offset_small) simp
  have b': "unat (b + cnt) = unat b + unat cnt" using Suc.prems(2) le2 by (intro unat_plus32) simp
  have one: "apply_write c (EChange (NWrite fh (put_offset b) now r)) = c @ take (unat cnt) d" if "length c = unat b" for c
  proof -
    have "apply_write c (EChange (NWrite fh (put_offset b) now r)) = write_at (length c) (take (unat cnt) now) c"
      by (simp add: cnt off that)
    also have "take (unat cnt) now = take (unat cnt) d" using le by (simp add: now_def take_piece)
    finally show ?thesis by (simp add: write_at_end)
  qed
  show ?case
  proof (cases "unat cnt = length d")
    case True
    then have "t = u" "b' = b + cnt" using Suc.prems(1) r cnt le2
      by (auto simp: call_def now_def[symmetric] Let_def u_def)
    then show ?thesis using one b' True
      by (intro exI[of _ "[EChange (NWrite fh (put_offset b) now r)]"]) (simp add: u_def)
  next
    case False
    then have rest: "run_state (putBlock F n p fh (b + cnt) (drop (unat cnt) d)) u = (Some (Inr b'), t)"
      using Suc.prems(1) r cnt le2 by (auto simp: call_def now_def[symmetric] Let_def u_def)
    have "unat (b + cnt) + length (drop (unat cnt) d) < 2 ^ 31" using Suc.prems(2) b' le2 by simp
    from Suc.IH[OF rest this] obtain es where es: "trace t = trace u @ es" "supplied es = []"
      "unat b' = unat (b + cnt) + length (drop (unat cnt) d)"
      "\<And>c. length c = unat (b + cnt) \<Longrightarrow> stored c es = c @ drop (unat cnt) d" by blast
    have "stored (c @ take (unat cnt) d) es = c @ d" if "length c = unat b" for c
      using es(4)[of "c @ take (unat cnt) d"] that le2 b' by simp
    then show ?thesis using one es(1-3) b' le2
      by (intro exI[of _ "EChange (NWrite fh (put_offset b) now r) # es"]) (simp add: u_def)
  qed
qed

lemma did_putBlock: "state_io_rel (did (\<lambda>_. True)) (putBlock F n p fh b d)"
  by (induction n arbitrary: b d) (auto intro!: rel_intros did_call)

lemma did_putBlock_writes: "state_io_rel (did (\<lambda>e. supplied_by e = [])) (putBlock F n p fh b d)"
  by (induction n arbitrary: b d) (auto intro!: rel_intros did_call simp: Let_def)

lemma setup_putBlock: "state_io_rel same_setup (putBlock F n p fh b d)"
  by (induction n arbitrary: b d) (auto intro!: rel_intros nfs_rel simp: Let_def)

lemma did_putLoop: "state_io_rel (did (\<lambda>_. True)) (putLoop F n p fh b)"
  by (induction n arbitrary: b) (auto intro!: rel_intros did_call did_tell did_putBlock)

lemma checkResult_error: "\<not> is_ok r \<Longrightarrow> checkResult F r p \<noteq> Pass"
  by (cases r) auto

lemma putBlock_error: "fst (run_state (putBlock F n p fh b d) s) \<noteq> Some (Inl Pass)"
proof (induction n arbitrary: b d s)
  case (Suc n)
  obtain r w where r: "n_write F fh (put_offset b) (piece (m_writeBufferSize s) d) (world s) = (r, w)" by fastforce
  show ?case using r Suc.IH by (cases r) (simp_all add: call_def Let_def)
qed simp

lemma putLoop_stores:
  assumes counts: "counts_writes F" and run: "run_state (putLoop F n p fh b) s = (Some Pass, t)"
    and old: "length c = unat b"
  shows "\<exists>es. trace t = trace s @ es \<and> (unat b + length (supplied es) < 2 ^ 31 \<longrightarrow> stored c es = c @ supplied es)"
  using run old
proof (induction n arbitrary: b s c)
  case 0
  then show ?case by simp
next
  case (Suc n)
  obtain k d w where rd: "a_readData F (world s) = ((k, d), w)" by (metis surj_pair)
  define u where "u = s\<lparr>world := w, trace := trace s @ [EWorker ADataReq, EWorker (AReadData k d)]\<rparr>"
  show ?case
  proof (cases "k > 0")
    case False
    then have "t = u" using Suc.prems(1) rd by (simp add: call_def tell_def act_def u_def)
    then show ?thesis using False
      by (intro exI[of _ "[EWorker ADataReq, EWorker (AReadData k d)]"]) (simp add: u_def)
  next
    case True
    have "run_state (andThen (putBlock F n p fh b d) (\<lambda>r. case r of Inl e \<Rightarrow> ret (Some e)
        | Inr b' \<Rightarrow> putLoop F n p fh b')) u = (Some Pass, t)"
      using Suc.prems(1) rd True by (simp add: call_def tell_def act_def u_def)
    then obtain r v where r: "run_state (putBlock F n p fh b d) u = (Some r, v)"
        "run_state (case r of Inl e \<Rightarrow> ret (Some e) | Inr b' \<Rightarrow> putLoop F n p fh b') v = (Some Pass, t)"
      by (auto simp: run_andThen split: prod.splits option.splits)
    obtain b' where b': "r = Inr b'"
      using r putBlock_error[of F n p fh b d u] by (cases r) auto
    then have rest: "run_state (putLoop F n p fh b') v = (Some Pass, t)" using r(2) by simp
    show ?thesis
    proof (cases "unat b + length d < 2 ^ 31")
      case small: True
      obtain es1 where es1: "trace v = trace u @ es1" "supplied es1 = []" "unat b' = unat b + length d"
          "stored c es1 = c @ d"
        using putBlock_stores[OF counts, of n p fh b d u b' v] r(1) b' small Suc.prems(2) by auto
      have "length (c @ d) = unat b'" using Suc.prems(2) es1(3) by simp
      from Suc.IH[OF rest this] obtain es2 where es2: "trace t = trace v @ es2"
          "unat b' + length (supplied es2) < 2 ^ 31 \<longrightarrow> stored (c @ d) es2 = (c @ d) @ supplied es2" by blast
      show ?thesis using es1 es2 True
        by (intro exI[of _ "EWorker ADataReq # EWorker (AReadData k d) # es1 @ es2"]) (simp add: u_def)
    next
      case False
      obtain es where "trace t = trace u @ es"
        using did_run[OF did_putLoop rest] did_run[OF did_putBlock r(1)] by auto
      then show ?thesis using False True
        by (intro exI[of _ "EWorker ADataReq # EWorker (AReadData k d) # es"]) (simp add: u_def)
    qed
  qed
qed

section \<open>put\<close>

text \<open>Events that neither supply nor store.\<close>

definition quiet :: "nev \<Rightarrow> bool" where
  "quiet e \<longleftrightarrow> supplied_by e = [] \<and> (\<forall>c. apply_write c e = c)"

lemma quiet_stored: "list_all quiet es \<Longrightarrow> stored c es = c \<and> supplied es = []"
  by (induction es arbitrary: c) (simp_all add: quiet_def)

lemma quiet_asks: "asks_only e \<Longrightarrow> quiet e"
  by (cases e rule: asks_only.cases) (auto simp: quiet_def)

lemma quiet_look [simp]: "quiet (ELook e)" "quiet (EChange (NCreate d p m u g r))"
  by (simp_all add: quiet_def)

lemma did_quiet_handle: "state_io_rel (did quiet) (getFileHandle F n p)"
  by (rule rel_did_mono[OF asks.getFileHandle_rel quiet_asks])

lemma did_init: "(\<And>e. P (ELook e)) \<Longrightarrow> state_io_rel (did P) (initPreferredSizes F h)"
  unfolding initPreferredSizes_def by (intro rel_intros did_call did_update) simp_all

lemma did_create:
  assumes "\<And>e. asks_only e \<Longrightarrow> P e" "\<And>d m u g r. P (EChange (NCreate d (baseName p) m u g r))"
  shows "state_io_rel (did P) (create F n p mode)"
  unfolding create_def
  by (intro rel_intros did_call rel_did_mono[OF asks.getFileHandle_rel assms(1)] assms(2))

lemma setup_create: "state_io_rel same_setup (create F n p mode)"
  unfolding create_def by (intro rel_intros nfs_rel keeps_setup.getFileHandle_rel)

text \<open>What is not a handle is an error.\<close>

lemma getFileHandle_error: "fst (run_state (getFileHandle F n p) s) \<noteq> Some (Inl Pass)"
  by (cases n) (auto simp: refusedPath_def run_andThen split: option.splits prod.splits)

lemma create_error: "fst (run_state (create F n p mode) s) \<noteq> Some (Inl Pass)"
proof -
  have "fst (run_state (getFileHandle F n (dirName p)) s) \<noteq> Some (Inl Pass)" by (rule getFileHandle_error)
  then show ?thesis
    by (auto simp: create_def run_andThen call_def split: option.splits prod.splits sum.splits reply.splits
        dest: checkResult_error[THEN notE, rotated])
qed

text \<open>A \<open>put\<close> that passes has come to its loop, with a handle for the destination.\<close>

lemma put_runs:
  assumes "run_state (put F n url mode flags) s = (Some Pass, t)"
  shows "\<exists>u fh es. run_state (putLoop F n (path url) fh 0) u = (Some Pass, t) \<and> trace u = trace s @ es
    \<and> list_all quiet es \<and> ((\<forall>h v. run_state (getFileHandle F n (path url)) s \<noteq> (Some (Inr h), v)) \<longrightarrow>
        m_writeBufferSize u = m_writeBufferSize s)"
proof -
  obtain m s1 where m: "run_state (getFileHandle F n (path url)) s = (Some m, s1)"
    using assms by (auto simp: put_def run_andThen Let_def split: prod.splits option.splits if_splits)
  define s2 where "s2 = snd (run_state (if \<not> isl m \<and> m_writeBufferSize s1 = 0
    then initPreferredSizes F (projr m) else ret ()) s1)"
  have run: "run_state (andThen (create F n (path url) mode) (\<lambda>c. case c of
      Inl e \<Rightarrow> ret (Some e) | Inr fh \<Rightarrow> putLoop F n (path url) (m_handle fh) 0)) s2 = (Some Pass, t)"
    using assms m
    by (auto simp: put_def run_andThen s2_def Let_def split: prod.splits option.splits if_splits)
  then obtain c s3 where c: "run_state (create F n (path url) mode) s2 = (Some c, s3)"
    by (auto simp: run_andThen split: prod.splits option.splits)
  have "c \<noteq> Inl Pass" using create_error[of F n "path url" mode s2] c by auto
  then obtain fh where fh: "c = Inr fh" "run_state (putLoop F n (path url) (m_handle fh) 0) s3 = (Some Pass, t)"
    using run c by (cases c) (auto simp: run_andThen)
  have "state_io_rel (did quiet) (if \<not> isl m \<and> m_writeBufferSize s1 = 0
    then initPreferredSizes F (projr m) else ret ())" by (intro rel_intros did_init) simp
  then have "did quiet s1 s2" unfolding state_io_rel_def s2_def by blast
  moreover have "did quiet s s1" by (rule relD[OF did_quiet_handle m])
  moreover have "did quiet s2 s3" by (rule relD[OF did_create c]) (simp_all add: quiet_asks)
  ultimately have "did quiet s s3" using transpD[OF transp_did] by blast
  then obtain es where es: "trace s3 = trace s @ es" "list_all quiet es" by (auto simp: did_def)
  have "m_writeBufferSize s3 = m_writeBufferSize s" if "isl m"
    using relD[OF keeps_setup.getFileHandle_rel m] relD[OF setup_create c] that by (simp add: same_setup_def s2_def)
  moreover have "isl m" if "\<forall>h v. run_state (getFileHandle F n (path url)) s \<noteq> (Some (Inr h), v)"
    using m that by (cases m) auto
  ultimately show ?thesis using fh(2) es by blast
qed

text \<open>
  C28. An upload of less than 2 GiB that passes stores exactly what the application supplied, from the
  start of the file and in order, however little of each piece the server takes at a time.
\<close>

theorem nfs_put_stores:
  assumes "counts_writes F" "run_state (put F n url mode flags) s = (Some Pass, t)"
  shows "\<exists>es. trace t = trace s @ es \<and> (length (supplied es) < 2 ^ 31 \<longrightarrow> stored [] es = supplied es)"
proof -
  obtain u fh es1 where u: "run_state (putLoop F n (path url) fh 0) u = (Some Pass, t)" "trace u = trace s @ es1"
      "list_all quiet es1" using put_runs[OF assms(2)] by blast
  obtain es2 where "trace t = trace u @ es2" "length (supplied es2) < 2 ^ 31 \<longrightarrow> stored [] es2 = supplied es2"
    using putLoop_stores[OF assms(1) u(1), of "[]"] by auto
  then show ?thesis using u(2) quiet_stored[OF u(3)] by (intro exI[of _ "es1 @ es2"]) simp
qed

definition nd_feeding :: "nd_world ns" where
  "nd_feeding = nd_state\<lparr>world := [(2, [7, 8])], m_writeBufferSize := 8\<rparr>"

theorem nfs_put_stores_witness:
  "run_state (put nfs_demo nd_fuel (nd_url ''/e/n'') 0x1A4 nd_flags) nd_feeding
     = (Some Pass, snd (run_state (put nfs_demo nd_fuel (nd_url ''/e/n'') 0x1A4 nd_flags) nd_feeding)) \<and>
   (\<exists>es. trace (snd (run_state (put nfs_demo nd_fuel (nd_url ''/e/n'') 0x1A4 nd_flags) nd_feeding)) = trace nd_feeding @ es \<and>
     supplied es = [7, 8] \<and> stored [] es = [7, 8])"
proof -
  let ?r = "run_state (put nfs_demo nd_fuel (nd_url ''/e/n'') 0x1A4 nd_flags) nd_feeding"
  have counts: "counts_writes nfs_demo" by (auto simp: counts_writes_def neq_Nil_conv)
  have run: "?r = (Some Pass, snd ?r)" "supplied (drop (length (trace nd_feeding)) (trace (snd ?r))) = [7, 8]"
    by (simp_all add: put_def create_def lookupFileHandle_by_def lookupHandle_by_def piece_def put_offset_def
      nd_feeding_def nd_defs nd_runs)
  from nfs_put_stores[OF counts run(1)] run(2) show ?thesis using run(1) by auto
qed

text \<open>Beyond 2 GiB the number of bytes is negative, and so is the offset of the next write.\<close>

lemma put_offset_wraps: "put_offset 0x80000000 = 0xFFFFFFFF80000000"
  by (simp add: put_offset_def)

lemma putBlock_stuck:
  assumes "counts_writes F"
  shows "m_writeBufferSize s = 0 \<Longrightarrow> d \<noteq> [] \<Longrightarrow> fst (run_state (putBlock F n p fh b d) s) = None \<or>
    (\<exists>e. fst (run_state (putBlock F n p fh b d) s) = Some (Inl e))"
proof (induction n arbitrary: b s)
  case (Suc n)
  have none: "piece (m_writeBufferSize s) d = []" using Suc.prems(1) by (simp add: piece_def)
  obtain r w where r: "n_write F fh (put_offset b) [] (world s) = (r, w)" by fastforce
  define u where "u = s\<lparr>world := w, trace := trace s @ [EChange (NWrite fh (put_offset b) [] r)]\<rparr>"
  show ?case
  proof (cases r)
    case (Ok cnt)
    then have "unat cnt = 0" using counts_writesD[OF assms, of fh "put_offset b" "[]"] r by fastforce
    then have "run_state (putBlock F (Suc n) p fh b d) s = run_state (putBlock F n p fh (b + cnt) d) u"
      using Ok r Suc.prems(2) none by (simp add: call_def u_def Let_def)
    then show ?thesis using Suc.IH[of u "b + cnt"] Suc.prems by (simp add: u_def)
  qed (use r none in \<open>simp_all add: call_def Let_def\<close>)
qed simp

lemma putLoop_nothing:
  assumes "counts_writes F"
  shows "m_writeBufferSize s = 0 \<Longrightarrow> run_state (putLoop F n p fh b) s = (Some Pass, t) \<Longrightarrow>
    \<exists>es. trace t = trace s @ es \<and> supplied es = []"
proof (induction n arbitrary: b s)
  case (Suc n)
  obtain k d w where rd: "a_readData F (world s) = ((k, d), w)" by (metis surj_pair)
  define u where "u = s\<lparr>world := w, trace := trace s @ [EWorker ADataReq, EWorker (AReadData k d)]\<rparr>"
  show ?case
  proof (cases "k > 0")
    case False
    then have "t = u" using Suc.prems(2) rd by (simp add: call_def tell_def act_def u_def)
    then show ?thesis using False by (intro exI[of _ "[EWorker ADataReq, EWorker (AReadData k d)]"]) (simp add: u_def)
  next
    case True
    have "run_state (andThen (putBlock F n p fh b d) (\<lambda>r. case r of Inl e \<Rightarrow> ret (Some e)
        | Inr b' \<Rightarrow> putLoop F n p fh b')) u = (Some Pass, t)"
      using Suc.prems(2) rd True by (simp add: call_def tell_def act_def u_def)
    then obtain r v where r: "run_state (putBlock F n p fh b d) u = (Some r, v)"
        "run_state (case r of Inl e \<Rightarrow> ret (Some e) | Inr b' \<Rightarrow> putLoop F n p fh b') v = (Some Pass, t)"
      by (auto simp: run_andThen split: prod.splits option.splits)
    obtain b' where b': "r = Inr b'"
      using r putBlock_error[of F n p fh b d u] by (cases r) auto
    have zero: "m_writeBufferSize u = 0" using Suc.prems(1) by (simp add: u_def)
    have "d = []" using putBlock_stuck[OF assms zero, of d n p fh b] r(1) b' by auto
    have "m_writeBufferSize v = 0" using relD[OF setup_putBlock r(1)] zero by (simp add: same_setup_def)
    moreover have "run_state (putLoop F n p fh b') v = (Some Pass, t)" using r(2) b' by simp
    ultimately obtain es where es: "trace t = trace v @ es" "supplied es = []" using Suc.IH by blast
    obtain es1 where "trace v = trace u @ es1" "list_all (\<lambda>e. supplied_by e = []) es1"
      using did_run[OF did_putBlock_writes r(1)] by blast
    moreover have "supplied es1 = []" using calculation(2) by (induction es1) simp_all
    ultimately show ?thesis using es \<open>d = []\<close>
      by (intro exI[of _ "EWorker ADataReq # EWorker (AReadData k d) # es1 @ es"]) (simp add: u_def)
  qed
qed simp

text \<open>
  C31. An upload to a name that does not exist passes only if the application supplies nothing, as long
  as no other request has asked for the preferred sizes: they are asked for only when the destination
  exists, and with a size of zero every piece that is written is empty, so that the loop over a block
  never comes to its end.
\<close>

theorem put_new_file_stores_nothing:
  assumes "m_writeBufferSize s = 0" "counts_writes F"
    "\<forall>h v. run_state (getFileHandle F n (path url)) s \<noteq> (Some (Inr h), v)"
    "run_state (put F n url mode flags) s = (Some Pass, t)"
  shows "\<exists>es. trace t = trace s @ es \<and> supplied es = []"
proof -
  from put_runs[OF assms(4)] obtain u fh es where u: "run_state (putLoop F n (path url) fh 0) u = (Some Pass, t)"
      "trace u = trace s @ es" "list_all quiet es"
      "(\<forall>h v. run_state (getFileHandle F n (path url)) s \<noteq> (Some (Inr h), v)) \<longrightarrow>
        m_writeBufferSize u = m_writeBufferSize s" by blast
  have "m_writeBufferSize u = 0" using mp[OF u(4) assms(3)] assms(1) by simp
  from putLoop_nothing[OF assms(2) this u(1)] obtain es' where "trace t = trace u @ es'" "supplied es' = []" by blast
  then show ?thesis using u(2) quiet_stored[OF u(3)] by (intro exI[of _ "es @ es'"]) simp
qed

theorem put_new_file_stores_nothing_witness:
  "\<exists>es. trace (snd (run_state (put nfs_demo nd_fuel (nd_url ''/e/n'') 0x1A4 nd_flags) nd_state)) = trace nd_state @ es \<and>
     supplied es = []"
proof (rule put_new_file_stores_nothing)
  show "counts_writes nfs_demo" by (auto simp: counts_writes_def neq_Nil_conv)
  show "m_writeBufferSize nd_state = 0" by (simp add: nd_state_def)
  show "\<forall>h v. run_state (getFileHandle nfs_demo nd_fuel (path (nd_url ''/e/n''))) nd_state \<noteq> (Some (Inr h), v)"
    by (simp add: lookupFileHandle_by_def lookupHandle_by_def nd_defs nd_runs)
  show "run_state (put nfs_demo nd_fuel (nd_url ''/e/n'') 0x1A4 nd_flags) nd_state
      = (Some Pass, snd (run_state (put nfs_demo nd_fuel (nd_url ''/e/n'') 0x1A4 nd_flags) nd_state))"
    by (simp add: put_def create_def lookupFileHandle_by_def lookupHandle_by_def nd_defs nd_runs)
qed

end
