(* ===== verification/NfsCopyFacts.thy ===== *)
theory NfsCopyFacts
  imports NfsState NfsFileFacts
begin

text \<open>
  What becomes of copies over NFS where the code has forgotten something: the preferred sizes of a copy
  within the server, links.
\<close>

section \<open>Copies within the server\<close>

definition reads_counted :: "'w nfs \<Rightarrow> bool" where
  "reads_counted F \<longleftrightarrow> (\<forall>fh off w d attr w'. n_read F fh off 0 w = (Ok (d, attr), w') \<longrightarrow> d = [])"

definition sizes_unknown :: "'w ns \<Rightarrow> bool" where
  "sizes_unknown s \<longleftrightarrow> min (m_readBufferSize s) (m_writeBufferSize s) = 0"

text \<open>With an unknown size nothing is written, and the size stays unknown.\<close>

definition idle :: "'w ns \<Rightarrow> 'w ns \<Rightarrow> bool" where
  "idle s t \<longleftrightarrow> (sizes_unknown s \<longrightarrow> sizes_unknown t \<and> did no_write s t)"

lemma reflp_idle: "reflp idle"
  by (rule reflpI) (simp add: idle_def did_refl)

lemma transp_idle: "transp idle"
  by (rule transpI) (metis idle_def transpD[OF transp_did])

lemma idle_update: "trace t = trace s \<Longrightarrow> m_readBufferSize t = m_readBufferSize s \<Longrightarrow>
    m_writeBufferSize t = m_writeBufferSize s \<Longrightarrow> idle s t"
  by (simp add: idle_def sizes_unknown_def did_def)

interpretation idly: change_rel idle no_write
proof unfold_locales
  show "state_io_rel idle (addFileHandle p h)" for p h
    unfolding addFileHandle_def by (intro rel_if rel_return reflp_idle rel_update idle_update) simp_all
  show "state_io_rel idle (removeFileHandle p)" for p
    unfolding removeFileHandle_def by (intro rel_update idle_update) simp_all
qed (simp_all add: reflp_idle transp_idle idle_def sizes_unknown_def did_def)

lemma count_nil: "count_of [] = 0"
  by (simp add: count_of_def)

lemma idle_copyLoop:
  assumes "reads_counted F"
  shows "state_io_rel (did no_write) (copyLoop F n src dest from to 0 resume x y)"
proof (cases n)
  case (Suc k)
  have got: "d = []" if "n_read F from x 0 w = (Ok (d, attr), w')" for d attr w w'
    using assms that unfolding reads_counted_def by blast
  have "state_io_rel (did no_write) (case r of
       Ok (d, attr) \<Rightarrow> do {
         (if firstBlock resume x y then do {
            tell (EWorker (AMimeType (t_mime F (fileName src) d)));
            tell (EWorker (ATotalSize (at_size attr)))
          } else ret ());
         let x' = x + word_of_int (count_of d);
         (if count_of d > 0 then do {
            w \<leftarrow> call (n_write F to y d) (\<lambda>a. EChange (NWrite to y d a));
            case w of
              Ok _ \<Rightarrow> do {
                tell (EWorker (AProcessedSize x'));
                copyLoop F k src dest from to 0 resume x' (y + word_of_int (count_of d))
              }
            | _ \<Rightarrow> ret (Some (Some (checkResult F w (path dest)), x', y))
          }
          else ret (Some (None, x, y)))
       }
     | _ \<Rightarrow> ret (Some (Some (checkResult F r (path src)), x, y)))" if "n_read F from x 0 w = (r, w')" for r w w'
  proof (cases r)
    case (Ok p)
    then have "fst p = []" using got[of w "fst p" "snd p" w'] that by simp
    then show ?thesis using Ok
      by (cases p) (auto simp: count_nil Let_def intro!: rel_intros did_tell)
  qed (auto intro!: rel_intros)
  then show ?thesis unfolding Suc copyLoop.simps by (intro rel_bind_call) simp_all
qed (simp add: rel_return reflp_did)

lemma setup_copyLoop: "state_io_rel same_setup (copyLoop F n src dest from to cnt resume x y)"
  by (induction n arbitrary: x y) (auto intro!: rel_intros nfs_rel simp: Let_def)

lemma idle_both: "state_io_rel same_setup m \<Longrightarrow> state_io_rel (did no_write) m \<Longrightarrow> state_io_rel idle m"
  by (simp add: state_io_rel_def idle_def same_setup_def sizes_unknown_def)

text \<open>The value that \<open>get\<close> gives is the state.\<close>

lemma rel_get_bind: "(\<And>s. R s (snd (run_state (f s) s))) \<Longrightarrow> state_io_rel R (State_Monad.bind State_Monad.get f)"
  by (simp add: state_io_rel_def)

lemma idle_get_bind:
  assumes "\<And>s. sizes_unknown s \<Longrightarrow> state_io_rel idle (f s)"
  shows "state_io_rel idle (State_Monad.bind State_Monad.get f)"
proof (rule rel_get_bind)
  fix s
  show "idle s (snd (run_state (f s) s))"
    using assms[of s] by (cases "sizes_unknown s") (simp_all add: state_io_rel_def idle_def)
qed

lemma idle_copySameFile:
  assumes "reads_counted F"
  shows "state_io_rel idle (copySameFile F n src dest mode h)"
proof -
  have "state_io_rel idle (copyLoop F n src dest a b cnt resume x y)" if "cnt = 0" for a b cnt resume x y
    unfolding that by (rule idle_both[OF setup_copyLoop idle_copyLoop[OF assms]])
  then show ?thesis unfolding copySameFile_def Let_def
    by (intro idle_get_bind idly.checkPart_rel idly.openDest_rel idly.copySameEnd_rel idly.parts)
       (auto simp: sizes_unknown_def min_def word_le_less_eq split: if_splits)
qed

lemma idle_copySame: "reads_counted F \<Longrightarrow> state_io_rel idle (copySame F n src dest mode fl)"
  unfolding copySame_def by (intro idly.parts idly.copySameLink_rel idle_copySameFile)

text \<open>
  A copy within the server transfers nothing as long as one of the preferred sizes is not known:
  the code does not ask for them here, a read of zero bytes finds the end of the file at once, and not
  one write is sent, whatever the copy goes on to do with the destination.
\<close>

lemma same_copy_transfers_nothing:
  assumes "reads_counted F" "sizes_unknown s"
  shows "\<exists>es. trace (snd (run_state (copySame F n src dest mode flags) s)) = trace s @ es \<and> list_all no_write es"
  using idle_copySame[OF assms(1)] assms(2) by (simp add: state_io_rel_def idle_def did_def)

lemma same_copy_transfers_nothing_instance:
  "\<exists>es. trace (snd (run_state (copySame nfs_demo 9 (nd_url ''/e/f'') (nd_url ''/e/n'') (-1) nd_flags) nd_state))
     = trace nd_state @ es \<and> list_all no_write es"
  by (rule same_copy_transfers_nothing) (auto simp: reads_counted_def sizes_unknown_def nd_state_def)

section \<open>Links\<close>

text \<open>Requests that change nothing, and the question whether a local file is there.\<close>

fun reads_only :: "nev \<Rightarrow> bool" where
  "reads_only (ELook _) = True"
| "reads_only (EWorker AException) = True"
| "reads_only (EQFile (QExists _ _)) = True"
| "reads_only _ = False"

lemma asks_reads: "asks_only e \<Longrightarrow> reads_only e"
  by (cases e rule: asks_only.cases) auto

lemma did_reads_only: "state_io_rel (did asks_only) m \<Longrightarrow> state_io_rel (did reads_only) m"
  by (erule rel_did_mono) (rule asks_reads)

lemma link_fails:
  "fst (run_state (copySameLink F n src dest) s) \<noteq> Some Pass"
  "fst (run_state (copyFromLink F n p q) s) \<noteq> Some Pass"
  unfolding copySameLink_def copyFromLink_def
  by (auto simp: symLinkTarget_def run_andThen split: prod.splits option.splits sum.splits)

lemma link_reads:
  "state_io_rel (did reads_only) (copySameLink F n src dest)"
  "state_io_rel (did reads_only) (copyFromLink F n p q)"
proof -
  have go: "state_io_rel (did reads_only) (andThen (symLinkTarget F n p) k)"
    if "state_io_rel (did reads_only) (k (NfsError NFS3ERR_NOENT))"
    for p and k :: "string reply \<Rightarrow> ('b ns, worker_result option) state" and F :: "'b nfs"
    unfolding state_io_rel_def
  proof
    fix s
    have m: "state_io_rel (did reads_only) (symLinkTarget F n p)" by (rule did_reads_only) (rule asks.symLinkTarget_rel)
    obtain a t where a: "run_state (symLinkTarget F n p) s = (a, t)" by fastforce
    have "a = None \<or> a = Some (NfsError NFS3ERR_NOENT)"
      using a by (auto simp: symLinkTarget_def run_andThen split: prod.splits option.splits sum.splits)
    moreover have "did reads_only s t" by (rule relD[OF m a])
    moreover have "did reads_only t (snd (run_state (k (NfsError NFS3ERR_NOENT)) t))"
      using that by (simp add: state_io_rel_def)
    ultimately show "did reads_only s (snd (run_state (andThen (symLinkTarget F n p) k) s))"
      using transpD[OF transp_did] by (fastforce simp: run_andThen a)
  qed
  show "state_io_rel (did reads_only) (copySameLink F n src dest)" unfolding copySameLink_def
    by (rule go) (simp add: rel_return reflp_did)
  show "state_io_rel (did reads_only) (copyFromLink F n p q)" unfolding copyFromLink_def
    by (rule go) (simp add: rel_return reflp_did)
qed

text \<open>
  C32. The target of a link is never read, since the code takes a handle that was found for a failure: a
  copy of a link within the server or from the server does not pass, and neither the server nor a local
  file is changed.
\<close>

theorem link_is_not_copied:
  assumes "run_state (getFileHandle F n (path src)) s = (Some (Inr h), u)" "m_isLink h" "\<not> isLocalFile src"
  shows "fst (run_state (copy F n src dest mode flags) s) \<noteq> Some Pass \<and>
    did reads_only s (snd (run_state (copy F n src dest mode flags) s))"
proof
  have found: "run_state (withHandle F n (path src) k) s = run_state (k h) u" for k
    using assms(1) by (simp add: withHandle_def run_andThen)
  show "fst (run_state (copy F n src dest mode flags) s) \<noteq> Some Pass"
    using assms(2,3)
    by (auto simp: copy_def copySame_def copyFrom_def found run_andThen call_def link_fails
      split: prod.splits option.splits)
  have looked: "did reads_only s u"
    by (rule relD[OF did_reads_only[OF asks.getFileHandle_rel] assms(1)])
  have exists_reads: "state_io_rel (did reads_only) (exists_path F n p)" for p
    by (rule did_reads_only) (rule asks.exists_path_rel)
  have "state_io_rel (did reads_only) (if isInvalid h then ret (Some (Fail ERR_DOES_NOT_EXIST (path src)))
     else do {
       there \<leftarrow> call (q_exists F (path dest)) (\<lambda>a. EQFile (QExists (path dest) a));
       if there \<and> \<not> fl_overwrite flags then ret (Some (Fail ERR_FILE_ALREADY_EXIST (path dest)))
       else if m_isLink h then copyFromLink F n (path src) (path dest)
       else copyFromFile F n src (path dest) mode h
     })" by (intro rel_intros did_call link_reads) (simp_all add: assms(2))
  then have "did reads_only s (snd (run_state (copyFrom F n src dest mode flags) s))"
    unfolding copyFrom_def found using looked transpD[OF transp_did] by (fastforce simp: state_io_rel_def)
  moreover have "did reads_only s (snd (run_state (copySame F n src dest mode flags) s))"
  proof -
    have "state_io_rel (did reads_only) (if isInvalid h then ret (Some (Fail ERR_DOES_NOT_EXIST (path src)))
       else if isExportedDir (m_exportedDirs s) (dirName (path dest))
       then ret (Some (Fail ERR_ACCESS_DENIED (path dest)))
       else andThen (exists_path F n (path dest)) (\<lambda>there.
         if there \<and> \<not> fl_overwrite flags then ret (Some (Fail ERR_FILE_ALREADY_EXIST (path dest)))
         else if m_isLink h then copySameLink F n src dest
         else copySameFile F n src dest mode h))"
      by (intro rel_intros exists_reads link_reads) (simp_all add: assms(2))
    then have "did reads_only s (snd (run_state (if isInvalid h then ret (Some (Fail ERR_DOES_NOT_EXIST (path src)))
       else if isExportedDir (m_exportedDirs s) (dirName (path dest))
       then ret (Some (Fail ERR_ACCESS_DENIED (path dest)))
       else andThen (exists_path F n (path dest)) (\<lambda>there.
         if there \<and> \<not> fl_overwrite flags then ret (Some (Fail ERR_FILE_ALREADY_EXIST (path dest)))
         else if m_isLink h then copySameLink F n src dest
         else copySameFile F n src dest mode h)) u))"
      using looked transpD[OF transp_did] unfolding state_io_rel_def by blast
    then show ?thesis by (simp add: copySame_def found did_refl)
  qed
  ultimately show "did reads_only s (snd (run_state (copy F n src dest mode flags) s))"
    using assms(3) by (simp add: copy_def)
qed

theorem link_is_not_copied_witness:
  "fst (run_state (copy nfs_demo 9 (nd_url ''/e/s'') (nd_url ''/e/n'') (-1) nd_flags) nd_state) \<noteq> Some Pass"
proof -
  have "usable nd_state (path (nd_url ''/e/s'')) nd_link" by (simp add: usable_def nd_defs)
  from usable_run[OF this, of 9 nfs_demo]
  have "run_state (getFileHandle nfs_demo 9 (path (nd_url ''/e/s''))) nd_state = (Some (Inr nd_link), nd_state)" by simp
  from link_is_not_copied[OF this, of "nd_url ''/e/n''" "-1" nd_flags] show ?thesis
    by (simp add: nd_link_def isLocalFile_def nd_url_def)
qed

section \<open>Without Overwrite\<close>



end
