(* ===== verification/NfsDirFacts.thy ===== *)
theory NfsDirFacts
  imports NfsCopyFacts
begin

text \<open>Listing a directory over NFS with READDIRPLUS: where the code goes on from.\<close>

definition only_dots :: "entryplus3 list \<Rightarrow> bool" where
  "only_dots ens \<longleftrightarrow> ens \<noteq> [] \<and> list_all (\<lambda>en. en_name en = ''.'' \<or> en_name en = ''..'') ens"

definition begins_with_dots :: "'w nfs \<Rightarrow> fh3 \<Rightarrow> bool" where
  "begins_with_dots F dir \<longleftrightarrow> (\<forall>cnt w. \<exists>ens w'. n_readdirplus F dir 0 cnt w = (Ok (ens, False), w') \<and> only_dots ens)"

lemma texts_return: "fst (run_state (completeUDSEntry F a e) s) = x \<Longrightarrow> \<exists>t. run_state (completeUDSEntry F a e) s = (x, t)"
  by (metis prod.collapse)

lemma plusEntries_dots:
  "list_all (\<lambda>en. en_name en = ''.'' \<or> en_name en = ''..'') ens \<Longrightarrow> \<exists>t. run_state (plusEntries F n p ens v) s = (Some v, t)"
proof (induction ens arbitrary: s)
  case (Cons en ens)
  obtain t where t: "run_state (plusEntry F n p en v) s = (Some v, t)"
    using Cons.prems
    by (cases "run_state (completeUDSEntry F (en_attr en) (createVirtualDirEntry [UDS_NAME ''.''])) s")
       (auto simp: plusEntry_def tell_def act_def call_def split: prod.splits)
  have "\<exists>u. run_state (plusEntries F n p ens v) t = (Some v, u)" by (rule Cons.IH) (use Cons.prems in simp)
  then show ?case using t by (simp add: run_andThen)
qed simp

lemma listPlus_dots:
  assumes "begins_with_dots F dir"
  shows "fst (run_state (listPlus F n url dir (valid, 0)) s) = None"
proof (induction n arbitrary: s)
  case (Suc n)
  obtain ens w where w: "n_readdirplus F dir 0 (m_readDirSize s) (world s) = (Ok (ens, False), w)" "only_dots ens"
    using assms unfolding begins_with_dots_def by blast
  define u where "u = s\<lparr>world := w, trace := trace s @ [ELook (NReaddirplus dir 0 (m_readDirSize s) (Ok (ens, False)))]\<rparr>"
  obtain t where t: "run_state (plusEntries F n (path url) ens (valid, 0)) u = (Some (valid, 0), t)"
    using plusEntries_dots w(2) unfolding only_dots_def by blast
  show ?case using w t Suc.IH[of t] by (simp add: call_def only_dots_def run_andThen u_def)
qed simp



end
