(* ===== verification/KioMessages.thy ===== *)
theory KioMessages
  imports QtUrl Calls
begin

text \<open>
  What a worker says to its application, for the workers that need nothing else of it, and the flags of
  \<open>KIO::StatDetails\<close>.
\<close>

datatype (plugins only: code) app_msg =
    MsgData "byte list" | MsgMimeType string | MsgTotalSize u64 | MsgProcessedSize u64
  | MsgListEntry uds | MsgStatEntry uds | MsgRedirection qurl | MsgPosition u64 | MsgWritten u64
  | MsgWasKilled bool | MsgDataReq | MsgReadData int "byte list" | MsgWarning string
  | MsgTruncated u64 | MsgErrorPage string

definition StatDefaultDetails :: u32 where "StatDefaultDetails = 0x1F"
definition StatRecursiveSize :: u32 where "StatRecursiveSize = 0x40"
definition StatMimeType :: u32 where "StatMimeType = 0x80"

end
