(* ===== verification/Archive.thy ===== *)
theory Archive
  imports KioMessages
begin

text \<open>
  The archive workers (archive/kio_archivebase.h, archive/kio_archivebase.cpp, archive/kio_archive.cpp):
  finding the archive in a path, keeping it open between requests, listing, describing and reading what
  is in it. The library that reads archives is a parameter: opening one gives its tree of entries and a
  function that finds an entry by its path, a file gives a device to read.
\<close>

section \<open>What is in an archive\<close>

text \<open>\<open>KArchiveEntry\<close>; \<open>ae_date\<close> in seconds since the epoch. A directory has its names in order.\<close>

record arc_info =
  ae_name :: string
  ae_user :: string
  ae_group :: string
  ae_target :: string
  ae_permissions :: mode_t
  ae_date :: int

datatype arc_entry = FileEntry arc_info int | DirEntry arc_info "(string \<times> arc_entry) list"

fun entry_info :: "arc_entry \<Rightarrow> arc_info" where
  "entry_info (FileEntry i n) = i"
| "entry_info (DirEntry i es) = i"

fun is_file :: "arc_entry \<Rightarrow> bool" where
  "is_file (FileEntry i n) = True"
| "is_file (DirEntry i es) = False"

text \<open>An open archive: its file, and \<open>root->entry(path)\<close> with whether that is the root itself.\<close>

record archive =
  ar_fileName :: string
  ar_root :: arc_entry
  ar_entry :: "string \<Rightarrow> (bool \<times> arc_entry) option"

datatype arc_kind = KAr | KTar | KZip | K7Zip

section \<open>What the worker calls\<close>

record arc_stat =
  as_mode :: mode_t
  as_mtime :: int
  as_uid :: u32
  as_gid :: u32

datatype (plugins only: code) arc_ev =
    RStat string "arc_stat + errno" | ROpen arc_kind string bool | RClose string
  | RDevice string "int option" | RDevOpen int bool | RAtEnd int bool | RRead int int "byte list option" | RDevClose int
  | RApp app_msg

record 'w arc =
  k_stat :: "string \<Rightarrow> 'w \<Rightarrow> (arc_stat + errno) \<times> 'w"
  k_open :: "arc_kind \<Rightarrow> string \<Rightarrow> 'w \<Rightarrow> archive option \<times> 'w"
  k_close :: "string \<Rightarrow> 'w \<Rightarrow> 'w"
  k_createDevice :: "arc_entry \<Rightarrow> 'w \<Rightarrow> int option \<times> 'w"
  k_devOpen :: "int \<Rightarrow> 'w \<Rightarrow> bool \<times> 'w"
  k_atEnd :: "int \<Rightarrow> 'w \<Rightarrow> bool \<times> 'w"
  k_read :: "int \<Rightarrow> int \<Rightarrow> 'w \<Rightarrow> byte list option \<times> 'w"
  k_devClose :: "int \<Rightarrow> 'w \<Rightarrow> 'w"
  k_wasKilled :: "'w \<Rightarrow> bool \<times> 'w"
  k_userName :: "u32 \<Rightarrow> string"
  k_groupName :: "u32 \<Rightarrow> string"
  k_mimeFile :: "string \<Rightarrow> string option"
  k_mimeDevice :: "string \<Rightarrow> arc_entry \<Rightarrow> string option"
  k_mimeData :: "string \<Rightarrow> byte list \<Rightarrow> string"
  k_displayText :: "qurl \<Rightarrow> string"
  k_localText :: "string \<Rightarrow> string"
  k_resolved :: "qurl \<Rightarrow> string \<Rightarrow> qurl"
  k_details :: "u32 option"

record 'w arcs = "('w, arc_ev) io" +
  m_archiveFile :: "archive option"
  m_archiveName :: string
  m_user :: string
  m_group :: string
  m_mtime :: int

section \<open>Finding the archive\<close>

definition createArchive :: "string \<Rightarrow> arc_kind option" where
  "createArchive proto =
     (if proto = ''ar'' then Some KAr else if proto = ''tar'' then Some KTar
      else if proto = ''zip'' then Some KZip else if proto = ''sevenz'' then Some K7Zip else None)"

text \<open>The positions of \<open>/\<close> after the first character, in order: where the search stops.\<close>

definition slash_positions :: "string \<Rightarrow> nat list" where
  "slash_positions full = filter (\<lambda>i. 1 \<le> i \<and> full ! i = CHR ''/'') [0..<length full]"

definition innerPath :: "string \<Rightarrow> nat \<Rightarrow> string" where
  "innerPath full pos =
     (let p = drop (pos + 1) full in
      if length p > 1 then (if ends_with ''/'' p then chop 1 p else p) else ''/'')"

text \<open>
  The error; or the archive with its position, if there is one, and the mode that the last \<open>stat\<close> left.
\<close>

fun findArchive ::
  "'w arc \<Rightarrow> string \<Rightarrow> nat list \<Rightarrow> mode_t \<Rightarrow> ('w arcs, kio_error + (string \<times> nat) option \<times> mode_t) state" where
  "findArchive F full [] mode = ret (Inr (None, mode))"
| "findArchive F full (pos # ps) mode = do {
     let tryPath = take pos full;
     r \<leftarrow> call (k_stat F tryPath) (\<lambda>a. RStat tryPath a);
     case r of
       Inr e \<Rightarrow> ret (if e = ENOENT then Inr (None, 0) else if e = EACCES then Inl ERR_ACCESS_DENIED else Inl ERR_CANNOT_STAT)
     | Inl st \<Rightarrow>
         (if \<not> S_ISDIR (as_mode st) then do {
            State_Monad.update (\<lambda>s. s\<lparr>m_mtime := as_mtime st, m_user := k_userName F (as_uid st),
              m_group := k_groupName F (as_gid st)\<rparr>);
            ret (Inr (Some (tryPath, pos), as_mode st))
          }
          else findArchive F full ps (as_mode st))
   }"

definition closeArchive :: "'w arc \<Rightarrow> ('w arcs, unit) state" where
  "closeArchive F = do {
     s \<leftarrow> State_Monad.get;
     (if m_archiveFile s \<noteq> None then act (k_close F (m_archiveName s)) (RClose (m_archiveName s)) else ret ());
     State_Monad.update (\<lambda>s. s\<lparr>m_archiveFile := None\<rparr>)
   }"

definition openArchive :: "'w arc \<Rightarrow> string \<Rightarrow> string \<Rightarrow> string \<Rightarrow> ('w arcs, kio_error + string) state" where
  "openArchive F proto archiveFile inner = (case createArchive proto of
     None \<Rightarrow> ret (Inl ERR_UNSUPPORTED_PROTOCOL)
   | Some kind \<Rightarrow> do {
       r \<leftarrow> call (k_open F kind archiveFile) (\<lambda>a. ROpen kind archiveFile (a \<noteq> None));
       case r of
         None \<Rightarrow> ret (Inl ERR_CANNOT_OPEN_FOR_READING)
       | Some a \<Rightarrow> do {
           State_Monad.update (\<lambda>s. s\<lparr>m_archiveFile := Some a, m_archiveName := archiveFile\<rparr>);
           ret (Inr inner)
         }
     })"

definition fullPath :: "string \<Rightarrow> string" where
  "fullPath p = (if p \<noteq> [] \<and> \<not> ends_with ''/'' p then p @ ''/'' else p)"

definition newFile :: "'w arc \<Rightarrow> qurl \<Rightarrow> ('w arcs, kio_error + string) state" where
  "newFile F url = do {
     closeArchive F;
     let full = fullPath (path url);
     r \<leftarrow> findArchive F full (slash_positions full) 0;
     case r of
       Inl e \<Rightarrow> ret (Inl e)
     | Inr (None, mode) \<Rightarrow> ret (Inl (if S_ISDIR mode then ERR_IS_DIRECTORY else ERR_DOES_NOT_EXIST))
     | Inr (Some (archiveFile, pos), _) \<Rightarrow> openArchive F (scheme url) archiveFile (innerPath full pos)
   }"

text \<open>Whether a path is the open archive or in it.\<close>

definition within :: "string \<Rightarrow> string \<Rightarrow> bool" where
  "within name full \<longleftrightarrow> starts_with name full \<and>
     (length full = length name \<or> full ! length name = CHR ''/'')"

definition stillOpen :: "'w arc \<Rightarrow> string \<Rightarrow> ('w arcs, bool) state" where
  "stillOpen F full = do {
     s \<leftarrow> State_Monad.get;
     if m_archiveFile s \<noteq> None \<and> within (m_archiveName s) full then do {
       r \<leftarrow> call (k_stat F (m_archiveName s)) (\<lambda>a. RStat (m_archiveName s) a);
       ret (case r of Inl st \<Rightarrow> m_mtime s = as_mtime st | Inr _ \<Rightarrow> False)
     }
     else ret False
   }"

definition checkNewFile :: "'w arc \<Rightarrow> qurl \<Rightarrow> ('w arcs, kio_error + string) state" where
  "checkNewFile F url = do {
     open' \<leftarrow> stillOpen F (path url);
     s \<leftarrow> State_Monad.get;
     if open' then ret (Inr (drop (length (m_archiveName s)) (path url))) else newFile F url
   }"

text \<open>
  After a check that passes there is an open archive (\<open>checkNewFile_opens\<close> of \<open>ArchiveFacts\<close>), so the
  handlers below need no case for none; they answer a pass in it.
\<close>

section \<open>Entries\<close>

text \<open>The sizes are added up in an \<open>unsigned int\<close>.\<close>

fun computeArchiveDirSize :: "(string \<times> arc_entry) list \<Rightarrow> u32"
  and entrySize :: "arc_entry \<Rightarrow> u32" where
  "computeArchiveDirSize [] = 0"
| "computeArchiveDirSize ((n, e) # es) = entrySize e + computeArchiveDirSize es"
| "entrySize (FileEntry i k) = word_of_int k"
| "entrySize (DirEntry i es) = computeArchiveDirSize es"

definition getStatDetails :: "'w arc \<Rightarrow> u32" where
  "getStatDetails F = (case k_details F of None \<Rightarrow> StatDefaultDetails | Some d \<Rightarrow> d)"

definition createRootUDSEntry :: "'w arc \<Rightarrow> archive \<Rightarrow> 'w arcs \<Rightarrow> uds" where
  "createRootUDSEntry F a s =
     [UDS_NAME ''.'', UDS_DISPLAY_NAME (rev (takeWhile (\<lambda>c. c \<noteq> CHR ''/'') (rev (ar_fileName a)))),
      UDS_USER (m_user s), UDS_GROUP (m_group s)]
     @ (case k_mimeFile F (ar_fileName a) of None \<Rightarrow> [] | Some t \<Rightarrow> [UDS_MIME_TYPE t])
     @ [UDS_FILE_TYPE S_IFDIR, UDS_MODIFICATION_TIME (m_mtime s)]"

definition createUDSEntry :: "arc_entry \<Rightarrow> uds" where
  "createUDSEntry e =
     (let i = entry_info e in
      [UDS_NAME (ae_name i), UDS_USER (ae_user i), UDS_GROUP (ae_group i), UDS_LINK_DEST (ae_target i),
       UDS_FILE_TYPE (if is_file e then ae_permissions i AND S_IFMT else S_IFDIR),
       UDS_MODIFICATION_TIME (ae_date i), UDS_ACCESS (ae_permissions i AND 0xFFF)]
      @ (case e of FileEntry _ n \<Rightarrow> [UDS_SIZE n] | _ \<Rightarrow> []))"

section \<open>Requests\<close>

abbreviation say :: "app_msg \<Rightarrow> ('w arcs, unit) state" where
  "say m \<equiv> tell (RApp m)"

definition formatText :: "'w arc \<Rightarrow> qurl \<Rightarrow> string" where
  "formatText F url = ''Could not open the file, probably due to an unsupported file format.'' @ [CHR 0x0A] @ k_displayText F url"

text \<open>The failure of a request whose archive was not found, a directory apart.\<close>

definition notFound :: "'w arc \<Rightarrow> qurl \<Rightarrow> kio_error \<Rightarrow> worker_result" where
  "notFound F url e =
     (if e = ERR_CANNOT_OPEN_FOR_READING then Fail ERR_WORKER_DEFINED (formatText F url)
      else Fail e (k_displayText F url))"

definition fromLocalFile :: "string \<Rightarrow> qurl" where
  "fromLocalFile p = empty_qurl\<lparr>scheme := ''file'', path := p\<rparr>"

fun listEntries :: "'w arc \<Rightarrow> (string \<times> arc_entry) list \<Rightarrow> ('w arcs, unit) state" where
  "listEntries F [] = ret ()"
| "listEntries F ((n, e) # es) = do {
     killed \<leftarrow> call (k_wasKilled F) (\<lambda>a. RApp (MsgWasKilled a));
     if killed then ret ()
     else do {
       say (MsgListEntry (createUDSEntry e));
       listEntries F es
     }
   }"

definition listDirectory :: "'w arc \<Rightarrow> archive \<Rightarrow> (string \<times> arc_entry) list \<Rightarrow> ('w arcs, worker_result) state" where
  "listDirectory F a es = do {
     say (MsgTotalSize (word_of_nat (length es)));
     s \<leftarrow> State_Monad.get;
     (if ''.'' \<notin> set (map fst es) then say (MsgListEntry (createRootUDSEntry F a s)) else ret ());
     listEntries F es;
     ret Pass
   }"

text \<open>What is listed, or the failure; \<open>entry\<close> does not give the root for a name.\<close>

definition directoryOf :: "'w arc \<Rightarrow> archive \<Rightarrow> qurl \<Rightarrow> string \<Rightarrow> worker_result + (string \<times> arc_entry) list" where
  "directoryOf F a url p =
     (case (if p \<noteq> ''/'' then map_option snd (ar_entry a p) else Some (ar_root a)) of
        None \<Rightarrow> Inl (Fail ERR_DOES_NOT_EXIST (k_displayText F url))
      | Some (FileEntry _ _) \<Rightarrow> Inl (Fail ERR_IS_FILE (k_displayText F url))
      | Some (DirEntry _ es) \<Rightarrow> Inr es)"

definition listDir :: "'w arc \<Rightarrow> qurl \<Rightarrow> ('w arcs, worker_result) state" where
  "listDir F url = do {
     r \<leftarrow> checkNewFile F url;
     s \<leftarrow> State_Monad.get;
     case r of
       Inl e \<Rightarrow>
         (if e \<noteq> ERR_IS_DIRECTORY then ret (notFound F url e)
          else do {
            say (MsgRedirection (fromLocalFile (path url)));
            State_Monad.update (\<lambda>s. s\<lparr>m_archiveFile := None\<rparr>);
            ret Pass
          })
     | Inr p \<Rightarrow>
         (if p = [] then do {
            say (MsgRedirection (empty_qurl\<lparr>scheme := scheme url, path := path url @ ''/''\<rparr>));
            ret Pass
          }
          else case m_archiveFile s of
            None \<Rightarrow> ret Pass
          | Some a \<Rightarrow> (case directoryOf F a url p of Inl e \<Rightarrow> ret e | Inr es \<Rightarrow> listDirectory F a es))
   }"

definition statRealDir :: "'w arc \<Rightarrow> qurl \<Rightarrow> ('w arcs, worker_result) state" where
  "statRealDir F url = do {
     r \<leftarrow> call (k_stat F (path url)) (\<lambda>a. RStat (path url) a);
     case r of
       Inr _ \<Rightarrow> ret (Fail ERR_CANNOT_STAT (k_displayText F url))
     | Inl st \<Rightarrow> do {
         say (MsgStatEntry [UDS_NAME (fileName url), UDS_TARGET_URL (k_localText F (path url)),
           UDS_FILE_TYPE (as_mode st AND S_IFMT)]);
         State_Monad.update (\<lambda>s. s\<lparr>m_archiveFile := None\<rparr>);
         ret Pass
       }
   }"

definition statDetails :: "'w arc \<Rightarrow> string \<Rightarrow> arc_entry \<Rightarrow> uds" where
  "statDetails F p e =
     (let details = getStatDetails F in
      case e of
        DirEntry _ es \<Rightarrow>
          (if details AND StatMimeType \<noteq> 0 then [UDS_MIME_TYPE ''inode/directory''] else [])
          @ (if details AND StatRecursiveSize \<noteq> 0 then [UDS_RECURSIVE_SIZE (uint (computeArchiveDirSize es))] else [])
      | FileEntry _ _ \<Rightarrow>
          (if details AND StatMimeType \<noteq> 0
           then (case k_mimeDevice F p e of None \<Rightarrow> [] | Some t \<Rightarrow> [UDS_MIME_TYPE t]) else []))"

definition stat :: "'w arc \<Rightarrow> qurl \<Rightarrow> ('w arcs, worker_result) state" where
  "stat F url = do {
     r \<leftarrow> checkNewFile F url;
     s \<leftarrow> State_Monad.get;
     case r of
       Inl e \<Rightarrow> (if e \<noteq> ERR_IS_DIRECTORY then ret (notFound F url e) else statRealDir F url)
     | Inr p \<Rightarrow> (case m_archiveFile s of
           None \<Rightarrow> ret Pass
         | Some a \<Rightarrow>
             (let p' = (if p = [] then ''/'' else p) in
              case (if p = [] then Some (True, ar_root a) else ar_entry a p) of
                None \<Rightarrow> ret (Fail ERR_DOES_NOT_EXIST (k_displayText F url))
              | Some (root, e) \<Rightarrow> do {
                  say (MsgStatEntry ((if root then createRootUDSEntry F a s else createUDSEntry e) @ statDetails F p' e));
                  ret Pass
                }))
   }"

section \<open>get\<close>

definition maxSize :: int where "maxSize = 0x100000"

text \<open>One turn of the loop for each unit of fuel; None when it is used up.\<close>

fun getLoop ::
  "'w arc \<Rightarrow> nat \<Rightarrow> qurl \<Rightarrow> string \<Rightarrow> int \<Rightarrow> bool \<Rightarrow> int \<Rightarrow> u64 \<Rightarrow> ('w arcs, worker_result option option) state" where
  "getLoop F 0 url p dev firstRead fileSize processed = ret None"
| "getLoop F (Suc n) url p dev firstRead fileSize processed = do {
     atEnd \<leftarrow> call (k_atEnd F dev) (\<lambda>a. RAtEnd dev a);
     if atEnd \<or> fileSize \<le> 0 then ret (Some None)
     else do {
       killed \<leftarrow> call (k_wasKilled F) (\<lambda>a. RApp (MsgWasKilled a));
       if killed then ret (Some None)
       else do {
         let bufferSize = min maxSize fileSize;
         r \<leftarrow> call (k_read F dev bufferSize) (\<lambda>a. RRead dev bufferSize a);
         case r of
           None \<Rightarrow> ret (Some (Some (Fail ERR_CANNOT_READ (k_displayText F url))))
         | Some d \<Rightarrow>
             (if int (length d) \<noteq> bufferSize then ret (Some (Some (Fail ERR_CANNOT_READ (k_displayText F url))))
              else do {
                (if firstRead then say (MsgMimeType (k_mimeData F p d)) else ret ());
                say (MsgData d);
                let processed = processed + word_of_nat (length d);
                say (MsgProcessedSize processed);
                getLoop F n url p dev False (fileSize - bufferSize) processed
              })
       }
     }
   }"

text \<open>Reading a file that is not a link; every turn but the last delivers at least one byte.\<close>

definition getFile :: "'w arc \<Rightarrow> qurl \<Rightarrow> string \<Rightarrow> arc_entry \<Rightarrow> int \<Rightarrow> ('w arcs, worker_result option) state" where
  "getFile F url p e fileSize = do {
     d \<leftarrow> call (k_createDevice F e) (\<lambda>a. RDevice p a);
     case d of
       None \<Rightarrow> ret (Some (Fail ERR_WORKER_DEFINED (''The archive file could not be opened, perhaps because the format is unsupported.''
         @ [CHR 0x0A] @ k_displayText F url)))
     | Some dev \<Rightarrow> do {
         ok \<leftarrow> call (k_devOpen F dev) (\<lambda>a. RDevOpen dev a);
         if \<not> ok then ret (Some (Fail ERR_CANNOT_OPEN_FOR_READING (k_displayText F url)))
         else do {
           say (MsgTotalSize (word_of_int fileSize));
           andThen (getLoop F (nat fileSize + 1) url p dev True fileSize 0) (\<lambda>r. case r of
             Some e \<Rightarrow> ret (Some e)
           | None \<Rightarrow> do {
               act (k_devClose F dev) (RDevClose dev);
               say (MsgData []);
               ret (Some Pass)
             })
         }
       }
   }"

definition get :: "'w arc \<Rightarrow> qurl \<Rightarrow> ('w arcs, worker_result option) state" where
  "get F url = do {
     r \<leftarrow> checkNewFile F url;
     s \<leftarrow> State_Monad.get;
     case r of
       Inl e \<Rightarrow> ret (Some (notFound F url e))
     | Inr p \<Rightarrow> (case m_archiveFile s of
           None \<Rightarrow> ret (Some Pass)
         | Some a \<Rightarrow> (case map_option snd (ar_entry a p) of
               None \<Rightarrow> ret (Some (Fail ERR_DOES_NOT_EXIST (k_displayText F url)))
             | Some (DirEntry _ _) \<Rightarrow> ret (Some (Fail ERR_IS_DIRECTORY (k_displayText F url)))
             | Some (FileEntry i n) \<Rightarrow>
                 (if ae_target i \<noteq> [] then do {
                    say (MsgRedirection (k_resolved F url (ae_target i)));
                    ret (Some Pass)
                  }
                  else getFile F url p (FileEntry i n) n)))
   }"

end
