(* ===== verification/ArchiveDemo.thy ===== *)
theory ArchiveDemo
  imports Archive
begin

text \<open>
  A concrete archive of three bytes in one file, for the witnesses of the archive workers. The world is
  the position of the only device.
\<close>

definition arc_file :: arc_info where
  "arc_file = \<lparr>ae_name = ''f'', ae_user = ''u'', ae_group = ''g'', ae_target = [], ae_permissions = 0x81A4, ae_date = 7\<rparr>"

definition arc_tree :: arc_entry where
  "arc_tree = DirEntry (arc_file\<lparr>ae_name := []\<rparr>) [(''f'', FileEntry arc_file 3)]"

definition arc_demo :: "nat arc" where
  "arc_demo = \<lparr>
     k_stat = \<lambda>p w. (if p = ''/a.tar'' then Inl \<lparr>as_mode = 0x81A4, as_mtime = 5, as_uid = 1, as_gid = 1\<rparr> else Inr ENOENT, w),
     k_open = \<lambda>k p w. (Some \<lparr>ar_fileName = p, ar_root = arc_tree,
       ar_entry = \<lambda>q. if q = ''f'' then Some (False, FileEntry arc_file 3) else None\<rparr>, w),
     k_close = \<lambda>p w. w,
     k_createDevice = \<lambda>e w. (Some 4, 0),
     k_devOpen = \<lambda>d w. (True, w),
     k_atEnd = \<lambda>d w. (3 \<le> w, w),
     k_read = \<lambda>d n w. (Some (take (nat n) (drop w [1, 2, 3])), w + length (take (nat n) (drop w [1, 2, 3 :: byte]))),
     k_devClose = \<lambda>d w. w,
     k_wasKilled = \<lambda>w. (False, w),
     k_userName = \<lambda>u. ''u'', k_groupName = \<lambda>g. ''g'',
     k_mimeFile = \<lambda>p. None, k_mimeDevice = \<lambda>p e. None, k_mimeData = \<lambda>p d. ''text/plain'',
     k_displayText = path, k_localText = \<lambda>p. p, k_resolved = \<lambda>u t. u\<lparr>path := t\<rparr>, k_details = None\<rparr>"

definition arc_start :: "nat arcs" where
  "arc_start = \<lparr>world = 0, trace = [], m_archiveFile = None, m_archiveName = [], m_user = [], m_group = [], m_mtime = 0\<rparr>"

definition arc_url :: "string \<Rightarrow> qurl" where
  "arc_url p = empty_qurl\<lparr>scheme := ''tar'', path := p\<rparr>"

lemmas arc_defs = arc_demo_def arc_start_def arc_url_def empty_qurl_def mode_defs

lemmas arc_runs = call_def tell_def act_def run_andThen Let_def State_Monad.update_def

end
