(* ===== verification/ArchiveFacts.thy ===== *)
theory ArchiveFacts
  imports ArchiveDemo
begin

text \<open>
  What the archive workers answer: the place of an archive in a path, the size of a directory, the
  bytes of a file.
\<close>

section \<open>The open archive\<close>

text \<open>After a check that passes there is an open archive, so the handlers never go on without one.\<close>

lemma newFile_opens:
  "run_state (newFile F url) s = (Inr p, t) \<Longrightarrow> m_archiveFile t \<noteq> None"
  by (auto simp: newFile_def openArchive_def call_def State_Monad.update_def Let_def
      split: prod.splits sum.splits option.splits if_splits)

lemma stillOpen_run:
  "run_state (stillOpen F full) s = (b, t) \<Longrightarrow>
   m_archiveFile t = m_archiveFile s \<and> m_archiveName t = m_archiveName s \<and> m_mtime t = m_mtime s \<and>
   (b \<longrightarrow> m_archiveFile s \<noteq> None \<and> within (m_archiveName s) full)"
  by (auto simp: stillOpen_def call_def split: prod.splits sum.splits if_splits)

lemma checkNewFile_opens:
  "run_state (checkNewFile F url) s = (Inr p, t) \<Longrightarrow> m_archiveFile t \<noteq> None"
  by (auto simp: checkNewFile_def dest: stillOpen_run newFile_opens split: prod.splits if_splits)

text \<open>A path without the slashes at its ends.\<close>

definition strip :: "string \<Rightarrow> string" where
  "strip p = rev (dropWhile (\<lambda>c. c = CHR ''/'') (rev (dropWhile (\<lambda>c. c = CHR ''/'') p)))"

lemma strip_Cons: "strip (CHR ''/'' # p) = strip p"
  by (simp add: strip_def)

lemma strip_nil [simp]: "strip [] = []"
  by (simp add: strip_def)

lemma dropWhile_snoc: "dropWhile P (xs @ [x]) = (if list_all P xs then dropWhile P [x] else dropWhile P xs @ [x])"
  by (induction xs) auto

lemma strip_snoc: "strip (p @ ''/'') = strip p"
  by (simp add: strip_def dropWhile_snoc) (auto simp: list_all_iff dropWhile_eq_Nil_conv[THEN iffD2])

lemma ends_with_snoc: "ends_with ''/'' p \<Longrightarrow> p \<noteq> [] \<Longrightarrow> chop 1 p @ ''/'' = p"
  by (auto simp: ends_with_def chop_def) (metis append_take_drop_id)

lemma strip_inner:
  assumes "ends_with ''/'' full"
  shows "strip (innerPath full pos) = strip (drop (pos + 1) full)"
proof -
  let ?p = "drop (pos + 1) full"
  show ?thesis
  proof (cases "length ?p > 1")
    case True
    then show ?thesis
      using strip_snoc[of "chop 1 ?p"] ends_with_snoc[of ?p] by (auto simp: innerPath_def Let_def)
  next
    case False
    have full: "full = chop 1 full @ ''/''" using assms ends_with_snoc[OF assms] by (cases full) (auto simp: ends_with_def)
    have "?p = [] \<or> ?p = ''/''"
    proof (cases ?p)
      case (Cons c r)
      then have "?p = [c]" using False by simp
      then have "last full = c" by (metis append_take_drop_id last_snoc)
      then show ?thesis using full \<open>?p = [c]\<close> by (metis last_snoc)
    qed simp
    then show ?thesis using False by (auto simp: innerPath_def Let_def strip_Cons)
  qed
qed

lemma found_within:
  assumes "pos \<in> set (slash_positions (fullPath p))"
  shows "within (take pos (fullPath p)) p" "strip (drop pos p) = strip (innerPath (fullPath p) pos)"
proof -
  have pos: "1 \<le> pos" "pos < length (fullPath p)" "fullPath p ! pos = CHR ''/''"
    using assms by (auto simp: slash_positions_def)
  have p: "fullPath p = p \<or> fullPath p = p @ ''/''" "p \<noteq> []" using pos(2) by (auto simp: fullPath_def)
  then have le: "pos \<le> length p" using pos(2) by auto
  have pre: "take pos (fullPath p) = take pos p" using p le by auto
  have cut: "fullPath p ! pos = p ! pos" if "pos < length p" using p that by (auto simp: nth_append)
  show "within (take pos (fullPath p)) p"
    using pre le cut pos by (cases "pos = length p") (auto simp: within_def starts_with_def min_def)
  have "ends_with ''/'' (fullPath p)" using p(2) by (auto simp: fullPath_def)
  from strip_inner[OF this] have inner: "strip (innerPath (fullPath p) pos) = strip (drop (pos + 1) (fullPath p))" .
  have "drop pos (fullPath p) = CHR ''/'' # drop (pos + 1) (fullPath p)"
    using pos Cons_nth_drop_Suc[of pos "fullPath p"] by simp
  then have "strip (drop pos (fullPath p)) = strip (drop (pos + 1) (fullPath p))" by (simp add: strip_Cons)
  moreover have "strip (drop pos (fullPath p)) = strip (drop pos p)"
    using p le by (auto simp: strip_snoc)
  ultimately show "strip (drop pos p) = strip (innerPath (fullPath p) pos)" using inner by simp
qed

section \<open>The open archive and a fresh search\<close>

text \<open>
  The files do not change: \<open>fs\<close> is what \<open>stat\<close> gives, \<open>opens\<close> the archive that a file is. A path that ends
  with a slash leads to a directory or nowhere.
\<close>

definition static :: "'w arc \<Rightarrow> (string \<Rightarrow> arc_stat + errno) \<Rightarrow> (arc_kind \<Rightarrow> string \<Rightarrow> archive option) \<Rightarrow> bool" where
  "static F fs opens \<longleftrightarrow> (\<forall>p w. fst (k_stat F p w) = fs p) \<and> (\<forall>k p w. fst (k_open F k p w) = opens k p) \<and>
     (\<forall>p st. fs (p @ ''/'') = Inl st \<longrightarrow> S_ISDIR (as_mode st))"

text \<open>Where a URL leads: the archive, and the place in it.\<close>

fun locate ::
  "(string \<Rightarrow> arc_stat + errno) \<Rightarrow> string \<Rightarrow> nat list \<Rightarrow> mode_t \<Rightarrow> kio_error + (string \<times> nat) option \<times> mode_t" where
  "locate fs full [] mode = Inr (None, mode)"
| "locate fs full (pos # ps) mode = (case fs (take pos full) of
     Inr e \<Rightarrow> if e = ENOENT then Inr (None, 0) else if e = EACCES then Inl ERR_ACCESS_DENIED else Inl ERR_CANNOT_STAT
   | Inl st \<Rightarrow> if \<not> S_ISDIR (as_mode st) then Inr (Some (take pos full, pos), as_mode st)
       else locate fs full ps (as_mode st))"

definition place ::
  "(string \<Rightarrow> arc_stat + errno) \<Rightarrow> (arc_kind \<Rightarrow> string \<Rightarrow> archive option) \<Rightarrow> qurl \<Rightarrow> kio_error + string \<times> archive \<times> string" where
  "place fs opens url = (let full = fullPath (path url) in
     case locate fs full (slash_positions full) 0 of
       Inl e \<Rightarrow> Inl e
     | Inr (None, mode) \<Rightarrow> Inl (if S_ISDIR mode then ERR_IS_DIRECTORY else ERR_DOES_NOT_EXIST)
     | Inr (Some (name, pos), _) \<Rightarrow> (case createArchive (scheme url) of
         None \<Rightarrow> Inl ERR_UNSUPPORTED_PROTOCOL
       | Some k \<Rightarrow> (case opens k name of
           None \<Rightarrow> Inl ERR_CANNOT_OPEN_FOR_READING
         | Some a \<Rightarrow> Inr (name, a, innerPath full pos))))"

lemma findArchive_locates:
  assumes "static F fs opens"
  shows "fst (run_state (findArchive F full ps mode) s) = locate fs full ps mode"
proof (induction ps arbitrary: mode s)
  case (Cons q qs)
  have "fst (k_stat F (take q full) (world s)) = fs (take q full)" using assms by (simp add: static_def)
  then obtain w where w: "k_stat F (take q full) (world s) = (fs (take q full), w)" by (metis prod.collapse)
  show ?case
    using Cons.IH by (cases "fs (take q full)") (auto simp: call_def State_Monad.update_def Let_def w split: prod.split)
qed simp

lemma findArchive_keeps: "m_archiveFile (snd (run_state (findArchive F full ps mode) s)) = m_archiveFile s"
  by (induction ps arbitrary: mode s)
     (auto simp: call_def State_Monad.update_def Let_def split: prod.split sum.split)

lemma newFile_places:
  assumes "static F fs opens" "run_state (newFile F url) s = (a, t)"
  shows "case place fs opens url of
      Inl e \<Rightarrow> a = Inl e \<and> m_archiveFile t = None
    | Inr (name, ar, p) \<Rightarrow> a = Inr p \<and> m_archiveFile t = Some ar \<and> m_archiveName t = name"
proof -
  define full where "full = fullPath (path url)"
  obtain u where u: "run_state (closeArchive F) s = ((), u)" by (cases "run_state (closeArchive F) s") simp
  then have none: "m_archiveFile u = None"
    by (auto simp: closeArchive_def State_Monad.update_def act_def call_def split: if_splits)
  obtain r v where r: "run_state (findArchive F full (slash_positions full) 0) u = (r, v)" by fastforce
  have v: "m_archiveFile v = None" using findArchive_keeps r none by (metis snd_conv)
  have loc: "locate fs full (slash_positions full) 0 = r"
    using findArchive_locates[OF assms(1), of full "slash_positions full" 0 u] r by simp
  have go: "run_state (case r of
       Inl e \<Rightarrow> ret (Inl e)
     | Inr (None, mode) \<Rightarrow> ret (Inl (if S_ISDIR mode then ERR_IS_DIRECTORY else ERR_DOES_NOT_EXIST))
     | Inr (Some (archiveFile, pos), _) \<Rightarrow> openArchive F (scheme url) archiveFile (innerPath full pos)) v = (a, t)"
    using assms(2) u r unfolding full_def by (simp add: newFile_def Let_def)
  have opens: "opens k p = x" if "k_open F k p w = (x, w')" for k p w w' x
    using assms(1) that unfolding static_def by (metis fst_conv)
  show ?thesis unfolding place_def full_def[symmetric] Let_def loc
    using go v
    by (auto simp: openArchive_def call_def State_Monad.update_def dest: opens split: sum.splits option.splits prod.splits)
qed

lemma locate_found:
  "locate fs full ps mode = Inr (Some (name, pos), m) \<longleftrightarrow> (\<exists>before after. ps = before @ pos # after \<and> name = take pos full \<and>
     (\<forall>i \<in> set before. \<exists>st. fs (take i full) = Inl st \<and> S_ISDIR (as_mode st)) \<and>
     (\<exists>st. fs name = Inl st \<and> \<not> S_ISDIR (as_mode st) \<and> m = as_mode st))"
  (is "_ \<longleftrightarrow> ?R ps")
proof (induction ps arbitrary: mode)
  case (Cons q qs)
  show ?case
  proof (cases "\<exists>st. fs (take q full) = Inl st \<and> S_ISDIR (as_mode st)")
    case True
    then obtain st where st: "fs (take q full) = Inl st" "S_ISDIR (as_mode st)" by blast
    have "?R (q # qs) \<longleftrightarrow> ?R qs"
    proof
      assume "?R (q # qs)"
      then obtain before after where R: "q # qs = before @ pos # after" "name = take pos full"
          "\<forall>i \<in> set before. \<exists>st. fs (take i full) = Inl st \<and> S_ISDIR (as_mode st)"
          "\<exists>st. fs name = Inl st \<and> \<not> S_ISDIR (as_mode st) \<and> m = as_mode st" by blast
      obtain bs where "before = q # bs" using R(1,2,4) st by (cases before) auto
      then show "?R qs" using R by (intro exI[of _ bs] exI[of _ after]) simp
    next
      assume "?R qs"
      then obtain before after where R: "qs = before @ pos # after" "name = take pos full"
          "\<forall>i \<in> set before. \<exists>st. fs (take i full) = Inl st \<and> S_ISDIR (as_mode st)"
          "\<exists>st. fs name = Inl st \<and> \<not> S_ISDIR (as_mode st) \<and> m = as_mode st" by blast
      then show "?R (q # qs)" using st by (intro exI[of _ "q # before"] exI[of _ after]) simp
    qed
    then show ?thesis using st Cons.IH by simp
  next
    case False
    have "?R (q # qs) \<longleftrightarrow> q = pos \<and> name = take pos full \<and>
        (\<exists>st. fs name = Inl st \<and> \<not> S_ISDIR (as_mode st) \<and> m = as_mode st)"
      using False by (auto simp: Cons_eq_append_conv)
    moreover have "locate fs full (q # qs) mode = Inr (Some (name, pos), m) \<longleftrightarrow> q = pos \<and> name = take pos full \<and>
        (\<exists>st. fs name = Inl st \<and> \<not> S_ISDIR (as_mode st) \<and> m = as_mode st)"
      using False by (cases "fs (take q full)") auto
    ultimately show ?thesis by simp
  qed
qed simp

lemma slash_split:
  assumes "1 \<le> pos" "pos < length full" "full ! pos = CHR ''/''"
  shows "\<exists>after. slash_positions full = slash_positions (take pos full) @ pos # after"
proof -
  have "[0..<length full] = [0..<pos] @ pos # [Suc pos..<length full]"
    using assms(2) by (metis le0 less_imp_le_nat upt_add_eq_append upt_conv_Cons le_add_diff_inverse)
  moreover have "filter (\<lambda>i. 1 \<le> i \<and> full ! i = CHR ''/'') [0..<pos] = slash_positions (take pos full)"
    using assms(2) by (auto simp: slash_positions_def intro!: filter_cong)
  ultimately show ?thesis using assms(1,3) by (simp add: slash_positions_def)
qed

lemma slash_split_unique:
  assumes "slash_positions full = before @ pos # after"
  shows "1 \<le> pos" "pos < length full" "full ! pos = CHR ''/''" "before = slash_positions (take pos full)"
proof -
  have pos: "pos \<in> set (slash_positions full)" using assms by simp
  then show p: "1 \<le> pos" "pos < length full" "full ! pos = CHR ''/''" by (auto simp: slash_positions_def)
  obtain rest where rest: "slash_positions full = slash_positions (take pos full) @ pos # rest" using slash_split[OF p] by blast
  have "distinct (slash_positions full)" by (simp add: slash_positions_def)
  then have "pos \<notin> set before" "pos \<notin> set after" using assms by simp_all
  then show "before = slash_positions (take pos full)"
    using assms rest append_Cons_eq_iff[of pos before after "slash_positions (take pos full)" rest] by simp
qed

text \<open>Every path within an archive leads to it.\<close>

lemma place_within:
  assumes "place fs opens u = Inr (name, a, p)" "\<And>p st. fs (p @ ''/'') = Inl st \<Longrightarrow> S_ISDIR (as_mode st)"
    "within name (path url)" "scheme url = scheme u"
  shows "\<exists>q. place fs opens url = Inr (name, a, q) \<and> strip q = strip (drop (length name) (path url))"
proof -
  define old where "old = fullPath (path u)"
  define full where "full = fullPath (path url)"
  obtain pos m k where loc: "locate fs old (slash_positions old) 0 = Inr (Some (name, pos), m)"
      and k: "createArchive (scheme u) = Some k" "opens k name = Some a"
    using assms(1) by (auto simp: place_def Let_def old_def split: sum.splits option.splits prod.splits)
  obtain before after st where split: "slash_positions old = before @ pos # after" and name: "name = take pos old"
      and dirs: "\<forall>i \<in> set before. \<exists>st. fs (take i old) = Inl st \<and> S_ISDIR (as_mode st)"
      and st: "fs name = Inl st" "\<not> S_ISDIR (as_mode st)" "m = as_mode st"
    using loc unfolding locate_found by blast
  note at = slash_split_unique[OF split]
  have len: "length name = pos" using name at(2) by simp
  have noslash: "\<not> ends_with ''/'' name"
  proof
    assume "ends_with ''/'' name"
    then have "name = chop 1 name @ ''/''" using ends_with_snoc at(1) len by (metis list.size(3) not_one_le_zero)
    then show False using assms(2)[of "chop 1 name"] st by simp
  qed
  have here: "1 \<le> pos" "pos < length full" "full ! pos = CHR ''/''" "take pos full = name"
  proof -
    have "starts_with name (path url)" "length (path url) = pos \<or> path url ! pos = CHR ''/''"
      using assms(3) len by (auto simp: within_def)
    moreover have le: "pos \<le> length (path url)" using calculation(1) len by (simp add: starts_with_def) (metis length_take min.cobounded1 len)
    moreover have "take pos (path url) = name" using calculation(1) len by (simp add: starts_with_def)
    moreover have "path url = name \<Longrightarrow> full = path url @ ''/''" using noslash at(1) len by (auto simp: full_def fullPath_def)
    moreover have "full = path url \<or> full = path url @ ''/''" by (simp add: full_def fullPath_def)
    ultimately show "1 \<le> pos" "pos < length full" "full ! pos = CHR ''/''" "take pos full = name"
      using at(1) by (cases "length (path url) = pos"; auto simp: nth_append)+
  qed
  obtain rest where rest: "slash_positions full = slash_positions (take pos full) @ pos # rest"
    using slash_split[OF here(1-3)] by blast
  have "slash_positions (take pos full) = before" using at(4) here(4) name by simp
  moreover have "take i full = take i old" if "i \<in> set before" for i
  proof -
    have "i < pos" using that at(4) by (auto simp: slash_positions_def)
    then show ?thesis using here(4) name by (metis less_imp_le_nat min.absorb1 take_take)
  qed
  ultimately have "locate fs full (slash_positions full) 0 = Inr (Some (name, pos), m)"
    unfolding locate_found using rest here(4) dirs st by (intro exI[of _ before] exI[of _ rest]) auto
  then have "place fs opens url = Inr (name, a, innerPath full pos)"
    using k assms(4) by (simp add: place_def full_def)
  moreover have "pos \<in> set (slash_positions full)" using rest by simp
  ultimately show ?thesis using found_within(2)[of pos "path url"] len by (auto simp: full_def)
qed

text \<open>What an open archive came from.\<close>

definition opened ::
  "(string \<Rightarrow> arc_stat + errno) \<Rightarrow> (arc_kind \<Rightarrow> string \<Rightarrow> archive option) \<Rightarrow> string \<Rightarrow> 'w arcs \<Rightarrow> bool" where
  "opened fs opens proto s \<longleftrightarrow> (\<forall>a. m_archiveFile s = Some a \<longrightarrow>
     (\<exists>u p. scheme u = proto \<and> place fs opens u = Inr (m_archiveName s, a, p)))"



section \<open>The size of a directory\<close>

text \<open>The sizes of all files below a directory, without a bound.\<close>

fun total_size :: "(string \<times> arc_entry) list \<Rightarrow> int"
  and total_entry :: "arc_entry \<Rightarrow> int" where
  "total_size [] = 0"
| "total_size ((n, e) # es) = total_entry e + total_size es"
| "total_entry (FileEntry i k) = k"
| "total_entry (DirEntry i es) = total_size es"

lemma dir_size_word:
  "computeArchiveDirSize es = word_of_int (total_size es)" "entrySize e = word_of_int (total_entry e)"
  by (induction es and e rule: computeArchiveDirSize_entrySize.induct) simp_all

text \<open>
  C38. The recursive size that is reported for a directory of an archive is the sum of the sizes of all
  files below it, modulo 2^32.
\<close>

theorem archive_dir_size_wraps: "uint (computeArchiveDirSize es) = total_size es mod 2 ^ 32"
  by (simp add: dir_size_word uint_word_of_int)

section \<open>Reading a file\<close>

fun arc_sent_by :: "arc_ev \<Rightarrow> byte list" where
  "arc_sent_by (RApp (MsgData d)) = d"
| "arc_sent_by _ = []"

definition arc_sent :: "arc_ev list \<Rightarrow> byte list" where
  "arc_sent es = concat (map arc_sent_by es)"

lemma arc_sent_simps [simp]: "arc_sent [] = []" "arc_sent (e # es) = arc_sent_by e @ arc_sent es"
    "arc_sent (es @ fs) = arc_sent es @ arc_sent fs"
  by (simp_all add: arc_sent_def)

text \<open>
  A device that holds \<open>c\<close>: \<open>at\<close> is its position, which only a read moves, by what was read, and the
  worker is not stopped.
\<close>

definition holds :: "'w arc \<Rightarrow> int \<Rightarrow> byte list \<Rightarrow> ('w \<Rightarrow> nat) \<Rightarrow> bool" where
  "holds F dev c at \<longleftrightarrow>
     (\<forall>w. \<exists>w'. k_atEnd F dev w = (length c \<le> at w, w') \<and> at w' = at w) \<and>
     (\<forall>w. \<exists>w'. k_wasKilled F w = (False, w') \<and> at w' = at w) \<and>
     (\<forall>w n. \<exists>w'. k_read F dev n w = (Some (take (nat n) (drop (at w) c)), w') \<and>
        at w' = at w + length (take (nat n) (drop (at w) c)))"

definition complete :: "int \<Rightarrow> nat \<Rightarrow> bool" where
  "complete n k \<longleftrightarrow> n \<le> int k \<or> 0x100000 dvd k"

lemma getLoop_reads:
  assumes dev: "holds F dev c at"
  shows "nat n < fuel \<Longrightarrow> \<exists>t es. run_state (getLoop F fuel url p dev b n processed) s
      = (Some (if complete n (length c - at (world s)) then None else Some (Fail ERR_CANNOT_READ (k_displayText F url))), t)
    \<and> trace t = trace s @ es
    \<and> (complete n (length c - at (world s)) \<longrightarrow> arc_sent es = take (nat n) (drop (at (world s)) c))"
proof (induction fuel arbitrary: b n processed s)
  case (Suc fuel)
  let ?a = "at (world s)"
  obtain w1 where w1: "k_atEnd F dev (world s) = (length c \<le> ?a, w1)" "at w1 = ?a"
    using dev unfolding holds_def by blast
  show ?case
  proof (cases "length c \<le> ?a \<or> n \<le> 0")
    case True
    then show ?thesis using w1 by (auto simp: call_def complete_def)
  next
    case False
    obtain w2 where w2: "k_wasKilled F w1 = (False, w2)" "at w2 = ?a"
      using dev w1(2) unfolding holds_def by metis
    define m where "m = min maxSize n"
    define d where "d = take (nat m) (drop ?a c)"
    obtain w3 where w3: "k_read F dev m w2 = (Some d, w3)" "at w3 = ?a + length d"
      using dev w2(2) unfolding holds_def d_def by metis
    have m: "0 < m" "m \<le> n" "m \<le> 0x100000" using False by (auto simp: m_def maxSize_def)
    define pre where "pre = [RAtEnd dev False, RApp (MsgWasKilled False), RRead dev m (Some d)]"
    show ?thesis
    proof (cases "int (length d) = m")
      case short: False
      then have len: "length d = length c - ?a" "int (length c - ?a) < m"
        using m(1) by (auto simp: d_def min_def split: if_splits)
      have "length c - ?a < 0x100000" "0 < length c - ?a" using len(2) m(3) False by linarith+
      then have "\<not> complete n (length c - ?a)"
        using len(2) m(2) dvd_imp_le[of "0x100000" "length c - ?a"] by (auto simp: complete_def)
      then show ?thesis using False w1(1) w2(1) w3(1) short
        by (auto simp: call_def m_def[symmetric] Let_def)
    next
      case True
      define u where "u = s\<lparr>world := w3, trace := trace s @ pre @ (if b then [RApp (MsgMimeType (k_mimeData F p d))] else [])
        @ [RApp (MsgData d), RApp (MsgProcessedSize (processed + word_of_nat (length d)))]\<rparr>"
      have step: "run_state (getLoop F (Suc fuel) url p dev b n processed) s
          = run_state (getLoop F fuel url p dev False (n - m) (processed + word_of_nat (length d))) u"
        using False w1(1) w2(1) w3(1) True
        by (cases b) (simp_all add: call_def tell_def act_def m_def[symmetric] Let_def u_def pre_def)
      have at: "length c - at (world u) = length c - ?a - length d" "length d \<le> length c - ?a"
        using w3(2) by (auto simp: u_def d_def)
      have same: "complete (n - m) (length c - at (world u)) = complete n (length c - ?a)"
      proof (cases "m = 0x100000")
        case True
        then have "length d = 0x100000" using \<open>int (length d) = m\<close> by simp
        then obtain k where k: "length c - ?a = k + 0x100000" "length c - at (world u) = k"
          using at by (metis add_diff_cancel_right' le_add_diff_inverse2)
        have "(0x100000 dvd k + 0x100000) = (0x100000 dvd (k :: nat))" by (rule dvd_add_triv_right_iff)
        then show ?thesis using True k unfolding complete_def by auto
      next
        case False
        then have "m = n" by (auto simp: m_def maxSize_def)
        then show ?thesis using at True by (auto simp: complete_def)
      qed
      have "nat (n - m) < fuel" using Suc.prems m by auto
      from Suc.IH[OF this, of False "processed + word_of_nat (length d)" u] obtain t es where t:
          "run_state (getLoop F fuel url p dev False (n - m) (processed + word_of_nat (length d))) u
            = (Some (if complete n (length c - ?a) then None else Some (Fail ERR_CANNOT_READ (k_displayText F url))), t)"
          "trace t = trace u @ es"
          "complete n (length c - ?a) \<longrightarrow> arc_sent es = take (nat (n - m)) (drop (at (world u)) c)"
        unfolding same by blast
      have "take (nat n) (drop ?a c) = d @ take (nat (n - m)) (drop (?a + length d) c)"
      proof -
        have "nat n = nat m + nat (n - m)" using m by simp
        moreover have "length d = nat m" using True by simp
        ultimately show ?thesis by (simp add: take_add d_def add.commute)
      qed
      then show ?thesis using step t w3(2)
        by (intro exI[of _ t]) (auto simp: u_def pre_def)
    qed
  qed
qed simp

text \<open>
  C37. Reading a file of an archive always ends. It delivers the bytes of the file, as many as the
  archive says the file has, in order. Where there are fewer the request fails, unless what there is is a
  multiple of the size of a block: then the file is cut short and the request passes.
\<close>

theorem archive_get_delivers:
  assumes "k_createDevice F e (world s) = (Some dev, w)" "k_devOpen F dev w = (True, w')"
    "holds F dev c at" "at w' = 0"
  shows "\<exists>t es. run_state (getFile F url p e n) s
      = (Some (if n \<le> int (length c) \<or> 0x100000 dvd length c then Pass else Fail ERR_CANNOT_READ (k_displayText F url)), t)
    \<and> trace t = trace s @ es
    \<and> (n \<le> int (length c) \<or> 0x100000 dvd length c \<longrightarrow> arc_sent es = take (nat n) c)"
proof -
  define u where "u = s\<lparr>world := w', trace := trace s @ [RDevice p (Some dev), RDevOpen dev True, RApp (MsgTotalSize (word_of_int n))]\<rparr>"
  obtain t es where t: "run_state (getLoop F (nat n + 1) url p dev True n 0) u
      = (Some (if complete n (length c) then None else Some (Fail ERR_CANNOT_READ (k_displayText F url))), t)"
    "trace t = trace u @ es" "complete n (length c) \<longrightarrow> arc_sent es = take (nat n) c"
    using getLoop_reads[OF assms(3), of n "nat n + 1" url p True 0 u] assms(4) by (auto simp: u_def)
  show ?thesis
    using assms(1,2) t
    by (cases "complete n (length c)")
       (auto simp: getFile_def call_def tell_def act_def run_andThen u_def complete_def)
qed

theorem archive_get_delivers_witness:
  "\<exists>t es. run_state (getFile arc_demo (arc_url ''/a.tar/f'') ''f'' (FileEntry arc_file 3) 3) arc_start = (Some Pass, t) \<and>
     trace t = trace arc_start @ es \<and> arc_sent es = [1, 2, 3]"
proof -
  have dev: "k_createDevice arc_demo (FileEntry arc_file 3) (world arc_start) = (Some 4, 0)" "k_devOpen arc_demo 4 0 = (True, 0)"
    by (simp_all add: arc_demo_def arc_start_def)
  have holds: "holds arc_demo 4 [1, 2, 3] (\<lambda>w. w)"
    by (simp add: holds_def arc_demo_def eval_nat_numeral)
  from archive_get_delivers[OF dev holds, of "arc_url ''/a.tar/f''" "''f''" 3] show ?thesis by simp
qed

end
