(* ===== verification/MtpStorage.thy ===== *)
theory MtpStorage
  imports KioMessages
begin

text \<open>
  The storages of MTP devices as the daemon keeps them (mtp/kiod_module/mtpstorage.h, mtpstorage.cpp,
  mtpfile.h, mtp/shared/kmtpfile.h, kmtpfile.cpp): paths are found by walking from the root of the device,
  with a cache from paths to identifiers whose entries live for a minute. libmtp, the clock and the
  worker's local files are the parameter \<open>mtp\<close>.
\<close>

section \<open>Files of a device\<close>

text \<open>\<open>LIBMTP_filetype_t\<close> and \<open>LIBMTP_file_t\<close>.\<close>

datatype (plugins only: code) libmtp_filetype =
    FT_FOLDER | FT_WAV | FT_MP3 | FT_WMA | FT_OGG | FT_AUDIBLE | FT_MP4 | FT_UNDEF_AUDIO | FT_WMV
  | FT_AVI | FT_MPEG | FT_ASF | FT_QT | FT_UNDEF_VIDEO | FT_JPEG | FT_JFIF | FT_TIFF | FT_BMP
  | FT_GIF | FT_PICT | FT_PNG | FT_VCALENDAR1 | FT_VCALENDAR2 | FT_VCARD2 | FT_VCARD3
  | FT_WINDOWSIMAGEFORMAT | FT_WINEXEC | FT_TEXT | FT_HTML | FT_FIRMWARE | FT_AAC | FT_MEDIACARD
  | FT_FLAC | FT_MP2 | FT_M4A | FT_DOC | FT_XML | FT_XLS | FT_PPT | FT_MHT | FT_JP2 | FT_JPX
  | FT_ALBUM | FT_PLAYLIST | FT_UNKNOWN

record lfile =
  lf_id :: u32
  lf_parent :: u32
  lf_storage :: u32
  lf_name :: string
  lf_size :: u64
  lf_date :: int
  lf_type :: libmtp_filetype

record kfile =
  kf_itemId :: u32
  kf_parentId :: u32
  kf_storageId :: u32
  kf_filename :: string
  kf_filesize :: u64
  kf_modificationdate :: int
  kf_filetype :: string

definition invalidFile :: kfile where
  "invalidFile = \<lparr>kf_itemId = 0, kf_parentId = 0, kf_storageId = 0, kf_filename = [], kf_filesize = 0,
     kf_modificationdate = 0, kf_filetype = []\<rparr>"

definition isValid :: "kfile \<Rightarrow> bool" where
  "isValid f \<longleftrightarrow> kf_itemId f \<noteq> 0"

definition isFolder :: "kfile \<Rightarrow> bool" where
  "isFolder f \<longleftrightarrow> kf_filetype f = ''inode/directory''"

definition getMimetype :: "libmtp_filetype \<Rightarrow> string" where
  "getMimetype t = (case t of
     FT_FOLDER \<Rightarrow> ''inode/directory''
   | FT_WAV \<Rightarrow> ''audio/wav''
   | FT_MP3 \<Rightarrow> ''audio/x-mp3''
   | FT_WMA \<Rightarrow> ''audio/x-ms-wma''
   | FT_OGG \<Rightarrow> ''audio/x-vorbis+ogg''
   | FT_MP4 \<Rightarrow> ''video/mp4''
   | FT_WMV \<Rightarrow> ''video/x-ms-wmv''
   | FT_AVI \<Rightarrow> ''video/x-msvideo''
   | FT_MPEG \<Rightarrow> ''video/mpeg''
   | FT_ASF \<Rightarrow> ''video/x-ms-asf''
   | FT_QT \<Rightarrow> ''video/quicktime''
   | FT_JPEG \<Rightarrow> ''image/jpeg''
   | FT_TIFF \<Rightarrow> ''image/tiff''
   | FT_BMP \<Rightarrow> ''image/bmp''
   | FT_GIF \<Rightarrow> ''image/gif''
   | FT_PICT \<Rightarrow> ''image/x-pict''
   | FT_PNG \<Rightarrow> ''image/png''
   | FT_VCALENDAR1 \<Rightarrow> ''text/x-vcalendar''
   | FT_VCALENDAR2 \<Rightarrow> ''text/x-vcalendar''
   | FT_VCARD2 \<Rightarrow> ''text/x-vcard''
   | FT_VCARD3 \<Rightarrow> ''text/x-vcard''
   | FT_WINDOWSIMAGEFORMAT \<Rightarrow> ''image/x-wmf''
   | FT_WINEXEC \<Rightarrow> ''application/x-ms-dos-executable''
   | FT_TEXT \<Rightarrow> ''text/plain''
   | FT_HTML \<Rightarrow> ''text/html''
   | FT_AAC \<Rightarrow> ''audio/aac''
   | FT_FLAC \<Rightarrow> ''audio/flac''
   | FT_MP2 \<Rightarrow> ''video/mpeg''
   | FT_M4A \<Rightarrow> ''audio/mp4''
   | FT_DOC \<Rightarrow> ''application/msword''
   | FT_XML \<Rightarrow> ''text/xml''
   | FT_XLS \<Rightarrow> ''application/vnd.ms-excel''
   | FT_PPT \<Rightarrow> ''application/vnd.ms-powerpoint''
   | FT_JP2 \<Rightarrow> ''image/jpeg2000''
   | FT_JPX \<Rightarrow> ''application/x-jbuilder-project''
   | _ \<Rightarrow> [])"

definition createKMTPFile :: "lfile \<Rightarrow> kfile" where
  "createKMTPFile f = \<lparr>kf_itemId = lf_id f, kf_parentId = lf_parent f, kf_storageId = lf_storage f,
     kf_filename = lf_name f, kf_filesize = lf_size f, kf_modificationdate = lf_date f,
     kf_filetype = getMimetype (lf_type f)\<rparr>"

text \<open>The type of a file that is sent, by what follows the last dot of its name.\<close>

definition extension :: "string \<Rightarrow> string" where
  "extension n = rev (takeWhile (\<lambda>c. c \<noteq> CHR ''.'') (rev n))"

definition filetypes :: "(string \<times> libmtp_filetype) list" where
  "filetypes =
    [(''wav'', FT_WAV), (''mp3'', FT_MP3), (''wma'', FT_WMA),
     (''ogg'', FT_OGG), (''mp4'', FT_MP4), (''wmv'', FT_WMV),
     (''avi'', FT_AVI), (''mpeg'', FT_MPEG), (''mpg'', FT_MPEG),
     (''asf'', FT_ASF), (''qt'', FT_QT), (''mov'', FT_QT),
     (''wma'', FT_WMA), (''jpg'', FT_JPEG), (''jpeg'', FT_JPEG),
     (''jfif'', FT_JFIF), (''tif'', FT_TIFF), (''tiff'', FT_TIFF),
     (''bmp'', FT_BMP), (''gif'', FT_GIF), (''pic'', FT_PICT),
     (''pict'', FT_PICT), (''png'', FT_PNG), (''wmf'', FT_WINDOWSIMAGEFORMAT),
     (''ics'', FT_VCALENDAR2), (''exe'', FT_WINEXEC), (''com'', FT_WINEXEC),
     (''bat'', FT_WINEXEC), (''dll'', FT_WINEXEC), (''sys'', FT_WINEXEC),
     (''aac'', FT_AAC), (''mp2'', FT_MP2), (''flac'', FT_FLAC),
     (''m4a'', FT_M4A), (''doc'', FT_DOC), (''xml'', FT_XML),
     (''xls'', FT_XLS), (''ppt'', FT_PPT), (''mht'', FT_MHT),
     (''jp2'', FT_JP2), (''jpx'', FT_JPX), (''bin'', FT_FIRMWARE),
     (''vcf'', FT_VCARD3)]"

definition getFiletype :: "string \<Rightarrow> libmtp_filetype" where
  "getFiletype n = (case map_of filetypes (extension n) of None \<Rightarrow> FT_UNKNOWN | Some t \<Rightarrow> t)"

section \<open>Paths\<close>

text \<open>The parts between slashes that are not empty.\<close>

fun path_parts :: "string \<Rightarrow> string \<Rightarrow> string list" where
  "path_parts acc [] = (if acc = [] then [] else [rev acc])"
| "path_parts acc (c # s) =
     (if c = CHR ''/'' then (if acc = [] then path_parts [] s else rev acc # path_parts [] s)
      else path_parts (c # acc) s)"

definition path_items :: "string \<Rightarrow> string list" where
  "path_items p = path_parts [] p"

definition convertToPath :: "string list \<Rightarrow> nat \<Rightarrow> string" where
  "convertToPath items n = (if n \<le> length items then concat (map (\<lambda>i. CHR ''/'' # i) (take n items)) else [])"

text \<open>\<open>section('/', 0, -2)\<close>: what is before the last slash.\<close>

definition parentSection :: "string \<Rightarrow> string" where
  "parentSection p = rev (drop 1 (dropWhile (\<lambda>c. c \<noteq> CHR ''/'') (rev p)))"

section \<open>What the daemon and the worker call\<close>

definition FILES_AND_FOLDERS_ROOT :: u32 where "FILES_AND_FOLDERS_ROOT = 0xFFFFFFFF"

record storage_info =
  si_id :: u32
  si_capacity :: u64
  si_free :: u64
  si_description :: string

datatype (plugins only: code) mtp_ev =
    XNow int | XMetadata u32 "lfile option" | XChildren u32 "u32 list option" | XFiles u32 "lfile list"
  | XStorages "storage_info list option" | XDelete u32 int | XCreateFolder string u32 u32 | XSetName u32 string int
  | XSend string lfile int | XGetData u32 int | XGetFile u32 string int | XFstat string "(u64 \<times> int) option"
  | XSetFriendly string int | XTempOpen "string option" | XTempWrite "byte list" | XTempSize u64
  | XExists string bool | XOpenRead string "u64 option" | XOpenWrite string bool | XUtime string int
  | XMetaData string u64 | XApp app_msg

text \<open>
  A transfer gives what is signalled on the way and its result. Local files are named by their paths;
  a descriptor is the name of the file that is open. \<open>x_hasGetChildren\<close> is \<open>HAVE_LIBMTP_Get_Children\<close>.
\<close>

record 'w mtp =
  x_now :: "'w \<Rightarrow> int \<times> 'w"
  x_metadata :: "nat \<Rightarrow> u32 \<Rightarrow> 'w \<Rightarrow> lfile option \<times> 'w"
  x_children :: "nat \<Rightarrow> u32 \<Rightarrow> u32 \<Rightarrow> 'w \<Rightarrow> u32 list option \<times> 'w"
  x_files :: "nat \<Rightarrow> u32 \<Rightarrow> u32 \<Rightarrow> 'w \<Rightarrow> lfile list \<times> 'w"
  x_storages :: "nat \<Rightarrow> 'w \<Rightarrow> storage_info list option \<times> 'w"
  x_delete :: "nat \<Rightarrow> u32 \<Rightarrow> 'w \<Rightarrow> int \<times> 'w"
  x_createFolder :: "nat \<Rightarrow> string \<Rightarrow> u32 \<Rightarrow> u32 \<Rightarrow> 'w \<Rightarrow> u32 \<times> 'w"
  x_setName :: "nat \<Rightarrow> lfile \<Rightarrow> string \<Rightarrow> 'w \<Rightarrow> int \<times> 'w"
  x_send :: "nat \<Rightarrow> string \<Rightarrow> lfile \<Rightarrow> 'w \<Rightarrow> (u64 list \<times> int) \<times> 'w"
  x_getData :: "nat \<Rightarrow> u32 \<Rightarrow> 'w \<Rightarrow> (byte list list \<times> int) \<times> 'w"
  x_getFile :: "nat \<Rightarrow> u32 \<Rightarrow> string \<Rightarrow> 'w \<Rightarrow> (u64 list \<times> int) \<times> 'w"
  x_fstat :: "string \<Rightarrow> 'w \<Rightarrow> (u64 \<times> int) option \<times> 'w"
  x_setFriendly :: "nat \<Rightarrow> string \<Rightarrow> 'w \<Rightarrow> int \<times> 'w"
  y_tempOpen :: "'w \<Rightarrow> string option \<times> 'w"
  y_tempWrite :: "byte list \<Rightarrow> 'w \<Rightarrow> 'w"
  y_tempSize :: "'w \<Rightarrow> u64 \<times> 'w"
  y_exists :: "string \<Rightarrow> 'w \<Rightarrow> bool \<times> 'w"
  y_openRead :: "string \<Rightarrow> 'w \<Rightarrow> u64 option \<times> 'w"
  y_openWrite :: "string \<Rightarrow> 'w \<Rightarrow> bool \<times> 'w"
  y_utime :: "string \<Rightarrow> int \<Rightarrow> 'w \<Rightarrow> 'w"
  y_readData :: "'w \<Rightarrow> (int \<times> byte list) \<times> 'w"
  y_wasKilled :: "'w \<Rightarrow> bool \<times> 'w"
  x_hasGetChildren :: bool
  t_displayText :: "qurl \<Rightarrow> string"

section \<open>The storage\<close>

record storage =
  m_id :: u32
  m_maxCapacity :: u64
  m_freeSpaceInBytes :: u64
  m_description :: string
  m_cache :: "string \<rightharpoonup> (int \<times> u32)"

text \<open>What an operation of a storage works on: the storage, and the device it is on.\<close>

record 'w sts = "('w, mtp_ev) io" +
  stg :: storage
  devno :: nat

definition setStorageProperties :: "storage_info \<Rightarrow> storage \<Rightarrow> storage" where
  "setStorageProperties i st = st\<lparr>m_id := si_id i, m_maxCapacity := si_capacity i, m_freeSpaceInBytes := si_free i,
     m_description := si_description i\<rparr>"

definition updateStorageInfo :: "'w mtp \<Rightarrow> ('w sts, unit) state" where
  "updateStorageInfo F = do {
     s \<leftarrow> State_Monad.get;
     r \<leftarrow> call (x_storages F (devno s)) (\<lambda>a. XStorages a);
     (case r of
        None \<Rightarrow> ret ()
      | Some infos \<Rightarrow> (case find (\<lambda>i. si_id i = m_id (stg s)) infos of
            None \<Rightarrow> ret ()
          | Some i \<Rightarrow> State_Monad.update (\<lambda>s. s\<lparr>stg := setStorageProperties i (stg s)\<rparr>)))
   }"

definition freeSpaceInBytes :: "'w mtp \<Rightarrow> ('w sts, u64) state" where
  "freeSpaceInBytes F = do {
     updateStorageInfo F;
     s \<leftarrow> State_Monad.get;
     ret (m_freeSpaceInBytes (stg s))
   }"

section \<open>The cache\<close>

text \<open>Times in milliseconds.\<close>

definition timeToLive :: int where "timeToLive = 60 * 1000"

definition set_cache :: "string \<Rightarrow> (int \<times> u32) option \<Rightarrow> ('w sts, unit) state" where
  "set_cache p v = State_Monad.update (\<lambda>s. s\<lparr>stg := (stg s)\<lparr>m_cache := (m_cache (stg s))(p := v)\<rparr>\<rparr>)"

definition queryPath :: "'w mtp \<Rightarrow> string \<Rightarrow> ('w sts, u32 option) state" where
  "queryPath F p = do {
     s \<leftarrow> State_Monad.get;
     case m_cache (stg s) p of
       None \<Rightarrow> ret None
     | Some (until, i) \<Rightarrow>
         (if i \<noteq> 0 then do {
            now \<leftarrow> call (x_now F) (\<lambda>a. XNow a);
            if until > now then do { set_cache p (Some (now + timeToLive, i)); ret (Some i) }
            else do { set_cache p None; ret None }
          }
          else ret None)
   }"

definition addPath :: "'w mtp \<Rightarrow> string \<Rightarrow> u32 \<Rightarrow> ('w sts, unit) state" where
  "addPath F p i = do {
     now \<leftarrow> call (x_now F) (\<lambda>a. XNow a);
     set_cache p (Some (now + timeToLive, i))
   }"

definition removePath :: "string \<Rightarrow> ('w sts, unit) state" where
  "removePath p = set_cache p None"

section \<open>Finding a file\<close>

definition metadata :: "'w mtp \<Rightarrow> u32 \<Rightarrow> ('w sts, lfile option) state" where
  "metadata F i = do {
     s \<leftarrow> State_Monad.get;
     call (x_metadata F (devno s) i) (\<lambda>a. XMetadata i a)
   }"

fun cacheFiles :: "'w mtp \<Rightarrow> string \<Rightarrow> lfile list \<Rightarrow> ('w sts, unit) state" where
  "cacheFiles F p [] = ret ()"
| "cacheFiles F p (f # fs) = do { addPath F (p @ ''/'' @ lf_name f) (lf_id f); cacheFiles F p fs }"

definition getFilesAndFoldersCached :: "'w mtp \<Rightarrow> string \<Rightarrow> u32 \<Rightarrow> ('w sts, kfile list) state" where
  "getFilesAndFoldersCached F p parentId = do {
     s \<leftarrow> State_Monad.get;
     files \<leftarrow> call (x_files F (devno s) (m_id (stg s)) parentId) (\<lambda>a. XFiles parentId a);
     cacheFiles F p files;
     ret (map createKMTPFile files)
   }"

fun findChild :: "'w mtp \<Rightarrow> string \<Rightarrow> string \<Rightarrow> u32 list \<Rightarrow> ('w sts, kfile option) state" where
  "findChild F needle p [] = ret None"
| "findChild F needle p (c # cs) = do {
     r \<leftarrow> metadata F c;
     case r of
       None \<Rightarrow> findChild F needle p cs
     | Some f \<Rightarrow> do {
         addPath F (p @ ''/'' @ lf_name f) (lf_id f);
         if lf_name f = needle then ret (Some (createKMTPFile f)) else findChild F needle p cs
       }
   }"

definition findEntry :: "'w mtp \<Rightarrow> string \<Rightarrow> string \<Rightarrow> u32 \<Rightarrow> ('w sts, kfile option) state" where
  "findEntry F needle p parentId =
     (if x_hasGetChildren F then do {
        s \<leftarrow> State_Monad.get;
        r \<leftarrow> call (x_children F (devno s) (m_id (stg s)) parentId) (\<lambda>a. XChildren parentId a);
        case r of None \<Rightarrow> ret None | Some cs \<Rightarrow> findChild F needle p cs
      }
      else do {
        list \<leftarrow> getFilesAndFoldersCached F p parentId;
        ret (find (\<lambda>f. kf_filename f = needle) list)
      })"

text \<open>The first two steps: the path itself in the cache, or the folder it is in.\<close>

definition fromParent :: "'w mtp \<Rightarrow> string list \<Rightarrow> ('w sts, kfile option) state" where
  "fromParent F items = do {
     let parentPath = convertToPath items (length items - 1);
     parentId \<leftarrow> queryPath F parentPath;
     case parentId of
       None \<Rightarrow> ret None
     | Some i \<Rightarrow> do {
         r \<leftarrow> metadata F i;
         case r of
           None \<Rightarrow> ret None
         | Some _ \<Rightarrow> do {
             list \<leftarrow> getFilesAndFoldersCached F parentPath i;
             ret (find (\<lambda>f. kf_filename f = last items) list)
           }
       }
   }"

definition fromCache :: "'w mtp \<Rightarrow> string \<Rightarrow> string list \<Rightarrow> ('w sts, kfile option) state" where
  "fromCache F p items =
     (if items = [] then ret None
      else do {
        itemId \<leftarrow> queryPath F p;
        case itemId of
          Some i \<Rightarrow> do { r \<leftarrow> metadata F i; ret (map_option createKMTPFile r) }
        | None \<Rightarrow> (if length items > 1 then fromParent F items else ret None)
      })"

fun treeWalk :: "'w mtp \<Rightarrow> string list \<Rightarrow> string \<Rightarrow> u32 \<Rightarrow> ('w sts, kfile) state" where
  "treeWalk F [] currentPath currentParent = do {
     r \<leftarrow> metadata F currentParent;
     ret (case r of None \<Rightarrow> invalidFile | Some f \<Rightarrow> createKMTPFile f)
   }"
| "treeWalk F (e # es) currentPath currentParent = do {
     r \<leftarrow> findEntry F e currentPath currentParent;
     case r of
       None \<Rightarrow> ret invalidFile
     | Some f \<Rightarrow> treeWalk F es (currentPath @ ''/'' @ e) (kf_itemId f)
   }"

definition getFileFromPath :: "'w mtp \<Rightarrow> string \<Rightarrow> ('w sts, kfile) state" where
  "getFileFromPath F p = do {
     r \<leftarrow> fromCache F p (path_items p);
     case r of
       Some f \<Rightarrow> ret f
     | None \<Rightarrow> treeWalk F (path_items p) [] FILES_AND_FOLDERS_ROOT
   }"

definition getFileMetadata :: "'w mtp \<Rightarrow> string \<Rightarrow> ('w sts, kfile) state" where
  "getFileMetadata F p = getFileFromPath F p"

section \<open>Operations\<close>

text \<open>The files, and 0, or 1 for a path that does not exist, 2 for one that is a file.\<close>

definition getFilesAndFolders :: "'w mtp \<Rightarrow> string \<Rightarrow> ('w sts, kfile list \<times> int) state" where
  "getFilesAndFolders F p =
     (if p = [] \<or> p = ''/'' then do {
        files \<leftarrow> getFilesAndFoldersCached F p FILES_AND_FOLDERS_ROOT;
        ret (files, 0)
      }
      else do {
        f \<leftarrow> getFileFromPath F p;
        if \<not> isValid f then ret ([], 1)
        else if \<not> isFolder f then ret ([], 2)
        else do { files \<leftarrow> getFilesAndFoldersCached F p (kf_itemId f); ret (files, 0) }
      })"

text \<open>The identifiers that a lister goes through, or the name of an error.\<close>

definition listChildren :: "'w mtp \<Rightarrow> u32 \<Rightarrow> ('w sts, string + u32 list) state" where
  "listChildren F idToList = do {
     s \<leftarrow> State_Monad.get;
     r \<leftarrow> call (x_children F (devno s) (m_id (stg s)) idToList) (\<lambda>a. XChildren idToList a);
     ret (case r of None \<Rightarrow> Inl ''org.kde.kmtp.Error.NoEntry'' | Some cs \<Rightarrow> Inr cs)
   }"

definition getFilesAndFolders2 :: "'w mtp \<Rightarrow> string \<Rightarrow> ('w sts, string + u32 list) state" where
  "getFilesAndFolders2 F p =
     (if \<not> x_hasGetChildren F then ret (Inl ''org.kde.kmtp.Error.NotImplemented'')
      else if p = [] \<or> p = ''/'' then listChildren F FILES_AND_FOLDERS_ROOT
      else do {
        f \<leftarrow> getFileFromPath F p;
        if \<not> isValid f then ret (Inl ''org.kde.kmtp.Error.NoEntry'')
        else if \<not> isFolder f then ret (Inl ''org.kde.kmtp.Error.NotDirectory'')
        else listChildren F (kf_itemId f)
      })"

text \<open>
  A turn of a lister: the entry, if the file is still there. The storage adds it to its cache when it is
  signalled.
\<close>

definition listerTurn :: "'w mtp \<Rightarrow> string \<Rightarrow> u32 \<Rightarrow> ('w sts, kfile option) state" where
  "listerTurn F p c = do {
     r \<leftarrow> metadata F c;
     case r of
       None \<Rightarrow> ret None
     | Some f \<Rightarrow> do { addPath F (p @ ''/'' @ lf_name f) (lf_id f); ret (Some (createKMTPFile f)) }
   }"

text \<open>The transfers: what is returned at once, and what is to be done when the event loop is reached.\<close>

definition getFileTo :: "'w mtp \<Rightarrow> string \<Rightarrow> ('w sts, u32 option) state" where
  "getFileTo F p = do {
     source \<leftarrow> getFileMetadata F p;
     ret (if isValid source then Some (kf_itemId source) else None)
   }"

definition sendFileFromFileDescriptor :: "'w mtp \<Rightarrow> string \<Rightarrow> ('w sts, int + u32 \<times> string) state" where
  "sendFileFromFileDescriptor F destinationPath = do {
     let destItems = path_items destinationPath;
     if destItems = [] then ret (Inl 1)
     else if butlast destItems = [] then ret (Inr (FILES_AND_FOLDERS_ROOT, last destItems))
     else do {
       parent \<leftarrow> getFileMetadata F (convertToPath (butlast destItems) (length (butlast destItems)));
       ret (if \<not> isFolder parent then Inl 2 else Inr (kf_itemId parent, last destItems))
     }
   }"

definition sendLater :: "'w mtp \<Rightarrow> string \<Rightarrow> u32 \<Rightarrow> string \<Rightarrow> ('w sts, u64 list \<times> int) state" where
  "sendLater F descriptor parentId filename = do {
     s \<leftarrow> State_Monad.get;
     r \<leftarrow> call (x_fstat F descriptor) (\<lambda>a. XFstat descriptor a);
     case r of
       None \<Rightarrow> ret ([], 1)
     | Some (len, mtime) \<Rightarrow> do {
         let f = \<lparr>lf_id = 0, lf_parent = parentId, lf_storage = m_id (stg s), lf_name = filename, lf_size = len,
           lf_date = mtime, lf_type = getFiletype filename\<rparr>;
         call (x_send F (devno s) descriptor f) (\<lambda>a. XSend descriptor f (snd a))
       }
   }"

definition setFileName :: "'w mtp \<Rightarrow> string \<Rightarrow> string \<Rightarrow> ('w sts, int) state" where
  "setFileName F p newName = do {
     f \<leftarrow> getFileFromPath F p;
     if \<not> isValid f then ret 1
     else do {
       source \<leftarrow> metadata F (kf_itemId f);
       case source of
         None \<Rightarrow> ret 1
       | Some src \<Rightarrow> do {
           s \<leftarrow> State_Monad.get;
           result \<leftarrow> call (x_setName F (devno s) src newName) (\<lambda>a. XSetName (lf_id src) newName a);
           (if result = 0 then do {
              removePath p;
              addPath F (parentSection p @ ''/'' @ newName) (kf_itemId f)
            } else ret ());
           ret result
         }
     }
   }"

text \<open>A new identifier, 0 for a failure, -1 where there is a folder, -2 where there is a file.\<close>

definition folderParent :: "'w mtp \<Rightarrow> string \<Rightarrow> ('w sts, u32) state" where
  "folderParent F p =
     (if length (path_items p) = 1 then ret FILES_AND_FOLDERS_ROOT
      else do {
        parent \<leftarrow> getFileMetadata F (parentSection p);
        ret (if isValid parent \<and> isFolder parent then kf_itemId parent else 0)
      })"

definition createFolder :: "'w mtp \<Rightarrow> string \<Rightarrow> ('w sts, int) state" where
  "createFolder F p =
     (if path_items p = [] then ret 0
      else do {
        destination \<leftarrow> getFileFromPath F p;
        if isValid destination then ret (if isFolder destination then -1 else -2)
        else do {
          parentId \<leftarrow> folderParent F p;
          if parentId = 0 then ret 0
          else do {
            s \<leftarrow> State_Monad.get;
            folderId \<leftarrow> call (x_createFolder F (devno s) (last (path_items p)) parentId (m_id (stg s)))
              (\<lambda>a. XCreateFolder (last (path_items p)) parentId a);
            (if folderId \<noteq> 0 then addPath F p folderId else ret ());
            ret (uint folderId)
          }
        }
      })"

definition deleteObject :: "'w mtp \<Rightarrow> string \<Rightarrow> ('w sts, int) state" where
  "deleteObject F p = do {
     f \<leftarrow> getFileMetadata F p;
     s \<leftarrow> State_Monad.get;
     result \<leftarrow> call (x_delete F (devno s) (kf_itemId f)) (\<lambda>a. XDelete (kf_itemId f) a);
     (if result = 0 then removePath p else ret ());
     ret result
   }"

end
