(* ===== verification/MtpWorker.thy ===== *)
theory MtpWorker
  imports MtpStorage
begin

text \<open>
  The MTP worker (mtp/kio_mtp.h, mtp/kio_mtp.cpp), the interfaces through which it calls the daemon
  (mtp/shared) and the devices that the daemon keeps (mtp/kiod_module/kmtpd.cpp, mtpdevice.cpp). A call
  over D-Bus is a call of the operation of the storage; the worker handles a signal before the next one is
  sent. A handler that ends the process, or does not end, answers None.
\<close>

section \<open>Devices\<close>

record mtp_device =
  d_no :: nat
  d_objectPath :: string
  d_udi :: string
  d_friendlyName :: string
  d_storages :: "storage list"

record 'w mws = "('w, mtp_ev) io" +
  m_devices :: "mtp_device list"

text \<open>
  \<open>checkDevice\<close> for a device that is plugged in: \<open>opened\<close> is what libmtp gives for it, its handle, its name
  (the model's where it has none) and its storages. The object path is numbered by the count of devices.
\<close>

definition deviceFromUdi :: "string \<Rightarrow> mtp_device list \<Rightarrow> mtp_device option" where
  "deviceFromUdi udi ds = find (\<lambda>d. d_udi d = udi) ds"

definition deviceName :: "string option \<Rightarrow> string \<Rightarrow> string" where
  "deviceName friendly model = (case friendly of None \<Rightarrow> model | Some n \<Rightarrow> if n = [] then model else n)"

definition newStorage :: "storage_info \<Rightarrow> storage" where
  "newStorage i = setStorageProperties i
     \<lparr>m_id = 0, m_maxCapacity = 0, m_freeSpaceInBytes = 0, m_description = [], m_cache = Map.empty\<rparr>"

definition checkDevice ::
  "(nat \<Rightarrow> string) \<Rightarrow> string \<Rightarrow> (nat \<times> string option \<times> string \<times> storage_info list) option \<Rightarrow> mtp_device list
   \<Rightarrow> bool \<times> mtp_device list" where
  "checkDevice number udi opened ds =
     (if deviceFromUdi udi ds \<noteq> None then (False, ds)
      else case opened of
        None \<Rightarrow> (False, ds)
      | Some (handle, friendly, model, infos) \<Rightarrow>
          (True, ds @ [\<lparr>d_no = handle, d_objectPath = ''/modules/kmtpd/device'' @ number (length ds), d_udi = udi,
             d_friendlyName = deviceName friendly model, d_storages = map newStorage infos\<rparr>]))"

fun deviceRemoved :: "string \<Rightarrow> mtp_device list \<Rightarrow> mtp_device list" where
  "deviceRemoved udi [] = []"
| "deviceRemoved udi (d # ds) = (if d_udi d = udi then ds else d # deviceRemoved udi ds)"

text \<open>The position of the first device or storage of a name.\<close>

fun position :: "('a \<Rightarrow> bool) \<Rightarrow> 'a list \<Rightarrow> nat option" where
  "position P [] = None"
| "position P (x # xs) = (if P x then Some 0 else map_option Suc (position P xs))"

definition deviceFromName :: "string \<Rightarrow> ('w mws, nat option) state" where
  "deviceFromName name = do {
     s \<leftarrow> State_Monad.get;
     ret (position (\<lambda>d. d_friendlyName d = name) (m_devices s))
   }"

definition storageFromDescription :: "nat \<Rightarrow> string \<Rightarrow> ('w mws, nat option) state" where
  "storageFromDescription d description = do {
     s \<leftarrow> State_Monad.get;
     ret (position (\<lambda>st. m_description st = description) (d_storages (m_devices s ! d)))
   }"

text \<open>An operation of a storage, run in the worker's state.\<close>

definition onStorage :: "nat \<times> nat \<Rightarrow> ('w sts, 'a) state \<Rightarrow> ('w mws, 'a) state" where
  "onStorage at m = State (\<lambda>s. let d = m_devices s ! fst at in
     case run_state m \<lparr>world = world s, trace = trace s, stg = d_storages d ! snd at, devno = d_no d\<rparr> of
       (a, t) \<Rightarrow> (a, s\<lparr>world := world t, trace := trace t,
         m_devices := (m_devices s)[fst at := d\<lparr>d_storages := (d_storages d)[snd at := stg t]\<rparr>]\<rparr>))"

text \<open>The storage that the first two parts of a path name.\<close>

definition findStorage :: "string list \<Rightarrow> ('w mws, (nat \<times> nat) option) state" where
  "findStorage items = do {
     d \<leftarrow> deviceFromName (hd items);
     case d of
       None \<Rightarrow> ret None
     | Some d \<Rightarrow> do {
         st \<leftarrow> storageFromDescription d (items ! 1);
         ret (map_option (\<lambda>i. (d, i)) st)
       }
   }"

definition setFriendlyName :: "'w mtp \<Rightarrow> nat \<Rightarrow> string \<Rightarrow> ('w mws, int) state" where
  "setFriendlyName F d name = do {
     s \<leftarrow> State_Monad.get;
     let dev = m_devices s ! d;
     if d_friendlyName dev = name then ret 1
     else do {
       result \<leftarrow> call (x_setFriendly F (d_no dev) name) (\<lambda>a. XSetFriendly name a);
       (if result = 0
        then State_Monad.update (\<lambda>s. s\<lparr>m_devices := (m_devices s)[d := dev\<lparr>d_friendlyName := name\<rparr>]\<rparr>)
        else ret ());
       ret result
     }
   }"

section \<open>URLs and entries\<close>

text \<open>\<open>section('/', 3, -1, SectionIncludeLeadingSep)\<close>: from the third slash on.\<close>

fun fromSlash :: "nat \<Rightarrow> string \<Rightarrow> string" where
  "fromSlash n [] = []"
| "fromSlash n (c # s) =
     (if c = CHR ''/'' then (if n \<le> 1 then c # s else fromSlash (n - 1) s) else fromSlash n s)"

definition convertPath :: "string \<Rightarrow> string" where
  "convertPath workerPath = fromSlash 3 workerPath"

text \<open>\<open>urlDirectory\<close>, and \<open>QFileInfo(p).dir().path()\<close>.\<close>

definition stripTrailing :: "string \<Rightarrow> string" where
  "stripTrailing p = (if ends_with ''/'' p \<and> length p > 1 then butlast p else p)"

definition urlDirectory :: "qurl \<Rightarrow> string" where
  "urlDirectory u = stripTrailing (rev (dropWhile (\<lambda>c. c \<noteq> CHR ''/'') (rev (path u))))"

definition dirPath :: "string \<Rightarrow> string" where
  "dirPath p = (case dropWhile (\<lambda>c. c \<noteq> CHR ''/'') (rev p) of
     [] \<Rightarrow> ''.'' | _ # r \<Rightarrow> if r = [] then ''/'' else rev r)"

definition deviceEntry :: "mtp_device \<Rightarrow> uds" where
  "deviceEntry d = [UDS_NAME (d_friendlyName d), UDS_ICON_NAME ''multimedia-player'', UDS_MIME_TYPE ''inode/directory'',
     UDS_FILE_TYPE S_IFDIR, UDS_ACCESS 0x16D]"

definition storageEntry :: "storage \<Rightarrow> uds" where
  "storageEntry st = [UDS_NAME (m_description st), UDS_ICON_NAME ''drive-removable-media'', UDS_MIME_TYPE ''inode/directory'',
     UDS_FILE_TYPE S_IFDIR, UDS_ACCESS 0x1FD]"

definition fileEntry :: "kfile \<Rightarrow> uds" where
  "fileEntry f =
     [UDS_NAME (kf_filename f), UDS_MIME_TYPE (kf_filetype f), UDS_FILE_TYPE (if isFolder f then S_IFDIR else S_IFREG),
      UDS_ACCESS (if isFolder f then 0x1FF else 0x16D), UDS_INODE (uint (kf_itemId f)),
      UDS_ACCESS_TIME (kf_modificationdate f), UDS_MODIFICATION_TIME (kf_modificationdate f),
      UDS_CREATION_TIME (kf_modificationdate f)]
     @ (if isFolder f then [] else [UDS_SIZE (sint (kf_filesize f))])"

datatype url_check = UrlValid | UrlRedirected | UrlNotFound | UrlInvalid

abbreviation say :: "app_msg \<Rightarrow> ('w mws, unit) state" where
  "say m \<equiv> tell (XApp m)"

definition mtpUrl :: "string \<Rightarrow> qurl" where
  "mtpUrl p = empty_qurl\<lparr>scheme := ''mtp'', path := p\<rparr>"

definition checkUrl :: "qurl \<Rightarrow> ('w mws, url_check) state" where
  "checkUrl url =
     (if starts_with ''udi='' (path url) then do {
        s \<leftarrow> State_Monad.get;
        case deviceFromUdi (drop 4 (stripTrailing (path url))) (m_devices s) of
          None \<Rightarrow> ret UrlNotFound
        | Some d \<Rightarrow> do { say (MsgRedirection (mtpUrl (CHR ''/'' # d_friendlyName d))); ret UrlRedirected }
      }
      else if starts_with ''/'' (path url) then ret UrlValid
      else if scheme url = ''mtp'' \<and> path url = [] then do {
        say (MsgRedirection (url\<lparr>path := ''/''\<rparr>));
        ret UrlRedirected
      }
      else ret UrlInvalid)"

text \<open>The checks before a request that reads, and before one that changes.\<close>

definition checkedRead :: "qurl \<Rightarrow> ('w mws, worker_result) state \<Rightarrow> ('w mws, worker_result) state" where
  "checkedRead url m = do {
     c \<leftarrow> checkUrl url;
     case c of
       UrlValid \<Rightarrow> m
     | UrlRedirected \<Rightarrow> ret Pass
     | UrlNotFound \<Rightarrow> ret (Fail ERR_DOES_NOT_EXIST (path url))
     | UrlInvalid \<Rightarrow> ret (Fail ERR_MALFORMED_URL (path url))
   }"

definition checkedWrite :: "qurl \<Rightarrow> ('w mws, worker_result) state \<Rightarrow> ('w mws, worker_result) state" where
  "checkedWrite url m = do {
     c \<leftarrow> checkUrl url;
     if c = UrlValid then m else ret (Fail ERR_MALFORMED_URL (path url))
   }"

section \<open>Listing and describing\<close>

fun sayEntries :: "uds list \<Rightarrow> ('w mws, unit) state" where
  "sayEntries [] = ret ()"
| "sayEntries (e # es) = do { say (MsgListEntry e); sayEntries es }"

text \<open>A lister that runs until all children have been signalled or it is aborted.\<close>

fun runLister :: "'w mtp \<Rightarrow> nat \<times> nat \<Rightarrow> string \<Rightarrow> u32 list \<Rightarrow> ('w mws, unit) state" where
  "runLister F at p [] = ret ()"
| "runLister F at p (c # cs) = do {
     r \<leftarrow> onStorage at (listerTurn F p c);
     case r of
       None \<Rightarrow> runLister F at p cs
     | Some f \<Rightarrow> do {
         say (MsgListEntry (fileEntry f));
         killed \<leftarrow> call (y_wasKilled F) (\<lambda>a. XApp (MsgWasKilled a));
         if killed then ret () else runLister F at p cs
       }
   }"

definition listFiles :: "'w mtp \<Rightarrow> qurl \<Rightarrow> nat \<times> nat \<Rightarrow> ('w mws, worker_result) state" where
  "listFiles F url at =
     (if x_hasGetChildren F then do {
        r \<leftarrow> onStorage at (getFilesAndFolders2 F (convertPath (path url)));
        case r of
          Inl _ \<Rightarrow> ret (Fail ERR_UNKNOWN [])
        | Inr cs \<Rightarrow> do { runLister F at (convertPath (path url)) cs; ret Pass }
      }
      else do {
        (files, result) \<leftarrow> onStorage at (getFilesAndFolders F (convertPath (path url)));
        if result = 0 then do { sayEntries (map fileEntry files); ret Pass }
        else if result = 2 then ret (Fail ERR_IS_FILE (path url))
        else ret (Fail ERR_CANNOT_ENTER_DIRECTORY (path url))
      })"

definition notAccessible :: string where
  "notAccessible = ''Could not access device. Make sure it is unlocked, and tap \"Allow\" on the popup on its screen. If that does not work, make sure MTP is enabled in its USB connection settings.''"

definition listStorages :: "storage list \<Rightarrow> ('w mws, worker_result) state" where
  "listStorages sts = do {
     say (MsgTotalSize (word_of_nat (length sts)));
     if sts = [] then ret (Fail ERR_WORKER_DEFINED notAccessible)
     else do { sayEntries (map storageEntry sts); ret Pass }
   }"

definition mtpListDir :: "'w mtp \<Rightarrow> qurl \<Rightarrow> ('w mws, worker_result) state" where
  "mtpListDir F url = checkedRead url (do {
     say (MsgListEntry [UDS_NAME ''.'', UDS_FILE_TYPE S_IFDIR, UDS_SIZE 0, UDS_ACCESS 0x1FD]);
     let items = path_items (path url);
     s \<leftarrow> State_Monad.get;
     if items = [] then do {
       say (MsgTotalSize (word_of_nat (length (m_devices s))));
       sayEntries (map deviceEntry (m_devices s));
       ret Pass
     }
     else do {
       d \<leftarrow> deviceFromName (hd items);
       case d of
         None \<Rightarrow> ret (Fail ERR_CANNOT_ENTER_DIRECTORY (path url))
       | Some d \<Rightarrow>
           (if length items = 1 then listStorages (d_storages (m_devices s ! d))
            else do {
              st \<leftarrow> storageFromDescription d (items ! 1);
              case st of
                None \<Rightarrow> ret (Fail ERR_CANNOT_ENTER_DIRECTORY (path url))
              | Some i \<Rightarrow> listFiles F url (d, i)
            })
     }
   })"

definition statFile :: "'w mtp \<Rightarrow> qurl \<Rightarrow> nat \<times> nat \<Rightarrow> ('w mws, worker_result) state" where
  "statFile F url at = do {
     f \<leftarrow> onStorage at (getFileMetadata F (convertPath (path url)));
     if isValid f then do { say (MsgStatEntry (fileEntry f)); ret Pass }
     else ret (Fail ERR_DOES_NOT_EXIST (path url))
   }"

definition rootEntry :: uds where
  "rootEntry = [UDS_NAME ''mtp:///'', UDS_MIME_TYPE ''inode/directory'', UDS_FILE_TYPE S_IFDIR, UDS_ACCESS 0x16D]"

definition mtpStat :: "'w mtp \<Rightarrow> qurl \<Rightarrow> ('w mws, worker_result) state" where
  "mtpStat F url = checkedRead url (do {
     let items = path_items (path url);
     s \<leftarrow> State_Monad.get;
     if items = [] then do { say (MsgStatEntry rootEntry); ret Pass }
     else do {
       d \<leftarrow> deviceFromName (hd items);
       case d of
         None \<Rightarrow> ret (Fail ERR_DOES_NOT_EXIST (path url))
       | Some d \<Rightarrow>
           (if length items < 2 then do { say (MsgStatEntry (deviceEntry (m_devices s ! d))); ret Pass }
            else do {
              st \<leftarrow> storageFromDescription d (items ! 1);
              case st of
                None \<Rightarrow> ret (Fail ERR_DOES_NOT_EXIST (path url))
              | Some i \<Rightarrow>
                  (if length items < 3
                   then do { say (MsgStatEntry (storageEntry (d_storages (m_devices s ! d) ! i))); ret Pass }
                   else statFile F url (d, i))
            })
     }
   })"

definition mtpMimetype :: "'w mtp \<Rightarrow> qurl \<Rightarrow> ('w mws, worker_result) state" where
  "mtpMimetype F url = checkedRead url (do {
     let items = path_items (path url);
     if length items \<le> 2 then do { say (MsgMimeType ''inode/directory''); ret Pass }
     else do {
       at \<leftarrow> findStorage items;
       case at of
         None \<Rightarrow> ret (Fail ERR_DOES_NOT_EXIST (path url))
       | Some at \<Rightarrow> do {
           f \<leftarrow> onStorage at (getFileMetadata F (convertPath (path url)));
           if isValid f then do { say (MsgMimeType (kf_filetype f)); ret Pass }
           else ret (Fail ERR_DOES_NOT_EXIST (path url))
         }
     }
   })"

section \<open>Reading\<close>

fun sayData :: "byte list list \<Rightarrow> ('w mws, unit) state" where
  "sayData [] = ret ()"
| "sayData (d # ds) = do { say (MsgData d); sayData ds }"

definition getData :: "'w mtp \<Rightarrow> u32 \<Rightarrow> ('w sts, byte list list \<times> int) state" where
  "getData F i = do {
     s \<leftarrow> State_Monad.get;
     call (x_getData F (devno s) i) (\<lambda>a. XGetData i (snd a))
   }"

definition getFrom :: "'w mtp \<Rightarrow> qurl \<Rightarrow> nat \<times> nat \<Rightarrow> ('w mws, worker_result) state" where
  "getFrom F url at = do {
     let p = convertPath (path url);
     source \<leftarrow> onStorage at (getFileMetadata F p);
     if \<not> isValid source then ret (Fail ERR_DOES_NOT_EXIST (path url))
     else do {
       say (MsgMimeType (kf_filetype source));
       say (MsgTotalSize (kf_filesize source));
       r \<leftarrow> onStorage at (getFileTo F p);
       case r of
         None \<Rightarrow> ret (Fail ERR_CANNOT_READ (path url))
       | Some i \<Rightarrow> do {
           (ds, result) \<leftarrow> onStorage at (getData F i);
           sayData ds;
           if result \<noteq> 0 then ret (Fail ERR_CANNOT_READ (path url))
           else do { say (MsgData []); ret Pass }
         }
     }
   }"

definition mtpGet :: "'w mtp \<Rightarrow> qurl \<Rightarrow> ('w mws, worker_result) state" where
  "mtpGet F url = checkedWrite url (
     if length (path_items (path url)) > 2 then do {
       at \<leftarrow> findStorage (path_items (path url));
       case at of None \<Rightarrow> ret (Fail ERR_CANNOT_READ (path url)) | Some at \<Rightarrow> getFrom F url at
     }
     else ret (Fail ERR_UNSUPPORTED_ACTION (path url)))"

section \<open>Writing\<close>

fun sayProgress :: "u64 list \<Rightarrow> ('w mws, unit) state" where
  "sayProgress [] = ret ()"
| "sayProgress (n # ns) = do { say (MsgProcessedSize n); sayProgress ns }"

definition waitForCopyOperation :: "nat \<times> nat \<Rightarrow> ('w sts, u64 list \<times> int) state \<Rightarrow> ('w mws, int) state" where
  "waitForCopyOperation at m = do {
     (sent, result) \<leftarrow> onStorage at m;
     sayProgress sent;
     ret result
   }"

text \<open>What is in the way is deleted with Overwrite; or the failure.\<close>

definition clearDestination ::
  "'w mtp \<Rightarrow> nat \<times> nat \<Rightarrow> string \<Rightarrow> string \<Rightarrow> job_flags \<Rightarrow> ('w mws, worker_result) state" where
  "clearDestination F at destinationPath text flags = do {
     f \<leftarrow> onStorage at (getFileMetadata F destinationPath);
     if \<not> isValid f then ret Pass
     else if \<not> fl_overwrite flags then ret (Fail ERR_FILE_ALREADY_EXIST text)
     else do {
       result \<leftarrow> onStorage at (deleteObject F destinationPath);
       ret (if result \<noteq> 0 then Fail ERR_CANNOT_DELETE text else Pass)
     }
   }"

text \<open>Sending an open file of the given size: the result of the wait, or None if it was refused.\<close>

definition sendFile ::
  "'w mtp \<Rightarrow> nat \<times> nat \<Rightarrow> string \<Rightarrow> string \<Rightarrow> u64 \<Rightarrow> ('w mws, int option) state" where
  "sendFile F at descriptor destinationPath len = do {
     say (MsgTotalSize len);
     r \<leftarrow> onStorage at (sendFileFromFileDescriptor F destinationPath);
     case r of
       Inl _ \<Rightarrow> ret None
     | Inr (parentId, filename) \<Rightarrow> do {
         result \<leftarrow> waitForCopyOperation at (sendLater F descriptor parentId filename);
         say (MsgProcessedSize len);
         ret (Some result)
       }
   }"

definition putTo ::
  "'w mtp \<Rightarrow> qurl \<Rightarrow> job_flags \<Rightarrow> string \<Rightarrow> nat \<times> nat \<Rightarrow> ('w mws, worker_result) state" where
  "putTo F url flags temp at = do {
     r \<leftarrow> clearDestination F at (convertPath (path url)) (path url) flags;
     if \<not> success r then ret r
     else do {
       len \<leftarrow> call (y_tempSize F) (\<lambda>a. XTempSize a);
       result \<leftarrow> sendFile F at temp (convertPath (path url)) len;
       ret (case result of
         None \<Rightarrow> Fail ERR_CANNOT_WRITE (fileName url)
       | Some n \<Rightarrow> if n = 0 then Pass else if n = 2 then Fail ERR_IS_FILE (urlDirectory url)
           else Fail ERR_CANNOT_WRITE (fileName url))
     }
   }"

fun putRead :: "'w mtp \<Rightarrow> nat \<Rightarrow> ('w mws, unit option) state" where
  "putRead F 0 = ret None"
| "putRead F (Suc n) = do {
     say MsgDataReq;
     (len, d) \<leftarrow> call (y_readData F) (\<lambda>(k, d). XApp (MsgReadData k d));
     act (y_tempWrite F d) (XTempWrite d);
     if len > 0 then putRead F n else ret (Some ())
   }"

definition mtpPut :: "'w mtp \<Rightarrow> nat \<Rightarrow> qurl \<Rightarrow> job_flags \<Rightarrow> ('w mws, worker_result option) state" where
  "mtpPut F n url flags = do {
     c \<leftarrow> checkUrl url;
     let items = path_items (path url);
     if c \<noteq> UrlValid then ret (Some (Fail ERR_MALFORMED_URL (path url)))
     else if length items < 2 then ret (Some (Fail ERR_UNSUPPORTED_ACTION (path url)))
     else do {
       temp \<leftarrow> call (y_tempOpen F) (\<lambda>a. XTempOpen a);
       case temp of
         None \<Rightarrow> ret (Some (Fail ERR_CANNOT_WRITE (fileName url)))
       | Some name \<Rightarrow> andThen (putRead F n) (\<lambda>_. do {
           at \<leftarrow> findStorage items;
           case at of
             None \<Rightarrow> ret (Some (Fail ERR_CANNOT_WRITE (fileName url)))
           | Some at \<Rightarrow> do { r \<leftarrow> putTo F url flags name at; ret (Some r) }
         })
     }
   }"

section \<open>Copies\<close>

definition copyUp :: "'w mtp \<Rightarrow> qurl \<Rightarrow> qurl \<Rightarrow> job_flags \<Rightarrow> nat \<times> nat \<Rightarrow> ('w mws, worker_result) state" where
  "copyUp F src dest flags at = do {
     r \<leftarrow> clearDestination F at (convertPath (path dest)) (path dest) flags;
     if \<not> success r then ret r
     else do {
       opened \<leftarrow> call (y_openRead F (path src)) (\<lambda>a. XOpenRead (path src) a);
       case opened of
         None \<Rightarrow> ret (Fail ERR_CANNOT_OPEN_FOR_READING (path src))
       | Some len \<Rightarrow> do {
           result \<leftarrow> sendFile F at (path src) (convertPath (path dest)) len;
           ret (if result = Some 0 then Pass else Fail ERR_CANNOT_WRITE (fileName dest))
         }
     }
   }"

definition copyToDevice :: "'w mtp \<Rightarrow> qurl \<Rightarrow> qurl \<Rightarrow> job_flags \<Rightarrow> ('w mws, worker_result) state" where
  "copyToDevice F src dest flags = do {
     c \<leftarrow> checkUrl dest;
     let items = path_items (path dest);
     if c = UrlNotFound then ret (Fail ERR_DOES_NOT_EXIST (path src))
     else if c \<noteq> UrlValid then ret (Fail ERR_MALFORMED_URL (path dest))
     else if length items < 2 then ret (Fail ERR_UNSUPPORTED_ACTION (path dest))
     else do {
       at \<leftarrow> findStorage items;
       case at of None \<Rightarrow> ret (Fail ERR_CANNOT_WRITE (fileName src)) | Some at \<Rightarrow> copyUp F src dest flags at
     }
   }"

definition getFile :: "'w mtp \<Rightarrow> u32 \<Rightarrow> string \<Rightarrow> ('w sts, u64 list \<times> int) state" where
  "getFile F i descriptor = do {
     s \<leftarrow> State_Monad.get;
     call (x_getFile F (devno s) i descriptor) (\<lambda>a. XGetFile i descriptor (snd a))
   }"

text \<open>The local file is opened, and cut to nothing, before the source is looked for.\<close>

definition copyDown :: "'w mtp \<Rightarrow> qurl \<Rightarrow> qurl \<Rightarrow> nat \<times> nat \<Rightarrow> ('w mws, worker_result) state" where
  "copyDown F src dest at = do {
     ok \<leftarrow> call (y_openWrite F (path dest)) (\<lambda>a. XOpenWrite (path dest) a);
     if \<not> ok then ret (Fail ERR_WRITE_ACCESS_DENIED (path dest))
     else do {
       source \<leftarrow> onStorage at (getFileMetadata F (convertPath (path src)));
       if \<not> isValid source then ret (Fail ERR_DOES_NOT_EXIST (path src))
       else do {
         say (MsgTotalSize (kf_filesize source));
         r \<leftarrow> onStorage at (getFileTo F (convertPath (path src)));
         case r of
           None \<Rightarrow> ret (Fail ERR_CANNOT_READ (fileName src))
         | Some i \<Rightarrow> do {
             result \<leftarrow> waitForCopyOperation at (getFile F i (path dest));
             say (MsgProcessedSize (kf_filesize source));
             if result \<noteq> 0 then ret (Fail ERR_CANNOT_READ (fileName src))
             else do {
               act (y_utime F (path dest) (kf_modificationdate source)) (XUtime (path dest) (kf_modificationdate source));
               ret Pass
             }
           }
       }
     }
   }"

definition copyFromDevice :: "'w mtp \<Rightarrow> qurl \<Rightarrow> qurl \<Rightarrow> job_flags \<Rightarrow> ('w mws, worker_result) state" where
  "copyFromDevice F src dest flags = do {
     c \<leftarrow> checkUrl src;
     let items = path_items (path src);
     if c = UrlNotFound then ret (Fail ERR_DOES_NOT_EXIST (t_displayText F src))
     else if c \<noteq> UrlValid then ret (Fail ERR_MALFORMED_URL (t_displayText F src))
     else do {
       there \<leftarrow> (if fl_overwrite flags then ret False else call (y_exists F (path dest)) (\<lambda>a. XExists (path dest) a));
       if there then ret (Fail ERR_FILE_ALREADY_EXIST (path dest))
       else if length items < 2 then ret (Fail ERR_UNSUPPORTED_ACTION (path src))
       else do {
         at \<leftarrow> findStorage items;
         case at of None \<Rightarrow> ret (Fail ERR_CANNOT_READ (fileName src)) | Some at \<Rightarrow> copyDown F src dest at
       }
     }
   }"

definition mtpCopy :: "'w mtp \<Rightarrow> qurl \<Rightarrow> qurl \<Rightarrow> job_flags \<Rightarrow> ('w mws, worker_result) state" where
  "mtpCopy F src dest flags =
     (if scheme src = ''mtp'' \<and> scheme dest = ''mtp''
      then ret (Fail ERR_UNSUPPORTED_ACTION ''Cannot copy/move files on the device itself'')
      else if scheme src = ''file'' \<and> scheme dest = ''mtp'' then copyToDevice F src dest flags
      else if scheme src = ''mtp'' \<and> scheme dest = ''file'' then copyFromDevice F src dest flags
      else ret (Fail ERR_UNSUPPORTED_ACTION []))"

section \<open>Names\<close>

definition mtpMkdir :: "'w mtp \<Rightarrow> qurl \<Rightarrow> ('w mws, worker_result) state" where
  "mtpMkdir F url = checkedWrite url (
     if length (path_items (path url)) \<le> 2 then ret (Fail ERR_CANNOT_MKDIR (path url))
     else do {
       at \<leftarrow> findStorage (path_items (path url));
       case at of
         None \<Rightarrow> ret (Fail ERR_CANNOT_MKDIR (path url))
       | Some at \<Rightarrow> do {
           itemId \<leftarrow> onStorage at (createFolder F (convertPath (path url)));
           ret (if itemId > 0 then Pass
                else if itemId = -1 then Fail ERR_DIR_ALREADY_EXIST (path url)
                else if itemId = -2 then Fail ERR_IS_FILE (path url)
                else Fail ERR_CANNOT_MKDIR (path url))
         }
     })"

definition mtpDel :: "'w mtp \<Rightarrow> qurl \<Rightarrow> ('w mws, worker_result) state" where
  "mtpDel F url = checkedWrite url (
     if length (path_items (path url)) < 2 then ret (Fail ERR_CANNOT_DELETE (path url))
     else do {
       at \<leftarrow> findStorage (path_items (path url));
       case at of
         None \<Rightarrow> ret (Fail ERR_CANNOT_DELETE (path url))
       | Some at \<Rightarrow> do {
           result \<leftarrow> onStorage at (deleteObject F (convertPath (path url)));
           ret (if result = 0 then Pass else Fail ERR_CANNOT_DELETE (path url))
         }
     })"

definition renameFile ::
  "'w mtp \<Rightarrow> qurl \<Rightarrow> qurl \<Rightarrow> job_flags \<Rightarrow> nat \<times> nat \<Rightarrow> ('w mws, worker_result) state" where
  "renameFile F src dest flags at = do {
     r \<leftarrow> clearDestination F at (convertPath (path dest)) (path dest) flags;
     if \<not> success r then ret r
     else do {
       result \<leftarrow> onStorage at (setFileName F (convertPath (path src)) (fileName dest));
       ret (if result \<noteq> 0 then Fail ERR_CANNOT_RENAME (path src) else Pass)
     }
   }"

definition renameOn :: "'w mtp \<Rightarrow> qurl \<Rightarrow> qurl \<Rightarrow> job_flags \<Rightarrow> nat \<Rightarrow> ('w mws, worker_result) state" where
  "renameOn F src dest flags d = (let items = path_items (path src) in
     if length items = 1 then do {
       result \<leftarrow> setFriendlyName F d (fileName dest);
       ret (if result \<noteq> 0 then Fail ERR_CANNOT_RENAME (path src) else Pass)
     }
     else if length items = 2 then ret (Fail ERR_CANNOT_RENAME (path src))
     else if dirPath (path src) \<noteq> dirPath (path dest) then ret (Fail ERR_UNSUPPORTED_ACTION (path src))
     else do {
       st \<leftarrow> storageFromDescription d (items ! 1);
       case st of
         None \<Rightarrow> ret (Fail ERR_CANNOT_RENAME (path src))
       | Some i \<Rightarrow> renameFile F src dest flags (d, i)
     })"

text \<open>
  The check of the two URLs looks at the source both times. Without a part in the source's path the
  first one is taken of an empty list, which ends the process.
\<close>

definition mtpRename :: "'w mtp \<Rightarrow> qurl \<Rightarrow> qurl \<Rightarrow> job_flags \<Rightarrow> ('w mws, worker_result option) state" where
  "mtpRename F src dest flags = do {
     c \<leftarrow> checkUrl src;
     if c \<noteq> UrlValid then ret (Some (Fail ERR_MALFORMED_URL (path src)))
     else do {
       c \<leftarrow> checkUrl src;
       if c \<noteq> UrlValid then ret (Some (Fail ERR_MALFORMED_URL (path dest)))
       else if scheme src \<noteq> ''mtp'' then ret (Some (Fail ERR_UNSUPPORTED_ACTION (path src)))
       else if path_items (path src) = [] then ret None
       else do {
         d \<leftarrow> deviceFromName (hd (path_items (path src)));
         case d of
           None \<Rightarrow> ret (Some (Fail ERR_CANNOT_RENAME (path src)))
         | Some d \<Rightarrow> do { r \<leftarrow> renameOn F src dest flags d; ret (Some r) }
       }
     }
   }"

definition mtpFreeSpace :: "'w mtp \<Rightarrow> qurl \<Rightarrow> ('w mws, worker_result) state" where
  "mtpFreeSpace F url = checkedRead url (
     if length (path_items (path url)) \<le> 1 then ret (Fail ERR_CANNOT_STAT (t_displayText F url))
     else do {
       at \<leftarrow> findStorage (path_items (path url));
       case at of
         None \<Rightarrow> ret (Fail ERR_CANNOT_STAT (t_displayText F url))
       | Some at \<Rightarrow> do {
           s \<leftarrow> State_Monad.get;
           tell (XMetaData ''total'' (m_maxCapacity (d_storages (m_devices s ! fst at) ! snd at)));
           free \<leftarrow> onStorage at (freeSpaceInBytes F);
           tell (XMetaData ''available'' free);
           ret Pass
         }
     })"

text \<open>\<open>chmod\<close> and \<open>chown\<close> do nothing.\<close>

definition mtpChmod :: "qurl \<Rightarrow> int \<Rightarrow> ('w mws, worker_result) state" where
  "mtpChmod url permissions = ret Pass"

definition mtpChown :: "qurl \<Rightarrow> string \<Rightarrow> string \<Rightarrow> ('w mws, worker_result) state" where
  "mtpChown url owner grp = ret Pass"

end
