(* ===== verification/MtpDemo.thy ===== *)
theory MtpDemo
  imports MtpWorker
begin

text \<open>
  A concrete device for the witnesses of the MTP worker: a storage with one folder, which holds one file.
  Nothing on it changes.
\<close>

definition mtp_dir :: lfile where
  "mtp_dir = \<lparr>lf_id = 5, lf_parent = 0, lf_storage = 1, lf_name = ''DCIM'', lf_size = 0, lf_date = 3, lf_type = FT_FOLDER\<rparr>"

definition mtp_file :: lfile where
  "mtp_file = \<lparr>lf_id = 6, lf_parent = 5, lf_storage = 1, lf_name = ''a.jpg'', lf_size = 3, lf_date = 4, lf_type = FT_JPEG\<rparr>"

definition mtp_kids :: "u32 \<Rightarrow> lfile list" where
  "mtp_kids i = (if i = FILES_AND_FOLDERS_ROOT then [mtp_dir] else if i = 5 then [mtp_file] else [])"

definition mtp_meta :: "u32 \<Rightarrow> lfile option" where
  "mtp_meta i = (if i = 5 then Some mtp_dir else if i = 6 then Some mtp_file else None)"

definition mtp_demo :: "nat mtp" where
  "mtp_demo = \<lparr>
     x_now = \<lambda>w. (int w, Suc w),
     x_metadata = \<lambda>d i w. (mtp_meta i, w),
     x_children = \<lambda>d st i w. (Some (map lf_id (mtp_kids i)), w),
     x_files = \<lambda>d st i w. (mtp_kids i, w),
     x_storages = \<lambda>d w. (None, w),
     x_delete = \<lambda>d i w. (0, w),
     x_createFolder = \<lambda>d n p st w. (0, w),
     x_setName = \<lambda>d f n w. (0, w),
     x_send = \<lambda>d n f w. (([], 0), w),
     x_getData = \<lambda>d i w. (([[1, 2, 3]], 0), w),
     x_getFile = \<lambda>d i p w. (([3], 0), w),
     x_fstat = \<lambda>n w. (Some (3, 4), w),
     x_setFriendly = \<lambda>d n w. (0, w),
     y_tempOpen = \<lambda>w. (Some ''t'', w),
     y_tempWrite = \<lambda>d w. w,
     y_tempSize = \<lambda>w. (3, w),
     y_exists = \<lambda>p w. (False, w),
     y_openRead = \<lambda>p w. (Some 3, w),
     y_openWrite = \<lambda>p w. (True, w),
     y_utime = \<lambda>p t w. w,
     y_readData = \<lambda>w. ((0, []), w),
     y_wasKilled = \<lambda>w. (False, w),
     x_hasGetChildren = True,
     t_displayText = path\<rparr>"

definition mtp_storage :: storage where
  "mtp_storage = newStorage \<lparr>si_id = 1, si_capacity = 100, si_free = 50, si_description = ''Internal''\<rparr>"

definition mtp_sts :: "nat sts" where
  "mtp_sts = \<lparr>world = 0, trace = [], stg = mtp_storage, devno = 0\<rparr>"

definition mtp_phone :: mtp_device where
  "mtp_phone = \<lparr>d_no = 0, d_objectPath = ''/modules/kmtpd/device0'', d_udi = ''u'', d_friendlyName = ''Phone'',
     d_storages = [mtp_storage]\<rparr>"

definition mtp_start :: "nat mws" where
  "mtp_start = \<lparr>world = 0, trace = [], m_devices = [mtp_phone]\<rparr>"

definition mtp_flags :: job_flags where
  "mtp_flags = \<lparr>fl_overwrite = False, fl_resume = False\<rparr>"

lemma mtp_walk: "path_items ''/DCIM/a.jpg'' = [''DCIM'', ''a.jpg'']"
  by code_simp

lemma mtp_converted: "convertPath ''/Phone/Internal/DCIM/a.jpg'' = ''/DCIM/a.jpg''"
  by code_simp

end
