(* ===== verification/MtpFacts.thy ===== *)
theory MtpFacts
  imports MtpDemo
begin

text \<open>
  Finding a file of an MTP device: on a device that holds a tree of files the lookup gives what a walk from
  the root gives, whatever the cache has come to hold and whatever the time is; what an upload, a copy and a
  rename do with a file that is in their way.
\<close>

section \<open>Paths\<close>

lemma path_parts_slash: "path_parts acc (xs @ CHR ''/'' # ys) = path_parts acc xs @ path_parts [] ys"
  by (induction acc xs rule: path_parts.induct) auto

lemma path_parts_name: "CHR ''/'' \<notin> set n \<Longrightarrow> path_parts acc n = (if acc = [] \<and> n = [] then [] else [rev acc @ n])"
  by (induction acc n rule: path_parts.induct) auto

lemma path_items_child: "n \<noteq> [] \<Longrightarrow> CHR ''/'' \<notin> set n \<Longrightarrow> path_items (p @ CHR ''/'' # n) = path_items p @ [n]"
  by (simp add: path_items_def path_parts_slash path_parts_name)

lemma path_items_Nil [simp]: "path_items [] = []"
  by (simp add: path_items_def)

lemma path_parts_names:
  "CHR ''/'' \<notin> set acc \<Longrightarrow> x \<in> set (path_parts acc p) \<Longrightarrow> x \<noteq> [] \<and> CHR ''/'' \<notin> set x"
  by (induction acc p rule: path_parts.induct) (auto split: if_splits)

lemma path_items_names: "x \<in> set (path_items p) \<Longrightarrow> x \<noteq> [] \<and> CHR ''/'' \<notin> set x"
  using path_parts_names[of "[]"] by (simp add: path_items_def)

lemma path_items_concat:
  "(\<And>x. x \<in> set items \<Longrightarrow> x \<noteq> [] \<and> CHR ''/'' \<notin> set x) \<Longrightarrow> path_items (concat (map (\<lambda>i. CHR ''/'' # i) items)) = items"
proof (induction items rule: rev_induct)
  case (snoc x xs)
  then show ?case using path_items_child[of x "concat (map (\<lambda>i. CHR ''/'' # i) xs)"] by simp
qed simp

lemma path_items_convert: "n \<le> length (path_items p) \<Longrightarrow> path_items (convertToPath (path_items p) n) = take n (path_items p)"
  unfolding convertToPath_def using path_items_names path_items_concat[of "take n (path_items p)"]
  by (auto dest: in_set_takeD)

section \<open>Devices that hold a tree\<close>

text \<open>
  A device \<open>d\<close> answers for the storage \<open>sid\<close> from a tree that stays the same: \<open>kids\<close> are the files in a
  folder, \<open>meta\<close> the file of an identifier. Names are unique in their folder.
\<close>

definition well_named :: "(u32 \<Rightarrow> lfile list) \<Rightarrow> (u32 \<Rightarrow> lfile option) \<Rightarrow> bool" where
  "well_named kids meta \<longleftrightarrow> (\<forall>i. distinct (map lf_name (kids i)) \<and>
     (\<forall>f \<in> set (kids i). meta (lf_id f) = Some f \<and> lf_name f \<noteq> [] \<and> CHR ''/'' \<notin> set (lf_name f)))"

definition holds_tree :: "'w mtp \<Rightarrow> nat \<Rightarrow> u32 \<Rightarrow> (u32 \<Rightarrow> lfile list) \<Rightarrow> (u32 \<Rightarrow> lfile option) \<Rightarrow> bool" where
  "holds_tree F d sid kids meta \<longleftrightarrow> well_named kids meta \<and>
     (\<forall>i w. fst (x_metadata F d i w) = meta i) \<and>
     (\<forall>i w. fst (x_children F d sid i w) = Some (map lf_id (kids i))) \<and>
     (\<forall>i w. fst (x_files F d sid i w) = kids i)"

fun walk :: "(u32 \<Rightarrow> lfile list) \<Rightarrow> u32 \<Rightarrow> string list \<Rightarrow> u32 option" where
  "walk kids i [] = Some i"
| "walk kids i (e # es) = (case find (\<lambda>f. lf_name f = e) (kids i) of None \<Rightarrow> None | Some f \<Rightarrow> walk kids (lf_id f) es)"

definition file_at :: "(u32 \<Rightarrow> lfile list) \<Rightarrow> (u32 \<Rightarrow> lfile option) \<Rightarrow> u32 \<Rightarrow> string list \<Rightarrow> kfile" where
  "file_at kids meta i items = (case walk kids i items of
     None \<Rightarrow> invalidFile
   | Some i \<Rightarrow> (case meta i of None \<Rightarrow> invalidFile | Some f \<Rightarrow> createKMTPFile f))"

lemma walk_append: "walk kids i (xs @ ys) = (case walk kids i xs of None \<Rightarrow> None | Some j \<Rightarrow> walk kids j ys)"
  by (induction xs arbitrary: i) (auto split: option.splits)

text \<open>The cache knows nothing wrong.\<close>

definition sound :: "(u32 \<Rightarrow> lfile list) \<Rightarrow> (string \<rightharpoonup> (int \<times> u32)) \<Rightarrow> bool" where
  "sound kids c \<longleftrightarrow> (\<forall>p t i. c p = Some (t, i) \<longrightarrow> i = 0 \<or> walk kids FILES_AND_FOLDERS_ROOT (path_items p) = Some i)"

definition good :: "nat \<Rightarrow> u32 \<Rightarrow> (u32 \<Rightarrow> lfile list) \<Rightarrow> 'w sts \<Rightarrow> bool" where
  "good d sid kids s \<longleftrightarrow> devno s = d \<and> m_id (stg s) = sid \<and> sound kids (m_cache (stg s))"

lemma good_world [simp]: "good d sid kids (s\<lparr>world := w, trace := l\<rparr>) = good d sid kids s"
  by (simp add: good_def)

lemma wp_set_cache:
  assumes "good d sid kids s" "\<And>u i. v = Some (u, i) \<Longrightarrow> i = 0 \<or> walk kids FILES_AND_FOLDERS_ROOT (path_items p) = Some i"
    "\<And>t. good d sid kids t \<Longrightarrow> Q () t"
  shows "wp (set_cache p v) Q s"
  unfolding set_cache_def wp_update by (rule assms(3)) (use assms(1,2) in \<open>auto simp: good_def sound_def\<close>)

lemma wp_addPath:
  assumes "good d sid kids s" "walk kids FILES_AND_FOLDERS_ROOT (path_items p) = Some i" "\<And>t. good d sid kids t \<Longrightarrow> Q () t"
  shows "wp (addPath F p i) Q s"
  unfolding addPath_def using assms
  by (auto simp: wp_bind wp_call split: prod.splits intro!: wp_set_cache[of d sid kids])

lemma wp_queryPath:
  assumes "good d sid kids s" "\<And>t. good d sid kids t \<Longrightarrow> Q None t"
    "\<And>t i. good d sid kids t \<Longrightarrow> walk kids FILES_AND_FOLDERS_ROOT (path_items p) = Some i \<Longrightarrow> Q (Some i) t"
  shows "wp (queryPath F p) Q s"
proof -
  have known: "walk kids FILES_AND_FOLDERS_ROOT (path_items p) = Some i"
    if "m_cache (stg s) p = Some (u, i)" "i \<noteq> 0" for u i
    using assms(1) that by (auto simp: good_def sound_def)
  show ?thesis unfolding queryPath_def
    using assms known
    by (auto simp: wp_bind wp_get wp_call wp_return split: option.splits prod.splits
        intro!: wp_set_cache[of d sid kids])
qed

lemma wp_metadata:
  assumes "holds_tree F d sid kids meta" "good d sid kids s" "\<And>t. good d sid kids t \<Longrightarrow> Q (meta i) t"
  shows "wp (metadata F i) Q s"
proof -
  have "fst (x_metadata F d i w) = meta i" for w using assms(1) by (simp add: holds_tree_def)
  then obtain w where "x_metadata F d i (world s) = (meta i, w)" by (metis prod.collapse)
  then show ?thesis using assms(2,3) by (simp add: metadata_def wp_bind wp_get wp_call good_def)
qed

lemma child_path:
  assumes "well_named kids meta" "walk kids FILES_AND_FOLDERS_ROOT (path_items p) = Some i" "f \<in> set (kids i)"
  shows "walk kids FILES_AND_FOLDERS_ROOT (path_items (p @ CHR ''/'' # lf_name f)) = Some (lf_id f)"
proof -
  have "find (\<lambda>g. lf_name g = lf_name f) (kids i) = Some f"
  proof (cases "find (\<lambda>g. lf_name g = lf_name f) (kids i)")
    case None
    then show ?thesis using assms(3) by (auto simp: find_None_iff)
  next
    case (Some g)
    then have "g \<in> set (kids i)" "lf_name g = lf_name f" by (auto simp: find_Some_iff)
    moreover have "inj_on lf_name (set (kids i))" using assms(1) unfolding well_named_def by (meson distinct_map)
    ultimately show ?thesis using Some assms(3) by (auto dest: inj_onD)
  qed
  then show ?thesis using assms by (simp add: path_items_child well_named_def walk_append)
qed

lemma wp_cacheFiles:
  assumes "well_named kids meta" "walk kids FILES_AND_FOLDERS_ROOT (path_items p) = Some i"
    "good d sid kids s" "set fs \<subseteq> set (kids i)" "\<And>t. good d sid kids t \<Longrightarrow> Q () t"
  shows "wp (cacheFiles F p fs) Q s"
  using assms(3,4)
proof (induction fs arbitrary: s)
  case (Cons f fs)
  then show ?case
    using child_path[OF assms(1,2)] by (auto simp: wp_bind intro!: wp_addPath[of d sid kids] Cons.IH)
qed (use assms(5) in \<open>simp add: wp_return\<close>)

lemma wp_getFiles:
  assumes "holds_tree F d sid kids meta" "walk kids FILES_AND_FOLDERS_ROOT (path_items p) = Some i"
    "good d sid kids s" "\<And>t. good d sid kids t \<Longrightarrow> Q (map createKMTPFile (kids i)) t"
  shows "wp (getFilesAndFoldersCached F p i) Q s"
proof -
  have files: "fst (x_files F d sid i w) = kids i" for w using assms(1) by (simp add: holds_tree_def)
  have named: "well_named kids meta" using assms(1) by (simp add: holds_tree_def)
  obtain w where "x_files F d sid i (world s) = (kids i, w)" using files[of "world s"] by (metis prod.collapse)
  then show ?thesis using assms(3,4)
    by (auto simp: getFilesAndFoldersCached_def wp_bind wp_get wp_call wp_return good_def[of d sid kids s]
      intro!: wp_cacheFiles[OF named assms(2), of d sid] simp: good_def)
qed

lemma find_create: "find (\<lambda>f. kf_filename f = e) (map createKMTPFile fs) = map_option createKMTPFile (find (\<lambda>f. lf_name f = e) fs)"
  by (induction fs) (auto simp: createKMTPFile_def)

lemma wp_findChild:
  assumes "holds_tree F d sid kids meta" "walk kids FILES_AND_FOLDERS_ROOT (path_items p) = Some i"
    "good d sid kids s" "set fs \<subseteq> set (kids i)"
    "\<And>t. good d sid kids t \<Longrightarrow> Q (map_option createKMTPFile (find (\<lambda>f. lf_name f = e) fs)) t"
  shows "wp (findChild F e p (map lf_id fs)) Q s"
  using assms(3,4,5)
proof (induction fs arbitrary: s)
  case (Cons f fs)
  have named: "well_named kids meta" using assms(1) by (simp add: holds_tree_def)
  moreover have "f \<in> set (kids i)" using Cons.prems(2) by simp
  ultimately have "meta (lf_id f) = Some f" unfolding well_named_def by blast
  then show ?case using Cons.prems child_path[OF named assms(2)]
    by (auto simp: wp_bind wp_return intro!: wp_metadata[OF assms(1)] wp_addPath[of d sid kids] Cons.IH)
qed (simp add: wp_return)

lemma wp_findEntry:
  assumes "holds_tree F d sid kids meta" "walk kids FILES_AND_FOLDERS_ROOT (path_items p) = Some i"
    "good d sid kids s" "\<And>t. good d sid kids t \<Longrightarrow> Q (map_option createKMTPFile (find (\<lambda>f. lf_name f = e) (kids i))) t"
  shows "wp (findEntry F e p i) Q s"
proof (cases "x_hasGetChildren F")
  case True
  have "fst (x_children F d sid i w) = Some (map lf_id (kids i))" for w using assms(1) by (simp add: holds_tree_def)
  then obtain w where w: "x_children F d sid i (world s) = (Some (map lf_id (kids i)), w)" by (metis prod.collapse)
  define u where "u = s\<lparr>world := w, trace := trace s @ [XChildren i (Some (map lf_id (kids i)))]\<rparr>"
  have "good d sid kids u" using assms(3) by (simp add: u_def)
  then have "wp (findChild F e p (map lf_id (kids i))) Q u"
    by (rule wp_findChild[OF assms(1,2)]) (simp_all add: assms(4))
  then show ?thesis using assms(3) True w by (simp add: findEntry_def wp_bind wp_get wp_call good_def u_def)
next
  case False
  then show ?thesis
    by (auto simp: findEntry_def wp_bind wp_return find_create intro!: wp_getFiles[OF assms(1,2,3)] assms(4))
qed

lemma wp_treeWalk:
  fixes F :: "'w mtp"
  assumes "holds_tree F d sid kids meta" "\<And>t. good d sid kids t \<Longrightarrow> Q (file_at kids meta i items) t"
    "walk kids FILES_AND_FOLDERS_ROOT (path_items p) = Some i" "good d sid kids s"
    "\<And>x. x \<in> set items \<Longrightarrow> x \<noteq> [] \<and> CHR ''/'' \<notin> set x"
  shows "wp (treeWalk F items p i) Q s"
  using assms(2-)
proof (induction items arbitrary: p i s)
  case Nil
  then show ?case
    by (auto simp: wp_bind wp_return file_at_def intro!: wp_metadata[OF assms(1)] split: option.splits)
next
  case (Cons e es)
  show ?case unfolding treeWalk.simps wp_bind
  proof (rule wp_findEntry[OF assms(1) Cons.prems(2,3)])
    fix t :: "'w sts" assume t: "good d sid kids t"
    show "wp (case map_option createKMTPFile (find (\<lambda>f. lf_name f = e) (kids i)) of
        None \<Rightarrow> ret invalidFile | Some f \<Rightarrow> treeWalk F es (p @ ''/'' @ e) (kf_itemId f)) Q t"
    proof (cases "find (\<lambda>f. lf_name f = e) (kids i)")
      case None
      then show ?thesis using Cons.prems(1)[OF t] by (simp add: wp_return file_at_def)
    next
      case (Some f)
      have id: "kf_itemId (createKMTPFile f) = lf_id f" by (simp add: createKMTPFile_def)
      have "walk kids FILES_AND_FOLDERS_ROOT (path_items (p @ ''/'' @ e)) = Some (lf_id f)"
        using Cons.prems(2,4) Some by (simp add: path_items_child walk_append)
      moreover have "Q (file_at kids meta (lf_id f) es) u" if "good d sid kids u" for u
        using Cons.prems(1)[OF that] Some by (simp add: file_at_def)
      ultimately show ?thesis using Some id t Cons.prems(4) by (simp add: Cons.IH)
    qed
  qed
qed

lemma wp_fromParent:
  fixes F :: "'w mtp"
  assumes "holds_tree F d sid kids meta" "good d sid kids s" "items = path_items p" "items \<noteq> []"
    "\<And>t. good d sid kids t \<Longrightarrow> Q None t" "\<And>t. good d sid kids t \<Longrightarrow> Q (Some (file_at kids meta FILES_AND_FOLDERS_ROOT items)) t"
  shows "wp (fromParent F items) Q s"
proof -
  let ?parent = "convertToPath items (length items - 1)"
  have parts: "path_items ?parent = butlast items" using path_items_convert[of "length items - 1" p] assms(3)
    by (simp add: butlast_conv_take)
  have named: "well_named kids meta" using assms(1) by (simp add: holds_tree_def)
  have found: "Q (find (\<lambda>f. kf_filename f = last items) (map createKMTPFile (kids i))) t"
    if "good d sid kids t" "walk kids FILES_AND_FOLDERS_ROOT (butlast items) = Some i" for i t
  proof (cases "find (\<lambda>f. lf_name f = last items) (kids i)")
    case None
    then show ?thesis using assms(5) that(1) by (simp add: find_create)
  next
    case (Some f)
    then have "f \<in> set (kids i)" by (auto simp: find_Some_iff)
    then have "meta (lf_id f) = Some f" using named unfolding well_named_def by blast
    moreover have "walk kids FILES_AND_FOLDERS_ROOT (butlast items @ [last items]) = Some (lf_id f)"
      using that(2) Some by (simp add: walk_append)
    ultimately have "file_at kids meta FILES_AND_FOLDERS_ROOT items = createKMTPFile f"
      using assms(4) by (simp add: file_at_def)
    then show ?thesis using assms(6)[OF that(1)] Some by (simp add: find_create)
  qed
  show ?thesis unfolding fromParent_def Let_def wp_bind
  proof (rule wp_queryPath[of d sid kids])
    fix t :: "'w sts" and i assume t: "good d sid kids t" "walk kids FILES_AND_FOLDERS_ROOT (path_items ?parent) = Some i"
    show "wp (case Some i of None \<Rightarrow> ret None | Some i \<Rightarrow> do {
         r \<leftarrow> metadata F i;
         case r of
           None \<Rightarrow> ret None
         | Some _ \<Rightarrow> do {
             list \<leftarrow> getFilesAndFoldersCached F ?parent i;
             ret (find (\<lambda>f. kf_filename f = last items) list)
           }
       }) Q t"
      using t(2) assms(5) found parts
      by (auto simp: wp_bind wp_return intro!: wp_metadata[OF assms(1) t(1)] wp_getFiles[OF assms(1)] split: option.splits)
  qed (use assms(2,5) in \<open>simp_all add: wp_return\<close>)
qed

lemma wp_getFileFromPath:
  assumes tree: "holds_tree F d sid kids meta" and here: "good d sid kids s"
    and post: "\<And>t. good d sid kids t \<Longrightarrow> Q (file_at kids meta FILES_AND_FOLDERS_ROOT (path_items p)) t"
  shows "wp (getFileFromPath F p) Q s"
proof -
  have tw: "wp (treeWalk F (path_items p) [] FILES_AND_FOLDERS_ROOT) Q t" if "good d sid kids t" for t
    using wp_treeWalk[OF tree, where Q = Q and p = "[]" and i = FILES_AND_FOLDERS_ROOT, OF post _ that] path_items_names by auto
  have cached: "wp (case map_option createKMTPFile (meta i) of
      Some f \<Rightarrow> ret f | None \<Rightarrow> treeWalk F (path_items p) [] FILES_AND_FOLDERS_ROOT) Q t"
    if "good d sid kids t" "walk kids FILES_AND_FOLDERS_ROOT (path_items p) = Some i" for t i
    using tw[OF that(1)] post[OF that(1)] that(2) by (auto simp: wp_return file_at_def split: option.splits)
  show ?thesis
  proof (cases "path_items p = []")
    case True
    then show ?thesis using tw[OF here] by (simp add: getFileFromPath_def fromCache_def wp_bind wp_return)
  next
    case False
    have parent: "wp (if length (path_items p) > 1 then fromParent F (path_items p) else ret None)
       (\<lambda>r. wp (case r of Some f \<Rightarrow> ret f | None \<Rightarrow> treeWalk F (path_items p) [] FILES_AND_FOLDERS_ROOT) Q) t"
      if t: "good d sid kids t" for t
      using tw post t False
      by (auto simp: wp_return intro!: wp_fromParent[OF tree t refl])
    show ?thesis unfolding getFileFromPath_def fromCache_def
      using False cached parent
      by (auto simp: wp_bind wp_return intro!: wp_queryPath[of d sid kids] wp_metadata[OF tree] here)
  qed
qed

text \<open>
  C34. On a device that holds a tree of files, looking up a path gives the file that a walk from the root
  by names leads to, or an invalid file where it leads nowhere, in both variants of the search, whatever is
  cached and whenever it expires, as long as the cache says nothing wrong, and then it says nothing wrong
  afterwards.
\<close>

theorem lookup_is_tree_walk:
  assumes "holds_tree F (devno s) (m_id (stg s)) kids meta" "sound kids (m_cache (stg s))"
  shows "\<exists>t. run_state (getFileFromPath F p) s = (file_at kids meta FILES_AND_FOLDERS_ROOT (path_items p), t) \<and>
    sound kids (m_cache (stg t))"
proof -
  have "wp (getFileFromPath F p) (\<lambda>f t. f = file_at kids meta FILES_AND_FOLDERS_ROOT (path_items p) \<and>
      sound kids (m_cache (stg t))) s"
    by (rule wp_getFileFromPath[OF assms(1)]) (use assms(2) in \<open>auto simp: good_def\<close>)
  then show ?thesis by (auto simp: wp_def split: prod.splits)
qed

lemma mtp_demo_holds: "holds_tree mtp_demo d st mtp_kids mtp_meta"
  by (simp add: holds_tree_def well_named_def mtp_demo_def mtp_kids_def mtp_meta_def mtp_dir_def mtp_file_def
      FILES_AND_FOLDERS_ROOT_def)

lemma mtp_demo_sound: "sound mtp_kids (m_cache mtp_storage)"
  by (simp add: sound_def mtp_storage_def newStorage_def setStorageProperties_def)

lemma mtp_demo_file: "walk mtp_kids FILES_AND_FOLDERS_ROOT [''DCIM'', ''a.jpg''] = Some 6"
  by (simp add: mtp_kids_def mtp_dir_def mtp_file_def FILES_AND_FOLDERS_ROOT_def)

theorem lookup_is_tree_walk_witness:
  "\<exists>t. run_state (getFileFromPath mtp_demo ''/DCIM/a.jpg'') mtp_sts = (createKMTPFile mtp_file, t) \<and>
     sound mtp_kids (m_cache (stg t))"
proof -
  have "file_at mtp_kids mtp_meta FILES_AND_FOLDERS_ROOT (path_items ''/DCIM/a.jpg'') = createKMTPFile mtp_file"
    unfolding mtp_walk file_at_def mtp_demo_file by (simp add: mtp_meta_def)
  moreover have "sound mtp_kids (m_cache (stg mtp_sts))" using mtp_demo_sound by (simp add: mtp_sts_def)
  ultimately show ?thesis using lookup_is_tree_walk[OF mtp_demo_holds, of mtp_sts "''/DCIM/a.jpg''"] by simp
qed

section \<open>A file in the way\<close>

text \<open>The calls that change nothing on a device.\<close>

fun keeps_files :: "mtp_ev \<Rightarrow> bool" where
  "keeps_files (XDelete i r) = False"
| "keeps_files (XCreateFolder n p i) = False"
| "keeps_files (XSetName i n r) = False"
| "keeps_files (XSend n f r) = False"
| "keeps_files _ = True"

lemma cache_keeps:
  "state_io_rel (did keeps_files) (set_cache p v)"
  "state_io_rel (did keeps_files) (queryPath F p)"
  "state_io_rel (did keeps_files) (addPath F p i)"
  "state_io_rel (did keeps_files) (metadata F i)"
proof -
  show cache: "state_io_rel (did keeps_files) (set_cache p v)" for p v
    unfolding set_cache_def by (rule did_update) simp
  show "state_io_rel (did keeps_files) (queryPath F p)" unfolding queryPath_def
    by (intro rel_intros did_call cache) (auto intro!: rel_intros did_call cache split: option.split)
  show "state_io_rel (did keeps_files) (addPath F p i)" unfolding addPath_def
    by (intro rel_intros did_call cache) auto
  show "state_io_rel (did keeps_files) (metadata F i)" unfolding metadata_def
    by (intro rel_intros did_call) auto
qed

lemma cacheFiles_keeps: "state_io_rel (did keeps_files) (cacheFiles F p fs)"
  by (induction fs) (auto intro!: rel_intros cache_keeps)

lemma getFiles_keeps: "state_io_rel (did keeps_files) (getFilesAndFoldersCached F p i)"
  unfolding getFilesAndFoldersCached_def by (intro rel_intros did_call cacheFiles_keeps) auto

lemma findChild_keeps: "state_io_rel (did keeps_files) (findChild F e p cs)"
  by (induction cs) (auto intro!: rel_intros cache_keeps split: option.split)

lemma findEntry_keeps: "state_io_rel (did keeps_files) (findEntry F e p i)"
  unfolding findEntry_def
  by (auto intro!: rel_intros did_call findChild_keeps getFiles_keeps split: option.split)

lemma treeWalk_keeps: "state_io_rel (did keeps_files) (treeWalk F es p i)"
  by (induction es arbitrary: p i) (auto intro!: rel_intros cache_keeps findEntry_keeps split: option.split)

lemma getFileFromPath_keeps: "state_io_rel (did keeps_files) (getFileFromPath F p)"
  unfolding getFileFromPath_def fromCache_def fromParent_def Let_def
  by (auto intro!: rel_intros cache_keeps getFiles_keeps treeWalk_keeps split: option.split)

lemma onStorage_keeps:
  fixes m :: "('w sts, 'a) state"
  assumes "state_io_rel (did P) m"
  shows "state_io_rel (did P) (onStorage at m)"
  unfolding state_io_rel_def
proof
  fix s :: "'w mws"
  let ?s = "\<lparr>world = world s, trace = trace s, stg = d_storages (m_devices s ! fst at) ! snd at,
    devno = d_no (m_devices s ! fst at)\<rparr>"
  have "did P ?s (snd (run_state m ?s))" using assms by (simp add: state_io_rel_def)
  then show "did P s (snd (run_state (onStorage at m) s))"
    by (auto simp: onStorage_def did_def Let_def split: prod.splits)
qed

text \<open>There is the file \<open>f\<close> at the path \<open>p\<close> of a storage.\<close>

definition stands :: "'w mtp \<Rightarrow> 'w mws \<Rightarrow> nat \<times> nat \<Rightarrow> string \<Rightarrow> lfile \<Rightarrow> bool" where
  "stands F s at p f \<longleftrightarrow> (let d = m_devices s ! fst at; st = d_storages d ! snd at in
     \<exists>kids meta i. holds_tree F (d_no d) (m_id st) kids meta \<and> sound kids (m_cache st) \<and>
       walk kids FILES_AND_FOLDERS_ROOT (path_items p) = Some i \<and> meta i = Some f)"

lemma run_onStorage_lookup:
  assumes "stands F s at p f"
  shows "\<exists>t. run_state (onStorage at (getFileMetadata F p)) s = (createKMTPFile f, t) \<and> did keeps_files s t"
proof -
  let ?s = "\<lparr>world = world s, trace = trace s, stg = d_storages (m_devices s ! fst at) ! snd at,
    devno = d_no (m_devices s ! fst at)\<rparr>"
  obtain kids meta i where tree: "holds_tree F (devno ?s) (m_id (stg ?s)) kids meta" "sound kids (m_cache (stg ?s))"
    and i: "walk kids FILES_AND_FOLDERS_ROOT (path_items p) = Some i" "meta i = Some f"
    using assms by (auto simp: stands_def Let_def)
  have "wp (getFileFromPath F p) (\<lambda>a t. a = createKMTPFile f) ?s"
    by (rule wp_getFileFromPath[OF tree(1)]) (use tree(2) i in \<open>auto simp: good_def file_at_def\<close>)
  then have "fst (run_state (onStorage at (getFileMetadata F p)) s) = createKMTPFile f"
    by (auto simp: onStorage_def Let_def getFileMetadata_def wp_def split: prod.splits)
  moreover have "state_io_rel (did keeps_files) (onStorage at (getFileMetadata F p))"
    unfolding getFileMetadata_def by (rule onStorage_keeps[OF getFileFromPath_keeps])
  ultimately show ?thesis unfolding state_io_rel_def by (metis prod.collapse)
qed

lemma refused_destination:
  assumes "stands F s at p f" "lf_id f \<noteq> 0" "\<not> fl_overwrite flags"
  shows "\<exists>t. run_state (clearDestination F at p text flags) s = (Fail ERR_FILE_ALREADY_EXIST text, t) \<and> did keeps_files s t"
  using run_onStorage_lookup[OF assms(1)] assms(2,3)
  by (auto simp: clearDestination_def isValid_def createKMTPFile_def)

text \<open>
  C35. Without Overwrite an upload, a copy to the device and a rename fail where there is a file or a folder
  at the destination, and have then changed nothing on the device: nothing was deleted, sent, renamed
  or made.
\<close>

theorem existing_file_is_kept:
  assumes "stands F s at (convertPath (path dest)) f" "lf_id f \<noteq> 0" "\<not> fl_overwrite flags"
    "m \<in> {putTo F dest flags temp at, copyUp F src dest flags at, renameFile F src dest flags at}"
  shows "\<exists>t. run_state m s = (Fail ERR_FILE_ALREADY_EXIST (path dest), t) \<and> did keeps_files s t"
  using refused_destination[OF assms(1-3), of "path dest"] assms(4)
  by (auto simp: putTo_def copyUp_def renameFile_def)

theorem existing_file_is_kept_witness:
  "\<exists>t. run_state (copyUp mtp_demo (mtpUrl ''/tmp/x'') (mtpUrl ''/Phone/Internal/DCIM/a.jpg'') mtp_flags (0, 0)) mtp_start
     = (Fail ERR_FILE_ALREADY_EXIST ''/Phone/Internal/DCIM/a.jpg'', t) \<and> did keeps_files mtp_start t"
proof -
  let ?dest = "mtpUrl ''/Phone/Internal/DCIM/a.jpg''"
  have dest: "path ?dest = ''/Phone/Internal/DCIM/a.jpg''" by (simp add: mtpUrl_def)
  have "stands mtp_demo mtp_start (0, 0) (convertPath (path ?dest)) mtp_file"
    using mtp_demo_holds mtp_demo_sound mtp_demo_file unfolding dest mtp_converted stands_def mtp_walk Let_def
    by (intro exI[of _ mtp_kids] exI[of _ mtp_meta] exI[of _ 6]) (simp add: mtp_start_def mtp_phone_def mtp_meta_def)
  then show ?thesis
    using existing_file_is_kept[of mtp_demo mtp_start "(0, 0)" ?dest mtp_file mtp_flags
      "copyUp mtp_demo (mtpUrl ''/tmp/x'') ?dest mtp_flags (0, 0)" "[]" "mtpUrl ''/tmp/x''"]
    by (simp add: dest mtp_file_def mtp_flags_def)
qed

end
