(* ===== verification/AfcClient.thy ===== *)
theory AfcClient
  imports KioMessages
begin

text \<open>
  Files of Apple devices (afc/afcurl.h, afcurl.cpp, afcutils.cpp, afcclient.h, afcclient.cpp, afcfile.h,
  afcfile.cpp, afcfilereader.h, afcfilereader.cpp, afcdiskusage.cpp): the parts of a URL, the mapping of
  errors, the operations of a client, an open file and its reader. libimobiledevice, the application and
  the local cache of icons are the parameter \<open>afc\<close>.
\<close>

type_synonym i64 = "64 word"

section \<open>URLs\<close>

datatype browse_mode = BrowseNone | BrowseFileSystem | BrowseApps

record afc_url =
  au_mode :: browse_mode
  au_device :: string
  au_appId :: string
  au_path :: string

definition upperChar :: "char \<Rightarrow> char" where
  "upperChar c = (let n = of_char c :: nat in if 97 \<le> n \<and> n \<le> 122 then char_of (n - 32) else c)"

definition toUpper :: "string \<Rightarrow> string" where
  "toUpper s = map upperChar s"

definition appsPrefix :: string where "appsPrefix = ''/@apps''"

text \<open>The application and the path after the tag: the first part, and the rest from its slash on.\<close>

definition appAndPath :: "string \<Rightarrow> string \<times> string" where
  "appAndPath p = (takeWhile (\<lambda>c. c \<noteq> CHR ''/'') (drop 1 p), dropWhile (\<lambda>c. c \<noteq> CHR ''/'') (drop 1 p))"

definition withoutSlash :: "string \<Rightarrow> string" where
  "withoutSlash p = (if p = ''/'' then [] else p)"

definition AfcUrl :: "qurl \<Rightarrow> afc_url" where
  "AfcUrl url =
     (if scheme url \<noteq> ''afc'' then \<lparr>au_mode = BrowseNone, au_device = [], au_appId = [], au_path = []\<rparr>
      else if path url = appsPrefix \<or> starts_with (appsPrefix @ ''/'') (path url)
      then (let (app, p) = appAndPath (drop (length appsPrefix) (path url)) in
        \<lparr>au_mode = BrowseApps, au_device = toUpper (host url), au_appId = app, au_path = withoutSlash p\<rparr>)
      else \<lparr>au_mode = BrowseFileSystem, au_device = toUpper (host url), au_appId = [],
        au_path = withoutSlash (path url)\<rparr>)"

section \<open>Errors\<close>

text \<open>The codes that are distinguished; the rest by number.\<close>

datatype afc_error =
    AFC_E_SUCCESS | AFC_E_END_OF_DATA | AFC_E_UNKNOWN_ERROR | AFC_E_NO_RESOURCES | AFC_E_NO_MEM
  | AFC_E_READ_ERROR | AFC_E_WRITE_ERROR | AFC_E_OBJECT_NOT_FOUND | AFC_E_OBJECT_IS_DIR
  | AFC_E_PERM_DENIED | AFC_E_SERVICE_NOT_CONNECTED | AFC_E_OP_TIMEOUT | AFC_E_OP_NOT_SUPPORTED
  | AFC_E_OBJECT_EXISTS | AFC_E_NO_SPACE_LEFT | AFC_E_IO_ERROR | AFC_E_INTERNAL_ERROR
  | AFC_E_DIR_NOT_EMPTY | AFC_E_MUX_ERROR | AFC_E_other int

datatype house_error = HOUSE_ARREST_E_SUCCESS | HOUSE_ARREST_E_CONN_FAILED | HOUSE_ARREST_E_other int

datatype inst_error =
    INSTPROXY_E_SUCCESS | INSTPROXY_E_CONN_FAILED | INSTPROXY_E_RECEIVE_TIMEOUT | INSTPROXY_E_other int

datatype lockdown_error =
    LOCKDOWN_E_SUCCESS | LOCKDOWN_E_RECEIVE_TIMEOUT | LOCKDOWN_E_MUX_ERROR | LOCKDOWN_E_PASSWORD_PROTECTED
  | LOCKDOWN_E_USER_DENIED_PAIRING | LOCKDOWN_E_PAIRING_DIALOG_RESPONSE_PENDING
  | LOCKDOWN_E_INVALID_HOST_ID | LOCKDOWN_E_other int

datatype sb_error = SBSERVICES_E_SUCCESS | SBSERVICES_E_CONN_FAILED | SBSERVICES_E_other int

text \<open>\<open>number\<close> writes a code; \<open>text\<close> is the text of the error.\<close>

definition unhandled :: "string \<Rightarrow> string \<Rightarrow> string" where
  "unhandled what code = what @ CHR 0x27 # code @ [CHR 0x27]"

definition from_afc :: "(int \<Rightarrow> string) \<Rightarrow> afc_error \<Rightarrow> string \<Rightarrow> worker_result" where
  "from_afc number e text = (case e of
     AFC_E_SUCCESS \<Rightarrow> Pass
   | AFC_E_END_OF_DATA \<Rightarrow> Pass
   | AFC_E_UNKNOWN_ERROR \<Rightarrow> Fail ERR_UNKNOWN text
   | AFC_E_NO_RESOURCES \<Rightarrow> Fail ERR_OUT_OF_MEMORY text
   | AFC_E_NO_MEM \<Rightarrow> Fail ERR_OUT_OF_MEMORY text
   | AFC_E_READ_ERROR \<Rightarrow> Fail ERR_CANNOT_READ text
   | AFC_E_WRITE_ERROR \<Rightarrow> Fail ERR_CANNOT_WRITE text
   | AFC_E_OBJECT_NOT_FOUND \<Rightarrow> Fail ERR_DOES_NOT_EXIST text
   | AFC_E_OBJECT_IS_DIR \<Rightarrow> Fail ERR_IS_DIRECTORY text
   | AFC_E_PERM_DENIED \<Rightarrow> Fail ERR_ACCESS_DENIED text
   | AFC_E_SERVICE_NOT_CONNECTED \<Rightarrow> Fail ERR_CONNECTION_BROKEN text
   | AFC_E_OP_TIMEOUT \<Rightarrow> Fail ERR_SERVER_TIMEOUT text
   | AFC_E_OP_NOT_SUPPORTED \<Rightarrow> Fail ERR_UNSUPPORTED_ACTION text
   | AFC_E_OBJECT_EXISTS \<Rightarrow> Fail ERR_FILE_ALREADY_EXIST text
   | AFC_E_NO_SPACE_LEFT \<Rightarrow> Fail ERR_DISK_FULL text
   | AFC_E_IO_ERROR \<Rightarrow> Fail ERR_CONNECTION_BROKEN text
   | AFC_E_INTERNAL_ERROR \<Rightarrow> Fail ERR_INTERNAL_SERVER text
   | AFC_E_DIR_NOT_EMPTY \<Rightarrow> Fail ERR_CANNOT_RMDIR text
   | AFC_E_MUX_ERROR \<Rightarrow> Fail ERR_CANNOT_CONNECT text
   | AFC_E_other n \<Rightarrow> Fail ERR_INTERNAL (unhandled ''Unhandled AFC error code '' (number n)))"

definition from_house :: "(int \<Rightarrow> string) \<Rightarrow> house_error \<Rightarrow> string \<Rightarrow> worker_result" where
  "from_house number e text = (case e of
     HOUSE_ARREST_E_SUCCESS \<Rightarrow> Pass
   | HOUSE_ARREST_E_CONN_FAILED \<Rightarrow> Fail ERR_CANNOT_CONNECT text
   | HOUSE_ARREST_E_other n \<Rightarrow> Fail ERR_INTERNAL (unhandled ''Unhandled housearrest error code '' (number n)))"

definition from_inst :: "(int \<Rightarrow> string) \<Rightarrow> inst_error \<Rightarrow> string \<Rightarrow> worker_result" where
  "from_inst number e text = (case e of
     INSTPROXY_E_SUCCESS \<Rightarrow> Pass
   | INSTPROXY_E_CONN_FAILED \<Rightarrow> Fail ERR_CANNOT_CONNECT text
   | INSTPROXY_E_RECEIVE_TIMEOUT \<Rightarrow> Fail ERR_SERVER_TIMEOUT text
   | INSTPROXY_E_other n \<Rightarrow> Fail ERR_INTERNAL (unhandled ''Unhandled instproxy error code '' (number n)))"

definition textOr :: "string \<Rightarrow> string \<Rightarrow> string" where
  "textOr text standard = (if text = [] then standard else text)"

definition from_lockdown :: "(int \<Rightarrow> string) \<Rightarrow> lockdown_error \<Rightarrow> string \<Rightarrow> worker_result" where
  "from_lockdown number e text = (case e of
     LOCKDOWN_E_SUCCESS \<Rightarrow> Pass
   | LOCKDOWN_E_RECEIVE_TIMEOUT \<Rightarrow> Fail ERR_SERVER_TIMEOUT text
   | LOCKDOWN_E_MUX_ERROR \<Rightarrow> Fail ERR_CANNOT_CONNECT text
   | LOCKDOWN_E_PASSWORD_PROTECTED \<Rightarrow> Fail ERR_WORKER_DEFINED
       (textOr text ''The device is locked. Please enter the passcode on the device and try again.'')
   | LOCKDOWN_E_USER_DENIED_PAIRING \<Rightarrow> Fail ERR_WORKER_DEFINED
       (textOr text ''You have denied this computer access to the device.'')
   | LOCKDOWN_E_PAIRING_DIALOG_RESPONSE_PENDING \<Rightarrow> Fail ERR_WORKER_DEFINED
       (textOr text ''You need to allow this computer to access the device. Please accept the prompt on the device and try again.'')
   | LOCKDOWN_E_INVALID_HOST_ID \<Rightarrow> Fail ERR_WORKER_DEFINED
       (textOr text ''Cannot access the device. Make sure it is unlocked and allows this computer to access it.'')
   | LOCKDOWN_E_other n \<Rightarrow> Fail ERR_INTERNAL (unhandled ''Unhandled lockdownd code '' (number n)))"

definition from_sb :: "(int \<Rightarrow> string) \<Rightarrow> sb_error \<Rightarrow> string \<Rightarrow> worker_result" where
  "from_sb number e text = (case e of
     SBSERVICES_E_SUCCESS \<Rightarrow> Pass
   | SBSERVICES_E_CONN_FAILED \<Rightarrow> Fail ERR_CANNOT_CONNECT text
   | SBSERVICES_E_other n \<Rightarrow> Fail ERR_INTERNAL (unhandled ''Unhandled sbservices code '' (number n)))"

section \<open>What the worker calls\<close>

datatype afc_mode = AFC_FOPEN_RDONLY | AFC_FOPEN_RW | AFC_FOPEN_WRONLY | AFC_FOPEN_WR | AFC_FOPEN_APPEND | AFC_FOPEN_RDAPPEND

text \<open>The property list of an application; how it says whether it shares files.\<close>

datatype sharing_item = SharingBool bool | SharingText "string option" | SharingOther

record app_plist =
  ap_bundleId :: "string option"
  ap_displayName :: "string option"
  ap_sharing :: "sharing_item option"

text \<open>A client is named by the application that it is for, none for the files of the device, and its number.\<close>

record afc_client =
  cl_app :: string
  cl_no :: nat

datatype (plugins only: code) afc_ev =
    ADeviceList "string list" | ANewDevice string bool | ALockdown string lockdown_error | ADeviceName string "string option"
  | ADeviceClass string "string option" | AHandshake string lockdown_error | AStartService string string lockdown_error
  | ANewClient string "afc_error + nat" | AHouseClient string house_error | AHouseCommand string string house_error
  | AHouseResult string string "house_error + string option" | AHouseAfc string string "afc_error + nat" | AHouseFree string
  | AInfo nat string afc_error | AReadDir nat string afc_error | ARemove nat string afc_error | ARemoveAll nat string afc_error
  | ARename nat string string afc_error | ALink nat string string afc_error | AMakeDir nat string afc_error
  | ASetTime nat string i64 afc_error | AOpen nat string afc_mode afc_error | ASeek nat u64 u64 afc_error
  | ATruncate nat u64 u64 afc_error | AWrite nat u64 "byte list" afc_error | ARead nat u64 afc_error "byte list"
  | AClose nat u64 afc_error | ADeviceInfo nat afc_error
  | AInstClient string inst_error | ABrowse string inst_error | ASpringBoard string sb_error | AIcon string string sb_error
  | ACacheExists string bool | ACacheMkpath string bool | ACacheOpen string bool | ACacheWrite string "byte list" bool
  | AMetaData string u64 | AApp app_msg

record 'w afc =
  a_deviceList :: "'w \<Rightarrow> string list \<times> 'w"
  a_newDevice :: "string \<Rightarrow> 'w \<Rightarrow> bool \<times> 'w"
  a_lockdown :: "string \<Rightarrow> 'w \<Rightarrow> lockdown_error \<times> 'w"
  a_deviceName :: "string \<Rightarrow> 'w \<Rightarrow> string option \<times> 'w"
  a_deviceClass :: "string \<Rightarrow> 'w \<Rightarrow> string option \<times> 'w"
  a_handshake :: "string \<Rightarrow> 'w \<Rightarrow> lockdown_error \<times> 'w"
  a_startService :: "string \<Rightarrow> string \<Rightarrow> 'w \<Rightarrow> lockdown_error \<times> 'w"
  a_newClient :: "string \<Rightarrow> 'w \<Rightarrow> (afc_error + nat) \<times> 'w"
  a_houseClient :: "string \<Rightarrow> 'w \<Rightarrow> house_error \<times> 'w"
  a_houseCommand :: "string \<Rightarrow> string \<Rightarrow> 'w \<Rightarrow> house_error \<times> 'w"
  a_houseResult :: "string \<Rightarrow> string \<Rightarrow> 'w \<Rightarrow> (house_error + string option) \<times> 'w"
  a_houseAfc :: "string \<Rightarrow> string \<Rightarrow> 'w \<Rightarrow> (afc_error + nat) \<times> 'w"
  a_houseFree :: "string \<Rightarrow> 'w \<Rightarrow> 'w"
  a_info :: "nat \<Rightarrow> string \<Rightarrow> 'w \<Rightarrow> (afc_error \<times> (string \<times> string) list option) \<times> 'w"
  a_readDir :: "nat \<Rightarrow> string \<Rightarrow> 'w \<Rightarrow> (afc_error \<times> string list option) \<times> 'w"
  a_remove :: "nat \<Rightarrow> string \<Rightarrow> 'w \<Rightarrow> afc_error \<times> 'w"
  a_removeAll :: "nat \<Rightarrow> string \<Rightarrow> 'w \<Rightarrow> afc_error \<times> 'w"
  a_rename :: "nat \<Rightarrow> string \<Rightarrow> string \<Rightarrow> 'w \<Rightarrow> afc_error \<times> 'w"
  a_link :: "nat \<Rightarrow> string \<Rightarrow> string \<Rightarrow> 'w \<Rightarrow> afc_error \<times> 'w"
  a_makeDir :: "nat \<Rightarrow> string \<Rightarrow> 'w \<Rightarrow> afc_error \<times> 'w"
  a_setTime :: "nat \<Rightarrow> string \<Rightarrow> i64 \<Rightarrow> 'w \<Rightarrow> afc_error \<times> 'w"
  a_open :: "nat \<Rightarrow> string \<Rightarrow> afc_mode \<Rightarrow> 'w \<Rightarrow> (afc_error \<times> u64) \<times> 'w"
  a_seek :: "nat \<Rightarrow> u64 \<Rightarrow> u64 \<Rightarrow> 'w \<Rightarrow> afc_error \<times> 'w"
  a_truncate :: "nat \<Rightarrow> u64 \<Rightarrow> u64 \<Rightarrow> 'w \<Rightarrow> afc_error \<times> 'w"
  a_write :: "nat \<Rightarrow> u64 \<Rightarrow> byte list \<Rightarrow> 'w \<Rightarrow> (afc_error \<times> u32) \<times> 'w"
  a_read :: "nat \<Rightarrow> u64 \<Rightarrow> u64 \<Rightarrow> 'w \<Rightarrow> (afc_error \<times> byte list) \<times> 'w"
  a_close :: "nat \<Rightarrow> u64 \<Rightarrow> 'w \<Rightarrow> afc_error \<times> 'w"
  a_deviceInfo :: "nat \<Rightarrow> 'w \<Rightarrow> (afc_error \<times> (string \<times> string) list) \<times> 'w"
  a_instClient :: "string \<Rightarrow> 'w \<Rightarrow> inst_error \<times> 'w"
  a_browse :: "string \<Rightarrow> 'w \<Rightarrow> (inst_error \<times> app_plist list) \<times> 'w"
  a_springBoard :: "string \<Rightarrow> 'w \<Rightarrow> sb_error \<times> 'w"
  a_icon :: "string \<Rightarrow> string \<Rightarrow> 'w \<Rightarrow> (sb_error \<times> byte list option) \<times> 'w"
  b_exists :: "string \<Rightarrow> 'w \<Rightarrow> bool \<times> 'w"
  b_mkpath :: "string \<Rightarrow> 'w \<Rightarrow> bool \<times> 'w"
  b_openWrite :: "string \<Rightarrow> 'w \<Rightarrow> bool \<times> 'w"
  b_commit :: "string \<Rightarrow> byte list \<Rightarrow> 'w \<Rightarrow> bool \<times> 'w"
  b_readData :: "'w \<Rightarrow> (int \<times> byte list) \<times> 'w"
  b_wasKilled :: "'w \<Rightarrow> bool \<times> 'w"
  t_cacheDir :: string
  t_mimeType :: "string \<Rightarrow> byte list \<Rightarrow> string"
  t_displayText :: "qurl \<Rightarrow> string"
  t_number :: "int \<Rightarrow> string"
  t_modified :: "i64 option"

abbreviation say :: "app_msg \<Rightarrow> (('w, afc_ev, 'x) io_scheme, unit) state" where
  "say m \<equiv> tell (AApp m)"

section \<open>Clients\<close>

text \<open>\<open>atoll\<close>: blanks, a sign, digits.\<close>

fun digitsValue :: "int \<Rightarrow> string \<Rightarrow> int" where
  "digitsValue n [] = n"
| "digitsValue n (c # s) = (let k = of_char c :: int in if 48 \<le> k \<and> k \<le> 57 then digitsValue (10 * n + (k - 48)) s else n)"

definition atoll :: "string \<Rightarrow> int" where
  "atoll s = (case dropWhile (\<lambda>c. c = CHR 0x20 \<or> 9 \<le> (of_char c :: nat) \<and> of_char c \<le> (13 :: nat)) s of
     [] \<Rightarrow> 0
   | c # r \<Rightarrow> if c = CHR 0x2D then - digitsValue 0 r else if c = CHR 0x2B then digitsValue 0 r else digitsValue 0 (c # r))"

text \<open>Nanoseconds to seconds, towards zero.\<close>

definition seconds :: "int \<Rightarrow> int" where
  "seconds n = (if n < 0 then - ((- n) div 1000000000) else n div 1000000000)"

definition fileTypeOf :: "string \<Rightarrow> mode_t option" where
  "fileTypeOf v =
     (if v = ''S_IFREG'' then Some S_IFREG else if v = ''S_IFDIR'' then Some S_IFDIR
      else if v = ''S_IFLNK'' then Some S_IFLNK else if v = ''S_IFBLK'' then Some 0x6000
      else if v = ''S_IFCHR'' then Some 0x2000 else if v = ''S_IFIFO'' then Some 0x1000
      else if v = ''S_IFSOCK'' then Some 0xC000 else None)"

text \<open>What is collected from the pairs: a later pair of the same key replaces an earlier one.\<close>

record file_info =
  fi_isDirectory :: bool
  fi_size :: "int option"
  fi_fileType :: "mode_t option"
  fi_modificationTime :: "int option"
  fi_creationTime :: "int option"

definition no_info :: file_info where
  "no_info = \<lparr>fi_isDirectory = False, fi_size = None, fi_fileType = None, fi_modificationTime = None, fi_creationTime = None\<rparr>"

definition collect :: "string \<times> string \<Rightarrow> file_info \<Rightarrow> file_info" where
  "collect kv i = (case kv of (key, v) \<Rightarrow>
     if key = ''st_size'' then i\<lparr>fi_size := Some (atoll v)\<rparr>
     else if key = ''st_ifmt'' then
       (let i = (if v = ''S_IFDIR'' then i\<lparr>fi_isDirectory := True\<rparr> else i) in
        case fileTypeOf v of None \<Rightarrow> i | Some t \<Rightarrow> i\<lparr>fi_fileType := Some t\<rparr>)
     else if key = ''st_mtime'' then i\<lparr>fi_modificationTime := Some (seconds (atoll v))\<rparr>
     else if key = ''st_birthtime'' then i\<lparr>fi_creationTime := Some (seconds (atoll v))\<rparr>
     else i)"

definition folderIcons :: "(string \<times> string) list" where
  "folderIcons = [(''/DCIM'', ''camera-photo''), (''/Documents'', ''folder-documents''),
     (''/Downloads'', ''folder-downloads''), (''/Photos'', ''folder-pictures'')]"

definition optional :: "('a \<Rightarrow> uds_field) \<Rightarrow> 'a option \<Rightarrow> uds" where
  "optional f x = (case x of None \<Rightarrow> [] | Some a \<Rightarrow> [f a])"

definition infoEntry :: "string \<Rightarrow> string \<Rightarrow> file_info \<Rightarrow> uds" where
  "infoEntry app p i =
     UDS_NAME (rev (takeWhile (\<lambda>c. c \<noteq> CHR ''/'') (rev p)))
     # (if app = [] then optional UDS_ICON_NAME (map_of folderIcons p) else [])
     @ (if fi_isDirectory i then [UDS_MIME_TYPE ''inode/directory''] else [])
     @ optional UDS_SIZE (fi_size i) @ optional UDS_FILE_TYPE (fi_fileType i)
     @ optional UDS_MODIFICATION_TIME (fi_modificationTime i) @ optional UDS_CREATION_TIME (fi_creationTime i)"

text \<open>A success without any pairs leaves the entry empty.\<close>

definition clientEntry :: "'w afc \<Rightarrow> afc_client \<Rightarrow> string \<Rightarrow> (('w, afc_ev, 'x) io_scheme, worker_result \<times> uds) state" where
  "clientEntry F c p = do {
     (e, info) \<leftarrow> call (a_info F (cl_no c) p) (\<lambda>a. AInfo (cl_no c) p (fst a));
     let r = from_afc (t_number F) e p;
     ret (case info of
       None \<Rightarrow> (r, [])
     | Some kvs \<Rightarrow> if success r then (Pass, infoEntry (cl_app c) p (fold collect kvs no_info)) else (r, []))
   }"

definition entryList :: "'w afc \<Rightarrow> afc_client \<Rightarrow> string \<Rightarrow> (('w, afc_ev, 'x) io_scheme, worker_result \<times> string list) state" where
  "entryList F c p = do {
     (e, names) \<leftarrow> call (a_readDir F (cl_no c) p) (\<lambda>a. AReadDir (cl_no c) p (fst a));
     let r = from_afc (t_number F) e [];
     ret (case names of
       None \<Rightarrow> (r, [])
     | Some ns \<Rightarrow> if success r then (Pass, filter (\<lambda>n. n \<noteq> ''.'' \<and> n \<noteq> ''..'') ns) else (r, []))
   }"

definition clientDel :: "'w afc \<Rightarrow> afc_client \<Rightarrow> string \<Rightarrow> (('w, afc_ev, 'x) io_scheme, worker_result) state" where
  "clientDel F c p = do {
     e \<leftarrow> call (a_remove F (cl_no c) p) (\<lambda>a. ARemove (cl_no c) p a);
     ret (from_afc (t_number F) e p)
   }"

definition clientDelRecursively :: "'w afc \<Rightarrow> afc_client \<Rightarrow> string \<Rightarrow> (('w, afc_ev, 'x) io_scheme, worker_result) state" where
  "clientDelRecursively F c p = do {
     e \<leftarrow> call (a_removeAll F (cl_no c) p) (\<lambda>a. ARemoveAll (cl_no c) p a);
     ret (from_afc (t_number F) e p)
   }"

text \<open>Whatever is not known to be absent is taken to be there.\<close>

definition isThere :: "worker_result \<Rightarrow> bool" where
  "isThere r = (case r of Fail e _ \<Rightarrow> e \<noteq> ERR_DOES_NOT_EXIST | Pass \<Rightarrow> True)"

definition fileType :: "uds \<Rightarrow> mode_t" where
  "fileType e = (case find (\<lambda>f. uds_key f = 2) e of Some (UDS_FILE_TYPE t) \<Rightarrow> t | _ \<Rightarrow> 0)"

definition sizeOf :: "uds \<Rightarrow> u64" where
  "sizeOf e = (case find (\<lambda>f. uds_key f = 3) e of Some (UDS_SIZE n) \<Rightarrow> word_of_int n | _ \<Rightarrow> 0)"

definition alreadyThere :: "uds \<Rightarrow> string \<Rightarrow> worker_result" where
  "alreadyThere e p = Fail (if S_ISDIR (fileType e) then ERR_DIR_ALREADY_EXIST else ERR_FILE_ALREADY_EXIST) p"

definition clientRename ::
  "'w afc \<Rightarrow> afc_client \<Rightarrow> string \<Rightarrow> string \<Rightarrow> job_flags \<Rightarrow> (('w, afc_ev, 'x) io_scheme, worker_result) state" where
  "clientRename F c src dest flags = do {
     (r, _) \<leftarrow> clientEntry F c src;
     if \<not> success r then ret r
     else do {
       (d, e) \<leftarrow> clientEntry F c dest;
       if isThere d \<and> \<not> fl_overwrite flags then ret (alreadyThere e dest)
       else do {
         e \<leftarrow> call (a_rename F (cl_no c) src dest) (\<lambda>a. ARename (cl_no c) src dest a);
         ret (from_afc (t_number F) e dest)
       }
     }
   }"

definition clientSymlink ::
  "'w afc \<Rightarrow> afc_client \<Rightarrow> string \<Rightarrow> string \<Rightarrow> job_flags \<Rightarrow> (('w, afc_ev, 'x) io_scheme, worker_result) state" where
  "clientSymlink F c target dest flags = do {
     (r, _) \<leftarrow> clientEntry F c target;
     if \<not> success r then ret r
     else do {
       (d, e) \<leftarrow> clientEntry F c dest;
       if isThere d \<and> \<not> fl_overwrite flags then ret (alreadyThere e dest)
       else do {
         e \<leftarrow> call (a_link F (cl_no c) target dest) (\<lambda>a. ALink (cl_no c) target dest a);
         ret (from_afc (t_number F) e dest)
       }
     }
   }"

definition clientMkdir :: "'w afc \<Rightarrow> afc_client \<Rightarrow> string \<Rightarrow> (('w, afc_ev, 'x) io_scheme, worker_result) state" where
  "clientMkdir F c p = do {
     (r, e) \<leftarrow> clientEntry F c p;
     if isThere r then ret (alreadyThere e p)
     else do {
       e \<leftarrow> call (a_makeDir F (cl_no c) p) (\<lambda>a. AMakeDir (cl_no c) p a);
       ret (from_afc (t_number F) e p)
     }
   }"

text \<open>Milliseconds to nanoseconds, in a signed 64-bit number.\<close>

definition clientSetModificationTime ::
  "'w afc \<Rightarrow> afc_client \<Rightarrow> string \<Rightarrow> i64 \<Rightarrow> (('w, afc_ev, 'x) io_scheme, worker_result) state" where
  "clientSetModificationTime F c p msecs = do {
     e \<leftarrow> call (a_setTime F (cl_no c) p (msecs * 1000000)) (\<lambda>a. ASetTime (cl_no c) p (msecs * 1000000) a);
     ret (from_afc (t_number F) e p)
   }"

text \<open>The total and free bytes, if both were told; the first of each counts.\<close>

definition diskUsage :: "'w afc \<Rightarrow> afc_client \<Rightarrow> (('w, afc_ev, 'x) io_scheme, (u64 \<times> u64) option) state" where
  "diskUsage F c = do {
     (e, info) \<leftarrow> call (a_deviceInfo F (cl_no c)) (\<lambda>a. ADeviceInfo (cl_no c) (fst a));
     ret (if e \<noteq> AFC_E_SUCCESS then None
       else case (map_of info ''FSTotalBytes'', map_of info ''FSFreeBytes'') of
         (Some t, Some f) \<Rightarrow> Some (word_of_int (atoll t), word_of_int (atoll f))
       | _ \<Rightarrow> None)
   }"

section \<open>Open files\<close>

record afc_file =
  af_client :: afc_client
  af_device :: string
  af_path :: string
  af_handle :: u64

definition ReadOnly :: u32 where "ReadOnly = 1"
definition WriteOnly :: u32 where "WriteOnly = 2"
definition ReadWrite :: u32 where "ReadWrite = 3"
definition Append :: u32 where "Append = 4"
definition Truncate :: u32 where "Truncate = 8"

definition fileMode :: "u32 \<Rightarrow> afc_mode option" where
  "fileMode mode =
     (if mode = ReadOnly then Some AFC_FOPEN_RDONLY
      else if mode = WriteOnly then Some AFC_FOPEN_WRONLY
      else if mode = ReadWrite then Some AFC_FOPEN_RW
      else if mode = ReadWrite OR Truncate then Some AFC_FOPEN_WR
      else if mode = Append \<or> mode = Append OR WriteOnly then Some AFC_FOPEN_APPEND
      else if mode = Append OR ReadWrite then Some AFC_FOPEN_RDAPPEND
      else None)"

text \<open>The failure, or the file with its handle.\<close>

definition fileOpen ::
  "'w afc \<Rightarrow> afc_client \<Rightarrow> string \<Rightarrow> string \<Rightarrow> u32 \<Rightarrow> (('w, afc_ev, 'x) io_scheme, worker_result + afc_file) state" where
  "fileOpen F c device p mode = (case fileMode mode of
     None \<Rightarrow> ret (Inl (Fail ERR_UNSUPPORTED_ACTION (t_number F (uint mode))))
   | Some m \<Rightarrow> do {
       (e, h) \<leftarrow> call (a_open F (cl_no c) p m) (\<lambda>a. AOpen (cl_no c) p m (fst a));
       let r = from_afc (t_number F) e [];
       ret (if success r then Inr \<lparr>af_client = c, af_device = device, af_path = p, af_handle = h\<rparr> else Inl r)
     })"

definition fileSeek :: "'w afc \<Rightarrow> afc_file \<Rightarrow> u64 \<Rightarrow> (('w, afc_ev, 'x) io_scheme, worker_result) state" where
  "fileSeek F f offset = do {
     e \<leftarrow> call (a_seek F (cl_no (af_client f)) (af_handle f) offset) (\<lambda>a. ASeek (cl_no (af_client f)) (af_handle f) offset a);
     ret (from_afc (t_number F) e [])
   }"

definition fileTruncate :: "'w afc \<Rightarrow> afc_file \<Rightarrow> u64 \<Rightarrow> (('w, afc_ev, 'x) io_scheme, worker_result) state" where
  "fileTruncate F f len = do {
     e \<leftarrow> call (a_truncate F (cl_no (af_client f)) (af_handle f) len) (\<lambda>a. ATruncate (cl_no (af_client f)) (af_handle f) len a);
     ret (from_afc (t_number F) e [])
   }"

definition fileWrite :: "'w afc \<Rightarrow> afc_file \<Rightarrow> byte list \<Rightarrow> (('w, afc_ev, 'x) io_scheme, worker_result \<times> u32) state" where
  "fileWrite F f d = do {
     (e, n) \<leftarrow> call (a_write F (cl_no (af_client f)) (af_handle f) d) (\<lambda>a. AWrite (cl_no (af_client f)) (af_handle f) d (fst a));
     ret (from_afc (t_number F) e [], n)
   }"

definition fileClose :: "'w afc \<Rightarrow> afc_file \<Rightarrow> (('w, afc_ev, 'x) io_scheme, worker_result) state" where
  "fileClose F f = do {
     e \<leftarrow> call (a_close F (cl_no (af_client f)) (af_handle f)) (\<lambda>a. AClose (cl_no (af_client f)) (af_handle f) a);
     ret (from_afc (t_number F) e [])
   }"

text \<open>
  A read of at most what is left and at most the greatest \<open>int\<close>: the result, the data, and what is left
  afterwards.
\<close>

definition readerRead :: "'w afc \<Rightarrow> afc_file \<Rightarrow> u64 \<Rightarrow> (('w, afc_ev, 'x) io_scheme, worker_result \<times> byte list \<times> u64) state" where
  "readerRead F f remaining =
     (if remaining = 0 then ret (Pass, [], remaining)
      else do {
        let n = min remaining 0x7FFFFFFF;
        (e, d) \<leftarrow> call (a_read F (cl_no (af_client f)) (af_handle f) n)
          (\<lambda>(e, d). ARead (cl_no (af_client f)) (af_handle f) e d);
        ret (if e \<noteq> AFC_E_SUCCESS \<and> e \<noteq> AFC_E_END_OF_DATA then (from_afc (t_number F) e [], d, remaining)
          else (Pass, d, remaining - word_of_nat (length d)))
      })"

text \<open>Reading until nothing is left, one read for each unit of fuel; None when it is used up.\<close>

fun readAll :: "'w afc \<Rightarrow> nat \<Rightarrow> afc_file \<Rightarrow> u64 \<Rightarrow> (('w, afc_ev, 'x) io_scheme, worker_result option) state" where
  "readAll F 0 f remaining = ret None"
| "readAll F (Suc n) f remaining =
     (if remaining = 0 then ret (Some Pass)
      else do {
        (r, d, remaining) \<leftarrow> readerRead F f remaining;
        if \<not> success r then ret (Some r)
        else do { say (MsgData d); readAll F n f remaining }
      })"

end
