(* ===== verification/AfcDevice.thy ===== *)
theory AfcDevice
  imports AfcClient
begin

text \<open>
  An Apple device (afc/afcdevice.h, afcdevice.cpp, afcapp.h, afcapp.cpp, afcspringboard.cpp, and \<open>init\<close> of
  afc/afcclient.cpp): the handshake, the client that is kept, the applications and their icons. Releasing
  the services and clients of libimobiledevice is left out, but for the House Arrest client that is
  given up on the way.
\<close>

section \<open>Applications\<close>

record afc_app =
  pa_bundleId :: string
  pa_displayName :: string
  pa_iconPath :: string
  pa_sharing :: bool

definition no_app :: afc_app where
  "no_app = \<lparr>pa_bundleId = [], pa_displayName = [], pa_iconPath = [], pa_sharing = False\<rparr>"

definition textOf :: "string option \<Rightarrow> string" where
  "textOf t = (case t of None \<Rightarrow> [] | Some s \<Rightarrow> s)"

definition sharingEnabled :: "sharing_item option \<Rightarrow> bool" where
  "sharingEnabled i = (case i of
     Some (SharingBool b) \<Rightarrow> b
   | Some (SharingText (Some t)) \<Rightarrow> t = ''YES'' \<or> t = ''true''
   | _ \<Rightarrow> False)"

definition appOf :: "app_plist \<Rightarrow> afc_app" where
  "appOf p = \<lparr>pa_bundleId = textOf (ap_bundleId p), pa_displayName = textOf (ap_displayName p), pa_iconPath = [],
     pa_sharing = sharingEnabled (ap_sharing p)\<rparr>"

definition appEntry :: "afc_app \<Rightarrow> uds" where
  "appEntry a = [UDS_NAME (pa_bundleId a), UDS_DISPLAY_NAME (pa_displayName a)]
     @ (if pa_iconPath a \<noteq> [] then [UDS_ICON_NAME (pa_iconPath a)] else []) @ [UDS_FILE_TYPE S_IFDIR]"

section \<open>The device\<close>

record afc_device =
  dv_id :: string
  dv_name :: string
  dv_class :: string
  dv_handshake :: bool
  dv_apps :: "string \<rightharpoonup> afc_app"
  dv_last :: "afc_client option"

text \<open>What an operation of a device works on.\<close>

record 'w afd = "('w, afc_ev) io" +
  dev :: afc_device

definition set_dev :: "(afc_device \<Rightarrow> afc_device) \<Rightarrow> ('w afd, unit) state" where
  "set_dev f = State_Monad.update (\<lambda>s. s\<lparr>dev := f (dev s)\<rparr>)"

definition handshake :: "'w afc \<Rightarrow> ('w afd, worker_result) state" where
  "handshake F = do {
     s \<leftarrow> State_Monad.get;
     if dv_handshake (dev s) then ret Pass
     else do {
       e \<leftarrow> call (a_handshake F (dv_id (dev s))) (\<lambda>a. AHandshake (dv_id (dev s)) a);
       if e \<noteq> LOCKDOWN_E_SUCCESS then ret (from_lockdown (t_number F) e [])
       else do { set_dev (\<lambda>d. d\<lparr>dv_handshake := True\<rparr>); ret Pass }
     }
   }"

definition startService :: "'w afc \<Rightarrow> string \<Rightarrow> ('w afd, lockdown_error) state" where
  "startService F name = do {
     s \<leftarrow> State_Monad.get;
     call (a_startService F (dv_id (dev s)) name) (\<lambda>a. AStartService (dv_id (dev s)) name a)
   }"

text \<open>\<open>AfcClient::init\<close>. The client, or the failure.\<close>

definition giveUpHouse :: "'w afc \<Rightarrow> worker_result \<Rightarrow> ('w afd, worker_result + afc_client) state" where
  "giveUpHouse F r = do {
     s \<leftarrow> State_Monad.get;
     act (a_houseFree F (dv_id (dev s))) (AHouseFree (dv_id (dev s)));
     ret (Inl r)
   }"

definition houseError :: "string \<Rightarrow> string \<Rightarrow> worker_result" where
  "houseError app e =
     (if e = ''ApplicationLookupFailed'' then Fail ERR_DOES_NOT_EXIST app
      else if e = ''InstallationLookupFailed'' then Fail ERR_ACCESS_DENIED app
      else Fail ERR_INTERNAL e)"

definition houseClient :: "'w afc \<Rightarrow> string \<Rightarrow> ('w afd, worker_result + afc_client) state" where
  "houseClient F app = do {
     s \<leftarrow> State_Monad.get;
     let i = dv_id (dev s);
     e \<leftarrow> call (a_houseClient F i) (\<lambda>a. AHouseClient i a);
     if e \<noteq> HOUSE_ARREST_E_SUCCESS then ret (Inl (from_house (t_number F) e []))
     else do {
       e \<leftarrow> call (a_houseCommand F i app) (\<lambda>a. AHouseCommand i app a);
       if e \<noteq> HOUSE_ARREST_E_SUCCESS then giveUpHouse F (from_house (t_number F) e [])
       else do {
         r \<leftarrow> call (a_houseResult F i app) (\<lambda>a. AHouseResult i app a);
         case r of
           Inl e \<Rightarrow> giveUpHouse F (from_house (t_number F) e [])
         | Inr (Some e) \<Rightarrow> giveUpHouse F (houseError app e)
         | Inr None \<Rightarrow> do {
             c \<leftarrow> call (a_houseAfc F i app) (\<lambda>a. AHouseAfc i app a);
             case c of
               Inl e \<Rightarrow> giveUpHouse F (from_afc (t_number F) e [])
             | Inr n \<Rightarrow> ret (Inr \<lparr>cl_app = app, cl_no = n\<rparr>)
           }
       }
     }
   }"

definition clientInit :: "'w afc \<Rightarrow> string \<Rightarrow> ('w afd, worker_result + afc_client) state" where
  "clientInit F app = do {
     s \<leftarrow> State_Monad.get;
     let i = dv_id (dev s);
     e \<leftarrow> startService F (if app = [] then ''com.apple.afc'' else ''com.apple.mobile.house_arrest'');
     if e \<noteq> LOCKDOWN_E_SUCCESS then ret (Inl (from_lockdown (t_number F) e i))
     else if app = [] then do {
       c \<leftarrow> call (a_newClient F i) (\<lambda>a. ANewClient i a);
       ret (case c of Inl e \<Rightarrow> Inl (from_afc (t_number F) e i) | Inr n \<Rightarrow> Inr \<lparr>cl_app = app, cl_no = n\<rparr>)
     }
     else houseClient F app
   }"

text \<open>The client that was used last is kept.\<close>

definition deviceClient :: "'w afc \<Rightarrow> string \<Rightarrow> ('w afd, worker_result + afc_client) state" where
  "deviceClient F app = do {
     r \<leftarrow> handshake F;
     if \<not> success r then ret (Inl r)
     else do {
       s \<leftarrow> State_Monad.get;
       case (case dv_last (dev s) of Some c \<Rightarrow> if cl_app c = app then Some c else None | None \<Rightarrow> None) of
         Some c \<Rightarrow> ret (Inr c)
       | None \<Rightarrow> do {
           r \<leftarrow> clientInit F app;
           case r of
             Inl e \<Rightarrow> ret (Inl e)
           | Inr c \<Rightarrow> do { set_dev (\<lambda>d. d\<lparr>dv_last := Some c\<rparr>); ret (Inr c) }
         }
     }
   }"

section \<open>Applications of a device\<close>

definition cacheLocation :: "'w afc \<Rightarrow> afc_device \<Rightarrow> string" where
  "cacheLocation F d = t_cacheDir F @ ''/kio_afc/'' @ dv_id d"

definition appIconCachePath :: "'w afc \<Rightarrow> afc_device \<Rightarrow> string \<Rightarrow> string" where
  "appIconCachePath F d bundleId = cacheLocation F d @ ''/'' @ bundleId @ ''.png''"

fun collectApps :: "'w afc \<Rightarrow> app_plist list \<Rightarrow> ('w afd, afc_app list) state" where
  "collectApps F [] = ret []"
| "collectApps F (p # ps) =
     (if pa_bundleId (appOf p) = [] then collectApps F ps
      else do {
        s \<leftarrow> State_Monad.get;
        let iconPath = appIconCachePath F (dev s) (pa_bundleId (appOf p));
        there \<leftarrow> call (b_exists F iconPath) (\<lambda>a. ACacheExists iconPath a);
        let app = (if there then (appOf p)\<lparr>pa_iconPath := iconPath\<rparr> else appOf p);
        set_dev (\<lambda>d. d\<lparr>dv_apps := (dv_apps d)(pa_bundleId app \<mapsto> app)\<rparr>);
        apps \<leftarrow> collectApps F ps;
        ret (app # apps)
      })"

definition deviceApps :: "'w afc \<Rightarrow> ('w afd, worker_result + afc_app list) state" where
  "deviceApps F = do {
     r \<leftarrow> handshake F;
     if \<not> success r then ret (Inl r)
     else do {
       s \<leftarrow> State_Monad.get;
       let i = dv_id (dev s);
       e \<leftarrow> startService F ''com.apple.mobile.installation_proxy'';
       if e \<noteq> LOCKDOWN_E_SUCCESS then ret (Inl (from_lockdown (t_number F) e i))
       else do {
         e \<leftarrow> call (a_instClient F i) (\<lambda>a. AInstClient i a);
         if e \<noteq> INSTPROXY_E_SUCCESS then ret (Inl (from_inst (t_number F) e []))
         else do {
           (e, ps) \<leftarrow> call (a_browse F i) (\<lambda>a. ABrowse i (fst a));
           if e \<noteq> INSTPROXY_E_SUCCESS then ret (Inl (from_inst (t_number F) e []))
           else do {
             set_dev (\<lambda>d. d\<lparr>dv_apps := Map.empty\<rparr>);
             apps \<leftarrow> collectApps F ps;
             ret (Inr apps)
           }
         }
       }
     }
   }"

definition deviceApp :: "'w afc \<Rightarrow> string \<Rightarrow> ('w afd, afc_app) state" where
  "deviceApp F bundleId = do {
     s \<leftarrow> State_Monad.get;
     case dv_apps (dev s) bundleId of
       Some a \<Rightarrow> ret a
     | None \<Rightarrow> do {
         r \<leftarrow> deviceApps F;
         s \<leftarrow> State_Monad.get;
         ret (case r of
           Inl _ \<Rightarrow> no_app
         | Inr _ \<Rightarrow> (case dv_apps (dev s) bundleId of Some a \<Rightarrow> a | None \<Rightarrow> no_app))
       }
   }"

section \<open>Icons\<close>

text \<open>\<open>AfcSpringBoard\<close>: its constructor, and the data of an icon, none for a failure or a success without data.\<close>

definition springBoard :: "'w afc \<Rightarrow> ('w afd, worker_result) state" where
  "springBoard F = do {
     s \<leftarrow> State_Monad.get;
     e \<leftarrow> startService F ''com.apple.springboardservices'';
     if e \<noteq> LOCKDOWN_E_SUCCESS then ret (from_lockdown (t_number F) e [])
     else do {
       e \<leftarrow> call (a_springBoard F (dv_id (dev s))) (\<lambda>a. ASpringBoard (dv_id (dev s)) a);
       ret (if e \<noteq> SBSERVICES_E_SUCCESS then from_sb (t_number F) e [] else Pass)
     }
   }"

definition fetchAppIconData :: "'w afc \<Rightarrow> string \<Rightarrow> ('w afd, worker_result \<times> byte list) state" where
  "fetchAppIconData F bundleId = do {
     s \<leftarrow> State_Monad.get;
     (e, d) \<leftarrow> call (a_icon F (dv_id (dev s)) bundleId) (\<lambda>a. AIcon (dv_id (dev s)) bundleId (fst a));
     ret (case d of
       None \<Rightarrow> (from_sb (t_number F) e [], [])
     | Some d \<Rightarrow> if e \<noteq> SBSERVICES_E_SUCCESS \<or> d = [] then (from_sb (t_number F) e [], []) else (Pass, d))
   }"

definition pngMagic :: "byte list" where
  "pngMagic = [0x89, 0x50, 0x4E, 0x47, 0x0D, 0x0A, 0x1A, 0x0A]"

text \<open>Fetching one icon into the cache: the path, or the failure.\<close>

definition fetchIcon :: "'w afc \<Rightarrow> string \<Rightarrow> ('w afd, worker_result + string) state" where
  "fetchIcon F bundleId = do {
     (r, d) \<leftarrow> fetchAppIconData F bundleId;
     if \<not> success r then ret (Inl r)
     else if d = [] then ret (Inl (Fail ERR_CANNOT_READ []))
     else if take 8 d \<noteq> pngMagic then ret (Inl (Fail ERR_CANNOT_READ []))
     else do {
       s \<leftarrow> State_Monad.get;
       let p = appIconCachePath F (dev s) bundleId;
       ok \<leftarrow> call (b_openWrite F p) (\<lambda>a. ACacheOpen p a);
       if \<not> ok then ret (Inl (Fail ERR_CANNOT_OPEN_FOR_WRITING p))
       else do {
         ok \<leftarrow> call (b_commit F p d) (\<lambda>a. ACacheWrite p d a);
         ret (if ok then Inr p else Inl (Fail ERR_CANNOT_WRITE p))
       }
     }
   }"

fun setIcon :: "string \<Rightarrow> string \<Rightarrow> afc_app list \<Rightarrow> afc_app list" where
  "setIcon b p [] = []"
| "setIcon b p (a # as) = (if pa_bundleId a = b then a\<lparr>pa_iconPath := p\<rparr> # as else a # setIcon b p as)"

fun fetchIcons :: "'w afc \<Rightarrow> string list \<Rightarrow> worker_result \<Rightarrow> afc_app list \<Rightarrow> ('w afd, worker_result \<times> afc_app list) state" where
  "fetchIcons F [] result apps = ret (result, apps)"
| "fetchIcons F (b # bs) result apps = do {
     r \<leftarrow> fetchIcon F b;
     case r of
       Inl e \<Rightarrow> fetchIcons F bs e apps
     | Inr p \<Rightarrow> do {
         set_dev (\<lambda>d. d\<lparr>dv_apps := (dv_apps d)(b \<mapsto> (case dv_apps d b of None \<Rightarrow> no_app | Some a \<Rightarrow> a)\<lparr>pa_iconPath := p\<rparr>)\<rparr>);
         fetchIcons F bs result (setIcon b p apps)
       }
   }"

definition fetchAppIcons :: "'w afc \<Rightarrow> afc_app list \<Rightarrow> ('w afd, worker_result \<times> afc_app list) state" where
  "fetchAppIcons F apps =
     (let missing = map pa_bundleId (filter (\<lambda>a. pa_iconPath a = []) apps) in
      if missing = [] then ret (Pass, apps)
      else do {
        r \<leftarrow> springBoard F;
        if \<not> success r then ret (r, apps)
        else do {
          s \<leftarrow> State_Monad.get;
          ok \<leftarrow> call (b_mkpath F (cacheLocation F (dev s))) (\<lambda>a. ACacheMkpath (cacheLocation F (dev s)) a);
          if \<not> ok then ret (Fail ERR_CANNOT_MKDIR (cacheLocation F (dev s)), apps)
          else fetchIcons F missing Pass apps
        }
      })"

definition fetchAppIcon :: "'w afc \<Rightarrow> afc_app \<Rightarrow> ('w afd, afc_app) state" where
  "fetchAppIcon F a = do {
     (r, apps) \<leftarrow> fetchAppIcons F [a];
     ret (if success r then a\<lparr>pa_iconPath := pa_iconPath (hd apps)\<rparr> else a)
   }"

end
