(* ===== verification/AfcWorker.thy ===== *)
theory AfcWorker
  imports AfcDevice
begin

text \<open>
  The AFC worker (afc/kio_afc.h, afc/kio_afc.cpp): the list of devices and the requests. A reaction to an
  event of the device list takes place between requests. A handler that may not return answers None
  when it did not.
\<close>

section \<open>Devices\<close>

text \<open>Devices by their identifier in upper case, in the order of a \<open>QMap\<close>.\<close>

record 'w afcs = "('w, afc_ev) io" +
  m_devices :: "(string \<times> afc_device) list"
  m_openFile :: "afc_file option"

fun textLess :: "string \<Rightarrow> string \<Rightarrow> bool" where
  "textLess s [] = False"
| "textLess [] (d # t) = True"
| "textLess (c # s) (d # t) = (let m = of_char c :: nat; n = of_char d in m < n \<or> m = n \<and> textLess s t)"

fun insertDevice :: "string \<Rightarrow> afc_device \<Rightarrow> (string \<times> afc_device) list \<Rightarrow> (string \<times> afc_device) list" where
  "insertDevice k d [] = [(k, d)]"
| "insertDevice k d ((l, e) # ds) = (if textLess k l then (k, d) # (l, e) # ds else (l, e) # insertDevice k d ds)"

text \<open>The constructor of a device: it is valid when it has a name.\<close>

definition newDevice :: "'w afc \<Rightarrow> string \<Rightarrow> ('w afcs, afc_device option) state" where
  "newDevice F i = do {
     ok \<leftarrow> call (a_newDevice F i) (\<lambda>a. ANewDevice i a);
     if \<not> ok then ret None
     else do {
       e \<leftarrow> call (a_lockdown F i) (\<lambda>a. ALockdown i a);
       if e \<noteq> LOCKDOWN_E_SUCCESS then ret None
       else do {
         name \<leftarrow> call (a_deviceName F i) (\<lambda>a. ADeviceName i a);
         cls \<leftarrow> call (a_deviceClass F i) (\<lambda>a. ADeviceClass i a);
         ret (if textOf name = [] then None
           else Some \<lparr>dv_id = i, dv_name = textOf name, dv_class = textOf cls, dv_handshake = False,
             dv_apps = Map.empty, dv_last = None\<rparr>)
       }
     }
   }"

definition addDevice :: "'w afc \<Rightarrow> string \<Rightarrow> ('w afcs, bool) state" where
  "addDevice F i = do {
     s \<leftarrow> State_Monad.get;
     if map_of (m_devices s) (toUpper i) \<noteq> None then ret False
     else do {
       d \<leftarrow> newDevice F i;
       case d of
         None \<Rightarrow> ret False
       | Some d \<Rightarrow> do {
           State_Monad.update (\<lambda>s. s\<lparr>m_devices := insertDevice (toUpper i) d (m_devices s)\<rparr>);
           ret True
         }
     }
   }"

text \<open>An open file of the device is closed with it.\<close>

definition removeDevice :: "'w afc \<Rightarrow> string \<Rightarrow> ('w afcs, unit) state" where
  "removeDevice F i = do {
     s \<leftarrow> State_Monad.get;
     if map_of (m_devices s) (toUpper i) = None then ret ()
     else do {
       (case m_openFile s of
          Some f \<Rightarrow>
            (if af_device f = toUpper i
             then do { _ \<leftarrow> fileClose F f; State_Monad.update (\<lambda>s. s\<lparr>m_openFile := None\<rparr>) }
             else ret ())
        | None \<Rightarrow> ret ());
       State_Monad.update (\<lambda>s. s\<lparr>m_devices := filter (\<lambda>d. fst d \<noteq> toUpper i) (m_devices s)\<rparr>)
     }
   }"

datatype device_event = DEVICE_ADD string | DEVICE_REMOVE string | DEVICE_PAIRED string

definition onDeviceEvent :: "'w afc \<Rightarrow> device_event \<Rightarrow> ('w afcs, unit) state" where
  "onDeviceEvent F e = (case e of
     DEVICE_ADD i \<Rightarrow> do { _ \<leftarrow> addDevice F i; ret () }
   | DEVICE_REMOVE i \<Rightarrow> removeDevice F i
   | DEVICE_PAIRED i \<Rightarrow> ret ())"

fun addDevices :: "'w afc \<Rightarrow> string list \<Rightarrow> ('w afcs, unit) state" where
  "addDevices F [] = ret ()"
| "addDevices F (i # is) = do { _ \<leftarrow> addDevice F i; addDevices F is }"

definition updateDeviceList :: "'w afc \<Rightarrow> ('w afcs, unit) state" where
  "updateDeviceList F = do {
     ids \<leftarrow> call (a_deviceList F) ADeviceList;
     addDevices F ids
   }"

definition afcInit :: "'w afc \<Rightarrow> ('w afcs, worker_result) state" where
  "afcInit F = do { updateDeviceList F; ret Pass }"

text \<open>An operation of a device that is in the list.\<close>

definition onDevice :: "string \<Rightarrow> ('w afd, 'a) state \<Rightarrow> ('w afcs, 'a) state" where
  "onDevice k m = State (\<lambda>s.
     case run_state m \<lparr>world = world s, trace = trace s, dev = the (map_of (m_devices s) k)\<rparr> of
       (a, t) \<Rightarrow> (a, s\<lparr>world := world t, trace := trace t,
         m_devices := map (\<lambda>(l, e). (l, if l = k then dev t else e)) (m_devices s)\<rparr>))"

definition deviceForUrl :: "afc_url \<Rightarrow> 'w afcs \<Rightarrow> afc_device option" where
  "deviceForUrl u s = map_of (m_devices s) (au_device u)"

definition clientForUrl :: "'w afc \<Rightarrow> qurl \<Rightarrow> ('w afcs, worker_result + afc_client) state" where
  "clientForUrl F url = do {
     s \<leftarrow> State_Monad.get;
     case deviceForUrl (AfcUrl url) s of
       None \<Rightarrow> ret (Inl (Fail ERR_DOES_NOT_EXIST (t_displayText F url)))
     | Some _ \<Rightarrow> onDevice (au_device (AfcUrl url)) (deviceClient F (au_appId (AfcUrl url)))
   }"

section \<open>Entries\<close>

definition overviewEntry :: "string \<Rightarrow> uds" where
  "overviewEntry name = [UDS_NAME (if name \<noteq> [] then name else ''Apple Devices''), UDS_ICON_NAME ''phone-apple-iphone'',
     UDS_MIME_TYPE ''inode/directory'', UDS_FILE_TYPE S_IFDIR]"

definition deviceIcon :: "string \<Rightarrow> string" where
  "deviceIcon cls =
     (if contains ''iPad'' cls then ''computer-apple-ipad''
      else if contains ''iPod'' cls then ''multimedia-player-apple-ipod-touch'' else ''phone-apple-iphone'')"

definition contentsUrl :: "string \<Rightarrow> string" where
  "contentsUrl i = ''afc://'' @ i @ ''/''"

definition deviceEntry :: "afc_device \<Rightarrow> bool \<Rightarrow> uds" where
  "deviceEntry d asLink =
     [UDS_NAME (dv_id d), UDS_DISPLAY_TYPE (dv_class d), UDS_MIME_TYPE ''inode/directory'', UDS_ICON_NAME (deviceIcon (dv_class d))]
     @ (if dv_name d \<noteq> [] then [UDS_DISPLAY_NAME (dv_name d)] else [])
     @ (if asLink then [UDS_LINK_DEST (contentsUrl (dv_id d)), UDS_TARGET_URL (contentsUrl (dv_id d))] else [])
     @ [UDS_FILE_TYPE S_IFDIR]"

definition appsOverviewEntry :: "afc_device \<Rightarrow> string \<Rightarrow> uds" where
  "appsOverviewEntry d name = (let u = contentsUrl (dv_id d) @ ''@apps/'' in
     [UDS_NAME (if name \<noteq> [] then name else ''@apps''), UDS_DISPLAY_NAME ''Apps'', UDS_ICON_NAME ''folder-documents'',
      UDS_LINK_DEST u, UDS_TARGET_URL u, UDS_FILE_TYPE S_IFDIR])"

text \<open>The URL \<open>afc://id/\<close>.\<close>

definition rootUrl :: "string \<Rightarrow> qurl" where
  "rootUrl i = empty_qurl\<lparr>scheme := ''afc'', host := i, path := ''/''\<rparr>"

section \<open>Listing\<close>

fun sayEntries :: "uds list \<Rightarrow> ('w afcs, unit) state" where
  "sayEntries [] = ret ()"
| "sayEntries (e # es) = do { say (MsgListEntry e); sayEntries es }"

definition listDevices :: "'w afc \<Rightarrow> ('w afcs, worker_result) state" where
  "listDevices F = do {
     updateDeviceList F;
     s \<leftarrow> State_Monad.get;
     case m_devices s of
       [(_, d)] \<Rightarrow> do { say (MsgRedirection (rootUrl (dv_id d))); ret Pass }
     | ds \<Rightarrow> do {
         sayEntries (map (\<lambda>(k, d). deviceEntry d True) ds);
         say (MsgListEntry (overviewEntry ''.''));
         ret Pass
       }
   }"

definition listApps :: "'w afc \<Rightarrow> string \<Rightarrow> ('w afcs, worker_result) state" where
  "listApps F k = do {
     r \<leftarrow> onDevice k (deviceApps F);
     case r of
       Inl e \<Rightarrow> ret e
     | Inr apps \<Rightarrow> do {
         (_, apps) \<leftarrow> onDevice k (fetchAppIcons F (filter pa_sharing apps));
         sayEntries (map appEntry apps);
         s \<leftarrow> State_Monad.get;
         say (MsgListEntry (appsOverviewEntry (the (map_of (m_devices s) k)) ''.''));
         ret Pass
       }
   }"

definition childPath :: "string \<Rightarrow> string \<Rightarrow> string" where
  "childPath p n = (if \<not> ends_with ''/'' p \<and> \<not> starts_with ''/'' n then p @ ''/'' @ n else p @ n)"

text \<open>A file that cannot be described is left out.\<close>

fun listNames :: "'w afc \<Rightarrow> afc_client \<Rightarrow> string \<Rightarrow> string list \<Rightarrow> ('w afcs, unit) state" where
  "listNames F c p [] = ret ()"
| "listNames F c p (n # ns) = do {
     (r, e) \<leftarrow> clientEntry F c (childPath p n);
     (if success r then say (MsgListEntry e) else ret ());
     listNames F c p ns
   }"

definition listFolder :: "'w afc \<Rightarrow> qurl \<Rightarrow> afc_client \<Rightarrow> ('w afcs, worker_result) state" where
  "listFolder F url c = (let u = AfcUrl url; p = au_path u in do {
     (r, root) \<leftarrow> clientEntry F c p;
     if \<not> success r then ret r
     else do {
       say (MsgListEntry (uds_replace (UDS_NAME ''.'') root));
       (r, names) \<leftarrow> entryList F c p;
       case r of
         Fail e t \<Rightarrow>
           (if e = ERR_ACCESS_DENIED \<and> au_appId u \<noteq> [] \<and> p = []
            then do { say (MsgRedirection (url\<lparr>path := path url @ ''/Documents''\<rparr>)); ret Pass }
            else ret r)
       | Pass \<Rightarrow> do {
           listNames F c p names;
           s \<leftarrow> State_Monad.get;
           (if p = [] then say (MsgListEntry (appsOverviewEntry (the (deviceForUrl u s)) [])) else ret ());
           ret Pass
         }
     }
   })"

definition afcListDir :: "'w afc \<Rightarrow> qurl \<Rightarrow> ('w afcs, worker_result) state" where
  "afcListDir F url = (let u = AfcUrl url in
     if au_mode u = BrowseNone then ret (Fail ERR_MALFORMED_URL (t_displayText F url))
     else if host url \<noteq> [] \<and> path url = [] then do { say (MsgRedirection (url\<lparr>path := ''/''\<rparr>)); ret Pass }
     else if au_device u = [] then listDevices F
     else do {
       s \<leftarrow> State_Monad.get;
       if deviceForUrl u s = None then ret (Fail ERR_DOES_NOT_EXIST (au_device u))
       else if au_mode u = BrowseApps \<and> au_appId u = [] then listApps F (au_device u)
       else do {
         c \<leftarrow> onDevice (au_device u) (deviceClient F (au_appId u));
         case c of Inl e \<Rightarrow> ret e | Inr c \<Rightarrow> listFolder F url c
       }
     })"

definition statApp :: "'w afc \<Rightarrow> afc_url \<Rightarrow> ('w afcs, worker_result) state" where
  "statApp F u = do {
     app \<leftarrow> onDevice (au_device u) (deviceApp F (au_appId u));
     if pa_bundleId app = [] then ret (Fail ERR_DOES_NOT_EXIST (au_appId u))
     else do {
       app \<leftarrow> onDevice (au_device u) (fetchAppIcon F app);
       say (MsgStatEntry (appEntry app));
       ret Pass
     }
   }"

definition afcStat :: "'w afc \<Rightarrow> qurl \<Rightarrow> ('w afcs, worker_result) state" where
  "afcStat F url = (let u = AfcUrl url in
     if au_mode u = BrowseNone then ret (Fail ERR_MALFORMED_URL (t_displayText F url))
     else if au_device u = [] then do { say (MsgStatEntry (overviewEntry [])); ret Pass }
     else do {
       s \<leftarrow> State_Monad.get;
       case deviceForUrl u s of
         None \<Rightarrow> ret (Fail ERR_DOES_NOT_EXIST (t_displayText F url))
       | Some d \<Rightarrow>
           (if au_path u = [] then
              (if au_appId u = [] then do {
                 say (MsgStatEntry (if au_mode u = BrowseApps then uds_replace (UDS_DISPLAY_NAME ''Apps'') (deviceEntry d False)
                   else deviceEntry d False));
                 ret Pass
               }
               else statApp F u)
            else do {
              c \<leftarrow> onDevice (au_device u) (deviceClient F (au_appId u));
              case c of
                Inl e \<Rightarrow> ret e
              | Inr c \<Rightarrow> do {
                  (r, e) \<leftarrow> clientEntry F c (au_path u);
                  if \<not> success r then ret r else do { say (MsgStatEntry e); ret Pass }
                }
            })
     })"

section \<open>Reading and writing\<close>

definition guessMimeType :: "'w afc \<Rightarrow> afc_file \<Rightarrow> string \<Rightarrow> ('w afcs, unit) state" where
  "guessMimeType F f p = do {
     (r, d, _) \<leftarrow> readerRead F f 1024;
     (if success r then say (MsgMimeType (t_mimeType F (rev (takeWhile (\<lambda>c. c \<noteq> CHR ''/'') (rev p))) d)) else ret ());
     _ \<leftarrow> fileSeek F f 0;
     ret ()
   }"

text \<open>A file that is opened for a request is closed when the request is done.\<close>

definition closing :: "'w afc \<Rightarrow> afc_file \<Rightarrow> ('w afcs, 'a) state \<Rightarrow> ('w afcs, 'a) state" where
  "closing F f m = do { a \<leftarrow> m; _ \<leftarrow> fileClose F f; ret a }"

definition afcGet :: "'w afc \<Rightarrow> nat \<Rightarrow> qurl \<Rightarrow> ('w afcs, worker_result option) state" where
  "afcGet F n url = (let u = AfcUrl url; p = au_path u in do {
     c \<leftarrow> clientForUrl F url;
     case c of
       Inl e \<Rightarrow> ret (Some e)
     | Inr c \<Rightarrow> do {
         (r, e) \<leftarrow> clientEntry F c p;
         if \<not> success r then ret (Some r)
         else do {
           f \<leftarrow> fileOpen F c (au_device u) p ReadOnly;
           case f of
             Inl e \<Rightarrow> ret (Some e)
           | Inr f \<Rightarrow> closing F f (do {
               say (MsgTotalSize (sizeOf e));
               guessMimeType F f p;
               say (MsgPosition 0);
               readAll F n f (sizeOf e)
             })
         }
       }
   })"

fun putLoop :: "'w afc \<Rightarrow> nat \<Rightarrow> afc_file \<Rightarrow> ('w afcs, worker_result option) state" where
  "putLoop F 0 f = ret None"
| "putLoop F (Suc n) f = do {
     say MsgDataReq;
     (k, d) \<leftarrow> call (b_readData F) (\<lambda>(k, d). AApp (MsgReadData k d));
     if k < 0 then ret (Some (Fail ERR_CANNOT_READ (''readData result was '' @ t_number F k)))
     else do {
       (r, written) \<leftarrow> fileWrite F f d;
       if \<not> success r then ret (Some r)
       else if k > 0 then putLoop F n f
       else ret (Some Pass)
     }
   }"

definition putModified :: "'w afc \<Rightarrow> afc_client \<Rightarrow> string \<Rightarrow> ('w afcs, unit) state" where
  "putModified F c p = (case t_modified F of
     None \<Rightarrow> ret ()
   | Some msecs \<Rightarrow> do { _ \<leftarrow> clientSetModificationTime F c p msecs; ret () })"

definition afcPut :: "'w afc \<Rightarrow> nat \<Rightarrow> qurl \<Rightarrow> job_flags \<Rightarrow> ('w afcs, worker_result option) state" where
  "afcPut F n url flags = (let u = AfcUrl url; p = au_path u in do {
     c \<leftarrow> clientForUrl F url;
     case c of
       Inl e \<Rightarrow> ret (Some e)
     | Inr c \<Rightarrow> do {
         (r, e) \<leftarrow> clientEntry F c p;
         if isThere r \<and> \<not> fl_overwrite flags \<and> \<not> fl_resume flags then ret (Some (alreadyThere e p))
         else do {
           f \<leftarrow> fileOpen F c (au_device u) p (if fl_resume flags then Append else WriteOnly);
           case f of
             Inl e \<Rightarrow> ret (Some e)
           | Inr f \<Rightarrow> closing F f (do {
               r \<leftarrow> putLoop F n f;
               (if r = Some Pass then putModified F c p else ret ());
               ret r
             })
         }
       }
   })"

section \<open>The file job\<close>

definition testFlag :: "u32 \<Rightarrow> u32 \<Rightarrow> bool" where
  "testFlag mode f \<longleftrightarrow> mode AND f = f"

text \<open>A file that is open already is closed when the new one takes its place.\<close>

definition afcOpen :: "'w afc \<Rightarrow> qurl \<Rightarrow> u32 \<Rightarrow> ('w afcs, worker_result) state" where
  "afcOpen F url mode = (let u = AfcUrl url; p = au_path u in do {
     c \<leftarrow> clientForUrl F url;
     case c of
       Inl e \<Rightarrow> ret e
     | Inr c \<Rightarrow> do {
         (r, e) \<leftarrow> clientEntry F c p;
         if \<not> success r then ret r
         else do {
           f \<leftarrow> fileOpen F c (au_device u) p mode;
           case f of
             Inl e \<Rightarrow> ret e
           | Inr f \<Rightarrow> do {
               (if testFlag mode ReadOnly \<and> \<not> testFlag mode Append then guessMimeType F f p else ret ());
               s \<leftarrow> State_Monad.get;
               (case m_openFile s of None \<Rightarrow> ret () | Some g \<Rightarrow> do { _ \<leftarrow> fileClose F g; ret () });
               State_Monad.update (\<lambda>s. s\<lparr>m_openFile := Some f\<rparr>);
               say (MsgTotalSize (sizeOf e));
               say (MsgPosition 0);
               ret Pass
             }
         }
       }
   })"

definition afcRead :: "'w afc \<Rightarrow> nat \<Rightarrow> u64 \<Rightarrow> ('w afcs, worker_result option) state" where
  "afcRead F n bytesRequested = do {
     s \<leftarrow> State_Monad.get;
     case m_openFile s of
       None \<Rightarrow> ret (Some (Fail ERR_CANNOT_READ ''Cannot read without opening file first''))
     | Some f \<Rightarrow> readAll F n f bytesRequested
   }"

definition afcSeek :: "'w afc \<Rightarrow> u64 \<Rightarrow> ('w afcs, worker_result) state" where
  "afcSeek F offset = do {
     s \<leftarrow> State_Monad.get;
     case m_openFile s of
       None \<Rightarrow> ret (Fail ERR_CANNOT_SEEK ''Cannot seek without opening file first'')
     | Some f \<Rightarrow> do {
         r \<leftarrow> fileSeek F f offset;
         (if success r then say (MsgPosition offset) else ret ());
         ret r
       }
   }"

definition afcTruncate :: "'w afc \<Rightarrow> u64 \<Rightarrow> ('w afcs, worker_result) state" where
  "afcTruncate F len = do {
     s \<leftarrow> State_Monad.get;
     case m_openFile s of
       None \<Rightarrow> ret (Fail ERR_CANNOT_TRUNCATE ''Cannot truncate without opening file first'')
     | Some f \<Rightarrow> do {
         r \<leftarrow> fileTruncate F f len;
         (if success r then say (MsgTruncated len) else ret ());
         ret r
       }
   }"

definition afcWrite :: "'w afc \<Rightarrow> byte list \<Rightarrow> ('w afcs, worker_result) state" where
  "afcWrite F d = do {
     s \<leftarrow> State_Monad.get;
     case m_openFile s of
       None \<Rightarrow> ret (Fail ERR_CANNOT_WRITE ''Cannot write without opening file first'')
     | Some f \<Rightarrow> do {
         (r, n) \<leftarrow> fileWrite F f d;
         (if success r then say (MsgWritten (ucast n)) else ret ());
         ret r
       }
   }"

definition afcClose :: "'w afc \<Rightarrow> ('w afcs, worker_result) state" where
  "afcClose F = do {
     s \<leftarrow> State_Monad.get;
     case m_openFile s of
       None \<Rightarrow> ret (Fail ERR_INTERNAL ''Cannot close what is not open'')
     | Some f \<Rightarrow> do {
         r \<leftarrow> fileClose F f;
         (if success r then State_Monad.update (\<lambda>s. s\<lparr>m_openFile := None\<rparr>) else ret ());
         ret r
       }
   }"

section \<open>Copies and names\<close>

text \<open>The failure, or None when the copy went to its end or was stopped.\<close>

fun copyLoop :: "'w afc \<Rightarrow> nat \<Rightarrow> afc_file \<Rightarrow> afc_file \<Rightarrow> u64 \<Rightarrow> u64 \<Rightarrow> ('w afcs, worker_result option option) state" where
  "copyLoop F 0 f g remaining copied = ret None"
| "copyLoop F (Suc n) f g remaining copied = do {
     killed \<leftarrow> call (b_wasKilled F) (\<lambda>a. AApp (MsgWasKilled a));
     if killed \<or> remaining = 0 then ret (Some None)
     else do {
       (r, d, remaining) \<leftarrow> readerRead F f remaining;
       if \<not> success r then ret (Some (Some r))
       else do {
         (r, written) \<leftarrow> fileWrite F g d;
         if \<not> success r then ret (Some (Some r))
         else do {
           say (MsgProcessedSize (copied + word_of_nat (length d)));
           copyLoop F n f g remaining (copied + word_of_nat (length d))
         }
       }
     }
   }"

definition modificationTime :: "uds \<Rightarrow> int" where
  "modificationTime e = (case find (\<lambda>f. uds_key f = 4) e of Some (UDS_MODIFICATION_TIME t) \<Rightarrow> t | _ \<Rightarrow> 0)"

text \<open>
  After a failure what was written is deleted. At the end the destination is closed, once more if that
  failed, and gets the time of the source.
\<close>

definition copyBody :: "'w afc \<Rightarrow> nat \<Rightarrow> afc_client \<Rightarrow> afc_file \<Rightarrow> afc_file \<Rightarrow> uds \<Rightarrow> ('w afcs, worker_result option) state" where
  "copyBody F n c f g e = do {
     say (MsgTotalSize (sizeOf e));
     r \<leftarrow> copyLoop F n f g (sizeOf e) 0;
     case r of
       None \<Rightarrow> ret None
     | Some (Some r) \<Rightarrow> do {
         _ \<leftarrow> clientDel F c (af_path g);
         _ \<leftarrow> fileClose F g;
         ret (Some r)
       }
     | Some None \<Rightarrow> do {
         closed \<leftarrow> fileClose F g;
         _ \<leftarrow> clientSetModificationTime F c (af_path g) (word_of_int (modificationTime e * 1000));
         (if success closed then ret () else do { _ \<leftarrow> fileClose F g; ret () });
         ret (Some Pass)
       }
   }"

text \<open>The client is that of the source, for the destination too.\<close>

definition copyWith :: "'w afc \<Rightarrow> nat \<Rightarrow> afc_client \<Rightarrow> string \<Rightarrow> string \<Rightarrow> string \<Rightarrow> job_flags \<Rightarrow> ('w afcs, worker_result option) state" where
  "copyWith F n c device src dest flags = do {
     (r, e) \<leftarrow> clientEntry F c src;
     if \<not> success r then ret (Some r)
     else do {
       (d, de) \<leftarrow> clientEntry F c dest;
       if isThere d \<and> \<not> fl_overwrite flags then ret (Some (alreadyThere de dest))
       else do {
         f \<leftarrow> fileOpen F c device src ReadOnly;
         case f of
           Inl x \<Rightarrow> ret (Some x)
         | Inr f \<Rightarrow> closing F f (do {
             g \<leftarrow> fileOpen F c device dest (if fl_resume flags then Append else WriteOnly);
             case g of Inl x \<Rightarrow> ret (Some x) | Inr g \<Rightarrow> copyBody F n c f g e
           })
       }
     }
   }"

definition afcCopy :: "'w afc \<Rightarrow> nat \<Rightarrow> qurl \<Rightarrow> qurl \<Rightarrow> job_flags \<Rightarrow> ('w afcs, worker_result option) state" where
  "afcCopy F n src dest flags = (let s = AfcUrl src; d = AfcUrl dest in
     if au_device s \<noteq> au_device d then ret (Some (Fail ERR_UNSUPPORTED_ACTION []))
     else do {
       c \<leftarrow> clientForUrl F src;
       case c of Inl e \<Rightarrow> ret (Some e) | Inr c \<Rightarrow> copyWith F n c (au_device s) (au_path s) (au_path d) flags
     })"

definition withClient :: "'w afc \<Rightarrow> qurl \<Rightarrow> (afc_client \<Rightarrow> ('w afcs, worker_result) state) \<Rightarrow> ('w afcs, worker_result) state" where
  "withClient F url k = do {
     c \<leftarrow> clientForUrl F url;
     case c of Inl e \<Rightarrow> ret e | Inr c \<Rightarrow> k c
   }"

definition afcDel :: "'w afc \<Rightarrow> qurl \<Rightarrow> bool \<Rightarrow> ('w afcs, worker_result) state" where
  "afcDel F url isFile = withClient F url (\<lambda>c.
     if isFile then clientDel F c (au_path (AfcUrl url)) else clientDelRecursively F c (au_path (AfcUrl url)))"

definition afcRename :: "'w afc \<Rightarrow> qurl \<Rightarrow> qurl \<Rightarrow> job_flags \<Rightarrow> ('w afcs, worker_result) state" where
  "afcRename F url dest flags =
     (if au_device (AfcUrl url) \<noteq> au_device (AfcUrl dest)
      then ret (Fail ERR_CANNOT_RENAME ''Cannot rename between devices.'')
      else withClient F url (\<lambda>c. clientRename F c (au_path (AfcUrl url)) (au_path (AfcUrl dest)) flags))"

definition afcSymlink :: "'w afc \<Rightarrow> string \<Rightarrow> qurl \<Rightarrow> job_flags \<Rightarrow> ('w afcs, worker_result) state" where
  "afcSymlink F target dest flags = withClient F dest (\<lambda>c. clientSymlink F c target (au_path (AfcUrl dest)) flags)"

definition afcMkdir :: "'w afc \<Rightarrow> qurl \<Rightarrow> ('w afcs, worker_result) state" where
  "afcMkdir F url = withClient F url (\<lambda>c. clientMkdir F c (au_path (AfcUrl url)))"

definition afcSetModificationTime :: "'w afc \<Rightarrow> qurl \<Rightarrow> i64 \<Rightarrow> ('w afcs, worker_result) state" where
  "afcSetModificationTime F url msecs = withClient F url (\<lambda>c. clientSetModificationTime F c (au_path (AfcUrl url)) msecs)"

text \<open>Without a device in the URL and with a single device it is asked again for that one.\<close>

fun afcFreeSpace :: "'w afc \<Rightarrow> nat \<Rightarrow> qurl \<Rightarrow> ('w afcs, worker_result option) state" where
  "afcFreeSpace F 0 url = ret None"
| "afcFreeSpace F (Suc n) url = do {
     s \<leftarrow> State_Monad.get;
     if au_device (AfcUrl url) = [] \<and> length (m_devices s) = 1
     then afcFreeSpace F n (rootUrl (dv_id (snd (hd (m_devices s)))))
     else do {
       c \<leftarrow> clientForUrl F url;
       case c of
         Inl e \<Rightarrow> ret (Some e)
       | Inr c \<Rightarrow> do {
           r \<leftarrow> diskUsage F c;
           case r of
             None \<Rightarrow> ret (Some (Fail ERR_CANNOT_STAT (t_displayText F url)))
           | Some (t, free) \<Rightarrow> do {
               tell (AMetaData ''total'' t);
               tell (AMetaData ''available'' free);
               ret (Some Pass)
             }
         }
     }
   }"

end
