(* ===== verification/AfcDemo.thy ===== *)
theory AfcDemo
  imports AfcWorker
begin

text \<open>
  A concrete device for the witnesses of the AFC worker, with the files of two applications. The world is
  the position in the only file, which has three bytes.
\<close>

definition afc_demo :: "nat afc" where
  "afc_demo = \<lparr>
     a_deviceList = \<lambda>w. ([''d''], w), a_newDevice = \<lambda>i w. (True, w), a_lockdown = \<lambda>i w. (LOCKDOWN_E_SUCCESS, w),
     a_deviceName = \<lambda>i w. (Some ''Phone'', w), a_deviceClass = \<lambda>i w. (Some ''iPhone'', w),
     a_handshake = \<lambda>i w. (LOCKDOWN_E_SUCCESS, w), a_startService = \<lambda>i n w. (LOCKDOWN_E_SUCCESS, w),
     a_newClient = \<lambda>i w. (Inr 0, w), a_houseClient = \<lambda>i w. (HOUSE_ARREST_E_SUCCESS, w),
     a_houseCommand = \<lambda>i a w. (HOUSE_ARREST_E_SUCCESS, w), a_houseResult = \<lambda>i a w. (Inr None, w),
     a_houseAfc = \<lambda>i a w. (Inr (if a = ''one'' then 1 else 2), w), a_houseFree = \<lambda>i w. w,
     a_info = \<lambda>c p w. (if c = 1 \<and> p = ''/f'' then (AFC_E_SUCCESS, Some [(''st_size'', ''3''), (''st_ifmt'', ''S_IFREG'')])
       else (AFC_E_OBJECT_NOT_FOUND, None), w),
     a_readDir = \<lambda>c p w. ((AFC_E_SUCCESS, Some [''f'']), w),
     a_remove = \<lambda>c p w. (AFC_E_SUCCESS, w), a_removeAll = \<lambda>c p w. (AFC_E_SUCCESS, w),
     a_rename = \<lambda>c p q w. (AFC_E_SUCCESS, w), a_link = \<lambda>c p q w. (AFC_E_OP_NOT_SUPPORTED, w),
     a_makeDir = \<lambda>c p w. (AFC_E_SUCCESS, w), a_setTime = \<lambda>c p t w. (AFC_E_SUCCESS, w),
     a_open = \<lambda>c p m w. ((AFC_E_SUCCESS, 7), w), a_seek = \<lambda>c h n w. (AFC_E_SUCCESS, unat n),
     a_truncate = \<lambda>c h n w. (AFC_E_SUCCESS, w), a_write = \<lambda>c h d w. ((AFC_E_SUCCESS, word_of_nat (length d)), w),
     a_read = \<lambda>c h n w. ((AFC_E_SUCCESS, take (unat n) (drop w [1, 2, 3])), w + length (take (unat n) (drop w [1, 2, 3 :: byte]))),
     a_close = \<lambda>c h w. (AFC_E_SUCCESS, w), a_deviceInfo = \<lambda>c w. ((AFC_E_SUCCESS, []), w),
     a_instClient = \<lambda>i w. (INSTPROXY_E_SUCCESS, w), a_browse = \<lambda>i w. ((INSTPROXY_E_SUCCESS, []), w),
     a_springBoard = \<lambda>i w. (SBSERVICES_E_SUCCESS, w), a_icon = \<lambda>i b w. ((SBSERVICES_E_SUCCESS, None), w),
     b_exists = \<lambda>p w. (False, w), b_mkpath = \<lambda>p w. (True, w), b_openWrite = \<lambda>p w. (True, w), b_commit = \<lambda>p d w. (True, w),
     b_readData = \<lambda>w. ((0, []), w), b_wasKilled = \<lambda>w. (False, w),
     t_cacheDir = ''/c'', t_mimeType = \<lambda>n d. ''text/plain'', t_displayText = path, t_number = \<lambda>n. ''1'', t_modified = None\<rparr>"

definition afc_phone :: afc_device where
  "afc_phone = \<lparr>dv_id = ''d'', dv_name = ''Phone'', dv_class = ''iPhone'', dv_handshake = True, dv_apps = Map.empty, dv_last = None\<rparr>"

definition afc_start :: "nat afcs" where
  "afc_start = \<lparr>world = 0, trace = [], m_devices = [(''D'', afc_phone)], m_openFile = None\<rparr>"

definition afc_at :: "string \<Rightarrow> qurl" where
  "afc_at p = empty_qurl\<lparr>scheme := ''afc'', host := ''d'', path := p\<rparr>"

definition afc_flags :: job_flags where
  "afc_flags = \<lparr>fl_overwrite = False, fl_resume = False\<rparr>"

lemma afc_demo_calls:
  "a_info afc_demo = (\<lambda>c p w. (if c = 1 \<and> p = ''/f'' then (AFC_E_SUCCESS, Some [(''st_size'', ''3''), (''st_ifmt'', ''S_IFREG'')])
       else (AFC_E_OBJECT_NOT_FOUND, None), w))"
  "a_open afc_demo = (\<lambda>c p m w. ((AFC_E_SUCCESS, 7), w))"
  "a_read afc_demo = (\<lambda>c h n w. ((AFC_E_SUCCESS, take (unat n) (drop w [1, 2, 3])), w + length (take (unat n) (drop w [1, 2, 3 :: byte]))))"
  "a_seek afc_demo = (\<lambda>c h n w. (AFC_E_SUCCESS, unat n))"
  "a_write afc_demo = (\<lambda>c h d w. ((AFC_E_SUCCESS, word_of_nat (length d)), w))"
  "a_close afc_demo = (\<lambda>c h w. (AFC_E_SUCCESS, w))"
  "a_setTime afc_demo = (\<lambda>c p t w. (AFC_E_SUCCESS, w))"
  "b_wasKilled afc_demo = (\<lambda>w. (False, w))"
  by (simp_all add: afc_demo_def)
lemma demo_mode: "fileMode ReadOnly = Some AFC_FOPEN_RDONLY" "fileMode WriteOnly = Some AFC_FOPEN_WRONLY"
  by code_simp+

definition demo_c :: afc_client where "demo_c = \<lparr>cl_app = ''one'', cl_no = 1\<rparr>"

definition demo_f :: "string \<Rightarrow> afc_file" where
  "demo_f p = \<lparr>af_client = demo_c, af_device = ''D'', af_path = p, af_handle = 7\<rparr>"

definition demo_e :: uds where "demo_e = [UDS_NAME ''f'', UDS_SIZE 3, UDS_FILE_TYPE S_IFREG]"

lemma demo_sel [simp]: "cl_no demo_c = 1" "cl_app demo_c = ''one''" "af_client (demo_f p) = demo_c"
  "af_handle (demo_f p) = 7" "af_path (demo_f p) = p" "sizeOf demo_e = 3"
  by (simp_all add: demo_c_def demo_f_def sizeOf_def demo_e_def)

lemma run_demo_entry:
  "run_state (clientEntry afc_demo demo_c ''/f'') u = ((Pass, demo_e), u\<lparr>trace := trace u @ [AInfo 1 ''/f'' AFC_E_SUCCESS]\<rparr>)"
  "run_state (clientEntry afc_demo demo_c ''/g'') u
     = ((Fail ERR_DOES_NOT_EXIST ''/g'', []), u\<lparr>trace := trace u @ [AInfo 1 ''/g'' AFC_E_OBJECT_NOT_FOUND]\<rparr>)"
proof -
  have "infoEntry ''one'' ''/f'' (fold collect [(''st_size'', ''3''), (''st_ifmt'', ''S_IFREG'')] no_info)
      = [UDS_NAME ''f'', UDS_SIZE 3, UDS_FILE_TYPE S_IFREG]" by code_simp
  then show "run_state (clientEntry afc_demo demo_c ''/f'') u = ((Pass, demo_e), u\<lparr>trace := trace u @ [AInfo 1 ''/f'' AFC_E_SUCCESS]\<rparr>)"
    by (simp add: clientEntry_def call_def afc_demo_calls from_afc_def Let_def demo_e_def del: fold_simps)
qed (simp add: clientEntry_def call_def afc_demo_calls from_afc_def Let_def)

lemma run_demo_open:
  "run_state (fileOpen afc_demo demo_c ''D'' p ReadOnly) u = (Inr (demo_f p), u\<lparr>trace := trace u @ [AOpen 1 p AFC_FOPEN_RDONLY AFC_E_SUCCESS]\<rparr>)"
  "run_state (fileOpen afc_demo demo_c ''D'' p WriteOnly) u = (Inr (demo_f p), u\<lparr>trace := trace u @ [AOpen 1 p AFC_FOPEN_WRONLY AFC_E_SUCCESS]\<rparr>)"
  by (simp_all add: fileOpen_def demo_mode call_def afc_demo_calls from_afc_def demo_f_def)

lemma run_demo_loop:
  "world u = 0 \<Longrightarrow> \<exists>t es. run_state (copyLoop afc_demo (Suc (Suc n)) (demo_f ''/f'') (demo_f ''/g'') 3 0) u = (Some None, t) \<and>
     trace t = trace u @ es \<and> AWrite 1 7 [1, 2, 3] AFC_E_SUCCESS \<in> set es"
  by (simp add: readerRead_def fileWrite_def call_def tell_def act_def afc_demo_calls from_afc_def Let_def)

text \<open>A copy of the file to a new name in the same place.\<close>

lemma run_demo_copy:
  assumes "world u = 0"
  shows "\<exists>t es. run_state (copyWith afc_demo (Suc (Suc n)) demo_c ''D'' ''/f'' ''/g'' afc_flags) u = (Some Pass, t) \<and>
    trace t = trace u @ es \<and> AWrite 1 7 [1, 2, 3] AFC_E_SUCCESS \<in> set es"
proof -
  define v where "v = u\<lparr>trace := trace u @ [AInfo 1 ''/f'' AFC_E_SUCCESS, AInfo 1 ''/g'' AFC_E_OBJECT_NOT_FOUND,
    AOpen 1 ''/f'' AFC_FOPEN_RDONLY AFC_E_SUCCESS, AOpen 1 ''/g'' AFC_FOPEN_WRONLY AFC_E_SUCCESS, AApp (MsgTotalSize 3)]\<rparr>"
  obtain t es where "run_state (copyLoop afc_demo (Suc (Suc n)) (demo_f ''/f'') (demo_f ''/g'') 3 0) v = (Some None, t)"
      "trace t = trace v @ es" "AWrite 1 7 [1, 2, 3] AFC_E_SUCCESS \<in> set es"
    using run_demo_loop[of v n] assms by (auto simp: v_def)
  then show ?thesis
    by (auto simp: copyWith_def run_demo_entry run_demo_open isThere_def afc_flags_def closing_def copyBody_def tell_def act_def
      call_def v_def fileClose_def clientSetModificationTime_def afc_demo_calls from_afc_def Let_def simp del: copyLoop.simps)
qed

lemma run_demo_client:
  "\<exists>u. run_state (clientForUrl afc_demo (afc_at ''/@apps/one/f'')) afc_start = (Inr demo_c, u) \<and> world u = 0 \<and>
     list_all (\<lambda>e. case e of AApp (MsgData d) \<Rightarrow> False | _ \<Rightarrow> True) (trace u)"
proof -
  have "AfcUrl (afc_at ''/@apps/one/f'') = \<lparr>au_mode = BrowseApps, au_device = ''D'', au_appId = ''one'', au_path = ''/f''\<rparr>"
    by code_simp
  then show ?thesis
    by (simp add: clientForUrl_def deviceForUrl_def afc_start_def onDevice_def deviceClient_def handshake_def afc_phone_def
      clientInit_def startService_def houseClient_def call_def set_dev_def State_Monad.update_def Let_def afc_demo_def demo_c_def)
qed

end
