(* ===== verification/AfcFacts.thy ===== *)
theory AfcFacts
  imports AfcDemo
begin

text \<open>
  What the AFC worker does: URLs of applications, which bytes a \<open>get\<close> delivers and when it ends, which
  client the calls of a copy go to.
\<close>

section \<open>URLs\<close>

lemma take_eq_slash: "take (Suc 0) p = ''/'' \<Longrightarrow> (\<And>r. p = CHR ''/'' # r \<Longrightarrow> R) \<Longrightarrow> R"
  by (cases p) auto

text \<open>The URL of a path of an application gives the application and the path back.\<close>

lemma AfcUrl_app:
  assumes "scheme url = ''afc''" "CHR ''/'' \<notin> set app" "p = [] \<or> starts_with ''/'' p" "p \<noteq> ''/''"
  shows "AfcUrl (url\<lparr>path := ''/@apps/'' @ app @ p\<rparr>)
    = \<lparr>au_mode = BrowseApps, au_device = toUpper (host url), au_appId = app, au_path = p\<rparr>"
proof -
  have "takeWhile (\<lambda>c. c \<noteq> CHR ''/'') (app @ p) = app" "dropWhile (\<lambda>c. c \<noteq> CHR ''/'') (app @ p) = p"
    using assms(2,3) by (induction app) (auto simp: starts_with_def elim!: take_eq_slash)
  then have "appAndPath (''/'' @ app @ p) = (app, p)" by (simp add: appAndPath_def)
  moreover have "starts_with (appsPrefix @ ''/'') (''/@apps/'' @ app @ p)" "drop (length appsPrefix) (''/@apps/'' @ app @ p) = ''/'' @ app @ p"
    by (simp_all add: appsPrefix_def starts_with_def)
  ultimately show ?thesis using assms(1,4) by (simp add: AfcUrl_def withoutSlash_def)
qed

section \<open>What is read\<close>

text \<open>
  A file that the device holds: each read gives some of the bytes from the position on, at most as many as
  are asked for, and at least one unless the position is at the end.
\<close>

definition gives :: "'w afc \<Rightarrow> afc_file \<Rightarrow> byte list \<Rightarrow> ('w \<Rightarrow> nat) \<Rightarrow> bool" where
  "gives F f content at \<longleftrightarrow>
     (\<forall>n w. \<exists>e d w'. a_read F (cl_no (af_client f)) (af_handle f) n w = ((e, d), w') \<and>
        (e = AFC_E_SUCCESS \<or> e = AFC_E_END_OF_DATA) \<and> d = take (length d) (drop (at w) content) \<and>
        length d \<le> unat n \<and> at w' = at w + length d \<and> (n \<noteq> 0 \<and> at w < length content \<longrightarrow> d \<noteq> [])) \<and>
     (\<forall>w. \<exists>e w'. a_seek F (cl_no (af_client f)) (af_handle f) 0 w = (e, w') \<and> at w' = 0)"

fun sent :: "afc_ev list \<Rightarrow> byte list" where
  "sent [] = []"
| "sent (AApp (MsgData d) # es) = d @ sent es"
| "sent (e # es) = sent es"

lemma afc_sent_append [simp]: "sent (xs @ ys) = sent xs @ sent ys"
  by (induction xs rule: sent.induct) auto

lemma take_length: "take (length (take n xs)) xs = take n xs"
  by (simp add: min_def)

lemma unat_minus:
  fixes x :: u64
  assumes "k \<le> unat x"
  shows "unat (x - word_of_nat k) = unat x - k"
proof -
  have "unat x < 2 ^ 64" by (rule order_less_le_trans[OF unsigned_less]) simp
  then have "k < 2 ^ 64" using assms by simp
  then have "unat (word_of_nat k :: u64) = k" by (simp add: unsigned_of_nat take_bit_nat_eq_self)
  then show ?thesis using assms by (simp add: unat_sub word_le_nat_alt)
qed

lemma run_readerRead:
  assumes "gives F f content at" "remaining \<noteq> 0"
  shows "\<exists>d w e. run_state (readerRead F f remaining) s = ((Pass, d, remaining - word_of_nat (length d)),
      s\<lparr>world := w, trace := trace s @ [ARead (cl_no (af_client f)) (af_handle f) e d]\<rparr>) \<and>
    d = take (length d) (drop (at (world s)) content) \<and> at w = at (world s) + length d \<and> length d \<le> unat remaining \<and>
    (at (world s) < length content \<longrightarrow> d \<noteq> [])"
proof -
  let ?n = "min remaining 0x7FFFFFFF"
  have "?n \<noteq> 0" "unat ?n \<le> unat remaining" using assms(2) by (auto simp: min_def word_le_nat_alt)
  moreover obtain e d w where "a_read F (cl_no (af_client f)) (af_handle f) ?n (world s) = ((e, d), w)"
      "e = AFC_E_SUCCESS \<or> e = AFC_E_END_OF_DATA" "d = take (length d) (drop (at (world s)) content)"
      "length d \<le> unat ?n" "at w = at (world s) + length d" "?n \<noteq> 0 \<and> at (world s) < length content \<longrightarrow> d \<noteq> []"
    using assms(1) unfolding gives_def by meson
  ultimately show ?thesis using assms(2)
    by (intro exI[of _ d] exI[of _ w] exI[of _ e]) (auto simp: readerRead_def call_def Let_def)
qed

lemma readAll_delivers:
  assumes "gives F f content at"
  shows "unat remaining < n \<Longrightarrow> at (world s) + unat remaining \<le> length content \<Longrightarrow>
    \<exists>t es. run_state (readAll F n f remaining) s = (Some Pass, t) \<and> trace t = trace s @ es \<and>
      sent es = take (unat remaining) (drop (at (world s)) content)"
proof (induction n arbitrary: remaining s)
  case (Suc n)
  show ?case
  proof (cases "remaining = 0")
    case False
    from run_readerRead[OF assms False, of s] obtain d w e where
        r: "run_state (readerRead F f remaining) s = ((Pass, d, remaining - word_of_nat (length d)),
          s\<lparr>world := w, trace := trace s @ [ARead (cl_no (af_client f)) (af_handle f) e d]\<rparr>)"
        and d: "d = take (length d) (drop (at (world s)) content)" "at w = at (world s) + length d"
          "length d \<le> unat remaining" "at (world s) < length content \<longrightarrow> d \<noteq> []" by blast
    have left: "unat (remaining - word_of_nat (length d)) = unat remaining - length d" by (rule unat_minus[OF d(3)])
    have "0 < unat remaining" using False by (simp add: unat_gt_0)
    then have "d \<noteq> []" using d(4) Suc.prems(2) by simp
    then have less: "unat remaining - length d < n" using Suc.prems(1) d(3) by (cases d) auto
    define u where "u = s\<lparr>world := w, trace := trace s @ [ARead (cl_no (af_client f)) (af_handle f) e d, AApp (MsgData d)]\<rparr>"
    have "at (world u) + (unat remaining - length d) \<le> length content" using Suc.prems(2) d(2,3) by (simp add: u_def)
    from Suc.IH[of "remaining - word_of_nat (length d)" u] less this left obtain t es where
        t: "run_state (readAll F n f (remaining - word_of_nat (length d))) u = (Some Pass, t)" "trace t = trace u @ es"
          "sent es = take (unat remaining - length d) (drop (at (world u)) content)" by auto
    have "take (unat remaining) (drop (at (world s)) content) = take (length d) (drop (at (world s)) content)
        @ take (unat remaining - length d) (drop (length d) (drop (at (world s)) content))"
      by (subst take_add[symmetric]) (use d(3) in simp)
    also have "\<dots> = d @ sent es" using d(1,2) t(3) by (simp add: u_def add.commute)
    finally have "take (unat remaining) (drop (at (world s)) content) = d @ sent es" .
    then show ?thesis using r t False
      by (intro exI[of _ t]) (auto simp: tell_def act_def call_def u_def)
  qed auto
qed simp

text \<open>A file that is shorter than it was said to be is read for ever.\<close>

lemma readAll_starves:
  assumes "gives F f content at"
  shows "length content < at (world s) + unat remaining \<Longrightarrow> at (world s) \<le> length content \<Longrightarrow>
    fst (run_state (readAll F n f remaining) s) = None"
proof (induction n arbitrary: remaining s)
  case (Suc n)
  have "remaining \<noteq> 0" using Suc.prems by auto
  from run_readerRead[OF assms this, of s] obtain d w e where
      r: "run_state (readerRead F f remaining) s = ((Pass, d, remaining - word_of_nat (length d)),
        s\<lparr>world := w, trace := trace s @ [ARead (cl_no (af_client f)) (af_handle f) e d]\<rparr>)"
      and d: "d = take (length d) (drop (at (world s)) content)" "at w = at (world s) + length d"
        "length d \<le> unat remaining" by blast
  have len: "length d \<le> length content - at (world s)" using d(1) by (metis length_drop length_take min.cobounded2 min.cobounded1 nat_le_linear take_all)
  let ?u = "s\<lparr>world := w, trace := trace s @ [ARead (cl_no (af_client f)) (af_handle f) e d, AApp (MsgData d)]\<rparr>"
  have "fst (run_state (readAll F n f (remaining - word_of_nat (length d))) ?u) = None"
    by (rule Suc.IH) (use Suc.prems d(2,3) len in \<open>simp_all add: unat_minus[OF d(3)]\<close>)
  then show ?case using r \<open>remaining \<noteq> 0\<close> by (simp add: tell_def act_def call_def)
qed simp

lemma guess_keeps:
  assumes "gives F f content at"
  shows "\<exists>t es. run_state (guessMimeType F f p) s = ((), t) \<and> trace t = trace s @ es \<and> sent es = [] \<and> at (world t) = 0"
proof -
  obtain d w e where r: "run_state (readerRead F f 1024) s = ((Pass, d, 1024 - word_of_nat (length d)),
      s\<lparr>world := w, trace := trace s @ [ARead (cl_no (af_client f)) (af_handle f) e d]\<rparr>)"
    using run_readerRead[OF assms, of 1024 s] by auto
  obtain e' w' where "a_seek F (cl_no (af_client f)) (af_handle f) 0 w = (e', w')" "at w' = 0"
    using assms unfolding gives_def by meson
  then show ?thesis using r by (auto simp: guessMimeType_def tell_def act_def call_def fileSeek_def)
qed

text \<open>
  C39. A \<open>get\<close> of a file whose size the device told returns, with the bytes of the file in order, when the
  file still has that many bytes. When it has become shorter the handler reads on at its end for ever.
\<close>

theorem afc_get_returns_iff_complete:
  assumes "run_state (clientForUrl F url) s = (Inr c, s1)"
    "run_state (clientEntry F c (au_path (AfcUrl url))) s1 = ((Pass, e), s2)"
    "run_state (fileOpen F c (au_device (AfcUrl url)) (au_path (AfcUrl url)) ReadOnly) s2 = (Inr f, s3)"
    "gives F f content at"
  shows "if unat (sizeOf e) \<le> length content
    then \<exists>t es. run_state (afcGet F (unat (sizeOf e) + 1) url) s = (Some Pass, t) \<and> trace t = trace s3 @ es \<and>
      sent es = take (unat (sizeOf e)) content
    else fst (run_state (afcGet F n url) s) = None"
proof -
  define u where "u = s3\<lparr>trace := trace s3 @ [AApp (MsgTotalSize (sizeOf e))]\<rparr>"
  obtain v es0 where v: "run_state (guessMimeType F f (au_path (AfcUrl url))) u = ((), v)" "trace v = trace u @ es0"
      "sent es0 = []" "at (world v) = 0"
    using guess_keeps[OF assms(4)] by blast
  define w where "w = v\<lparr>trace := trace v @ [AApp (MsgPosition 0)]\<rparr>"
  have at: "at (world w) = 0" using v(4) by (simp add: w_def)
  have run: "run_state (afcGet F m url) s = (case run_state (readAll F m f (sizeOf e)) w of (a, t) \<Rightarrow>
      (a, snd (run_state (fileClose F f) t)))" for m
    using assms(1-3) v(1)
    by (simp add: afcGet_def Let_def closing_def tell_def act_def call_def u_def w_def split: prod.split)
  have close: "\<exists>es. trace (snd (run_state (fileClose F f) t)) = trace t @ es \<and> sent es = []" for t :: "'a afcs"
    by (simp add: fileClose_def call_def split: prod.split)
  show ?thesis
  proof (cases "unat (sizeOf e) \<le> length content")
    case True
    then obtain t es where t: "run_state (readAll F (unat (sizeOf e) + 1) f (sizeOf e)) w = (Some Pass, t)"
        "trace t = trace w @ es" "sent es = take (unat (sizeOf e)) content"
      using readAll_delivers[OF assms(4), of "sizeOf e" "unat (sizeOf e) + 1" w] at by auto
    obtain es1 where "trace (snd (run_state (fileClose F f) t)) = trace t @ es1" "sent es1 = []" using close by blast
    then show ?thesis using True run t v(2,3) by (simp add: u_def w_def)
  next
    case False
    then have "fst (run_state (readAll F n f (sizeOf e)) w) = None"
      using readAll_starves[OF assms(4), of w "sizeOf e" n] at by simp
    then show ?thesis using False run by (auto split: prod.split)
  qed
qed

theorem afc_get_returns_iff_complete_witness:
  "\<exists>t. run_state (afcGet afc_demo 4 (afc_at ''/@apps/one/f'')) afc_start = (Some Pass, t) \<and> sent (trace t) = [1, 2, 3]"
proof -
  let ?url = "afc_at ''/@apps/one/f''"
  have u: "AfcUrl ?url = \<lparr>au_mode = BrowseApps, au_device = ''D'', au_appId = ''one'', au_path = ''/f''\<rparr>"
    by code_simp
  obtain s1 where s1: "run_state (clientForUrl afc_demo ?url) afc_start = (Inr demo_c, s1)"
      "list_all (\<lambda>e. case e of AApp (MsgData d) \<Rightarrow> False | _ \<Rightarrow> True) (trace s1)" using run_demo_client by blast
  have "sent es = []" if "list_all (\<lambda>e. case e of AApp (MsgData d) \<Rightarrow> False | _ \<Rightarrow> True) es" for es
    using that by (induction es rule: sent.induct) auto
  then have none: "sent (trace s1) = []" using s1(2) by blast
  obtain s2 where e: "run_state (clientEntry afc_demo demo_c ''/f'') s1 = ((Pass, demo_e), s2)"
      "trace s2 = trace s1 @ [AInfo 1 ''/f'' AFC_E_SUCCESS]" by (simp add: run_demo_entry)
  obtain s3 where f: "run_state (fileOpen afc_demo demo_c ''D'' ''/f'' ReadOnly) s2 = (Inr (demo_f ''/f''), s3)"
      "trace s3 = trace s2 @ [AOpen 1 ''/f'' AFC_FOPEN_RDONLY AFC_E_SUCCESS]" by (simp add: run_demo_open)
  have g: "gives afc_demo (demo_f ''/f'') [1, 2, 3] (\<lambda>w. w)"
    unfolding gives_def
  proof (intro conjI allI)
    fix n :: u64 and w :: nat
    let ?d = "take (unat n) (drop w [1, 2, 3 :: byte])"
    have "?d = take (length ?d) (drop w [1, 2, 3 :: byte])" by (simp only: take_length)
    then show "\<exists>e d w'. a_read afc_demo (cl_no (af_client (demo_f ''/f''))) (af_handle (demo_f ''/f'')) n w = ((e, d), w') \<and>
        (e = AFC_E_SUCCESS \<or> e = AFC_E_END_OF_DATA) \<and> d = take (length d) (drop w [1, 2, 3]) \<and> length d \<le> unat n \<and>
        w' = w + length d \<and> (n \<noteq> 0 \<and> w < length [1, 2, 3 :: byte] \<longrightarrow> d \<noteq> [])"
      by (intro exI[of _ AFC_E_SUCCESS] exI[of _ ?d] exI[of _ "w + length ?d"]) (auto simp: afc_demo_calls unat_gt_0)
  qed (simp add: afc_demo_calls)
  from afc_get_returns_iff_complete[of afc_demo ?url afc_start demo_c s1 demo_e s2 "demo_f ''/f''" s3 "[1, 2, 3]" "\<lambda>w. w" 0]
  show ?thesis using s1 e f g none by (auto simp: u)
qed

section \<open>The client of a copy\<close>

text \<open>The client that a call on files goes to.\<close>

fun calledClient :: "afc_ev \<Rightarrow> nat option" where
  "calledClient (AInfo c p e) = Some c"
| "calledClient (AReadDir c p e) = Some c"
| "calledClient (ARemove c p e) = Some c"
| "calledClient (ARemoveAll c p e) = Some c"
| "calledClient (ARename c p q e) = Some c"
| "calledClient (ALink c p q e) = Some c"
| "calledClient (AMakeDir c p e) = Some c"
| "calledClient (ASetTime c p t e) = Some c"
| "calledClient (AOpen c p m e) = Some c"
| "calledClient (ASeek c h n e) = Some c"
| "calledClient (ATruncate c h n e) = Some c"
| "calledClient (AWrite c h d e) = Some c"
| "calledClient (ARead c h e d) = Some c"
| "calledClient (AClose c h e) = Some c"
| "calledClient (ADeviceInfo c e) = Some c"
| "calledClient _ = None"

definition only :: "nat \<Rightarrow> afc_ev \<Rightarrow> bool" where
  "only c e \<longleftrightarrow> (case calledClient e of None \<Rightarrow> True | Some d \<Rightarrow> d = c)"

lemma only_app [simp]: "only c (AApp m)"
  by (simp add: only_def)

lemma client_calls_only:
  "state_io_rel (did (only (cl_no c))) (clientEntry F c p)"
  "state_io_rel (did (only (cl_no c))) (clientDel F c p)"
  "state_io_rel (did (only (cl_no c))) (clientSetModificationTime F c p m)"
  by (auto simp: clientEntry_def clientDel_def clientSetModificationTime_def Let_def only_def
      intro!: rel_intros did_call split: prod.splits option.splits)

lemma file_calls_only:
  assumes "af_client f = c"
  shows "state_io_rel (did (only (cl_no c))) (fileSeek F f n)"
    "state_io_rel (did (only (cl_no c))) (fileWrite F f d)"
    "state_io_rel (did (only (cl_no c))) (fileClose F f)"
    "state_io_rel (did (only (cl_no c))) (readerRead F f r)"
  using assms
  by (auto simp: fileSeek_def fileWrite_def fileClose_def readerRead_def Let_def only_def
      intro!: rel_intros did_call split: prod.splits)

lemma closing_only:
  "af_client f = c \<Longrightarrow> state_io_rel (did (only (cl_no c))) m \<Longrightarrow> state_io_rel (did (only (cl_no c))) (closing F f m)"
  unfolding closing_def by (auto intro!: rel_intros file_calls_only)

lemma fileOpen_then:
  assumes "\<And>e. state_io_rel (did (only (cl_no c))) (k (Inl e))"
    "\<And>f. af_client f = c \<Longrightarrow> af_path f = p \<Longrightarrow> state_io_rel (did (only (cl_no c))) (k (Inr f))"
  shows "state_io_rel (did (only (cl_no c))) (State_Monad.bind (fileOpen F c device p mode) k)"
proof -
  have "state_io_rel (did (only (cl_no c))) (State_Monad.bind (call (a_open F (cl_no c) p m) (\<lambda>a. AOpen (cl_no c) p m (fst a)))
      (\<lambda>x. k (case x of (e, h) \<Rightarrow> let r = from_afc (t_number F) e [] in
        if success r then Inr \<lparr>af_client = c, af_device = device, af_path = p, af_handle = h\<rparr> else Inl r)))" for m
    using assms by (auto simp: Let_def only_def intro!: rel_intros did_call split: prod.splits)
  then show ?thesis using assms(1)
    by (auto simp: fileOpen_def Let_def case_prod_beta split: option.splits)
qed

lemma copyLoop_only:
  assumes "af_client f = c" "af_client g = c"
  shows "state_io_rel (did (only (cl_no c))) (copyLoop F n f g r k)"
proof (induction n arbitrary: r k)
  case (Suc n)
  then show ?case using file_calls_only[OF assms(1)] file_calls_only[OF assms(2)]
    by (auto intro!: rel_intros did_call did_tell split: prod.splits)
qed (simp add: rel_return reflp_did)

lemma copyBody_only:
  "af_client f = c \<Longrightarrow> af_client g = c \<Longrightarrow> state_io_rel (did (only (cl_no c))) (copyBody F n c f g e)"
  unfolding copyBody_def
  by (auto intro!: rel_intros did_tell client_calls_only copyLoop_only file_calls_only(3) split: option.splits)

lemma copyWith_only: "state_io_rel (did (only (cl_no c))) (copyWith F n c device src dest flags)"
proof -
  have second: "state_io_rel (did (only (cl_no c))) (do {
      g \<leftarrow> fileOpen F c device dest mode;
      case g of Inl x \<Rightarrow> ret (Some x) | Inr g \<Rightarrow> copyBody F n c f g e })" if "af_client f = c" for f e mode
    by (rule fileOpen_then) (simp_all add: rel_return reflp_did copyBody_only that)
  have first: "state_io_rel (did (only (cl_no c))) (do {
      f \<leftarrow> fileOpen F c device src ReadOnly;
      case f of
        Inl x \<Rightarrow> ret (Some x)
      | Inr f \<Rightarrow> closing F f (do {
          g \<leftarrow> fileOpen F c device dest mode;
          case g of Inl x \<Rightarrow> ret (Some x) | Inr g \<Rightarrow> copyBody F n c f g e
        }) })" for e mode
    by (rule fileOpen_then) (simp_all add: rel_return reflp_did closing_only second)
  have rest: "state_io_rel (did (only (cl_no c))) (do {
      (d, de) \<leftarrow> clientEntry F c dest;
      if isThere d \<and> \<not> fl_overwrite flags then ret (Some (alreadyThere de dest))
      else do {
        f \<leftarrow> fileOpen F c device src ReadOnly;
        case f of
          Inl x \<Rightarrow> ret (Some x)
        | Inr f \<Rightarrow> closing F f (do {
            g \<leftarrow> fileOpen F c device dest mode;
            case g of Inl x \<Rightarrow> ret (Some x) | Inr g \<Rightarrow> copyBody F n c f g e
          })
      } })" for e mode
    by (rule rel_bind[OF transp_did client_calls_only(1)]) (simp add: rel_return reflp_did first split: prod.split)
  show ?thesis unfolding copyWith_def
    by (rule rel_bind[OF transp_did client_calls_only(1)])
       (simp add: rel_return reflp_did rest split: prod.split split del: if_split, simp add: rel_return reflp_did rest)
qed

text \<open>The client that is found is that of the application of the URL.\<close>

lemma clientInit_app: "run_state (clientInit F app) s = (Inr c, t) \<Longrightarrow> cl_app c = app"
  by (auto simp: clientInit_def houseClient_def giveUpHouse_def startService_def call_def act_def Let_def
      split: prod.splits sum.splits option.splits if_splits)

lemma deviceClient_app: "run_state (deviceClient F app) s = (Inr c, t) \<Longrightarrow> cl_app c = app"
  by (auto simp: deviceClient_def set_dev_def State_Monad.update_def dest: clientInit_app
      split: prod.splits sum.splits option.splits if_splits)

lemma clientForUrl_app: "run_state (clientForUrl F url) s = (Inr c, t) \<Longrightarrow> cl_app c = au_appId (AfcUrl url)"
  by (auto simp: clientForUrl_def onDevice_def dest: deviceClient_app split: prod.splits option.splits)

text \<open>
  C40. Every call that a copy on a device makes for its files, those for the destination among them, goes to
  the client of the application of the source, whatever application the destination names: a copy from
  one application to another reads, overwrites and deletes in the folder of the source alone.
\<close>

theorem copy_stays_in_source_app:
  assumes "run_state (clientForUrl F src) s = (Inr c, u)" "run_state (afcCopy F n src dest flags) s = (r, t)"
    "au_device (AfcUrl src) = au_device (AfcUrl dest)"
  shows "cl_app c = au_appId (AfcUrl src) \<and>
    (\<exists>es. trace t = trace u @ es \<and> list_all (\<lambda>e. calledClient e = None \<or> calledClient e = Some (cl_no c)) es)"
proof -
  have "run_state (copyWith F n c (au_device (AfcUrl src)) (au_path (AfcUrl src)) (au_path (AfcUrl dest)) flags) u = (r, t)"
    using assms by (simp add: afcCopy_def Let_def)
  from did_run[OF copyWith_only this] obtain es where "trace t = trace u @ es" "list_all (only (cl_no c)) es" by blast
  moreover from this(2) have "list_all (\<lambda>e. calledClient e = None \<or> calledClient e = Some (cl_no c)) es"
    by (rule list.pred_mono_strong) (auto simp: only_def split: option.splits)
  ultimately show ?thesis using clientForUrl_app[OF assms(1)] by blast
qed

theorem copy_stays_in_source_app_witness:
  "\<exists>t u es. run_state (clientForUrl afc_demo (afc_at ''/@apps/one/f'')) afc_start = (Inr demo_c, u) \<and>
     run_state (afcCopy afc_demo 5 (afc_at ''/@apps/one/f'') (afc_at ''/@apps/two/g'') afc_flags) afc_start = (Some Pass, t) \<and>
     trace t = trace u @ es \<and> AWrite 1 7 [1, 2, 3] AFC_E_SUCCESS \<in> set es \<and>
     list_all (\<lambda>e. calledClient e = None \<or> calledClient e = Some 1) es"
proof -
  have url: "AfcUrl (afc_at ''/@apps/one/f'') = \<lparr>au_mode = BrowseApps, au_device = ''D'', au_appId = ''one'', au_path = ''/f''\<rparr>"
    "AfcUrl (afc_at ''/@apps/two/g'') = \<lparr>au_mode = BrowseApps, au_device = ''D'', au_appId = ''two'', au_path = ''/g''\<rparr>"
    by code_simp+
  obtain u where u: "run_state (clientForUrl afc_demo (afc_at ''/@apps/one/f'')) afc_start = (Inr demo_c, u)" "world u = 0"
    using run_demo_client by blast
  obtain t es where t: "run_state (copyWith afc_demo (Suc (Suc 3)) demo_c ''D'' ''/f'' ''/g'' afc_flags) u = (Some Pass, t)"
      "trace t = trace u @ es" "AWrite 1 7 [1, 2, 3] AFC_E_SUCCESS \<in> set es" using run_demo_copy[OF u(2)] by blast
  then have run: "run_state (afcCopy afc_demo 5 (afc_at ''/@apps/one/f'') (afc_at ''/@apps/two/g'') afc_flags) afc_start = (Some Pass, t)"
    using u(1) by (simp add: afcCopy_def url Let_def eval_nat_numeral)
  from copy_stays_in_source_app[OF u(1) run] show ?thesis using t u(1) run by (auto simp: url)
qed

end
