(* ===== verification/Spec2Isabelle.thy ===== *)
theory Spec2Isabelle
  imports SmbDir SmbAuth SmbDiscover FishFacts SftpFacts NfsDirFacts
    ArchiveFacts MtpFacts AfcFacts
begin

text \<open>
  A verification development of kio-extras, the collection of KIO workers of KDE. A worker is a
  process that answers the requests of an application (list, get, put, copy, ...) for one scheme.

  Theories, and what they model:
  \<^item> \<open>Prelude\<close>, \<open>Kio\<close>: shared lemmas, the state monad with its weakest preconditions, error codes
    and results of a worker.
  \<^item> \<open>SmbTransfer\<close> (smb/transfer.h, smb/transfer.cpp): segment size, the ring of four segments, and
    the two threads of \<open>get\<close> and \<open>smbCopyGet\<close> as an interleaving of steps.
  \<^item> \<open>SmbUrl\<close> (smb/smburl.h, smb/smburl.cpp): the class \<open>SMBUrl\<close> with its caches.
  \<^item> \<open>SmbWorld\<close> (smb/kio_smb.h): the state of an \<open>SMBWorker\<close>, the calls to libsmbclient and the
    messages to the application, the mapping of error numbers.
  \<^item> \<open>SmbBrowse\<close> (smb/kio_smb_browse.cpp, smb/kio_smb_auth.cpp): \<open>checkURL\<close>, \<open>stat\<close>, \<open>listDir\<close>, free
    space, the password dialog.
  \<^item> \<open>SmbDiscover\<close> (smb/smbcdiscoverer.cpp, smb/dnssddiscoverer.cpp, smb/wsdiscoverer.cpp): the discoverers
    that feed a listing, and what a listing shows.
  \<^item> \<open>SmbAuth\<close> (smb/smbauthenticator.cpp): the authentication callback.
  \<^item> \<open>SmbResume\<close> (smb/transfer_resume.h): the resume logic and the two kinds of files behind it.
  \<^item> \<open>SmbFile\<close> (smb/kio_smb_file.cpp) and \<open>SmbDir\<close> (smb/kio_smb_dir.cpp): the handlers.
  \<^item> \<open>FishCommands\<close>, \<open>FishWorker\<close> (fish/fish.h, fish/fish.cpp): the table of commands and their text; the
    members, the reaction to each line and byte of the server, login, event loops, handlers.
  \<^item> \<open>FishFacts\<close>: the invariant of the queues, failing answers, delivery of files, permissions.
  \<^item> \<open>FishDemo\<close>: a concrete instance for the witnesses of FISH.
  \<^item> \<open>QtUrl\<close>: the operations of \<open>QUrl\<close> the workers share.
  \<^item> \<open>SftpWorld\<close>, \<open>SftpAuth\<close>, \<open>SftpRead\<close>, \<open>SftpWrite\<close>, \<open>SftpJob\<close>, \<open>SftpDir\<close> (sftp/kio_sftp.h,
    sftp/kio_sftp.cpp): the members of an \<open>SFTPWorker\<close> and the calls to libssh; opening a connection
    with its host key and its ways of authentication; \<open>sftpGet\<close> with its queue of requests;
    \<open>sftpPut\<close>; the copies to and from local files and the open file of a file job; the
    handlers of directories and of single entries.
  \<^item> \<open>SftpAuthFacts\<close>, \<open>SftpGetFacts\<close>, \<open>SftpPutFacts\<close>, \<open>SftpFacts\<close>: that no secret is sent before the
    key of the host has been accepted, delivery of files, what an upload stores and what it keeps
    of what was there, which errors are lost on the way; \<open>SftpDemo\<close>: a concrete instance for
    their witnesses.
  \<^item> \<open>Calls\<close>: what the workers for SFTP and NFS share, the world with its log and the relations
    between the states before and after a handler.
  \<^item> \<open>NfsWorld\<close>, \<open>NfsLookup\<close>, \<open>NfsDir\<close>, \<open>NfsFile\<close>, \<open>NfsCopy\<close>, \<open>NfsWorker\<close> (nfs/kio_nfs.h, nfs/kio_nfs.cpp,
    nfs/nfsv3.h, nfs/nfsv3.cpp): file handles and the calls to a server; exported directories, the
    cache and the resolution of a path through its directories and links; listings and entries;
    names and the transfer of files; the three forms of a copy; connections, mounting, the choice of
    a version and the entry points, one constructor of \<open>nfs_request\<close> for each.
  \<^item> \<open>NfsBasics\<close>, \<open>NfsLookupFacts\<close>, \<open>NfsHandles\<close>, \<open>NfsState\<close>, \<open>NfsFileFacts\<close>, \<open>NfsCopyFacts\<close>, \<open>NfsDirFacts\<close>: when a
    lookup returns, that every handle the worker sends came from the server, that the state stays
    well-formed, what reads and writes transfer, what is left alone without Overwrite, and where
    the code loops or loses data; \<open>NfsDemo\<close>: a concrete instance for their witnesses.
  \<^item> \<open>KioMessages\<close>: what a worker says to its application, for the workers that follow.
  \<^item> \<open>Archive\<close> (archive/kio_archivebase.h, archive/kio_archivebase.cpp, archive/kio_archive.cpp): the search for
    the archive in a path, the archive that stays open, \<open>listDir\<close>, \<open>stat\<close>, \<open>get\<close>; KArchive is the record \<open>arc\<close>.
    \<open>ArchiveFacts\<close>: that the open archive cannot be told from a fresh search, what \<open>get\<close> delivers, and
    how sizes are summed; \<open>ArchiveDemo\<close>: a concrete archive.
  \<^item> \<open>MtpStorage\<close> (mtp/kiod_module/mtpstorage.h, mtpstorage.cpp, mtpfile.h, mtplister.cpp, mtp/shared/kmtpfile.h):
    files of a device, the cache of paths and the search for a file, the operations of a storage. \<open>MtpWorker\<close>
    (mtp/kio_mtp.cpp, mtp/shared, mtp/kiod_module/kmtpd.cpp, mtpdevice.cpp): the devices of the daemon and the
    requests of the worker. libmtp, the clock and local files are the record \<open>mtp\<close>; a call over D-Bus is a
    call, and a transfer that the daemon puts off to its event loop runs when the worker waits for it.
    \<open>MtpFacts\<close>: that the search with its cache is a walk through the tree of the device, and that
    nothing is replaced without Overwrite; \<open>MtpDemo\<close>: a concrete device.
  \<^item> \<open>AfcClient\<close> (afc/afcurl.cpp, afcutils.cpp, afcclient.cpp, afcfile.cpp, afcfilereader.cpp, afcdiskusage.cpp), \<open>AfcDevice\<close>
    (afc/afcdevice.cpp, afcapp.cpp, afcspringboard.cpp), \<open>AfcWorker\<close> (afc/kio_afc.cpp): URLs, clients and open files
    of Apple devices; the handshake, the applications and their icons; the list of devices and the requests.
    libimobiledevice is the record \<open>afc\<close>. \<open>AfcFacts\<close>: when a \<open>get\<close> ends, and where a copy goes; \<open>AfcDemo\<close>: a
    concrete device.
  \<^item> \<open>SmbDemo\<close>: a concrete server and application on which the witnesses run; not part of the model.

  Parameters. libsmbclient, the application and the local file system are functions of a record
  (\<open>smbc\<close>) on states of their own types, so nothing is assumed about them unless a theorem says
  so; the text functions of Qt are the record \<open>qt\<close>. Every call and every message is kept in a log.

  Fuel. The loops of \<open>put\<close>, \<open>smbCopy\<close> and \<open>smbCopyPut\<close> end when a file or the application ends; they
  have fuel and answer None when it is used up. The property of \<open>put\<close> says how much is enough: one
  more than the number of blocks that are supplied. The threads of \<open>get\<close> and \<open>smbCopyGet\<close> run
  under a schedule, None when they have not both ended under it; a schedule under which they end
  exists whenever the source ends. The loops of SFTP that the user, the server or the supplier
  keeps going have fuel as well; one unit for each byte of the file suffices for \<open>sftpGet\<close> when the
  server accepts requests of at least one byte. In NFS the fuel bounds the depth of the recursion
  through directories and links and the rounds of each loop: the length of the path and two more
  suffices for a lookup that meets no link, one unit for each byte and one more for \<open>get\<close>. \<open>get\<close> of an archive brings its own
  fuel, one more than the size of the file, which always suffices; \<open>put\<close> of MTP needs one unit for each
  block that is supplied and one more, \<open>get\<close> of an Apple device one for each byte and one more.

  Not modelled. The variant of SFTP for a libssh without asynchronous requests, the callback through
  which libssh asks for the passphrase of a key, the generated RPC stubs of NFS, the marshalling of MTP over D-Bus and the
  notifications of its daemon. The search for file names and the interpreter of manual pages (man/man2html.cpp)
  have not been taken up; the thumbnailers, the mounting of SMB shares, the workers for activities, recently
  used files, info pages and filters, and the settings modules are mostly calls of other libraries.
\<close>

end
